(* ===== verification/Prelude.thy ===== *)
theory Prelude
  imports Complex_Main
begin

text \<open>
  Shared ground of the development.  The program is JavaScript, so every component needs the
  same few things: results that are either a thrown error or a value, programs that thread a
  state and may throw, association lists for objects and keyed tables, and the string helpers
  of the language.  They are stated once here, with the simplification collections the
  component theories feed to \<open>simp\<close> and \<open>auto\<close>.

  \<^item> \<open>rbind\<close> sequences two fallible computations of type \<open>'e + 'a\<close>: \<open>Inl\<close> is a thrown value,
    \<open>Inr\<close> a returned one.
  \<^item> \<open>prog\<close> is a state transformer that may throw; the state reached before the throw is kept,
    as it is in JavaScript, where a \<open>throw\<close> does not undo earlier assignments.
  \<^item> \<open>upsert\<close> is the assignment \<open>m[k] = v\<close> (and \<open>Map.prototype.set\<close>): in place for a key that
    is present, at the end for a new one.
\<close>

named_theorems res_simps \<open>unfolding rules of the result and program combinators\<close>
named_theorems res_splits \<open>inversion rules of the result and program combinators\<close>
named_theorems inv_intros \<open>preservation facts of component invariants\<close>

section \<open>Results\<close>

definition rbind :: "'e + 'a \<Rightarrow> ('a \<Rightarrow> 'e + 'b) \<Rightarrow> 'e + 'b" where
  "rbind m f = (case m of Inl e \<Rightarrow> Inl e | Inr x \<Rightarrow> f x)"

definition guard_else :: "'e \<Rightarrow> bool \<Rightarrow> 'e + unit" where
  "guard_else e b = (if b then Inr () else Inl e)"

lemma rbind_Inl [simp, res_simps]: "rbind (Inl e) f = Inl e"
  by (simp add: rbind_def)

lemma rbind_Inr [simp, res_simps]: "rbind (Inr x) f = f x"
  by (simp add: rbind_def)

lemma rbind_eq_Inr [res_splits]: "rbind m f = Inr y \<longleftrightarrow> (\<exists>x. m = Inr x \<and> f x = Inr y)"
  by (cases m) (auto simp: rbind_def)

lemma rbind_eq_Inl [res_splits]:
  "rbind m f = Inl e \<longleftrightarrow> m = Inl e \<or> (\<exists>x. m = Inr x \<and> f x = Inl e)"
  by (cases m) (auto simp: rbind_def)

lemma guard_else_eq [simp, res_simps]:
  "guard_else e b = Inr u \<longleftrightarrow> b"
  "guard_else e b = Inl e' \<longleftrightarrow> \<not> b \<and> e' = e"
  by (auto simp: guard_else_def)

text \<open>Mapping a fallible function over a list stops at the first error.\<close>

fun map_res :: "('a \<Rightarrow> 'e + 'b) \<Rightarrow> 'a list \<Rightarrow> 'e + 'b list" where
  "map_res f [] = Inr []"
| "map_res f (x # xs) = rbind (f x) (\<lambda>y. rbind (map_res f xs) (\<lambda>ys. Inr (y # ys)))"

lemma map_res_Inr:
  "map_res f xs = Inr ys \<Longrightarrow> list_all2 (\<lambda>x y. f x = Inr y) xs ys"
  by (induction xs arbitrary: ys) (auto simp: res_splits)

lemma map_res_length: "map_res f xs = Inr ys \<Longrightarrow> length ys = length xs"
  using list_all2_lengthD [OF map_res_Inr] by force

lemma map_res_all:
  assumes "map_res f xs = Inr ys" and "\<And>x y. f x = Inr y \<Longrightarrow> P y" and "y \<in> set ys"
  shows "P y"
  using assms by (induction xs arbitrary: ys) (auto simp: res_splits)

section \<open>Programs: state that may throw\<close>

type_synonym ('s, 'e, 'a) prog = "'s \<Rightarrow> ('e + 'a) \<times> 's"

definition pret :: "'a \<Rightarrow> ('s, 'e, 'a) prog" where
  "pret x s = (Inr x, s)"

definition pthrow :: "'e \<Rightarrow> ('s, 'e, 'a) prog" where
  "pthrow e s = (Inl e, s)"

definition pbind :: "('s, 'e, 'a) prog \<Rightarrow> ('a \<Rightarrow> ('s, 'e, 'b) prog) \<Rightarrow> ('s, 'e, 'b) prog" where
  "pbind m f s = (case m s of (Inl e, s') \<Rightarrow> (Inl e, s') | (Inr x, s') \<Rightarrow> f x s')"

definition pcatch :: "('s, 'e, 'a) prog \<Rightarrow> ('e \<Rightarrow> ('s, 'e, 'a) prog) \<Rightarrow> ('s, 'e, 'a) prog" where
  "pcatch m h s = (case m s of (Inl e, s') \<Rightarrow> h e s' | (Inr x, s') \<Rightarrow> (Inr x, s'))"

definition pget :: "('s \<Rightarrow> 'a) \<Rightarrow> ('s, 'e, 'a) prog" where
  "pget f s = (Inr (f s), s)"

definition pmod :: "('s \<Rightarrow> 's) \<Rightarrow> ('s, 'e, unit) prog" where
  "pmod f s = (Inr (), f s)"

definition plift :: "'e + 'a \<Rightarrow> ('s, 'e, 'a) prog" where
  "plift r s = (r, s)"

lemmas prog_defs = pret_def pthrow_def pbind_def pcatch_def pget_def pmod_def plift_def

lemma pbind_pret [simp, res_simps]: "pbind (pret x) f = f x"
  by (rule ext) (simp add: prog_defs)

lemma pbind_pthrow [simp, res_simps]: "pbind (pthrow e) f = pthrow e"
  by (rule ext) (simp add: prog_defs)

lemma pbind_assoc: "pbind (pbind m f) g = pbind m (\<lambda>x. pbind (f x) g)"
  by (rule ext) (simp add: prog_defs split: prod.splits sum.splits)

lemma pbind_eq_Inr [res_splits]:
  "pbind m f s = (Inr y, t) \<longleftrightarrow> (\<exists>x u. m s = (Inr x, u) \<and> f x u = (Inr y, t))"
  by (auto simp: prog_defs split: prod.splits sum.splits)

lemma pbind_eq_Inl [res_splits]:
  "pbind m f s = (Inl e, t) \<longleftrightarrow>
     m s = (Inl e, t) \<or> (\<exists>x u. m s = (Inr x, u) \<and> f x u = (Inl e, t))"
  by (auto simp: prog_defs split: prod.splits sum.splits)

text \<open>
  A program keeps a state predicate when every run from a state that satisfies it ends, whether
  it returns or throws, in a state that satisfies it.
\<close>

definition pkeeps :: "('s \<Rightarrow> bool) \<Rightarrow> ('s, 'e, 'a) prog \<Rightarrow> bool" where
  "pkeeps I m \<longleftrightarrow> (\<forall>s. I s \<longrightarrow> I (snd (m s)))"

lemma pkeeps_pret [intro!, inv_intros]: "pkeeps I (pret x)"
  by (simp add: pkeeps_def prog_defs)

lemma pkeeps_pthrow [intro!, inv_intros]: "pkeeps I (pthrow e)"
  by (simp add: pkeeps_def prog_defs)

lemma pkeeps_pget [intro!, inv_intros]: "pkeeps I (pget f)"
  by (simp add: pkeeps_def prog_defs)

lemma pkeeps_plift [intro!, inv_intros]: "pkeeps I (plift r)"
  by (simp add: pkeeps_def prog_defs)

lemma pkeeps_pmod [inv_intros]: "(\<And>s. I s \<Longrightarrow> I (f s)) \<Longrightarrow> pkeeps I (pmod f)"
  by (simp add: pkeeps_def prog_defs)

lemma pkeeps_pbind [inv_intros]:
  "pkeeps I m \<Longrightarrow> (\<And>x. pkeeps I (f x)) \<Longrightarrow> pkeeps I (pbind m f)"
  by (fastforce simp: pkeeps_def prog_defs split: prod.splits sum.splits)

lemma pkeeps_pcatch [inv_intros]:
  "pkeeps I m \<Longrightarrow> (\<And>e. pkeeps I (h e)) \<Longrightarrow> pkeeps I (pcatch m h)"
  by (fastforce simp: pkeeps_def prog_defs split: prod.splits sum.splits)

lemma pkeeps_if [inv_intros]:
  "(b \<Longrightarrow> pkeeps I m) \<Longrightarrow> (\<not> b \<Longrightarrow> pkeeps I n) \<Longrightarrow> pkeeps I (if b then m else n)"
  by simp

section \<open>Keyed tables\<close>

fun upsert :: "'k \<Rightarrow> 'v \<Rightarrow> ('k \<times> 'v) list \<Rightarrow> ('k \<times> 'v) list" where
  "upsert k v [] = [(k, v)]"
| "upsert k v ((k', v') # kvs) = (if k' = k then (k, v) # kvs else (k', v') # upsert k v kvs)"

definition remove_key :: "'k \<Rightarrow> ('k \<times> 'v) list \<Rightarrow> ('k \<times> 'v) list" where
  "remove_key k kvs = filter (\<lambda>kv. fst kv \<noteq> k) kvs"

lemma map_of_upsert [simp]: "map_of (upsert k v kvs) = (map_of kvs)(k \<mapsto> v)"
  by (induction kvs) auto

lemma fst_set_upsert [simp]: "fst ` set (upsert k v kvs) = insert k (fst ` set kvs)"
  by (induction k v kvs rule: upsert.induct) (simp_all add: insert_commute)

lemma distinct_upsert [simp]:
  "distinct (map fst (upsert k v kvs)) = distinct (map fst kvs)"
  by (induction k v kvs rule: upsert.induct) simp_all

lemma length_upsert:
  "length (upsert k v kvs) = (if k \<in> fst ` set kvs then length kvs else Suc (length kvs))"
  by (induction k v kvs rule: upsert.induct) simp_all

lemma map_of_remove_key [simp]: "map_of (remove_key k kvs) = (map_of kvs)(k := None)"
  by (induction kvs) (auto simp: remove_key_def)

lemma fst_set_remove_key [simp]: "fst ` set (remove_key k kvs) = fst ` set kvs - {k}"
  by (auto simp: remove_key_def)

lemma distinct_remove_key [intro]:
  "distinct (map fst kvs) \<Longrightarrow> distinct (map fst (remove_key k kvs))"
  unfolding remove_key_def by (induction kvs) auto

text \<open>Remove the element at an index, the effect of \<open>splice(i, 1)\<close>.\<close>

definition remove_nth :: "nat \<Rightarrow> 'a list \<Rightarrow> 'a list" where
  "remove_nth i xs = take i xs @ drop (Suc i) xs"

lemma length_remove_nth: "i < length xs \<Longrightarrow> length (remove_nth i xs) = length xs - 1"
  by (simp add: remove_nth_def)

lemma remove_nth_split:
  assumes "i < length xs"
  shows "xs = take i xs @ xs ! i # drop (Suc i) xs"
  using assms by (rule id_take_nth_drop)

lemma distinct_remove_nth: "distinct xs \<Longrightarrow> distinct (remove_nth i xs)"
  unfolding remove_nth_def
  by (metis append_take_drop_id distinct_append distinct_drop distinct_take
      set_drop_subset_set_drop set_take_disj_set_drop_if_distinct Int_commute lessI less_imp_le)

lemma set_remove_nth:
  assumes "distinct xs" and "i < length xs"
  shows "set (remove_nth i xs) = set xs - {xs ! i}"
proof -
  have xs: "xs = take i xs @ xs ! i # drop (Suc i) xs"
    by (rule remove_nth_split [OF assms(2)])
  have "distinct (take i xs @ xs ! i # drop (Suc i) xs)"
    using assms(1) xs by simp
  then have "set (take i xs @ drop (Suc i) xs) = set (take i xs @ xs ! i # drop (Suc i) xs) - {xs ! i}"
    by auto
  then show ?thesis
    using xs by (simp add: remove_nth_def)
qed

text \<open>\<open>Array.prototype.findIndex\<close>: the first index that satisfies the predicate, or none.\<close>

fun find_index :: "('a \<Rightarrow> bool) \<Rightarrow> 'a list \<Rightarrow> nat option" where
  "find_index P [] = None"
| "find_index P (x # xs) = (if P x then Some 0 else map_option Suc (find_index P xs))"

lemma find_index_Some:
  "find_index P xs = Some i \<Longrightarrow> i < length xs \<and> P (xs ! i) \<and> (\<forall>j<i. \<not> P (xs ! j))"
proof (induction xs arbitrary: i)
  case Nil
  then show ?case by simp
next
  case (Cons x xs)
  then show ?case
    by (auto split: if_splits simp: nth_Cons split: nat.splits)
qed

lemma find_index_None: "find_index P xs = None \<longleftrightarrow> (\<forall>x\<in>set xs. \<not> P x)"
  by (induction xs) auto

text \<open>\<open>[...new Set(xs)]\<close>: the distinct elements in the order of their first occurrence.\<close>

fun uniq_acc :: "'a list \<Rightarrow> 'a list \<Rightarrow> 'a list" where
  "uniq_acc seen [] = []"
| "uniq_acc seen (x # xs) =
     (if x \<in> set seen then uniq_acc seen xs else x # uniq_acc (x # seen) xs)"

definition uniq :: "'a list \<Rightarrow> 'a list" where
  "uniq xs = uniq_acc [] xs"

lemma set_uniq_acc: "set (uniq_acc seen xs) = set xs - set seen"
  by (induction xs arbitrary: seen) auto

lemma distinct_uniq_acc: "distinct (uniq_acc seen xs)"
  by (induction xs arbitrary: seen) (auto simp: set_uniq_acc)

lemma set_uniq [simp]: "set (uniq xs) = set xs"
  by (simp add: uniq_def set_uniq_acc)

lemma distinct_uniq [simp]: "distinct (uniq xs)"
  by (simp add: uniq_def distinct_uniq_acc)

lemma length_uniq: "length (uniq xs) = card (set xs)"
  by (metis distinct_card distinct_uniq set_uniq)

end
