(* ===== verification/JsVal.thy ===== *)
theory JsVal
  imports Prelude "HOL-Library.List_Lexorder" "HOL-Library.Char_ord" "HOL-Library.Multiset"
begin

text \<open>
  The JavaScript values the program computes with, and the operations of the language and its
  standard library that the source uses on them.

  \<^item> A string is an Isabelle \<open>string\<close>: one \<open>char\<close> stands for one code unit, so the
    model speaks about code units up to 255.  Case conversion follows ASCII.
  \<^item> A number is an exact rational, \<open>NaN\<close> or an infinity.  The rounding of doubles is not
    modelled; the program's numbers are counters, timestamps and ratios of small integers.
  \<^item> An object is the list of its own enumerable properties in enumeration order.  Property
    names inherited from \<open>Object.prototype\<close> are dealt with where a key comes from a request
    (\<open>table_get\<close>).
\<close>

section \<open>Values\<close>

datatype jnum = Fin rat | NaN | PosInf | NegInf

datatype jsval =
    JUndef
  | JNull
  | JBool bool
  | JNum jnum
  | JStr string
  | JArr "jsval list"
  | JObj "(string \<times> jsval) list"

abbreviation JInt :: "int \<Rightarrow> jsval" where
  "JInt i \<equiv> JNum (Fin (of_int i))"

lemma size_snd_less [termination_simp]:
  "(k, v) \<in> set kvs \<Longrightarrow> size v < Suc (size_list (size_prod (\<lambda>_. 0) size) kvs)"
  by (induction kvs) auto

lemma size_snd_less' [termination_simp]:
  "kv \<in> set kvs \<Longrightarrow> size (snd kv) < Suc (size_list (size_prod (\<lambda>_. 0) size) kvs)"
  by (induction kvs) auto

section \<open>Strings\<close>

definition ws :: "char \<Rightarrow> bool" where
  "ws c \<longleftrightarrow> c \<in> {CHR 0x09, CHR 0x0A, CHR 0x0B, CHR 0x0C, CHR 0x0D, CHR 0x20, CHR 0xA0}"

definition trim :: "string \<Rightarrow> string" where
  "trim s = rev (dropWhile ws (rev (dropWhile ws s)))"

definition lower_char :: "char \<Rightarrow> char" where
  "lower_char c = (if 65 \<le> (of_char c :: nat) \<and> (of_char c :: nat) \<le> 90
     then char_of ((of_char c :: nat) + 32) else c)"

definition upper_char :: "char \<Rightarrow> char" where
  "upper_char c = (if 97 \<le> (of_char c :: nat) \<and> (of_char c :: nat) \<le> 122
     then char_of ((of_char c :: nat) - 32) else c)"

definition to_lower :: "string \<Rightarrow> string" where
  "to_lower s = map lower_char s"

definition to_upper :: "string \<Rightarrow> string" where
  "to_upper s = map upper_char s"

fun join :: "string \<Rightarrow> string list \<Rightarrow> string" where
  "join sep [] = []"
| "join sep [x] = x"
| "join sep (x # y # xs) = x @ sep @ join sep (y # xs)"

definition starts_with :: "string \<Rightarrow> string \<Rightarrow> bool" where
  "starts_with p s \<longleftrightarrow> take (length p) s = p"

definition ends_with :: "string \<Rightarrow> string \<Rightarrow> bool" where
  "ends_with p s \<longleftrightarrow> length p \<le> length s \<and> drop (length s - length p) s = p"

lemma starts_with_iff: "starts_with p s \<longleftrightarrow> (\<exists>r. s = p @ r)"
  by (metis append_eq_conv_conj append_take_drop_id starts_with_def)

lemma ends_with_iff: "ends_with p s \<longleftrightarrow> (\<exists>r. s = r @ p)"
proof
  assume "ends_with p s"
  then show "\<exists>r. s = r @ p"
    unfolding ends_with_def by (metis append_take_drop_id)
next
  assume "\<exists>r. s = r @ p"
  then show "ends_with p s"
    by (auto simp: ends_with_def)
qed

text \<open>
  \<open>s.replace(/pat/g, rep)\<close> for a literal, nonempty pattern: every occurrence, left to right,
  and the replacement text is not searched again.
\<close>

function replace_all :: "string \<Rightarrow> string \<Rightarrow> string \<Rightarrow> string" where
  "replace_all pat rep s =
     (if s = [] then []
      else if pat \<noteq> [] \<and> starts_with pat s then rep @ replace_all pat rep (drop (length pat) s)
      else hd s # replace_all pat rep (tl s))"
  by pat_completeness auto
termination
  by (relation "measure (\<lambda>(pat, rep, s). length s)") (auto simp: starts_with_def)

declare replace_all.simps [simp del]

definition digit_char :: "char \<Rightarrow> bool" where
  "digit_char c \<longleftrightarrow> 48 \<le> (of_char c :: nat) \<and> (of_char c :: nat) \<le> 57"

definition alpha_char :: "char \<Rightarrow> bool" where
  "alpha_char c \<longleftrightarrow> 65 \<le> (of_char c :: nat) \<and> (of_char c :: nat) \<le> 90
     \<or> 97 \<le> (of_char c :: nat) \<and> (of_char c :: nat) \<le> 122"

definition hex_lower :: "char \<Rightarrow> bool" where
  "hex_lower c \<longleftrightarrow> digit_char c \<or> 97 \<le> (of_char c :: nat) \<and> (of_char c :: nat) \<le> 102"

definition hex_char :: "char \<Rightarrow> bool" where
  "hex_char c \<longleftrightarrow> hex_lower (lower_char c)"

definition digit_of :: "nat \<Rightarrow> char" where
  "digit_of n = char_of (48 + n)"

fun nat_str :: "nat \<Rightarrow> string" where
  "nat_str n = (if n < 10 then [digit_of n] else nat_str (n div 10) @ [digit_of (n mod 10)])"

declare nat_str.simps [simp del]

definition int_str :: "int \<Rightarrow> string" where
  "int_str i = (if i < 0 then CHR ''-'' # nat_str (nat (- i)) else nat_str (nat i))"

text \<open>The regular expressions shared by several components.\<close>

definition is_sha256_ref :: "string \<Rightarrow> bool" where
  \<comment> \<open>\<open>/^sha256:[0-9a-f]{64}$/\<close>\<close>
  "is_sha256_ref s \<longleftrightarrow>
     take 7 s = ''sha256:'' \<and> length s = 71 \<and> list_all hex_lower (drop 7 s)"

definition is_hex64 :: "string \<Rightarrow> bool" where
  "is_hex64 s \<longleftrightarrow> length s = 64 \<and> list_all hex_lower s"

lemma is_sha256_ref_prefix [simp]: "is_sha256_ref (''sha256:'' @ h) \<longleftrightarrow> is_hex64 h"
  by (auto simp: is_sha256_ref_def is_hex64_def)

definition is_uuid :: "string \<Rightarrow> bool" where
  \<comment> \<open>\<open>/^[0-9a-f]{8}-[0-9a-f]{4}-[1-5][0-9a-f]{3}-[89ab][0-9a-f]{3}-[0-9a-f]{12}$/i\<close>\<close>
  "is_uuid s \<longleftrightarrow> length s = 36
     \<and> (\<forall>i\<in>set [0..<36]. if i \<in> set [8, 13, 18, 23] then s ! i = CHR ''-'' else hex_char (s ! i))
     \<and> s ! 14 \<in> set ''12345'' \<and> lower_char (s ! 19) \<in> set ''89ab''"

definition is_safe_key :: "string \<Rightarrow> bool" where
  \<comment> \<open>\<open>/^[A-Za-z0-9][A-Za-z0-9._:-]{7,159}$/\<close>\<close>
  "is_safe_key s \<longleftrightarrow> 8 \<le> length s \<and> length s \<le> 160
     \<and> (case s of [] \<Rightarrow> False | c # _ \<Rightarrow> alpha_char c \<or> digit_char c)
     \<and> list_all (\<lambda>c. alpha_char c \<or> digit_char c \<or> c \<in> set ''._:-'') s"

section \<open>Conversions\<close>

fun frac_digits :: "nat \<Rightarrow> rat \<Rightarrow> string" where
  "frac_digits 0 r = []"
| "frac_digits (Suc n) r =
     (if r = 0 then [] else digit_of (nat \<lfloor>r * 10\<rfloor>) # frac_digits n (r * 10 - of_int \<lfloor>r * 10\<rfloor>))"

definition is_int_rat :: "rat \<Rightarrow> bool" where
  "is_int_rat r \<longleftrightarrow> of_int \<lfloor>r\<rfloor> = r"

definition num_str :: "jnum \<Rightarrow> string" where
  "num_str n = (case n of
       NaN \<Rightarrow> ''NaN'' | PosInf \<Rightarrow> ''Infinity'' | NegInf \<Rightarrow> ''-Infinity''
     | Fin r \<Rightarrow>
         if is_int_rat r then int_str \<lfloor>r\<rfloor>
         else (if r < 0 then ''-'' else []) @ nat_str (nat \<lfloor>\<bar>r\<bar>\<rfloor>) @ ''.''
           @ frac_digits 20 (\<bar>r\<bar> - of_int \<lfloor>\<bar>r\<bar>\<rfloor>))"

fun to_str :: "jsval \<Rightarrow> string" where
  \<comment> \<open>\<open>String(v)\<close>\<close>
  "to_str JUndef = ''undefined''"
| "to_str JNull = ''null''"
| "to_str (JBool b) = (if b then ''true'' else ''false'')"
| "to_str (JNum n) = num_str n"
| "to_str (JStr s) = s"
| "to_str (JArr xs) = join '','' (map (\<lambda>x. if x = JUndef \<or> x = JNull then [] else to_str x) xs)"
| "to_str (JObj kvs) = ''[object Object]''"

fun truthy :: "jsval \<Rightarrow> bool" where
  "truthy JUndef = False"
| "truthy JNull = False"
| "truthy (JBool b) = b"
| "truthy (JNum n) = (n \<noteq> Fin 0 \<and> n \<noteq> NaN)"
| "truthy (JStr s) = (s \<noteq> [])"
| "truthy (JArr xs) = True"
| "truthy (JObj kvs) = True"

definition js_or :: "jsval \<Rightarrow> jsval \<Rightarrow> jsval" where
  \<comment> \<open>\<open>a || b\<close>\<close>
  "js_or a b = (if truthy a then a else b)"

definition nullish :: "jsval \<Rightarrow> bool" where
  \<comment> \<open>\<open>v == null\<close>\<close>
  "nullish v \<longleftrightarrow> v = JUndef \<or> v = JNull"

definition js_coalesce :: "jsval \<Rightarrow> jsval \<Rightarrow> jsval" where
  \<comment> \<open>\<open>a ?? b\<close>\<close>
  "js_coalesce a b = (if nullish a then b else a)"

definition str_or_empty :: "jsval \<Rightarrow> string" where
  \<comment> \<open>\<open>String(v || '')\<close>\<close>
  "str_or_empty v = to_str (js_or v (JStr []))"

definition fld :: "jsval \<Rightarrow> string \<Rightarrow> jsval" where
  \<comment> \<open>\<open>v?.k\<close> for an own property\<close>
  "fld v k = (case v of JObj kvs \<Rightarrow> (case map_of kvs k of Some x \<Rightarrow> x | None \<Rightarrow> JUndef) | _ \<Rightarrow> JUndef)"

lemma fld_obj: "fld (JObj kvs) k = (case map_of kvs k of Some x \<Rightarrow> x | None \<Rightarrow> JUndef)"
  by (simp add: fld_def)

definition is_plain_object :: "jsval \<Rightarrow> bool" where
  \<comment> \<open>\<open>v && typeof v === 'object' && !Array.isArray(v)\<close>\<close>
  "is_plain_object v \<longleftrightarrow> (case v of JObj _ \<Rightarrow> True | _ \<Rightarrow> False)"

definition is_array :: "jsval \<Rightarrow> bool" where
  "is_array v \<longleftrightarrow> (case v of JArr _ \<Rightarrow> True | _ \<Rightarrow> False)"

definition elems :: "jsval \<Rightarrow> jsval list" where
  \<comment> \<open>\<open>Array.isArray(v) ? v : []\<close>\<close>
  "elems v = (case v of JArr xs \<Rightarrow> xs | _ \<Rightarrow> [])"

definition obj_entries :: "jsval \<Rightarrow> (string \<times> jsval) list" where
  "obj_entries v = (case v of JObj kvs \<Rightarrow> kvs | _ \<Rightarrow> [])"

subsection \<open>\<open>Number(v)\<close>\<close>

definition digit_value :: "char \<Rightarrow> nat" where
  "digit_value c =
     (let n = of_char (lower_char c) :: nat in if n \<le> 57 then n - 48 else n - 87)"

definition digits_value :: "nat \<Rightarrow> string \<Rightarrow> nat" where
  "digits_value base s = foldl (\<lambda>a c. a * base + digit_value c) 0 s"

definition pow10 :: "int \<Rightarrow> rat" where
  "pow10 e = (if 0 \<le> e then 10 ^ nat e else 1 / 10 ^ nat (- e))"

definition exponent_value :: "string \<Rightarrow> int option" where
  "exponent_value s = (case s of
       [] \<Rightarrow> Some 0
     | c # r \<Rightarrow>
         if c \<noteq> CHR ''e'' \<and> c \<noteq> CHR ''E'' then None
         else (let neg = (r \<noteq> [] \<and> hd r = CHR ''-'');
                   ds = (if r \<noteq> [] \<and> hd r \<in> set ''+-'' then tl r else r)
               in if ds = [] \<or> \<not> list_all digit_char ds then None
                  else Some (if neg then - int (digits_value 10 ds) else int (digits_value 10 ds))))"

definition unsigned_decimal :: "string \<Rightarrow> rat option" where
  "unsigned_decimal s =
     (let ip = takeWhile digit_char s; r1 = dropWhile digit_char s;
          dot = (r1 \<noteq> [] \<and> hd r1 = CHR ''.'');
          fp = (if dot then takeWhile digit_char (tl r1) else []);
          r2 = (if dot then dropWhile digit_char (tl r1) else r1)
      in if ip = [] \<and> fp = [] then None
         else map_option (\<lambda>e. of_nat (digits_value 10 (ip @ fp)) * pow10 (e - int (length fp)))
                (exponent_value r2))"

definition radix_value :: "nat \<Rightarrow> string \<Rightarrow> jnum" where
  "radix_value base ds =
     (if ds \<noteq> [] \<and> list_all (\<lambda>c. hex_char c \<and> digit_value c < base) ds
      then Fin (of_nat (digits_value base ds)) else NaN)"

definition str_num :: "string \<Rightarrow> jnum" where
  "str_num s0 =
     (let s = trim s0 in
      if s = [] then Fin 0
      else if to_lower (take 2 s) = ''0x'' then radix_value 16 (drop 2 s)
      else if to_lower (take 2 s) = ''0o'' then radix_value 8 (drop 2 s)
      else if to_lower (take 2 s) = ''0b'' then radix_value 2 (drop 2 s)
      else (let neg = (hd s = CHR ''-''); u = (if hd s \<in> set ''+-'' then tl s else s) in
            if u = ''Infinity'' then (if neg then NegInf else PosInf)
            else case unsigned_decimal u of
                   None \<Rightarrow> NaN
                 | Some r \<Rightarrow> Fin (if neg then - r else r)))"

fun to_num :: "jsval \<Rightarrow> jnum" where
  "to_num JUndef = NaN"
| "to_num JNull = Fin 0"
| "to_num (JBool b) = Fin (if b then 1 else 0)"
| "to_num (JNum n) = n"
| "to_num (JStr s) = str_num s"
| "to_num (JArr xs) = str_num (to_str (JArr xs))"
| "to_num (JObj kvs) = NaN"

fun num_less :: "jnum \<Rightarrow> jnum \<Rightarrow> bool" where
  \<comment> \<open>\<open>a < b\<close> on numbers: false when either is \<open>NaN\<close>\<close>
  "num_less (Fin a) (Fin b) = (a < b)"
| "num_less (Fin a) PosInf = True"
| "num_less NegInf (Fin b) = True"
| "num_less NegInf PosInf = True"
| "num_less _ _ = False"

definition num_le :: "jnum \<Rightarrow> jnum \<Rightarrow> bool" where
  "num_le a b \<longleftrightarrow> num_less a b \<or> a = b \<and> a \<noteq> NaN"

definition num_eq :: "jnum \<Rightarrow> jnum \<Rightarrow> bool" where
  \<comment> \<open>\<open>a === b\<close> on numbers: \<open>NaN\<close> differs from itself\<close>
  "num_eq a b \<longleftrightarrow> a = b \<and> a \<noteq> NaN"

definition num_is_integer :: "jnum \<Rightarrow> bool" where
  \<comment> \<open>\<open>Number.isInteger\<close>\<close>
  "num_is_integer n \<longleftrightarrow> (case n of Fin r \<Rightarrow> is_int_rat r | _ \<Rightarrow> False)"

definition num_is_finite :: "jnum \<Rightarrow> bool" where
  "num_is_finite n \<longleftrightarrow> (case n of Fin r \<Rightarrow> True | _ \<Rightarrow> False)"

fun js_eq :: "jsval \<Rightarrow> jsval \<Rightarrow> bool" where
  \<comment> \<open>\<open>a === b\<close> where neither side is an object or an array\<close>
  "js_eq (JNum a) (JNum b) = num_eq a b"
| "js_eq a b = (a = b)"

section \<open>Property enumeration and JSON\<close>

definition is_index_key :: "string \<Rightarrow> bool" where
  \<comment> \<open>array-index property names enumerate first, in numeric order\<close>
  "is_index_key s \<longleftrightarrow> s \<noteq> [] \<and> list_all digit_char s \<and> (length s = 1 \<or> hd s \<noteq> CHR ''0'')
     \<and> digits_value 10 s < 4294967295"

definition enum_order :: "(string \<times> 'v) list \<Rightarrow> (string \<times> 'v) list" where
  "enum_order kvs =
     sort_key (digits_value 10 \<circ> fst) (filter (is_index_key \<circ> fst) kvs)
     @ filter (\<lambda>kv. \<not> is_index_key (fst kv)) kvs"

text \<open>
  \<open>Object.keys(o).sort()\<close> orders strings by code units: the lexicographic order of the
  library on \<open>char list\<close>.  The entries are sorted with their keys.
\<close>

definition sort_keys :: "(string \<times> 'v) list \<Rightarrow> (string \<times> 'v) list" where
  "sort_keys kvs = sort_key fst kvs"

lemma set_sort_keys [simp]: "set (sort_keys kvs) = set kvs"
  by (simp add: sort_keys_def)

lemma distinct_sort_keys [simp]:
  "distinct (map fst (sort_keys kvs)) = distinct (map fst kvs)"
  unfolding sort_keys_def
  by (metis distinct_map mset_eq_imp_distinct_iff mset_map mset_sort)

lemma sort_keys_idem [simp]: "sort_keys (sort_keys kvs) = sort_keys kvs"
  by (simp add: sort_keys_def sort_key_id_if_sorted)

lemma insort_key_map_snd:
  "insort_key fst (fst kv, f (snd kv)) (map (\<lambda>kv. (fst kv, f (snd kv))) l)
     = map (\<lambda>kv. (fst kv, f (snd kv))) (insort_key fst kv l)"
  by (induction l) auto

lemma map_snd_sort_keys:
  "sort_keys (map (\<lambda>kv. (fst kv, f (snd kv))) kvs) = map (\<lambda>kv. (fst kv, f (snd kv))) (sort_keys kvs)"
  unfolding sort_keys_def by (induction kvs) (auto simp: insort_key_map_snd)

text \<open>Sorting by distinct keys forgets the order in which the properties were written.\<close>

lemma sort_keys_perm:
  assumes "mset kvs = mset kvs'" and "distinct (map fst kvs)"
  shows "sort_keys kvs = sort_keys kvs'"
  unfolding sort_keys_def
proof (rule properties_for_sort_key)
  show "mset (sort_key fst kvs') = mset kvs"
    using assms(1) by simp
  have d': "distinct (map fst kvs')"
    using assms by (metis mset_eq_imp_distinct_iff mset_map)
  fix k assume ks: "k \<in> set (sort_key fst kvs')"
  then have k: "k \<in> set kvs"
    using assms(1) by (metis mset_eq_setD set_sort)
  have one: "filter (\<lambda>x. fst k = fst x) l = [k]" if "distinct (map fst l)" "k \<in> set l" for l :: "(string \<times> 'a) list"
    using that
  proof (induction l)
    case (Cons a l)
    then show ?case by (cases "a = k") (auto simp: filter_empty_conv image_iff)
  qed simp
  have ds: "distinct (map fst (sort_key fst kvs'))"
    using d' distinct_sort_keys [of kvs'] by (simp add: sort_keys_def)
  show "filter (\<lambda>x. fst k = fst x) (sort_key fst kvs') = filter (\<lambda>x. fst k = fst x) kvs"
    using one [OF ds ks] one [OF assms(2) k] by simp
qed simp

definition hex_digit :: "nat \<Rightarrow> char" where
  "hex_digit n = (if n < 10 then char_of (48 + n) else char_of (87 + n))"

definition json_char :: "char \<Rightarrow> string" where
  "json_char c =
     (let n = of_char c :: nat in
      if n = 34 then [CHR 0x5C, CHR 0x22]
      else if n = 92 then [CHR 0x5C, CHR 0x5C]
      else if n = 8 then CHR 0x5C # ''b''
      else if n = 9 then CHR 0x5C # ''t''
      else if n = 10 then CHR 0x5C # ''n''
      else if n = 12 then CHR 0x5C # ''f''
      else if n = 13 then CHR 0x5C # ''r''
      else if n < 32 then CHR 0x5C # ''u00'' @ [hex_digit (n div 16), hex_digit (n mod 16)]
      else [c])"

definition json_string :: "string \<Rightarrow> string" where
  "json_string s = [CHR 0x22] @ concat (map json_char s) @ [CHR 0x22]"

fun json :: "jsval \<Rightarrow> string option" where
  \<comment> \<open>\<open>JSON.stringify\<close>; None is the value \<open>undefined\<close>\<close>
  "json JUndef = None"
| "json JNull = Some ''null''"
| "json (JBool b) = Some (if b then ''true'' else ''false'')"
| "json (JNum n) = Some (case n of Fin r \<Rightarrow> num_str n | _ \<Rightarrow> ''null'')"
| "json (JStr s) = Some (json_string s)"
| "json (JArr xs) = Some (''['' @ join '','' (map (\<lambda>x. case json x of None \<Rightarrow> ''null'' | Some t \<Rightarrow> t) xs) @ '']'')"
| "json (JObj kvs) = Some (''{'' @ join '','' (concat (map (\<lambda>kv.
       case json (snd kv) of None \<Rightarrow> [] | Some t \<Rightarrow> [json_string (fst kv) @ '':'' @ t]) kvs)) @ ''}'')"

definition json_text :: "jsval \<Rightarrow> string" where
  \<comment> \<open>\<open>JSON.stringify\<close> of a value known to be an object or an array\<close>
  "json_text v = (case json v of Some t \<Rightarrow> t | None \<Rightarrow> ''undefined'')"

section \<open>\<open>encodeURIComponent\<close>\<close>

definition uri_unreserved :: "char \<Rightarrow> bool" where
  "uri_unreserved c \<longleftrightarrow> alpha_char c \<or> digit_char c \<or> c \<in> set ''-_.!~*()'' \<or> c = CHR 0x27"

definition hex_upper :: "nat \<Rightarrow> char" where
  "hex_upper n = (if n < 10 then char_of (48 + n) else char_of (55 + n))"

definition percent_byte :: "nat \<Rightarrow> string" where
  "percent_byte n = [CHR ''%'', hex_upper (n div 16), hex_upper (n mod 16)]"

definition uri_char :: "char \<Rightarrow> string" where
  \<comment> \<open>the UTF-8 bytes of a code unit below 256, percent-encoded\<close>
  "uri_char c =
     (let n = of_char c :: nat in
      if uri_unreserved c then [c]
      else if n < 128 then percent_byte n
      else percent_byte (192 + n div 64) @ percent_byte (128 + n mod 64))"

definition encode_uri :: "string \<Rightarrow> string" where
  "encode_uri s = concat (map uri_char s)"

section \<open>Number arithmetic\<close>

fun num_neg :: "jnum \<Rightarrow> jnum" where
  "num_neg (Fin r) = Fin (- r)"
| "num_neg NaN = NaN"
| "num_neg PosInf = NegInf"
| "num_neg NegInf = PosInf"

fun num_add :: "jnum \<Rightarrow> jnum \<Rightarrow> jnum" where
  "num_add (Fin a) (Fin b) = Fin (a + b)"
| "num_add NaN _ = NaN"
| "num_add _ NaN = NaN"
| "num_add PosInf NegInf = NaN"
| "num_add NegInf PosInf = NaN"
| "num_add PosInf _ = PosInf"
| "num_add NegInf _ = NegInf"
| "num_add _ PosInf = PosInf"
| "num_add _ NegInf = NegInf"

definition num_sub :: "jnum \<Rightarrow> jnum \<Rightarrow> jnum" where
  "num_sub a b = num_add a (num_neg b)"

fun num_sign :: "jnum \<Rightarrow> jnum" where
  "num_sign (Fin r) = Fin (sgn r)"
| "num_sign NaN = NaN"
| "num_sign PosInf = Fin 1"
| "num_sign NegInf = Fin (- 1)"

section \<open>Lookup in a literal table\<close>

text \<open>
  \<open>TABLE[key]\<close> with a key from a request also finds the members of \<open>Object.prototype\<close>.
\<close>

datatype 'v table_hit = Absent | Own 'v | Inherited

definition object_prototype_keys :: "string list" where
  "object_prototype_keys = [''constructor'', ''__defineGetter__'', ''__defineSetter__'',
     ''hasOwnProperty'', ''__lookupGetter__'', ''__lookupSetter__'', ''isPrototypeOf'',
     ''propertyIsEnumerable'', ''toString'', ''valueOf'', ''__proto__'', ''toLocaleString'']"

definition table_get :: "(string \<times> 'v) list \<Rightarrow> string \<Rightarrow> 'v table_hit" where
  "table_get t k = (case map_of t k of Some v \<Rightarrow> Own v
     | None \<Rightarrow> if k \<in> set object_prototype_keys then Inherited else Absent)"

end
