(* ===== verification/OperationalGraph.thy ===== *)
theory OperationalGraph
  imports JsVal
begin

text \<open>
  The operational graph of the OSAA gateway (\<open>apps/osaa-gateway/operational-graph.js\<close>): stable
  JSON and digests, sanitising of observed payloads, node identities, the relation builder,
  projection versions, the complete-reconcile barrier and the bounded coalescing queue.

  The hash is the parameter \<open>sha\<close> (the hexadecimal SHA-256 of a text) and \<open>Date.parse\<close>, which
  ECMAScript leaves to the implementation outside ISO texts, is the parameter \<open>date_parse\<close>.
\<close>

section \<open>Stable JSON and digests\<close>

fun stableJson :: "jsval \<Rightarrow> string option" where
  \<comment> \<open>None is \<open>undefined\<close>: \<open>join\<close> prints it as the empty text, a template literal as the word\<close>
  "stableJson (JArr xs) =
     Some (''['' @ join '','' (map (\<lambda>x. case stableJson x of None \<Rightarrow> [] | Some t \<Rightarrow> t) xs) @ '']'')"
| "stableJson (JObj kvs) =
     Some (''{'' @ join '','' (map (\<lambda>kv. json_string (fst kv) @ '':'' @
       (case stableJson (snd kv) of None \<Rightarrow> ''undefined'' | Some t \<Rightarrow> t)) (sort_keys kvs)) @ ''}'')"
| "stableJson v = json v"

definition digest :: "(string \<Rightarrow> string) \<Rightarrow> jsval \<Rightarrow> string option" where
  \<comment> \<open>None: \<open>Hash.update(undefined)\<close> throws\<close>
  "digest sha v = map_option (\<lambda>t. ''sha256:'' @ sha t) (stableJson v)"

section \<open>Sanitising\<close>

definition FORBIDDEN_KEYS :: "string list" where
  "FORBIDDEN_KEYS = [''data'', ''stringdata'', ''env'', ''envfrom'', ''token'', ''password'',
     ''secret'', ''credential'', ''credentials'', ''authorization'', ''cookie'', ''privatekey'',
     ''clientsecret'']"

definition forbidden_key :: "string \<Rightarrow> bool" where
  "forbidden_key k \<longleftrightarrow> to_lower k \<in> set FORBIDDEN_KEYS"

definition stripped_control :: "char \<Rightarrow> bool" where
  "stripped_control c \<longleftrightarrow> (let n = of_char c :: nat in n \<le> 8 \<or> n = 11 \<or> n = 12 \<or> 14 \<le> n \<and> n \<le> 31)"

fun sanitizeOperationalValue :: "nat \<Rightarrow> jsval \<Rightarrow> jsval" where
  "sanitizeOperationalValue depth v =
     (if depth > 8 then JStr ''[depth-limited]''
      else case v of
        JStr s \<Rightarrow> JStr (take 1000 (filter (\<lambda>c. \<not> stripped_control c) s))
      | JArr xs \<Rightarrow> JArr (take 100 (map (sanitizeOperationalValue (Suc depth)) xs))
      | JObj kvs \<Rightarrow> JObj (filter (\<lambda>kv. \<not> forbidden_key (fst kv) \<and> fst kv \<noteq> ''__proto__'')
                    (take 200 (map (\<lambda>kv. (fst kv, sanitizeOperationalValue (Suc depth) (snd kv))) kvs)))
      | _ \<Rightarrow> v)"

declare sanitizeOperationalValue.simps [simp del]

section \<open>Node identity\<close>

definition canonicalNodeId ::
  "jsval \<Rightarrow> jsval \<Rightarrow> jsval \<Rightarrow> jsval \<Rightarrow> jsval \<Rightarrow> jsval \<Rightarrow> string + string" where
  "canonicalNodeId clusterId authority kind namespace name authorityUid =
     (let cluster = trim (str_or_empty clusterId);
          source = trim (str_or_empty authority);
          type = trim (str_or_empty kind);
          ns = trim (str_or_empty namespace);
          resourceName = trim (str_or_empty name);
          uid = trim (str_or_empty authorityUid)
      in if cluster = [] \<or> source = [] \<or> type = [] \<or> resourceName = []
         then Inl ''node identity fields are required''
         else if source = ''kubernetes'' \<and> uid = []
         then Inl ''Kubernetes authority UID is required''
         else Inr (source @ ''://'' @ cluster @ ''/'' @ encode_uri type @ ''/'' @ encode_uri ns
                   @ ''/'' @ encode_uri (if uid = [] then resourceName else uid)))"

record gcontext =
  ctx_clusterId :: jsval
  ctx_fencingEpoch :: jsval
  ctx_collectionEpoch :: jsval
  ctx_sourceRevision :: jsval
  ctx_reconcileSessionId :: jsval
  ctx_snapshotComplete :: jsval
  ctx_observedAt :: jsval
  ctx_expiresAt :: jsval

record gnode =
  clusterId :: jsval
  nodeId :: string
  nodeType :: string
  canonicalId :: string
  authority :: string
  authorityUid :: string
  displayName :: string
  namespace :: string
  ownerRef :: "string option"
  health :: string
  epistemicState :: string
  attributes :: jsval
  fencingEpoch :: jsval
  collectionEpoch :: jsval
  streamSequence :: jsval
  sourceRevision :: jsval
  reconcileSessionId :: jsval
  snapshotComplete :: bool
  observedAt :: string
  expiresAt :: string

definition idx0 :: "jsval \<Rightarrow> jsval" where
  \<comment> \<open>\<open>v?.[0]\<close>\<close>
  "idx0 v = (case v of JArr (x # _) \<Rightarrow> x | JStr (c # _) \<Rightarrow> JStr [c] | JObj kvs \<Rightarrow> fld v ''0'' | _ \<Rightarrow> JUndef)"

definition runtimeRowToNode ::
  "(string \<Rightarrow> jnum) \<Rightarrow> jnum \<Rightarrow> jsval \<Rightarrow> gcontext \<Rightarrow> string + gnode" where
  \<comment> \<open>timestamps arrive as texts; \<open>now\<close> is \<open>Date.now()\<close>\<close>
  "runtimeRowToNode date_parse now row ctx =
     (let payload = sanitizeOperationalValue 0 (js_or (fld row ''payload'') (JObj []));
          metadata = js_or (fld payload ''metadata'') (JObj []);
          auth = to_str (js_or (fld row ''source'') (JStr ''unknown''));
          path = to_str (fld row ''kind'') @ ''/'' @ str_or_empty (fld row ''namespace'') @ ''/''
                 @ to_str (fld row ''name'');
          uid = to_str (js_or (js_or (fld row ''authority_uid'') (fld metadata ''uid''))
                  (JStr (if auth = ''kubernetes'' then [] else path)));
          expires = to_str (js_or (fld row ''expires_at'') (ctx_expiresAt ctx));
          observed = to_str (js_or (fld row ''observed_at'') (ctx_observedAt ctx));
          owner0 = idx0 (fld metadata ''ownerReferences'')
      in rbind (canonicalNodeId (ctx_clusterId ctx) (JStr auth) (fld row ''kind'')
                  (js_or (fld row ''namespace'') (JStr [])) (fld row ''name'') (JStr uid))
         (\<lambda>nid. Inr \<lparr>
            clusterId = ctx_clusterId ctx, nodeId = nid, nodeType = to_str (fld row ''kind''),
            canonicalId = (if auth = ''kubernetes'' then ''k8s'' else auth) @ ''://''
              @ to_str (ctx_clusterId ctx) @ ''/'' @ path,
            authority = auth, authorityUid = uid, displayName = to_str (fld row ''name''),
            namespace = str_or_empty (fld row ''namespace''),
            ownerRef = (if truthy owner0
              then Some (to_str (fld owner0 ''kind'') @ ''/'' @ to_str (fld owner0 ''name'')) else None),
            health = to_str (js_or (fld row ''health'') (JStr ''Unknown'')),
            epistemicState = (if num_less now (date_parse expires) then ''known'' else ''stale''),
            attributes = payload,
            fencingEpoch = ctx_fencingEpoch ctx, collectionEpoch = ctx_collectionEpoch ctx,
            streamSequence = (if nullish (fld row ''stream_sequence'') then JNull
              else JNum (to_num (fld row ''stream_sequence''))),
            sourceRevision = js_or (js_or (fld row ''resource_version'') (fld row ''source_revision'')) JNull,
            reconcileSessionId = ctx_reconcileSessionId ctx,
            snapshotComplete = truthy (ctx_snapshotComplete ctx),
            observedAt = observed, expiresAt = expires \<rparr>))"

section \<open>Relations\<close>

definition RELATION_TYPES :: "string list" where
  "RELATION_TYPES = [''owns'', ''contains'', ''selects'', ''serves'', ''routes_to'', ''depends_on'',
     ''optionally_depends_on'', ''declares'', ''realizes'', ''observes'', ''affects'', ''executed_by'']"

record relation =
  rel_clusterId :: jsval
  fromNodeId :: string
  relationType :: string
  toNodeId :: string
  rel_authority :: string
  confidence :: string
  evidenceRef :: string
  rel_fencingEpoch :: jsval
  rel_collectionEpoch :: jsval
  rel_sourceRevision :: jsval
  rel_reconcileSessionId :: jsval
  rel_observedAt :: jsval
  rel_expiresAt :: jsval

definition relationKey :: "relation \<Rightarrow> string" where
  "relationKey r = join ''|'' [
     (if nullish (rel_clusterId r) then [] else to_str (rel_clusterId r)),
     fromNodeId r, relationType r, toNodeId r, rel_authority r]"

definition graphRelation :: "gnode \<Rightarrow> string \<Rightarrow> gnode \<Rightarrow> gcontext \<Rightarrow> string + relation" where
  "graphRelation from relType to ctx =
     (let rt = (if relType = ''owned_by'' then ''owns'' else relType) in
      if rt \<notin> set RELATION_TYPES then Inl (''unsupported relation type '' @ rt)
      else if nodeId from = nodeId to then Inl ''self relation is not allowed''
      else Inr \<lparr>
        rel_clusterId = ctx_clusterId ctx, fromNodeId = nodeId from, relationType = rt,
        toNodeId = nodeId to, rel_authority = ''materializer'', confidence = ''confirmed'',
        evidenceRef = ''node:'' @ nodeId from @ ''@'' @ to_str (js_or (sourceRevision from) (JStr ''unknown''))
          @ ''=>node:'' @ nodeId to @ ''@'' @ to_str (js_or (sourceRevision to) (JStr ''unknown'')),
        rel_fencingEpoch = ctx_fencingEpoch ctx, rel_collectionEpoch = ctx_collectionEpoch ctx,
        rel_sourceRevision = js_or (ctx_sourceRevision ctx) JNull,
        rel_reconcileSessionId = ctx_reconcileSessionId ctx,
        rel_observedAt = ctx_observedAt ctx, rel_expiresAt = ctx_expiresAt ctx \<rparr>)"

definition node_alias :: "gnode \<Rightarrow> string" where
  "node_alias n = to_lower (nodeType n) @ ''|'' @ namespace n @ ''|'' @ displayName n"

definition alias_index :: "gnode list \<Rightarrow> (string \<times> gnode) list" where
  \<comment> \<open>\<open>byAlias\<close>: later nodes replace earlier ones under the same alias\<close>
  "alias_index nodes = foldl (\<lambda>m n. upsert (node_alias n) n m) [] nodes"

definition owner_list :: "gnode \<Rightarrow> string + jsval list" where
  \<comment> \<open>\<open>for (const owner of node.attributes?.metadata?.ownerReferences || [])\<close>\<close>
  "owner_list node =
     (let v = fld (fld (attributes node) ''metadata'') ''ownerReferences'' in
      if \<not> truthy v then Inr []
      else case v of JArr xs \<Rightarrow> Inr xs
           | JStr s \<Rightarrow> Inr (map (\<lambda>c. JStr [c]) s)
           | _ \<Rightarrow> Inl ''TypeError: owners is not iterable'')"

fun add_owner_relations ::
  "(string \<times> gnode) list \<Rightarrow> gnode \<Rightarrow> gcontext \<Rightarrow> jsval list \<Rightarrow> (string \<times> relation) list
     \<Rightarrow> string + (string \<times> relation) list" where
  "add_owner_relations byAlias node ctx [] rels = Inr rels"
| "add_owner_relations byAlias node ctx (owner # owners) rels =
     (if nullish owner then Inl ''TypeError: cannot read properties of null''
      else case map_of byAlias (to_lower (str_or_empty (fld owner ''kind'')) @ ''|'' @ namespace node
                  @ ''|'' @ str_or_empty (fld owner ''name'')) of
        None \<Rightarrow> add_owner_relations byAlias node ctx owners rels
      | Some target \<Rightarrow>
          rbind (graphRelation node ''owned_by'' target ctx) (\<lambda>r0.
            let r = r0\<lparr>fromNodeId := nodeId target, relationType := ''owns'', toNodeId := nodeId node\<rparr>
            in add_owner_relations byAlias node ctx owners (upsert (relationKey r) r rels)))"

definition add_namespace_relation ::
  "(string \<times> gnode) list \<Rightarrow> gnode \<Rightarrow> gcontext \<Rightarrow> (string \<times> relation) list
     \<Rightarrow> string + (string \<times> relation) list" where
  "add_namespace_relation byAlias node ctx rels =
     (if namespace node = [] then Inr rels
      else case map_of byAlias (''namespace||'' @ namespace node) of
        None \<Rightarrow> Inr rels
      | Some namespaceNode \<Rightarrow>
          rbind (graphRelation namespaceNode ''contains'' node ctx)
            (\<lambda>r. Inr (upsert (relationKey r) r rels)))"

fun add_node_relations ::
  "(string \<times> gnode) list \<Rightarrow> gcontext \<Rightarrow> gnode list \<Rightarrow> (string \<times> relation) list
     \<Rightarrow> string + (string \<times> relation) list" where
  "add_node_relations byAlias ctx [] rels = Inr rels"
| "add_node_relations byAlias ctx (node # nodes) rels =
     rbind (owner_list node) (\<lambda>owners.
     rbind (add_owner_relations byAlias node ctx owners rels) (\<lambda>rels1.
     rbind (add_namespace_relation byAlias node ctx rels1) (\<lambda>rels2.
       add_node_relations byAlias ctx nodes rels2)))"

definition buildRelations :: "gnode list \<Rightarrow> gcontext \<Rightarrow> string + relation list" where
  "buildRelations nodes ctx =
     rbind (add_node_relations (alias_index nodes) ctx nodes []) (\<lambda>rels. Inr (map snd rels))"

section \<open>Projection versions\<close>

definition version_field :: "jsval \<Rightarrow> string \<Rightarrow> jnum" where
  "version_field v f = (if nullish (fld v f) then Fin (- 1) else to_num (fld v f))"

fun compare_fields :: "string list \<Rightarrow> jsval \<Rightarrow> jsval \<Rightarrow> jnum" where
  "compare_fields [] current incoming = Fin 0"
| "compare_fields (f # fs) current incoming =
     (let a = version_field current f; b = version_field incoming f
      in if \<not> num_eq a b then num_sign (num_sub b a) else compare_fields fs current incoming)"

definition compareProjectionVersion :: "jsval \<Rightarrow> jsval \<Rightarrow> jnum" where
  "compareProjectionVersion current incoming =
     compare_fields [''fencingEpoch'', ''collectionEpoch'', ''streamSequence''] current incoming"

section \<open>The complete-reconcile barrier\<close>

record barrier =
  expected :: "string list"
  complete :: "string list"
  failed :: "string list"

definition new_barrier :: "string list \<Rightarrow> barrier" where
  "new_barrier expectedScopes = \<lparr>expected = uniq expectedScopes, complete = [], failed = []\<rparr>"

definition mark :: "string \<Rightarrow> jsval \<Rightarrow> barrier \<Rightarrow> string + barrier" where
  "mark scope result b =
     (if scope \<notin> set (expected b) then Inl (''unexpected reconcile scope '' @ scope)
      else if result = JBool True
      then Inr (b\<lparr>complete := List.insert scope (complete b), failed := removeAll scope (failed b)\<rparr>)
      else Inr (b\<lparr>failed := List.insert scope (failed b), complete := removeAll scope (complete b)\<rparr>))"

definition barrier_complete :: "barrier \<Rightarrow> bool" where
  "barrier_complete b \<longleftrightarrow> failed b = [] \<and> length (complete b) = length (expected b)"

definition assertComplete :: "barrier \<Rightarrow> string + bool" where
  "assertComplete b =
     (if \<not> barrier_complete b
      then Inl (''incomplete reconcile barrier '' @ nat_str (length (complete b)) @ ''/''
                @ nat_str (length (expected b)))
      else Inr True)"

section \<open>The bounded coalescing queue\<close>

record 'v bcqueue =
  limit :: nat
  items :: "(string \<times> ('v \<times> string)) list"
  order :: "string list"
  dropped :: nat
  lagging :: bool

definition new_queue :: "jnum \<Rightarrow> string + 'v bcqueue" where
  "new_queue lmt =
     (if \<not> num_is_integer lmt \<or> num_less lmt (Fin 1) then Inl ''queue limit must be positive''
      else Inr \<lparr>limit = nat \<lfloor>case lmt of Fin r \<Rightarrow> r | _ \<Rightarrow> 0\<rfloor>, items = [], order = [], dropped = 0,
                lagging = False\<rparr>)"

record push_result =
  pr_coalesced :: bool
  pr_dropped :: bool

definition not_high :: "'v bcqueue \<Rightarrow> string \<Rightarrow> bool" where
  \<comment> \<open>\<open>this.items.get(candidate)?.priority !== 'high'\<close>\<close>
  "not_high q k = (case map_of (items q) k of None \<Rightarrow> True | Some (v, p) \<Rightarrow> p \<noteq> ''high'')"

definition evict :: "nat \<Rightarrow> 'v bcqueue \<Rightarrow> 'v bcqueue" where
  "evict i q = q\<lparr>items := remove_key (order q ! i) (items q), order := remove_nth i (order q),
                 dropped := Suc (dropped q), lagging := True\<rparr>"

definition append_item :: "string \<Rightarrow> 'v \<Rightarrow> string \<Rightarrow> 'v bcqueue \<Rightarrow> 'v bcqueue" where
  "append_item key x priority q =
     q\<lparr>order := order q @ [key], items := upsert key (x, priority) (items q)\<rparr>"

definition push :: "string \<Rightarrow> 'v \<Rightarrow> string \<Rightarrow> 'v bcqueue \<Rightarrow> push_result \<times> 'v bcqueue" where
  "push key x priority q =
     (if map_of (items q) key \<noteq> None
      then (\<lparr>pr_coalesced = True, pr_dropped = False\<rparr>,
            q\<lparr>items := upsert key (x, priority) (items q)\<rparr>)
      else if length (order q) \<ge> limit q
      then (let removable = find_index (not_high q) (order q) in
            if removable = None \<and> priority \<noteq> ''high''
            then (\<lparr>pr_coalesced = False, pr_dropped = True\<rparr>, q\<lparr>dropped := Suc (dropped q), lagging := True\<rparr>)
            else (\<lparr>pr_coalesced = False, pr_dropped = False\<rparr>,
                  append_item key x priority
                    (evict (case removable of None \<Rightarrow> 0 | Some i \<Rightarrow> i) q)))
      else (\<lparr>pr_coalesced = False, pr_dropped = False\<rparr>, append_item key x priority q))"

definition shift :: "'v bcqueue \<Rightarrow> (string \<times> ('v \<times> string) option) option \<times> 'v bcqueue" where
  "shift q = (case order q of
       [] \<Rightarrow> (None, q)
     | key # rest \<Rightarrow> (Some (key, map_of (items q) key),
                     q\<lparr>order := rest, items := remove_key key (items q)\<rparr>))"

definition queue_size :: "'v bcqueue \<Rightarrow> nat" where
  "queue_size q = length (order q)"

section \<open>Coverage\<close>

record coverage_report =
  denominator :: nat
  matched :: nat
  coverage :: rat
  componentMissing :: "string list"
  dangling :: "string list"

definition graphCoverage :: "gnode list \<Rightarrow> string list \<Rightarrow> (string \<times> bool) list \<Rightarrow> coverage_report" where
  \<comment> \<open>a mandatory relation is the pair of its \<open>key\<close> and \<open>present\<close>\<close>
  "graphCoverage nodes canonicalComponents mandatoryRelations =
     (let realized = map canonicalId nodes;
          missing = filter (\<lambda>i. i \<notin> set realized) canonicalComponents;
          relationKeys = map fst (filter snd mandatoryRelations);
          dang = map fst (filter (\<lambda>item. fst item \<notin> set relationKeys) mandatoryRelations);
          n = length canonicalComponents
      in \<lparr>denominator = n, matched = n - length missing,
          coverage = (if n \<noteq> 0 then of_nat (n - length missing) / of_nat n else 1),
          componentMissing = missing, dangling = dang\<rparr>)"

section \<open>Properties of the queue\<close>

text \<open>
  The promise of the queue is stated on the list of its entries in arrival order.  \<open>queue_view\<close>
  reads that list off the two containers the class keeps, and \<open>queue_inv\<close> says the containers
  agree.
\<close>

definition queue_inv :: "'v bcqueue \<Rightarrow> bool" where
  "queue_inv q \<longleftrightarrow> distinct (order q) \<and> distinct (map fst (items q))
     \<and> set (order q) = fst ` set (items q) \<and> length (order q) \<le> limit q \<and> 1 \<le> limit q"

definition queue_view :: "'v bcqueue \<Rightarrow> (string \<times> ('v \<times> string)) list" where
  "queue_view q = map (\<lambda>k. (k, the (map_of (items q) k))) (order q)"

definition high_entry :: "string \<times> ('v \<times> string) \<Rightarrow> bool" where
  "high_entry e \<longleftrightarrow> snd (snd e) = ''high''"

definition spec_push ::
  "nat \<Rightarrow> string \<Rightarrow> 'v \<Rightarrow> string \<Rightarrow> (string \<times> ('v \<times> string)) list \<Rightarrow> (string \<times> ('v \<times> string)) list" where
  "spec_push n key x priority l =
     (if key \<in> fst ` set l
      then map (\<lambda>e. if fst e = key then (key, (x, priority)) else e) l
      else if length l < n then l @ [(key, (x, priority))]
      else case find_index (\<lambda>e. \<not> high_entry e) l of
             Some i \<Rightarrow> remove_nth i l @ [(key, (x, priority))]
           | None \<Rightarrow> if priority = ''high'' then tl l @ [(key, (x, priority))] else l)"

lemma queue_invD:
  assumes "queue_inv q"
  shows "distinct (order q)" "distinct (map fst (items q))" "set (order q) = fst ` set (items q)"
    "length (order q) \<le> limit q" "1 \<le> limit q"
  using assms by (auto simp: queue_inv_def)

lemma queue_view_keys [simp]: "map fst (queue_view q) = order q"
  by (simp add: queue_view_def comp_def)

lemma queue_view_fst [simp]: "fst ` set (queue_view q) = set (order q)"
  by (metis queue_view_keys set_map)

lemma length_queue_view [simp]: "length (queue_view q) = length (order q)"
  by (simp add: queue_view_def)

lemma find_index_map: "find_index P (map f xs) = find_index (\<lambda>x. P (f x)) xs"
  by (induction xs) auto

lemma find_index_cong:
  "(\<And>x. x \<in> set xs \<Longrightarrow> P x = Q x) \<Longrightarrow> find_index P xs = find_index Q xs"
  by (induction xs) auto

lemma remove_nth_map: "remove_nth i (map f xs) = map f (remove_nth i xs)"
  by (simp add: remove_nth_def take_map drop_map)

lemma queue_key_lookup:
  assumes "queue_inv q" and "k \<in> set (order q)"
  obtains v p where "map_of (items q) k = Some (v, p)"
  using assms by (auto simp: queue_inv_def image_iff dest!: weak_map_of_SomeI)

lemma queue_key_iff: "queue_inv q \<Longrightarrow> map_of (items q) k \<noteq> None \<longleftrightarrow> k \<in> set (order q)"
  by (simp add: queue_inv_def map_of_eq_None_iff)

lemma find_removable:
  assumes "queue_inv q"
  shows "find_index (not_high q) (order q) = find_index (\<lambda>e. \<not> high_entry e) (queue_view q)"
proof -
  have "not_high q k = (\<not> high_entry (k, the (map_of (items q) k)))" if "k \<in> set (order q)" for k
    using queue_key_lookup [OF assms that] by (force simp: not_high_def high_entry_def)
  then show ?thesis
    unfolding queue_view_def find_index_map by (intro find_index_cong) simp
qed

lemma queue_inv_append_item [inv_intros]:
  assumes "queue_inv q" and "key \<notin> set (order q)" and "length (order q) < limit q"
  shows "queue_inv (append_item key x priority q)"
  using assms by (auto simp: queue_inv_def append_item_def)

lemma queue_view_append_item:
  assumes "key \<notin> set (order q)"
  shows "queue_view (append_item key x priority q) = queue_view q @ [(key, (x, priority))]"
  using assms by (auto simp: queue_view_def append_item_def)

lemma queue_evict:
  assumes "queue_inv q" and "i < length (order q)"
  shows "queue_inv (evict i q)" "length (order (evict i q)) = length (order q) - 1"
    "queue_view (evict i q) = remove_nth i (queue_view q)"
    "set (order (evict i q)) \<subseteq> set (order q)"
proof -
  note d = queue_invD [OF assms(1)]
  have s: "set (remove_nth i (order q)) = set (order q) - {order q ! i}"
    by (rule set_remove_nth [OF d(1) assms(2)])
  show "queue_inv (evict i q)"
    using d assms(2)
    by (auto simp: queue_inv_def evict_def s distinct_remove_nth length_remove_nth)
  show "length (order (evict i q)) = length (order q) - 1"
    using assms(2) by (simp add: evict_def length_remove_nth)
  show "queue_view (evict i q) = remove_nth i (queue_view q)"
    using s by (auto simp: queue_view_def evict_def remove_nth_map)
  show "set (order (evict i q)) \<subseteq> set (order q)"
    using s by (auto simp: evict_def)
qed

lemma remove_nth_0: "remove_nth 0 xs = tl xs"
  by (simp add: remove_nth_def drop_Suc)

lemma queue_view_coalesce:
  assumes "queue_inv q" and "key \<in> set (order q)"
  shows "queue_view (q\<lparr>items := upsert key (x, priority) (items q)\<rparr>)
       = map (\<lambda>e. if fst e = key then (key, (x, priority)) else e) (queue_view q)"
  by (auto simp: queue_view_def)

lemma limit_append_item [simp]: "limit (append_item key x priority q) = limit q"
  by (simp add: append_item_def)

lemma limit_evict [simp]: "limit (evict i q) = limit q"
  by (simp add: evict_def)

text \<open>The two outcomes of a push on a full queue that holds a different key.\<close>

lemma push_full:
  assumes "queue_inv q" and "key \<notin> set (order q)" and "limit q \<le> length (order q)"
  shows "push key x priority q =
     (case find_index (\<lambda>e. \<not> high_entry e) (queue_view q) of
        None \<Rightarrow> if priority = ''high''
               then (\<lparr>pr_coalesced = False, pr_dropped = False\<rparr>, append_item key x priority (evict 0 q))
               else (\<lparr>pr_coalesced = False, pr_dropped = True\<rparr>, q\<lparr>dropped := Suc (dropped q), lagging := True\<rparr>)
      | Some i \<Rightarrow> (\<lparr>pr_coalesced = False, pr_dropped = False\<rparr>, append_item key x priority (evict i q)))"
  using assms queue_key_iff [OF assms(1), of key] find_removable [OF assms(1)]
  by (auto simp: push_def Let_def split: option.splits)

lemma push_cases:
  assumes "queue_inv q"
  obtains
    (coalesce) "key \<in> set (order q)"
      "push key x priority q = (\<lparr>pr_coalesced = True, pr_dropped = False\<rparr>,
         q\<lparr>items := upsert key (x, priority) (items q)\<rparr>)"
  | (room) "key \<notin> set (order q)" "length (order q) < limit q"
      "push key x priority q =
         (\<lparr>pr_coalesced = False, pr_dropped = False\<rparr>, append_item key x priority q)"
  | (replace) i where "key \<notin> set (order q)" "length (order q) = limit q" "i < length (order q)"
      "find_index (\<lambda>e. \<not> high_entry e) (queue_view q) = (if high_entry (queue_view q ! i) then None else Some i)"
      "high_entry (queue_view q ! i) \<Longrightarrow> i = 0 \<and> priority = ''high''"
      "push key x priority q =
         (\<lparr>pr_coalesced = False, pr_dropped = False\<rparr>, append_item key x priority (evict i q))"
  | (refuse) "key \<notin> set (order q)" "length (order q) = limit q" "priority \<noteq> ''high''"
      "find_index (\<lambda>e. \<not> high_entry e) (queue_view q) = None"
      "push key x priority q = (\<lparr>pr_coalesced = False, pr_dropped = True\<rparr>,
         q\<lparr>dropped := Suc (dropped q), lagging := True\<rparr>)"
proof (cases "key \<in> set (order q)")
  case True
  then show ?thesis
    using queue_key_iff [OF assms, of key] by (intro coalesce) (auto simp: push_def)
next
  case new: False
  show ?thesis
  proof (cases "length (order q) < limit q")
    case True
    then show ?thesis
      using new queue_key_iff [OF assms, of key] by (intro room) (auto simp: push_def)
  next
    case False
    then have full: "length (order q) = limit q" "0 < length (order q)"
      using queue_invD [OF assms] by auto
    note p = push_full [OF assms new, of x priority]
    show ?thesis
    proof (cases "find_index (\<lambda>e. \<not> high_entry e) (queue_view q)")
      case None
      then have "high_entry (queue_view q ! 0)"
        using full(2) by (simp add: find_index_None)
      then show ?thesis
        using None p new full refuse replace [of 0] by (cases "priority = ''high''") auto
    next
      case (Some i)
      with find_index_Some [OF Some] show ?thesis
        using p new full by (intro replace [of i]) auto
    qed
  qed
qed

lemma queue_inv_push [inv_intros]:
  assumes "queue_inv q"
  shows "queue_inv (snd (push key x priority q))"
  using assms
proof (cases rule: push_cases [of q key x priority])
  case coalesce
  then show ?thesis using assms by (auto simp: queue_inv_def)
next
  case room
  then show ?thesis using assms by (simp add: queue_inv_append_item)
next
  case (replace i)
  note ev = queue_evict [OF assms replace(3)]
  have "length (order (evict i q)) < limit (evict i q)"
    using ev(2) replace(2,3) by simp
  then show ?thesis
    using replace(1,6) ev(1,4) by (auto intro!: queue_inv_append_item)
next
  case refuse
  then show ?thesis using assms by (simp add: queue_inv_def)
qed

lemma queue_refines_push:
  assumes "queue_inv q"
  shows "queue_view (snd (push key x priority q)) = spec_push (limit q) key x priority (queue_view q)"
  using assms
proof (cases rule: push_cases [of q key x priority])
  case coalesce
  then show ?thesis
    using assms by (simp add: queue_view_coalesce spec_push_def)
next
  case room
  then show ?thesis by (simp add: queue_view_append_item spec_push_def)
next
  case (replace i)
  note ev = queue_evict [OF assms replace(3)]
  have "key \<notin> set (order (evict i q))" using ev(4) replace(1) by auto
  then show ?thesis
    using replace ev(3) by (auto simp: queue_view_append_item spec_push_def remove_nth_0)
next
  case refuse
  then show ?thesis by (simp add: spec_push_def queue_view_def)
qed

lemma queue_inv_shift [inv_intros]:
  assumes "queue_inv q"
  shows "queue_inv (snd (shift q))"
proof (cases "order q")
  case (Cons key rest)
  then have "insert key (set rest) = fst ` set (items q)" "key \<notin> set rest"
    using queue_invD [OF assms] by auto
  then have "set rest = fst ` set (items q) - {key}" by blast
  then show ?thesis
    using Cons assms by (auto simp: queue_inv_def shift_def)
qed (use assms in \<open>simp add: shift_def\<close>)

lemma queue_refines_shift:
  assumes "queue_inv q"
  shows "fst (shift q) = (case queue_view q of [] \<Rightarrow> None | e # _ \<Rightarrow> Some (fst e, Some (snd e)))"
    "queue_view (snd (shift q)) = tl (queue_view q)"
proof -
  have "\<exists>x. map_of (items q) k = Some x" if "k \<in> set (order q)" for k
    using queue_key_iff [OF assms, of k] that by auto
  then show "fst (shift q) = (case queue_view q of [] \<Rightarrow> None | e # _ \<Rightarrow> Some (fst e, Some (snd e)))"
    by (cases "order q") (force simp: shift_def queue_view_def)+
  show "queue_view (snd (shift q)) = tl (queue_view q)"
    using queue_invD(1) [OF assms] by (auto simp: shift_def queue_view_def split: list.splits)
qed

text \<open>
  What a client of the queue relies on.  \<open>put\<close> enqueues (or coalesces), \<open>take1\<close> removes the
  oldest entry, \<open>lost\<close> counts the entries given up.
\<close>

locale bounded_fifo =
  fixes inv :: "'q \<Rightarrow> bool"
    and view :: "'q \<Rightarrow> (string \<times> ('v \<times> string)) list"
    and cap :: "'q \<Rightarrow> nat"
    and lost :: "'q \<Rightarrow> nat"
    and put :: "string \<Rightarrow> 'v \<Rightarrow> string \<Rightarrow> 'q \<Rightarrow> 'q"
    and take1 :: "'q \<Rightarrow> 'q"
  assumes put_inv: "inv q \<Longrightarrow> inv (put k v p q)"
    and take_inv: "inv q \<Longrightarrow> inv (take1 q)"
    and put_cap: "cap (put k v p q) = cap q"
    and take_cap: "cap (take1 q) = cap q"
    and bounded: "inv q \<Longrightarrow> length (view q) \<le> cap q"
    and put_view: "inv q \<Longrightarrow> view (put k v p q) = spec_push (cap q) k v p (view q)"
    and take_view: "inv q \<Longrightarrow> view (take1 q) = tl (view q)"
    and put_lost: "inv q \<Longrightarrow> lost (put k v p q) + length (view (put k v p q))
        = lost q + length (view q) + (if k \<in> fst ` set (view q) then 0 else 1)"
begin

lemma puts_inv: "inv q \<Longrightarrow> inv (foldl (\<lambda>q e. put (fst e) (fst (snd e)) (snd (snd e)) q) q es)"
  by (induction es arbitrary: q) (auto intro: put_inv)

lemma puts_cap: "cap (foldl (\<lambda>q e. put (fst e) (fst (snd e)) (snd (snd e)) q) q es) = cap q"
  by (induction es arbitrary: q) (auto simp: put_cap)

lemma puts_bounded:
  assumes "inv q"
  shows "length (view (foldl (\<lambda>q e. put (fst e) (fst (snd e)) (snd (snd e)) q) q es)) \<le> cap q"
  using bounded [OF puts_inv [OF assms]] by (simp add: puts_cap)

lemma put_keeps_high:
  assumes "inv q" and "e \<in> set (view q)" and "high_entry e" and "fst e \<noteq> k" and "p \<noteq> ''high''"
  shows "e \<in> set (view (put k v p q))"
proof (cases "k \<in> fst ` set (view q)")
  case True
  with assms show ?thesis
    by (force simp: put_view spec_push_def)
next
  case new: False
  show ?thesis
  proof (cases "find_index (\<lambda>e. \<not> high_entry e) (view q)")
    case None
    with new assms show ?thesis by (auto simp: put_view spec_push_def)
  next
    case (Some i)
    have i: "i < length (view q)" "\<not> high_entry (view q ! i)"
      using find_index_Some [OF Some] by auto
    have "e \<in> set (take i (view q) @ view q ! i # drop (Suc i) (view q))"
      using assms(2) remove_nth_split [OF i(1)] by simp
    then have "e \<in> set (remove_nth i (view q))"
      using i(2) assms(3) by (auto simp: remove_nth_def)
    with Some new assms(1,2) show ?thesis by (auto simp: put_view spec_push_def)
  qed
qed

lemma puts_keep_high:
  assumes "inv q" and "e \<in> set (view q)" and "high_entry e"
    and "\<And>d. d \<in> set es \<Longrightarrow> fst d \<noteq> fst e \<and> snd (snd d) \<noteq> ''high''"
  shows "e \<in> set (view (foldl (\<lambda>q e. put (fst e) (fst (snd e)) (snd (snd e)) q) q es))"
  using assms
proof (induction es arbitrary: q)
  case (Cons d es)
  have "fst e \<noteq> fst d" "snd (snd d) \<noteq> ''high''"
    using Cons.prems(4) [of d] by auto
  then have "e \<in> set (view (put (fst d) (fst (snd d)) (snd (snd d)) q))"
    by (intro put_keeps_high [OF Cons.prems(1-3)]) auto
  then show ?case
    using Cons by (auto intro: put_inv)
qed simp

end

interpretation bcq: bounded_fifo queue_inv queue_view limit dropped
  "\<lambda>k x p q. snd (push k x p q)" "\<lambda>q. snd (shift q)"
proof
  fix q :: "'v bcqueue" and k p :: string and x :: 'v
  show "limit (snd (push k x p q)) = limit q"
    by (auto simp: push_def Let_def)
  show "limit (snd (shift q)) = limit q"
    by (simp add: shift_def split: list.splits)
  assume q: "queue_inv q"
  show "queue_inv (snd (push k x p q))" "queue_inv (snd (shift q))"
    by (rule queue_inv_push [OF q], rule queue_inv_shift [OF q])
  show "length (queue_view q) \<le> limit q"
    using q by (simp add: queue_inv_def)
  show "queue_view (snd (push k x p q)) = spec_push (limit q) k x p (queue_view q)"
    by (rule queue_refines_push [OF q])
  show "queue_view (snd (shift q)) = tl (queue_view q)"
    by (rule queue_refines_shift [OF q])
  from q show "dropped (snd (push k x p q)) + length (queue_view (snd (push k x p q)))
      = dropped q + length (queue_view q) + (if k \<in> fst ` set (queue_view q) then 0 else 1)"
  proof (cases rule: push_cases [of q k x p])
    case (replace i)
    then show ?thesis
      using queue_evict(2) [OF q replace(3)] by (simp add: append_item_def evict_def)
  qed (auto simp: append_item_def)
qed

section \<open>Properties of the barrier\<close>

fun mark_all :: "(string \<times> jsval) list \<Rightarrow> barrier \<Rightarrow> string + barrier" where
  "mark_all [] b = Inr b"
| "mark_all (m # ms) b = rbind (mark (fst m) (snd m) b) (mark_all ms)"

lemma mark_all_snoc: "mark_all (ms @ [m]) b = rbind (mark_all ms b) (mark (fst m) (snd m))"
  by (induction ms arbitrary: b) (auto simp: rbind_def split: sum.splits)

definition barrier_records :: "string list \<Rightarrow> (string \<times> jsval) list \<Rightarrow> barrier \<Rightarrow> bool" where
  "barrier_records scopes ms b \<longleftrightarrow> expected b = uniq scopes
     \<and> distinct (complete b) \<and> distinct (failed b) \<and> set (complete b) \<subseteq> set scopes
     \<and> (\<forall>s. s \<in> set (complete b) \<longleftrightarrow> map_of (rev ms) s = Some (JBool True))
     \<and> (\<forall>s. s \<in> set (failed b) \<longleftrightarrow> (\<exists>r. map_of (rev ms) s = Some r \<and> r \<noteq> JBool True))"

lemma distinct_removeAll_insert [simp]:
  "distinct xs \<Longrightarrow> distinct (removeAll x xs)" "distinct xs \<Longrightarrow> distinct (List.insert x xs)"
  by (auto simp: distinct_removeAll)

lemma mark_all_records:
  "mark_all ms (new_barrier scopes) = Inr b \<Longrightarrow> barrier_records scopes ms b"
proof (induction ms arbitrary: b rule: rev_induct)
  case Nil
  then show ?case by (auto simp: barrier_records_def new_barrier_def)
next
  case (snoc m ms)
  then obtain b0 where b0: "mark_all ms (new_barrier scopes) = Inr b0"
    and m: "mark (fst m) (snd m) b0 = Inr b"
    by (auto simp: mark_all_snoc res_splits)
  have r: "barrier_records scopes ms b0" by (rule snoc.IH [OF b0])
  from m have "fst m \<in> set scopes"
    using r by (auto simp: mark_def barrier_records_def split: if_splits)
  with m r show ?case
    by (auto simp: mark_def barrier_records_def split: if_splits)
qed

lemma barrier_complete_iff:
  assumes "barrier_records scopes ms b"
  shows "barrier_complete b \<longleftrightarrow> (\<forall>s\<in>set scopes. map_of (rev ms) s = Some (JBool True))
     \<and> failed b = []"
proof -
  have r: "distinct (complete b)" "set (complete b) \<subseteq> set scopes" "expected b = uniq scopes"
    "\<And>s. s \<in> set (complete b) \<longleftrightarrow> map_of (rev ms) s = Some (JBool True)"
    using assms by (auto simp: barrier_records_def)
  have "length (complete b) = length (expected b) \<longleftrightarrow> card (set (complete b)) = card (set scopes)"
    using r(1,3) by (simp add: distinct_card length_uniq)
  also have "\<dots> \<longleftrightarrow> set (complete b) = set scopes"
    using r(2) by (metis List.finite_set card_subset_eq)
  also have "\<dots> \<longleftrightarrow> (\<forall>s\<in>set scopes. map_of (rev ms) s = Some (JBool True))"
    using r(2,4) by blast
  finally show ?thesis by (auto simp: barrier_complete_def)
qed

lemma marks_in_scope:
  "mark_all ms b = Inr b' \<Longrightarrow> fst ` set ms \<subseteq> set (expected b)"
proof (induction ms arbitrary: b)
  case (Cons m ms)
  then obtain b1 where b1: "mark (fst m) (snd m) b = Inr b1" "mark_all ms b1 = Inr b'"
    by (auto simp: res_splits)
  then have "expected b1 = expected b" "fst m \<in> set (expected b)"
    by (auto simp: mark_def split: if_splits)
  with Cons.IH [OF b1(2)] show ?case by simp
qed simp

section \<open>Properties of projection versions\<close>

abbreviation version_fields :: "string list" where
  "version_fields \<equiv> [''fencingEpoch'', ''collectionEpoch'', ''streamSequence'']"

definition wf_version :: "jsval \<Rightarrow> bool" where
  "wf_version v \<longleftrightarrow> list_all (\<lambda>f. num_is_finite (version_field v f)) version_fields"

definition version_key :: "jsval \<Rightarrow> rat list" where
  "version_key v = map (\<lambda>f. case version_field v f of Fin r \<Rightarrow> r | _ \<Rightarrow> 0) version_fields"

lemma compare_fields_lex:
  assumes "list_all (\<lambda>f. num_is_finite (version_field a f)) fs"
    and "list_all (\<lambda>f. num_is_finite (version_field b f)) fs"
  shows "compare_fields fs a b =
     (let ka = map (\<lambda>f. case version_field a f of Fin r \<Rightarrow> r | _ \<Rightarrow> 0) fs;
          kb = map (\<lambda>f. case version_field b f of Fin r \<Rightarrow> r | _ \<Rightarrow> 0) fs
      in if ka < kb then Fin 1 else if ka = kb then Fin 0 else Fin (- 1))"
  using assms
proof (induction fs)
  case (Cons f fs)
  then obtain r s where "version_field a f = Fin r" "version_field b f = Fin s"
    by (auto simp: num_is_finite_def split: jnum.splits)
  with Cons show ?case
    by (auto simp: Let_def num_eq_def num_sub_def sgn_if)
qed simp

lemma compare_version_key:
  assumes "wf_version a" and "wf_version b"
  shows "compareProjectionVersion a b =
     (if version_key a < version_key b then Fin 1 else if version_key a = version_key b then Fin 0
      else Fin (- 1))"
  using compare_fields_lex [of a version_fields b] assms
  unfolding compareProjectionVersion_def wf_version_def version_key_def Let_def by blast

text \<open>
  The contract of a version order: a projection that keeps the incoming row only when it is
  newer ends with a row that no other row of the stream supersedes, in whatever order the rows
  arrive.
\<close>

locale projection_order =
  fixes wf :: "'a \<Rightarrow> bool"
    and newer :: "'a \<Rightarrow> 'a \<Rightarrow> bool"
  assumes newer_irrefl: "wf a \<Longrightarrow> \<not> newer a a"
    and newer_trans: "wf a \<Longrightarrow> wf b \<Longrightarrow> wf c \<Longrightarrow> newer a b \<Longrightarrow> newer b c \<Longrightarrow> newer a c"
    and newer_weak: "wf a \<Longrightarrow> wf b \<Longrightarrow> wf c \<Longrightarrow> newer a c \<Longrightarrow> newer a b \<or> newer b c"
begin

lemma newer_asym: "wf a \<Longrightarrow> wf b \<Longrightarrow> newer a b \<Longrightarrow> \<not> newer b a"
  using newer_irrefl newer_trans by blast

lemma projected_maximal:
  assumes "wf a" and "\<And>x. x \<in> set xs \<Longrightarrow> wf x"
  shows "wf (foldl (\<lambda>cur inc. if newer cur inc then inc else cur) a xs)
     \<and> (\<forall>x\<in>set (a # xs). \<not> newer (foldl (\<lambda>cur inc. if newer cur inc then inc else cur) a xs) x)"
  using assms
proof (induction xs rule: rev_induct)
  case Nil
  then show ?case by (simp add: newer_irrefl)
next
  case (snoc y ys)
  let ?w = "foldl (\<lambda>cur inc. if newer cur inc then inc else cur) a ys"
  have w: "wf ?w" "\<forall>x\<in>set (a # ys). \<not> newer ?w x" and y: "wf y"
    using snoc by auto
  have wfx: "wf x" if "x \<in> set (a # ys)" for x
    using that snoc.prems by auto
  show ?case
  proof (cases "newer ?w y")
    case True
    have "\<not> newer y x" if "x \<in> set (a # ys)" for x
      using newer_trans [OF w(1) y wfx [OF that] True] w(2) that by blast
    with True y show ?thesis by (auto simp: newer_irrefl)
  next
    case False
    with w show ?thesis by auto
  qed
qed

end

interpretation projection: projection_order wf_version "\<lambda>a b. compareProjectionVersion a b = Fin 1"
  by unfold_locales (auto simp: compare_version_key split: if_splits)

section \<open>Properties of stable JSON\<close>

text \<open>
  Two values are the same up to property order when arrays agree element by element and objects
  have the same properties, in any order, with values that are the same up to property order.
\<close>

inductive same_json :: "jsval \<Rightarrow> jsval \<Rightarrow> bool" where
  same_refl: "same_json v v"
| same_arr: "list_all2 same_json xs ys \<Longrightarrow> same_json (JArr xs) (JArr ys)"
| same_obj: "distinct (map fst kvs) \<Longrightarrow>
     list_all2 (\<lambda>a b. fst a = fst b \<and> same_json (snd a) (snd b)) kvs kvs' \<Longrightarrow>
     mset kvs' = mset kvs'' \<Longrightarrow> same_json (JObj kvs) (JObj kvs'')"

lemma sort_keys_list_all2:
  "list_all2 (\<lambda>a b. fst a = fst b \<and> R (snd a) (snd b)) xs ys \<Longrightarrow>
   list_all2 (\<lambda>a b. fst a = fst b \<and> R (snd a) (snd b)) (sort_keys xs) (sort_keys ys)"
  unfolding sort_keys_def
proof (induction rule: list_all2_induct)
  case (Cons x xs y ys)
  have ins: "list_all2 (\<lambda>a b. fst a = fst b \<and> R (snd a) (snd b)) (insort_key fst x as) (insort_key fst y bs)"
    if "list_all2 (\<lambda>a b. fst a = fst b \<and> R (snd a) (snd b)) as bs" for as bs
    using that
  proof (induction rule: list_all2_induct)
    case Nil
    then show ?case using Cons.hyps(1) by simp
  next
    case (Cons a as b bs)
    then show ?case using \<open>fst x = fst y \<and> R (snd x) (snd y)\<close> by auto
  qed
  show ?case using ins [OF Cons.IH] by simp
qed simp

lemma stableJson_same:
  assumes "same_json v w"
  shows "stableJson v = stableJson w"
  using assms
proof (induction rule: same_json.induct)
  case (same_arr xs ys)
  then have "map (\<lambda>x. case stableJson x of None \<Rightarrow> [] | Some t \<Rightarrow> t) xs
           = map (\<lambda>x. case stableJson x of None \<Rightarrow> [] | Some t \<Rightarrow> t) ys"
    by (induction rule: list_all2_induct) auto
  then show ?case by simp
next
  case (same_obj kvs kvs' kvs'')
  let ?render = "\<lambda>kv. json_string (fst kv) @ '':''
     @ (case stableJson (snd kv) of None \<Rightarrow> ''undefined'' | Some t \<Rightarrow> t)"
  have keys: "map fst kvs' = map fst kvs"
    using same_obj.IH by (induction rule: list_all2_induct) auto
  have "sort_keys kvs'' = sort_keys kvs'"
    using sort_keys_perm [OF same_obj.hyps(2)] keys same_obj.hyps(1) by simp
  moreover have "list_all2 (\<lambda>a b. fst a = fst b \<and> stableJson (snd a) = stableJson (snd b)) kvs kvs'"
    using same_obj.IH by (rule list_all2_mono) auto
  then have "list_all2 (\<lambda>a b. fst a = fst b \<and> stableJson (snd a) = stableJson (snd b)) (sort_keys kvs) (sort_keys kvs')"
    by (rule sort_keys_list_all2)
  then have "map ?render (sort_keys kvs) = map ?render (sort_keys kvs')"
    by (induction rule: list_all2_induct) auto
  ultimately show ?case by simp
qed simp

section \<open>Properties of sanitising\<close>

fun within_limits :: "nat \<Rightarrow> jsval \<Rightarrow> bool" where
  \<comment> \<open>nested at most \<open>n\<close> containers deep, every container and text bounded, no forbidden name\<close>
  "within_limits n (JStr s) \<longleftrightarrow> length s \<le> 1000 \<and> list_all (\<lambda>c. \<not> stripped_control c) s"
| "within_limits n (JArr xs) \<longleftrightarrow> 0 < n \<and> length xs \<le> 100 \<and> list_all (within_limits (n - 1)) xs"
| "within_limits n (JObj kvs) \<longleftrightarrow> 0 < n \<and> length kvs \<le> 200
     \<and> list_all (\<lambda>kv. \<not> forbidden_key (fst kv) \<and> within_limits (n - 1) (snd kv)) kvs"
| "within_limits n v \<longleftrightarrow> True"

lemma depth_limited_text: "within_limits n (JStr ''[depth-limited]'')"
  by (simp add: stripped_control_def)

lemma length_filter_take: "length (filter P (take n xs)) \<le> n"
  by (metis length_filter_le length_take min.cobounded2 order_trans)

lemma sanitize_within: "depth \<le> 9 \<Longrightarrow> within_limits (9 - depth) (sanitizeOperationalValue depth v)"
proof (induction depth v rule: sanitizeOperationalValue.induct)
  case (1 depth v)
  note unf = sanitizeOperationalValue.simps [of depth v]
  show ?case
  proof (cases "depth > 8")
    case True
    then show ?thesis unfolding unf using depth_limited_text by simp
  next
    case False
    then have d: "9 - depth = Suc (8 - depth)" "9 - Suc depth = 8 - depth" "Suc depth \<le> 9" by auto
    show ?thesis
    proof (cases v)
      case (JStr s)
      have "list_all (\<lambda>c. \<not> stripped_control c) (take 1000 (filter (\<lambda>c. \<not> stripped_control c) s))"
        by (auto simp: list_all_iff dest: in_set_takeD)
      with JStr False show ?thesis unfolding unf by simp
    next
      case (JArr xs)
      have "within_limits (8 - depth) (sanitizeOperationalValue (Suc depth) x)" if "x \<in> set xs" for x
        using "1.IH"(1) [OF False JArr that d(3)] d(2) by simp
      then have "list_all (within_limits (8 - depth)) (take 100 (map (sanitizeOperationalValue (Suc depth)) xs))"
        by (auto simp: list_all_iff dest!: in_set_takeD)
      with JArr False d show ?thesis unfolding unf by simp
    next
      case (JObj kvs)
      let ?es = "take 200 (map (\<lambda>kv. (fst kv, sanitizeOperationalValue (Suc depth) (snd kv))) kvs)"
      have "within_limits (8 - depth) (sanitizeOperationalValue (Suc depth) (snd kv))" if "kv \<in> set kvs" for kv
        using "1.IH"(2) [OF False JObj that d(3)] d(2) by simp
      then have "\<forall>kv\<in>set ?es. within_limits (8 - depth) (snd kv)"
        by (auto dest!: in_set_takeD)
      then have "list_all (\<lambda>kv. \<not> forbidden_key (fst kv) \<and> within_limits (8 - depth) (snd kv))
          (filter (\<lambda>kv. \<not> forbidden_key (fst kv) \<and> fst kv \<noteq> ''__proto__'') ?es)"
        by (simp add: list_all_iff)
      with JObj False d show ?thesis
        unfolding unf by (simp add: length_filter_take)
    qed (use False in \<open>simp_all add: sanitizeOperationalValue.simps\<close>)
  qed
qed

section \<open>Properties of node identities\<close>

lemma of_char_hex_upper: "n < 16 \<Longrightarrow> (of_char (hex_upper n) :: nat) = (if n < 10 then 48 + n else 55 + n)"
  by (simp add: hex_upper_def)

lemma hex_upper_inj: "m < 16 \<Longrightarrow> n < 16 \<Longrightarrow> hex_upper m = hex_upper n \<Longrightarrow> m = n"
proof -
  assume mn: "m < 16" "n < 16" and "hex_upper m = hex_upper n"
  then have "(of_char (hex_upper m) :: nat) = of_char (hex_upper n)" by simp
  then have "(if m < 10 then 48 + m else 55 + m) = (if n < 10 then 48 + n else 55 + n)"
    by (simp only: of_char_hex_upper [OF mn(1)] of_char_hex_upper [OF mn(2)])
  then show "m = n" by (simp split: if_splits)
qed

lemma hex_upper_no_slash:
  assumes "n < 16"
  shows "hex_upper n \<noteq> CHR ''/''"
proof
  assume "hex_upper n = CHR ''/''"
  then have "(of_char (hex_upper n) :: nat) = 47" by simp
  then show False
    using assms by (simp only: of_char_hex_upper [OF assms]) (simp split: if_splits)
qed

lemma percent_byte_inj:
  assumes "percent_byte m @ x = percent_byte n @ y" and "m < 256" and "n < 256"
  shows "m = n"
proof -
  have "hex_upper (m div 16) = hex_upper (n div 16)" "hex_upper (m mod 16) = hex_upper (n mod 16)"
    using assms(1) by (auto simp: percent_byte_def)
  then have "m div 16 = n div 16" "m mod 16 = n mod 16"
    using assms(2,3) by (auto intro!: hex_upper_inj)
  then show ?thesis by (metis mult_div_mod_eq)
qed

lemma percent_byte_no_slash: "n < 256 \<Longrightarrow> CHR ''/'' \<notin> set (percent_byte n)"
  using hex_upper_no_slash [of "n div 16"] hex_upper_no_slash [of "n mod 16"]
  unfolding percent_byte_def by force

lemma utf8_bytes:
  "192 + (of_char (c::char) :: nat) div 64 < 256" "128 + (of_char (c::char) :: nat) mod 64 < 256"
proof -
  have "(of_char c :: nat) < 256" by simp
  then show "192 + (of_char c :: nat) div 64 < 256" "128 + (of_char c :: nat) mod 64 < 256"
    by linarith+
qed

lemma uri_char_no_slash: "CHR ''/'' \<notin> set (uri_char c)"
proof -
  have "\<not> uri_unreserved (CHR ''/'')"
    by (simp add: uri_unreserved_def alpha_char_def digit_char_def)
  then show ?thesis
    using percent_byte_no_slash [OF utf8_bytes(1) [of c]] percent_byte_no_slash [OF utf8_bytes(2) [of c]]
      percent_byte_no_slash [of "of_char c"]
    by (cases "uri_unreserved c") (auto simp: uri_char_def Let_def)
qed

text \<open>The encodings of different characters are never prefixes of one another.\<close>

lemma uri_char_prefix_free:
  assumes "uri_char c @ x = uri_char d @ y"
  shows "c = d"
proof -
  have pct: "\<not> uri_unreserved (CHR ''%'')"
    by (simp add: uri_unreserved_def alpha_char_def digit_char_def)
  have hd_pct: "hd (percent_byte n @ z) = CHR ''%''" for n z
    by (simp add: percent_byte_def)
  let ?n = "of_char c :: nat" and ?m = "of_char d :: nat"
  consider "uri_unreserved c" | "uri_unreserved d" | "\<not> uri_unreserved c" "\<not> uri_unreserved d" by blast
  then show ?thesis
  proof cases
    case 1
    then have "uri_char c = [c]" by (simp add: uri_char_def)
    then have "hd (uri_char d @ y) = c" using assms [symmetric] by simp
    then show ?thesis
      using 1 pct by (auto simp: uri_char_def Let_def hd_pct split: if_splits)
  next
    case 2
    then have "uri_char d = [d]" by (simp add: uri_char_def)
    then have "hd (uri_char c @ x) = d" using assms by simp
    then show ?thesis
      using 2 pct by (auto simp: uri_char_def Let_def hd_pct split: if_splits)
  next
    case 3
    have enc: "uri_char e @ z = percent_byte (if (of_char e :: nat) < 128 then of_char e else 192 + of_char e div 64)
        @ (if (of_char e :: nat) < 128 then z else percent_byte (128 + of_char e mod 64) @ z)"
      if "\<not> uri_unreserved e" for e z
      using that by (simp add: uri_char_def Let_def)
    have lt: "(if (of_char e :: nat) < 128 then of_char e else 192 + of_char e div 64) < (256::nat)" for e
      using utf8_bytes(1) [of e] by simp
    note eq = percent_byte_inj [OF assms [unfolded enc [OF 3(1)] enc [OF 3(2)]] lt lt]
    show ?thesis
    proof (cases "?n < 128 \<or> ?m < 128")
      case True
      with eq have "?n = ?m" by (auto split: if_splits)
      then show ?thesis by simp
    next
      case False
      with eq have "?n div 64 = ?m div 64" by simp
      moreover have "percent_byte (128 + ?n mod 64) @ x = percent_byte (128 + ?m mod 64) @ y"
        using assms [unfolded enc [OF 3(1)] enc [OF 3(2)]] False eq by simp
      from percent_byte_inj [OF this utf8_bytes(2) utf8_bytes(2)]
      have "?n mod 64 = ?m mod 64" by simp
      ultimately have "?n = ?m" by (metis mult_div_mod_eq)
      then show ?thesis by simp
    qed
  qed
qed

lemma uri_char_nonempty: "uri_char c \<noteq> []"
  by (simp add: uri_char_def Let_def percent_byte_def)

lemma encode_uri_inj: "encode_uri s = encode_uri t \<Longrightarrow> s = t"
proof (induction s arbitrary: t)
  case Nil
  then show ?case using uri_char_nonempty by (cases t) (auto simp: encode_uri_def)
next
  case (Cons c s)
  then obtain d t' where t: "t = d # t'"
    using uri_char_nonempty by (cases t) (auto simp: encode_uri_def)
  with Cons.prems have "uri_char c @ encode_uri s = uri_char d @ encode_uri t'"
    by (simp add: encode_uri_def)
  with uri_char_prefix_free have "c = d" by blast
  with \<open>uri_char c @ encode_uri s = uri_char d @ encode_uri t'\<close> Cons.IH t show ?case by simp
qed

lemma encode_uri_no_slash: "CHR ''/'' \<notin> set (encode_uri s)"
  by (auto simp: encode_uri_def uri_char_no_slash)

lemma append_slash_eq:
  assumes "a @ CHR ''/'' # b = a' @ CHR ''/'' # b'" and "CHR ''/'' \<notin> set a" and "CHR ''/'' \<notin> set a'"
  shows "a = a' \<and> b = b'"
proof -
  have "takeWhile (\<lambda>c. c \<noteq> CHR ''/'') (a @ CHR ''/'' # b) = a"
    using assms(2) by (subst takeWhile_append2) auto
  moreover have "takeWhile (\<lambda>c. c \<noteq> CHR ''/'') (a' @ CHR ''/'' # b') = a'"
    using assms(3) by (subst takeWhile_append2) auto
  ultimately have "a = a'" using assms(1) by simp
  with assms(1) show ?thesis by simp
qed

lemma canonicalNodeId_inj:
  assumes "canonicalNodeId cl au kind ns nm uid = Inr i" and "canonicalNodeId cl au kind' ns' nm' uid' = Inr i"
  shows "trim (str_or_empty kind) = trim (str_or_empty kind') \<and> trim (str_or_empty ns) = trim (str_or_empty ns')
    \<and> (if trim (str_or_empty uid) = [] then trim (str_or_empty nm) else trim (str_or_empty uid))
      = (if trim (str_or_empty uid') = [] then trim (str_or_empty nm') else trim (str_or_empty uid'))"
proof -
  let ?id = "\<lambda>u n. if trim (str_or_empty u) = [] then trim (str_or_empty n) else trim (str_or_empty u)"
  have seg: "encode_uri (trim (str_or_empty kind)) @ CHR ''/'' # encode_uri (trim (str_or_empty ns)) @ CHR ''/'' # encode_uri (?id uid nm)
       = encode_uri (trim (str_or_empty kind')) @ CHR ''/'' # encode_uri (trim (str_or_empty ns')) @ CHR ''/'' # encode_uri (?id uid' nm')"
    using assms by (auto simp: canonicalNodeId_def Let_def split: if_splits)
  note 1 = append_slash_eq [OF seg encode_uri_no_slash encode_uri_no_slash]
  note 2 = append_slash_eq [OF conjunct2 [OF 1] encode_uri_no_slash encode_uri_no_slash]
  show ?thesis
    using 1 2 encode_uri_inj by blast
qed

section \<open>Properties of the relation builder\<close>

definition rel_wf :: "gnode list \<Rightarrow> relation \<Rightarrow> bool" where
  "rel_wf nodes r \<longleftrightarrow> relationType r \<in> {''owns'', ''contains''} \<and> fromNodeId r \<noteq> toNodeId r
     \<and> fromNodeId r \<in> nodeId ` set nodes \<and> toNodeId r \<in> nodeId ` set nodes"

definition rels_wf :: "gnode list \<Rightarrow> (string \<times> relation) list \<Rightarrow> bool" where
  "rels_wf nodes rels \<longleftrightarrow> distinct (map fst rels)
     \<and> (\<forall>kr\<in>set rels. fst kr = relationKey (snd kr) \<and> rel_wf nodes (snd kr))"

lemma set_upsert_sub: "set (upsert k v kvs) \<subseteq> insert (k, v) (set kvs)"
  by (induction k v kvs rule: upsert.induct) auto

lemma rels_wf_upsert:
  "rels_wf nodes rels \<Longrightarrow> rel_wf nodes r \<Longrightarrow> rels_wf nodes (upsert (relationKey r) r rels)"
  using set_upsert_sub [of "relationKey r" r rels] by (fastforce simp: rels_wf_def)

lemma alias_index_values: "snd ` set (alias_index nodes) \<subseteq> set nodes"
proof -
  have "snd ` set (foldl (\<lambda>m n. upsert (node_alias n) n m) m ns) \<subseteq> snd ` set m \<union> set ns" for m ns
  proof (induction ns arbitrary: m)
    case (Cons n ns)
    have "snd ` set (upsert (node_alias n) n m) \<subseteq> insert n (snd ` set m)"
      using image_mono [OF set_upsert_sub [of "node_alias n" n m], of snd] by simp
    with Cons.IH [of "upsert (node_alias n) n m"] show ?case by auto
  qed simp
  from this [of "[]" nodes] show ?thesis by (simp add: alias_index_def)
qed

lemma graphRelation_Inr:
  "graphRelation from rt to ctx = Inr r \<Longrightarrow> fromNodeId r = nodeId from \<and> toNodeId r = nodeId to
     \<and> nodeId from \<noteq> nodeId to \<and> relationType r = (if rt = ''owned_by'' then ''owns'' else rt)
     \<and> relationType r \<in> set RELATION_TYPES"
  by (auto simp: graphRelation_def Let_def split: if_splits)

lemma alias_target: "map_of (alias_index nodes) k = Some n \<Longrightarrow> n \<in> set nodes"
  using alias_index_values [of nodes] by (force dest: map_of_SomeD)

lemma add_owner_relations_wf:
  assumes "add_owner_relations (alias_index nodes) node ctx owners rels = Inr rels'"
    and "node \<in> set nodes" and "rels_wf nodes rels"
  shows "rels_wf nodes rels'"
  using assms
proof (induction "alias_index nodes" node ctx owners rels rule: add_owner_relations.induct)
  case (2 node ctx owner owners rels)
  show ?case
  proof (cases "map_of (alias_index nodes) (to_lower (str_or_empty (fld owner ''kind'')) @ ''|''
      @ namespace node @ ''|'' @ str_or_empty (fld owner ''name''))")
    case None
    with 2 show ?thesis by (auto split: if_splits)
  next
    case (Some target)
    with "2.prems"(1) obtain r0 where r0: "graphRelation node ''owned_by'' target ctx = Inr r0"
      and rest: "add_owner_relations (alias_index nodes) node ctx owners
        (upsert (relationKey (r0\<lparr>fromNodeId := nodeId target, relationType := ''owns'', toNodeId := nodeId node\<rparr>))
           (r0\<lparr>fromNodeId := nodeId target, relationType := ''owns'', toNodeId := nodeId node\<rparr>) rels) = Inr rels'"
      and owner: "\<not> nullish owner"
      by (auto simp: res_splits Let_def split: if_splits)
    have "rel_wf nodes (r0\<lparr>fromNodeId := nodeId target, relationType := ''owns'', toNodeId := nodeId node\<rparr>)"
      using graphRelation_Inr [OF r0] alias_target [OF Some] "2.prems"(2) by (auto simp: rel_wf_def)
    from rels_wf_upsert [OF "2.prems"(3) this]
    show ?thesis
      using "2.hyps"(2) [OF owner Some refl rest "2.prems"(2)] by simp
  qed
qed simp

lemma add_namespace_relation_wf:
  assumes "add_namespace_relation (alias_index nodes) node ctx rels = Inr rels'"
    and "node \<in> set nodes" and "rels_wf nodes rels"
  shows "rels_wf nodes rels'"
proof -
  consider "rels' = rels"
    | n r where "n \<in> set nodes" "graphRelation n ''contains'' node ctx = Inr r"
        "rels' = upsert (relationKey r) r rels"
    using assms(1) by (auto simp: add_namespace_relation_def res_splits dest: alias_target split: if_splits option.splits)
  then show ?thesis
  proof cases
    case (2 n r)
    have "rel_wf nodes r"
      using graphRelation_Inr [OF 2(2)] 2(1) assms(2) by (auto simp: rel_wf_def)
    with 2 assms(3) show ?thesis by (simp add: rels_wf_upsert)
  qed (use assms(3) in simp)
qed

lemma add_node_relations_wf:
  assumes "add_node_relations (alias_index nodes) ctx ns rels = Inr rels'"
    and "set ns \<subseteq> set nodes" and "rels_wf nodes rels"
  shows "rels_wf nodes rels'"
  using assms
  by (induction ns arbitrary: rels)
     (auto simp: res_splits dest: add_owner_relations_wf add_namespace_relation_wf)

section \<open>What the component promises\<close>

text \<open>C2: the bounded coalescing queue implements a bounded first-in first-out list of entries:
  a push is the abstract push (coalesce in place, append while there is room, otherwise give up the
  oldest entry that is not high priority, the oldest entry at all only for a high-priority newcomer),
  a shift hands out the oldest entry and removes it, and both keep the two containers consistent.\<close>

theorem queue_implements_bounded_fifo:
  assumes "queue_inv q"
  shows "queue_view (snd (push k x p q)) = spec_push (limit q) k x p (queue_view q)
    \<and> queue_inv (snd (push k x p q))
    \<and> fst (shift q) = (case queue_view q of [] \<Rightarrow> None | e # _ \<Rightarrow> Some (fst e, Some (snd e)))
    \<and> queue_view (snd (shift q)) = tl (queue_view q) \<and> queue_inv (snd (shift q))"
  by (simp add: assms queue_refines_push queue_refines_shift queue_inv_push queue_inv_shift)

definition sample_queue :: "nat bcqueue" where
  "sample_queue = \<lparr>limit = 2, items = [(''a'', (1, ''high'')), (''b'', (2, ''normal''))],
     order = [''a'', ''b''], dropped = 0, lagging = False\<rparr>"

theorem queue_implements_bounded_fifo_witness:
  "queue_inv sample_queue
   \<and> queue_view (snd (push ''c'' 3 ''normal'' sample_queue)) = [(''a'', (1, ''high'')), (''c'', (3, ''normal''))]
   \<and> fst (shift sample_queue) = Some (''a'', Some (1, ''high''))"
proof -
  have i: "queue_inv sample_queue" by (simp add: queue_inv_def sample_queue_def)
  show ?thesis
    using queue_implements_bounded_fifo [OF i, of "''c''" 3 "''normal''"] i
    by (simp add: spec_push_def sample_queue_def queue_view_def high_entry_def remove_nth_def)
qed

text \<open>C5: a burst of pushes below high priority never evicts a queued high-priority entry, and the
  queue never holds more entries than its limit.\<close>

theorem high_priority_survives_bursts:
  assumes "queue_inv q" and "e \<in> set (queue_view q)" and "high_entry e"
    and "\<And>d. d \<in> set es \<Longrightarrow> fst d \<noteq> fst e \<and> snd (snd d) \<noteq> ''high''"
  shows "e \<in> set (queue_view (foldl (\<lambda>q d. snd (push (fst d) (fst (snd d)) (snd (snd d)) q)) q es))
    \<and> queue_size (foldl (\<lambda>q d. snd (push (fst d) (fst (snd d)) (snd (snd d)) q)) q es) \<le> limit q"
  using bcq.puts_keep_high [OF assms] bcq.puts_bounded [OF assms(1)]
  by (simp add: queue_size_def)

theorem high_priority_survives_bursts_witness:
  "(''a'', (1, ''high'')) \<in> set (queue_view (foldl (\<lambda>q d. snd (push (fst d) (fst (snd d)) (snd (snd d)) q))
      sample_queue [(''c'', (3, ''normal'')), (''d'', (4, ''low''))]))"
  by (rule high_priority_survives_bursts [THEN conjunct1])
     (auto simp: queue_inv_def sample_queue_def queue_view_def high_entry_def)

text \<open>after any sequence of accepted marks the reconcile barrier reports a complete snapshot
  exactly when the last mark of every expected scope was a success; a scope that failed after it
  had succeeded closes the barrier again.\<close>

theorem barrier_opens_iff_every_scope_last_succeeded:
  assumes "mark_all ms (new_barrier scopes) = Inr b"
  shows "barrier_complete b \<longleftrightarrow> (\<forall>s\<in>set scopes. map_of (rev ms) s = Some (JBool True))"
proof -
  have r: "barrier_records scopes ms b" by (rule mark_all_records [OF assms])
  have "failed b = []" if all: "\<forall>s\<in>set scopes. map_of (rev ms) s = Some (JBool True)"
  proof (rule ccontr)
    assume "failed b \<noteq> []"
    then obtain s x where "map_of (rev ms) s = Some x" "x \<noteq> JBool True"
      using r unfolding barrier_records_def by (metis hd_in_set)
    moreover from this(1) have "s \<in> fst ` set ms"
      by (metis domI dom_map_of_conv_image_fst set_rev)
    then have "s \<in> set scopes"
      using marks_in_scope [OF assms] by (auto simp: new_barrier_def)
    ultimately show False using all by auto
  qed
  with barrier_complete_iff [OF r] show ?thesis by blast
qed

theorem barrier_opens_iff_every_scope_last_succeeded_witness:
  "\<exists>b. mark_all [(''pods'', JBool True), (''nodes'', JBool True), (''pods'', JBool False)]
         (new_barrier [''pods'', ''nodes'']) = Inr b \<and> \<not> barrier_complete b"
proof -
  let ?b = "\<lparr>expected = [''pods'', ''nodes''], complete = [''nodes''], failed = [''pods'']\<rparr>"
  have m: "mark_all [(''pods'', JBool True), (''nodes'', JBool True), (''pods'', JBool False)]
      (new_barrier [''pods'', ''nodes'']) = Inr ?b"
    by (simp add: new_barrier_def mark_def uniq_def)
  show ?thesis
    using m barrier_opens_iff_every_scope_last_succeeded [OF m] by auto
qed

text \<open>A projection that replaces its row only when \<open>compareProjectionVersion\<close> says the incoming
  row is newer ends, for well-formed versions and any arrival order, with a row that no row of the
  stream supersedes.\<close>

theorem newest_projection_wins:
  assumes "wf_version a" and "\<And>x. x \<in> set xs \<Longrightarrow> wf_version x"
  shows "\<forall>x\<in>set (a # xs). compareProjectionVersion
    (foldl (\<lambda>cur inc. if compareProjectionVersion cur inc = Fin 1 then inc else cur) a xs) x \<noteq> Fin 1"
  using projection.projected_maximal [of a xs] assms by blast

theorem newest_projection_wins_witness:
  "compareProjectionVersion
     (foldl (\<lambda>cur inc. if compareProjectionVersion cur inc = Fin 1 then inc else cur)
        (JObj [(''fencingEpoch'', JInt 1)])
        [JObj [(''fencingEpoch'', JInt 2)], JObj [(''fencingEpoch'', JInt 1), (''streamSequence'', JInt 9)]])
     (JObj [(''fencingEpoch'', JInt 2)]) \<noteq> Fin 1"
proof -
  let ?xs = "[JObj [(''fencingEpoch'', JInt 2)], JObj [(''fencingEpoch'', JInt 1), (''streamSequence'', JInt 9)]]"
  have "\<forall>x\<in>set (JObj [(''fencingEpoch'', JInt 1)] # ?xs). compareProjectionVersion
      (foldl (\<lambda>cur inc. if compareProjectionVersion cur inc = Fin 1 then inc else cur)
         (JObj [(''fencingEpoch'', JInt 1)]) ?xs) x \<noteq> Fin 1"
    by (rule newest_projection_wins)
       (auto simp: wf_version_def version_field_def fld_def nullish_def num_is_finite_def)
  then show ?thesis by (rule bspec) simp
qed

text \<open>the digest of a value does not depend on the order in which its properties were written,
  at any depth.\<close>

theorem digest_ignores_property_order:
  assumes "same_json v w"
  shows "digest sha v = digest sha w"
  using stableJson_same [OF assms] by (simp add: digest_def)

theorem digest_ignores_property_order_witness:
  "digest (\<lambda>t. t) (JArr [JObj [(''b'', JNull), (''a'', JBool True)]])
     = digest (\<lambda>t. t) (JArr [JObj [(''a'', JBool True), (''b'', JNull)]])"
proof (rule digest_ignores_property_order)
  have "same_json (JObj [(''b'', JNull), (''a'', JBool True)]) (JObj [(''a'', JBool True), (''b'', JNull)])"
    by (rule same_obj [of _ "[(''b'', JNull), (''a'', JBool True)]"]) (auto intro: same_refl)
  then show "same_json (JArr [JObj [(''b'', JNull), (''a'', JBool True)]])
      (JArr [JObj [(''a'', JBool True), (''b'', JNull)]])"
    by (intro same_arr) simp
qed

text \<open>C6: a sanitised payload carries no property with a forbidden name at any depth, is nested at
  most nine containers deep, its arrays, objects and texts are within the budgets of 100, 200 and
  1000, and its texts carry no stripped control character.\<close>

theorem sanitized_payload_is_bounded_and_secret_free:
  "within_limits 9 (sanitizeOperationalValue 0 v)"
  using sanitize_within [of 0 v] by simp

text \<open>Within one cluster and authority, two resources get the same node identity only if their
  trimmed kind and namespace agree and their identifying part (the authority UID, or the name where
  there is none) agrees: percent-encoding keeps the segments apart.\<close>

theorem node_identity_is_collision_free:
  assumes "canonicalNodeId cl au kind ns nm uid = Inr i" and "canonicalNodeId cl au kind' ns' nm' uid' = Inr i"
  shows "trim (str_or_empty kind) = trim (str_or_empty kind') \<and> trim (str_or_empty ns) = trim (str_or_empty ns')
    \<and> (if trim (str_or_empty uid) = [] then trim (str_or_empty nm) else trim (str_or_empty uid))
      = (if trim (str_or_empty uid') = [] then trim (str_or_empty nm') else trim (str_or_empty uid'))"
  by (rule canonicalNodeId_inj [OF assms])

lemma sample_node_id:
  "canonicalNodeId (JStr ''c1'') (JStr ''kubernetes'') (JStr ''Pod'') (JStr ''a/b'') (JStr ''x'') (JStr ''u1'')
     = Inr ''kubernetes://c1/Pod/a%2Fb/u1''"
  by code_simp

theorem node_identity_is_collision_free_witness:
  "canonicalNodeId (JStr ''c1'') (JStr ''kubernetes'') (JStr ''Pod'') (JStr ''a/b'') (JStr ''x'') (JStr ''u1'')
     = Inr ''kubernetes://c1/Pod/a%2Fb/u1''
   \<and> trim (str_or_empty (JStr ''Pod'')) = trim (str_or_empty (JStr ''Pod''))"
  using node_identity_is_collision_free [OF sample_node_id sample_node_id] sample_node_id by blast

text \<open>Every relation the builder returns is an \<open>owns\<close> or \<open>contains\<close> edge between two different
  nodes of the input, and no two returned relations share a relation key.\<close>

theorem built_relations_are_well_formed:
  assumes "buildRelations nodes ctx = Inr rels"
  shows "distinct (map relationKey rels) \<and> (\<forall>r\<in>set rels. rel_wf nodes r)"
proof -
  from assms obtain krs where k: "add_node_relations (alias_index nodes) ctx nodes [] = Inr krs"
    and rels: "rels = map snd krs"
    by (auto simp: buildRelations_def res_splits)
  have w: "rels_wf nodes krs"
    by (rule add_node_relations_wf [OF k]) (auto simp: rels_wf_def)
  then have keys: "map relationKey rels = map fst krs"
    by (auto simp: rels rels_wf_def)
  have "distinct (map fst krs)" "\<forall>r\<in>set rels. rel_wf nodes r"
    using w by (auto simp: rels rels_wf_def)
  then show ?thesis by (simp add: keys)
qed

definition sample_node :: "string \<Rightarrow> string \<Rightarrow> string \<Rightarrow> gnode" where
  "sample_node i t ns = \<lparr>clusterId = JStr ''c1'', nodeId = i, nodeType = t, canonicalId = i,
     authority = ''kubernetes'', authorityUid = i, displayName = i, namespace = ns, ownerRef = None,
     health = ''Unknown'', epistemicState = ''known'', attributes = JObj [], fencingEpoch = JNull,
     collectionEpoch = JNull, streamSequence = JNull, sourceRevision = JNull, reconcileSessionId = JNull,
     snapshotComplete = True, observedAt = [], expiresAt = []\<rparr>"

definition sample_context :: gcontext where
  "sample_context = \<lparr>ctx_clusterId = JStr ''c1'', ctx_fencingEpoch = JNull, ctx_collectionEpoch = JNull,
     ctx_sourceRevision = JNull, ctx_reconcileSessionId = JNull, ctx_snapshotComplete = JBool True,
     ctx_observedAt = JStr [], ctx_expiresAt = JStr []\<rparr>"

theorem built_relations_are_well_formed_witness:
  "\<exists>r. buildRelations [sample_node ''n'' ''namespace'' [], sample_node ''p'' ''pod'' ''n''] sample_context = Inr [r]
     \<and> fromNodeId r = ''n'' \<and> toNodeId r = ''p''
     \<and> rel_wf [sample_node ''n'' ''namespace'' [], sample_node ''p'' ''pod'' ''n''] r"
proof -
  have "\<exists>r. buildRelations [sample_node ''n'' ''namespace'' [], sample_node ''p'' ''pod'' ''n''] sample_context = Inr [r]
     \<and> fromNodeId r = ''n'' \<and> toNodeId r = ''p''"
    by (simp add: buildRelations_def owner_list_def add_namespace_relation_def graphRelation_def
        alias_index_def node_alias_def sample_node_def fld_def to_lower_def lower_char_def
        RELATION_TYPES_def Let_def)
  with built_relations_are_well_formed show ?thesis
    by (metis list.set_intros(1))
qed

end
