(* ===== verification/IncidentEngine.thy ===== *)
theory IncidentEngine
  imports OperationalGraph
begin

text \<open>
  The incident engine of the OSAA gateway (\<open>apps/osaa-gateway/incident-engine.js\<close>): the incident
  state machine (\<open>assertTransition\<close>, \<open>deriveIncidentTransition\<close>), the bounded impact traversal,
  and the evidence and transition envelopes.  Timestamps are the texts the rows carry; the
  parameter \<open>date_parse\<close> is \<open>Date.parse\<close>.  The fields the code only tests for truth, copies or
  converts stay JavaScript values.
\<close>

section \<open>The incident state machine\<close>

definition INCIDENT_STATES :: "string list" where
  "INCIDENT_STATES = [''detected'', ''active'', ''recovering'', ''resolved'', ''suspended'']"

definition SEVERITY_ORDER :: "(string \<times> jnum) list" where
  "SEVERITY_ORDER = [(''unknown'', Fin 0), (''info'', Fin 1), (''warning'', Fin 2), (''high'', Fin 3),
     (''critical'', Fin 4)]"

definition TRANSITIONS :: "(string \<times> string list) list" where
  "TRANSITIONS = [
     (''detected'', [''detected'', ''active'', ''recovering'', ''resolved'', ''suspended'']),
     (''active'', [''active'', ''recovering'', ''suspended'']),
     (''recovering'', [''recovering'', ''active'', ''resolved'', ''suspended'']),
     (''suspended'', [''suspended'', ''detected'', ''active'']),
     (''resolved'', [''resolved'', ''detected''])]"

definition severity_rank :: "jsval \<Rightarrow> jnum" where
  \<comment> \<open>\<open>SEVERITY_ORDER[s]\<close> as an operand of \<open>>\<close>: anything but a known severity converts to \<open>NaN\<close>\<close>
  "severity_rank v = (case map_of SEVERITY_ORDER (to_str v) of Some n \<Rightarrow> n | None \<Rightarrow> NaN)"

definition incidentFingerprint ::
  "(string \<Rightarrow> string) \<Rightarrow> jsval \<Rightarrow> jsval \<Rightarrow> jsval \<Rightarrow> jsval \<Rightarrow> jsval \<Rightarrow> string option" where
  \<comment> \<open>the destructuring default replaces an \<open>undefined\<close> cause code\<close>
  "incidentFingerprint sha cluster inc_type primary causeCode ruleRevision =
     digest sha (JObj [(''clusterId'', cluster), (''incidentType'', inc_type),
       (''primaryNodeId'', primary),
       (''causeCode'', if causeCode = JUndef then JStr ''unknown'' else causeCode),
       (''ruleRevision'', ruleRevision)])"

record transition_context =
  tc_snapshotComplete :: jsval
  tc_sourceFresh :: jsval
  tc_freshAuthorityWatermark :: jsval
  tc_lastCauseObservedAt :: jsval
  tc_stableForMs :: jsval
  tc_requiredStableMs :: jsval
  tc_writerEpoch :: jsval
  tc_currentEpoch :: jsval

definition assert_resolved :: "(jsval \<Rightarrow> jnum) \<Rightarrow> transition_context \<Rightarrow> string + unit" where
  "assert_resolved date_parse c =
     rbind (guard_else ''resolved requires complete reconciliation'' (truthy (tc_snapshotComplete c))) (\<lambda>_.
     rbind (guard_else ''resolved requires fresh authority'' (truthy (tc_sourceFresh c))) (\<lambda>_.
     rbind (guard_else ''resolved requires a newer fresh-authority watermark''
        (\<not> (\<not> truthy (tc_freshAuthorityWatermark c) \<or> \<not> truthy (tc_lastCauseObservedAt c)
            \<or> num_le (date_parse (tc_freshAuthorityWatermark c)) (date_parse (tc_lastCauseObservedAt c))))) (\<lambda>_.
       guard_else ''resolution hysteresis is not satisfied''
         (\<not> num_less (to_num (js_or (tc_stableForMs c) (JInt 0)))
                     (to_num (js_or (tc_requiredStableMs c) (JInt 0)))))))"

definition assertTransition ::
  "(jsval \<Rightarrow> jnum) \<Rightarrow> string option \<Rightarrow> string \<Rightarrow> transition_context \<Rightarrow> string + bool" where
  \<comment> \<open>\<open>from\<close> is None for \<open>null\<close>\<close>
  "assertTransition date_parse from to c =
     rbind (guard_else (''unsupported incident state '' @ to) (to \<in> set INCIDENT_STATES)) (\<lambda>_.
     rbind (case from of
              None \<Rightarrow> guard_else ''new incident must start detected'' (to = ''detected'')
            | Some f \<Rightarrow> (case table_get TRANSITIONS f of
                 Own allowed \<Rightarrow> guard_else (''invalid incident transition '' @ f @ ''->'' @ to) (to \<in> set allowed)
               | Absent \<Rightarrow> Inl (''invalid incident transition '' @ f @ ''->'' @ to)
               | Inherited \<Rightarrow> Inl ''TypeError: has is not a function'')) (\<lambda>_.
     rbind (if to = ''resolved'' then assert_resolved date_parse c else Inr ()) (\<lambda>_.
     rbind (guard_else ''stale incident writer fencing epoch''
        (\<not> (\<not> nullish (tc_writerEpoch c) \<and> \<not> nullish (tc_currentEpoch c)
            \<and> \<not> num_eq (to_num (tc_writerEpoch c)) (to_num (tc_currentEpoch c))))) (\<lambda>_.
       Inr True))))"

record incident =
  incidentId :: jsval
  transitionSequence :: jsval
  status :: string
  severity :: jsval
  inc_confidence :: jsval
  causeStatus :: jsval
  firstDetectedAt :: jsval
  lastObservedAt :: jsval
  recoveringAt :: jsval
  suspendedAt :: jsval
  resolvedAt :: jsval
  eventType :: "string option"
  reasonCode :: jsval

record signal =
  receivedAt :: jsval
  present :: jsval
  sig_severity :: jsval
  sig_confidence :: jsval
  sig_causeStatus :: jsval
  sig_reasonCode :: jsval
  sourceConfigured :: jsval
  sourceFresh :: jsval
  sig_snapshotComplete :: jsval
  repeatCount :: jsval
  freshAuthorityWatermark :: jsval
  sig_fencingEpoch :: jsval
  currentFencingEpoch :: jsval
  primaryNodeId :: jsval
  evidence :: jsval

record policy =
  activationCount :: jsval
  resolveStableMs :: jsval

definition detect_new :: "signal \<Rightarrow> incident" where
  "detect_new sg = \<lparr>incidentId = JUndef, transitionSequence = JUndef, status = ''detected'',
     severity = js_or (sig_severity sg) (JStr ''unknown''),
     inc_confidence = js_coalesce (sig_confidence sg) (JNum (Fin (1 / 2))),
     causeStatus = js_or (sig_causeStatus sg) (JStr ''unknown''),
     firstDetectedAt = receivedAt sg, lastObservedAt = receivedAt sg, recoveringAt = JUndef,
     suspendedAt = JUndef, resolvedAt = JUndef, eventType = Some ''incident_detected'',
     reasonCode = js_or (sig_reasonCode sg) (JStr ''signal-detected'')\<rparr>"

definition present_status :: "string \<Rightarrow> bool \<Rightarrow> string" where
  "present_status st repeated =
     (if st = ''resolved'' then ''detected''
      else if st = ''suspended'' then (if repeated then ''active'' else ''detected'')
      else if st = ''detected'' \<and> repeated then ''active''
      else if st = ''recovering'' then ''active'' else st)"

definition observe_present :: "incident \<Rightarrow> signal \<Rightarrow> policy \<Rightarrow> incident" where
  "observe_present cur sg pol =
     (let repeated = num_le (to_num (js_or (activationCount pol) (JInt 2))) (to_num (js_or (repeatCount sg) (JInt 1)));
          nextStatus = present_status (status cur) repeated;
          sev = (if num_less (severity_rank (severity cur)) (severity_rank (sig_severity sg))
                 then sig_severity sg else severity cur);
          changedSeverity = (sev \<noteq> severity cur)
      in cur\<lparr>status := nextStatus, severity := sev, lastObservedAt := receivedAt sg,
             eventType := (if status cur = ''resolved'' then Some ''incident_detected''
               else if changedSeverity then Some ''incident_severity_changed''
               else if status cur = ''suspended'' then Some ''incident_resumed''
               else if nextStatus = ''active'' \<and> status cur \<noteq> ''active'' then Some ''incident_activated''
               else None),
             reasonCode := js_or (sig_reasonCode sg) (JStr ''signal-present'')\<rparr>)"

definition begin_recovery :: "incident \<Rightarrow> signal \<Rightarrow> incident" where
  "begin_recovery cur sg = cur\<lparr>status := ''recovering'', recoveringAt := receivedAt sg,
     eventType := Some ''incident_recovering'', reasonCode := JStr ''condition-cleared''\<rparr>"

definition resolve_context :: "incident \<Rightarrow> signal \<Rightarrow> policy \<Rightarrow> jnum \<Rightarrow> transition_context" where
  "resolve_context cur sg pol stableForMs = \<lparr>tc_snapshotComplete = sig_snapshotComplete sg,
     tc_sourceFresh = sourceFresh sg, tc_freshAuthorityWatermark = freshAuthorityWatermark sg,
     tc_lastCauseObservedAt = lastObservedAt cur, tc_stableForMs = JNum stableForMs,
     tc_requiredStableMs = js_or (resolveStableMs pol) (JInt 30000),
     tc_writerEpoch = sig_fencingEpoch sg, tc_currentEpoch = currentFencingEpoch sg\<rparr>"

definition continue_recovery ::
  "(jsval \<Rightarrow> jnum) \<Rightarrow> incident \<Rightarrow> signal \<Rightarrow> policy \<Rightarrow> string + incident" where
  "continue_recovery date_parse cur sg pol =
     (let stableForMs = num_sub (date_parse (receivedAt sg))
            (date_parse (js_or (recoveringAt cur) (lastObservedAt cur)))
      in if num_less stableForMs (to_num (js_or (resolveStableMs pol) (JInt 30000)))
         then Inr (cur\<lparr>eventType := None, reasonCode := JStr ''recovery-hysteresis''\<rparr>)
         else rbind (assertTransition date_parse (Some (status cur)) ''resolved''
                       (resolve_context cur sg pol stableForMs))
              (\<lambda>_. Inr (cur\<lparr>status := ''resolved'', resolvedAt := receivedAt sg, lastObservedAt := receivedAt sg,
                     eventType := Some ''incident_resolved'', reasonCode := JStr ''fresh-authority-stable''\<rparr>)))"

definition deriveIncidentTransition ::
  "(jsval \<Rightarrow> jnum) \<Rightarrow> incident option \<Rightarrow> signal \<Rightarrow> policy \<Rightarrow> string + incident option" where
  "deriveIncidentTransition date_parse current sg pol =
     (case current of
        None \<Rightarrow> Inr (if truthy (present sg) then Some (detect_new sg) else None)
      | Some cur \<Rightarrow>
          if \<not> truthy (sourceConfigured sg) then Inr None
          else if \<not> truthy (sourceFresh sg) \<or> \<not> truthy (sig_snapshotComplete sg)
          then (if status cur = ''resolved'' \<or> status cur = ''suspended'' then Inr None
                else Inr (Some (cur\<lparr>status := ''suspended'', suspendedAt := receivedAt sg,
                       eventType := Some ''incident_suspended'', reasonCode := JStr ''source-unavailable''\<rparr>)))
          else if truthy (present sg) then Inr (Some (observe_present cur sg pol))
          else if status cur = ''active'' then Inr (Some (begin_recovery cur sg))
          else if status cur = ''detected'' then Inr (Some (begin_recovery cur sg))
          else if status cur = ''recovering''
          then rbind (continue_recovery date_parse cur sg pol) (\<lambda>i. Inr (Some i))
          else Inr None)"

section \<open>The bounded impact traversal\<close>

record impact =
  imp_nodeId :: string
  distance :: nat
  impactType :: string
  imp_confidence :: rat
  pathDigest :: "string option"

record traversal =
  impacts :: "impact list"
  bounded :: bool
  visited_count :: nat

record edge =
  edge_from :: string
  edge_type :: string
  edge_to :: string

definition TRAVERSED_TYPES :: "string list" where
  "TRAVERSED_TYPES = [''depends_on'', ''routes_to'', ''serves'', ''realizes'', ''contains'']"

definition forward_map :: "edge list \<Rightarrow> (string \<times> string list) list" where
  "forward_map relations = foldl (\<lambda>m r.
     if edge_type r \<notin> set TRAVERSED_TYPES then m
     else upsert (edge_from r) ((case map_of m (edge_from r) of None \<Rightarrow> [] | Some ts \<Rightarrow> ts) @ [edge_to r]) m)
     [] relations"

definition successors :: "(string \<times> string list) list \<Rightarrow> string \<Rightarrow> string list" where
  "successors forward n = (case map_of forward n of None \<Rightarrow> [] | Some ts \<Rightarrow> ts)"

definition num_min :: "jnum \<Rightarrow> jnum \<Rightarrow> jnum" where
  "num_min a b = (if a = NaN \<or> b = NaN then NaN else if num_less b a then b else a)"

definition num_max :: "jnum \<Rightarrow> jnum \<Rightarrow> jnum" where
  "num_max a b = (if a = NaN \<or> b = NaN then NaN else if num_less a b then b else a)"

definition depth_bound :: "jsval \<Rightarrow> nat option" where
  \<comment> \<open>the distances at which \<open>distance >= maxDepth\<close> holds start here; a \<open>NaN\<close> bound never holds\<close>
  "depth_bound maxDepth =
     (case num_max (Fin 0) (num_min (Fin 32) (to_num (js_coalesce maxDepth (JInt 8)))) of
        Fin r \<Rightarrow> Some (nat \<lceil>r\<rceil>) | _ \<Rightarrow> None)"

definition node_bound :: "jsval \<Rightarrow> nat" where
  \<comment> \<open>the impact counts at which \<open>impacts.length < maxNodes\<close> fails start here\<close>
  "node_bound maxNodes =
     (case num_max (Fin 1) (num_min (Fin 10000) (to_num (js_coalesce maxNodes (JInt 1000)))) of
        Fin r \<Rightarrow> nat \<lceil>r\<rceil> | _ \<Rightarrow> 0)"

type_synonym queue_item = "string \<times> nat \<times> string list"

definition impact_of :: "(string \<Rightarrow> string) \<Rightarrow> queue_item \<Rightarrow> impact" where
  "impact_of sha item = (case item of (n, d, path) \<Rightarrow>
     \<lparr>imp_nodeId = n, distance = d, impactType = (if d = 0 then ''direct'' else ''downstream''),
      imp_confidence = max (1 / 10) (1 - of_nat d * (1 / 10)),
      pathDigest = digest sha (JArr (map JStr path))\<rparr>)"

definition next_items :: "(string \<times> string list) list \<Rightarrow> string list \<Rightarrow> queue_item \<Rightarrow> queue_item list" where
  "next_items forward visited item = (case item of (n, d, path) \<Rightarrow>
     map (\<lambda>t. (t, Suc d, path @ [t])) (filter (\<lambda>t. t \<notin> set visited) (successors forward n)))"

function traverse ::
  "(string \<Rightarrow> string) \<Rightarrow> (string \<times> string list) list \<Rightarrow> nat option \<Rightarrow> nat \<Rightarrow> queue_item list
     \<Rightarrow> string list \<Rightarrow> impact list \<Rightarrow> queue_item list \<times> string list \<times> impact list" where
  "traverse sha forward dmax nmax queue visited imps =
     (if queue = [] \<or> nmax \<le> length imps then (queue, visited, imps)
      else let item = hd queue; rest = tl queue in
        if fst item \<in> set visited then traverse sha forward dmax nmax rest visited imps
        else let visited' = fst item # visited; imps' = imps @ [impact_of sha item] in
          if (case dmax of Some m \<Rightarrow> m \<le> fst (snd item) | None \<Rightarrow> False)
          then traverse sha forward dmax nmax rest visited' imps'
          else traverse sha forward dmax nmax (rest @ next_items forward visited' item) visited' imps')"
  by pat_completeness auto
termination
  by (relation "measures [\<lambda>(sha, f, dm, nmax, q, v, imps). nmax - length imps,
        \<lambda>(sha, f, dm, nmax, q, v, imps). length q]") auto

declare traverse.simps [simp del]

definition boundedImpactTraversal ::
  "(string \<Rightarrow> string) \<Rightarrow> string \<Rightarrow> edge list \<Rightarrow> jsval \<Rightarrow> jsval \<Rightarrow> traversal" where
  "boundedImpactTraversal sha primary relations maxDepth maxNodes =
     (case traverse sha (forward_map relations) (depth_bound maxDepth) (node_bound maxNodes)
             [(primary, 0, [primary])] [] [] of
        (queue, visited, imps) \<Rightarrow>
          \<lparr>impacts = imps, bounded = (queue \<noteq> []), visited_count = length visited\<rparr>)"

section \<open>Envelopes\<close>

record envelope =
  env_transitionSequence :: jnum
  env_eventType :: string
  idempotencyKey :: string
  evidenceDigest :: "string option"
  payload :: jsval
  payloadDigest :: "string option"
  stablePayload :: "string option"

definition envelope_payload :: "jsval \<Rightarrow> incident \<Rightarrow> signal \<Rightarrow> jsval list list \<Rightarrow> jnum \<Rightarrow> jsval" where
  "envelope_payload incident_id nxt sg routeRefs sequ = JObj [
     (''incidentId'', js_or incident_id JNull), (''transitionSequence'', JNum sequ),
     (''status'', JStr (status nxt)), (''severity'', severity nxt),
     (''primaryNodeId'', primaryNodeId sg), (''routeRefs'', JArr (uniq (concat routeRefs)))]"

definition transitionEnvelope ::
  "(string \<Rightarrow> string) \<Rightarrow> (jsval \<times> jsval) option \<Rightarrow> incident option \<Rightarrow> signal \<Rightarrow> jsval list list \<Rightarrow> envelope option" where
  \<comment> \<open>the incident is given by its id and transition sequence, the impacts by their route references\<close>
  "transitionEnvelope sha inc nxt sg routeRefs =
     (case nxt of None \<Rightarrow> None
      | Some n \<Rightarrow> (case eventType n of None \<Rightarrow> None
        | Some ev \<Rightarrow>
          if ev = [] then None else
          let inc_id = (case inc of None \<Rightarrow> JUndef | Some p \<Rightarrow> fst p);
              inc_seq = (case inc of None \<Rightarrow> JUndef | Some p \<Rightarrow> snd p);
              sequ = num_add (to_num (js_or inc_seq (JInt 0))) (Fin 1);
              pl = envelope_payload inc_id n sg routeRefs sequ
          in Some \<lparr>env_transitionSequence = sequ, env_eventType = ev,
               idempotencyKey = to_str (js_or inc_id (JStr ''pending'')) @ '':'' @ num_str sequ,
               evidenceDigest = digest sha (js_or (evidence sg) (JObj [])),
               payload = pl, payloadDigest = digest sha pl, stablePayload = stableJson pl\<rparr>))"

definition evidencePackage ::
  "(string \<Rightarrow> string) \<Rightarrow> jsval \<Rightarrow> jsval list \<Rightarrow> jsval \<Rightarrow> jsval" where
  "evidencePackage sha inc observations imps = JObj [
     (''incident'', JObj [
        (''incidentId'', fld inc ''incidentId''), (''status'', fld inc ''status''),
        (''severity'', fld inc ''severity''), (''causeStatus'', fld inc ''causeStatus''),
        (''causeCode'', js_or (fld inc ''causeCode'') JNull), (''confidence'', fld inc ''confidence''),
        (''primaryNodeId'', fld inc ''primaryNodeId'')]),
     (''facts'', JArr (map (\<lambda>o'. JObj [(''observationId'', fld o' ''observationId''), (''fact'', fld o' ''fact''),
        (''authority'', fld o' ''source''), (''evidenceRef'', fld o' ''evidenceRef''),
        (''observedAt'', fld o' ''observedAt'')]) observations)),
     (''hypotheses'', JArr []), (''impacts'', imps),
     (''digest'', case digest sha (JObj [(''incident'', inc), (''observations'', JArr observations), (''impacts'', imps)])
        of Some d \<Rightarrow> JStr d | None \<Rightarrow> JUndef)]"

section \<open>Properties of the state machine\<close>

definition allowed_next :: "string \<Rightarrow> string list" where
  "allowed_next st = (case map_of TRANSITIONS st of Some l \<Rightarrow> l | None \<Rightarrow> [])"

lemma known_states:
  "st \<in> set INCIDENT_STATES \<longleftrightarrow> st = ''detected'' \<or> st = ''active'' \<or> st = ''recovering''
     \<or> st = ''resolved'' \<or> st = ''suspended''"
  by (auto simp: INCIDENT_STATES_def)

lemma allowed_next_simps:
  "allowed_next ''detected'' = [''detected'', ''active'', ''recovering'', ''resolved'', ''suspended'']"
  "allowed_next ''active'' = [''active'', ''recovering'', ''suspended'']"
  "allowed_next ''recovering'' = [''recovering'', ''active'', ''resolved'', ''suspended'']"
  "allowed_next ''suspended'' = [''suspended'', ''detected'', ''active'']"
  "allowed_next ''resolved'' = [''resolved'', ''detected'']"
  by (simp_all add: allowed_next_def TRANSITIONS_def)

lemma present_status_allowed:
  "st \<in> set INCIDENT_STATES \<Longrightarrow> present_status st r \<in> set (allowed_next st)"
  unfolding known_states by (elim disjE) (simp_all add: present_status_def allowed_next_simps)

lemma assertTransition_True: "assertTransition dp f t c = Inr b \<Longrightarrow> b = True"
  unfolding assertTransition_def by (auto simp only: rbind_eq_Inr)

lemma continue_recovery_cases:
  assumes "continue_recovery dp cur sg pol = Inr n"
  obtains "n = cur\<lparr>eventType := None, reasonCode := JStr ''recovery-hysteresis''\<rparr>"
  | st where "st = num_sub (dp (receivedAt sg)) (dp (js_or (recoveringAt cur) (lastObservedAt cur)))"
      "\<not> num_less st (to_num (js_or (resolveStableMs pol) (JInt 30000)))"
      "assertTransition dp (Some (status cur)) ''resolved'' (resolve_context cur sg pol st) = Inr True"
      "n = cur\<lparr>status := ''resolved'', resolvedAt := receivedAt sg, lastObservedAt := receivedAt sg,
           eventType := Some ''incident_resolved'', reasonCode := JStr ''fresh-authority-stable''\<rparr>"
proof -
  let ?st = "num_sub (dp (receivedAt sg)) (dp (js_or (recoveringAt cur) (lastObservedAt cur)))"
  show thesis
  proof (cases "num_less ?st (to_num (js_or (resolveStableMs pol) (JInt 30000)))")
    case True
    with assms have "n = cur\<lparr>eventType := None, reasonCode := JStr ''recovery-hysteresis''\<rparr>"
      unfolding continue_recovery_def Let_def by simp
    then show ?thesis by (rule that(1))
  next
    case False
    with assms obtain b where b: "assertTransition dp (Some (status cur)) ''resolved'' (resolve_context cur sg pol ?st) = Inr b"
      and n: "n = cur\<lparr>status := ''resolved'', resolvedAt := receivedAt sg, lastObservedAt := receivedAt sg,
           eventType := Some ''incident_resolved'', reasonCode := JStr ''fresh-authority-stable''\<rparr>"
      unfolding continue_recovery_def Let_def by (simp only: if_False rbind_eq_Inr) blast
    from that(2) [OF refl False _ n] assertTransition_True [OF b] b show ?thesis by simp
  qed
qed

lemma derive_cases:
  assumes "deriveIncidentTransition dp (Some cur) sg pol = Inr (Some n)"
  obtains
    (suspend) "status cur \<noteq> ''resolved''" "status cur \<noteq> ''suspended''" "n = cur\<lparr>status := ''suspended'',
        suspendedAt := receivedAt sg, eventType := Some ''incident_suspended'', reasonCode := JStr ''source-unavailable''\<rparr>"
  | (observe) "truthy (present sg)" "n = observe_present cur sg pol"
  | (recover) "status cur = ''active'' \<or> status cur = ''detected''" "n = begin_recovery cur sg"
  | (continue) "status cur = ''recovering''" "truthy (sourceFresh sg)" "truthy (sig_snapshotComplete sg)"
      "continue_recovery dp cur sg pol = Inr n"
  using assms by (auto simp: deriveIncidentTransition_def res_splits split: if_splits)

lemma derive_allowed:
  assumes "deriveIncidentTransition dp (Some cur) sg pol = Inr (Some n)" and "status cur \<in> set INCIDENT_STATES"
  shows "status n \<in> set (allowed_next (status cur))"
  using assms(1)
proof (cases rule: derive_cases)
  case suspend
  then show ?thesis using assms(2) by (auto simp: known_states allowed_next_simps)
next
  case observe
  then show ?thesis
    using present_status_allowed [OF assms(2)] by (simp add: observe_present_def Let_def)
next
  case recover
  then show ?thesis by (auto simp: begin_recovery_def allowed_next_simps)
next
  case continue
  then show ?thesis by (auto elim!: continue_recovery_cases simp: allowed_next_simps)
qed

lemma allowed_is_state: "n \<in> set (allowed_next st) \<Longrightarrow> n \<in> set INCIDENT_STATES"
  by (auto simp: allowed_next_def TRANSITIONS_def INCIDENT_STATES_def split: if_splits)

lemma num_less_trans_le: "num_less a b \<Longrightarrow> num_le a b"
  by (simp add: num_le_def)

lemma num_le_refl: "a \<noteq> NaN \<Longrightarrow> num_le a a"
  by (simp add: num_le_def)

lemma num_le_trans: "num_le a b \<Longrightarrow> num_le b c \<Longrightarrow> num_le a c"
  by (cases a; cases b; cases c) (auto simp: num_le_def)

lemma derive_frame:
  assumes "deriveIncidentTransition dp (Some cur) sg pol = Inr (Some n)"
  shows "incidentId n = incidentId cur" "firstDetectedAt n = firstDetectedAt cur"
    "severity_rank (severity cur) \<noteq> NaN \<Longrightarrow> num_le (severity_rank (severity cur)) (severity_rank (severity n))"
  using assms
  by (cases rule: derive_cases;
      auto simp: observe_present_def begin_recovery_def Let_def num_le_refl num_less_trans_le
           elim!: continue_recovery_cases)+

inductive incident_step :: "(jsval \<Rightarrow> jnum) \<Rightarrow> policy \<Rightarrow> incident \<Rightarrow> incident \<Rightarrow> bool" for dp pol where
  signal_step: "deriveIncidentTransition dp (Some i) sg pol = Inr (Some j) \<Longrightarrow> incident_step dp pol i j"

inductive_cases incident_stepE: "incident_step dp pol i j"

lemma incident_steps_keep:
  assumes "(incident_step dp pol)\<^sup>*\<^sup>* i j" and "status i \<in> set INCIDENT_STATES"
    and "severity_rank (severity i) \<noteq> NaN"
  shows "status j \<in> set INCIDENT_STATES \<and> incidentId j = incidentId i \<and> firstDetectedAt j = firstDetectedAt i
    \<and> num_le (severity_rank (severity i)) (severity_rank (severity j)) \<and> severity_rank (severity j) \<noteq> NaN"
  using assms
proof (induction rule: rtranclp_induct)
  case base
  then show ?case by (simp add: num_le_refl)
next
  case (step j k)
  then obtain sg where d: "deriveIncidentTransition dp (Some j) sg pol = Inr (Some k)"
    by (auto elim: incident_stepE)
  have j: "status j \<in> set INCIDENT_STATES" "severity_rank (severity j) \<noteq> NaN"
    using step by auto
  have "severity_rank (severity k) \<noteq> NaN"
    using derive_frame(3) [OF d j(2)] by (auto simp: num_le_def)
  then show ?case
    using step derive_frame [OF d] j allowed_is_state [OF derive_allowed [OF d j(1)]]
    by (auto intro: num_le_trans)
qed

section \<open>Properties of the traversal\<close>

definition reach_edge :: "(string \<times> string list) list \<Rightarrow> string \<Rightarrow> string \<Rightarrow> bool" where
  "reach_edge forward u v \<longleftrightarrow> v \<in> set (successors forward u)"

lemma forward_map_edge:
  "reach_edge (forward_map rels) u v \<longleftrightarrow>
     (\<exists>r\<in>set rels. edge_from r = u \<and> edge_to r = v \<and> edge_type r \<in> set TRAVERSED_TYPES)"
proof -
  have "v \<in> set (successors (foldl (\<lambda>m r. if edge_type r \<notin> set TRAVERSED_TYPES then m
         else upsert (edge_from r) ((case map_of m (edge_from r) of None \<Rightarrow> [] | Some ts \<Rightarrow> ts) @ [edge_to r]) m) m rs) u)
      \<longleftrightarrow> v \<in> set (successors m u)
        \<or> (\<exists>r\<in>set rs. edge_from r = u \<and> edge_to r = v \<and> edge_type r \<in> set TRAVERSED_TYPES)" for m rs
    by (induction rs arbitrary: m) (auto simp: successors_def split: option.splits if_splits)
  from this [of "[]" rels] show ?thesis
    by (simp add: reach_edge_def forward_map_def successors_def)
qed

definition depth_ok :: "nat option \<Rightarrow> nat \<Rightarrow> bool" where
  "depth_ok dmax d \<longleftrightarrow> (case dmax of None \<Rightarrow> True | Some m \<Rightarrow> d \<le> m)"

definition covered :: "queue_item list \<Rightarrow> impact list \<Rightarrow> string \<Rightarrow> nat \<Rightarrow> bool" where
  "covered queue imps v d \<longleftrightarrow> (\<exists>i\<in>set imps. imp_nodeId i = v \<and> distance i \<le> d)
     \<or> (\<exists>q\<in>set queue. fst q = v \<and> fst (snd q) \<le> d)"

definition bfs_inv ::
  "(string \<times> string list) list \<Rightarrow> nat option \<Rightarrow> string \<Rightarrow> queue_item list \<Rightarrow> string list \<Rightarrow> impact list \<Rightarrow> bool" where
  "bfs_inv forward dmax p queue visited imps \<longleftrightarrow>
     set visited = imp_nodeId ` set imps \<and> distinct (map imp_nodeId imps) \<and> distinct visited
     \<and> sorted (map (fst \<circ> snd) queue)
     \<and> (\<forall>q\<in>set queue. ((reach_edge forward) ^^ fst (snd q)) p (fst q) \<and> depth_ok dmax (fst (snd q))
          \<and> (\<forall>r\<in>set queue. fst (snd q) \<le> Suc (fst (snd r))) \<and> (\<forall>i\<in>set imps. distance i \<le> fst (snd q)))
     \<and> (\<forall>i\<in>set imps. ((reach_edge forward) ^^ distance i) p (imp_nodeId i) \<and> depth_ok dmax (distance i)
          \<and> (\<forall>d<distance i. \<not> ((reach_edge forward) ^^ d) p (imp_nodeId i))
          \<and> (depth_ok dmax (Suc (distance i)) \<longrightarrow>
               (\<forall>v. reach_edge forward (imp_nodeId i) v \<longrightarrow> covered queue imps v (Suc (distance i)))))
     \<and> covered queue imps p 0"

lemma depth_ok_mono: "depth_ok dmax d \<Longrightarrow> e \<le> d \<Longrightarrow> depth_ok dmax e"
  by (auto simp: depth_ok_def split: option.splits)

text \<open>
  Every node within reach is either already reported at no larger distance, or the head of the
  queue is still at no larger distance.
\<close>

lemma bfs_frontier:
  assumes "bfs_inv forward dmax p queue visited imps"
    and "((reach_edge forward) ^^ d) p v" and "depth_ok dmax d"
  shows "(\<exists>i\<in>set imps. imp_nodeId i = v \<and> distance i \<le> d) \<or> (queue \<noteq> [] \<and> fst (snd (hd queue)) \<le> d)"
  using assms(2,3)
proof (induction d arbitrary: v)
  have s: "sorted (map (fst \<circ> snd) queue)" using assms(1) by (simp add: bfs_inv_def)
  have hd_le: "queue \<noteq> [] \<and> fst (snd (hd queue)) \<le> d" if "q \<in> set queue" "fst (snd q) \<le> d" for q d
    using that s by (cases queue) auto
  {
    case 0
    then have "v = p" by simp
    moreover have "covered queue imps p 0" using assms(1) by (simp add: bfs_inv_def)
    ultimately show ?case using hd_le unfolding covered_def by metis
  next
    case (Suc d)
    then obtain u where u: "((reach_edge forward) ^^ d) p u" "reach_edge forward u v"
      by auto
    have "depth_ok dmax d" using Suc.prems(2) by (rule depth_ok_mono) simp
    from Suc.IH [OF u(1) this] show ?case
    proof
      assume "\<exists>i\<in>set imps. imp_nodeId i = u \<and> distance i \<le> d"
      then obtain i where i: "i \<in> set imps" "imp_nodeId i = u" "distance i \<le> d" by blast
      have "depth_ok dmax (Suc (distance i))" using Suc.prems(2) i(3) by (auto intro: depth_ok_mono)
      then have "covered queue imps v (Suc (distance i))"
        using assms(1) i(1,2) u(2) by (auto simp: bfs_inv_def)
      then show ?thesis
        using i(3) hd_le unfolding covered_def by (meson Suc_le_mono order_trans)
    qed auto
  }
qed

lemma covered_mono:
  assumes "covered queue imps v d" and "set imps \<subseteq> set imps'"
    and "\<And>q. q \<in> set queue \<Longrightarrow> fst q = v \<Longrightarrow> fst (snd q) \<le> d \<Longrightarrow> covered queue' imps' v d"
  shows "covered queue' imps' v d"
  using assms unfolding covered_def by blast

lemma impact_of_simps [simp]:
  "imp_nodeId (impact_of sha x) = fst x" "distance (impact_of sha x) = fst (snd x)"
  by (simp_all add: impact_of_def split: prod.splits)

lemma bfs_inv_skip:
  assumes inv: "bfs_inv forward dmax p (x # rest) visited imps" and seen: "fst x \<in> set visited"
  shows "bfs_inv forward dmax p rest visited imps"
proof -
  obtain i where i: "i \<in> set imps" "imp_nodeId i = fst x" "distance i \<le> fst (snd x)"
    using inv seen by (force simp: bfs_inv_def)
  have c: "covered rest imps v d" if "covered (x # rest) imps v d" for v d
    using that by (rule covered_mono) (use i in \<open>auto simp: covered_def\<close>)
  show ?thesis
    using inv c unfolding bfs_inv_def by simp
qed

lemma bfs_inv_visit:
  assumes inv: "bfs_inv forward dmax p (x # rest) visited imps" and new: "fst x \<notin> set visited"
    and ns: "\<And>q. q \<in> set ns \<longleftrightarrow> depth_ok dmax (Suc (fst (snd x)))
        \<and> q \<in> set (next_items forward (fst x # visited) x)"
  shows "bfs_inv forward dmax p (rest @ ns) (fst x # visited) (imps @ [impact_of sha x])"
proof -
  let ?d = "fst (snd x)" and ?E = "reach_edge forward" and ?imps = "imps @ [impact_of sha x]"
  have vis: "set visited = imp_nodeId ` set imps" and dist: "distinct (map imp_nodeId imps)" "distinct visited"
    and srt: "\<And>q. q \<in> set rest \<Longrightarrow> ?d \<le> fst (snd q)" "sorted (map (fst \<circ> snd) rest)"
    and q: "\<And>q. q \<in> set (x # rest) \<Longrightarrow> (?E ^^ fst (snd q)) p (fst q) \<and> depth_ok dmax (fst (snd q))"
    and near: "\<And>q. q \<in> set rest \<Longrightarrow> fst (snd q) \<le> Suc ?d"
    and old: "\<And>i. i \<in> set imps \<Longrightarrow> distance i \<le> ?d"
    using inv by (auto simp: bfs_inv_def)
  have nx: "fst (snd q) = Suc ?d \<and> ?E (fst x) (fst q) \<and> depth_ok dmax (Suc ?d)" if "q \<in> set ns" for q
  proof -
    have "depth_ok dmax (Suc ?d)" "q \<in> set (next_items forward (fst x # visited) x)"
      using that ns [of q] by blast+
    then show ?thesis by (cases x) (auto simp: next_items_def reach_edge_def)
  qed
  have cov: "covered (rest @ ns) ?imps v d" if "covered (x # rest) imps v d" for v d
    using that by (rule covered_mono) (auto simp: covered_def)
  have succ: "covered (rest @ ns) ?imps v (Suc ?d)" if "?E (fst x) v" "depth_ok dmax (Suc ?d)" for v
  proof (cases "v \<in> set (fst x # visited)")
    case True
    then obtain i where "i \<in> set ?imps" "imp_nodeId i = v" "distance i \<le> Suc ?d"
      using vis old by (force simp: le_Suc_eq)
    then show ?thesis unfolding covered_def by blast
  next
    case False
    then have "(v, Suc ?d, snd (snd x) @ [v]) \<in> set (next_items forward (fst x # visited) x)"
      using that(1) by (cases x) (auto simp: next_items_def reach_edge_def)
    then have "(v, Suc ?d, snd (snd x) @ [v]) \<in> set ns"
      using ns that(2) by blast
    then show ?thesis unfolding covered_def by force
  qed
  have minimal: "\<not> (?E ^^ d) p (fst x)" if "d < ?d" for d
  proof
    assume "(?E ^^ d) p (fst x)"
    moreover have "depth_ok dmax d" using q [of x] that by (auto intro: depth_ok_mono)
    ultimately show False
      using bfs_frontier [OF inv] new vis that by force
  qed
  have qs: "(?E ^^ fst (snd r)) p (fst r) \<and> depth_ok dmax (fst (snd r)) \<and> ?d \<le> fst (snd r) \<and> fst (snd r) \<le> Suc ?d"
    if "r \<in> set (rest @ ns)" for r
  proof (cases "r \<in> set ns")
    case True
    note r = nx [OF True]
    then have "(?E ^^ Suc ?d) p (fst r)" using q [of x] by auto
    then show ?thesis using r by (simp del: relpowp.simps)
  next
    case False
    then show ?thesis using that q srt(1) near by auto
  qed
  have sorted': "sorted (map (fst \<circ> snd) (rest @ ns))"
  proof -
    have "map (fst \<circ> snd) ns = replicate (length ns) (Suc ?d)"
      by (rule nth_equalityI) (simp_all add: nx)
    then show ?thesis
      using srt(2) near by (auto simp: sorted_append)
  qed
  have imps': "\<forall>i\<in>set ?imps. (?E ^^ distance i) p (imp_nodeId i) \<and> depth_ok dmax (distance i)
        \<and> (\<forall>d<distance i. \<not> (?E ^^ d) p (imp_nodeId i))
        \<and> (depth_ok dmax (Suc (distance i)) \<longrightarrow>
             (\<forall>v. ?E (imp_nodeId i) v \<longrightarrow> covered (rest @ ns) ?imps v (Suc (distance i))))"
  proof
    fix i assume "i \<in> set ?imps"
    then consider "i \<in> set imps" | "i = impact_of sha x" by auto
    then show "(?E ^^ distance i) p (imp_nodeId i) \<and> depth_ok dmax (distance i)
        \<and> (\<forall>d<distance i. \<not> (?E ^^ d) p (imp_nodeId i))
        \<and> (depth_ok dmax (Suc (distance i)) \<longrightarrow>
             (\<forall>v. ?E (imp_nodeId i) v \<longrightarrow> covered (rest @ ns) ?imps v (Suc (distance i))))"
    proof cases
      case 1
      then show ?thesis using inv cov unfolding bfs_inv_def by blast
    next
      case 2
      then show ?thesis using q [of x] minimal succ by simp
    qed
  qed
  have imple: "distance i \<le> fst (snd r)" if "i \<in> set ?imps" "r \<in> set (rest @ ns)" for i r
    using that(1) old qs [OF that(2)] by (auto intro: order_trans)
  have "covered (rest @ ns) ?imps p 0" using inv cov by (simp add: bfs_inv_def)
  then show ?thesis
    unfolding bfs_inv_def using vis dist new sorted' imps' imple qs
    by (intro conjI ballI) (auto, (meson Suc_le_mono order_trans)+)
qed

lemma traverse_inv:
  assumes "bfs_inv forward dmax p queue visited imps" and "length imps \<le> nmax"
    and "traverse sha forward dmax nmax queue visited imps = (queue', visited', imps')"
  shows "bfs_inv forward dmax p queue' visited' imps' \<and> length imps' \<le> nmax \<and> (queue' = [] \<or> length imps' = nmax)"
  using assms
proof (induction sha forward dmax nmax queue visited imps rule: traverse.induct)
  case (1 sha forward dmax nmax queue visited imps)
  note unf = traverse.simps [of sha forward dmax nmax queue visited imps]
  show ?case
  proof (cases "queue = [] \<or> nmax \<le> length imps")
    case True
    then show ?thesis using "1.prems" unf by auto
  next
    case go: False
    then obtain x rest where q: "queue = x # rest" by (cases queue) auto
    note inv = "1.prems"(1) [unfolded q]
    show ?thesis
    proof (cases "fst x \<in> set visited")
      case True
      then show ?thesis
        using "1.IH"(1) [OF go] bfs_inv_skip [OF inv True] "1.prems"(2,3) go unf q by simp
    next
      case new: False
      have len: "length (imps @ [impact_of sha x]) \<le> nmax" using go by simp
      show ?thesis
      proof (cases "case dmax of Some m \<Rightarrow> m \<le> fst (snd x) | None \<Rightarrow> False")
        case stop: True
        then have "\<not> depth_ok dmax (Suc (fst (snd x)))"
          by (auto simp: depth_ok_def split: option.splits)
        from bfs_inv_visit [OF inv new, of "[]" sha] this
        have "bfs_inv forward dmax p rest (fst x # visited) (imps @ [impact_of sha x])" by simp
        moreover have "traverse sha forward dmax nmax rest (fst x # visited) (imps @ [impact_of sha x]) = (queue', visited', imps')"
          using "1.prems"(3) go unf q new stop by (simp add: Let_def)
        ultimately show ?thesis
          using "1.IH"(2) [OF go refl refl _ refl refl, unfolded q list.sel, OF new stop _ len] by simp
      next
        case expand: False
        then have "depth_ok dmax (Suc (fst (snd x)))"
          by (auto simp: depth_ok_def split: option.splits)
        from bfs_inv_visit [OF inv new, of "next_items forward (fst x # visited) x" sha] this
        have "bfs_inv forward dmax p (rest @ next_items forward (fst x # visited) x) (fst x # visited) (imps @ [impact_of sha x])"
          by simp
        moreover have "traverse sha forward dmax nmax (rest @ next_items forward (fst x # visited) x) (fst x # visited)
            (imps @ [impact_of sha x]) = (queue', visited', imps')"
          using "1.prems"(3) go unf q new expand by (simp add: Let_def)
        ultimately show ?thesis
          using "1.IH"(3) [OF go refl refl _ refl refl, unfolded q list.sel, OF new expand _ len] by simp
      qed
    qed
  qed
qed

lemma bfs_inv_start: "bfs_inv forward dmax p [(p, 0, [p])] [] []"
  by (auto simp: bfs_inv_def covered_def depth_ok_def split: option.splits)

section \<open>What the component promises\<close>

definition sample_signal :: signal where
  "sample_signal = \<lparr>receivedAt = JInt 100000, present = JBool False, sig_severity = JStr ''warning'',
     sig_confidence = JUndef, sig_causeStatus = JUndef, sig_reasonCode = JUndef,
     sourceConfigured = JBool True, sourceFresh = JBool True, sig_snapshotComplete = JBool True,
     repeatCount = JUndef, freshAuthorityWatermark = JInt 90000, sig_fencingEpoch = JInt 3,
     currentFencingEpoch = JInt 3, primaryNodeId = JStr ''n'', evidence = JUndef\<rparr>"

definition sample_incident :: "string \<Rightarrow> incident" where
  "sample_incident st = (detect_new sample_signal)\<lparr>status := st, lastObservedAt := JInt 40000,
     recoveringAt := JInt 50000\<rparr>"

definition sample_policy :: policy where
  "sample_policy = \<lparr>activationCount = JInt 1, resolveStableMs = JInt 30000\<rparr>"

lemmas sample_defs = sample_signal_def sample_incident_def sample_policy_def detect_new_def

lemmas derive_eval = deriveIncidentTransition_def continue_recovery_def assertTransition_def assert_resolved_def
  resolve_context_def guard_else_def js_or_def js_coalesce_def nullish_def num_sub_def num_le_def num_eq_def
  table_get_def TRANSITIONS_def INCIDENT_STATES_def

text \<open>C4: whatever the signal, a derived transition moves a known incident only along an edge of the
  transition table, and a new incident starts as detected.\<close>

theorem derived_transitions_follow_the_table:
  assumes "status cur \<in> set INCIDENT_STATES"
  shows "(deriveIncidentTransition dp (Some cur) sg pol = Inr (Some n) \<longrightarrow> status n \<in> set (allowed_next (status cur)))
    \<and> (deriveIncidentTransition dp None sg pol = Inr (Some m) \<longrightarrow> status m = ''detected'')"
  using derive_allowed [OF _ assms]
  by (auto simp: deriveIncidentTransition_def detect_new_def split: if_splits)

theorem derived_transitions_follow_the_table_witness:
  "deriveIncidentTransition to_num (Some (sample_incident ''active'')) sample_signal sample_policy
     = Inr (Some (begin_recovery (sample_incident ''active'') sample_signal))
   \<and> ''recovering'' \<in> set (allowed_next ''active'')"
proof -
  have s: "status (sample_incident ''active'') \<in> set INCIDENT_STATES"
    by (simp add: sample_defs INCIDENT_STATES_def)
  have d: "deriveIncidentTransition to_num (Some (sample_incident ''active'')) sample_signal sample_policy
     = Inr (Some (begin_recovery (sample_incident ''active'') sample_signal))"
    by (simp add: deriveIncidentTransition_def sample_defs)
  show ?thesis
    using derived_transitions_follow_the_table [OF s, of to_num sample_signal sample_policy
        "begin_recovery (sample_incident ''active'') sample_signal"] d
    by (simp add: begin_recovery_def sample_incident_def)
qed

lemma assertTransition_resolvedD:
  assumes "assertTransition dp f ''resolved'' c = Inr b"
  shows "truthy (tc_snapshotComplete c) \<and> truthy (tc_sourceFresh c) \<and> truthy (tc_freshAuthorityWatermark c)
     \<and> truthy (tc_lastCauseObservedAt c)
     \<and> \<not> num_le (dp (tc_freshAuthorityWatermark c)) (dp (tc_lastCauseObservedAt c))
     \<and> \<not> num_less (to_num (js_or (tc_stableForMs c) (JInt 0))) (to_num (js_or (tc_requiredStableMs c) (JInt 0)))
     \<and> (nullish (tc_writerEpoch c) \<or> nullish (tc_currentEpoch c)
        \<or> num_eq (to_num (tc_writerEpoch c)) (to_num (tc_currentEpoch c)))"
  using assms unfolding assertTransition_def assert_resolved_def
  by (simp only: rbind_eq_Inr guard_else_eq if_True simp_thms) blast



text \<open>A watermark text that does not parse passes the comparison of \<open>assertTransition\<close>
  (\<open>NaN <= x\<close> is false), so a recovering incident is resolved although no newer watermark was shown.\<close>

theorem unparsable_watermark_resolves:
  "\<exists>dp cur sg n. dp (freshAuthorityWatermark sg) = NaN \<and> status cur = ''recovering''
     \<and> deriveIncidentTransition dp (Some cur) sg sample_policy = Inr (Some n) \<and> status n = ''resolved''"
proof -
  let ?sg = "sample_signal\<lparr>freshAuthorityWatermark := JStr ''soon''\<rparr>"
  define dp where "dp = (\<lambda>v. if v = JStr ''soon'' then NaN else to_num v)"
  have "\<exists>n. deriveIncidentTransition dp (Some (sample_incident ''recovering'')) ?sg sample_policy = Inr (Some n)
      \<and> status n = ''resolved''"
    by (simp add: derive_eval sample_defs dp_def)
  then obtain n where n: "deriveIncidentTransition dp (Some (sample_incident ''recovering'')) ?sg sample_policy = Inr (Some n)"
      "status n = ''resolved''" by blast
  have "dp (freshAuthorityWatermark ?sg) = NaN" "status (sample_incident ''recovering'') = ''recovering''"
    by (simp_all add: sample_incident_def dp_def)
  with n show ?thesis by blast
qed

text \<open>along every sequence of derived transitions an incident keeps its identity and the time it
  was first detected, stays in a known state, and its severity never drops.\<close>

theorem incident_history_is_monotone:
  assumes "(incident_step dp pol)\<^sup>*\<^sup>* i j" and "status i \<in> set INCIDENT_STATES"
    and "severity_rank (severity i) \<noteq> NaN"
  shows "status j \<in> set INCIDENT_STATES \<and> incidentId j = incidentId i \<and> firstDetectedAt j = firstDetectedAt i
    \<and> num_le (severity_rank (severity i)) (severity_rank (severity j))"
  using incident_steps_keep [OF assms] by blast

theorem incident_history_is_monotone_witness:
  "\<exists>j. (incident_step to_num sample_policy)\<^sup>*\<^sup>* (sample_incident ''active'') j \<and> status j = ''recovering''
     \<and> incidentId j = incidentId (sample_incident ''active'')"
proof -
  let ?i = "sample_incident ''active''" and ?j = "begin_recovery (sample_incident ''active'') sample_signal"
  have "deriveIncidentTransition to_num (Some ?i) sample_signal sample_policy = Inr (Some ?j)"
    by (simp add: deriveIncidentTransition_def sample_defs)
  then have s: "(incident_step to_num sample_policy)\<^sup>*\<^sup>* ?i ?j"
    by (intro r_into_rtranclp signal_step)
  have "incidentId ?j = incidentId ?i"
    using incident_history_is_monotone [OF s]
    by (simp add: sample_defs INCIDENT_STATES_def severity_rank_def SEVERITY_ORDER_def js_or_def)
  with s show ?thesis by (auto simp: begin_recovery_def)
qed

text \<open>C1: the impact traversal reports each node once, at its exact shortest distance from the primary
  node over the traversed relation types and within the depth bound, never more nodes than the node
  bound; and when it reports itself not bounded, every node within the depth bound is reported.\<close>

theorem impact_traversal_is_breadth_first_search:
  fixes sha p rels maxDepth maxNodes
  defines "res \<equiv> boundedImpactTraversal sha p rels maxDepth maxNodes"
    and "E \<equiv> reach_edge (forward_map rels)"
  shows "distinct (map imp_nodeId (impacts res))
    \<and> length (impacts res) \<le> node_bound maxNodes \<and> visited_count res = length (impacts res)
    \<and> (\<forall>i\<in>set (impacts res). depth_ok (depth_bound maxDepth) (distance i)
         \<and> (E ^^ distance i) p (imp_nodeId i) \<and> (\<forall>d<distance i. \<not> (E ^^ d) p (imp_nodeId i)))
    \<and> (\<not> bounded res \<longrightarrow> (\<forall>d v. depth_ok (depth_bound maxDepth) d \<longrightarrow> (E ^^ d) p v
         \<longrightarrow> v \<in> imp_nodeId ` set (impacts res)))"
proof -
  obtain q vis imps where t: "traverse sha (forward_map rels) (depth_bound maxDepth) (node_bound maxNodes)
      [(p, 0, [p])] [] [] = (q, vis, imps)" by (metis prod_cases3)
  have res: "impacts res = imps" "bounded res = (q \<noteq> [])" "visited_count res = length vis"
    by (simp_all add: res_def boundedImpactTraversal_def t)
  have inv: "bfs_inv (forward_map rels) (depth_bound maxDepth) p q vis imps" and len: "length imps \<le> node_bound maxNodes"
    using traverse_inv [OF bfs_inv_start _ t] by auto
  have "length vis = length imps"
    using inv by (metis bfs_inv_def distinct_card length_map set_map)
  moreover have "v \<in> imp_nodeId ` set imps" if "q = []" "depth_ok (depth_bound maxDepth) d" "(E ^^ d) p v" for d v
    using bfs_frontier [OF inv that(3) [unfolded E_def] that(2)] that(1) by auto
  ultimately show ?thesis
    using inv len by (simp add: res bfs_inv_def E_def)
qed

theorem impact_traversal_is_breadth_first_search_witness:
  "map imp_nodeId (impacts (boundedImpactTraversal (\<lambda>t. t) ''a''
      [\<lparr>edge_from = ''a'', edge_type = ''depends_on'', edge_to = ''b''\<rparr>,
       \<lparr>edge_from = ''b'', edge_type = ''serves'', edge_to = ''c''\<rparr>,
       \<lparr>edge_from = ''a'', edge_type = ''owns'', edge_to = ''d''\<rparr>] (JInt 1) (JInt 10))) = [''a'', ''b'']
   \<and> distinct (map imp_nodeId (impacts (boundedImpactTraversal (\<lambda>t. t) ''a''
      [\<lparr>edge_from = ''a'', edge_type = ''depends_on'', edge_to = ''b''\<rparr>,
       \<lparr>edge_from = ''b'', edge_type = ''serves'', edge_to = ''c''\<rparr>,
       \<lparr>edge_from = ''a'', edge_type = ''owns'', edge_to = ''d''\<rparr>] (JInt 1) (JInt 10))))"
  using impact_traversal_is_breadth_first_search [where sha = "\<lambda>t. t" and p = "''a''" and maxDepth = "JInt 1"
      and maxNodes = "JInt 10" and rels = "[\<lparr>edge_from = ''a'', edge_type = ''depends_on'', edge_to = ''b''\<rparr>,
       \<lparr>edge_from = ''b'', edge_type = ''serves'', edge_to = ''c''\<rparr>,
       \<lparr>edge_from = ''a'', edge_type = ''owns'', edge_to = ''d''\<rparr>]"]
  by (simp add: boundedImpactTraversal_def traverse.simps forward_map_def TRAVERSED_TYPES_def
      next_items_def successors_def impact_of_def depth_bound_def node_bound_def num_max_def num_min_def
      js_coalesce_def nullish_def Let_def)

end
