(* ===== verification/Effects.thy ===== *)
theory Effects
  imports JsVal
begin

text \<open>
  Programs that talk to injected services.  The asynchronous code of the repository awaits calls
  on objects it was constructed with (a store, a session service, an owner, a clock).  Such a call
  is modelled by \<open>call\<close>: the environment, a function of everything that happened before and of the
  call, answers with a value or a thrown value, and the call is appended to the log together with
  its answer.  The environment is arbitrary: one that fails, stalls a lease or
  answers differently each time is included, and a property proved for every environment holds in each
  of them.  Thrown values are JavaScript values, as in the code.

  The second half is a weakest-precondition calculus for these programs: \<open>wp m Q E s\<close> says that
  the run of \<open>m\<close> from \<open>s\<close> returns into \<open>Q\<close> or throws into \<open>E\<close>.
\<close>

section \<open>Thrown values and property access\<close>

definition type_error :: jsval where
  "type_error = JObj [(''name'', JStr ''TypeError'')]"

definition js_error :: "string \<Rightarrow> (string \<times> jsval) list \<Rightarrow> jsval" where
  \<comment> \<open>\<open>Object.assign(new Error(message), fields)\<close>\<close>
  "js_error message fields = JObj ([(''name'', JStr ''Error''), (''message'', JStr message)] @ fields)"

definition coded_error :: "string \<Rightarrow> string \<Rightarrow> jsval" where
  "coded_error message code = js_error message [(''code'', JStr code)]"

definition http_error :: "int \<Rightarrow> string \<Rightarrow> jsval" where
  \<comment> \<open>\<open>throw { code, msg }\<close>\<close>
  "http_error status msg = JObj [(''code'', JInt status), (''msg'', JStr msg)]"

definition get_prop :: "jsval \<Rightarrow> string \<Rightarrow> jsval + jsval" where
  \<comment> \<open>\<open>v.k\<close>: reading a property of \<open>undefined\<close> or \<open>null\<close> throws\<close>
  "get_prop v k = (if nullish v then Inl type_error else Inr (fld v k))"

definition iterate :: "jsval \<Rightarrow> jsval + jsval list" where
  \<comment> \<open>the elements of \<open>[...v]\<close> or \<open>new Set(v)\<close>\<close>
  "iterate v = (case v of
       JArr xs \<Rightarrow> Inr xs
     | JStr s \<Rightarrow> Inr (map (\<lambda>c. JStr [c]) s)
     | _ \<Rightarrow> Inl type_error)"

definition array_of :: "jsval \<Rightarrow> jsval + jsval list" where
  \<comment> \<open>the receiver of \<open>v.map(...)\<close>, \<open>v.filter(...)\<close>\<close>
  "array_of v = (case v of JArr xs \<Rightarrow> Inr xs | _ \<Rightarrow> Inl type_error)"

definition is_object :: "jsval \<Rightarrow> bool" where
  "is_object v \<longleftrightarrow> (case v of JArr _ \<Rightarrow> True | JObj _ \<Rightarrow> True | _ \<Rightarrow> False)"

definition set_has :: "jsval list \<Rightarrow> jsval \<Rightarrow> bool" where
  \<comment> \<open>\<open>new Set(xs).has(v)\<close>; two objects of different origin are never the same element\<close>
  "set_has xs v \<longleftrightarrow> \<not> is_object v \<and> v \<in> set xs"

definition strict_eq :: "jsval \<Rightarrow> jsval \<Rightarrow> bool" where
  \<comment> \<open>\<open>a === b\<close> for values of different origin: distinct objects are never identical\<close>
  "strict_eq a b \<longleftrightarrow> \<not> is_object a \<and> \<not> is_object b \<and> js_eq a b"

definition first_row :: "jsval \<Rightarrow> jsval" where
  \<comment> \<open>\<open>rows?.[0]\<close>\<close>
  "first_row v = (case v of JArr (x # xs) \<Rightarrow> x | _ \<Rightarrow> JUndef)"

definition or_null :: "jsval \<Rightarrow> jsval" where
  \<comment> \<open>\<open>v || null\<close>\<close>
  "or_null v = js_or v JNull"

definition spread :: "(string \<times> jsval) list \<Rightarrow> (string \<times> jsval) list \<Rightarrow> (string \<times> jsval) list" where
  \<comment> \<open>\<open>{ ...base, ...extra }\<close>\<close>
  "spread base extra = fold (\<lambda>(k, v) kvs. upsert k v kvs) extra base"

lemma map_of_spread: "map_of (spread base extra) = map_of base ++ map_of (rev extra)"
proof (induction extra arbitrary: base)
  case (Cons kv extra)
  then show ?case
    by (cases kv) (auto simp: spread_def fun_eq_iff map_add_def split: option.splits)
qed (simp add: spread_def)

text \<open>\<open>JSON.parse(JSON.stringify(v))\<close> for a value that is not \<open>undefined\<close>.\<close>

fun json_copy :: "jsval \<Rightarrow> jsval" where
  "json_copy (JNum n) = (case n of Fin r \<Rightarrow> JNum n | _ \<Rightarrow> JNull)"
| "json_copy JUndef = JNull"
| "json_copy (JArr xs) = JArr (map json_copy xs)"
| "json_copy (JObj kvs) = JObj (map (\<lambda>kv. (fst kv, json_copy (snd kv))) (filter (\<lambda>kv. snd kv \<noteq> JUndef) kvs))"
| "json_copy v = v"

text \<open>
  \<open>s.replace(/pat/g, rep)\<close> for a literal pattern and a computed replacement: the replacement
  patterns of the language are expanded at every occurrence (no groups, so \<open>$1\<close> is literal).
\<close>

fun expand_rep :: "string \<Rightarrow> string \<Rightarrow> string \<Rightarrow> string \<Rightarrow> string" where
  "expand_rep pat before after [] = []"
| "expand_rep pat before after [c] = [c]"
| "expand_rep pat before after (c # d # r) =
     (if c = CHR ''$'' \<and> d = CHR ''$'' then CHR ''$'' # expand_rep pat before after r
      else if c = CHR ''$'' \<and> d = CHR ''&'' then pat @ expand_rep pat before after r
      else if c = CHR ''$'' \<and> d = CHR 0x60 then before @ expand_rep pat before after r
      else if c = CHR ''$'' \<and> d = CHR 0x27 then after @ expand_rep pat before after r
      else c # expand_rep pat before after (d # r))"

function replace_from :: "string \<Rightarrow> string \<Rightarrow> string \<Rightarrow> string \<Rightarrow> string" where
  "replace_from pat rep before s =
     (if s = [] then []
      else if pat \<noteq> [] \<and> starts_with pat s
      then expand_rep pat before (drop (length pat) s) rep
           @ replace_from pat rep (before @ pat) (drop (length pat) s)
      else hd s # replace_from pat rep (before @ [hd s]) (tl s))"
  by pat_completeness auto
termination
  by (relation "measure (\<lambda>(pat, rep, before, s). length s)") (auto simp: starts_with_def)

declare replace_from.simps [simp del]

definition replace_global :: "string \<Rightarrow> string \<Rightarrow> string \<Rightarrow> string" where
  "replace_global pat rep s = replace_from pat rep [] s"

text \<open>The time value of \<open>new Date(v)\<close>; parsing of date strings is the parameter \<open>dp\<close>.\<close>

definition time_clip :: "jnum \<Rightarrow> jnum" where
  "time_clip n = (case n of
       Fin r \<Rightarrow> if \<bar>r\<bar> \<le> 8640000000000000 then Fin (of_int (if 0 \<le> r then \<lfloor>r\<rfloor> else \<lceil>r\<rceil>)) else NaN
     | _ \<Rightarrow> NaN)"

definition date_time :: "(string \<Rightarrow> jnum) \<Rightarrow> jsval \<Rightarrow> jnum" where
  "date_time dp v = (case v of
       JStr s \<Rightarrow> dp s
     | JArr xs \<Rightarrow> dp (to_str v)
     | JObj kvs \<Rightarrow> dp (to_str v)
     | _ \<Rightarrow> time_clip (to_num v))"

text \<open>
  \<open>toISOString\<close>: the proleptic Gregorian date of a time value, by the usual day-count algorithm on
  eras of 400 years.  Years outside 0 to 9999 are written with a sign and six digits.
\<close>

definition civil_from_days :: "int \<Rightarrow> int \<times> int \<times> int" where
  "civil_from_days days =
     (let z = days + 719468; era = z div 146097; doe = z mod 146097;
          yoe = (doe - doe div 1460 + doe div 36524 - doe div 146096) div 365;
          doy = doe - (365 * yoe + yoe div 4 - yoe div 100);
          mp = (5 * doy + 2) div 153;
          d = doy - (153 * mp + 2) div 5 + 1;
          m = (if mp < 10 then mp + 3 else mp - 9)
      in (yoe + era * 400 + (if m \<le> 2 then 1 else 0), m, d))"

definition pad_left :: "nat \<Rightarrow> string \<Rightarrow> string" where
  "pad_left n s = replicate (n - length s) (CHR ''0'') @ s"

definition pad :: "nat \<Rightarrow> int \<Rightarrow> string" where
  "pad n i = pad_left n (nat_str (nat i))"

definition iso_year :: "int \<Rightarrow> string" where
  "iso_year y = (if 0 \<le> y \<and> y \<le> 9999 then pad 4 y
     else if y < 0 then CHR ''-'' # pad 6 (- y) else CHR ''+'' # pad 6 y)"

definition iso_time :: "int \<Rightarrow> string" where
  "iso_time ms =
     (let days = ms div 86400000; r = ms mod 86400000 in
      case civil_from_days days of (y, m, d) \<Rightarrow>
        iso_year y @ ''-'' @ pad 2 m @ ''-'' @ pad 2 d @ ''T''
        @ pad 2 (r div 3600000) @ '':'' @ pad 2 (r div 60000 mod 60) @ '':''
        @ pad 2 (r div 1000 mod 60) @ ''.'' @ pad 3 (r mod 1000) @ ''Z'')"

definition range_error :: jsval where
  "range_error = JObj [(''name'', JStr ''RangeError'')]"

definition to_iso_string :: "jnum \<Rightarrow> jsval + string" where
  \<comment> \<open>\<open>new Date(n).toISOString()\<close>\<close>
  "to_iso_string n = (case time_clip n of Fin r \<Rightarrow> Inr (iso_time \<lfloor>r\<rfloor>) | _ \<Rightarrow> Inl range_error)"

fun num_min :: "jnum \<Rightarrow> jnum \<Rightarrow> jnum" where
  "num_min NaN b = NaN"
| "num_min a NaN = NaN"
| "num_min a b = (if num_less b a then b else a)"

fun num_max :: "jnum \<Rightarrow> jnum \<Rightarrow> jnum" where
  "num_max NaN b = NaN"
| "num_max a NaN = NaN"
| "num_max a b = (if num_less a b then b else a)"

section \<open>Calls on injected services\<close>

datatype service_call = Call (cname: string) (cargs: "jsval list")

type_synonym answer = "jsval + jsval"
type_synonym history = "(service_call \<times> answer) list"
type_synonym environment = "history \<Rightarrow> service_call \<Rightarrow> answer"

record fx = fx_log :: history

type_synonym ('x, 'a) fxprog = "('x fx_scheme, jsval, 'a) prog"

definition call :: "environment \<Rightarrow> string \<Rightarrow> jsval list \<Rightarrow> ('x, jsval) fxprog" where
  "call env name args s =
     (let c = Call name args; r = env (fx_log s) c
      in (r, s\<lparr>fx_log := fx_log s @ [(c, r)]\<rparr>))"

definition pwhen :: "bool \<Rightarrow> ('s, 'e, unit) prog \<Rightarrow> ('s, 'e, unit) prog" where
  "pwhen b m = (if b then m else pret ())"

definition pguard :: "'e \<Rightarrow> bool \<Rightarrow> ('s, 'e, unit) prog" where
  \<comment> \<open>\<open>if (!b) throw e\<close>\<close>
  "pguard e b = (if b then pret () else pthrow e)"

lemma pkeeps_pguard [inv_intros]: "pkeeps I (pguard e b)"
  unfolding pguard_def by (intro inv_intros)

lemma pkeeps_pwhen [inv_intros]: "pkeeps I m \<Longrightarrow> pkeeps I (pwhen b m)"
  unfolding pwhen_def by (intro inv_intros)

lemma pkeeps_case_prod [inv_intros]:
  "(\<And>x y. pkeeps I (f x y)) \<Longrightarrow> pkeeps I (case p of (x, y) \<Rightarrow> f x y)"
  by (cases p) simp

lemma pkeeps_case_option [inv_intros]:
  "(p = None \<Longrightarrow> pkeeps I m) \<Longrightarrow> (\<And>x. p = Some x \<Longrightarrow> pkeeps I (f x)) \<Longrightarrow> pkeeps I (case p of None \<Rightarrow> m | Some x \<Rightarrow> f x)"
  by (cases p) simp_all

definition calls :: "string \<Rightarrow> history \<Rightarrow> (jsval list \<times> answer) list" where
  "calls name h = map (\<lambda>(c, r). (cargs c, r)) (filter (\<lambda>(c, r). cname c = name) h)"

lemma calls_simps [simp]:
  "calls name [] = []"
  "calls name (h @ h') = calls name h @ calls name h'"
  "calls name ((Call n a, r) # h) = (if n = name then (a, r) # calls name h else calls name h)"
  by (simp_all add: calls_def)

section \<open>Weakest preconditions\<close>

definition wp :: "('s, 'e, 'a) prog \<Rightarrow> ('a \<Rightarrow> 's \<Rightarrow> bool) \<Rightarrow> ('e \<Rightarrow> 's \<Rightarrow> bool) \<Rightarrow> 's \<Rightarrow> bool" where
  "wp m Q E s = (case m s of (Inl e, s') \<Rightarrow> E e s' | (Inr x, s') \<Rightarrow> Q x s')"

named_theorems wp_simps \<open>weakest preconditions of the program combinators\<close>

lemma wp_pret [wp_simps]: "wp (pret x) Q E s = Q x s"
  by (simp add: wp_def prog_defs)

lemma wp_pthrow [wp_simps]: "wp (pthrow e) Q E s = E e s"
  by (simp add: wp_def prog_defs)

lemma wp_pbind [wp_simps]: "wp (pbind m f) Q E s = wp m (\<lambda>x. wp (f x) Q E) E s"
  by (simp add: wp_def prog_defs split: prod.splits sum.splits)

lemma wp_pcatch [wp_simps]: "wp (pcatch m h) Q E s = wp m Q (\<lambda>e. wp (h e) Q E) s"
  by (simp add: wp_def prog_defs split: prod.splits sum.splits)

lemma wp_pget [wp_simps]: "wp (pget f) Q E s = Q (f s) s"
  by (simp add: wp_def prog_defs)

lemma wp_pmod [wp_simps]: "wp (pmod f) Q E s = Q () (f s)"
  by (simp add: wp_def prog_defs)

lemma wp_plift [wp_simps]: "wp (plift r) Q E s = (case r of Inl e \<Rightarrow> E e s | Inr x \<Rightarrow> Q x s)"
  by (simp add: wp_def prog_defs split: sum.splits)

lemma wp_if [wp_simps]: "wp (if b then m else n) Q E s = (if b then wp m Q E s else wp n Q E s)"
  by simp

lemma wp_pwhen [wp_simps]: "wp (pwhen b m) Q E s = (if b then wp m Q E s else Q () s)"
  by (simp add: pwhen_def wp_simps)

lemma wp_pguard [wp_simps]: "wp (pguard e b) Q E s = (if b then Q () s else E e s)"
  by (simp add: pguard_def wp_simps)

lemma wp_call [wp_simps]:
  "wp (call env name args) Q E s =
     (let r = env (fx_log s) (Call name args); s' = s\<lparr>fx_log := fx_log s @ [(Call name args, r)]\<rparr>
      in case r of Inl e \<Rightarrow> E e s' | Inr x \<Rightarrow> Q x s')"
  by (simp add: wp_def call_def Let_def split: sum.splits)

lemma wp_mono:
  assumes "wp m Q E s" and "\<And>x t. Q x t \<Longrightarrow> Q' x t" and "\<And>e t. E e t \<Longrightarrow> E' e t"
  shows "wp m Q' E' s"
  using assms by (auto simp: wp_def split: prod.splits sum.splits)

lemma wp_any: "(\<And>x t. Q x t) \<Longrightarrow> (\<And>e t. E e t) \<Longrightarrow> wp m Q E s"
  by (auto simp: wp_def split: prod.splits sum.splits)

lemma wp_conj:
  assumes "wp m Q E s" and "wp m Q' E' s"
  shows "wp m (\<lambda>x t. Q x t \<and> Q' x t) (\<lambda>e t. E e t \<and> E' e t) s"
  using assms by (auto simp: wp_def split: prod.splits sum.splits)

lemma wp_Inr: "wp m Q E s \<Longrightarrow> m s = (Inr x, t) \<Longrightarrow> Q x t"
  by (simp add: wp_def)

lemma wp_Inl: "wp m Q E s \<Longrightarrow> m s = (Inl e, t) \<Longrightarrow> E e t"
  by (simp add: wp_def)

lemma wp_snd:
  assumes "wp m (\<lambda>_ t. P t) (\<lambda>_ t. P t) s"
  shows "P (snd (m s))"
  using assms by (auto simp: wp_def split: prod.splits sum.splits)

lemma pkeeps_wp: "pkeeps I m \<Longrightarrow> I s \<Longrightarrow> wp m (\<lambda>_. I) (\<lambda>_. I) s"
  unfolding pkeeps_def wp_def by (metis (mono_tags, lifting) case_prod_beta old.sum.exhaust old.sum.simps(5,6))

text \<open>A rule for a call that does not look at how the answer was chosen.\<close>

lemma wp_callI:
  assumes "\<And>x. Q x (s\<lparr>fx_log := fx_log s @ [(Call name args, Inr x)]\<rparr>)"
    and "\<And>e. E e (s\<lparr>fx_log := fx_log s @ [(Call name args, Inl e)]\<rparr>)"
  shows "wp (call env name args) Q E s"
  using assms by (simp add: wp_simps Let_def split: sum.splits)

lemma wp_pbindI:
  assumes "wp m R E s" and "\<And>x t. R x t \<Longrightarrow> wp (f x) Q E t"
  shows "wp (pbind m f) Q E s"
  using assms by (auto simp: wp_simps intro: wp_mono)

end
