(* ===== verification/DurableOperation.thy ===== *)
theory DurableOperation
  imports OperationalGraph Effects
begin

text \<open>
  The durable operations of R2D2, \<open>src/apps/console-api/runtime/r2d2-durable-operation.js\<close>: the
  closed registry of management actions, the deterministic binder that turns a request into a
  plan with an exact confirmation, the authorization and precondition checks at execution time,
  the phase machine, and the worker that drives one claimed operation through it.

  Operations, sessions, approvals, observations and receipts are JavaScript values.  The worker's
  dependencies (store, sessions, authority, owners, verifiers, clock) are service calls; the
  timer that renews the lease in the background is seen only through the flag \<open>leaseLost\<close>, which
  it may raise at any time and which is read only by \<open>requireLease\<close>: \<open>timer_lost\<close> says, for
  each history, whether the timer has raised it by then.
\<close>

section \<open>Phases\<close>

definition TERMINAL :: "string list" where
  "TERMINAL = [''succeeded'', ''failed'', ''verification_failed'', ''inconclusive'',
     ''authorization_expired'', ''preflight_blocked'', ''cancelled'', ''timed_out'', ''rolled_back'']"

definition PHASE_TRANSITIONS :: "(string \<times> string list) list" where
  "PHASE_TRANSITIONS = [
     (''accepted'', [''awaiting_approval'', ''claimed'', ''cancelled'', ''timed_out'']),
     (''awaiting_approval'', [''claimed'', ''cancelled'', ''timed_out'']),
     (''claimed'', [''preflighting'', ''timed_out'']),
     (''preflighting'', [''executing'', ''authorization_expired'', ''preflight_blocked'', ''timed_out'']),
     (''executing'', [''verifying'', ''ambiguous'', ''failed'', ''timed_out'']),
     (''ambiguous'', [''reconciling'', ''failed'', ''timed_out'']),
     (''reconciling'', [''verifying'', ''failed'', ''inconclusive'', ''timed_out'']),
     (''verifying'', [''succeeded'', ''verification_failed'', ''inconclusive'', ''rolling_back'', ''timed_out'']),
     (''rolling_back'', [''rolled_back'', ''failed'', ''inconclusive''])]"

definition transitionPhase :: "string \<Rightarrow> string \<Rightarrow> jsval + string" where
  "transitionPhase current nxt =
     (if current = nxt then Inr current
      else if current \<in> set TERMINAL
      then Inl (js_error (''invalid operation transition '' @ current @ ''->'' @ nxt) [])
      else case table_get PHASE_TRANSITIONS current of
             Own allowed \<Rightarrow>
               if nxt \<in> set allowed then Inr nxt
               else Inl (js_error (''invalid operation transition '' @ current @ ''->'' @ nxt) [])
           | Inherited \<Rightarrow> Inl type_error
           | Absent \<Rightarrow> Inl (js_error (''invalid operation transition '' @ current @ ''->'' @ nxt) []))"

section \<open>The registry of actions\<close>

definition restart_workload_descriptor :: jsval where
  "restart_workload_descriptor = JObj [
     (''descriptorId'', JStr ''opensphere.workload.restart''), (''revision'', JStr ''2''),
     (''toolId'', JStr ''owner.workload.restart''),
     (''governedToolId'', JStr ''osaa.k8s.workload.restart''),
     (''verifierId'', JStr ''authority.workload.rollout''), (''riskClass'', JStr ''R1''),
     (''assurance'', JStr ''aal2''), (''targetKind'', JStr ''Deployment''),
     (''confirmationTemplate'', JStr ''restart <kind> <namespace>/<name>''),
     (''ownerRoute'', JStr ''cluster-manager/workloads''),
     (''allowedNamespaces'', JArr [JStr ''opensphere-*'']),
     (''permission'', JStr ''osaa.action.execute.high'')]"

definition scale_workload_descriptor :: jsval where
  "scale_workload_descriptor = JObj [
     (''descriptorId'', JStr ''opensphere.workload.scale''), (''revision'', JStr ''2''),
     (''toolId'', JStr ''owner.workload.scale''),
     (''governedToolId'', JStr ''osaa.k8s.workload.scale''),
     (''verifierId'', JStr ''authority.workload.replicas''), (''riskClass'', JStr ''R1''),
     (''assurance'', JStr ''aal2''), (''targetKind'', JStr ''Deployment''),
     (''confirmationTemplate'', JStr ''scale <kind> <namespace>/<name> to <replicas>''),
     (''ownerRoute'', JStr ''cluster-manager/workloads''),
     (''allowedNamespaces'', JArr [JStr ''opensphere-*'']),
     (''permission'', JStr ''osaa.action.execute.high'')]"

definition rollback_image_descriptor :: jsval where
  "rollback_image_descriptor = JObj [
     (''descriptorId'', JStr ''opensphere.release.rollback''), (''revision'', JStr ''1''),
     (''toolId'', JStr ''owner.release.rollback''),
     (''verifierId'', JStr ''authority.release.exact-digest''), (''riskClass'', JStr ''R2''),
     (''assurance'', JStr ''aal2''), (''targetKind'', JStr ''Deployment''),
     (''confirmationTemplate'', JStr ''rollback image <kind> <namespace>/<name> container <container> to <image>''),
     (''ownerRoute'', JStr ''foundation/platform-release''),
     (''allowedNamespaces'', JArr [JStr ''opensphere-*'']),
     (''permission'', JStr ''osaa.action.execute.high'')]"

definition run_cronjob_descriptor :: jsval where
  "run_cronjob_descriptor = JObj [
     (''descriptorId'', JStr ''opensphere.cronjob.run''), (''revision'', JStr ''1''),
     (''toolId'', JStr ''owner.cronjob.run-once''),
     (''verifierId'', JStr ''authority.job.completed''), (''riskClass'', JStr ''R2''),
     (''assurance'', JStr ''aal2''), (''targetKind'', JStr ''CronJob''),
     (''confirmationTemplate'', JStr ''run cronjob <namespace>/<name>''),
     (''ownerRoute'', JStr ''cluster-manager/workloads''),
     (''allowedNamespaces'', JArr [JStr ''opensphere-*'']),
     (''permission'', JStr ''osaa.action.execute.high'')]"

definition run_recovery_drill_descriptor :: jsval where
  "run_recovery_drill_descriptor = JObj [
     (''descriptorId'', JStr ''opensphere.recovery.drill.run''), (''revision'', JStr ''1''),
     (''toolId'', JStr ''owner.recovery.drill-run''),
     (''verifierId'', JStr ''authority.recovery.evidence''), (''riskClass'', JStr ''R2''),
     (''assurance'', JStr ''aal2''), (''targetKind'', JStr ''CronJob''),
     (''confirmationTemplate'', JStr ''run recovery drill <component>''),
     (''ownerRoute'', JStr ''recovery/isolated-drill''),
     (''allowedNamespaces'', JArr [JStr ''opensphere-console-recovery'']),
     (''permission'', JStr ''console.backup.restore'')]"

definition owner_recover_descriptor :: jsval where
  "owner_recover_descriptor = JObj [
     (''descriptorId'', JStr ''opensphere.owner.recover''), (''revision'', JStr ''1''),
     (''toolId'', JStr ''owner.recovery.execute''),
     (''verifierId'', JStr ''owner.recovery.postcondition''), (''riskClass'', JStr ''R2''),
     (''assurance'', JStr ''aal2''), (''targetKind'', JStr ''Capability''),
     (''confirmationTemplate'', JStr ''recover HISS <name>''),
     (''ownerRoute'', JStr ''cluster-manager/his''), (''allowedNamespaces'', JArr [JStr '''']),
     (''permission'', JStr ''osaa.action.execute.high'')]"

definition retry_delivery_descriptor :: jsval where
  "retry_delivery_descriptor = JObj [
     (''descriptorId'', JStr ''opensphere.notification.retry''), (''revision'', JStr ''1''),
     (''toolId'', JStr ''owner.notification.retry''),
     (''verifierId'', JStr ''owner.notification.delivery''), (''riskClass'', JStr ''R2''),
     (''assurance'', JStr ''aal2''), (''targetKind'', JStr ''NotificationDelivery''),
     (''confirmationTemplate'', JStr ''retry notification delivery <name>''),
     (''ownerRoute'', JStr ''owner/notifications''), (''allowedNamespaces'', JArr [JStr '''']),
     (''permission'', JStr ''console.notification.manage'')]"

definition create_postgres_cluster_descriptor :: jsval where
  "create_postgres_cluster_descriptor = JObj [
     (''descriptorId'', JStr ''foundation.postgres.cluster.create''), (''revision'', JStr ''2''),
     (''toolId'', JStr ''owner.foundation.postgres.create''),
     (''verifierId'', JStr ''owner.foundation.postgres.ready''), (''riskClass'', JStr ''R2''),
     (''assurance'', JStr ''aal2''), (''targetKind'', JStr ''FoundationClaim''),
     (''confirmationTemplate'', JStr ''create PostgreSQL cluster <namespace>/<name> binding <bindingDigest> version <postgresVersion> storage-profile <storageProfile>''),
     (''ownerRoute'', JStr ''foundation/postgres''),
     (''allowedNamespaces'', JArr [JStr ''opensphere-*'']),
     (''permission'', JStr ''osaa.action.execute.high'')]"

definition DESCRIPTORS :: "(string \<times> jsval) list" where
  "DESCRIPTORS = [
     (''restart-workload'', restart_workload_descriptor),
     (''scale-workload'', scale_workload_descriptor),
     (''rollback-image'', rollback_image_descriptor),
     (''run-cronjob'', run_cronjob_descriptor),
     (''run-recovery-drill'', run_recovery_drill_descriptor),
     (''owner-recover'', owner_recover_descriptor),
     (''retry-delivery'', retry_delivery_descriptor),
     (''create-postgres-cluster'', create_postgres_cluster_descriptor)]"

definition registry_get :: "(string \<times> jsval) list \<Rightarrow> string \<Rightarrow> jsval" where
  \<comment> \<open>\<open>registry[action]\<close>; an inherited member is an object without any descriptor field\<close>
  "registry_get registry action = (case table_get registry action of
     Own d \<Rightarrow> d | Inherited \<Rightarrow> JObj [] | Absent \<Rightarrow> JUndef)"

section \<open>Digest, confirmation and planning\<close>

definition durable_digest :: "(string \<Rightarrow> string) \<Rightarrow> jsval \<Rightarrow> jsval + string" where
  \<comment> \<open>\<open>stableJson\<close> of \<open>undefined\<close> is \<open>undefined\<close>, which the hash refuses\<close>
  "durable_digest sha v = (case digest sha v of None \<Rightarrow> Inl type_error | Some d \<Rightarrow> Inr d)"

definition confirmation_fields :: "jsval \<Rightarrow> jsval \<Rightarrow> (string \<times> string) list" where
  "confirmation_fields target bindingDigest = [
     (''<kind>'', to_lower (str_or_empty (fld target ''kind''))),
     (''<namespace>'', str_or_empty (fld target ''namespace'')),
     (''<name>'', str_or_empty (fld target ''name'')),
     (''<container>'', str_or_empty (fld target ''container'')),
     (''<image>'', str_or_empty (fld target ''image'')),
     (''<uid>'', str_or_empty (fld target ''uid'')),
     (''<digest>'', str_or_empty (fld target ''digest'')),
     (''<revision>'', str_or_empty (fld target ''desiredRevision'')),
     (''<replicas>'', to_str (js_coalesce (fld target ''replicas'') (JStr []))),
     (''<bindingDigest>'', str_or_empty (js_or bindingDigest (fld (fld target ''request'') ''bindingDigest''))),
     (''<storageProfile>'', str_or_empty (fld (fld target ''request'') ''plan'')),
     (''<plan>'', str_or_empty (fld (fld target ''request'') ''plan'')),
     (''<postgresVersion>'', str_or_empty (fld (fld target ''request'') ''postgresVersion'')),
     (''<component>'', str_or_empty (fld (fld target ''request'') ''component''))]"

definition exactConfirmation :: "jsval \<Rightarrow> jsval \<Rightarrow> jsval \<Rightarrow> jsval + string" where
  \<comment> \<open>the replacements run one after the other, so a later one also sees the text an earlier one put in\<close>
  "exactConfirmation descriptor target bindingDigest =
     (case fld descriptor ''confirmationTemplate'' of
        JStr t \<Rightarrow> Inr (fold (\<lambda>(pat, rep) s. replace_global pat rep s)
                        (confirmation_fields target bindingDigest) t)
      | _ \<Rightarrow> Inl type_error)"

definition unsupported_action :: jsval where
  "unsupported_action = coded_error ''unsupported management action'' ''DescriptorNotFound''"

definition operationConfirmation :: "jsval \<Rightarrow> jsval \<Rightarrow> jsval + string" where
  "operationConfirmation planned bindingDigest =
     (let descriptor = registry_get DESCRIPTORS (str_or_empty (fld planned ''action'')) in
      rbind (guard_else unsupported_action (truthy descriptor)) (\<lambda>_.
        exactConfirmation descriptor (js_or (fld planned ''target'') (JObj [])) bindingDigest))"

definition namespaceAllowed :: "string \<Rightarrow> string list \<Rightarrow> bool" where
  "namespaceAllowed ns patterns \<longleftrightarrow> list_ex (\<lambda>pattern.
     if pattern = [] then ns = []
     else if ends_with ''*'' pattern then starts_with (butlast pattern) ns
     else ns = pattern) patterns"

fun require_fields :: "(string \<Rightarrow> string) \<Rightarrow> string \<Rightarrow> jsval \<Rightarrow> string list \<Rightarrow> jsval + unit" where
  "require_fields message code v [] = Inr ()"
| "require_fields message code v (field # rest) =
     (if trim (str_or_empty (fld v field)) = [] then Inl (coded_error (message field) code)
      else require_fields message code v rest)"

definition check_action_target :: "string \<Rightarrow> jsval \<Rightarrow> jsval + unit" where
  "check_action_target action target =
     rbind (guard_else (coded_error ''rollback requires an exact image digest'' ''ExactDigestRequired'')
        (action = ''rollback-image'' \<longrightarrow> is_sha256_ref (str_or_empty (fld target ''digest'')))) (\<lambda>_.
     rbind (guard_else (coded_error ''rollback requires container and repository@exact-digest image'' ''ExactImageRequired'')
        (action = ''rollback-image'' \<longrightarrow>
           str_or_empty (fld target ''container'') \<noteq> []
           \<and> ends_with (''@'' @ to_str (fld target ''digest'')) (str_or_empty (fld target ''image'')))) (\<lambda>_.
     rbind (guard_else (coded_error ''scale requires replicas between 0 and 50'' ''ReplicaTargetRequired'')
        (action = ''scale-workload'' \<longrightarrow>
           num_is_integer (to_num (fld target ''replicas''))
           \<and> \<not> num_less (to_num (fld target ''replicas'')) (Fin 0)
           \<and> \<not> num_less (Fin 50) (to_num (fld target ''replicas'')))) (\<lambda>_.
     rbind (guard_else (coded_error ''owner recovery requires a desired revision'' ''DesiredRevisionRequired'')
        (action = ''owner-recover'' \<longrightarrow> str_or_empty (fld target ''desiredRevision'') \<noteq> [])) (\<lambda>_.
     guard_else (coded_error ''recovery drill component must be supabase or gitea'' ''RecoveryComponentRequired'')
        (action = ''run-recovery-drill'' \<longrightarrow>
           str_or_empty (fld (fld target ''request'') ''component'') \<in> set [''supabase'', ''gitea''])))))"

definition check_postgres_target :: "jsval \<Rightarrow> jsval + unit" where
  "check_postgres_target target =
     (let request = js_or (fld target ''request'') (JObj []) in
      rbind (require_fields (\<lambda>field. ''PostgreSQL request '' @ field @ '' is required'')
               ''PostgresRequestIncomplete'' request
               [''name'', ''namespace'', ''alias'', ''database'', ''owner'', ''plan'', ''postgresVersion'', ''deletionPolicy'']) (\<lambda>_.
      rbind (guard_else (coded_error ''PostgreSQL request target does not match the resolved FoundationClaim'' ''PostgresTargetMismatch'')
               (strict_eq (fld request ''name'') (fld target ''name'')
                \<and> strict_eq (fld request ''namespace'') (fld target ''namespace''))) (\<lambda>_.
      guard_else (coded_error ''PostgreSQL owner target revision is required'' ''TargetRevisionRequired'')
               (str_or_empty (fld target ''resourceVersion'') \<noteq> []))))"

definition null_or_str :: "jsval \<Rightarrow> jsval" where
  "null_or_str v = (if nullish v then JNull else JStr (to_str v))"

definition null_or_num :: "jsval \<Rightarrow> jsval" where
  "null_or_num v = (if nullish v then JNull else JNum (to_num v))"

definition planned_target :: "jsval \<Rightarrow> jsval" where
  "planned_target target = JObj [
     (''kind'', JStr (to_str (fld target ''kind''))),
     (''namespace'', JStr (str_or_empty (fld target ''namespace''))),
     (''name'', JStr (to_str (fld target ''name''))),
     (''uid'', JStr (to_str (fld target ''uid''))),
     (''generation'', null_or_num (fld target ''generation'')),
     (''resourceVersion'', null_or_str (fld target ''resourceVersion'')),
     (''desiredRevision'', null_or_str (fld target ''desiredRevision'')),
     (''digest'', null_or_str (fld target ''digest'')),
     (''image'', null_or_str (fld target ''image'')),
     (''container'', null_or_str (fld target ''container'')),
     (''replicas'', null_or_num (fld target ''replicas'')),
     (''request'', if nullish (fld target ''request'') then JNull else json_copy (fld target ''request''))]"

definition planOperation :: "(string \<Rightarrow> string) \<Rightarrow> (string \<times> jsval) list \<Rightarrow> jsval \<Rightarrow> jsval + jsval" where
  "planOperation sha registry request =
     (let action = str_or_empty (fld request ''action'');
          descriptor = registry_get registry action;
          target = js_or (fld request ''target'') (JObj [])
      in rbind (guard_else unsupported_action (truthy descriptor)) (\<lambda>_.
         rbind (require_fields (\<lambda>field. ''exact target '' @ field @ '' is required'') ''TargetIncomplete''
                  target [''kind'', ''name'', ''uid'']) (\<lambda>_.
         rbind (guard_else (coded_error ''target kind is not permitted'' ''TargetKindMismatch'')
                  (JStr (to_str (fld target ''kind'')) = fld descriptor ''targetKind'')) (\<lambda>_.
         rbind (guard_else (coded_error ''target namespace is not permitted'' ''NamespaceDenied'')
                  (namespaceAllowed (str_or_empty (fld target ''namespace''))
                     (map to_str (elems (fld descriptor ''allowedNamespaces''))))) (\<lambda>_.
         rbind (check_action_target action target) (\<lambda>_.
         rbind (if action = ''create-postgres-cluster'' then check_postgres_target target else Inr ()) (\<lambda>_.
         rbind (exactConfirmation descriptor target (fld request ''bindingDigest'')) (\<lambda>expected.
         rbind (durable_digest sha descriptor) (\<lambda>descriptorDigest.
           Inr (JObj [
             (''action'', JStr action),
             (''descriptorId'', fld descriptor ''descriptorId''),
             (''descriptorRevision'', fld descriptor ''revision''),
             (''descriptorDigest'', JStr descriptorDigest),
             (''toolId'', fld descriptor ''toolId''),
             (''verifierId'', fld descriptor ''verifierId''),
             (''ownerRoute'', fld descriptor ''ownerRoute''),
             (''riskClass'', fld descriptor ''riskClass''),
             (''requiredAssurance'', fld descriptor ''assurance''),
             (''requiredPermission'', fld descriptor ''permission''),
             (''expectedConfirmation'', JStr expected),
             (''target'', planned_target target)]))))))))))"

definition bindOperation :: "(string \<Rightarrow> string) \<Rightarrow> (string \<times> jsval) list \<Rightarrow> jsval \<Rightarrow> jsval + jsval" where
  "bindOperation sha registry request =
     rbind (planOperation sha registry request) (\<lambda>planned.
     let expected = fld planned ''expectedConfirmation'' in
     rbind (guard_else (js_error ''human-supplied exact confirmation does not match''
              [(''code'', JStr ''ExactConfirmationRequired''), (''expected'', expected)])
            (str_or_empty (fld request ''confirmation'') \<noteq> []
             \<and> JStr (to_str (fld request ''confirmation'')) = expected)) (\<lambda>_.
     rbind (guard_else (coded_error ''reason must contain at least eight characters'' ''ReasonRequired'')
            (8 \<le> length (trim (str_or_empty (fld request ''reason''))))) (\<lambda>_.
     rbind (durable_digest sha (JStr (to_str (fld request ''confirmation'')))) (\<lambda>confirmationDigest.
       Inr (JObj (obj_entries planned @ [
         (''reason'', JStr (trim (to_str (fld request ''reason'')))),
         (''confirmationDigest'', JStr confirmationDigest)]))))))"

definition expectedPostcondition :: "jsval \<Rightarrow> jsval + jsval" where
  "expectedPostcondition operation =
     (let target = fld operation ''target''; verifierId = fld operation ''verifierId'' in
      rbind (get_prop target ''uid'') (\<lambda>uid.
      let common = [(''verifierId'', verifierId), (''targetUid'', uid)] in
      if verifierId = JStr ''authority.workload.rollout'' then
        Inr (JObj (common @ [(''generationGreaterThan'', fld target ''generation'')]))
      else if verifierId = JStr ''authority.workload.replicas'' then
        Inr (JObj (common @ [(''replicas'', fld target ''replicas''), (''generationAtLeast'', fld target ''generation'')]))
      else if verifierId = JStr ''authority.release.exact-digest'' then
        Inr (JObj (common @ [(''container'', fld target ''container''), (''exactDigest'', fld target ''digest'')]))
      else if verifierId = JStr ''authority.job.completed'' then
        Inr (JObj (common @ [(''ownerReceiptRequired'', JBool True), (''terminalCondition'', JStr ''Complete'')]))
      else if verifierId = JStr ''authority.recovery.evidence'' then
        Inr (JObj (common @ [(''ownerReceiptRequired'', JBool True), (''terminalCondition'', JStr ''Complete''),
          (''component'', or_null (fld (fld target ''request'') ''component'')), (''structuredEvidenceVerified'', JBool True)]))
      else if verifierId = JStr ''owner.recovery.postcondition'' then
        Inr (JObj (common @ [(''desiredRevision'', fld target ''desiredRevision''),
          (''allowedStates'', JArr [JStr ''ready'', JStr ''deployed'', JStr ''healthy''])]))
      else if verifierId = JStr ''owner.notification.delivery'' then
        Inr (JObj (common @ [(''allowedStates'', JArr [JStr ''accepted'', JStr ''delivered''])]))
      else if verifierId = JStr ''owner.foundation.postgres.ready'' then
        Inr (JObj (common @ [
          (''foundationClaim'', JObj [(''phase'', JStr ''Bound''), (''observedGenerationMatches'', JBool True)]),
          (''postgresClaim'', JObj [(''ready'', JBool True), (''observedGenerationMatches'', JBool True)]),
          (''sgClusterReady'', JBool True), (''bindingSecretIssued'', JBool True)]))
      else Inl (coded_error ''descriptor verifier has no closed postcondition'' ''PostconditionNotRegistered'')))"

section \<open>Authorization and preconditions at execution time\<close>

record authorization =
  az_allowed :: bool
  az_phase :: string
  az_code :: string
  az_token :: jsval
  az_actor :: jsval

definition denied :: "string \<Rightarrow> string \<Rightarrow> authorization" where
  "denied ph code = \<lparr>az_allowed = False, az_phase = ph, az_code = code, az_token = JUndef, az_actor = JUndef\<rparr>"

definition approval_active :: "jsval \<Rightarrow> jsval + bool" where
  "approval_active item = rbind (get_prop item ''revokedAt'') (\<lambda>revoked.
     Inr (\<not> truthy revoked \<and> fld item ''assurance'' = JStr ''aal2''))"

definition activeApprovers :: "jsval \<Rightarrow> jsval + string list" where
  "activeApprovers approvals =
     rbind (array_of approvals) (\<lambda>items.
     rbind (map_res approval_active items) (\<lambda>active.
       Inr (uniq (map (\<lambda>(item, _). to_str (fld item ''approverId''))
                    (filter snd (zip items active))))))"

definition recently_reauthenticated :: "(string \<Rightarrow> jnum) \<Rightarrow> jnum \<Rightarrow> jsval \<Rightarrow> bool" where
  "recently_reauthenticated dp now session =
     (let reauthenticatedAt = dp (str_or_empty (fld session ''lastReauthenticatedAt'')) in
      num_is_finite reauthenticatedAt \<and> \<not> num_less (Fin 300000) (num_sub now reauthenticatedAt))"

definition authorizeAtExecution ::
  "(string \<Rightarrow> jnum) \<Rightarrow> jsval \<Rightarrow> jsval \<Rightarrow> jsval \<Rightarrow> jnum \<Rightarrow> jsval + authorization" where
  "authorizeAtExecution dp operation session approvals now =
     (if \<not> truthy (fld session ''active'')
         \<or> to_str (fld session ''actorId'') \<noteq> to_str (fld operation ''actorId'')
      then Inr (denied ''authorization_expired'' ''AuthorizationExpired'')
      else if str_or_empty (fld session ''authzRevision'') \<noteq> str_or_empty (fld operation ''authzRevision'')
      then Inr (denied ''authorization_expired'' ''AuthorizationRevisionChanged'')
      else rbind (iterate (js_or (fld session ''permissions'') (JArr []))) (\<lambda>permissions.
        if \<not> set_has permissions (js_or (fld operation ''requiredPermission'')
               (JStr (''r2d2:'' @ to_str (fld operation ''action''))))
        then Inr (denied ''preflight_blocked'' ''PermissionDenied'')
        else if fld operation ''requiredAssurance'' = JStr ''aal2'' \<and> fld session ''assurance'' \<noteq> JStr ''aal2''
        then Inr (denied ''authorization_expired'' ''AssuranceExpired'')
        else if fld operation ''requiredAssurance'' = JStr ''aal2'' \<and> \<not> recently_reauthenticated dp now session
        then Inr (denied ''authorization_expired'' ''RecentAssuranceRequired'')
        else rbind (activeApprovers approvals) (\<lambda>approvers.
          if fld operation ''riskClass'' = JStr ''R2'' \<and> length approvers < 1
          then Inr (denied ''preflight_blocked'' ''ApprovalRequired'')
          else if fld operation ''riskClass'' = JStr ''R3'' \<and> length approvers < 2
          then Inr (denied ''preflight_blocked'' ''TwoPersonApprovalRequired'')
          else Inr \<lparr>az_allowed = True, az_phase = ''preflighting'', az_code = ''Authorized'',
                    az_token = fld session ''accessToken'', az_actor = JUndef\<rparr>)))"

text \<open>\<open>Inl code\<close> inside the result is \<open>ok: false\<close>; \<open>Inr d\<close> is \<open>ok: true\<close> with the digest of what was seen.\<close>

definition checkLivePreconditions ::
  "(string \<Rightarrow> string) \<Rightarrow> jsval \<Rightarrow> jsval \<Rightarrow> jsval + (string + string)" where
  "checkLivePreconditions sha operation live =
     (let target = fld operation ''target'' in
      if \<not> truthy (fld live ''fresh'') \<or> \<not> truthy (fld live ''snapshotComplete'')
      then Inr (Inl ''AuthorityUnavailable'')
      else rbind (get_prop target ''uid'') (\<lambda>uid.
        if str_or_empty (fld live ''uid'') \<noteq> str_or_empty uid then Inr (Inl ''TargetUidChanged'')
        else if \<not> nullish (fld target ''generation'')
                \<and> \<not> num_eq (to_num (fld live ''generation'')) (to_num (fld target ''generation''))
        then Inr (Inl ''TargetGenerationChanged'')
        else if truthy (fld target ''resourceVersion'')
                \<and> to_str (fld live ''resourceVersion'') \<noteq> to_str (fld target ''resourceVersion'')
        then Inr (Inl ''TargetRevisionChanged'')
        else if truthy (fld target ''desiredRevision'')
                \<and> to_str (fld live ''desiredRevision'') \<noteq> to_str (fld target ''desiredRevision'')
        then Inr (Inl ''DesiredRevisionChanged'')
        else rbind (durable_digest sha live) (\<lambda>d. Inr (Inr d))))"

section \<open>The worker\<close>

record worker =
  w_env :: environment
  w_dp :: "string \<Rightarrow> jnum"
  w_sha :: "string \<Rightarrow> string"
  w_id :: jsval
  has_heartbeat :: bool
  has_intent :: bool
  timer_lost :: "history \<Rightarrow> bool"

record wstate = fx +
  w_phase :: string
  w_lost :: bool

type_synonym 'a wprog = "(wstate, jsval, 'a) prog"

record process_result =
  r_phase :: string
  r_ownerCalled :: bool
  r_code :: jsval

definition required_dependencies :: "string list" where
  "required_dependencies = [''store'', ''sessions'', ''authority'', ''owners'', ''verifiers'']"

definition worker_new :: "worker \<Rightarrow> (string \<Rightarrow> bool) \<Rightarrow> nat \<Rightarrow> jsval + worker" where
  \<comment> \<open>\<open>present\<close> tells which dependencies were given; the worker id falls back to the process id\<close>
  "worker_new deps present pid =
     (case find (\<lambda>name. \<not> present name) required_dependencies of
        Some name \<Rightarrow> Inl (js_error (name @ '' dependency is required'') [])
      | None \<Rightarrow> Inr (deps\<lparr>w_id := js_or (w_id deps) (JStr (''worker-'' @ nat_str pid))\<rparr>))"

definition operation_id :: "jsval \<Rightarrow> jsval" where
  "operation_id operation = fld operation ''operationId''"

definition heartbeat :: "worker \<Rightarrow> jsval \<Rightarrow> bool wprog" where
  "heartbeat w operation =
     (if \<not> has_heartbeat w then pret True
      else pbind (call (w_env w) ''store.heartbeat'' [operation_id operation]) (\<lambda>kept.
           if truthy kept then pret True
           else pbind (pmod (\<lambda>s. s\<lparr>w_lost := True\<rparr>)) (\<lambda>_. pret False)))"

definition lease_lost_error :: jsval where
  "lease_lost_error = coded_error ''durable operation claim lease was lost'' ''ClaimLeaseLost''"

definition heartbeat_timer :: "worker \<Rightarrow> unit wprog" where
  \<comment> \<open>what the interval timer may have done since the flag was last looked at\<close>
  "heartbeat_timer w =
     pmod (\<lambda>s. if has_heartbeat w \<and> timer_lost w (fx_log s) then s\<lparr>w_lost := True\<rparr> else s)"

definition requireLease :: "worker \<Rightarrow> jsval \<Rightarrow> unit wprog" where
  "requireLease w operation =
     pbind (heartbeat_timer w) (\<lambda>_.
     pbind (pget w_lost) (\<lambda>lost.
     if lost then pthrow lease_lost_error
     else pbind (heartbeat w operation) (\<lambda>kept. if kept then pret () else pthrow lease_lost_error)))"

definition step :: "worker \<Rightarrow> jsval \<Rightarrow> string \<Rightarrow> string \<Rightarrow> string \<Rightarrow> (string \<times> jsval) list \<Rightarrow> unit wprog" where
  "step w operation nxt type status evidence =
     pbind (requireLease w operation) (\<lambda>_.
     pbind (pget w_phase) (\<lambda>current.
     pbind (plift (transitionPhase current nxt)) (\<lambda>ph.
     pbind (pmod (\<lambda>s. s\<lparr>w_phase := ph\<rparr>)) (\<lambda>_.
     pbind (plift (durable_digest (w_sha w) (JObj evidence))) (\<lambda>d.
     pbind (call (w_env w) ''store.appendStep'' [operation_id operation, JObj [
        (''type'', JStr type), (''phase'', JStr ph), (''status'', JStr status),
        (''evidence'', JObj (upsert ''digest'' (JStr d) evidence))]]) (\<lambda>_.
     pbind (call (w_env w) ''store.setPhase'' [operation_id operation, JStr nxt]) (\<lambda>_.
     pret ())))))))"

definition now_ms :: "worker \<Rightarrow> jnum wprog" where
  \<comment> \<open>\<open>this.now().getTime()\<close>\<close>
  "now_ms w = pbind (call (w_env w) ''now'' []) (\<lambda>t. pret (to_num t))"

definition deadlineExceeded :: "worker \<Rightarrow> jsval \<Rightarrow> bool wprog" where
  "deadlineExceeded w operation =
     (let deadline = date_time (w_dp w) (fld operation ''deadlineAt'') in
      if \<not> truthy (fld operation ''deadlineAt'') then pret False
      else if \<not> num_is_finite deadline then pret False
      else pbind (now_ms w) (\<lambda>now. pret (num_le deadline now)))"

definition stopBeforeMutationIfExpired :: "worker \<Rightarrow> jsval \<Rightarrow> bool wprog" where
  "stopBeforeMutationIfExpired w operation =
     pbind (deadlineExceeded w operation) (\<lambda>exceeded.
     if \<not> exceeded then pret False
     else pbind (step w operation ''timed_out'' ''terminal'' ''blocked''
                  [(''code'', JStr ''OperationDeadlineExceeded''), (''deadlineAt'', fld operation ''deadlineAt'')])
            (\<lambda>_. pret True))"

definition finish :: "bool \<Rightarrow> jsval \<Rightarrow> process_result wprog" where
  \<comment> \<open>\<open>return { phase, ownerCalled, code }\<close>\<close>
  "finish called code = pget (\<lambda>s. \<lparr>r_phase = w_phase s, r_ownerCalled = called, r_code = code\<rparr>)"

definition approver_accepts :: "jsval \<Rightarrow> jsval \<Rightarrow> jsval \<Rightarrow> jsval + bool" where
  "approver_accepts operation approval session =
     (if str_or_empty (fld session ''authzRevision'') \<noteq> str_or_empty (fld approval ''authzRevision'')
      then Inr False
      else rbind (iterate (js_or (fld session ''permissions'') (JArr []))) (\<lambda>permissions.
             Inr (set_has permissions (fld operation ''requiredPermission''))))"

fun independent_approver :: "worker \<Rightarrow> jsval \<Rightarrow> jsval list \<Rightarrow> authorization option wprog" where
  "independent_approver w operation [] = pret None"
| "independent_approver w operation (approval # approvals) =
     (if truthy (fld approval ''revokedAt'') \<or> fld approval ''assurance'' \<noteq> JStr ''aal2''
         \<or> \<not> truthy (fld approval ''authSessionId'')
         \<or> to_str (fld approval ''approverId'') = to_str (fld operation ''actorId'')
      then independent_approver w operation approvals
      else pbind (call (w_env w) ''sessions.resolve'' [fld approval ''authSessionId'', fld approval ''approverId'']) (\<lambda>session.
           if \<not> truthy (fld session ''active'') \<or> fld session ''assurance'' \<noteq> JStr ''aal2''
              \<or> \<not> num_is_finite (w_dp w (str_or_empty (fld session ''lastReauthenticatedAt'')))
           then independent_approver w operation approvals
           else pbind (now_ms w) (\<lambda>now.
                if \<not> recently_reauthenticated (w_dp w) now session
                then independent_approver w operation approvals
                else pbind (plift (approver_accepts operation approval session)) (\<lambda>ok.
                     if ok then pret (Some \<lparr>az_allowed = True, az_phase = ''preflighting'',
                                 az_code = ''AuthorizedByIndependentApprover'',
                                 az_token = fld session ''accessToken'', az_actor = fld approval ''approverId''\<rparr>)
                     else independent_approver w operation approvals))))"

definition pattempt :: "('s, 'e, 'a) prog \<Rightarrow> ('s, 'e, 'e + 'a) prog" where
  "pattempt m s = (case m s of (r, t) \<Rightarrow> (Inr r, t))"

definition resolve_identity :: "worker \<Rightarrow> jsval \<Rightarrow> (jsval \<times> jsval) wprog" where
  \<comment> \<open>\<open>Promise.all\<close>: both calls are issued before either answer is looked at\<close>
  "resolve_identity w operation =
     pbind (pattempt (call (w_env w) ''sessions.resolve'' [fld operation ''authSessionId'', fld operation ''actorId''])) (\<lambda>r1.
     pbind (pattempt (call (w_env w) ''store.getApprovals'' [operation_id operation])) (\<lambda>r2.
     pbind (plift r1) (\<lambda>session. pbind (plift r2) (\<lambda>approvals. pret (session, approvals)))))"

definition delegate :: "worker \<Rightarrow> jsval \<Rightarrow> jsval \<Rightarrow> authorization \<Rightarrow> authorization wprog" where
  \<comment> \<open>an independent approver may become the execution identity of an R2 or R3 operation\<close>
  "delegate w operation approvals az =
     (if \<not> az_allowed az \<and> az_code az \<in> set [''AssuranceExpired'', ''RecentAssuranceRequired'']
         \<and> fld operation ''riskClass'' \<in> set [JStr ''R2'', JStr ''R3'']
      then pbind (plift (activeApprovers approvals)) (\<lambda>active.
           let required = (if fld operation ''riskClass'' = JStr ''R3'' then 2 else 1) in
           pbind (independent_approver w operation (if required \<le> length active then elems approvals else [])) (\<lambda>found.
           pret (case found of Some az' \<Rightarrow> az' | None \<Rightarrow> az)))
      else pret az)"

definition authorize :: "worker \<Rightarrow> jsval \<Rightarrow> authorization wprog" where
  "authorize w operation =
     pbind (resolve_identity w operation) (\<lambda>(session, approvals).
     pbind (now_ms w) (\<lambda>now.
     pbind (plift (authorizeAtExecution (w_dp w) operation session
                     (if approvals = JUndef then JArr [] else approvals) now)) (\<lambda>az.
     delegate w operation approvals az)))"

definition uncertain_phases :: "string list" where
  "uncertain_phases = [''executing'', ''ambiguous'', ''reconciling'', ''verifying'']"

definition deny :: "worker \<Rightarrow> jsval \<Rightarrow> bool \<Rightarrow> authorization \<Rightarrow> process_result wprog" where
  "deny w operation resuming az =
     pbind (if \<not> resuming
            then step w operation (az_phase az) ''authorization'' ''blocked'' [(''code'', JStr (az_code az))]
            else pbind (pget w_phase) (\<lambda>ph.
                 pbind (pwhen (ph = ''executing'')
                   (step w operation ''ambiguous'' ''owner-call'' ''inconclusive'' [(''code'', JStr ''RecoveredExecutingLease'')])) (\<lambda>_.
                 step w operation ''inconclusive'' ''authorization'' ''blocked''
                   [(''code'', JStr (az_code az @ ''AfterOwnerCall''))])))
       (\<lambda>_. finish False (JStr (az_code az)))"

definition owner_payload :: "jsval \<Rightarrow> string \<Rightarrow> jsval" where
  "owner_payload operation downstreamKey = JObj [
     (''operationId'', operation_id operation), (''idempotencyKey'', JStr downstreamKey),
     (''toolId'', fld operation ''toolId''), (''target'', fld operation ''target''),
     (''reason'', fld operation ''reason''), (''confirmation'', fld operation ''confirmation''),
     (''bindingDigest'', or_null (fld operation ''bindingDigest''))]"

definition owner_failure :: "worker \<Rightarrow> jsval \<Rightarrow> string \<Rightarrow> jsval \<Rightarrow> (process_result + jsval) wprog" where
  \<comment> \<open>the \<open>catch\<close> clause around the owner call\<close>
  "owner_failure w operation downstreamKey error =
     (if fld error ''code'' = JStr ''ClaimLeaseLost'' then pthrow error
      else if fld error ''ambiguous'' = JBool True
      then pbind (step w operation ''ambiguous'' ''owner-call'' ''inconclusive''
                    [(''downstreamKey'', JStr downstreamKey), (''code'', JStr ''AmbiguousOwnerOutcome'')])
             (\<lambda>_. pret (Inr JUndef))
      else let code = js_or (fld error ''code'') (JStr ''OwnerCallFailed'') in
           pbind (step w operation ''failed'' ''owner-call'' ''failed'' [(''code'', code)]) (\<lambda>_.
           pbind (finish True code) (\<lambda>r. pret (Inl r))))"

definition invoke_owner :: "worker \<Rightarrow> jsval \<Rightarrow> jsval \<Rightarrow> string \<Rightarrow> (process_result + jsval) wprog" where
  "invoke_owner w operation token downstreamKey =
     pcatch
       (pbind (call (w_env w) ''owners.invoke''
                 [fld operation ''ownerRoute'', owner_payload operation downstreamKey, token]) (\<lambda>receipt.
        pbind (requireLease w operation) (\<lambda>_. pret (Inr receipt))))
       (owner_failure w operation downstreamKey)"

definition deadline_result :: "(process_result + 'r) wprog" where
  "deadline_result = pbind (finish False (JStr ''OperationDeadlineExceeded'')) (\<lambda>r. pret (Inl r))"

definition record_intent :: "worker \<Rightarrow> jsval \<Rightarrow> string \<Rightarrow> unit wprog" where
  "record_intent w operation downstreamKey = pwhen (has_intent w)
     (pbind (call (w_env w) ''store.recordDownstreamIntent'' [operation_id operation, JStr downstreamKey]) (\<lambda>_. pret ()))"

definition commit_call :: "worker \<Rightarrow> jsval \<Rightarrow> jsval \<Rightarrow> string \<Rightarrow> (process_result + jsval) wprog" where
  "commit_call w operation token downstreamKey =
     pbind (requireLease w operation) (\<lambda>_.
     pbind (record_intent w operation downstreamKey) (\<lambda>_.
     invoke_owner w operation token downstreamKey))"

definition unless_expired :: "worker \<Rightarrow> jsval \<Rightarrow> (process_result + jsval) wprog \<Rightarrow> (process_result + jsval) wprog" where
  "unless_expired w operation m =
     pbind (stopBeforeMutationIfExpired w operation) (\<lambda>stopped. if stopped then deadline_result else m)"

definition execute :: "worker \<Rightarrow> jsval \<Rightarrow> jsval \<Rightarrow> string \<Rightarrow> string \<Rightarrow> (process_result + jsval) wprog" where
  \<comment> \<open>from satisfied preconditions to the owner's receipt\<close>
  "execute w operation token downstreamKey preconditionDigest =
     unless_expired w operation
       (pbind (step w operation ''executing'' ''precondition'' ''succeeded''
                 [(''preconditionDigest'', JStr preconditionDigest)]) (\<lambda>_.
        unless_expired w operation (commit_call w operation token downstreamKey)))"

definition mutate :: "worker \<Rightarrow> jsval \<Rightarrow> jsval \<Rightarrow> string \<Rightarrow> (process_result + jsval) wprog" where
  "mutate w operation token downstreamKey =
     pbind (call (w_env w) ''authority.read'' [fld operation ''target'', token]) (\<lambda>live.
     pbind (plift (checkLivePreconditions (w_sha w) operation live)) (\<lambda>preflight.
     case preflight of
       Inl code \<Rightarrow> pbind (step w operation ''preflight_blocked'' ''precondition'' ''blocked'' [(''code'', JStr code)]) (\<lambda>_.
                   pbind (finish False (JStr code)) (\<lambda>r. pret (Inl r)))
     | Inr d \<Rightarrow> execute w operation token downstreamKey d))"

definition reconcile_owner :: "worker \<Rightarrow> jsval \<Rightarrow> jsval \<Rightarrow> string \<Rightarrow> jsval wprog" where
  "reconcile_owner w operation token downstreamKey =
     call (w_env w) ''owners.reconcile''
       [fld operation ''ownerRoute'', JStr downstreamKey, fld operation ''target'', token]"

definition inconclusive_result :: "worker \<Rightarrow> jsval \<Rightarrow> bool \<Rightarrow> string \<Rightarrow> (process_result + jsval) wprog" where
  "inconclusive_result w operation called code =
     pbind (step w operation ''inconclusive'' ''reconcile'' ''inconclusive'' [(''code'', JStr code)]) (\<lambda>_.
     pbind (finish called (JStr code)) (\<lambda>r. pret (Inl r)))"

definition record_receipt :: "worker \<Rightarrow> jsval \<Rightarrow> string \<Rightarrow> jsval \<Rightarrow> (process_result + jsval) wprog" where
  "record_receipt w operation downstreamKey receipt =
     pbind (plift (durable_digest (w_sha w) receipt)) (\<lambda>d.
     pbind (step w operation ''verifying'' ''receipt'' ''succeeded''
              [(''receiptDigest'', JStr d), (''downstreamKey'', JStr downstreamKey)]) (\<lambda>_.
     pret (Inr receipt)))"

definition settle :: "worker \<Rightarrow> jsval \<Rightarrow> jsval \<Rightarrow> string \<Rightarrow> bool \<Rightarrow> jsval \<Rightarrow> (process_result + jsval) wprog" where
  \<comment> \<open>from the receipt of a fresh call, or by asking the owner what became of an uncertain one\<close>
  "settle w operation token downstreamKey called receipt =
     pbind (pget w_phase) (\<lambda>ph.
     if ph = ''executing'' then record_receipt w operation downstreamKey receipt
     else if ph = ''verifying''
     then pbind (reconcile_owner w operation token downstreamKey) (\<lambda>known.
          if \<not> truthy known
          then inconclusive_result w operation called ''OwnerReceiptUnavailableDuringVerificationResume''
          else pret (Inr known))
     else pbind (pwhen (ph = ''ambiguous'')
                   (step w operation ''reconciling'' ''reconcile'' ''running'' [(''downstreamKey'', JStr downstreamKey)])) (\<lambda>_.
          pbind (requireLease w operation) (\<lambda>_.
          pbind (reconcile_owner w operation token downstreamKey) (\<lambda>known.
          if \<not> truthy known then inconclusive_result w operation called ''OwnerOutcomeUnknown''
          else record_receipt w operation downstreamKey known))))"

definition verify :: "worker \<Rightarrow> jsval \<Rightarrow> jsval \<Rightarrow> bool \<Rightarrow> jsval \<Rightarrow> process_result wprog" where
  "verify w operation token called receipt =
     pbind (requireLease w operation) (\<lambda>_.
     pbind (call (w_env w) ''verifiers.verify''
              [fld operation ''verifierId'', fld operation ''target'', receipt, token]) (\<lambda>verified.
     let evidence = [(''verifier'', fld operation ''verifierId''), (''observed'', fld verified ''observed'')] in
     pbind (if fld verified ''status'' = JStr ''succeeded''
            then step w operation ''succeeded'' ''verification'' ''succeeded'' evidence
            else if fld verified ''status'' = JStr ''failed''
            then step w operation ''verification_failed'' ''verification'' ''failed'' evidence
            else step w operation ''inconclusive'' ''verification'' ''inconclusive'' evidence) (\<lambda>_.
     finish called (js_or (fld verified ''status'') (JStr ''inconclusive'')))))"

definition conclude :: "worker \<Rightarrow> jsval \<Rightarrow> jsval \<Rightarrow> string \<Rightarrow> bool \<Rightarrow> jsval \<Rightarrow> process_result wprog" where
  "conclude w operation token downstreamKey called receipt =
     pbind (settle w operation token downstreamKey called receipt) (\<lambda>settled.
     case settled of Inl r \<Rightarrow> pret r | Inr known \<Rightarrow> verify w operation token called known)"

definition drive :: "worker \<Rightarrow> jsval \<Rightarrow> bool \<Rightarrow> authorization \<Rightarrow> process_result wprog" where
  \<comment> \<open>what an authorized worker does\<close>
  "drive w operation resuming az =
     pbind (pwhen (truthy (az_actor az)) (pbind (pget w_phase) (\<lambda>ph.
        step w operation ph ''authorization-delegation'' ''succeeded'' [
          (''actorId'', fld operation ''actorId''), (''executionActorId'', az_actor az), (''code'', JStr (az_code az))]))) (\<lambda>_.
     let downstreamKey = trim (str_or_empty (fld operation ''idempotencyKey'')) in
     if \<not> is_safe_key downstreamKey
     then pbind (step w operation ''preflight_blocked'' ''idempotency'' ''failed''
                   [(''code'', JStr ''StableIdempotencyKeyRequired'')]) (\<lambda>_.
          finish False (JStr ''StableIdempotencyKeyRequired''))
     else if resuming then conclude w operation (az_token az) downstreamKey False JUndef
     else pbind (mutate w operation (az_token az) downstreamKey) (\<lambda>outcome.
          case outcome of
            Inl r \<Rightarrow> pret r
          | Inr receipt \<Rightarrow> conclude w operation (az_token az) downstreamKey True receipt))"

definition claim :: "worker \<Rightarrow> jsval \<Rightarrow> unit wprog" where
  "claim w operation = pbind (pget w_phase) (\<lambda>ph.
     pwhen (ph = ''accepted'' \<or> ph = ''awaiting_approval'')
       (step w operation ''claimed'' ''claim'' ''succeeded'' [(''workerId'', w_id w)]))"

definition process_body :: "worker \<Rightarrow> jsval \<Rightarrow> process_result wprog" where
  "process_body w operation =
     pbind (claim w operation) (\<lambda>_.
     pbind (pget w_phase) (\<lambda>ph.
     let resuming = (ph \<in> set uncertain_phases) in
     pbind (if resuming then pret False else stopBeforeMutationIfExpired w operation) (\<lambda>stopped.
     if stopped then finish False (JStr ''OperationDeadlineExceeded'')
     else pbind (pwhen (ph = ''claimed'') (step w operation ''preflighting'' ''authorization'' ''running'' [])) (\<lambda>_.
          pbind (authorize w operation) (\<lambda>az.
          if \<not> az_allowed az then deny w operation resuming az
          else drive w operation resuming az)))))"

definition process :: "worker \<Rightarrow> jsval \<Rightarrow> process_result wprog" where
  "process w operation =
     pbind (pmod (\<lambda>s. s\<lparr>w_phase := to_str (fld operation ''phase''), w_lost := False\<rparr>)) (\<lambda>_.
     process_body w operation)"

section \<open>Histories of a run\<close>

text \<open>The phases a history writes, in order, and what it means for them to follow the machine.\<close>

definition phase_edge :: "string \<Rightarrow> string \<Rightarrow> bool" where
  "phase_edge a b \<longleftrightarrow> a = b
     \<or> a \<notin> set TERMINAL \<and> (case map_of PHASE_TRANSITIONS a of Some l \<Rightarrow> b \<in> set l | None \<Rightarrow> False)"

definition written :: "history \<Rightarrow> jsval list" where
  "written h = map (\<lambda>(args, r). args ! 1) (calls ''store.setPhase'' h)"

fun phase_path :: "string \<Rightarrow> jsval list \<Rightarrow> bool" where
  "phase_path p [] = True"
| "phase_path p (v # vs) = (case v of JStr q \<Rightarrow> phase_edge p q \<and> phase_path q vs | _ \<Rightarrow> False)"

fun path_end :: "string \<Rightarrow> jsval list \<Rightarrow> string" where
  "path_end p [] = p"
| "path_end p (v # vs) = path_end (to_str v) vs"

lemma phase_path_append:
  "phase_path p (vs @ us) \<longleftrightarrow> phase_path p vs \<and> phase_path (path_end p vs) us"
  by (induction p vs rule: phase_path.induct) (auto split: jsval.splits)

lemma path_end_append: "path_end p (vs @ us) = path_end (path_end p vs) us"
  by (induction p vs rule: path_end.induct) auto

lemma written_append [simp]: "written (h @ h') = written h @ written h'"
  by (simp add: written_def)

lemma transitionPhase_Inr: "transitionPhase a b = Inr c \<longleftrightarrow> c = b \<and> phase_edge a b"
  by (auto simp: transitionPhase_def phase_edge_def table_get_def split: if_splits option.splits)

text \<open>
  How one state leads to another: the log grows, the phases written in between follow the machine,
  and, unless calls on the owner are admitted, none is made.  After a return the phase variable is
  the phase last written; after a throw it may be ahead of it.
\<close>

definition grows :: "bool \<Rightarrow> wstate \<Rightarrow> wstate \<Rightarrow> history \<Rightarrow> bool" where
  "grows b s t k \<longleftrightarrow> fx_log t = fx_log s @ k \<and> phase_path (w_phase s) (written k)
     \<and> (b \<or> calls ''owners.invoke'' k = [])"

definition moves :: "bool \<Rightarrow> wstate \<Rightarrow> wstate \<Rightarrow> bool" where
  "moves b s t \<longleftrightarrow> (\<exists>k. grows b s t k \<and> path_end (w_phase s) (written k) = w_phase t)"

definition breaks :: "bool \<Rightarrow> wstate \<Rightarrow> wstate \<Rightarrow> bool" where
  "breaks b s t \<longleftrightarrow> (\<exists>k. grows b s t k)"

lemma moves_refl [simp]: "moves b s s"
  by (auto simp: moves_def grows_def written_def intro: exI [of _ "[]"])

lemma moves_breaks: "moves b s t \<Longrightarrow> breaks b s t"
  by (auto simp: moves_def breaks_def)

lemma moves_trans: "moves b s t \<Longrightarrow> moves b t u \<Longrightarrow> moves b s u"
  unfolding moves_def grows_def
  by (force simp: phase_path_append path_end_append)

lemma moves_breaks_trans: "moves b s t \<Longrightarrow> breaks b t u \<Longrightarrow> breaks b s u"
  unfolding moves_def breaks_def grows_def
  by (force simp: phase_path_append path_end_append)

lemma moves_call:
  "name \<noteq> ''store.setPhase'' \<Longrightarrow> b \<or> name \<noteq> ''owners.invoke'' \<Longrightarrow>
     moves b s (s\<lparr>fx_log := fx_log s @ [(Call name args, r)]\<rparr>)"
  by (auto simp: moves_def grows_def written_def)

definition orderly :: "bool \<Rightarrow> 'a wprog \<Rightarrow> bool" where
  "orderly b m \<longleftrightarrow> (\<forall>s. wp m (\<lambda>_ t. moves b s t) (\<lambda>_ t. breaks b s t) s)"

named_theorems orderly_intros \<open>programs whose runs follow the phase machine\<close>

lemma orderlyD: "orderly b m \<Longrightarrow> wp m (\<lambda>_ t. moves b s t) (\<lambda>_ t. breaks b s t) s"
  by (simp add: orderly_def)

lemma orderly_pret [orderly_intros]: "orderly b (pret x)"
  by (simp add: orderly_def wp_simps)

lemma orderly_pthrow [orderly_intros]: "orderly b (pthrow e)"
  by (simp add: orderly_def wp_simps moves_breaks)

lemma orderly_pget [orderly_intros]: "orderly b (pget f)"
  by (simp add: orderly_def wp_simps)

lemma orderly_plift [orderly_intros]: "orderly b (plift r)"
  by (simp add: orderly_def wp_simps moves_breaks split: sum.splits)

lemma orderly_pbind [orderly_intros]:
  assumes "orderly b m" and "\<And>x. orderly b (f x)"
  shows "orderly b (pbind m f)"
  unfolding orderly_def
proof
  fix s
  show "wp (pbind m f) (\<lambda>_ t. moves b s t) (\<lambda>_ t. breaks b s t) s"
    using orderlyD [OF assms(1)]
  proof (rule wp_pbindI)
    fix x t assume "moves b s t"
    then show "wp (f x) (\<lambda>_ t. moves b s t) (\<lambda>_ t. breaks b s t) t"
      by (intro wp_mono [OF orderlyD [OF assms(2)]]) (rule moves_trans moves_breaks_trans, assumption+)+
  qed
qed

lemma orderly_if [orderly_intros]:
  "(c \<Longrightarrow> orderly b m) \<Longrightarrow> (\<not> c \<Longrightarrow> orderly b n) \<Longrightarrow> orderly b (if c then m else n)"
  by simp

lemma orderly_pwhen [orderly_intros]: "(c \<Longrightarrow> orderly b m) \<Longrightarrow> orderly b (pwhen c m)"
  by (simp add: pwhen_def orderly_pret)

lemma orderly_call [orderly_intros]:
  "name \<noteq> ''store.setPhase'' \<Longrightarrow> b \<or> name \<noteq> ''owners.invoke'' \<Longrightarrow> orderly b (call env name args)"
  unfolding orderly_def by (auto intro!: wp_callI moves_call moves_breaks)

lemma orderly_pattempt_call [orderly_intros]:
  "name \<noteq> ''store.setPhase'' \<Longrightarrow> b \<or> name \<noteq> ''owners.invoke'' \<Longrightarrow>
     orderly b (pattempt (call env name args))"
  unfolding orderly_def wp_def pattempt_def call_def by (auto simp: Let_def intro!: moves_call)

lemma orderly_lost [orderly_intros]:
  "(\<And>s. fx_log (f s) = fx_log s \<and> w_phase (f s) = w_phase s) \<Longrightarrow> orderly b (pmod f)"
  unfolding orderly_def moves_def grows_def by (auto simp: wp_simps written_def intro!: exI [of _ "[]"])

lemma orderly_heartbeat_timer [orderly_intros]: "orderly b (heartbeat_timer w)"
  unfolding heartbeat_timer_def by (rule orderly_lost) simp

lemma orderly_heartbeat [orderly_intros]: "orderly b (heartbeat w operation)"
  unfolding heartbeat_def by (intro orderly_intros) simp_all

lemma orderly_requireLease [orderly_intros]: "orderly b (requireLease w operation)"
  unfolding requireLease_def by (intro orderly_intros)

lemma orderly_now_ms [orderly_intros]: "orderly b (now_ms w)"
  unfolding now_ms_def by (intro orderly_intros) simp_all

text \<open>
  The three calls of a step: nothing is written before the transition is admitted, and on return
  the last entry of the log is the write of the new phase.
\<close>

definition step_done :: "jsval \<Rightarrow> string \<Rightarrow> wstate \<Rightarrow> bool" where
  "step_done operation nxt t \<longleftrightarrow> w_phase t = nxt
     \<and> (\<exists>l x. fx_log t = l @ [(Call ''store.setPhase'' [operation_id operation, JStr nxt], Inr x)])"

lemma wp_step:
  "wp (step w operation nxt type status evidence)
     (\<lambda>_ t. moves b s t \<and> phase_edge (w_phase s) nxt \<and> step_done operation nxt t)
     (\<lambda>_ t. breaks b s t) s"
proof -
  let ?Q = "\<lambda>_ t. moves b s t \<and> phase_edge (w_phase s) nxt \<and> step_done operation nxt t"
  let ?E = "\<lambda>_ t. breaks b s t"
  have lease: "wp (requireLease w operation) (\<lambda>_ t. moves b s t \<and> w_phase t = w_phase s) ?E s"
    unfolding requireLease_def heartbeat_timer_def heartbeat_def
    by (auto simp: wp_simps Let_def moves_def breaks_def grows_def written_def split: sum.splits)
  show ?thesis
    unfolding step_def
  proof (rule wp_pbindI [OF lease])
    fix x :: unit and t assume t: "moves b s t \<and> w_phase t = w_phase s"
    then obtain k where k: "fx_log t = fx_log s @ k" "phase_path (w_phase s) (written k)"
        "b \<or> calls ''owners.invoke'' k = []" "path_end (w_phase s) (written k) = w_phase s"
      by (auto simp: moves_def grows_def)
    show "wp (pbind (pget w_phase) (\<lambda>current.
       pbind (plift (transitionPhase current nxt)) (\<lambda>ph.
       pbind (pmod (\<lambda>s. s\<lparr>w_phase := ph\<rparr>)) (\<lambda>_.
       pbind (plift (durable_digest (w_sha w) (JObj evidence))) (\<lambda>d.
       pbind (call (w_env w) ''store.appendStep'' [operation_id operation, JObj [
          (''type'', JStr type), (''phase'', JStr ph), (''status'', JStr status),
          (''evidence'', JObj (upsert ''digest'' (JStr d) evidence))]]) (\<lambda>_.
       pbind (call (w_env w) ''store.setPhase'' [operation_id operation, JStr nxt]) (\<lambda>_.
       pret ())))))))  ?Q ?E t"
      using t k
      by (auto simp: wp_simps Let_def transitionPhase_Inr moves_def breaks_def grows_def written_def
          step_done_def phase_path_append path_end_append split: sum.splits)
  qed
qed

lemma orderly_step [orderly_intros]: "orderly b (step w operation nxt type status evidence)"
  unfolding orderly_def by (intro allI wp_mono [OF wp_step]) simp_all

lemma orderly_case_prod [orderly_intros]:
  "(\<And>x y. orderly b (f x y)) \<Longrightarrow> orderly b (case p of (x, y) \<Rightarrow> f x y)"
  by (cases p) simp

lemma orderly_case_sum [orderly_intros]:
  "(\<And>x. orderly b (f x)) \<Longrightarrow> (\<And>y. orderly b (g y)) \<Longrightarrow>
     orderly b (case r of Inl x \<Rightarrow> f x | Inr y \<Rightarrow> g y)"
  by (cases r) simp_all

lemma orderly_deadlineExceeded [orderly_intros]: "orderly b (deadlineExceeded w operation)"
  unfolding deadlineExceeded_def Let_def by (intro orderly_intros)

lemma orderly_stop [orderly_intros]: "orderly b (stopBeforeMutationIfExpired w operation)"
  unfolding stopBeforeMutationIfExpired_def by (intro orderly_intros)

lemma orderly_finish [orderly_intros]: "orderly b (finish called code)"
  unfolding finish_def by (intro orderly_intros)

lemma orderly_independent_approver [orderly_intros]:
  "orderly b (independent_approver w operation approvals)"
proof (induction approvals)
  case Nil
  then show ?case by (auto intro: orderly_intros)
next
  case (Cons a approvals)
  then show ?case
    unfolding independent_approver.simps by (intro orderly_intros) simp_all
qed

lemma orderly_resolve_identity [orderly_intros]: "orderly b (resolve_identity w operation)"
  unfolding resolve_identity_def by (intro orderly_intros) simp_all

lemma orderly_delegate [orderly_intros]: "orderly b (delegate w operation approvals az)"
  unfolding delegate_def Let_def by (intro orderly_intros)

lemma orderly_authorize [orderly_intros]: "orderly b (authorize w operation)"
  unfolding authorize_def by (intro orderly_intros)

lemma orderly_deny [orderly_intros]: "orderly b (deny w operation resuming az)"
  unfolding deny_def by (intro orderly_intros)

lemma orderly_owner_failure [orderly_intros]: "orderly b (owner_failure w operation key e)"
  unfolding owner_failure_def Let_def by (intro orderly_intros)

lemma orderly_settle [orderly_intros]:
  "orderly b (settle w operation token key called receipt)"
  unfolding settle_def record_receipt_def inconclusive_result_def reconcile_owner_def
  by (intro orderly_intros) simp_all

lemma orderly_verify [orderly_intros]: "orderly b (verify w operation token called receipt)"
  unfolding verify_def Let_def by (intro orderly_intros) simp_all

lemma orderly_conclude [orderly_intros]:
  "orderly b (conclude w operation token key called receipt)"
  unfolding conclude_def by (intro orderly_intros)

text \<open>The owner call itself: whatever goes wrong inside the \<open>try\<close>, the phase is still the written one.\<close>

lemma wp_requireLease:
  "wp (requireLease w operation)
     (\<lambda>_ t. moves b s t \<and> w_phase t = w_phase s \<and>
        (has_heartbeat w \<longrightarrow> (\<exists>l x. fx_log t = l @ [(Call ''store.heartbeat'' [operation_id operation], Inr x)] \<and> truthy x)))
     (\<lambda>_ t. moves b s t) s"
  unfolding requireLease_def heartbeat_timer_def heartbeat_def
  by (auto simp: wp_simps Let_def moves_def breaks_def grows_def written_def split: sum.splits)

definition owner_call :: "jsval \<Rightarrow> string \<Rightarrow> jsval \<Rightarrow> service_call" where
  "owner_call operation key token =
     Call ''owners.invoke'' [fld operation ''ownerRoute'', owner_payload operation key, token]"

definition after_call :: "jsval \<Rightarrow> string \<Rightarrow> jsval \<Rightarrow> wstate \<Rightarrow> answer \<Rightarrow> wstate" where
  "after_call operation key token s r = s\<lparr>fx_log := fx_log s @ [(owner_call operation key token, r)]\<rparr>"

lemma wp_invoke_owner:
  "wp (invoke_owner w operation token key) (\<lambda>_ t. \<exists>r. moves b (after_call operation key token s r) t)
     (\<lambda>_ t. \<exists>r. breaks b (after_call operation key token s r) t) s"
proof -
  let ?Q = "\<lambda>_ t. \<exists>r. moves b (after_call operation key token s r) t"
    and ?E = "\<lambda>_ t. \<exists>r. breaks b (after_call operation key token s r) t"
  have fail: "wp (owner_failure w operation key e) ?Q ?E t"
    if "moves b (after_call operation key token s r) t" for e r t
  proof (rule wp_mono [OF orderlyD [OF orderly_owner_failure [of b]]])
    show "\<And>x u. moves b t u \<Longrightarrow> ?Q x u" "\<And>x u. breaks b t u \<Longrightarrow> ?E x u"
      using that moves_trans moves_breaks_trans by blast+
  qed
  have lease: "wp (pbind (requireLease w operation) (\<lambda>_. pret (Inr x))) ?Q
      (\<lambda>e. wp (owner_failure w operation key e) ?Q ?E) (after_call operation key token s r)" for x r
  proof (rule wp_pbindI [OF wp_mono [OF wp_requireLease [of w operation b]]])
    show "wp (owner_failure w operation key e) ?Q ?E t"
      if "moves b (after_call operation key token s r) t" for e t
      by (rule fail [OF that])
  qed (auto simp: wp_simps)
  show ?thesis
    unfolding invoke_owner_def wp_pcatch wp_pbind [of "call _ _ _"] owner_call_def [symmetric]
    using lease fail [OF moves_refl] by (intro wp_callI) (simp_all add: after_call_def owner_call_def)
qed

lemma orderly_invoke_owner: "orderly True (invoke_owner w operation token key)"
  unfolding orderly_def
proof (intro allI wp_mono [OF wp_invoke_owner [where b = True]])
  have c: "moves True s (after_call operation key token s r)" for s :: wstate and r
    unfolding after_call_def owner_call_def by (rule moves_call) simp_all
  fix s t :: wstate
  show "moves True s t" if "\<exists>r. moves True (after_call operation key token s r) t"
    using that c moves_trans by blast
  show "breaks True s t" if "\<exists>r. breaks True (after_call operation key token s r) t"
    using that c moves_breaks_trans by blast
qed

lemma orderly_record_intent [orderly_intros]: "orderly b (record_intent w operation key)"
  unfolding record_intent_def by (intro orderly_intros) simp_all

lemma orderly_mutate: "orderly True (mutate w operation token key)"
  unfolding mutate_def execute_def unless_expired_def commit_call_def deadline_result_def
  by (intro orderly_intros orderly_invoke_owner) simp_all

lemma orderly_drive: "orderly True (drive w operation resuming az)"
  unfolding drive_def Let_def by (intro orderly_intros orderly_mutate)

lemma orderly_claim [orderly_intros]: "orderly b (claim w operation)"
  unfolding claim_def by (intro orderly_intros)

definition start :: wstate where
  "start = \<lparr>fx_log = [], w_phase = [], w_lost = False\<rparr>"

definition run_log :: "worker \<Rightarrow> jsval \<Rightarrow> history" where
  "run_log w operation = fx_log (snd (process w operation start))"

definition begin_state :: "jsval \<Rightarrow> wstate" where
  "begin_state operation = \<lparr>fx_log = [], w_phase = to_str (fld operation ''phase''), w_lost = False\<rparr>"

lemma process_start: "process w operation start = process_body w operation (begin_state operation)"
  by (simp add: process_def pbind_def pmod_def start_def begin_state_def)

lemma orderly_process_body: "orderly True (process_body w operation)"
  unfolding process_body_def Let_def by (intro orderly_intros orderly_drive)

text \<open>The table only leads forward: every edge between different phases raises the rank.\<close>

definition phase_order :: "string list" where
  "phase_order = [''accepted'', ''awaiting_approval'', ''claimed'', ''preflighting'', ''executing'',
     ''ambiguous'', ''reconciling'', ''verifying'', ''rolling_back'']"

definition phase_rank :: "string \<Rightarrow> nat" where
  "phase_rank p = (case find_index (\<lambda>q. q = p) phase_order of Some i \<Rightarrow> i | None \<Rightarrow> 9)"

lemma phase_edges_lead_forward:
  "list_all (\<lambda>(a, bs). list_all (\<lambda>b. phase_rank a < phase_rank b) bs) PHASE_TRANSITIONS"
  by code_simp

lemma phase_edge_rank:
  assumes "phase_edge a b"
  shows "a = b \<or> phase_rank a < phase_rank b"
proof -
  have "phase_rank a < phase_rank b" if "map_of PHASE_TRANSITIONS a = Some l" "b \<in> set l" for l
    using phase_edges_lead_forward map_of_SomeD [OF that(1)] that(2) by (auto simp: list_all_iff)
  then show ?thesis
    using assms by (auto simp: phase_edge_def split: option.splits)
qed

definition forward :: "jsval \<Rightarrow> jsval \<Rightarrow> bool" where
  "forward v u \<longleftrightarrow> v = u \<or> phase_rank (to_str v) < phase_rank (to_str u)"

lemma forward_trans: "forward u v \<Longrightarrow> forward v x \<Longrightarrow> forward u x"
  by (auto simp: forward_def)

lemma phase_path_forward: "phase_path p vs \<Longrightarrow> sorted_wrt forward (JStr p # vs)"
proof (induction p vs rule: phase_path.induct)
  case (2 p v vs)
  then obtain q where q: "v = JStr q" "phase_edge p q" "sorted_wrt forward (JStr q # vs)"
    by (auto split: jsval.splits)
  then have "forward (JStr p) (JStr q)"
    using phase_edge_rank by (auto simp: forward_def)
  then show ?case
    using q forward_trans by auto
qed simp

text \<open>C8: the phases the worker persists are a path of the transition table that starts at the phase the
  operation was claimed in, for every environment: whatever the store, the sessions, the owners, the
  verifiers, the clock and the lease timer answer or throw, no write skips an edge or
  leaves a terminal phase, and a phase that was left is never written again.\<close>

theorem persisted_phases_follow_the_machine:
  "phase_path (to_str (fld operation ''phase'')) (written (run_log w operation))
   \<and> sorted_wrt forward (JStr (to_str (fld operation ''phase'')) # written (run_log w operation))"
proof -
  have "wp (process_body w operation) (\<lambda>_ t. breaks True (begin_state operation) t)
      (\<lambda>_ t. breaks True (begin_state operation) t) (begin_state operation)"
    by (rule wp_mono [OF orderlyD [OF orderly_process_body]]) (simp_all add: moves_breaks)
  from wp_snd [OF this] have "phase_path (to_str (fld operation ''phase'')) (written (run_log w operation))"
    by (auto simp: breaks_def grows_def run_log_def process_start begin_state_def)
  then show ?thesis
    by (blast intro: phase_path_forward)
qed

section \<open>What a returned result means\<close>

definition final :: "jsval \<Rightarrow> process_result \<Rightarrow> wstate \<Rightarrow> bool" where
  "final operation r t \<longleftrightarrow> r_phase r \<in> set TERMINAL \<and> step_done operation (r_phase r) t"

definition final_or :: "jsval \<Rightarrow> process_result + 'r \<Rightarrow> wstate \<Rightarrow> bool" where
  "final_or operation x t = (case x of Inl r \<Rightarrow> final operation r t | Inr _ \<Rightarrow> True)"

definition ends :: "'a wprog \<Rightarrow> ('a \<Rightarrow> wstate \<Rightarrow> bool) \<Rightarrow> bool" where
  "ends m Q \<longleftrightarrow> (\<forall>s. wp m Q (\<lambda>_ _. True) s)"

named_theorems ends_intros \<open>programs that return only after a terminal phase was written\<close>

lemma ends_pbind [ends_intros]: "(\<And>x. ends (f x) Q) \<Longrightarrow> ends (pbind m f) Q"
  unfolding ends_def wp_pbind by (rule allI, rule wp_any) simp_all

lemma ends_pthrow [ends_intros]: "ends (pthrow e) Q"
  by (simp add: ends_def wp_simps)

lemma ends_if [ends_intros]:
  "(c \<Longrightarrow> ends m Q) \<Longrightarrow> (\<not> c \<Longrightarrow> ends n Q) \<Longrightarrow> ends (if c then m else n) Q"
  by simp

lemma ends_Inr [ends_intros]: "ends (pret (Inr x)) (final_or operation)"
  by (simp add: ends_def wp_simps final_or_def)

lemma ends_case_sum [ends_intros]:
  "(\<And>x. ends (f x) Q) \<Longrightarrow> (\<And>y. ends (g y) Q) \<Longrightarrow> ends (case r of Inl x \<Rightarrow> f x | Inr y \<Rightarrow> g y) Q"
  by (cases r) simp_all

lemma wp_step_done:
  "wp (step w operation nxt type status evidence) (\<lambda>_ t. step_done operation nxt t) (\<lambda>_ _. True) s"
  by (rule wp_mono [OF wp_step [of w operation nxt type status evidence True s]]) simp_all

lemma ends_step_finish [ends_intros]:
  assumes "nxt \<in> set TERMINAL"
  shows "ends (pbind (step w operation nxt type status evidence) (\<lambda>_. finish called code)) (final operation)"
  unfolding ends_def wp_pbind finish_def wp_pget
  using assms by (auto intro!: wp_mono [OF wp_step_done] simp: final_def step_done_def)

lemma ends_step_result [ends_intros]:
  assumes "nxt \<in> set TERMINAL"
  shows "ends (pbind (step w operation nxt type status evidence) (\<lambda>_.
     pbind (finish called code) (\<lambda>r. pret (Inl r)))) (final_or operation)"
  unfolding ends_def wp_pbind finish_def wp_pget wp_pret
  using assms by (auto intro!: wp_mono [OF wp_step_done] simp: final_def final_or_def step_done_def)

lemma ends_result [ends_intros]:
  fixes m :: "(process_result + 'r) wprog" and g :: "'r \<Rightarrow> process_result wprog"
  assumes "ends m (final_or operation)" and "\<And>x. ends (g x) (final operation)"
  shows "ends (pbind m (\<lambda>r. case r of Inl r \<Rightarrow> pret r | Inr x \<Rightarrow> g x)) (final operation)"
  unfolding ends_def
proof
  fix s
  show "wp (pbind m (\<lambda>r. case r of Inl r \<Rightarrow> pret r | Inr x \<Rightarrow> g x)) (final operation) (\<lambda>_ _. True) s"
  proof (rule wp_pbindI)
    show "wp m (final_or operation) (\<lambda>_ _. True) s"
      using assms(1) by (simp add: ends_def)
    fix r :: "process_result + 'r" and t assume "final_or operation r t"
    then show "wp (case r of Inl r \<Rightarrow> pret r | Inr x \<Rightarrow> g x) (final operation) (\<lambda>_ _. True) t"
      using assms(2) by (cases r) (auto simp: wp_simps ends_def final_or_def)
  qed
qed

lemmas terminal_simps = TERMINAL_def

lemma wp_stop:
  "wp (stopBeforeMutationIfExpired w operation)
     (\<lambda>stopped t. stopped \<longrightarrow> step_done operation ''timed_out'' t) (\<lambda>_ _. True) s"
  unfolding stopBeforeMutationIfExpired_def
  by (auto simp: wp_simps wp_def [of "deadlineExceeded w operation"] split: prod.splits sum.splits
      intro: wp_mono [OF wp_step_done])

lemma ends_stop [ends_intros]:
  assumes "ends n (final operation)"
  shows "ends (pbind (stopBeforeMutationIfExpired w operation)
     (\<lambda>stopped. if stopped then finish called code else n)) (final operation)"
  using assms unfolding ends_def wp_pbind finish_def
  by (auto intro!: wp_mono [OF wp_stop] simp: wp_simps final_def step_done_def TERMINAL_def)

lemma ends_stop_result [ends_intros]:
  assumes "ends n (final_or operation)"
  shows "ends (pbind (stopBeforeMutationIfExpired w operation)
     (\<lambda>stopped. if stopped then deadline_result else n)) (final_or operation)"
  using assms unfolding ends_def wp_pbind deadline_result_def finish_def
  by (auto intro!: wp_mono [OF wp_stop] simp: wp_simps final_or_def final_def step_done_def TERMINAL_def)

lemma ends_owner_failure [ends_intros]: "ends (owner_failure w operation key e) (final_or operation)"
  unfolding owner_failure_def Let_def by (intro ends_intros) (simp_all add: TERMINAL_def)

lemma ends_invoke_owner [ends_intros]: "ends (invoke_owner w operation token key) (final_or operation)"
proof -
  have f: "wp (owner_failure w operation key e) (final_or operation) (\<lambda>_ _. True) t" for e t
    using ends_owner_failure by (simp add: ends_def)
  have l: "wp (requireLease w operation) (\<lambda>_. final_or operation (Inr receipt))
      (\<lambda>e. wp (owner_failure w operation key e) (final_or operation) (\<lambda>_ _. True)) t" for receipt t
    by (rule wp_any) (simp_all add: final_or_def f)
  show ?thesis
    unfolding ends_def invoke_owner_def wp_pcatch wp_pbind wp_pret
    by (rule allI, rule wp_any) (rule l f)+
qed

lemma ends_mutate [ends_intros]: "ends (mutate w operation token key) (final_or operation)"
  unfolding mutate_def execute_def unless_expired_def commit_call_def by (intro ends_intros) (simp_all add: TERMINAL_def)

lemma ends_settle [ends_intros]:
  "ends (settle w operation token key called receipt) (final_or operation)"
  unfolding settle_def record_receipt_def inconclusive_result_def
  by (intro ends_intros) (simp_all add: TERMINAL_def)

lemma pbind_if: "pbind (if c then m else n) f = (if c then pbind m f else pbind n f)"
  by simp

lemma ends_verify [ends_intros]: "ends (verify w operation token called receipt) (final operation)"
  unfolding verify_def Let_def pbind_if by (intro ends_intros) (simp_all add: TERMINAL_def)

lemma ends_conclude [ends_intros]:
  "ends (conclude w operation token key called receipt) (final operation)"
  unfolding conclude_def by (intro ends_intros)

lemma ends_drive [ends_intros]: "ends (drive w operation resuming az) (final operation)"
  unfolding drive_def Let_def by (intro ends_intros) (simp_all add: TERMINAL_def)

definition blocking_phase :: "authorization \<Rightarrow> bool" where
  "blocking_phase az \<longleftrightarrow> az_allowed az \<or> az_phase az \<in> set TERMINAL"

lemma ends_deny: "blocking_phase az \<Longrightarrow> \<not> az_allowed az \<Longrightarrow> ends (deny w operation resuming az) (final operation)"
  unfolding deny_def pbind_if pbind_assoc
  by (intro ends_intros) (simp_all add: TERMINAL_def blocking_phase_def)

lemma authorizeAtExecution_blocking:
  "authorizeAtExecution dp operation session approvals now = Inr az \<Longrightarrow> blocking_phase az"
  unfolding authorizeAtExecution_def
  by (auto simp: res_splits denied_def blocking_phase_def TERMINAL_def split: if_splits)

lemma independent_approver_allowed:
  "wp (independent_approver w operation approvals)
     (\<lambda>r t. \<forall>az. r = Some az \<longrightarrow> az_allowed az) (\<lambda>_ _. True) s"
proof (induction approvals arbitrary: s)
  case Nil
  then show ?case by (simp add: wp_simps)
next
  case (Cons a approvals)
  then show ?case
    by (simp add: wp_simps Let_def now_ms_def split: sum.splits)
qed

lemma delegate_blocking:
  assumes "blocking_phase az"
  shows "wp (delegate w operation approvals az) (\<lambda>az t. blocking_phase az) (\<lambda>_ _. True) s"
proof -
  have ind: "wp (independent_approver w operation as)
      (\<lambda>found t. blocking_phase (case found of Some az' \<Rightarrow> az' | None \<Rightarrow> az)) (\<lambda>_ _. True) t" for as t
    by (rule wp_mono [OF independent_approver_allowed])
      (use assms in \<open>auto simp: blocking_phase_def split: option.splits\<close>)
  show ?thesis
    unfolding delegate_def Let_def wp_if wp_pbind wp_plift wp_pret
    using assms ind by (simp add: wp_pret split: sum.splits)
qed

lemma authorize_blocking:
  "wp (authorize w operation) (\<lambda>az t. blocking_phase az) (\<lambda>_ _. True) s"
proof -
  have "wp (case x of (session, approvals) \<Rightarrow> pbind (now_ms w) (\<lambda>now.
     pbind (plift (authorizeAtExecution (w_dp w) operation session
                     (if approvals = JUndef then JArr [] else approvals) now)) (\<lambda>az.
     delegate w operation approvals az))) (\<lambda>az t. blocking_phase az) (\<lambda>_ _. True) t" for x t
    unfolding case_prod_beta wp_pbind
    by (rule wp_any) (simp_all add: wp_plift delegate_blocking authorizeAtExecution_blocking split: sum.splits)
  then show ?thesis
    unfolding authorize_def wp_pbind [of "resolve_identity w operation"] by (rule wp_any) simp
qed

lemma ends_process_body: "ends (process_body w operation) (final operation)"
proof -
  have auth: "ends (pbind (authorize w operation) (\<lambda>az.
      if \<not> az_allowed az then deny w operation resuming az else drive w operation resuming az)) (final operation)" for resuming
    unfolding ends_def
  proof
    fix s
    show "wp (pbind (authorize w operation) (\<lambda>az. if \<not> az_allowed az then deny w operation resuming az
        else drive w operation resuming az)) (final operation) (\<lambda>_ _. True) s"
      using ends_deny [of _ w operation resuming] ends_drive [of w operation resuming]
      by (intro wp_pbindI [OF authorize_blocking]) (simp add: ends_def)
  qed
  show ?thesis
    unfolding process_body_def Let_def pbind_if
    by (rule ends_pbind, rule ends_pbind, rule ends_if)
      (simp_all only: pbind_pret if_False, (rule ends_stop ends_pbind auth)+)
qed

text \<open>C9: when the worker returns, for whatever the environment answered, the phase it reports is
  terminal, and the last thing it did was to write that phase for that operation, successfully:
  no run returns with an operation left in the middle of its lifecycle.\<close>

theorem worker_returns_only_with_a_persisted_terminal_phase:
  assumes "process w operation start = (Inr r, t)"
  shows "r_phase r \<in> set TERMINAL
    \<and> (\<exists>l x. fx_log t = l @ [(Call ''store.setPhase'' [operation_id operation, JStr (r_phase r)], Inr x)])"
  using wp_Inr [OF spec [OF iffD1 [OF ends_def ends_process_body]] assms [unfolded process_start]]
  by (simp add: final_def step_done_def)

section \<open>The owner call\<close>

text \<open>What has been seen before the owner is called, as facts about the history.\<close>

definition session_call :: "jsval \<Rightarrow> jsval \<Rightarrow> service_call" where
  "session_call session_id actor = Call ''sessions.resolve'' [session_id, actor]"

definition checked_authorization ::
  "worker \<Rightarrow> jsval \<Rightarrow> history \<Rightarrow> jsval \<Rightarrow> authorization \<Rightarrow> bool" where
  \<comment> \<open>the verdict of \<open>authorizeAtExecution\<close> on the session, the approvals and a clock reading of the history\<close>
  "checked_authorization w operation h approvals az \<longleftrightarrow> (\<exists>session t.
     (session_call (fld operation ''authSessionId'') (fld operation ''actorId''), Inr session) \<in> set h
     \<and> (Call ''store.getApprovals'' [operation_id operation], Inr approvals) \<in> set h
     \<and> (Call ''now'' [], Inr t) \<in> set h
     \<and> authorizeAtExecution (w_dp w) operation session
          (if approvals = JUndef then JArr [] else approvals) (to_num t) = Inr az)"

definition independent_approval :: "worker \<Rightarrow> jsval \<Rightarrow> history \<Rightarrow> jsval \<Rightarrow> jsval \<Rightarrow> bool" where
  \<comment> \<open>an active second-factor approval by somebody else, whose own session is live, recent, of the approved
     revision and holds the permission\<close>
  "independent_approval w operation h approval token \<longleftrightarrow>
     \<not> truthy (fld approval ''revokedAt'') \<and> fld approval ''assurance'' = JStr ''aal2''
     \<and> to_str (fld approval ''approverId'') \<noteq> to_str (fld operation ''actorId'')
     \<and> (\<exists>session t.
          (session_call (fld approval ''authSessionId'') (fld approval ''approverId''), Inr session) \<in> set h
          \<and> (Call ''now'' [], Inr t) \<in> set h
          \<and> truthy (fld session ''active'') \<and> fld session ''assurance'' = JStr ''aal2''
          \<and> recently_reauthenticated (w_dp w) (to_num t) session
          \<and> approver_accepts operation approval session = Inr True
          \<and> token = fld session ''accessToken'')"

definition authorized_in :: "worker \<Rightarrow> jsval \<Rightarrow> history \<Rightarrow> jsval \<Rightarrow> bool" where
  "authorized_in w operation h token \<longleftrightarrow> (\<exists>approvals az.
     checked_authorization w operation h approvals az
     \<and> (az_allowed az \<and> az_token az = token
        \<or> \<not> az_allowed az \<and> az_code az \<in> {''AssuranceExpired'', ''RecentAssuranceRequired''}
          \<and> fld operation ''riskClass'' \<in> {JStr ''R2'', JStr ''R3''}
          \<and> (\<exists>active. activeApprovers approvals = Inr active
               \<and> (if fld operation ''riskClass'' = JStr ''R3'' then 2 else 1) \<le> length active)
          \<and> (\<exists>approval\<in>set (elems approvals). independent_approval w operation h approval token)))"

definition preconditions_seen :: "worker \<Rightarrow> jsval \<Rightarrow> history \<Rightarrow> jsval \<Rightarrow> bool" where
  "preconditions_seen w operation h token \<longleftrightarrow> (\<exists>live d.
     (Call ''authority.read'' [fld operation ''target'', token], Inr live) \<in> set h
     \<and> checkLivePreconditions (w_sha w) operation live = Inr (Inr d))"

definition deadline_clear :: "worker \<Rightarrow> jsval \<Rightarrow> history \<Rightarrow> bool" where
  "deadline_clear w operation k \<longleftrightarrow>
     (if truthy (fld operation ''deadlineAt'') \<and> num_is_finite (date_time (w_dp w) (fld operation ''deadlineAt''))
      then \<exists>t. k = [(Call ''now'' [], Inr t)]
             \<and> \<not> num_le (date_time (w_dp w) (fld operation ''deadlineAt'')) (to_num t)
      else k = [])"

definition lease_held :: "worker \<Rightarrow> jsval \<Rightarrow> history \<Rightarrow> bool" where
  "lease_held w operation k \<longleftrightarrow>
     (if has_heartbeat w
      then \<exists>x. k = [(Call ''store.heartbeat'' [operation_id operation], Inr x)] \<and> truthy x
      else k = [])"

definition intent_recorded :: "worker \<Rightarrow> jsval \<Rightarrow> string \<Rightarrow> history \<Rightarrow> bool" where
  "intent_recorded w operation key k \<longleftrightarrow>
     (if has_intent w
      then \<exists>x. k = [(Call ''store.recordDownstreamIntent'' [operation_id operation, JStr key], Inr x)]
      else k = [])"

definition ready :: "worker \<Rightarrow> jsval \<Rightarrow> string \<Rightarrow> history \<Rightarrow> bool" where
  \<comment> \<open>the history ends with: phase \<open>executing\<close> written, deadline checked, lease renewed, intent recorded\<close>
  "ready w operation key h \<longleftrightarrow> (\<exists>l x k1 k2 k3.
     h = l @ [(Call ''store.setPhase'' [operation_id operation, JStr ''executing''], Inr x)] @ k1 @ k2 @ k3
     \<and> deadline_clear w operation k1 \<and> lease_held w operation k2 \<and> intent_recorded w operation key k3)"

definition single_call :: "worker \<Rightarrow> jsval \<Rightarrow> history \<Rightarrow> (history \<Rightarrow> string \<Rightarrow> jsval \<Rightarrow> bool) \<Rightarrow> history \<Rightarrow> bool" where
  "single_call w operation h P k \<longleftrightarrow> (\<exists>a r b key token.
     k = a @ (owner_call operation key token, r) # b
     \<and> calls ''owners.invoke'' a = [] \<and> calls ''owners.invoke'' b = [] \<and> P (h @ a) key token)"

definition guarded :: "worker \<Rightarrow> jsval \<Rightarrow> (history \<Rightarrow> string \<Rightarrow> jsval \<Rightarrow> bool) \<Rightarrow> wstate \<Rightarrow> wstate \<Rightarrow> bool" where
  "guarded w operation P s t \<longleftrightarrow> (\<exists>k. fx_log t = fx_log s @ k
     \<and> (calls ''owners.invoke'' k = [] \<or> single_call w operation (fx_log s) P k))"

lemma quiet_guarded: "breaks False s t \<Longrightarrow> guarded w operation P s t"
  by (auto simp: breaks_def grows_def guarded_def)

lemma guarded_after_quiet:
  assumes "moves False s t" and "guarded w operation P t u"
  shows "guarded w operation P s u"
proof -
  obtain k where k: "fx_log t = fx_log s @ k" "calls ''owners.invoke'' k = []"
    using assms(1) by (auto simp: moves_def grows_def)
  obtain l where l: "fx_log u = fx_log t @ l"
    "calls ''owners.invoke'' l = [] \<or> single_call w operation (fx_log t) P l"
    using assms(2) by (auto simp: guarded_def)
  have "single_call w operation (fx_log s) P (k @ l)" if "single_call w operation (fx_log t) P l"
    using that k unfolding single_call_def by (metis append.assoc calls_simps(2) append_Nil2)
  then show ?thesis
    unfolding guarded_def using k l by (auto intro!: exI [of _ "k @ l"])
qed

lemma guarded_before_quiet:
  assumes "guarded w operation P s t" and "breaks False t u"
  shows "guarded w operation P s u"
proof -
  obtain k where k: "fx_log u = fx_log t @ k" "calls ''owners.invoke'' k = []"
    using assms(2) by (auto simp: breaks_def grows_def)
  obtain l where l: "fx_log t = fx_log s @ l"
    "calls ''owners.invoke'' l = [] \<or> single_call w operation (fx_log s) P l"
    using assms(1) by (auto simp: guarded_def)
  have "single_call w operation (fx_log s) P (l @ k)" if "single_call w operation (fx_log s) P l"
  proof -
    from that obtain a r b key token where "l = a @ (owner_call operation key token, r) # b"
      "calls ''owners.invoke'' a = []" "calls ''owners.invoke'' b = []" "P (fx_log s @ a) key token"
      unfolding single_call_def by blast
    then show ?thesis
      unfolding single_call_def using k(2) by (intro exI [of _ a] exI [of _ r] exI [of _ "b @ k"]) auto
  qed
  then show ?thesis
    unfolding guarded_def using k l by (auto intro!: exI [of _ "l @ k"])
qed

lemma guarded_call:
  assumes "P (fx_log s) key token" and "breaks False (after_call operation key token s r) t"
  shows "guarded w operation P s t"
proof -
  obtain k where "fx_log t = fx_log s @ (owner_call operation key token, r) # k" "calls ''owners.invoke'' k = []"
    using assms(2) by (auto simp: breaks_def grows_def after_call_def)
  then show ?thesis
    using assms(1) unfolding guarded_def single_call_def
    by (intro exI [of _ "(owner_call operation key token, r) # k"])
      (auto intro!: exI [of _ "[]"] exI [of _ key] exI [of _ token])
qed

text \<open>The last preparations before the call, in the order the code makes them.\<close>

lemma wp_stop_clear:
  "wp (stopBeforeMutationIfExpired w operation)
     (\<lambda>stopped t. \<not> stopped \<longrightarrow> (\<exists>k. fx_log t = fx_log s @ k \<and> deadline_clear w operation k))
     (\<lambda>_ _. True) s"
proof -
  have "wp (deadlineExceeded w operation)
      (\<lambda>stopped t. \<not> stopped \<longrightarrow> (\<exists>k. fx_log t = fx_log s @ k \<and> deadline_clear w operation k)) (\<lambda>_ _. True) s"
    by (auto simp: deadlineExceeded_def now_ms_def wp_simps Let_def deadline_clear_def split: sum.splits)
  then show ?thesis
    unfolding stopBeforeMutationIfExpired_def wp_pbind wp_if wp_pret
    by (rule wp_mono) (auto intro: wp_any)
qed

lemma wp_lease_held:
  "wp (requireLease w operation) (\<lambda>_ t. \<exists>k. fx_log t = fx_log s @ k \<and> lease_held w operation k) (\<lambda>_ _. True) s"
  unfolding requireLease_def heartbeat_timer_def heartbeat_def
  by (auto simp: wp_simps Let_def lease_held_def split: sum.splits)


text \<open>Stepping over a part of the worker that does not call the owner.\<close>

lemma wp_quiet_bind:
  assumes "wp m R (\<lambda>_ _. True) u" and "orderly False m" and "moves False s u"
    and "\<And>x t. R x t \<Longrightarrow> moves False s t \<Longrightarrow> wp (f x) G (\<lambda>_ t. guarded w operation P s t) t"
  shows "wp (pbind m f) G (\<lambda>_ t. guarded w operation P s t) u"
proof (rule wp_pbindI)
  show "wp m (\<lambda>x t. R x t \<and> moves False s t) (\<lambda>_ t. guarded w operation P s t) u"
  proof (rule wp_mono [OF wp_conj [OF assms(1) orderlyD [OF assms(2)]]])
    show "R x t \<and> moves False s t" if "R x t \<and> moves False u t" for x t
      using that moves_trans [OF assms(3)] by blast
    show "guarded w operation P s t" if "True \<and> breaks False u t" for t
      using that moves_breaks_trans [OF assms(3)] quiet_guarded by blast
  qed
qed (use assms(4) in blast)

lemma wp_record_intent:
  "wp (record_intent w operation key) (\<lambda>_ t. \<exists>k. fx_log t = fx_log s @ k \<and> intent_recorded w operation key k)
     (\<lambda>_ _. True) s"
  by (auto simp: record_intent_def wp_simps Let_def intent_recorded_def split: sum.splits)

definition call_ready :: "worker \<Rightarrow> jsval \<Rightarrow> string \<Rightarrow> jsval \<Rightarrow> history \<Rightarrow> string \<Rightarrow> jsval \<Rightarrow> bool" where
  "call_ready w operation key token h key' token' \<longleftrightarrow> key' = key \<and> token' = token \<and> ready w operation key h"

abbreviation once_ready where
  "once_ready w operation key token s \<equiv> \<lambda>_. guarded w operation (call_ready w operation key token) s"

lemma wp_invoke_ready:
  assumes "moves False s u" and "ready w operation key (fx_log u)"
  shows "wp (invoke_owner w operation token key) (once_ready w operation key token s) (once_ready w operation key token s) u"
proof (rule wp_mono [OF wp_invoke_owner [of w operation token key False]])
  fix t
  have g: "guarded w operation (call_ready w operation key token) s t"
    if "breaks False (after_call operation key token u r) t" for r
    by (rule guarded_after_quiet [OF assms(1) guarded_call [OF _ that]])
      (use assms(2) in \<open>simp add: call_ready_def\<close>)
  show "once_ready w operation key token s x t" if "\<exists>r. moves False (after_call operation key token u r) t" for x
    using that moves_breaks g by blast
  show "once_ready w operation key token s x t" if "\<exists>r. breaks False (after_call operation key token u r) t" for x
    using that g by blast
qed

lemma wp_commit_call:
  assumes "moves False s u"
    and "\<And>k2 k3. lease_held w operation k2 \<Longrightarrow> intent_recorded w operation key k3 \<Longrightarrow>
      ready w operation key (fx_log u @ k2 @ k3)"
  shows "wp (commit_call w operation token key) (once_ready w operation key token s) (once_ready w operation key token s) u"
  unfolding commit_call_def
proof (rule wp_quiet_bind [OF wp_lease_held orderly_requireLease assms(1)])
  fix t assume t: "\<exists>k. fx_log t = fx_log u @ k \<and> lease_held w operation k" "moves False s t"
  show "wp (pbind (record_intent w operation key) (\<lambda>_. invoke_owner w operation token key))
      (once_ready w operation key token s) (once_ready w operation key token s) t"
    by (rule wp_quiet_bind [OF wp_record_intent orderly_record_intent t(2)], rule wp_invoke_ready)
      (use t(1) assms(2) in auto)
qed

lemma wp_unless_expired:
  assumes "moves False s u"
    and "\<And>t k. moves False s t \<Longrightarrow> fx_log t = fx_log u @ k \<Longrightarrow> deadline_clear w operation k \<Longrightarrow>
      wp m (\<lambda>_. guarded w operation P s) (\<lambda>_. guarded w operation P s) t"
  shows "wp (unless_expired w operation m) (\<lambda>_. guarded w operation P s) (\<lambda>_. guarded w operation P s) u"
  unfolding unless_expired_def
proof (rule wp_quiet_bind [OF wp_stop_clear orderly_stop assms(1)])
  fix stopped t
  assume t: "\<not> stopped \<longrightarrow> (\<exists>k. fx_log t = fx_log u @ k \<and> deadline_clear w operation k)" "moves False s t"
  have "wp deadline_result (\<lambda>_. guarded w operation P s) (\<lambda>_. guarded w operation P s) t"
    using t(2) by (simp add: deadline_result_def finish_def wp_simps quiet_guarded moves_breaks)
  then show "wp (if stopped then deadline_result else m) (\<lambda>_. guarded w operation P s) (\<lambda>_. guarded w operation P s) t"
    using t assms(2) by auto
qed

lemma wp_execute:
  "wp (execute w operation token key d) (once_ready w operation key token s) (once_ready w operation key token s) s"
  unfolding execute_def
proof (rule wp_unless_expired [OF moves_refl])
  fix t assume "moves False s t"
  then show "wp (pbind (step w operation ''executing'' ''precondition'' ''succeeded'' [(''preconditionDigest'', JStr d)])
      (\<lambda>_. unless_expired w operation (commit_call w operation token key)))
      (once_ready w operation key token s) (once_ready w operation key token s) t"
  proof (rule wp_quiet_bind [OF wp_step_done orderly_step])
    fix u assume u: "step_done operation ''executing'' u" "moves False s u"
    show "wp (unless_expired w operation (commit_call w operation token key))
        (once_ready w operation key token s) (once_ready w operation key token s) u"
    proof (rule wp_unless_expired [OF u(2)], rule wp_commit_call)
      fix v k k2 k3 assume "fx_log v = fx_log u @ k" "deadline_clear w operation k"
        "lease_held w operation k2" "intent_recorded w operation key k3"
      then show "ready w operation key (fx_log v @ k2 @ k3)"
        using u(1) unfolding ready_def step_done_def by force
    qed
  qed
qed

text \<open>Authorization, seen in the history.\<close>

lemma checked_authorization_mono:
  "checked_authorization w operation h approvals az \<Longrightarrow> checked_authorization w operation (h @ k) approvals az"
  unfolding checked_authorization_def set_append by blast

lemma independent_approval_mono:
  "independent_approval w operation h approval token \<Longrightarrow> independent_approval w operation (h @ k) approval token"
  unfolding independent_approval_def set_append by blast

lemma authorized_in_mono:
  assumes "authorized_in w operation h token"
  shows "authorized_in w operation (h @ k) token"
  using assms checked_authorization_mono independent_approval_mono unfolding authorized_in_def by metis

lemma preconditions_seen_mono:
  "preconditions_seen w operation h token \<Longrightarrow> preconditions_seen w operation (h @ k) token"
  by (auto simp: preconditions_seen_def)

lemma wp_independent_approver:
  "wp (independent_approver w operation approvals)
     (\<lambda>r t. \<forall>az. r = Some az \<longrightarrow> (\<exists>approval\<in>set approvals. independent_approval w operation (fx_log t) approval (az_token az)))
     (\<lambda>_ _. True) s"
proof (induction approvals arbitrary: s)
  case Nil
  then show ?case by (simp add: wp_simps)
next
  case (Cons a approvals)
  define Q :: "authorization option \<Rightarrow> wstate \<Rightarrow> bool" where "Q r t \<longleftrightarrow> (\<forall>az. r = Some az \<longrightarrow>
     (\<exists>approval\<in>set (a # approvals). independent_approval w operation (fx_log t) approval (az_token az)))" for r t
  have IH: "wp (independent_approver w operation approvals) Q (\<lambda>_ _. True) t" for t
    by (rule wp_mono [OF Cons.IH]) (auto simp: Q_def)
  have found: "Q (Some az) (s\<lparr>fx_log := fx_log s @
        [(Call ''sessions.resolve'' [fld a ''authSessionId'', fld a ''approverId''], Inr session), (Call ''now'' [], Inr x)]\<rparr>)"
    if "\<not> truthy (fld a ''revokedAt'')" "fld a ''assurance'' = JStr ''aal2''"
      "to_str (fld a ''approverId'') \<noteq> to_str (fld operation ''actorId'')"
      "truthy (fld session ''active'')" "fld session ''assurance'' = JStr ''aal2''"
      "recently_reauthenticated (w_dp w) (to_num x) session"
      "approver_accepts operation a session = Inr True" "az_token az = fld session ''accessToken''" for az session x
    using that unfolding Q_def independent_approval_def session_call_def by auto
  have "wp (independent_approver w operation (a # approvals)) Q (\<lambda>_ _. True) s"
    by (auto simp: wp_simps Let_def now_ms_def split: sum.splits intro!: IH found)
  then show ?case
    by (rule wp_mono) (simp_all add: Q_def)
qed

lemma wp_delegate:
  fixes az :: authorization
  assumes "checked_authorization w operation (fx_log s) approvals az"
  shows "wp (delegate w operation approvals az)
    (\<lambda>az' t. az_allowed az' \<longrightarrow> authorized_in w operation (fx_log t) (az_token az')) (\<lambda>_ _. True) s"
proof -
  have keep: "wp (pret az) (\<lambda>az' t. az_allowed az' \<longrightarrow> authorized_in w operation (fx_log t) (az_token az')) (\<lambda>_ _. True) s"
    using assms unfolding wp_pret authorized_in_def by blast
  have indep: "wp (independent_approver w operation as)
      (\<lambda>found t. az_allowed (case found of Some az' \<Rightarrow> az' | None \<Rightarrow> az) \<longrightarrow>
         authorized_in w operation (fx_log t) (az_token (case found of Some az' \<Rightarrow> az' | None \<Rightarrow> az))) (\<lambda>_ _. True) s"
    if d: "\<not> az_allowed az" "az_code az \<in> {''AssuranceExpired'', ''RecentAssuranceRequired''}"
      "fld operation ''riskClass'' \<in> {JStr ''R2'', JStr ''R3''}" "activeApprovers approvals = Inr active"
      "as = (if (if fld operation ''riskClass'' = JStr ''R3'' then 2 else 1) \<le> length active then elems approvals else [])"
    for as active
  proof -
    have "wp (independent_approver w operation as) (\<lambda>r t.
        (\<forall>az. r = Some az \<longrightarrow> (\<exists>approval\<in>set as. independent_approval w operation (fx_log t) approval (az_token az)))
        \<and> moves False s t) (\<lambda>e t. True \<and> breaks False s t) s"
      by (intro wp_conj wp_independent_approver orderlyD orderly_independent_approver)
    then show ?thesis
    proof (rule wp_mono)
      fix r :: "authorization option" and t assume rt: "(\<forall>az. r = Some az \<longrightarrow> (\<exists>approval\<in>set as. independent_approval w operation (fx_log t) approval (az_token az)))
        \<and> moves False s t"
      then have c: "checked_authorization w operation (fx_log t) approvals az"
        using assms by (auto simp: moves_def grows_def checked_authorization_mono)
      show "az_allowed (case r of Some az' \<Rightarrow> az' | None \<Rightarrow> az) \<longrightarrow>
         authorized_in w operation (fx_log t) (az_token (case r of Some az' \<Rightarrow> az' | None \<Rightarrow> az))"
      proof (cases r)
        case None
        then show ?thesis using d(1) by simp
      next
        case (Some az')
        then obtain approval where a: "approval \<in> set as" "independent_approval w operation (fx_log t) approval (az_token az')"
          using rt by blast
        then have "(if fld operation ''riskClass'' = JStr ''R3'' then 2 else 1) \<le> length active" "approval \<in> set (elems approvals)"
          using d(5) by (auto split: if_splits)
        then show ?thesis
          using Some a(2) c d(1-4) unfolding authorized_in_def by fastforce
      qed
    qed simp
  qed
  show ?thesis
  proof (cases "\<not> az_allowed az \<and> az_code az \<in> set [''AssuranceExpired'', ''RecentAssuranceRequired'']
      \<and> fld operation ''riskClass'' \<in> set [JStr ''R2'', JStr ''R3'']")
    case True
    show ?thesis
      unfolding delegate_def if_P [OF True] Let_def wp_pbind wp_plift wp_pret
      using True by (cases "activeApprovers approvals") (auto simp del: independent_approver.simps intro!: indep)
  next
    case False
    show ?thesis
      unfolding delegate_def if_not_P [OF False] by (rule keep)
  qed
qed

lemma wp_authorize:
  "wp (authorize w operation)
    (\<lambda>az t. az_allowed az \<longrightarrow> authorized_in w operation (fx_log t) (az_token az)) (\<lambda>_ _. True) s"
proof -
  let ?Q = "\<lambda>az t. az_allowed az \<longrightarrow> authorized_in w operation (fx_log t) (az_token az)"
  have verdict: "wp (plift (authorizeAtExecution (w_dp w) operation session
          (if approvals = JUndef then JArr [] else approvals) (to_num x)))
        (\<lambda>az. wp (delegate w operation approvals az) ?Q (\<lambda>_ _. True)) (\<lambda>_ _. True) v"
    if "(session_call (fld operation ''authSessionId'') (fld operation ''actorId''), Inr session) \<in> set (fx_log v)"
      "(Call ''store.getApprovals'' [operation_id operation], Inr approvals) \<in> set (fx_log v)"
      "(Call ''now'' [], Inr x) \<in> set (fx_log v)" for session approvals x v
  proof -
    note seen = that
    have "checked_authorization w operation (fx_log v) approvals az"
      if "authorizeAtExecution (w_dp w) operation session
          (if approvals = JUndef then JArr [] else approvals) (to_num x) = Inr az" for az
      unfolding checked_authorization_def using seen that by blast
    then show ?thesis
      unfolding wp_plift by (auto split: sum.splits intro!: wp_delegate)
  qed
  have clock: "wp (pbind (now_ms w) (\<lambda>now. pbind (plift (authorizeAtExecution (w_dp w) operation session
          (if approvals = JUndef then JArr [] else approvals) now)) (\<lambda>az. delegate w operation approvals az)))
      ?Q (\<lambda>_ _. True) u"
    if "(session_call (fld operation ''authSessionId'') (fld operation ''actorId''), Inr session) \<in> set (fx_log u)"
      "(Call ''store.getApprovals'' [operation_id operation], Inr approvals) \<in> set (fx_log u)" for session approvals u
    unfolding now_ms_def wp_pbind wp_pret
    by (rule wp_callI, rule verdict) (use that in simp_all)
  then show ?thesis
    unfolding authorize_def wp_pbind [of "resolve_identity w operation"]
    by (simp add: resolve_identity_def wp_def [of "pbind (pattempt _) _"] pbind_def pattempt_def call_def plift_def pret_def Let_def
        session_call_def split: sum.splits prod.splits)
qed

text \<open>Putting the parts together: one guarded call at most.\<close>

definition justified :: "worker \<Rightarrow> jsval \<Rightarrow> history \<Rightarrow> string \<Rightarrow> jsval \<Rightarrow> bool" where
  "justified w operation h key token \<longleftrightarrow>
     key = trim (str_or_empty (fld operation ''idempotencyKey'')) \<and> is_safe_key key
     \<and> authorized_in w operation h token \<and> preconditions_seen w operation h token
     \<and> ready w operation key h"

lemma guarded_mono:
  assumes "guarded w operation P s t"
    and "\<And>a key token. P (fx_log s @ a) key token \<Longrightarrow> P' (fx_log s @ a) key token"
  shows "guarded w operation P' s t"
  using assms unfolding guarded_def single_call_def by metis

lemma wp_quiet:
  assumes "orderly False m" and "moves False s u"
  shows "wp m (\<lambda>_. guarded w operation P s) (\<lambda>_. guarded w operation P s) u"
  by (rule wp_mono [OF orderlyD [OF assms(1)]])
    (use moves_breaks_trans [OF assms(2)] moves_breaks quiet_guarded in blast)+

lemma wp_after_guarded:
  assumes "orderly False m" and "guarded w operation P s u"
  shows "wp m (\<lambda>_. guarded w operation P s) (\<lambda>_. guarded w operation P s) u"
  by (rule wp_mono [OF orderlyD [OF assms(1)]])
    (use guarded_before_quiet [OF assms(2)] moves_breaks in blast)+

lemma wp_mutate:
  assumes "moves False s u" and "authorized_in w operation (fx_log u) token"
    and "key = trim (str_or_empty (fld operation ''idempotencyKey''))" and "is_safe_key key"
  shows "wp (mutate w operation token key) (\<lambda>_. guarded w operation (justified w operation) s)
    (\<lambda>_. guarded w operation (justified w operation) s) u"
proof -
  let ?read = "Call ''authority.read'' [fld operation ''target'', token]"
  have m: "moves False s (u\<lparr>fx_log := fx_log u @ [(?read, r)]\<rparr>)" for r
    by (rule moves_trans [OF assms(1) moves_call]) simp_all
  have blocked: "orderly False (pbind (step w operation ''preflight_blocked'' ''precondition'' ''blocked'' [(''code'', JStr code)]) (\<lambda>_.
      pbind (finish False (JStr code)) (\<lambda>r. pret (Inl r :: process_result + jsval))))" for code
    by (intro orderly_intros)
  have go: "wp (execute w operation token key d) (\<lambda>_. guarded w operation (justified w operation) s)
      (\<lambda>_. guarded w operation (justified w operation) s) (u\<lparr>fx_log := fx_log u @ [(?read, Inr live)]\<rparr>)"
    if "checkLivePreconditions (w_sha w) operation live = Inr (Inr d)" for live d
  proof -
    let ?v = "u\<lparr>fx_log := fx_log u @ [(?read, Inr live)]\<rparr>"
    have "guarded w operation (justified w operation) s t"
      if "guarded w operation (call_ready w operation key token) ?v t" for t
    proof (rule guarded_after_quiet [OF m guarded_mono [OF that]])
      fix a key' token' assume "call_ready w operation key token (fx_log ?v @ a) key' token'"
      moreover have "preconditions_seen w operation (fx_log ?v @ a) token"
        using \<open>checkLivePreconditions _ _ _ = _\<close> by (auto simp: preconditions_seen_def)
      moreover have "authorized_in w operation (fx_log ?v @ a) token"
        using authorized_in_mono [OF assms(2)] by simp
      ultimately show "justified w operation (fx_log ?v @ a) key' token'"
        using assms(3,4) by (simp add: justified_def call_ready_def)
    qed
    then show ?thesis
      by (intro wp_mono [OF wp_execute]) blast+
  qed
  show ?thesis
    unfolding mutate_def wp_pbind [of "call _ _ _"] wp_pbind [of "plift _"] wp_plift
    using m quiet_guarded moves_breaks go wp_quiet [OF blocked]
    by (intro wp_callI) (auto split: sum.splits)
qed

lemma wp_drive:
  assumes "moves False s u" and "authorized_in w operation (fx_log u) (az_token az)"
  shows "wp (drive w operation False az) (\<lambda>_. guarded w operation (justified w operation) s)
    (\<lambda>_. guarded w operation (justified w operation) s) u"
proof -
  let ?G = "\<lambda>_. guarded w operation (justified w operation) s"
  let ?key = "trim (str_or_empty (fld operation ''idempotencyKey''))"
  have reject: "orderly False (pbind (step w operation ''preflight_blocked'' ''idempotency'' ''failed''
      [(''code'', JStr ''StableIdempotencyKeyRequired'')]) (\<lambda>_. finish False (JStr ''StableIdempotencyKeyRequired'')))"
    by (intro orderly_intros)
  have rest: "wp (if \<not> is_safe_key ?key
      then pbind (step w operation ''preflight_blocked'' ''idempotency'' ''failed''
        [(''code'', JStr ''StableIdempotencyKeyRequired'')]) (\<lambda>_. finish False (JStr ''StableIdempotencyKeyRequired''))
      else if False then conclude w operation (az_token az) ?key False JUndef
      else pbind (mutate w operation (az_token az) ?key) (\<lambda>outcome.
        case outcome of Inl r \<Rightarrow> pret r | Inr receipt \<Rightarrow> conclude w operation (az_token az) ?key True receipt)) ?G ?G t"
    if "moves False s t" "authorized_in w operation (fx_log t) (az_token az)" for t
  proof (cases "is_safe_key ?key")
    case True
    show ?thesis
      unfolding if_not_P [of "\<not> is_safe_key ?key", OF notnotD] if_False
      using True
      by (auto intro!: wp_pbindI [OF wp_mutate [OF that refl True]] wp_after_guarded orderly_conclude orderly_pret
          split: sum.splits)
  next
    case False
    then show ?thesis
      using wp_quiet [OF reject that(1)] by simp
  qed
  show ?thesis
    unfolding drive_def Let_def
  proof (rule wp_quiet_bind [OF _ _ assms(1)])
    let ?m = "pwhen (truthy (az_actor az)) (pbind (pget w_phase) (\<lambda>ph.
        step w operation ph ''authorization-delegation'' ''succeeded'' [
          (''actorId'', fld operation ''actorId''), (''executionActorId'', az_actor az), (''code'', JStr (az_code az))]))"
    show o: "orderly False ?m" by (intro orderly_intros)
    show "wp ?m (\<lambda>_ t. authorized_in w operation (fx_log t) (az_token az)) (\<lambda>_ _. True) u"
      by (rule wp_mono [OF orderlyD [OF o]])
        (use assms(2) in \<open>auto simp: moves_def grows_def intro: authorized_in_mono\<close>)
  qed (rule rest)
qed

lemma wp_true: "wp m (\<lambda>_ _. True) (\<lambda>_ _. True) s"
  by (rule wp_any) simp_all

lemma wp_process_body:
  "wp (process_body w operation)
     (\<lambda>_. guarded w operation (\<lambda>h key token. justified w operation h key token
        \<and> w_phase s \<notin> set uncertain_phases) s)
     (\<lambda>_. guarded w operation (\<lambda>h key token. justified w operation h key token
        \<and> w_phase s \<notin> set uncertain_phases) s) s"
proof -
  let ?P = "\<lambda>h key token. justified w operation h key token \<and> w_phase s \<notin> set uncertain_phases"
  let ?G = "\<lambda>_. guarded w operation ?P s"
  have drive: "wp (drive w operation resuming az) ?G ?G t"
    if "moves False s t" "authorized_in w operation (fx_log t) (az_token az)" "\<not> resuming \<Longrightarrow> w_phase s \<notin> set uncertain_phases"
    for resuming az t
  proof (cases resuming)
    case True
    have "orderly False (drive w operation True az)"
      unfolding drive_def Let_def if_P [OF TrueI] by (intro orderly_intros)
    from wp_quiet [OF this that(1)] show ?thesis
      using True by simp
  next
    case False
    have "guarded w operation ?P s u" if "guarded w operation (justified w operation) s u" for u
      by (rule guarded_mono [OF that]) (use \<open>\<not> resuming \<Longrightarrow> _\<close> False in blast)
    from wp_mono [OF wp_drive [OF that(1,2)] this this] show ?thesis
      using False by simp
  qed
  have auth: "wp (pbind (authorize w operation) (\<lambda>az.
      if \<not> az_allowed az then deny w operation resuming az else drive w operation resuming az)) ?G ?G t"
    if "moves False s t" "\<not> resuming \<Longrightarrow> w_phase s \<notin> set uncertain_phases" for resuming t
    by (rule wp_quiet_bind [OF wp_authorize orderly_authorize that(1)])
      (auto intro!: drive wp_quiet [OF orderly_deny] that(2))
  have early: "orderly False (finish False (JStr ''OperationDeadlineExceeded''))"
    by (rule orderly_finish)
  have quiet_stop: "orderly False (if resuming then pret False else stopBeforeMutationIfExpired w operation)" for resuming
    by (intro orderly_intros)
  have quiet_when: "orderly False (pwhen b (step w operation ''preflighting'' ''authorization'' ''running'' []))" for b
    by (intro orderly_intros)
  have claimed: "wp (claim w operation) (\<lambda>_ t. w_phase t \<notin> set uncertain_phases \<longrightarrow> w_phase s \<notin> set uncertain_phases)
      (\<lambda>_ _. True) s"
    unfolding claim_def wp_pbind wp_pget wp_pwhen
    by (auto simp: uncertain_phases_def intro: wp_any)
  show ?thesis
    unfolding process_body_def Let_def
  proof (rule wp_quiet_bind [OF claimed orderly_claim moves_refl], unfold wp_pbind [of "pget _"] wp_pget)
    fix t assume t: "w_phase t \<notin> set uncertain_phases \<longrightarrow> w_phase s \<notin> set uncertain_phases" "moves False s t"
    show "wp (pbind (if w_phase t \<in> set uncertain_phases then pret False else stopBeforeMutationIfExpired w operation) (\<lambda>stopped.
        if stopped then finish False (JStr ''OperationDeadlineExceeded'')
        else pbind (pwhen (w_phase t = ''claimed'') (step w operation ''preflighting'' ''authorization'' ''running'' [])) (\<lambda>_.
          pbind (authorize w operation) (\<lambda>az.
          if \<not> az_allowed az then deny w operation (w_phase t \<in> set uncertain_phases) az
          else drive w operation (w_phase t \<in> set uncertain_phases) az)))) ?G ?G t"
      by (rule wp_quiet_bind [OF wp_true quiet_stop t(2)])
        (auto intro!: wp_quiet [OF early] wp_quiet_bind [OF wp_true quiet_when] auth simp: t(1))
  qed
qed

text \<open>C7: in one run of the worker, for every environment, the owner is invoked at most once; and if it
  is, then the operation was not picked up with an uncertain earlier call (phases executing, ambiguous,
  reconciling, verifying); the downstream key is the operation's own and well formed; the history up to the call
  contains an authorization of this operation (by the actor's own session, or by an independent
  second-factor approver after the actor failed only on assurance) whose token is the one used; a fresh
  and complete observation of the target satisfied the preconditions; and the call directly follows the
  write of phase executing, a clock reading before the deadline, a renewed lease and the record
  of the downstream intent.\<close>

theorem owner_is_invoked_at_most_once_and_only_when_justified:
  "calls ''owners.invoke'' (run_log w operation) = []
   \<or> to_str (fld operation ''phase'') \<notin> set uncertain_phases
     \<and> (\<exists>a r b key token. run_log w operation = a @ (owner_call operation key token, r) # b
          \<and> calls ''owners.invoke'' a = [] \<and> calls ''owners.invoke'' b = []
          \<and> key = trim (str_or_empty (fld operation ''idempotencyKey'')) \<and> is_safe_key key
          \<and> authorized_in w operation a token \<and> preconditions_seen w operation a token
          \<and> ready w operation key a)"
  using wp_snd [OF wp_process_body [of w operation "begin_state operation"]]
  unfolding run_log_def process_start guarded_def single_call_def justified_def
  by (auto simp: begin_state_def)

text \<open>Parts that leave the persisted phase alone.\<close>

definition unwritten :: "string \<Rightarrow> jsval list \<Rightarrow> wstate \<Rightarrow> bool" where
  "unwritten p vs s \<longleftrightarrow> w_phase s = p \<and> written (fx_log s) = vs"

lemma pkeeps_call [inv_intros]:
  "name \<noteq> ''store.setPhase'' \<Longrightarrow> pkeeps (unwritten p vs) (call env name args)"
  by (auto simp: pkeeps_def unwritten_def call_def Let_def written_def)

lemma pkeeps_pattempt [inv_intros]: "pkeeps I m \<Longrightarrow> pkeeps I (pattempt m)"
  by (simp add: pkeeps_def pattempt_def case_prod_beta)

lemma pkeeps_now_ms [inv_intros]: "pkeeps (unwritten p vs) (now_ms w)"
  unfolding now_ms_def by (intro inv_intros) simp

lemma pkeeps_independent_approver [inv_intros]:
  "pkeeps (unwritten p vs) (independent_approver w operation approvals)"
  by (induction approvals) (auto intro!: inv_intros)

lemma pkeeps_authorize: "pkeeps (unwritten p vs) (authorize w operation)"
  unfolding authorize_def resolve_identity_def delegate_def Let_def by (intro inv_intros) simp_all

lemma pkeeps_requireLease: "pkeeps (unwritten p vs) (requireLease w operation)"
  unfolding requireLease_def heartbeat_timer_def heartbeat_def
  by (intro inv_intros) (auto simp: unwritten_def)

lemma step_blocked:
  assumes "\<not> phase_edge p nxt" and "unwritten p vs s"
  shows "wp (step w operation nxt type status evidence) (\<lambda>_ _. False) (\<lambda>_. unwritten p vs) s"
proof -
  have "wp (requireLease w operation) (\<lambda>_. unwritten p vs) (\<lambda>_. unwritten p vs) s"
    by (rule pkeeps_wp [OF pkeeps_requireLease assms(2)])
  then show ?thesis
    unfolding step_def
  proof (rule wp_pbindI)
    fix x :: unit and t assume t: "unwritten p vs t"
    have "\<exists>e. transitionPhase p nxt = Inl e"
      using assms(1) transitionPhase_Inr [of p nxt] by (cases "transitionPhase p nxt") auto
    then show "wp (pbind (pget w_phase) (\<lambda>current.
       pbind (plift (transitionPhase current nxt)) (\<lambda>ph.
       pbind (pmod (\<lambda>s. s\<lparr>w_phase := ph\<rparr>)) (\<lambda>_.
       pbind (plift (durable_digest (w_sha w) (JObj evidence))) (\<lambda>d.
       pbind (call (w_env w) ''store.appendStep'' [operation_id operation, JObj [
          (''type'', JStr type), (''phase'', JStr ph), (''status'', JStr status),
          (''evidence'', JObj (upsert ''digest'' (JStr d) evidence))]]) (\<lambda>_.
       pbind (call (w_env w) ''store.setPhase'' [operation_id operation, JStr nxt]) (\<lambda>_.
       pret ()))))))) (\<lambda>_ _. False) (\<lambda>_. unwritten p vs) t"
      using t by (auto simp: wp_pbind wp_pget wp_plift unwritten_def)
  qed
qed

lemma not_ambiguous_inconclusive: "\<not> phase_edge ''ambiguous'' ''inconclusive''"
  by (simp add: phase_edge_def TERMINAL_def PHASE_TRANSITIONS_def)

text \<open>An uncertain owner call whose authorization has meanwhile lapsed cannot be closed: the worker
  throws on the transition from ambiguous to inconclusive, which the table does not admit, writes no
  phase at all and so leaves the operation ambiguous, for every environment.\<close>

theorem lapsed_authorization_leaves_ambiguous_operation_stuck:
  assumes "fld operation ''phase'' = JStr ''ambiguous''"
    and "authorize w operation (begin_state operation) = (Inr az, t)" and "\<not> az_allowed az"
  shows "(\<exists>e. fst (process w operation start) = Inl e) \<and> written (run_log w operation) = []"
proof -
  have b: "begin_state operation = \<lparr>fx_log = [], w_phase = ''ambiguous'', w_lost = False\<rparr>"
    using assms(1) by (simp add: begin_state_def)
  have "unwritten ''ambiguous'' [] (begin_state operation)"
    by (simp add: b unwritten_def written_def)
  then have t: "unwritten ''ambiguous'' [] t"
    using pkeeps_authorize [of "''ambiguous''" "[]" w operation] assms(2) unfolding pkeeps_def by force
  have run: "process w operation start = deny w operation True az t"
    using assms(2,3)
    by (simp add: process_start process_body_def claim_def b uncertain_phases_def pwhen_def Let_def pbind_def pget_def pret_def)
  have "wp (deny w operation True az) (\<lambda>_ _. False) (\<lambda>_. unwritten ''ambiguous'' []) t"
    using t unfolding deny_def wp_pbind wp_if wp_pget wp_pwhen
    by (auto simp: unwritten_def [of _ _ t] intro!: wp_mono [OF step_blocked [OF not_ambiguous_inconclusive]])
  then show ?thesis
    by (auto simp: wp_def run run_log_def unwritten_def split: prod.splits sum.splits)
qed

section \<open>Authorization, binding and the order of phases\<close>

definition active_approver_ids :: "jsval \<Rightarrow> string set" where
  "active_approver_ids approvals = (\<lambda>item. to_str (fld item ''approverId'')) `
     {item \<in> set (elems approvals). \<not> truthy (fld item ''revokedAt'') \<and> fld item ''assurance'' = JStr ''aal2''}"

lemma approval_active_Inr:
  "approval_active item = Inr b \<Longrightarrow> b \<longleftrightarrow> \<not> truthy (fld item ''revokedAt'') \<and> fld item ''assurance'' = JStr ''aal2''"
  by (auto simp: approval_active_def res_splits get_prop_def split: if_splits)

lemma map_res_filter:
  assumes "map_res f xs = Inr bs" and "\<And>x b. f x = Inr b \<Longrightarrow> b \<longleftrightarrow> P x"
  shows "map fst (filter snd (zip xs bs)) = filter P xs"
  using assms(1)
proof (induction xs arbitrary: bs)
  case (Cons x xs)
  then obtain b bs' where "f x = Inr b" "map_res f xs = Inr bs'" "bs = b # bs'"
    by (auto simp: res_splits)
  then show ?case
    using Cons.IH assms(2) by auto
qed simp

lemma activeApprovers_count:
  assumes "activeApprovers approvals = Inr active"
  shows "length active = card (active_approver_ids approvals)"
proof -
  obtain items bs where i: "array_of approvals = Inr items" "map_res approval_active items = Inr bs"
    and a: "active = uniq (map (\<lambda>(item, _). to_str (fld item ''approverId'')) (filter snd (zip items bs)))"
    using assms unfolding activeApprovers_def by (auto simp: res_splits)
  have e: "elems approvals = items"
    using i(1) by (auto simp: array_of_def elems_def split: jsval.splits)
  have "map (\<lambda>(item, _). to_str (fld item ''approverId'')) (filter snd (zip items bs))
      = map (\<lambda>item. to_str (fld item ''approverId'')) (map fst (filter snd (zip items bs)))"
    by (simp add: case_prod_beta comp_def)
  also have "\<dots> = map (\<lambda>item. to_str (fld item ''approverId''))
      (filter (\<lambda>item. \<not> truthy (fld item ''revokedAt'') \<and> fld item ''assurance'' = JStr ''aal2'') items)"
    using map_res_filter [OF i(2) approval_active_Inr] by simp
  finally show ?thesis
    by (simp add: a length_uniq active_approver_ids_def e)
qed

lemma activeApprovers_none:
  "activeApprovers approvals = Inr active \<Longrightarrow> active = [] \<longleftrightarrow> \<not> Suc 0 \<le> card (active_approver_ids approvals)"
  by (drule activeApprovers_count) (cases active, simp_all)

definition permission_of :: "jsval \<Rightarrow> jsval" where
  "permission_of operation = js_or (fld operation ''requiredPermission'')
     (JStr (''r2d2:'' @ to_str (fld operation ''action'')))"

text \<open>C10: execution is authorized exactly when the session is active and belongs to the actor of the
  operation, its authorization revision is the one the operation was accepted under, it holds the required permission,
  a required second factor is present and was verified at most five minutes ago, and an R2 operation has
  at least one, an R3 operation at least two different active second-factor approvers.\<close>

theorem execution_is_authorized_iff_every_check_passes:
  assumes "authorizeAtExecution dp operation session approvals now = Inr az"
  shows "az_allowed az \<longleftrightarrow>
    truthy (fld session ''active'')
    \<and> to_str (fld session ''actorId'') = to_str (fld operation ''actorId'')
    \<and> str_or_empty (fld session ''authzRevision'') = str_or_empty (fld operation ''authzRevision'')
    \<and> (\<exists>permissions. iterate (js_or (fld session ''permissions'') (JArr [])) = Inr permissions
         \<and> set_has permissions (permission_of operation))
    \<and> (fld operation ''requiredAssurance'' = JStr ''aal2'' \<longrightarrow>
         fld session ''assurance'' = JStr ''aal2'' \<and> recently_reauthenticated dp now session)
    \<and> (fld operation ''riskClass'' = JStr ''R2'' \<longrightarrow> 1 \<le> card (active_approver_ids approvals))
    \<and> (fld operation ''riskClass'' = JStr ''R3'' \<longrightarrow> 2 \<le> card (active_approver_ids approvals))"
  using assms unfolding authorizeAtExecution_def permission_of_def [symmetric]
  by (cases "iterate (js_or (fld session ''permissions'') (JArr []))"; cases "activeApprovers approvals")
    (simp_all add: denied_def activeApprovers_count activeApprovers_none split: if_splits, auto)

lemma registered_verifiers:
  "map_of DESCRIPTORS action = Some d \<Longrightarrow> fld d ''verifierId'' \<in> set [
     JStr ''authority.workload.rollout'', JStr ''authority.workload.replicas'', JStr ''authority.release.exact-digest'',
     JStr ''authority.job.completed'', JStr ''authority.recovery.evidence'', JStr ''owner.recovery.postcondition'',
     JStr ''owner.notification.delivery'', JStr ''owner.foundation.postgres.ready'']"
  unfolding DESCRIPTORS_def
  by (simp split: if_splits) (auto simp: fld_def restart_workload_descriptor_def scale_workload_descriptor_def
      rollback_image_descriptor_def run_cronjob_descriptor_def run_recovery_drill_descriptor_def
      owner_recover_descriptor_def retry_delivery_descriptor_def create_postgres_cluster_descriptor_def)

text \<open>whatever a request contains, an operation that binds has been bound by the registry alone: its tool,
  verifier, owner route, risk class, assurance and permission are the descriptor's; its target has the
  descriptor's kind and an allowed namespace; the confirmation typed by the human is character for character the one
  computed from descriptor and target; and a closed postcondition is registered for its verifier.\<close>

theorem bound_operations_are_closed_by_the_registry:
  assumes "bindOperation sha DESCRIPTORS request = Inr b"
  shows "\<exists>d. map_of DESCRIPTORS (str_or_empty (fld request ''action'')) = Some d
    \<and> fld b ''toolId'' = fld d ''toolId'' \<and> fld b ''verifierId'' = fld d ''verifierId''
    \<and> fld b ''ownerRoute'' = fld d ''ownerRoute'' \<and> fld b ''riskClass'' = fld d ''riskClass''
    \<and> fld b ''requiredAssurance'' = fld d ''assurance'' \<and> fld b ''requiredPermission'' = fld d ''permission''
    \<and> fld (fld b ''target'') ''kind'' = fld d ''targetKind''
    \<and> (\<exists>ns. fld (fld b ''target'') ''namespace'' = JStr ns
         \<and> namespaceAllowed ns (map to_str (elems (fld d ''allowedNamespaces''))))
    \<and> exactConfirmation d (js_or (fld request ''target'') (JObj [])) (fld request ''bindingDigest'')
        = Inr (to_str (fld request ''confirmation''))
    \<and> 8 \<le> length (trim (str_or_empty (fld request ''reason'')))
    \<and> (\<exists>p. expectedPostcondition b = Inr p)"
proof -
  define action where "action = str_or_empty (fld request ''action'')"
  define target where "target = js_or (fld request ''target'') (JObj [])"
  define d where "d = registry_get DESCRIPTORS action"
  obtain expected dd cd where
    kind: "JStr (to_str (fld target ''kind'')) = fld d ''targetKind''"
    and ns: "namespaceAllowed (str_or_empty (fld target ''namespace'')) (map to_str (elems (fld d ''allowedNamespaces'')))"
    and conf: "exactConfirmation d target (fld request ''bindingDigest'') = Inr expected"
      "to_str (fld request ''confirmation'') = expected"
    and reason: "8 \<le> length (trim (str_or_empty (fld request ''reason'')))"
    and b: "b = JObj ([
             (''action'', JStr action),
             (''descriptorId'', fld d ''descriptorId''),
             (''descriptorRevision'', fld d ''revision''),
             (''descriptorDigest'', JStr dd),
             (''toolId'', fld d ''toolId''),
             (''verifierId'', fld d ''verifierId''),
             (''ownerRoute'', fld d ''ownerRoute''),
             (''riskClass'', fld d ''riskClass''),
             (''requiredAssurance'', fld d ''assurance''),
             (''requiredPermission'', fld d ''permission''),
             (''expectedConfirmation'', JStr expected),
             (''target'', planned_target target)] @ [
             (''reason'', JStr (trim (to_str (fld request ''reason'')))),
             (''confirmationDigest'', JStr cd)])"
    using assms unfolding bindOperation_def planOperation_def Let_def action_def [symmetric] target_def [symmetric]
      d_def [symmetric] rbind_eq_Inr guard_else_eq
    by (auto simp: obj_entries_def fld_obj)
  have "map_of DESCRIPTORS action = Some d"
    using kind unfolding d_def registry_get_def table_get_def
    by (auto simp: fld_def split: option.splits if_splits)
  moreover have "\<exists>p. expectedPostcondition b = Inr p"
    using registered_verifiers [OF calculation] unfolding expectedPostcondition_def Let_def
    by (simp add: b fld_obj planned_target_def get_prop_def nullish_def) blast
  ultimately show ?thesis
    using kind ns conf reason unfolding action_def [symmetric] target_def [symmetric]
    by (simp add: b fld_obj planned_target_def)
qed

section \<open>A concrete environment\<close>

text \<open>
  One session, one healthy target and services that answer; \<open>fails\<close> says after which histories the
  heartbeat call fails with a transport error.
\<close>

definition demo_session :: jsval where
  "demo_session = JObj [(''active'', JBool True), (''actorId'', JStr ''actor''), (''authzRevision'', JStr ''r1''),
     (''assurance'', JStr ''aal2''), (''permissions'', JArr [JStr ''p'']), (''accessToken'', JStr ''token''),
     (''lastReauthenticatedAt'', JStr ''t'')]"

definition demo_operation :: "string \<Rightarrow> jsval" where
  "demo_operation ph = JObj [(''operationId'', JStr ''op''), (''phase'', JStr ph), (''actorId'', JStr ''actor''),
     (''authzRevision'', JStr ''r1''), (''requiredPermission'', JStr ''p''), (''requiredAssurance'', JStr ''aal2''),
     (''riskClass'', JStr ''R1''), (''idempotencyKey'', JStr ''key-0001''), (''deadlineAt'', JStr ''d''),
     (''target'', JObj [(''uid'', JStr ''u'')])]"

definition demo_env :: "jsval \<Rightarrow> (history \<Rightarrow> bool) \<Rightarrow> environment" where
  "demo_env session fails h c =
     (if cname c = ''sessions.resolve'' then Inr session
      else if cname c = ''store.getApprovals'' then Inr (JArr [])
      else if cname c = ''now'' then Inr (JInt 1)
      else if cname c = ''authority.read''
      then Inr (JObj [(''fresh'', JBool True), (''snapshotComplete'', JBool True), (''uid'', JStr ''u'')])
      else if cname c = ''verifiers.verify'' then Inr (JObj [(''status'', JStr ''succeeded'')])
      else if cname c = ''store.heartbeat'' \<and> fails h then Inl (js_error ''network'' [])
      else Inr (JBool True))"

definition demo_worker :: "jsval \<Rightarrow> (history \<Rightarrow> bool) \<Rightarrow> worker" where
  "demo_worker session fails = \<lparr>w_env = demo_env session fails,
     w_dp = (\<lambda>s. if s = ''d'' then Fin 9 else Fin 0), w_sha = (\<lambda>_. []), w_id = JStr ''w'',
     has_heartbeat = True, has_intent = True, timer_lost = (\<lambda>_. False)\<rparr>"

definition never :: "history \<Rightarrow> bool" where
  "never h = False"

definition just_invoked :: "history \<Rightarrow> bool" where
  "just_invoked h \<longleftrightarrow> h \<noteq> [] \<and> cname (fst (last h)) = ''owners.invoke''"

theorem worker_returns_only_with_a_persisted_terminal_phase_witness:
  "\<exists>r t. process (demo_worker demo_session never) (demo_operation ''accepted'') start = (Inr r, t)
    \<and> r_phase r \<in> set TERMINAL
    \<and> (\<exists>l x. fx_log t = l @ [(Call ''store.setPhase''
        [operation_id (demo_operation ''accepted''), JStr (r_phase r)], Inr x)])"
proof -
  have "\<not> isl (fst (process (demo_worker demo_session never) (demo_operation ''accepted'') start))"
    by code_simp
  then obtain r t where "process (demo_worker demo_session never) (demo_operation ''accepted'') start = (Inr r, t)"
    by (metis prod.collapse sum.collapse(2))
  with worker_returns_only_with_a_persisted_terminal_phase [OF this] show ?thesis
    by blast
qed

theorem lapsed_authorization_leaves_ambiguous_operation_stuck_witness:
  "(\<exists>e. fst (process (demo_worker JNull never) (demo_operation ''ambiguous'') start) = Inl e)
   \<and> written (run_log (demo_worker JNull never) (demo_operation ''ambiguous'')) = []"
proof -
  have c: "case authorize (demo_worker JNull never) (demo_operation ''ambiguous'') (begin_state (demo_operation ''ambiguous'')) of
      (Inl _, _) \<Rightarrow> False | (Inr az, _) \<Rightarrow> \<not> az_allowed az"
    by code_simp
  then obtain az t where "authorize (demo_worker JNull never) (demo_operation ''ambiguous'')
      (begin_state (demo_operation ''ambiguous'')) = (Inr az, t)" "\<not> az_allowed az"
    by (auto split: prod.splits sum.splits)
  from lapsed_authorization_leaves_ambiguous_operation_stuck [OF _ this] show ?thesis
    by (simp add: demo_operation_def fld_obj)
qed

text \<open>A call the owner accepted can be recorded as failed: when the heartbeat that follows the owner's
  receipt fails with an ordinary transport error, the catch clause around the owner call takes it for
  the owner's error, and a healthy store then persists the terminal phase failed.\<close>

theorem heartbeat_error_after_owner_success_is_recorded_as_failure:
  "map snd (calls ''owners.invoke'' (run_log (demo_worker demo_session just_invoked) (demo_operation ''accepted'')))
     = [Inr (JBool True)]
   \<and> (case fst (process (demo_worker demo_session just_invoked) (demo_operation ''accepted'') start) of
        Inl _ \<Rightarrow> False
      | Inr r \<Rightarrow> r_phase r = ''failed'' \<and> r_ownerCalled r)
   \<and> last (written (run_log (demo_worker demo_session just_invoked) (demo_operation ''accepted''))) = JStr ''failed''"
  by code_simp

theorem execution_is_authorized_iff_every_check_passes_witness:
  "\<exists>az. authorizeAtExecution (\<lambda>_. Fin 0) (demo_operation ''accepted'') demo_session (JArr []) (Fin 1) = Inr az
    \<and> az_allowed az \<and> truthy (fld demo_session ''active'')"
proof -
  have "case authorizeAtExecution (\<lambda>_. Fin 0) (demo_operation ''accepted'') demo_session (JArr []) (Fin 1) of
      Inl _ \<Rightarrow> False | Inr az \<Rightarrow> az_allowed az"
    by code_simp
  then obtain az where az: "authorizeAtExecution (\<lambda>_. Fin 0) (demo_operation ''accepted'') demo_session (JArr []) (Fin 1) = Inr az"
    "az_allowed az"
    by (auto split: sum.splits)
  from execution_is_authorized_iff_every_check_passes [OF az(1)] az show ?thesis
    by blast
qed

definition demo_request :: jsval where
  "demo_request = JObj [(''action'', JStr ''restart-workload''),
     (''target'', JObj [(''kind'', JStr ''Deployment''), (''namespace'', JStr ''opensphere-a''), (''name'', JStr ''web''), (''uid'', JStr ''u'')]),
     (''confirmation'', JStr ''restart deployment opensphere-a/web''), (''reason'', JStr ''stuck pods'')]"

theorem bound_operations_are_closed_by_the_registry_witness:
  "\<exists>b p. bindOperation (\<lambda>t. t) DESCRIPTORS demo_request = Inr b \<and> expectedPostcondition b = Inr p"
proof -
  have "\<not> isl (bindOperation (\<lambda>t. t) DESCRIPTORS demo_request)"
    by code_simp
  then obtain b where "bindOperation (\<lambda>t. t) DESCRIPTORS demo_request = Inr b"
    by (metis sum.collapse(2))
  with bound_operations_are_closed_by_the_registry [OF this] show ?thesis
    by blast
qed

end
