(* ===== verification/OperationApi.thy ===== *)
theory OperationApi
  imports DurableOperation
begin

text \<open>
  The interface to durable operations, \<open>src/apps/console-api/runtime/r2d2-operation-api.js\<close>: planning,
  acceptance, inspection and approval of operations over HTTP, the REST stores behind the API and the worker, and the
  translation between database rows and worker operations.

  Authentication, target and dialogue resolution, the stores and the clock are service calls.
  Optional dependencies are flags of the \<open>api\<close> record.  \<open>crypto.randomUUID\<close> is the service call
  \<open>randomUUID\<close>.
\<close>

section \<open>Rows as seen by clients\<close>

definition publicOperation :: "jsval \<Rightarrow> jsval + jsval" where
  "publicOperation row =
     rbind (get_prop row ''operation_id'') (\<lambda>operationId. Inr (JObj [
       (''operationId'', operationId), (''action'', fld row ''action''),
       (''target'', or_null (fld (fld row ''precondition'') ''target'')),
       (''phase'', fld row ''phase''), (''executionState'', fld row ''execution_state''),
       (''verificationState'', fld row ''verification_state''),
       (''riskClass'', js_or (fld row ''requested_risk_class'') (fld row ''risk_class'')),
       (''requiredAssurance'', fld row ''required_assurance''),
       (''incidentId'', or_null (fld row ''incident_id'')),
       (''descriptorRevision'', fld row ''descriptor_revision''),
       (''descriptorDigest'', fld row ''descriptor_digest''),
       (''toolId'', fld row ''tool_id''), (''verifierId'', fld row ''verifier_id''),
       (''attempt'', JNum (to_num (js_or (fld row ''attempt'') (JInt 0)))),
       (''result'', js_or (fld row ''result'') (JObj [])),
       (''errorCode'', or_null (fld row ''error_code'')),
       (''createdAt'', fld row ''created_at''), (''updatedAt'', fld row ''updated_at''),
       (''deadlineAt'', fld row ''deadline_at''),
       (''approvalConfirmation'',
          if fld row ''phase'' = JStr ''AwaitingApproval'' \<and> fld row ''action'' \<noteq> JStr ''engineering-remediation''
          then JStr (''approve R2D2 operation '' @ to_str operationId @ '' '' @ to_str (fld row ''descriptor_digest''))
          else JNull)]))"

section \<open>The API\<close>

record api =
  a_env :: environment
  a_dp :: "string \<Rightarrow> jnum"
  a_sha :: "string \<Rightarrow> string"
  a_enabled :: bool
  has_resolveTarget :: bool
  has_resolveDialogueState :: bool
  has_insertPlan :: bool
  has_getPlan :: bool
  has_consumePlan :: bool

type_synonym 'a aprog = "(fx, jsval, 'a) prog"

definition api_now :: "api \<Rightarrow> jnum aprog" where
  "api_now a = pbind (call (a_env a) ''now'' []) (\<lambda>t. pret (to_num t))"

definition authenticate :: "api \<Rightarrow> jsval \<Rightarrow> (jsval \<times> jsval) aprog" where
  \<comment> \<open>\<open>const auth = await authenticate(req); const actor = auth.actor || auth\<close>\<close>
  "authenticate a req =
     pbind (call (a_env a) ''authenticate'' [req]) (\<lambda>auth.
     pbind (plift (get_prop auth ''actor'')) (\<lambda>inner. pret (auth, js_or inner auth)))"

definition actor_id :: "jsval \<Rightarrow> string" where
  "actor_id actor = str_or_empty (js_or (fld actor ''sub'') (fld actor ''subject''))"

definition session_id :: "jsval \<Rightarrow> string" where
  "session_id actor = str_or_empty (js_or (fld actor ''browserSessionId'') (fld actor ''authSessionId''))"

definition resolve_target :: "api \<Rightarrow> string \<Rightarrow> jsval \<Rightarrow> jsval \<Rightarrow> jsval aprog" where
  "resolve_target a action target auth = call (a_env a) ''resolveTarget'' [JStr action, target, auth]"

definition postgres_postconditions :: jsval where
  "postgres_postconditions = JArr [
     JStr ''FoundationClaim Bound and observedGeneration equals metadata.generation'',
     JStr ''PostgresClaim Ready=True and observedGeneration equals metadata.generation'',
     JStr ''SGCluster Ready=True'', JStr ''connection binding Secret issued'']"

definition plan_binding :: "(string \<Rightarrow> string) \<Rightarrow> string \<Rightarrow> jsval \<Rightarrow> jsval \<Rightarrow> jsval \<Rightarrow> jsval \<Rightarrow> jsval + string" where
  \<comment> \<open>the digest that ties a stored plan to its actor, target, request and expiry\<close>
  "plan_binding sha actorId planned requestPayload postcondition expires = durable_digest sha (JObj [
     (''actorId'', JStr actorId), (''action'', fld planned ''action''),
     (''descriptorDigest'', fld planned ''descriptorDigest''), (''target'', fld planned ''target''),
     (''requestPayload'', requestPayload), (''expectedPostcondition'', postcondition), (''expiresAt'', expires)])"

definition plan_output :: "jsval \<Rightarrow> jsval \<Rightarrow> (string \<times> jsval) list" where
  "plan_output planned postcondition = [
     (''action'', fld planned ''action''), (''descriptorId'', fld planned ''descriptorId''),
     (''descriptorRevision'', fld planned ''descriptorRevision''),
     (''descriptorDigest'', fld planned ''descriptorDigest''), (''riskClass'', fld planned ''riskClass''),
     (''requiredAssurance'', fld planned ''requiredAssurance''), (''target'', fld planned ''target''),
     (''expectedConfirmation'', fld planned ''expectedConfirmation''), (''expectedPostcondition'', postcondition)]"

definition store_plan :: "api \<Rightarrow> jsval \<Rightarrow> jsval \<Rightarrow> jsval \<Rightarrow> jsval \<Rightarrow> jsval aprog" where
  "store_plan a actor body planned postcondition =
     (let actorId = actor_id actor; authSessionId = session_id actor in
      pbind (pguard (http_error 401 ''durable plan requires stable actor and session UUIDs'')
               (is_uuid actorId \<and> is_uuid authSessionId)) (\<lambda>_.
      pbind (pguard (http_error 503 ''durable plan store is unavailable'') (has_insertPlan a)) (\<lambda>_.
      pbind (api_now a) (\<lambda>now.
      pbind (plift (to_iso_string (num_add now (Fin 900000)))) (\<lambda>expires.
      pbind (call (a_env a) ''randomUUID'' []) (\<lambda>uuid.
      let planId = ''pgplan-'' @ to_str uuid;
          reason = trim (str_or_empty (fld body ''reason''));
          requestPayload = JObj [(''action'', fld planned ''action''),
            (''target'', js_or (fld body ''target'') (JObj [])), (''reason'', JStr reason)] in
      pbind (pguard (http_error 400 ''reason must contain at least eight characters'') (8 \<le> length reason)) (\<lambda>_.
      pbind (plift (plan_binding (a_sha a) actorId planned requestPayload postcondition (JStr expires))) (\<lambda>planDigest.
      pbind (plift (operationConfirmation planned (JStr planDigest))) (\<lambda>expectedConfirmation.
      let targetRevision = str_or_empty (fld (fld planned ''target'') ''resourceVersion'') in
      pbind (call (a_env a) ''store.insertPlan'' [JObj [
         (''plan_id'', JStr planId), (''actor_id'', JStr actorId), (''auth_session_id'', JStr authSessionId),
         (''action'', fld planned ''action''),
         (''descriptor_revision'', fld planned ''descriptorRevision''), (''descriptor_digest'', fld planned ''descriptorDigest''),
         (''plan_digest'', JStr planDigest), (''target_revision'', JStr targetRevision),
         (''risk_class'', fld planned ''riskClass''), (''required_assurance'', fld planned ''requiredAssurance''),
         (''expected_confirmation'', JStr expectedConfirmation), (''target'', fld planned ''target''),
         (''request_payload'', requestPayload), (''expected_postcondition'', postcondition),
         (''expires_at'', JStr expires)]]) (\<lambda>_.
      pret (JObj (upsert ''expectedConfirmation'' (JStr expectedConfirmation) (plan_output planned postcondition) @ [
         (''planId'', JStr planId), (''planDigest'', JStr planDigest), (''idempotencyKey'', JStr planId),
         (''expiresAt'', JStr expires), (''targetRevision'', JStr targetRevision),
         (''postconditions'', postgres_postconditions)]))))))))))))"

definition plan :: "api \<Rightarrow> jsval \<Rightarrow> jsval \<Rightarrow> jsval aprog" where
  "plan a req body =
     pbind (authenticate a req) (\<lambda>(auth, actor).
     pbind (pguard (http_error 503 ''durable target resolver is unavailable'') (has_resolveTarget a)) (\<lambda>_.
     pbind (resolve_target a (str_or_empty (fld body ''action'')) (js_or (fld body ''target'') (JObj [])) auth) (\<lambda>target.
     pbind (plift (planOperation (a_sha a) DESCRIPTORS
              (JObj [(''action'', fld body ''action''), (''target'', target)]))) (\<lambda>planned.
     pbind (plift (expectedPostcondition planned)) (\<lambda>postcondition.
     if fld planned ''action'' \<noteq> JStr ''create-postgres-cluster'' then pret (JObj (plan_output planned postcondition))
     else store_plan a actor body planned postcondition)))))"

section \<open>Acceptance\<close>

record request_source =
  rs_plan :: jsval
  rs_target :: jsval
  rs_body :: jsval

definition plan_changed :: jsval where
  "plan_changed = http_error 409 ''durable plan target revision changed; create a new plan''"

definition load_plan :: "api \<Rightarrow> jsval \<Rightarrow> jsval \<Rightarrow> jsval \<Rightarrow> jsval aprog" where
  \<comment> \<open>the stored plan of this actor and session, unexpired and with the digest the client sent\<close>
  "load_plan a actor body actorId =
     pbind (pguard (http_error 503 ''durable plan store is unavailable'') (has_getPlan a)) (\<lambda>_.
     pbind (call (a_env a) ''store.getPlan'' [JStr (to_str (fld body ''planId''))]) (\<lambda>stored.
     pbind (pguard (http_error 404 ''durable plan not found'') (truthy stored)) (\<lambda>_.
     pbind (pguard (http_error 403 ''durable plan belongs to a different actor'')
              (JStr (to_str (fld stored ''actor_id'')) = actorId)) (\<lambda>_.
     pbind (pguard (http_error 403 ''durable plan belongs to a different authenticated session'')
              (is_uuid (session_id actor) \<and> to_str (fld stored ''auth_session_id'') = session_id actor)) (\<lambda>_.
     pbind (api_now a) (\<lambda>now.
     pbind (pguard (http_error 409 ''durable plan expired'')
              (\<not> num_le (a_dp a (to_str (fld stored ''expires_at''))) now)) (\<lambda>_.
     pbind (pguard (http_error 409 ''durable plan digest does not match the stored plan'')
              (is_sha256_ref (str_or_empty (fld body ''planDigest''))
               \<and> to_str (fld body ''planDigest'') = to_str (fld stored ''plan_digest''))) (\<lambda>_.
     pret stored))))))))"

definition replan :: "api \<Rightarrow> jsval \<Rightarrow> string \<Rightarrow> jsval \<Rightarrow> jsval \<Rightarrow> jsval aprog" where
  \<comment> \<open>resolve the target again and recompute the binding; any difference voids the plan\<close>
  "replan a auth actorId stored body =
     pbind (call (a_env a) ''resolveTarget'' [fld stored ''action'',
              js_or (fld (fld stored ''request_payload'') ''target'') (JObj []), auth]) (\<lambda>target.
     pbind (plift (planOperation (a_sha a) DESCRIPTORS
              (JObj [(''action'', fld stored ''action''), (''target'', target)]))) (\<lambda>replanned.
     pbind (plift (expectedPostcondition replanned)) (\<lambda>postcondition.
     pbind (plift (plan_binding (a_sha a) actorId replanned (fld stored ''request_payload'') postcondition
              (fld stored ''expires_at''))) (\<lambda>recomputed.
     pbind (pguard plan_changed (JStr recomputed = fld stored ''plan_digest''
              \<and> fld replanned ''descriptorDigest'' = fld stored ''descriptor_digest'')) (\<lambda>_.
     pret target)))))"

definition planned_source :: "api \<Rightarrow> jsval \<Rightarrow> jsval \<Rightarrow> jsval \<Rightarrow> string \<Rightarrow> request_source aprog" where
  "planned_source a auth actor body actorId =
     (if str_or_empty (fld body ''planId'') = []
      then pret \<lparr>rs_plan = JNull, rs_target = JNull, rs_body = js_or body (JObj [])\<rparr>
      else pbind (load_plan a actor body (JStr actorId)) (\<lambda>stored.
           pbind (replan a auth actorId stored body) (\<lambda>target.
           pbind (plift (get_prop (fld stored ''request_payload'') ''target'')) (\<lambda>requested.
           pret \<lparr>rs_plan = stored, rs_target = target, rs_body = JObj [
             (''action'', fld stored ''action''), (''target'', requested),
             (''reason'', fld (fld stored ''request_payload'') ''reason''),
             (''confirmation'', fld body ''confirmation''), (''bindingDigest'', fld stored ''plan_digest'')]\<rparr>))))"

definition recent_assurance :: "api \<Rightarrow> jsval \<Rightarrow> jsval \<Rightarrow> unit aprog" where
  "recent_assurance a actor bound =
     (if fld bound ''riskClass'' = JStr ''R1'' \<and> fld bound ''requiredAssurance'' = JStr ''aal2''
      then let refuse = pthrow (JObj [(''code'', JInt 428), (''errorCode'', JStr ''recent_aal2_required''),
                 (''msg'', JStr ''local edge R1 OSAA operation requires MFA assurance aal2 verified within the last 5 minutes'')])
           in if fld actor ''assurance'' \<noteq> JStr ''aal2''
                 \<or> \<not> num_is_finite (a_dp a (str_or_empty (fld actor ''lastReauthenticatedAt''))) then refuse
              else pbind (api_now a) (\<lambda>now.
                   if recently_reauthenticated (a_dp a) now actor then pret () else refuse)
      else pret ())"

definition operation_key :: "jsval \<Rightarrow> jsval \<Rightarrow> jsval \<Rightarrow> jsval + jsval" where
  "operation_key req body stored =
     (if truthy (fld stored ''plan_id'') then Inr (fld stored ''plan_id'')
      else rbind (get_prop req ''headers'') (\<lambda>headers.
           rbind (get_prop headers ''x-os-idempotency-key'') (\<lambda>header.
           rbind (if truthy header then Inr header else get_prop body ''idempotencyKey'') (\<lambda>key.
             Inr (JStr (trim (str_or_empty key)))))))"

definition dialogue_mismatch :: jsval where
  "dialogue_mismatch = http_error 409 ''Dialogue State changed or does not belong to this actor''"

definition dialogue_binding :: "api \<Rightarrow> jsval \<Rightarrow> jsval \<Rightarrow> string \<Rightarrow> jsval \<Rightarrow> jsval aprog" where
  \<comment> \<open>the dialogue state a cluster creation is tied to; \<open>null\<close> for the other actions\<close>
  "dialogue_binding a req body actorId bound =
     (let stateDigest = str_or_empty (fld body ''dialogueStateDigest'');
          conversationId = str_or_empty (fld body ''conversationId'') in
      if fld bound ''action'' = JStr ''create-postgres-cluster''
      then pbind (pguard (http_error 400 ''PFSS operation requires a conversationId and Dialogue State digest'')
                    (is_uuid conversationId \<and> is_sha256_ref stateDigest)) (\<lambda>_.
           pbind (pguard (http_error 503 ''OSDST projection resolver is unavailable'') (has_resolveDialogueState a)) (\<lambda>_.
           pbind (call (a_env a) ''resolveDialogueState'' [JStr conversationId, JStr actorId, req]) (\<lambda>state.
           let resolved = js_or (fld state ''stateDigest'') (fld state ''state_digest'');
               targetRef = js_or (js_or (fld state ''targetRef'') (fld state ''target_ref'')) (JObj []) in
           pbind (pguard dialogue_mismatch (truthy state \<and> resolved = JStr stateDigest)) (\<lambda>_.
           pbind (pguard (http_error 409 ''Dialogue State is not bound to this PFSS plan target'')
                    (fld state ''domain'' = JStr ''pfss.postgresql'' \<and> fld state ''intent'' = JStr ''create.plan''
                     \<and> fld state ''phase'' = JStr ''plan_ready''
                     \<and> str_or_empty (fld targetRef ''namespace'') = str_or_empty (fld (fld bound ''target'') ''namespace'')
                     \<and> str_or_empty (fld targetRef ''name'') = str_or_empty (fld (fld bound ''target'') ''name''))) (\<lambda>_.
           pret state)))))
      else pbind (pguard (http_error 400 ''Dialogue State digest is invalid'')
                    (stateDigest = [] \<or> is_sha256_ref stateDigest)) (\<lambda>_. pret JNull))"

definition approval_required :: "jsval \<Rightarrow> bool" where
  "approval_required bound \<longleftrightarrow> fld bound ''riskClass'' \<in> set [JStr ''R2'', JStr ''R3'']"

definition deadline_of :: "jnum \<Rightarrow> jsval \<Rightarrow> jnum" where
  "deadline_of now deadlineMs =
     num_add now (num_max (Fin 60000) (num_min (Fin 3600000) (to_num (js_or deadlineMs (JInt 600000)))))"

definition precondition_of :: "(string \<Rightarrow> string) \<Rightarrow> jsval \<Rightarrow> jsval \<Rightarrow> jsval \<Rightarrow> jsval \<Rightarrow> jsval \<Rightarrow> jsval \<Rightarrow> jsval + jsval" where
  "precondition_of sha actor body bound stored state key =
     rbind (durable_digest sha (fld bound ''target'')) (\<lambda>fingerprint.
     rbind (durable_digest sha key) (\<lambda>keyDigest.
       Inr (JObj [
         (''target'', fld bound ''target''), (''ownerRoute'', fld bound ''ownerRoute''),
         (''requiredPermission'', fld bound ''requiredPermission''),
         (''confirmationDigest'', fld bound ''confirmationDigest''),
         (''dialogueStateDigest'', or_null (JStr (str_or_empty (fld body ''dialogueStateDigest'')))),
         (''dialogueConversationId'', or_null (JStr (str_or_empty (fld body ''conversationId'')))),
         (''dialogueRevision'', if truthy state then JNum (to_num (js_or (fld state ''revision'') (JInt 0))) else JNull),
         (''planId'', or_null (fld stored ''plan_id'')),
         (''planDigest'', or_null (fld stored ''plan_digest'')),
         (''bindingDigest'', or_null (fld stored ''plan_digest'')),
         (''descriptorDigest'', fld bound ''descriptorDigest''),
         (''targetFingerprint'', JStr fingerprint),
         (''idempotencyKeyDigest'', JStr keyDigest),
         (''actorBinding'', JObj [(''actorId'', JStr (actor_id actor)),
            (''tenantId'', JStr (str_or_empty (js_or (fld actor ''tenantId'') (fld actor ''tenant''))))])])))"

definition operation_row ::
  "(string \<Rightarrow> string) \<Rightarrow> jsval \<Rightarrow> jsval \<Rightarrow> jsval \<Rightarrow> jsval \<Rightarrow> jsval \<Rightarrow> jsval \<Rightarrow> jsval \<Rightarrow> string \<Rightarrow> jsval + jsval" where
  "operation_row sha actor body bound stored state key uuid deadline =
     rbind (durable_digest sha (fld bound ''target'')) (\<lambda>fingerprint.
     rbind (precondition_of sha actor body bound stored state key) (\<lambda>precondition.
     rbind (expectedPostcondition bound) (\<lambda>postcondition.
       Inr (JObj [
         (''operation_id'', uuid), (''idempotency_key'', key), (''module_id'', JStr ''r2d2''),
         (''action'', fld bound ''action''),
         (''actor_id'', JStr (actor_id actor)), (''reason'', fld bound ''reason''),
         (''assurance'', js_or (fld actor ''assurance'') (JStr ''aal1'')), (''risk_class'', fld bound ''riskClass''),
         (''target_fingerprint'', JStr fingerprint),
         (''phase'', JStr (if approval_required bound then ''AwaitingApproval'' else ''Queued'')),
         (''descriptor_revision'', fld bound ''descriptorRevision''), (''descriptor_digest'', fld bound ''descriptorDigest''),
         (''tool_id'', fld bound ''toolId''), (''verifier_id'', fld bound ''verifierId''),
         (''target_uid'', fld (fld bound ''target'') ''uid''),
         (''target_generation'', fld (fld bound ''target'') ''generation''),
         (''desired_revision'', fld (fld bound ''target'') ''desiredRevision''),
         (''requested_risk_class'', fld bound ''riskClass''), (''required_assurance'', fld bound ''requiredAssurance''),
         (''actor_assurance_at_accept'', js_or (fld actor ''assurance'') (JStr ''aal1'')),
         (''auth_session_id'', js_or (fld actor ''browserSessionId'') (fld actor ''authSessionId'')),
         (''authz_revision'', JStr (to_str (js_or (js_or (fld actor ''credentialRevision'') (fld actor ''authzRevision'')) (JInt 0)))),
         (''deadline_at'', JStr deadline),
         (''execution_state'', JStr (if approval_required bound then ''awaiting_approval'' else ''accepted'')),
         (''verification_state'', JStr ''pending''), (''precondition'', precondition),
         (''expected_postcondition'', postcondition),
         (''incident_id'', if is_uuid (str_or_empty (fld body ''incidentId'')) then fld body ''incidentId'' else JNull)]))))"

definition insert_operation :: "api \<Rightarrow> jsval \<Rightarrow> jsval \<Rightarrow> jsval \<Rightarrow> jsval \<Rightarrow> jsval \<Rightarrow> jsval \<Rightarrow> jsval aprog" where
  "insert_operation a actor body bound stored state key =
     pbind (api_now a) (\<lambda>now.
     pbind (plift (get_prop body ''deadlineMs'')) (\<lambda>deadlineMs.
     pbind (call (a_env a) ''randomUUID'' []) (\<lambda>uuid.
     pbind (plift (to_iso_string (deadline_of now deadlineMs))) (\<lambda>deadline.
     pbind (plift (operation_row (a_sha a) actor body bound stored state key uuid deadline)) (\<lambda>row.
     call (a_env a) ''store.insert'' [row])))))"

definition consume_plan :: "api \<Rightarrow> jsval \<Rightarrow> jsval \<Rightarrow> unit aprog" where
  "consume_plan a stored row =
     pwhen (truthy stored \<and> has_consumePlan a)
       (pbind (plift (get_prop row ''operation_id'')) (\<lambda>operationId.
        pbind (call (a_env a) ''store.consumePlan'' [fld stored ''plan_id'', operationId]) (\<lambda>consumed.
        pguard (http_error 409 ''durable plan was already consumed'')
          (truthy consumed \<or> str_or_empty (fld stored ''consumed_operation_id'') = to_str operationId))))"

definition persist :: "api \<Rightarrow> jsval \<Rightarrow> jsval \<Rightarrow> jsval \<Rightarrow> jsval \<Rightarrow> jsval \<Rightarrow> jsval \<Rightarrow> jsval aprog" where
  "persist a actor body bound stored key state =
     pbind (insert_operation a actor body bound stored state key) (\<lambda>row.
     pbind (consume_plan a stored row) (\<lambda>_. plift (publicOperation row)))"

definition admit :: "api \<Rightarrow> jsval \<Rightarrow> jsval \<Rightarrow> jsval \<Rightarrow> jsval \<Rightarrow> jsval \<Rightarrow> jsval aprog" where
  \<comment> \<open>the checks on a bound operation, then its row\<close>
  "admit a req body actor stored bound =
     pbind (recent_assurance a actor bound) (\<lambda>_.
     pbind (plift (operation_key req body stored)) (\<lambda>key.
     pbind (pguard (http_error 400 ''valid idempotency key required'') (is_safe_key (to_str key))) (\<lambda>_.
     pbind (dialogue_binding a req body (actor_id actor) bound) (persist a actor body bound stored key))))"

definition chosen_target :: "api \<Rightarrow> jsval \<Rightarrow> request_source \<Rightarrow> jsval aprog" where
  "chosen_target a auth src =
     (if truthy (rs_target src) then pret (rs_target src)
      else resolve_target a (str_or_empty (fld (rs_body src) ''action''))
             (js_or (fld (rs_body src) ''target'') (JObj [])) auth)"

definition bind_and_admit :: "api \<Rightarrow> jsval \<Rightarrow> jsval \<Rightarrow> jsval \<Rightarrow> jsval \<Rightarrow> request_source \<Rightarrow> jsval aprog" where
  "bind_and_admit a req body auth actor src =
     pbind (chosen_target a auth src) (\<lambda>target.
     pbind (plift (bindOperation (a_sha a) DESCRIPTORS
              (JObj (upsert ''target'' target (obj_entries (rs_body src)))))) (\<lambda>bound.
     admit a req body actor (rs_plan src) bound))"

definition accept :: "api \<Rightarrow> jsval \<Rightarrow> jsval \<Rightarrow> jsval aprog" where
  "accept a req body =
     pbind (pguard (http_error 503 ''R2D2 durable operation execution is not activated'') (a_enabled a)) (\<lambda>_.
     pbind (authenticate a req) (\<lambda>(auth, actor).
     pbind (pguard (http_error 401 ''durable operation requires a stable actor UUID'') (is_uuid (actor_id actor))) (\<lambda>_.
     pbind (pguard (http_error 503 ''durable target resolver is unavailable'') (has_resolveTarget a)) (\<lambda>_.
     pbind (planned_source a auth actor body (actor_id actor)) (bind_and_admit a req body auth actor)))))"

section \<open>Inspection and approval\<close>

definition inspectPlan :: "api \<Rightarrow> jsval \<Rightarrow> string \<Rightarrow> jsval aprog" where
  "inspectPlan a req planId =
     pbind (authenticate a req) (\<lambda>(auth, actor).
     let actorId = actor_id actor; authSessionId = session_id actor in
     pbind (pguard (http_error 401 ''durable plan inspection requires stable actor and session UUIDs'')
              (is_uuid actorId \<and> is_uuid authSessionId)) (\<lambda>_.
     pbind (pguard (http_error 503 ''durable plan store is unavailable'') (has_getPlan a)) (\<lambda>_.
     pbind (call (a_env a) ''store.getPlan'' [JStr planId]) (\<lambda>stored.
     pbind (pguard (http_error 404 ''durable plan not found'') (truthy stored)) (\<lambda>_.
     pbind (pguard (http_error 404 ''durable plan not found'')
              (to_str (fld stored ''actor_id'') = actorId \<and> to_str (fld stored ''auth_session_id'') = authSessionId)) (\<lambda>_.
     pret (JObj [
       (''planId'', fld stored ''plan_id''), (''planDigest'', fld stored ''plan_digest''), (''action'', fld stored ''action''),
       (''descriptorId'', JStr ''foundation.postgres.cluster.create''),
       (''descriptorRevision'', fld stored ''descriptor_revision''), (''descriptorDigest'', fld stored ''descriptor_digest''),
       (''riskClass'', fld stored ''risk_class''), (''requiredAssurance'', fld stored ''required_assurance''),
       (''expectedConfirmation'', fld stored ''expected_confirmation''), (''target'', fld stored ''target''),
       (''expiresAt'', fld stored ''expires_at''), (''consumedOperationId'', or_null (fld stored ''consumed_operation_id''))])))))))"

definition approval_confirmation :: "string \<Rightarrow> jsval \<Rightarrow> string" where
  "approval_confirmation operationId operation =
     ''approve R2D2 operation '' @ operationId @ '' '' @ to_str (fld operation ''descriptor_digest'')"

definition required_approvals :: "jsval \<Rightarrow> nat" where
  "required_approvals operation = (if fld operation ''requested_risk_class'' = JStr ''R3'' then 2 else 1)"

definition unrevoked_approvers :: "jsval \<Rightarrow> jsval + jsval list" where
  "unrevoked_approvers approvals =
     rbind (array_of approvals) (\<lambda>items.
     rbind (map_res (\<lambda>item. rbind (get_prop item ''revoked_at'') (\<lambda>revoked. Inr (\<not> truthy revoked))) items) (\<lambda>live.
       Inr (uniq (map (\<lambda>(item, _). fld item ''approver_id'') (filter snd (zip items live))))))"

definition approve :: "api \<Rightarrow> jsval \<Rightarrow> string \<Rightarrow> jsval \<Rightarrow> jsval aprog" where
  "approve a req operationId body =
     pbind (authenticate a req) (\<lambda>(auth, actor).
     pbind (pguard (http_error 403 ''AAL2 approval required'') (fld actor ''assurance'' = JStr ''aal2'')) (\<lambda>_.
     pbind (call (a_env a) ''store.get'' [JStr operationId]) (\<lambda>operation.
     pbind (pguard (http_error 404 ''operation not found'') (truthy operation)) (\<lambda>_.
     pbind (pguard (http_error 409 ''Engineering Remediation approval and execution are not activated'')
              (fld operation ''action'' \<noteq> JStr ''engineering-remediation'')) (\<lambda>_.
     let approverId = actor_id actor; approverSessionId = session_id actor in
     pbind (pguard (http_error 401 ''stable approver UUID required'') (is_uuid approverId)) (\<lambda>_.
     pbind (pguard (http_error 401 ''AAL2 approval requires a durable browser session'') (is_uuid approverSessionId)) (\<lambda>_.
     pbind (pguard (http_error 409 ''R2/R3 operation requires an independent approver'')
              (\<not> (js_or (fld operation ''requested_risk_class'') (fld operation ''risk_class'') \<in> set [JStr ''R2'', JStr ''R3'']
                  \<and> approverId = str_or_empty (fld operation ''actor_id'')))) (\<lambda>_.
     let expected = approval_confirmation operationId operation in
     pbind (plift (get_prop body ''confirmation'')) (\<lambda>confirmation.
     pbind (pguard (http_error 400 (''confirmation required: '' @ expected)) (str_or_empty confirmation = expected)) (\<lambda>_.
     pbind (plift (durable_digest (a_sha a) (JObj [(''operationId'', JStr operationId), (''approverId'', JStr approverId),
              (''descriptorDigest'', fld operation ''descriptor_digest''), (''confirmation'', confirmation)]))) (\<lambda>approvalDigest.
     pbind (call (a_env a) ''store.approve'' [JStr operationId, JObj [
              (''approverId'', JStr approverId), (''assurance'', JStr ''aal2''), (''authSessionId'', JStr approverSessionId),
              (''authzRevision'', JStr (to_str (js_or (js_or (fld actor ''credentialRevision'') (fld actor ''authzRevision'')) (JInt 0)))),
              (''approvalDigest'', JStr approvalDigest)]]) (\<lambda>_.
     pbind (call (a_env a) ''store.approvals'' [JStr operationId]) (\<lambda>approvals.
     pbind (plift (unrevoked_approvers approvals)) (\<lambda>approvers.
     pbind (pwhen (required_approvals operation \<le> length approvers)
              (pbind (call (a_env a) ''store.queue'' [JStr operationId]) (\<lambda>_. pret ()))) (\<lambda>_.
     pret (JObj [(''operationId'', JStr operationId), (''approvals'', JInt (int (length (elems approvals)))),
       (''required'', JInt (int (required_approvals operation)))]))))))))))))))))"

section \<open>Routes\<close>

text \<open>
  \<open>/^<prefix>([0-9a-f-]{n})<suffix>$/i\<close>: the captured text, in the case in which it was written.
\<close>

definition uuid_chars :: "string \<Rightarrow> bool" where
  "uuid_chars s \<longleftrightarrow> length s = 36 \<and> list_all (\<lambda>c. hex_char c \<or> c = CHR ''-'') s"

definition capture_between :: "string \<Rightarrow> string \<Rightarrow> nat \<Rightarrow> string \<Rightarrow> string option" where
  "capture_between pre post n path =
     (let rest = drop (length pre) path; hit = take n rest in
      if to_lower (take (length pre) path) = pre \<and> length hit = n \<and> to_lower (drop n rest) = post
      then Some hit else None)"

definition route_plan :: "string \<Rightarrow> string option" where
  "route_plan path = (case capture_between ''/api/osaa/operations/plans/'' [] 43 path of
     Some hit \<Rightarrow> if to_lower (take 7 hit) = ''pgplan-'' \<and> uuid_chars (drop 7 hit) then Some hit else None
   | None \<Rightarrow> None)"

definition route_approval :: "string \<Rightarrow> string option" where
  "route_approval path = (case capture_between ''/api/osaa/operations/'' ''/approvals'' 36 path of
     Some hit \<Rightarrow> if uuid_chars hit then Some hit else None | None \<Rightarrow> None)"

definition route_operation :: "string \<Rightarrow> string option" where
  "route_operation path = (case capture_between ''/api/osaa/operations/'' [] 36 path of
     Some hit \<Rightarrow> if uuid_chars hit then Some hit else None | None \<Rightarrow> None)"

definition show_operation :: "api \<Rightarrow> jsval \<Rightarrow> string \<Rightarrow> (int \<times> jsval) aprog" where
  "show_operation a req operationId =
     pbind (call (a_env a) ''authenticate'' [req]) (\<lambda>_.
     pbind (call (a_env a) ''store.get'' [JStr operationId]) (\<lambda>row.
     if \<not> truthy row then pret (404, JObj [(''error'', JStr ''operation not found'')])
     else pbind (plift (publicOperation row)) (\<lambda>shown.
          pbind (call (a_env a) ''store.steps'' [JStr operationId]) (\<lambda>steps.
          pbind (call (a_env a) ''store.approvals'' [JStr operationId]) (\<lambda>approvals.
          pret (200, JObj (obj_entries shown @ [(''steps'', steps), (''approvals'', approvals)])))))))"

definition handle :: "api \<Rightarrow> jsval \<Rightarrow> string \<Rightarrow> (int \<times> jsval) option aprog" where
  \<comment> \<open>\<open>Some (status, body)\<close> is the response handed to \<open>json\<close>, \<open>None\<close> is \<open>return false\<close>\<close>
  "handle a req pathname =
     (let m = fld req ''method''; read = call (a_env a) ''bodyReader'' [req] in
      if pathname = ''/api/osaa/operations/plan'' \<and> m = JStr ''POST''
      then pbind read (\<lambda>body. pbind (plan a req body) (\<lambda>v. pret (Some (200, v))))
      else if pathname = ''/api/osaa/operations'' \<and> m = JStr ''POST''
      then pbind read (\<lambda>body. pbind (accept a req body) (\<lambda>v. pret (Some (202, v))))
      else if pathname = ''/api/osaa/operations'' \<and> m = JStr ''GET''
      then pbind (call (a_env a) ''authenticate'' [req]) (\<lambda>_.
           pbind (call (a_env a) ''store.list'' []) (\<lambda>rows.
           pbind (plift (rbind (array_of rows) (map_res publicOperation))) (\<lambda>shown.
           pret (Some (200, JObj [(''operations'', JArr shown)])))))
      else case route_plan pathname of
             Some planId \<Rightarrow> if m = JStr ''GET'' then pbind (inspectPlan a req planId) (\<lambda>v. pret (Some (200, v))) else pret None
           | None \<Rightarrow>
      (case route_approval pathname of
             Some operationId \<Rightarrow>
               if m = JStr ''POST'' then pbind read (\<lambda>body. pbind (approve a req operationId body) (\<lambda>v. pret (Some (200, v))))
               else pret None
           | None \<Rightarrow>
      (case route_operation pathname of
             Some operationId \<Rightarrow>
               if m = JStr ''GET'' then pbind (show_operation a req operationId) (\<lambda>r. pret (Some r)) else pret None
           | None \<Rightarrow> pret None)))"

section \<open>The REST stores\<close>

definition rest_request :: "environment \<Rightarrow> string \<Rightarrow> (string \<times> jsval) list \<Rightarrow> jsval aprog" where
  "rest_request env resource options =
     call env ''restRequest'' [JStr resource, JObj (upsert ''profile'' (JStr ''console'') options)]"

definition eq_filter :: "string \<Rightarrow> jsval \<Rightarrow> string" where
  "eq_filter column v = column @ ''=eq.'' @ encode_uri (to_str v)"

definition get_by :: "environment \<Rightarrow> string \<Rightarrow> string \<Rightarrow> jsval \<Rightarrow> jsval aprog" where
  "get_by env table column v =
     pbind (rest_request env table [(''query'', JStr (''select=*&'' @ eq_filter column v @ ''&limit=1''))]) (\<lambda>rows.
     pret (first_row rows))"

definition insertPlan :: "environment \<Rightarrow> jsval \<Rightarrow> jsval aprog" where
  "insertPlan env row =
     pbind (rest_request env ''module_operation_plan'' [(''method'', JStr ''POST''), (''query'', JStr ''select=*''),
        (''body'', JArr [row]), (''prefer'', JStr ''return=representation'')]) (\<lambda>rows.
     pbind (pguard (http_error 503 ''durable plan was not persisted'') (truthy (first_row rows))) (\<lambda>_.
     pret (first_row rows)))"

definition getPlan :: "environment \<Rightarrow> jsval \<Rightarrow> jsval aprog" where
  "getPlan env planId = pbind (get_by env ''module_operation_plan'' ''plan_id'' planId) (\<lambda>row. pret (or_null row))"

definition now_iso :: "environment \<Rightarrow> string aprog" where
  \<comment> \<open>\<open>new Date().toISOString()\<close>\<close>
  "now_iso env = pbind (call env ''Date.now'' []) (\<lambda>t. plift (to_iso_string (to_num t)))"

definition consumePlan :: "environment \<Rightarrow> jsval \<Rightarrow> jsval \<Rightarrow> bool aprog" where
  "consumePlan env planId operationId =
     pbind (now_iso env) (\<lambda>now.
     pbind (rest_request env ''module_operation_plan'' [(''method'', JStr ''PATCH''),
        (''query'', JStr (eq_filter ''plan_id'' planId @ ''&consumed_operation_id=is.null&select=*'')),
        (''body'', JObj [(''consumed_operation_id'', operationId), (''consumed_at'', JStr now)]),
        (''prefer'', JStr ''return=representation'')]) (\<lambda>rows.
     if truthy (first_row rows) then pret True
     else pbind (getPlan env planId) (\<lambda>current.
          pret (str_or_empty (fld current ''consumed_operation_id'') = to_str operationId))))"

definition insert_row :: "environment \<Rightarrow> jsval \<Rightarrow> jsval aprog" where
  "insert_row env row =
     pbind (rest_request env ''module_operation'' [(''method'', JStr ''POST''), (''query'', JStr ''select=*''),
        (''body'', JArr [row]), (''prefer'', JStr ''return=representation,resolution=ignore-duplicates'')]) (\<lambda>rows.
     if truthy (first_row rows) then pret (first_row rows)
     else pbind (get_by env ''module_operation'' ''idempotency_key'' (fld row ''idempotency_key'')) (\<lambda>existing.
          pbind (pguard (http_error 503 ''durable operation was not persisted'') (truthy existing)) (\<lambda>_.
          pbind (pguard (http_error 409 ''idempotency key is already bound to a different durable operation'')
                   (strict_eq (fld existing ''actor_id'') (fld row ''actor_id'')
                    \<and> strict_eq (fld existing ''action'') (fld row ''action'')
                    \<and> strict_eq (fld existing ''target_fingerprint'') (fld row ''target_fingerprint''))) (\<lambda>_.
          pret existing))))"

definition get_operation :: "environment \<Rightarrow> jsval \<Rightarrow> jsval aprog" where
  "get_operation env operationId =
     pbind (get_by env ''module_operation'' ''operation_id'' operationId) (\<lambda>row. pret (or_null row))"

definition list_operations :: "environment \<Rightarrow> jsval aprog" where
  "list_operations env =
     rest_request env ''module_operation'' [(''query'', JStr ''select=*&order=created_at.desc&limit=100'')]"

definition list_steps :: "environment \<Rightarrow> jsval \<Rightarrow> jsval aprog" where
  "list_steps env operationId = rest_request env ''module_operation_step''
     [(''query'', JStr (''select=*&'' @ eq_filter ''operation_id'' operationId @ ''&order=sequence.asc&limit=500''))]"

definition list_approvals :: "environment \<Rightarrow> jsval \<Rightarrow> jsval aprog" where
  "list_approvals env operationId = rest_request env ''module_operation_approval''
     [(''query'', JStr (''select=approver_id,assurance,approval_digest,auth_session_id,authz_revision,approved_at,revoked_at&''
        @ eq_filter ''operation_id'' operationId @ ''&order=approved_at.asc''))]"

definition record_approval :: "environment \<Rightarrow> jsval \<Rightarrow> jsval \<Rightarrow> unit aprog" where
  "record_approval env operationId item =
     pbind (rest_request env ''module_operation_approval'' [(''method'', JStr ''POST''),
        (''body'', JArr [JObj [(''operation_id'', operationId), (''approver_id'', fld item ''approverId''),
           (''assurance'', fld item ''assurance''), (''approval_digest'', fld item ''approvalDigest''),
           (''auth_session_id'', fld item ''authSessionId''), (''authz_revision'', fld item ''authzRevision'')]]),
        (''prefer'', JStr ''return=minimal,resolution=merge-duplicates'')]) (\<lambda>_. pret ())"

definition queue_operation :: "environment \<Rightarrow> jsval \<Rightarrow> jsval aprog" where
  "queue_operation env operationId =
     pbind (now_iso env) (\<lambda>now.
     pbind (rest_request env ''module_operation'' [(''method'', JStr ''PATCH''),
        (''query'', JStr (eq_filter ''operation_id'' operationId @ ''&phase=eq.AwaitingApproval&select=*'')),
        (''body'', JObj [(''phase'', JStr ''Queued''), (''execution_state'', JStr ''accepted''), (''next_attempt_at'', JStr now)]),
        (''prefer'', JStr ''return=representation'')]) (\<lambda>rows.
     pret (or_null (first_row rows))))"

section \<open>The worker's store\<close>

definition PHASE_TO_DB :: "(string \<times> string \<times> string) list" where
  "PHASE_TO_DB = [
     (''claimed'', ''Claimed'', ''claimed''), (''preflighting'', ''Preflighting'', ''preflighting''),
     (''authorization_expired'', ''AuthorizationExpired'', ''authorization_expired''),
     (''preflight_blocked'', ''PreflightBlocked'', ''preflight_blocked''), (''executing'', ''Running'', ''executing''),
     (''ambiguous'', ''Ambiguous'', ''ambiguous''), (''reconciling'', ''Reconciling'', ''reconciling''),
     (''verifying'', ''Verifying'', ''complete''), (''succeeded'', ''Succeeded'', ''complete''),
     (''failed'', ''Failed'', ''failed''), (''verification_failed'', ''VerificationFailed'', ''complete''),
     (''inconclusive'', ''Inconclusive'', ''complete''), (''timed_out'', ''TimedOut'', ''timed_out''),
     (''rolling_back'', ''RollingBack'', ''rolling_back''), (''rolled_back'', ''RolledBack'', ''rolled_back''),
     (''cancelled'', ''Cancelled'', ''cancelled'')]"

definition upper_letter :: "char \<Rightarrow> bool" where
  "upper_letter c \<longleftrightarrow> 65 \<le> (of_char c :: nat) \<and> (of_char c :: nat) \<le> 90"

definition lower_letter :: "char \<Rightarrow> bool" where
  "lower_letter c \<longleftrightarrow> 97 \<le> (of_char c :: nat) \<and> (of_char c :: nat) \<le> 122"

fun split_camel :: "string \<Rightarrow> string" where
  \<comment> \<open>\<open>s.replace(/([a-z])([A-Z])/g, '$1_$2')\<close>\<close>
  "split_camel (x # y # s) =
     (if lower_letter x \<and> upper_letter y then x # CHR ''_'' # y # split_camel s else x # split_camel (y # s))"
| "split_camel s = s"

definition worker_phase :: "jsval \<Rightarrow> string" where
  "worker_phase v = (if v = JStr ''Queued'' then ''accepted''
     else if v = JStr ''AwaitingApproval'' then ''awaiting_approval''
     else to_lower (split_camel (str_or_empty v)))"

definition workerOperation :: "jsval \<Rightarrow> jsval + jsval" where
  "workerOperation row =
     rbind (get_prop row ''precondition'') (\<lambda>precondition.
     let target = js_or (fld precondition ''target'') (JObj [(''uid'', fld row ''target_uid''),
           (''generation'', fld row ''target_generation''), (''desiredRevision'', fld row ''desired_revision'')]) in
     rbind (operationConfirmation (JObj [(''action'', fld row ''action''), (''target'', target)])
              (js_or (fld precondition ''bindingDigest'') (JStr []))) (\<lambda>confirmation.
       Inr (JObj [
         (''operationId'', fld row ''operation_id''), (''phase'', JStr (worker_phase (fld row ''phase''))),
         (''actorId'', fld row ''actor_id''), (''authSessionId'', fld row ''auth_session_id''),
         (''authzRevision'', fld row ''authz_revision''),
         (''action'', fld row ''action''), (''descriptorDigest'', fld row ''descriptor_digest''),
         (''toolId'', fld row ''tool_id''), (''verifierId'', fld row ''verifier_id''),
         (''ownerRoute'', fld precondition ''ownerRoute''), (''riskClass'', fld row ''requested_risk_class''),
         (''requiredAssurance'', fld row ''required_assurance''),
         (''requiredPermission'', fld precondition ''requiredPermission''),
         (''idempotencyKey'', fld row ''idempotency_key''),
         (''confirmation'', JStr confirmation),
         (''bindingDigest'', or_null (fld precondition ''bindingDigest'')),
         (''dialogueStateDigest'', or_null (fld precondition ''dialogueStateDigest'')),
         (''deadlineAt'', fld row ''deadline_at''), (''target'', target), (''reason'', fld row ''reason'')])))"

record claim_identity =
  ci_env :: environment
  ci_worker :: jsval
  ci_epoch :: jsval

definition claim_rows :: "claim_identity \<Rightarrow> jsval \<Rightarrow> jsval list aprog" where
  "claim_rows ci n =
     pbind (rest_request (ci_env ci) ''rpc/claim_module_operation'' [(''method'', JStr ''POST''),
        (''body'', JObj [(''p_worker'', ci_worker ci), (''p_claim_epoch'', ci_epoch ci), (''p_limit'', n)])]) (\<lambda>rows.
     plift (rbind (array_of (js_or rows (JArr []))) (map_res workerOperation)))"

definition append_step_row :: "claim_identity \<Rightarrow> jsval \<Rightarrow> jsval \<Rightarrow> unit aprog" where
  "append_step_row ci operationId item =
     pbind (rest_request (ci_env ci) ''module_operation_step''
        [(''query'', JStr (''select=sequence&'' @ eq_filter ''operation_id'' operationId @ ''&order=sequence.desc&limit=1''))]) (\<lambda>existing.
     let sequence = num_add (to_num (js_or (fld (first_row existing) ''sequence'') (JInt 0))) (Fin 1) in
     pbind (rest_request (ci_env ci) ''module_operation_step'' [(''method'', JStr ''POST''),
        (''body'', JArr [JObj [(''operation_id'', operationId), (''sequence'', JNum sequence), (''attempt'', JInt 0),
           (''step_type'', fld item ''type''), (''status'', fld item ''status''),
           (''evidence'', js_or (fld item ''evidence'') (JObj []))]]),
        (''prefer'', JStr ''return=minimal'')]) (\<lambda>_. pret ()))"

definition heartbeat_row :: "claim_identity \<Rightarrow> jsval \<Rightarrow> bool aprog" where
  "heartbeat_row ci operationId =
     pbind (rest_request (ci_env ci) ''rpc/heartbeat_module_operation'' [(''method'', JStr ''POST''),
        (''body'', JObj [(''p_operation_id'', operationId), (''p_worker'', ci_worker ci), (''p_claim_epoch'', ci_epoch ci)])]) (\<lambda>kept.
     pret (kept = JBool True))"

definition fenced_query :: "claim_identity \<Rightarrow> jsval \<Rightarrow> string" where
  \<comment> \<open>the row filter that fences every write of a worker: operation, claim owner and claim epoch\<close>
  "fenced_query ci operationId = eq_filter ''operation_id'' operationId @ ''&'' @ eq_filter ''claim_owner'' (ci_worker ci)
     @ ''&claim_epoch=eq.'' @ to_str (ci_epoch ci) @ ''&select=operation_id''"

definition fenced_patch :: "claim_identity \<Rightarrow> jsval \<Rightarrow> (string \<times> jsval) list \<Rightarrow> unit aprog" where
  "fenced_patch ci operationId body =
     pbind (rest_request (ci_env ci) ''module_operation'' [(''method'', JStr ''PATCH''),
        (''query'', JStr (fenced_query ci operationId)), (''body'', JObj body),
        (''prefer'', JStr ''return=representation'')]) (\<lambda>rows.
     pguard lease_lost_error (truthy (first_row rows)))"

definition recordDownstreamIntent :: "claim_identity \<Rightarrow> jsval \<Rightarrow> jsval \<Rightarrow> unit aprog" where
  "recordDownstreamIntent ci operationId downstreamKey =
     pbind (now_iso (ci_env ci)) (\<lambda>now.
     fenced_patch ci operationId [(''downstream_idempotency_key'', downstreamKey), (''updated_at'', JStr now)])"

definition verification_state_of :: "string \<Rightarrow> string option" where
  "verification_state_of ph =
     (if ph = ''verifying'' then Some ''verifying'' else if ph = ''succeeded'' then Some ''succeeded''
      else if ph = ''verification_failed'' then Some ''failed'' else if ph = ''inconclusive'' then Some ''inconclusive''
      else None)"

definition setPhase :: "claim_identity \<Rightarrow> jsval \<Rightarrow> string \<Rightarrow> unit aprog" where
  \<comment> \<open>an inherited table member is truthy and has no elements: its columns are \<open>undefined\<close>\<close>
  "setPhase ci operationId ph =
     (case table_get PHASE_TO_DB ph of
        Absent \<Rightarrow> pthrow (js_error (''unmapped operation phase '' @ ph) [])
      | hit \<Rightarrow> pbind (now_iso (ci_env ci)) (\<lambda>now.
          fenced_patch ci operationId
            ([(''phase'', case hit of Own (db, _) \<Rightarrow> JStr db | _ \<Rightarrow> JUndef),
              (''execution_state'', case hit of Own (_, st) \<Rightarrow> JStr st | _ \<Rightarrow> JUndef), (''updated_at'', JStr now)]
             @ (case verification_state_of ph of Some st \<Rightarrow> [(''verification_state'', JStr st)] | None \<Rightarrow> []))))"

definition worker_approvals :: "claim_identity \<Rightarrow> jsval \<Rightarrow> jsval aprog" where
  "worker_approvals ci operationId =
     pbind (rest_request (ci_env ci) ''module_operation_approval''
        [(''query'', JStr (''select=approver_id,assurance,auth_session_id,authz_revision,revoked_at&'' @ eq_filter ''operation_id'' operationId))]) (\<lambda>rows.
     plift (rbind (array_of (js_or rows (JArr []))) (\<lambda>items.
       rbind (map_res (\<lambda>row. rbind (get_prop row ''approver_id'') (\<lambda>approver. Inr (JObj [
         (''approverId'', approver), (''assurance'', fld row ''assurance''), (''authSessionId'', fld row ''auth_session_id''),
         (''authzRevision'', fld row ''authz_revision''), (''revokedAt'', fld row ''revoked_at'')]))) items) (\<lambda>shown.
       Inr (JArr shown)))))"

section \<open>Phases survive the database\<close>

text \<open>Every phase the worker writes reads back from the database as the same phase, except executing:
  it is stored as Running and reads back as running, which is no phase of the machine, so a row is
  usable only because the claim function turns Running into Ambiguous first.\<close>

theorem stored_phases_read_back:
  "list_all (\<lambda>(ph, db, st). worker_phase (JStr db) = (if ph = ''executing'' then ''running'' else ph)) PHASE_TO_DB
   \<and> map_of PHASE_TRANSITIONS (worker_phase (JStr ''Running'')) = None
   \<and> worker_phase (JStr ''Running'') \<notin> set TERMINAL
   \<and> worker_phase (JStr ''Ambiguous'') = ''ambiguous''"
  by code_simp

section \<open>What acceptance inserts\<close>

definition before_insert :: "history \<Rightarrow> fx \<Rightarrow> bool" where
  \<comment> \<open>nothing inserted yet, and the log extends \<open>h\<close>\<close>
  "before_insert h s \<longleftrightarrow> calls ''store.insert'' (fx_log s) = [] \<and> (\<exists>k. fx_log s = h @ k)"

lemma keeps_call [inv_intros]:
  "name \<noteq> ''store.insert'' \<Longrightarrow> pkeeps (before_insert h) (call env name args)"
  by (auto simp: pkeeps_def before_insert_def call_def Let_def)

lemma keeps_api_now [inv_intros]: "pkeeps (before_insert h) (api_now a)"
  unfolding api_now_def by (intro inv_intros) simp

lemma keeps_authenticate [inv_intros]: "pkeeps (before_insert h) (authenticate a req)"
  unfolding authenticate_def by (intro inv_intros) simp

lemma keeps_planned_source [inv_intros]: "pkeeps (before_insert h) (planned_source a auth actor body actorId)"
  unfolding planned_source_def load_plan_def replan_def by (intro inv_intros) simp_all

lemma keeps_resolve_target [inv_intros]: "pkeeps (before_insert h) (resolve_target a action target auth)"
  unfolding resolve_target_def by (intro inv_intros) simp

lemma keeps_recent_assurance [inv_intros]: "pkeeps (before_insert h) (recent_assurance a actor bound)"
  unfolding recent_assurance_def Let_def by (intro inv_intros)

lemma keeps_dialogue_binding [inv_intros]: "pkeeps (before_insert h) (dialogue_binding a req body actorId bound)"
  unfolding dialogue_binding_def Let_def by (intro inv_intros) simp

definition inserts :: "(history \<Rightarrow> jsval \<Rightarrow> bool) \<Rightarrow> fx \<Rightarrow> bool" where
  "inserts P s \<longleftrightarrow> calls ''store.insert'' (fx_log s) = []
     \<or> (\<exists>row r. calls ''store.insert'' (fx_log s) = [([row], r)] \<and> P (fx_log s) row)"

lemma before_insert_inserts: "before_insert h s \<Longrightarrow> inserts P s"
  by (simp add: before_insert_def inserts_def)

lemma wp_before:
  assumes "pkeeps (before_insert h) m" and "before_insert h s" and "wp m R (\<lambda>_ _. True) s"
    and "\<And>x t. before_insert h t \<Longrightarrow> R x t \<Longrightarrow> wp (f x) (\<lambda>_. inserts P) (\<lambda>_. inserts P) t"
  shows "wp (pbind m f) (\<lambda>_. inserts P) (\<lambda>_. inserts P) s"
proof (rule wp_pbindI)
  show "wp m (\<lambda>x t. before_insert h t \<and> R x t) (\<lambda>_. inserts P) s"
    by (rule wp_mono [OF wp_conj [OF pkeeps_wp [OF assms(1,2)] assms(3)]]) (auto intro: before_insert_inserts)
qed (use assms(4) in blast)

lemmas wp_before_any = wp_before [OF _ _ wp_true]

text \<open>What the checks on the way establish.\<close>

lemma wp_authenticate:
  "wp (authenticate a req) (\<lambda>x t.
      (Call ''authenticate'' [req], Inr (fst x)) \<in> set (fx_log t) \<and> snd x = js_or (fld (fst x) ''actor'') (fst x)) (\<lambda>_ _. True) s"
  unfolding authenticate_def
  by (auto simp: wp_simps Let_def get_prop_def split: sum.splits)

definition recently_assured :: "api \<Rightarrow> history \<Rightarrow> jsval \<Rightarrow> bool" where
  "recently_assured a h actor \<longleftrightarrow> fld actor ''assurance'' = JStr ''aal2''
     \<and> (\<exists>t. (Call ''now'' [], Inr t) \<in> set h \<and> recently_reauthenticated (a_dp a) (to_num t) actor)"

definition assured_for :: "api \<Rightarrow> history \<Rightarrow> jsval \<Rightarrow> jsval \<Rightarrow> bool" where
  "assured_for a h actor bound \<longleftrightarrow>
     (fld bound ''riskClass'' = JStr ''R1'' \<and> fld bound ''requiredAssurance'' = JStr ''aal2'' \<longrightarrow> recently_assured a h actor)"

lemma wp_recent_assurance:
  "wp (recent_assurance a actor bound) (\<lambda>_ t. assured_for a (fx_log t) actor bound) (\<lambda>_ _. True) s"
  unfolding recent_assurance_def api_now_def Let_def
  by (auto simp: wp_simps Let_def assured_for_def recently_assured_def split: sum.splits)

definition dialogue_bound :: "history \<Rightarrow> jsval \<Rightarrow> jsval \<Rightarrow> string \<Rightarrow> jsval \<Rightarrow> bool" where
  \<comment> \<open>a cluster creation rests on a dialogue state of this actor with the digest the client named, ready for this target\<close>
  "dialogue_bound h req body actorId bound \<longleftrightarrow>
     (fld bound ''action'' = JStr ''create-postgres-cluster'' \<longrightarrow>
      (\<exists>state conversationId. (Call ''resolveDialogueState'' [JStr conversationId, JStr actorId, req], Inr state) \<in> set h
         \<and> conversationId = str_or_empty (fld body ''conversationId'')
         \<and> js_or (fld state ''stateDigest'') (fld state ''state_digest'') = JStr (str_or_empty (fld body ''dialogueStateDigest''))
         \<and> fld state ''phase'' = JStr ''plan_ready'' \<and> fld state ''intent'' = JStr ''create.plan''))"

lemma wp_dialogue_binding:
  "wp (dialogue_binding a req body actorId bound) (\<lambda>_ t. dialogue_bound (fx_log t) req body actorId bound) (\<lambda>_ _. True) s"
  unfolding dialogue_binding_def Let_def
  by (auto simp: wp_simps Let_def dialogue_bound_def split: sum.splits)


lemma assured_for_mono: "assured_for a h actor bound \<Longrightarrow> assured_for a (h @ k) actor bound"
  unfolding assured_for_def recently_assured_def set_append by blast

lemma dialogue_bound_mono: "dialogue_bound h req body actorId bound \<Longrightarrow> dialogue_bound (h @ k) req body actorId bound"
  unfolding dialogue_bound_def set_append by blast

definition row_basis :: "api \<Rightarrow> jsval \<Rightarrow> jsval \<Rightarrow> history \<Rightarrow> jsval \<Rightarrow> jsval \<Rightarrow> jsval \<Rightarrow> bool" where
  \<comment> \<open>everything acceptance has established when it builds the row\<close>
  "row_basis a req body h actor bound key \<longleftrightarrow>
     (\<exists>auth. (Call ''authenticate'' [req], Inr auth) \<in> set h \<and> actor = js_or (fld auth ''actor'') auth)
     \<and> is_uuid (actor_id actor)
     \<and> (\<exists>request. bindOperation (a_sha a) DESCRIPTORS request = Inr bound)
     \<and> assured_for a h actor bound \<and> is_safe_key (to_str key)
     \<and> dialogue_bound h req body (actor_id actor) bound"

definition built_row :: "api \<Rightarrow> jsval \<Rightarrow> jsval \<Rightarrow> history \<Rightarrow> jsval \<Rightarrow> bool" where
  "built_row a req body h row \<longleftrightarrow> (\<exists>actor bound key stored state uuid deadline now deadlineMs.
     row_basis a req body h actor bound key
     \<and> (Call ''now'' [], Inr now) \<in> set h
     \<and> to_iso_string (deadline_of (to_num now) deadlineMs) = Inr deadline
     \<and> operation_row (a_sha a) actor body bound stored state key uuid deadline = Inr row)"

lemma row_basis_mono:
  assumes "row_basis a req body h actor bound key"
  shows "row_basis a req body (h @ k) actor bound key"
  using assms assured_for_mono dialogue_bound_mono unfolding row_basis_def set_append by blast

lemma built_row_mono:
  assumes "built_row a req body h row"
  shows "built_row a req body (h @ k) row"
  using assms row_basis_mono unfolding built_row_def set_append by blast

text \<open>The insertion itself and what follows it.\<close>

lemma wp_insert_operation:
  assumes "row_basis a req body (fx_log s) actor bound key" and "calls ''store.insert'' (fx_log s) = []"
  shows "wp (insert_operation a actor body bound stored state key)
    (\<lambda>_. inserts (built_row a req body)) (\<lambda>_. inserts (built_row a req body)) s"
proof -
  have b: "before_insert (fx_log s) s"
    using assms(2) by (simp add: before_insert_def)
  have clock: "wp (api_now a) (\<lambda>n t. \<exists>now. (Call ''now'' [], Inr now) \<in> set (fx_log t) \<and> n = to_num now) (\<lambda>_ _. True) s"
    by (auto simp: api_now_def wp_simps Let_def split: sum.splits)
  have fin: "wp (pbind (plift (to_iso_string (deadline_of (to_num now) deadlineMs))) (\<lambda>deadline.
      pbind (plift (operation_row (a_sha a) actor body bound stored state key uuid deadline)) (\<lambda>row.
      call (a_env a) ''store.insert'' [row]))) (\<lambda>_. inserts (built_row a req body)) (\<lambda>_. inserts (built_row a req body)) t"
    if "before_insert (fx_log s) t" "(Call ''now'' [], Inr now) \<in> set (fx_log t)" for t now deadlineMs uuid
  proof -
    have none: "inserts (built_row a req body) t"
      by (rule before_insert_inserts [OF that(1)])
    have ins: "inserts (built_row a req body) (t\<lparr>fx_log := fx_log t @ [(Call ''store.insert'' [row], r)]\<rparr>)"
      if "to_iso_string (deadline_of (to_num now) deadlineMs) = Inr deadline"
        "operation_row (a_sha a) actor body bound stored state key uuid deadline = Inr row" for deadline row r
    proof -
      obtain k where k: "fx_log t = fx_log s @ k" "calls ''store.insert'' (fx_log t) = []"
        using \<open>before_insert (fx_log s) t\<close> by (auto simp: before_insert_def)
      have "row_basis a req body (fx_log t) actor bound key"
        using row_basis_mono [OF assms(1), of k] k(1) by simp
      then have "built_row a req body (fx_log t) row"
        unfolding built_row_def
        using that \<open>(Call ''now'' [], Inr now) \<in> set (fx_log t)\<close> by blast
      from built_row_mono [OF this] show ?thesis
        using k(2) by (simp add: inserts_def)
    qed
    show ?thesis
      unfolding wp_pbind wp_plift by (auto split: sum.splits intro!: none ins wp_callI)
  qed
  show ?thesis
    unfolding insert_operation_def
  proof (rule wp_before [OF keeps_api_now b clock])
    fix n t assume t: "before_insert (fx_log s) t" "\<exists>now. (Call ''now'' [], Inr now) \<in> set (fx_log t) \<and> n = to_num now"
    then obtain now where now: "(Call ''now'' [], Inr now) \<in> set (fx_log t)" "n = to_num now" by blast
    let ?b = "before_insert (fx_log t)"
    have bt: "?b t" using t(1) by (simp add: before_insert_def)
    have up: "before_insert (fx_log s) u \<and> (Call ''now'' [], Inr now) \<in> set (fx_log u)" if "?b u" for u
      using that t(1) now(1) by (auto simp: before_insert_def)
    show "wp (pbind (plift (get_prop body ''deadlineMs'')) (\<lambda>deadlineMs. pbind (call (a_env a) ''randomUUID'' []) (\<lambda>uuid.
        pbind (plift (to_iso_string (deadline_of n deadlineMs))) (\<lambda>deadline.
        pbind (plift (operation_row (a_sha a) actor body bound stored state key uuid deadline)) (\<lambda>row.
        call (a_env a) ''store.insert'' [row]))))) (\<lambda>_. inserts (built_row a req body)) (\<lambda>_. inserts (built_row a req body)) t"
      unfolding now(2)
      by (rule wp_before_any [OF pkeeps_plift bt], rule wp_before_any [OF keeps_call], simp, assumption, rule fin)
        (use up in blast)+
  qed
qed

lemma keeps_inserts_call:
  "name \<noteq> ''store.insert'' \<Longrightarrow> pkeeps (inserts (built_row a req body)) (call env name args)"
  by (auto simp: pkeeps_def inserts_def call_def Let_def intro: built_row_mono)

lemma keeps_consume_plan: "pkeeps (inserts (built_row a req body)) (consume_plan a' stored row)"
  unfolding consume_plan_def by (intro inv_intros keeps_inserts_call) simp_all


abbreviation sound_inserts where
  "sound_inserts a req body m s \<equiv> wp m (\<lambda>_. inserts (built_row a req body)) (\<lambda>_. inserts (built_row a req body)) s"

lemma wp_persist:
  assumes "row_basis a req body (fx_log t) actor bound key" and "calls ''store.insert'' (fx_log t) = []"
  shows "sound_inserts a req body (persist a actor body bound stored key state) t"
  unfolding persist_def
  by (rule wp_pbindI [OF wp_insert_operation [OF assms]], rule wp_pbindI [OF pkeeps_wp [OF keeps_consume_plan]], assumption)
    (rule pkeeps_wp [OF pkeeps_plift])

lemma wp_admit:
  assumes basis: "(Call ''authenticate'' [req], Inr auth) \<in> set h" "actor = js_or (fld auth ''actor'') auth"
      "is_uuid (actor_id actor)" "bindOperation (a_sha a) DESCRIPTORS request = Inr bound" "before_insert h s"
  shows "sound_inserts a req body (admit a req body actor stored bound) s"
  unfolding admit_def
proof (rule wp_before [OF keeps_recent_assurance basis(5) wp_recent_assurance])
  fix t assume t: "before_insert h t" "assured_for a (fx_log t) actor bound"
  have bt: "before_insert (fx_log t) t" using t(1) by (simp add: before_insert_def)
  show "sound_inserts a req body (pbind (plift (operation_key req body stored)) (\<lambda>key.
     pbind (pguard (http_error 400 ''valid idempotency key required'') (is_safe_key (to_str key))) (\<lambda>_.
     pbind (dialogue_binding a req body (actor_id actor) bound) (persist a actor body bound stored key)))) t"
  proof (rule wp_before_any [OF pkeeps_plift bt])
    fix key u assume u: "before_insert (fx_log t) u"
    have pg: "wp (pguard (http_error 400 ''valid idempotency key required'') (is_safe_key (to_str key)))
        (\<lambda>_ _. is_safe_key (to_str key)) (\<lambda>_ _. True) u"
      by (simp add: wp_pguard)
    show "sound_inserts a req body (pbind (pguard (http_error 400 ''valid idempotency key required'') (is_safe_key (to_str key))) (\<lambda>_.
        pbind (dialogue_binding a req body (actor_id actor) bound) (persist a actor body bound stored key))) u"
    proof (rule wp_before [OF pkeeps_pguard u pg], rule wp_before [OF keeps_dialogue_binding _ wp_dialogue_binding],
        assumption, rule wp_persist)
      fix v assume v: "before_insert (fx_log t) v" "dialogue_bound (fx_log v) req body (actor_id actor) bound"
        "is_safe_key (to_str key)"
      obtain k k' where k: "fx_log v = fx_log t @ k" "fx_log t = h @ k'"
        using v(1) t(1) by (auto simp: before_insert_def)
      show "row_basis a req body (fx_log v) actor bound key"
        unfolding row_basis_def
        using basis(1-4) v(2,3) assured_for_mono [OF t(2), of k] k by auto
      show "calls ''store.insert'' (fx_log v) = []"
        using v(1) by (simp add: before_insert_def)
    qed
  qed
qed

lemma keeps_chosen_target [inv_intros]: "pkeeps (before_insert h) (chosen_target a auth src)"
  unfolding chosen_target_def by (intro inv_intros)

lemma wp_bind_and_admit:
  assumes basis: "(Call ''authenticate'' [req], Inr auth) \<in> set h" "actor = js_or (fld auth ''actor'') auth"
      "is_uuid (actor_id actor)" "before_insert h s"
  shows "sound_inserts a req body (bind_and_admit a req body auth actor src) s"
  unfolding bind_and_admit_def
proof (rule wp_before_any [OF keeps_chosen_target basis(4)])
  fix target t assume t: "before_insert h t"
  show "sound_inserts a req body (pbind (plift (bindOperation (a_sha a) DESCRIPTORS
      (JObj (upsert ''target'' target (obj_entries (rs_body src)))))) (admit a req body actor (rs_plan src))) t"
    unfolding wp_pbind wp_plift
    using wp_admit [OF basis(1-3) _ t] before_insert_inserts [OF t] by (auto split: sum.splits)
qed

lemma wp_accept: "sound_inserts a req body (accept a req body) \<lparr>fx_log = []\<rparr>"
proof -
  have b0: "before_insert [] \<lparr>fx_log = []\<rparr>"
    by (simp add: before_insert_def)
  show ?thesis
    unfolding accept_def
  proof (rule wp_before_any [OF pkeeps_pguard b0], rule wp_before [OF keeps_authenticate _ wp_authenticate], assumption)
    fix x t assume t: "before_insert [] t"
      "(Call ''authenticate'' [req], Inr (fst x)) \<in> set (fx_log t) \<and> snd x = js_or (fld (fst x) ''actor'') (fst x)"
    obtain auth actor where x: "x = (auth, actor)" by fastforce
    have bt: "before_insert (fx_log t) t" using t(1) by (simp add: before_insert_def)
    have pg: "wp (pguard (http_error 401 ''durable operation requires a stable actor UUID'') (is_uuid (actor_id actor)))
        (\<lambda>_ _. is_uuid (actor_id actor)) (\<lambda>_ _. True) t"
      by (simp add: wp_pguard)
    have "sound_inserts a req body (pbind (pguard (http_error 401 ''durable operation requires a stable actor UUID'') (is_uuid (actor_id actor))) (\<lambda>_.
     pbind (pguard (http_error 503 ''durable target resolver is unavailable'') (has_resolveTarget a)) (\<lambda>_.
     pbind (planned_source a auth actor body (actor_id actor)) (bind_and_admit a req body auth actor)))) t"
      by (rule wp_before [OF pkeeps_pguard bt pg], rule wp_before_any [OF pkeeps_pguard], assumption,
          rule wp_before_any [OF keeps_planned_source], assumption, rule wp_bind_and_admit)
        (use t(2) x in auto)
    then show "sound_inserts a req body (case x of (auth, actor) \<Rightarrow>
        pbind (pguard (http_error 401 ''durable operation requires a stable actor UUID'') (is_uuid (actor_id actor))) (\<lambda>_.
        pbind (pguard (http_error 503 ''durable target resolver is unavailable'') (has_resolveTarget a)) (\<lambda>_.
        pbind (planned_source a auth actor body (actor_id actor)) (bind_and_admit a req body auth actor)))) t"
      by (simp add: x)
  qed
qed

lemma deadline_bounds:
  assumes "deadline_of now deadlineMs = Fin d"
  obtains n where "now = Fin n" and "n + 60000 \<le> d" and "d \<le> n + 3600000"
proof -
  obtain m where m: "num_max (Fin 60000) (num_min (Fin 3600000) (to_num (js_or deadlineMs (JInt 600000)))) = Fin m"
    and "60000 \<le> m" "m \<le> 3600000"
    using assms unfolding deadline_of_def
    by (cases "to_num (js_or deadlineMs (JInt 600000))"; cases now) (auto split: if_splits)
  with assms that show thesis
    unfolding deadline_of_def by (cases now) auto
qed


definition accept_log :: "api \<Rightarrow> jsval \<Rightarrow> jsval \<Rightarrow> history" where
  "accept_log a req body = fx_log (snd (accept a req body \<lparr>fx_log = []\<rparr>))"



section \<open>Stored plans\<close>

lemma wp_load_plan:
  "wp (load_plan a actor body actorId) (\<lambda>stored t. JStr (to_str (fld stored ''actor_id'')) = actorId
      \<and> to_str (fld stored ''auth_session_id'') = session_id actor
      \<and> (\<exists>now. (Call ''now'' [], Inr now) \<in> set (fx_log t)
           \<and> \<not> num_le (a_dp a (to_str (fld stored ''expires_at''))) (to_num now))
      \<and> to_str (fld body ''planDigest'') = to_str (fld stored ''plan_digest'')) (\<lambda>_ _. True) s"
  unfolding load_plan_def api_now_def
  by (auto simp: wp_simps Let_def split: sum.splits)

lemma wp_replan:
  "wp (replan a auth actorId stored body) (\<lambda>target _. \<exists>replanned postcondition d.
      planOperation (a_sha a) DESCRIPTORS (JObj [(''action'', fld stored ''action''), (''target'', target)]) = Inr replanned
      \<and> expectedPostcondition replanned = Inr postcondition
      \<and> plan_binding (a_sha a) actorId replanned (fld stored ''request_payload'') postcondition (fld stored ''expires_at'') = Inr d
      \<and> fld stored ''plan_digest'' = JStr d \<and> fld stored ''descriptor_digest'' = fld replanned ''descriptorDigest'')
    (\<lambda>_ _. True) s"
  unfolding replan_def by (auto simp: wp_simps Let_def split: sum.splits)

lemma load_plan_log:
  assumes "load_plan a actor body actorId s = (Inr stored, t)" and "e \<in> set (fx_log s)"
  shows "e \<in> set (fx_log t)"
  using assms unfolding load_plan_def api_now_def
  by (auto simp: prog_defs call_def Let_def pguard_def split: sum.splits prod.splits if_splits)

text \<open>a request that names a stored plan is built from that plan only if the plan belongs to the
  authenticated actor and session, has not expired at a clock reading, carries the digest the client sent, and the
  target, resolved again and planned again, reproduces the very digest and descriptor that were stored; the
  operation is then bound to that digest, to the action of the plan and to the freshly resolved target.\<close>

theorem stored_plans_are_revalidated_before_use:
  assumes "planned_source a auth actor body actorId s = (Inr src, t)"
    and "str_or_empty (fld body ''planId'') \<noteq> []"
  shows "to_str (fld (rs_plan src) ''actor_id'') = actorId
    \<and> to_str (fld (rs_plan src) ''auth_session_id'') = session_id actor
    \<and> (\<exists>now. (Call ''now'' [], Inr now) \<in> set (fx_log t)
         \<and> \<not> num_le (a_dp a (to_str (fld (rs_plan src) ''expires_at''))) (to_num now))
    \<and> (\<exists>replanned postcondition d.
         planOperation (a_sha a) DESCRIPTORS (JObj [(''action'', fld (rs_plan src) ''action''), (''target'', rs_target src)]) = Inr replanned
         \<and> expectedPostcondition replanned = Inr postcondition
         \<and> plan_binding (a_sha a) actorId replanned (fld (rs_plan src) ''request_payload'') postcondition
              (fld (rs_plan src) ''expires_at'') = Inr d
         \<and> fld (rs_plan src) ''plan_digest'' = JStr d \<and> to_str (fld body ''planDigest'') = d
         \<and> fld (rs_plan src) ''descriptor_digest'' = fld replanned ''descriptorDigest''
         \<and> fld (rs_body src) ''bindingDigest'' = JStr d
         \<and> fld (rs_body src) ''action'' = fld (rs_plan src) ''action'')"
proof -
  obtain stored target u v requested where
    load: "load_plan a actor body (JStr actorId) s = (Inr stored, u)"
    and re: "replan a auth actorId stored body u = (Inr target, v)"
    and src: "src = \<lparr>rs_plan = stored, rs_target = target, rs_body = JObj [
             (''action'', fld stored ''action''), (''target'', requested),
             (''reason'', fld (fld stored ''request_payload'') ''reason''),
             (''confirmation'', fld body ''confirmation''), (''bindingDigest'', fld stored ''plan_digest'')]\<rparr>"
    and t: "t = v"
    using assms unfolding planned_source_def
    by (auto simp: pbind_eq_Inr plift_def pret_def)
  have log: "set (fx_log u) \<subseteq> set (fx_log v)"
    using re unfolding replan_def
    by (auto simp: prog_defs call_def Let_def pguard_def split: sum.splits prod.splits if_splits)
  from wp_Inr [OF wp_load_plan load] wp_Inr [OF wp_replan re] show ?thesis
    using log by (auto simp: src t fld_obj)
qed

text \<open>planning and acceptance agree: take any plan row that planning has stored; as long as resolving its
  target again leads to the same plan and postcondition, revalidation reproduces the stored digest and goes on with
  that target.\<close>

theorem stored_plan_revalidates_while_its_target_is_unchanged:
  assumes "calls ''store.insertPlan'' (fx_log s) = []"
    and "([row], x) \<in> set (calls ''store.insertPlan'' (fx_log (snd (store_plan a actor body planned postcondition s))))"
    and "a_env a (fx_log u) (Call ''resolveTarget'' [fld row ''action'',
           js_or (fld (fld row ''request_payload'') ''target'') (JObj []), auth]) = Inr target"
    and "planOperation (a_sha a) DESCRIPTORS (JObj [(''action'', fld row ''action''), (''target'', target)]) = Inr planned"
    and "expectedPostcondition planned = Inr postcondition"
  shows "fst (replan a auth (to_str (fld row ''actor_id'')) row body' u) = Inr target"
proof -
  have "wp (store_plan a actor body planned postcondition) (\<lambda>_ t. \<forall>row x. ([row], x) \<in> set (calls ''store.insertPlan'' (fx_log t)) \<longrightarrow>
       (\<exists>d. plan_binding (a_sha a) (to_str (fld row ''actor_id'')) planned (fld row ''request_payload'') postcondition (fld row ''expires_at'') = Inr d
         \<and> fld row ''plan_digest'' = JStr d \<and> fld row ''descriptor_digest'' = fld planned ''descriptorDigest''))
     (\<lambda>_ t. \<forall>row x. ([row], x) \<in> set (calls ''store.insertPlan'' (fx_log t)) \<longrightarrow>
       (\<exists>d. plan_binding (a_sha a) (to_str (fld row ''actor_id'')) planned (fld row ''request_payload'') postcondition (fld row ''expires_at'') = Inr d
         \<and> fld row ''plan_digest'' = JStr d \<and> fld row ''descriptor_digest'' = fld planned ''descriptorDigest'')) s"
    using assms(1) unfolding store_plan_def api_now_def
    by (auto simp: wp_simps Let_def fld_obj split: sum.splits)
  from wp_snd [OF this] assms(2) obtain d where
    d: "plan_binding (a_sha a) (to_str (fld row ''actor_id'')) planned (fld row ''request_payload'') postcondition (fld row ''expires_at'') = Inr d"
      "fld row ''plan_digest'' = JStr d" "fld row ''descriptor_digest'' = fld planned ''descriptorDigest''"
    by blast
  show ?thesis
    unfolding replan_def using assms(3-5) d
    by (simp add: pbind_def call_def plift_def pguard_def pret_def Let_def)
qed

section \<open>Approval\<close>

definition approve_log :: "api \<Rightarrow> jsval \<Rightarrow> string \<Rightarrow> jsval \<Rightarrow> history" where
  "approve_log a req operationId body = fx_log (snd (approve a req operationId body \<lparr>fx_log = []\<rparr>))"

definition queue_basis :: "string \<Rightarrow> jsval \<Rightarrow> jsval \<Rightarrow> history \<Rightarrow> bool" where
  "queue_basis operationId req body h \<longleftrightarrow> calls ''store.queue'' h = []
   \<or> (\<exists>auth actor operation item r approvals approvers.
        (Call ''authenticate'' [req], Inr auth) \<in> set h \<and> actor = js_or (fld auth ''actor'') auth
        \<and> (Call ''store.get'' [JStr operationId], Inr operation) \<in> set h
        \<and> fld actor ''assurance'' = JStr ''aal2'' \<and> is_uuid (actor_id actor) \<and> is_uuid (session_id actor)
        \<and> \<not> (js_or (fld operation ''requested_risk_class'') (fld operation ''risk_class'') \<in> set [JStr ''R2'', JStr ''R3'']
             \<and> actor_id actor = str_or_empty (fld operation ''actor_id''))
        \<and> str_or_empty (fld body ''confirmation'') = approval_confirmation operationId operation
        \<and> (Call ''store.approve'' [JStr operationId, item], Inr r) \<in> set h
        \<and> fld item ''approverId'' = JStr (actor_id actor) \<and> fld item ''assurance'' = JStr ''aal2''
        \<and> (Call ''store.approvals'' [JStr operationId], Inr approvals) \<in> set h
        \<and> unrevoked_approvers approvals = Inr approvers
        \<and> required_approvals operation \<le> length approvers)"

lemma queue_basis_none: "calls ''store.queue'' h = [] \<Longrightarrow> queue_basis operationId req body h"
  by (simp add: queue_basis_def)

lemma wp_approve:
  "wp (approve a req operationId body) (\<lambda>_ t. queue_basis operationId req body (fx_log t))
     (\<lambda>_ t. queue_basis operationId req body (fx_log t)) \<lparr>fx_log = []\<rparr>"
  unfolding approve_def authenticate_def
  by (simp add: wp_simps Let_def get_prop_def queue_basis_none split: sum.splits)
    (simp add: queue_basis_def fld_obj)


section \<open>Replayed insertions\<close>

text \<open>The store answers an insertion whose key is already taken with the existing row, and only if that row
  has the same actor, action and target fingerprint as the new one; otherwise the insertion throws.\<close>

theorem replayed_insert_returns_an_equally_bound_row:
  assumes "insert_row env row s = (Inr result, t)"
    and "\<not> truthy (first_row posted)"
    and "env (fx_log s) (Call ''restRequest'' [JStr ''module_operation'', JObj [(''method'', JStr ''POST''),
           (''query'', JStr ''select=*''), (''body'', JArr [row]),
           (''prefer'', JStr ''return=representation,resolution=ignore-duplicates''), (''profile'', JStr ''console'')]]) = Inr posted"
  shows "fld result ''actor_id'' = fld row ''actor_id'' \<and> fld result ''action'' = fld row ''action''
    \<and> fld result ''target_fingerprint'' = fld row ''target_fingerprint''"
proof -
  have eq: "strict_eq x y \<Longrightarrow> x = y" for x y
    unfolding strict_eq_def by (cases "(x, y)" rule: js_eq.cases) (auto simp: num_eq_def)
  show ?thesis
    using assms unfolding insert_row_def rest_request_def
    by (auto simp: pbind_def call_def pguard_def pret_def pthrow_def Let_def get_by_def rest_request_def
        split: if_splits sum.splits prod.splits intro: eq)
qed


section \<open>A concrete API\<close>

definition demo_uuid :: string where
  "demo_uuid = ''11111111-1111-4111-8111-111111111111''"

definition demo_digest :: string where
  "demo_digest = ''sha256:'' @ replicate 64 (CHR ''a'')"

definition demo_target :: jsval where
  "demo_target = JObj [(''kind'', JStr ''Deployment''), (''namespace'', JStr ''opensphere-a''), (''name'', JStr ''web''), (''uid'', JStr ''u'')]"

definition demo_actor :: jsval where
  "demo_actor = JObj [(''sub'', JStr demo_uuid), (''browserSessionId'', JStr demo_uuid)]"

definition demo_plan_row :: jsval where
  "demo_plan_row = JObj [(''plan_id'', JStr ''plan-0001''), (''actor_id'', JStr demo_uuid), (''auth_session_id'', JStr demo_uuid),
     (''action'', JStr ''restart-workload''), (''plan_digest'', JStr demo_digest), (''descriptor_digest'', JStr demo_digest),
     (''request_payload'', JObj [(''target'', demo_target), (''reason'', JStr ''stuck pods'')]), (''expires_at'', JStr ''later'')]"

definition demo_api_env :: environment where
  "demo_api_env h c =
     (if cname c = ''store.getPlan'' then Inr demo_plan_row
      else if cname c = ''resolveTarget'' then Inr demo_target
      else if cname c = ''now'' then Inr (JInt 1)
      else Inr (JStr demo_uuid))"

definition demo_api :: api where
  "demo_api = \<lparr>a_env = demo_api_env, a_dp = (\<lambda>_. Fin 9), a_sha = (\<lambda>_. replicate 64 (CHR ''a'')), a_enabled = True,
     has_resolveTarget = True, has_resolveDialogueState = True, has_insertPlan = True, has_getPlan = True, has_consumePlan = True\<rparr>"

definition demo_plan_body :: jsval where
  "demo_plan_body = JObj [(''planId'', JStr ''plan-0001''), (''planDigest'', JStr demo_digest), (''reason'', JStr ''stuck pods'')]"

theorem stored_plans_are_revalidated_before_use_witness:
  "\<exists>src t. planned_source demo_api JNull demo_actor demo_plan_body demo_uuid \<lparr>fx_log = []\<rparr> = (Inr src, t)
     \<and> to_str (fld (rs_plan src) ''actor_id'') = demo_uuid"
proof -
  have "\<not> isl (fst (planned_source demo_api JNull demo_actor demo_plan_body demo_uuid \<lparr>fx_log = []\<rparr>))"
    by code_simp
  then obtain src t where "planned_source demo_api JNull demo_actor demo_plan_body demo_uuid \<lparr>fx_log = []\<rparr> = (Inr src, t)"
    by (metis prod.collapse sum.collapse(2))
  moreover have "str_or_empty (fld demo_plan_body ''planId'') \<noteq> []"
    by code_simp
  ultimately show ?thesis
    using stored_plans_are_revalidated_before_use by blast
qed

theorem stored_plan_revalidates_while_its_target_is_unchanged_witness:
  "\<exists>row. fst (replan demo_api JNull (to_str (fld row ''actor_id'')) row JNull \<lparr>fx_log = []\<rparr>) = Inr demo_target"
proof -
  let ?request = "JObj [(''action'', JStr ''restart-workload''), (''target'', demo_target)]"
  have "case planOperation (a_sha demo_api) DESCRIPTORS ?request of Inl _ \<Rightarrow> False | Inr p \<Rightarrow>
      (case expectedPostcondition p of Inl _ \<Rightarrow> False | Inr c \<Rightarrow>
      map (\<lambda>(args, _). map (\<lambda>row. fld row ''action'') args)
        (calls ''store.insertPlan'' (fx_log (snd (store_plan demo_api demo_actor demo_plan_body p c \<lparr>fx_log = []\<rparr>))))
      = [[JStr ''restart-workload'']])"
    by code_simp
  then obtain p c row x where *: "planOperation (a_sha demo_api) DESCRIPTORS ?request = Inr p"
    "expectedPostcondition p = Inr c" "fld row ''action'' = JStr ''restart-workload''"
    "([row], x) \<in> set (calls ''store.insertPlan'' (fx_log (snd (store_plan demo_api demo_actor demo_plan_body p c \<lparr>fx_log = []\<rparr>))))"
    by (auto split: sum.splits)
  have "fst (replan demo_api JNull (to_str (fld row ''actor_id'')) row JNull \<lparr>fx_log = []\<rparr>) = Inr demo_target"
    by (rule stored_plan_revalidates_while_its_target_is_unchanged [OF _ *(4) _ _ *(2)])
      (use *(1,3) in \<open>simp_all add: demo_api_def demo_api_env_def\<close>)
  then show ?thesis by blast
qed

definition demo_row :: "string \<Rightarrow> jsval" where
  "demo_row operationId = JObj [(''operation_id'', JStr operationId), (''idempotency_key'', JStr ''key-0001''),
     (''actor_id'', JStr demo_uuid), (''action'', JStr ''restart-workload''), (''target_fingerprint'', JStr demo_digest)]"

theorem replayed_insert_returns_an_equally_bound_row_witness:
  "\<exists>result t. insert_row (\<lambda>h c. Inr (JArr (if h = [] then [] else [demo_row ''first'']))) (demo_row ''second'') \<lparr>fx_log = []\<rparr>
      = (Inr result, t)
    \<and> fld result ''operation_id'' = JStr ''first'' \<and> fld result ''action'' = fld (demo_row ''second'') ''action''"
proof -
  let ?env = "\<lambda>h c. Inr (JArr (if h = [] then [] else [demo_row ''first'']))"
  have run: "fst (insert_row ?env (demo_row ''second'') \<lparr>fx_log = []\<rparr>) = Inr (demo_row ''first'')"
    by code_simp
  then obtain t where t: "insert_row ?env (demo_row ''second'') \<lparr>fx_log = []\<rparr> = (Inr (demo_row ''first''), t)"
    by (metis prod.collapse)
  from replayed_insert_returns_an_equally_bound_row [OF t, of "JArr []"] t show ?thesis
    by (simp add: first_row_def demo_row_def fld_obj)
qed


end
