(* ===== verification/DialogueState.thy ===== *)
theory DialogueState
  imports Effects
begin

text \<open>
  Dialogue state of the assistant: canonical JSON, digests and transitions
  (\<open>src/apps/osdst/dialogue-state.js\<close>), the transition a tool result stands for
  (\<open>dialogue-transition.js\<close>) and the rollout modes (\<open>dialogue-rollout.js\<close>).

  Objects are property lists in enumeration order.  \<open>Object.fromEntries\<close> on sorted keys
  enumerates array-index keys first, which \<open>enum_order\<close> accounts for.
\<close>

section \<open>Canonical values and digests\<close>

definition STATE_SCHEMA :: string where
  "STATE_SCHEMA = ''osaa.dialogue-state/v1''"

definition DELTA_SCHEMA :: string where
  "DELTA_SCHEMA = ''osaa.dialogue-state-delta/v1''"

fun canonical :: "jsval \<Rightarrow> jsval" where
  "canonical (JArr xs) = JArr (map canonical xs)"
| "canonical (JObj kvs) = JObj (enum_order (sort_keys (map (\<lambda>kv. (fst kv, canonical (snd kv))) kvs)))"
| "canonical v = v"

definition dialogue_digest :: "(string \<Rightarrow> string) \<Rightarrow> jsval \<Rightarrow> jsval + string" where
  \<comment> \<open>hashing the text of \<open>undefined\<close> throws\<close>
  "dialogue_digest sha v = (case json (canonical v) of Some t \<Rightarrow> Inr (''sha256:'' @ sha t) | None \<Rightarrow> Inl type_error)"

definition boundedString :: "jsval \<Rightarrow> nat \<Rightarrow> bool \<Rightarrow> jsval + jsval" where
  "boundedString v maximum optional =
     (let result = trim (str_or_empty v) in
      if result = [] \<and> optional then Inr JNull
      else if result = [] \<or> maximum < length result
      then Inl (js_error (''Dialogue State string must contain 1-'' @ nat_str maximum @ '' characters'') [])
      else Inr (JStr result))"

definition jsonObject :: "jsval \<Rightarrow> string \<Rightarrow> jsval + jsval" where
  "jsonObject v name =
     (if nullish v then Inr JNull
      else if \<not> is_plain_object v then Inl (js_error (name @ '' must be an object'') [])
      else Inr (canonical v))"

definition jsonArray :: "jsval \<Rightarrow> string \<Rightarrow> nat \<Rightarrow> jsval + jsval list" where
  "jsonArray v name maximum =
     (if nullish v then Inr []
      else case v of
        JArr xs \<Rightarrow> if maximum < length xs
          then Inl (js_error (name @ '' must be an array with at most '' @ nat_str maximum @ '' entries'') [])
          else Inr (map canonical xs)
      | _ \<Rightarrow> Inl (js_error (name @ '' must be an array with at most '' @ nat_str maximum @ '' entries'') []))"

section \<open>The material of a state\<close>

definition allowed_fields :: "string list" where
  "allowed_fields = [''domain'', ''intent'', ''phase'', ''targetRef'', ''slots'', ''missingSlots'',
     ''capabilityRef'', ''evidenceRefs'', ''operationRef'']"

definition checked_slots :: "jsval \<Rightarrow> jsval + jsval" where
  "checked_slots candidate =
     rbind (jsonObject (js_coalesce (fld candidate ''slots'') (JObj [])) ''slots'') (\<lambda>slots0.
     let slots = js_or slots0 (JObj []) in
     rbind (guard_else (js_error ''Dialogue State slots exceed the closed server budget'' [])
              (length (obj_entries slots) \<le> 32 \<and> length (json_text slots) \<le> 16384)) (\<lambda>_.
     Inr slots))"

definition stateMaterial :: "jsval \<Rightarrow> string \<Rightarrow> string \<Rightarrow> jsval + jsval" where
  "stateMaterial candidate conversation owner =
     rbind (guard_else (js_error ''dialogueTransition must be a server-owned object'' []) (is_plain_object candidate)) (\<lambda>_.
     let extra = filter (\<lambda>k. k \<notin> set allowed_fields) (map fst (obj_entries candidate)) in
     rbind (guard_else (js_error (''unsupported Dialogue State fields: '' @ join '', '' extra) []) (extra = [])) (\<lambda>_.
     rbind (checked_slots candidate) (\<lambda>slots.
     rbind (boundedString (fld candidate ''domain'') 120 True) (\<lambda>domain.
     rbind (boundedString (fld candidate ''intent'') 120 True) (\<lambda>intent.
     rbind (boundedString (js_or (fld candidate ''phase'') (JStr ''idle'')) 80 False) (\<lambda>ph.
     rbind (jsonObject (fld candidate ''targetRef'') ''targetRef'') (\<lambda>targetRef.
     rbind (jsonArray (fld candidate ''missingSlots'') ''missingSlots'' 32) (\<lambda>missing0.
     rbind (map_res (\<lambda>item. boundedString item 120 False) missing0) (\<lambda>missing.
     rbind (boundedString (fld candidate ''capabilityRef'') 500 True) (\<lambda>capabilityRef.
     rbind (jsonArray (fld candidate ''evidenceRefs'') ''evidenceRefs'' 64) (\<lambda>evidenceRefs.
     rbind (boundedString (fld candidate ''operationRef'') 36 True) (\<lambda>operationRef.
     Inr (canonical (JObj [
       (''schema'', JStr STATE_SCHEMA), (''conversationId'', JStr conversation), (''ownerId'', JStr owner),
       (''domain'', domain), (''intent'', intent), (''phase'', ph), (''targetRef'', targetRef), (''slots'', slots),
       (''missingSlots'', JArr missing), (''capabilityRef'', capabilityRef), (''evidenceRefs'', JArr evidenceRefs),
       (''operationRef'', operationRef)]))))))))))))))"

record transition =
  tr_material :: jsval
  tr_base :: jnum
  tr_next :: jnum
  tr_prev :: string
  tr_digest :: string
  tr_delta :: jsval

definition buildTransition :: "(string \<Rightarrow> string) \<Rightarrow> jsval \<Rightarrow> string \<Rightarrow> string \<Rightarrow> jsval \<Rightarrow> jsval + transition" where
  "buildTransition sha candidate conversation owner previous =
     (let base = to_num (js_or (fld previous ''revision'') (JInt 0)) in
      rbind (if truthy (fld previous ''state_digest'') then Inr (to_str (fld previous ''state_digest''))
             else dialogue_digest sha (JObj [(''schema'', JStr STATE_SCHEMA), (''conversationId'', JStr conversation),
                    (''revision'', JInt 0)])) (\<lambda>prev.
      rbind (guard_else (js_error ''previous Dialogue State digest is invalid'' []) (is_sha256_ref prev)) (\<lambda>_.
      rbind (stateMaterial candidate conversation owner) (\<lambda>material.
      let next_revision = num_add base (Fin 1) in
      rbind (dialogue_digest sha (JObj (obj_entries material @
               [(''revision'', JNum next_revision), (''prevStateDigest'', JStr prev)]))) (\<lambda>stateDigest.
      Inr \<lparr>tr_material = material, tr_base = base, tr_next = next_revision, tr_prev = prev, tr_digest = stateDigest,
           tr_delta = canonical (JObj [(''schema'', JStr DELTA_SCHEMA), (''baseRevision'', JNum base),
             (''nextRevision'', JNum next_revision), (''prevStateDigest'', JStr prev), (''stateDigest'', JStr stateDigest),
             (''set'', material)])\<rparr>)))))"

section \<open>Transitions for tool results\<close>

definition dialogue_record :: "string \<Rightarrow> jsval \<Rightarrow> jsval \<Rightarrow> jsval \<Rightarrow> jsval \<Rightarrow> jsval \<Rightarrow> jsval \<Rightarrow> jsval \<Rightarrow> jsval \<Rightarrow> jsval" where
  "dialogue_record domain intent ph targetRef slots missing capabilityRef evidenceRefs operationRef = JObj [
     (''domain'', JStr domain), (''intent'', intent), (''phase'', ph), (''targetRef'', targetRef), (''slots'', slots),
     (''missingSlots'', missing), (''capabilityRef'', capabilityRef), (''evidenceRefs'', evidenceRefs),
     (''operationRef'', operationRef)]"

definition observed_or_unavailable :: "jsval \<Rightarrow> jsval" where
  "observed_or_unavailable result =
     JStr (if fld result ''phase'' = JStr ''Observed'' then ''observed'' else ''unavailable'')"

definition evidence_list :: "jsval \<Rightarrow> jsval" where
  "evidence_list v = JArr (if truthy v then [v] else [])"

definition preservesPreparedPlan :: "jsval \<Rightarrow> jsval \<Rightarrow> bool" where
  "preservesPreparedPlan result context \<longleftrightarrow>
     fld context ''domain'' = JStr ''pfss.postgresql'' \<and> fld context ''intent'' = JStr ''create.plan''
     \<and> fld context ''phase'' = JStr ''plan_ready''
     \<and> fld result ''schema'' \<in> set [JStr ''r2d2.foundation-postgres-status/v1'',
          JStr ''r2d2.foundation-postgres-capability-answer/v1'', JStr ''r2d2.foundation-postgres-operation/v1'']"

definition directory_status :: "jsval \<Rightarrow> jsval" where
  "directory_status result = dialogue_record ''pfss.directory'' (JStr ''status.read'') (observed_or_unavailable result)
     JNull (JObj []) (JArr []) JNull (evidence_list (fld (fld result ''claimSet'') ''evidenceRef'')) JNull"

definition postgres_status :: "jsval \<Rightarrow> jsval" where
  "postgres_status result =
     (let claimSet = or_null (js_or (fld result ''claimSet'') (fld (fld result ''shadowEvaluation'') ''claimSet''));
          binding = or_null (js_or (fld result ''capabilityBinding'') (fld (fld result ''shadowEvaluation'') ''capabilityBinding''))
      in dialogue_record ''pfss.postgresql'' (JStr ''status.read'') (observed_or_unavailable result)
           JNull (JObj []) (JArr []) (or_null (fld binding ''capabilityRef''))
           (evidence_list (fld claimSet ''evidenceRef'')) JNull)"

definition postgres_operation :: "jsval \<Rightarrow> jsval \<Rightarrow> jsval" where
  "postgres_operation result context =
     (let persisted = trim (str_or_empty (fld context ''operationRef''));
          observed = trim (str_or_empty (fld result ''operationId''));
          operation = fld (fld result ''operationClaim'') ''operation''
      in if persisted = [] \<or> observed \<noteq> [] \<and> observed \<noteq> persisted then JNull
         else dialogue_record ''pfss.postgresql'' (JStr ''operation.watch'')
           (JStr (if fld result ''phase'' = JStr ''Observed''
                  then to_lower (to_str (js_or (fld operation ''stage'') (JStr ''observed''))) else ''unavailable''))
           (or_null (fld operation ''target'')) (JObj []) (JArr [])
           (or_null (fld (fld result ''capabilityBinding'') ''capabilityRef''))
           (evidence_list (fld (fld result ''operationClaim'') ''evidenceRef'')) (JStr persisted))"

definition capability_answer :: "jsval \<Rightarrow> jsval" where
  "capability_answer result = dialogue_record ''pfss.postgresql''
     (JStr (to_str (js_or (fld result ''question'') (JStr ''capability.read''))))
     (observed_or_unavailable result) JNull (JObj []) (JArr []) JNull (JArr []) JNull"

definition create_applied :: "jsval \<Rightarrow> jsval" where
  "create_applied result =
     (let operation = js_or (js_or (fld (fld result ''result'') ''response'') (fld result ''result'')) (JObj []);
          target = fld operation ''target''
      in dialogue_record ''pfss.postgresql'' (JStr ''create.apply'') (JStr ''operation_accepted'')
           (if truthy target then JObj [(''namespace'', js_or (fld target ''namespace'') (JStr [])),
              (''name'', js_or (fld target ''name'') (JStr []))] else JNull)
           (JObj []) (JArr []) (or_null (fld (fld operation ''capabilityBinding'') ''capabilityRef''))
           (JArr []) (or_null (fld operation ''operationId'')))"

definition validated_slots :: "jsval \<Rightarrow> jsval" where
  "validated_slots values = JObj (map (\<lambda>(k, v). (k, JObj [(''value'', v), (''status'', JStr ''validated'')]))
     (filter (\<lambda>(k, v). \<not> nullish v \<and> trim (to_str v) \<noteq> []) (obj_entries values)))"

definition create_intake :: "jsval \<Rightarrow> jsval" where
  "create_intake result =
     (let values = js_or (js_or (fld result ''request'') (fld result ''values'')) (JObj []) in
      dialogue_record ''pfss.postgresql'' (JStr ''create.plan'')
        (JStr (if fld result ''phase'' = JStr ''AwaitingConfirmation'' then ''plan_ready'' else ''needs_input''))
        (if truthy (fld values ''name'')
         then JObj [(''namespace'', js_or (fld values ''namespace'') (JStr ''opensphere-foundation'')), (''name'', fld values ''name'')]
         else JNull)
        (validated_slots values) (JArr (elems (fld result ''missing'')))
        (or_null (fld (fld (fld result ''plan'') ''capabilityBinding'') ''capabilityRef'')) (JArr []) JNull)"

definition dialogueTransitionForToolResult :: "jsval \<Rightarrow> jsval \<Rightarrow> jsval" where
  "dialogueTransitionForToolResult result context =
     (if \<not> is_object result then JNull
      else if preservesPreparedPlan result context then JNull
      else if fld result ''schema'' = JStr ''r2d2.foundation-directory-status/v1'' then directory_status result
      else if fld result ''schema'' = JStr ''r2d2.foundation-postgres-status/v1'' then postgres_status result
      else if fld result ''schema'' = JStr ''r2d2.foundation-postgres-operation/v1'' then postgres_operation result context
      else if fld result ''schema'' = JStr ''r2d2.foundation-postgres-capability-answer/v1'' then capability_answer result
      else if fld result ''action'' = JStr ''binding-execute''
              \<and> fld (fld result ''binding'') ''toolId'' = JStr ''osaa.foundation.postgres.claim.create''
      then create_applied result
      else if fld result ''schema'' \<noteq> JStr ''r2d2.foundation-postgres-intake/v1'' then JNull
      else create_intake result)"

section \<open>Rollout modes\<close>

definition MODES :: "string list" where
  "MODES = [''off'', ''shadow'', ''read-enforce'', ''mutation-enforce'']"

definition dialogueStateMode :: "jsval \<Rightarrow> string" where
  "dialogueStateMode v = (let candidate = to_lower (trim (str_or_empty v)) in
     if candidate \<in> set MODES then candidate else ''off'')"

record mode_policy =
  mp_mode :: string
  recordTransitions :: bool
  exposeContext :: bool
  enforceCurrentFacts :: bool
  enforceMutations :: bool

definition dialogueModePolicy :: "jsval \<Rightarrow> mode_policy" where
  "dialogueModePolicy v = (let m = dialogueStateMode v in
     \<lparr>mp_mode = m, recordTransitions = (m \<noteq> ''off''),
      exposeContext = (m = ''read-enforce'' \<or> m = ''mutation-enforce''),
      enforceCurrentFacts = (m = ''read-enforce'' \<or> m = ''mutation-enforce''),
      enforceMutations = (m = ''mutation-enforce'')\<rparr>)"

section \<open>Canonical objects\<close>

lemma set_enum_order [simp]: "set (enum_order kvs) = set kvs"
  by (auto simp: enum_order_def)

lemma distinct_enum_order:
  "distinct (map fst kvs) \<Longrightarrow> distinct (map fst (enum_order kvs))"
proof -
  assume d: "distinct (map fst kvs)"
  have "mset (enum_order kvs) = mset kvs"
    by (simp add: enum_order_def flip: mset_filter)
       (metis (no_types, lifting) comp_apply filter_cong multiset_partition mset_filter)
  then show ?thesis
    using d by (metis mset_eq_imp_distinct_iff mset_map)
qed

lemma map_of_distinct_set:
  assumes "distinct (map fst kvs)" and "distinct (map fst kvs')" and "set kvs = set kvs'"
  shows "map_of kvs k = map_of kvs' k"
  using assms by (metis map_of_inject_set)

lemma fld_canonical:
  assumes "distinct (map fst kvs)"
  shows "fld (canonical (JObj kvs)) k = (case map_of kvs k of Some v \<Rightarrow> canonical v | None \<Rightarrow> JUndef)"
proof -
  let ?c = "map (\<lambda>kv. (fst kv, canonical (snd kv))) kvs"
  have d: "distinct (map fst ?c)"
    using assms by (simp add: comp_def)
  have "map_of (enum_order (sort_keys ?c)) k = map_of ?c k"
    by (rule map_of_distinct_set) (use d in \<open>simp_all add: distinct_enum_order\<close>)
  moreover have "map_of ?c k = map_option canonical (map_of kvs k)"
    by (induction kvs) auto
  ultimately show ?thesis
    by (simp add: fld_obj split: option.splits)
qed

lemma keys_canonical: "fst ` set (obj_entries (canonical (JObj kvs))) = fst ` set kvs"
  by (force simp: obj_entries_def image_iff)

lemma boundedString_Inr:
  "boundedString v n opt = Inr r \<Longrightarrow>
     (r = JNull \<and> opt) \<or> (\<exists>s. r = JStr s \<and> 1 \<le> length s \<and> length s \<le> n)"
  by (auto simp: boundedString_def Let_def Suc_le_eq split: if_splits)

lemma jsonArray_Inr: "jsonArray v name n = Inr xs \<Longrightarrow> length xs \<le> n"
  by (auto simp: jsonArray_def split: if_splits jsval.splits)

lemma canonical_strings [simp]: "canonical (JStr s) = JStr s" "canonical JNull = JNull"
  by simp_all

definition short_text :: "nat \<Rightarrow> jsval \<Rightarrow> bool" where
  "short_text n v \<longleftrightarrow> v = JNull \<or> (\<exists>s. v = JStr s \<and> 1 \<le> length s \<and> length s \<le> n)"

lemma map_res_short:
  assumes "map_res (\<lambda>item. boundedString item 120 False) xs = Inr ys" and "y \<in> set ys"
  shows "\<exists>s. y = JStr s \<and> 1 \<le> length s \<and> length s \<le> 120"
proof (rule map_res_all [OF assms(1) _ assms(2)])
  fix x y assume "boundedString x 120 False = Inr y"
  from boundedString_Inr [OF this] show "\<exists>s. y = JStr s \<and> 1 \<le> length s \<and> length s \<le> 120"
    by simp
qed

text \<open>C28: whatever a candidate transition contains, the state material built from it is closed and
  bounded: it has exactly the twelve fields of the schema, carries the conversation and owner given by the
  server and not by the candidate, a phase of 1 to 80 characters, domain and intent of at most 120,
  at most 32 missing slots of at most 120 characters each, and at most 64 evidence references; a candidate
  with any other field is refused.\<close>

theorem state_material_is_closed_and_bounded:
  assumes "stateMaterial candidate conversation owner = Inr m"
  shows "fst ` set (obj_entries m) = {''schema'', ''conversationId'', ''ownerId'', ''domain'', ''intent'', ''phase'',
      ''targetRef'', ''slots'', ''missingSlots'', ''capabilityRef'', ''evidenceRefs'', ''operationRef''}
    \<and> fld m ''conversationId'' = JStr conversation \<and> fld m ''ownerId'' = JStr owner
    \<and> (\<exists>p. fld m ''phase'' = JStr p \<and> 1 \<le> length p \<and> length p \<le> 80)
    \<and> short_text 120 (fld m ''domain'') \<and> short_text 120 (fld m ''intent'')
    \<and> short_text 500 (fld m ''capabilityRef'') \<and> short_text 36 (fld m ''operationRef'')
    \<and> length (elems (fld m ''missingSlots'')) \<le> 32 \<and> list_all (short_text 120) (elems (fld m ''missingSlots''))
    \<and> length (elems (fld m ''evidenceRefs'')) \<le> 64
    \<and> fst ` set (obj_entries candidate) \<subseteq> set allowed_fields"
proof -
  obtain slots domain intent ph targetRef missing0 missing cap evidence op where
    ex: "filter (\<lambda>k. k \<notin> set allowed_fields) (map fst (obj_entries candidate)) = []"
    and r: "boundedString (fld candidate ''domain'') 120 True = Inr domain"
      "boundedString (fld candidate ''intent'') 120 True = Inr intent"
      "boundedString (js_or (fld candidate ''phase'') (JStr ''idle'')) 80 False = Inr ph"
      "jsonArray (fld candidate ''missingSlots'') ''missingSlots'' 32 = Inr missing0"
      "map_res (\<lambda>item. boundedString item 120 False) missing0 = Inr missing"
      "boundedString (fld candidate ''capabilityRef'') 500 True = Inr cap"
      "jsonArray (fld candidate ''evidenceRefs'') ''evidenceRefs'' 64 = Inr evidence"
      "boundedString (fld candidate ''operationRef'') 36 True = Inr op"
    and m: "m = canonical (JObj [
       (''schema'', JStr STATE_SCHEMA), (''conversationId'', JStr conversation), (''ownerId'', JStr owner),
       (''domain'', domain), (''intent'', intent), (''phase'', ph), (''targetRef'', targetRef), (''slots'', slots),
       (''missingSlots'', JArr missing), (''capabilityRef'', cap), (''evidenceRefs'', JArr evidence),
       (''operationRef'', op)])"
    using assms unfolding stateMaterial_def Let_def rbind_eq_Inr guard_else_eq by blast
  have f: "fld m k = (case map_of [
       (''schema'', JStr STATE_SCHEMA), (''conversationId'', JStr conversation), (''ownerId'', JStr owner),
       (''domain'', domain), (''intent'', intent), (''phase'', ph), (''targetRef'', targetRef), (''slots'', slots),
       (''missingSlots'', JArr missing), (''capabilityRef'', cap), (''evidenceRefs'', JArr evidence),
       (''operationRef'', op)] k of Some v \<Rightarrow> canonical v | None \<Rightarrow> JUndef)" for k
    unfolding m by (rule fld_canonical) simp
  have short: "short_text n (canonical v)" if "boundedString u n b = Inr v" for u n b v
    using boundedString_Inr [OF that] by (auto simp: short_text_def)
  have miss: "list_all (short_text 120) (map canonical missing)"
    using map_res_short [OF r(5)] by (fastforce simp: list_all_iff short_text_def)
  have len: "length missing \<le> 32" "length evidence \<le> 64"
    using jsonArray_Inr [OF r(4)] map_res_length [OF r(5)] jsonArray_Inr [OF r(7)] by simp_all
  have "fst ` set (obj_entries m) = {''schema'', ''conversationId'', ''ownerId'', ''domain'', ''intent'', ''phase'',
      ''targetRef'', ''slots'', ''missingSlots'', ''capabilityRef'', ''evidenceRefs'', ''operationRef''}"
    unfolding m keys_canonical by simp
  moreover have "fst ` set (obj_entries candidate) \<subseteq> set allowed_fields"
    using ex by (auto simp: filter_empty_conv)
  moreover have "\<exists>p. ph = JStr p \<and> 1 \<le> length p \<and> length p \<le> 80"
    using boundedString_Inr [OF r(3)] by simp
  then have "\<exists>p. fld m ''phase'' = JStr p \<and> 1 \<le> length p \<and> length p \<le> 80"
    by (auto simp: f)
  moreover have "fld m ''conversationId'' = JStr conversation" "fld m ''ownerId'' = JStr owner"
    "short_text 120 (fld m ''domain'')" "short_text 120 (fld m ''intent'')"
    "short_text 500 (fld m ''capabilityRef'')" "short_text 36 (fld m ''operationRef'')"
    using short [OF r(1)] short [OF r(2)] short [OF r(6)] short [OF r(8)] by (simp_all add: f)
  moreover have "elems (fld m ''missingSlots'') = map canonical missing" "elems (fld m ''evidenceRefs'') = map canonical evidence"
    by (simp_all add: f elems_def)
  ultimately show ?thesis
    using miss len by (simp only: length_map simp_thms)
qed

text \<open>The transition derived from a tool result never undoes or redirects what the dialogue holds: it
  is either nothing or a record with exactly the fields the state accepts; a prepared plan is
  not replaced by a status, capability or operation answer; and an operation answer continues the
  watched operation under the reference the dialogue already has, never under one the result brings.\<close>

theorem tool_results_keep_the_watched_operation:
  assumes "dialogueTransitionForToolResult result context = t"
  shows "(t = JNull \<or> map fst (obj_entries t) = allowed_fields)
    \<and> (preservesPreparedPlan result context \<longrightarrow> t = JNull)
    \<and> (fld result ''schema'' = JStr ''r2d2.foundation-postgres-operation/v1'' \<and> t \<noteq> JNull \<longrightarrow>
         fld t ''operationRef'' = JStr (trim (str_or_empty (fld context ''operationRef'')))
         \<and> trim (str_or_empty (fld context ''operationRef'')) \<noteq> []
         \<and> trim (str_or_empty (fld result ''operationId'')) \<in> {[], trim (str_or_empty (fld context ''operationRef''))})"
proof -
  have shape: "map fst (obj_entries (dialogue_record a b c d e f g h i)) = allowed_fields" for a b c d e f g h i
    by (simp add: dialogue_record_def obj_entries_def allowed_fields_def)
  have rec: "dialogue_record a b c d e f g h i \<noteq> JNull" "fld (dialogue_record a b c d e f g h i) ''operationRef'' = i"
    for a b c d e f g h i
    by (simp_all add: dialogue_record_def fld_obj)
  have "t = JNull \<or> map fst (obj_entries t) = allowed_fields"
    using assms [symmetric] shape
    by (simp add: dialogueTransitionForToolResult_def directory_status_def postgres_status_def postgres_operation_def
        capability_answer_def create_applied_def create_intake_def Let_def)
  moreover have "t = JNull" if "preservesPreparedPlan result context"
    using that unfolding assms [symmetric] dialogueTransitionForToolResult_def by (simp only: if_True if_cancel simp_thms)
  moreover have "t = JNull \<or> t = postgres_operation result context"
    if "fld result ''schema'' = JStr ''r2d2.foundation-postgres-operation/v1''"
    using assms that by (auto simp: dialogueTransitionForToolResult_def)
  moreover have "fld (postgres_operation result context) ''operationRef'' = JStr (trim (str_or_empty (fld context ''operationRef'')))
      \<and> trim (str_or_empty (fld context ''operationRef'')) \<noteq> []
      \<and> trim (str_or_empty (fld result ''operationId'')) \<in> {[], trim (str_or_empty (fld context ''operationRef''))}"
    if "postgres_operation result context \<noteq> JNull"
    using that unfolding postgres_operation_def Let_def by (auto simp: rec split: if_splits)
  ultimately show ?thesis
    by blast
qed

definition demo_watch :: jsval where
  "demo_watch = JObj [(''schema'', JStr ''r2d2.foundation-postgres-operation/v1''), (''phase'', JStr ''Observed''),
     (''operationId'', JStr ''op-1'')]"

theorem tool_results_keep_the_watched_operation_witness:
  "fld (dialogueTransitionForToolResult demo_watch (JObj [(''operationRef'', JStr ''op-1'')])) ''operationRef'' = JStr ''op-1''"
proof -
  have "dialogueTransitionForToolResult demo_watch (JObj [(''operationRef'', JStr ''op-1'')]) \<noteq> JNull"
    by code_simp
  moreover have "fld demo_watch ''schema'' = JStr ''r2d2.foundation-postgres-operation/v1''"
    "trim (str_or_empty (fld (JObj [(''operationRef'', JStr ''op-1'')]) ''operationRef'')) = ''op-1''"
    by code_simp+
  ultimately show ?thesis
    using tool_results_keep_the_watched_operation [OF refl, of demo_watch "JObj [(''operationRef'', JStr ''op-1'')]"] by simp
qed

definition demo_candidate :: jsval where
  "demo_candidate = JObj [(''phase'', JStr ''plan_ready''), (''missingSlots'', JArr [JStr ''name''])]"

theorem state_material_is_closed_and_bounded_witness:
  "\<exists>m. stateMaterial demo_candidate ''c'' ''o'' = Inr m \<and> fld m ''ownerId'' = JStr ''o''"
proof -
  have "\<not> isl (stateMaterial demo_candidate ''c'' ''o'')"
    by code_simp
  then obtain m where m: "stateMaterial demo_candidate ''c'' ''o'' = Inr m"
    by (metis sum.collapse(2))
  from state_material_is_closed_and_bounded [OF m] m show ?thesis
    by blast
qed

end
