(* ===== verification/ConversationStore.thy ===== *)
theory ConversationStore
  imports DialogueState
begin

text \<open>
  The conversation store, \<open>src/apps/osdst/conversation-store.js\<close>: validators, the context window, and the
  transactions that list, read, change and remove conversations and begin, complete, fail and renew a
  turn.

  The database is a record of four typed tables.  Every statement of the source is a \<open>query\<close>: it reads the database
  clock of its own index (\<open>clock_timestamp\<close>), may be rejected by the database for any reason
  (\<open>se_rejects\<close>: connection loss, constraints, triggers, row security) and otherwise acts on
  the tables as its text says.  A transaction that throws restores the tables.  Transactions are
  atomic steps: the source serialises the turns of a conversation by locking its row.  A
  \<open>Date\<close> is its time value; ids that the database or \<open>randomUUID\<close> invents are \<open>se_uuid\<close> of the statement index.
\<close>

section \<open>Constants and validators\<close>

definition MAX_TITLE :: nat where "MAX_TITLE = 160"
definition MAX_CONTEXT_MESSAGES :: nat where "MAX_CONTEXT_MESSAGES = 24"
definition MAX_CONTEXT_CHARS :: nat where "MAX_CONTEXT_CHARS = 24000"
definition MAX_MESSAGE :: nat where "MAX_MESSAGE = MAX_CONTEXT_CHARS"
definition TURN_LEASE_SECONDS :: int where "TURN_LEASE_SECONDS = 120"
definition MAX_TURN_ATTEMPTS :: nat where "MAX_TURN_ATTEMPTS = 5"

definition DEFAULT_RETENTION_DAYS :: "jsval \<Rightarrow> jnum" where
  \<comment> \<open>of the environment variable \<open>OSAA_DIALOGUE_RETENTION_DAYS\<close>\<close>
  "DEFAULT_RETENTION_DAYS env_value =
     num_max (Fin 1) (num_min (Fin 3650) (to_num (js_or (JNum (to_num (js_or env_value (JInt 30)))) (JInt 30))))"

definition failure :: "int \<Rightarrow> string \<Rightarrow> string \<Rightarrow> rat \<Rightarrow> jsval" where
  "failure code msg errorCode retryAfterSeconds = js_error msg
     ([(''code'', JInt code), (''msg'', JStr msg)]
      @ (if errorCode \<noteq> [] then [(''errorCode'', JStr errorCode)] else [])
      @ (if 0 < retryAfterSeconds then [(''retryAfterSeconds'', JInt \<lceil>retryAfterSeconds\<rceil>)] else []))"

definition retryAfter :: "rat \<Rightarrow> rat \<Rightarrow> rat" where
  \<comment> \<open>of the lease expiry and the application clock, in milliseconds\<close>
  "retryAfter expires now = of_int (max 1 \<lceil>(expires - now) / 1000\<rceil>)"

definition ownerId :: "jsval \<Rightarrow> jsval + string" where
  "ownerId actor =
     (let v = trim (str_or_empty (fld actor ''subject'')) in
      rbind (guard_else (failure 401 ''authenticated OSAA subject is required'' [] 0) (v \<noteq> [] \<and> length v \<le> 200)) (\<lambda>_. Inr v))"

definition conversationId :: "jsval \<Rightarrow> bool \<Rightarrow> jsval + string" where
  "conversationId v optional =
     (let i = to_lower (trim (str_or_empty v)) in
      if i = [] \<and> optional then Inr []
      else rbind (guard_else (failure 400 ''conversationId must be a UUID'' [] 0) (is_uuid i)) (\<lambda>_. Inr i))"

definition requestId :: "jsval \<Rightarrow> jsval + string" where
  "requestId v =
     (let i = to_lower (trim (str_or_empty v)) in
      rbind (guard_else (failure 400 ''clientRequestId must be a UUID'' [] 0) (is_uuid i)) (\<lambda>_. Inr i))"

definition messageContent :: "jsval \<Rightarrow> jsval + string" where
  "messageContent v =
     (let content = trim (str_or_empty v) in
      if content = [] then Inl (failure 400 ''message is required'' [] 0)
      else if MAX_MESSAGE < length content
      then Inl (failure 413 (''message exceeds the '' @ nat_str MAX_MESSAGE @ '' character provider boundary'') ''osaa_context_too_large'' 0)
      else Inr content)"

lemma length_dropWhile_less [termination_simp]: "length (dropWhile P s) < Suc (length s)"
  by (simp add: length_dropWhile_le le_imp_less_Suc)

fun collapse_ws :: "string \<Rightarrow> string" where
  \<comment> \<open>\<open>s.replace(/\s+/g, ' ')\<close>\<close>
  "collapse_ws [] = []"
| "collapse_ws (c # s) =
     (if ws c then CHR '' '' # collapse_ws (dropWhile ws s) else c # collapse_ws s)"

text \<open>The default title is Korean text; it is written here as its UTF-8 bytes.\<close>

definition default_title :: string where
  "default_title = [CHR 0xEC, CHR 0x83, CHR 0x88, CHR 0x20, CHR 0xEB, CHR 0x8C, CHR 0x80, CHR 0xED, CHR 0x99, CHR 0x94]"

definition title :: "jsval \<Rightarrow> string \<Rightarrow> jsval + string" where
  "title v fallback =
     (let normalized = trim (collapse_ws (to_str (js_or v (JStr fallback)))) in
      rbind (guard_else (failure 400 ''conversation title is required'' [] 0) (normalized \<noteq> [])) (\<lambda>_.
      Inr (take MAX_TITLE normalized)))"

definition first_line :: "string \<Rightarrow> string" where
  \<comment> \<open>\<open>s.split(/\r?\n/, 1)[0]\<close>\<close>
  "first_line s =
     (let l = takeWhile (\<lambda>c. c \<noteq> CHR 0x0A) s in
      if length l < length s \<and> l \<noteq> [] \<and> last l = CHR 0x0D then butlast l else l)"

definition firstTurnTitle :: "string \<Rightarrow> jsval + string" where
  "firstTurnTitle content = rbind (title (JStr (first_line content)) default_title) (\<lambda>t. Inr (take 72 t))"

definition normalizeLimit :: "jsval \<Rightarrow> jsval + nat" where
  "normalizeLimit v =
     (let parsed = to_num (js_or v (JInt 40)) in
      rbind (guard_else (failure 400 ''limit must be an integer from 1 to 100'' [] 0)
               (num_is_integer parsed \<and> \<not> num_less parsed (Fin 1) \<and> \<not> num_less (Fin 100) parsed)) (\<lambda>_.
      Inr (case parsed of Fin r \<Rightarrow> nat \<lfloor>r\<rfloor> | _ \<Rightarrow> 0)))"

definition default_obj :: "jsval \<Rightarrow> jsval" where
  \<comment> \<open>a parameter with the default \<open>{}\<close>\<close>
  "default_obj v = (if v = JUndef then JObj [] else v)"

section \<open>Tables\<close>

record conv =
  c_id :: string
  c_owner :: string
  c_title :: string
  c_status :: string
  c_model :: jsval
  c_summary :: jsval
  c_retention :: jsval
  c_last :: rat
  c_created :: rat
  c_updated :: rat
  c_deleted :: "rat option"

record msg =
  m_id :: string
  m_conv :: string
  m_seq :: nat
  m_turn :: string
  m_role :: string
  m_content :: string
  m_model :: jsval
  m_meta :: jsval
  m_status :: string
  m_created :: rat
  m_completed :: "rat option"
  m_lease :: "string option"
  m_expires :: "rat option"
  m_beat :: "rat option"
  m_attempt :: nat

record proj =
  p_conv :: string
  p_owner :: string
  p_domain :: jsval
  p_intent :: jsval
  p_phase :: jsval
  p_target :: jsval
  p_slots :: jsval
  p_missing :: jsval
  p_cap :: jsval
  p_evidence :: jsval
  p_operation :: jsval
  p_rev :: jnum
  p_turn :: string
  p_digest :: string

record trans =
  t_conv :: string
  t_owner :: string
  t_turn :: string
  t_base :: jnum
  t_next :: jnum
  t_prev :: string
  t_digest :: string
  t_delta :: jsval
  t_cap :: jsval
  t_evidence :: jsval
  t_operation :: jsval

record tables =
  convs :: "conv list"
  msgs :: "msg list"
  projs :: "proj list"
  transs :: "trans list"

record senv =
  se_clock :: "nat \<Rightarrow> rat"
  se_app_clock :: "nat \<Rightarrow> rat"
  se_uuid :: "nat \<Rightarrow> string"
  se_rejects :: "nat \<Rightarrow> tables \<Rightarrow> bool"
  se_pg_uuid :: "string \<Rightarrow> bool"
  se_sha :: "string \<Rightarrow> string"
  se_retention :: jsval

record sstate =
  s_db :: tables
  s_at :: nat

type_synonym 'a sprog = "(sstate, jsval, 'a) prog"

definition db_error :: jsval where
  "db_error = JObj [(''name'', JStr ''DatabaseError'')]"

definition query :: "senv \<Rightarrow> (rat \<Rightarrow> tables \<Rightarrow> ('a \<times> tables) option) \<Rightarrow> 'a sprog" where
  \<comment> \<open>one statement: rejected by the database, violating a constraint (None), or executed\<close>
  "query e f s =
     (let n = s_at s; s' = s\<lparr>s_at := Suc n\<rparr> in
      if se_rejects e n (s_db s) then (Inl db_error, s')
      else case f (se_clock e n) (s_db s) of
             None \<Rightarrow> (Inl db_error, s')
           | Some (x, d) \<Rightarrow> (Inr x, s'\<lparr>s_db := d\<rparr>))"

definition select :: "senv \<Rightarrow> (rat \<Rightarrow> tables \<Rightarrow> 'a) \<Rightarrow> 'a sprog" where
  "select e f = query e (\<lambda>now d. Some (f now d, d))"

definition statement :: "senv \<Rightarrow> unit sprog" where
  \<comment> \<open>\<open>BEGIN\<close>, \<open>set_config\<close>, \<open>COMMIT\<close>\<close>
  "statement e = select e (\<lambda>_ _. ())"

definition fresh_uuid :: "senv \<Rightarrow> string sprog" where
  "fresh_uuid e s = (Inr (se_uuid e (s_at s)), s\<lparr>s_at := Suc (s_at s)\<rparr>)"

definition app_now :: "senv \<Rightarrow> rat sprog" where
  "app_now e s = (Inr (se_app_clock e (s_at s)), s\<lparr>s_at := Suc (s_at s)\<rparr>)"

definition withActor :: "senv \<Rightarrow> 'a sprog \<Rightarrow> 'a sprog" where
  "withActor e work s =
     (case pbind (statement e) (\<lambda>_. pbind (statement e) (\<lambda>_.
           pbind work (\<lambda>result. pbind (statement e) (\<lambda>_. pret result)))) s of
        (Inl error, t) \<Rightarrow> (Inl error, t\<lparr>s_db := s_db s\<rparr>)
      | (Inr result, t) \<Rightarrow> (Inr result, t))"

section \<open>Rows as values\<close>

definition time_val :: "rat \<Rightarrow> jsval" where
  "time_val t = JNum (Fin t)"

definition time_opt :: "rat option \<Rightarrow> jsval" where
  "time_opt t = (case t of None \<Rightarrow> JNull | Some x \<Rightarrow> time_val x)"

definition rowConversation :: "conv \<Rightarrow> string \<Rightarrow> jsval" where
  "rowConversation c preview = JObj [
     (''id'', JStr (c_id c)), (''title'', JStr (c_title c)), (''status'', JStr (c_status c)),
     (''modelId'', js_or (c_model c) (JStr [])), (''summary'', js_or (c_summary c) (JStr [])),
     (''retentionDays'', js_coalesce (c_retention c) JNull),
     (''lastMessageAt'', time_val (c_last c)), (''createdAt'', time_val (c_created c)),
     (''updatedAt'', time_val (c_updated c)), (''preview'', JStr preview)]"

definition rowMessage :: "msg \<Rightarrow> (string \<times> jsval) list" where
  "rowMessage m = spread [
     (''id'', JStr (m_id m)), (''role'', JStr (m_role m)), (''content'', JStr (m_content m)),
     (''modelId'', js_or (m_model m) (JStr [])), (''status'', JStr (m_status m)),
     (''createdAt'', time_val (m_created m)), (''completedAt'', time_opt (m_completed m))]
     (obj_entries (m_meta m))"

definition responseFromAssistant :: "msg \<Rightarrow> jsval" where
  "responseFromAssistant m =
     (let message = rowMessage m;
          given = (case map_of message ''response'' of Some v \<Rightarrow> v | None \<Rightarrow> JUndef);
          response = (case given of JObj kvs \<Rightarrow> kvs | _ \<Rightarrow> []);
          message' = remove_key ''response'' message
      in JObj (spread response [(''message'', case map_of message' ''content'' of Some v \<Rightarrow> v | None \<Rightarrow> JUndef),
           (''conversationId'', JStr (m_conv m)), (''assistantMessage'', JObj message')]))"

definition rowDialogueContext :: "proj option \<Rightarrow> string \<Rightarrow> jsval" where
  "rowDialogueContext row conversation = (case row of
     None \<Rightarrow> JObj [(''conversationId'', JStr conversation), (''domain'', JNull), (''intent'', JNull), (''phase'', JStr ''idle''),
       (''targetRef'', JNull), (''capabilityRef'', JNull), (''operationRef'', JNull), (''revision'', JInt 0), (''stateDigest'', JNull)]
   | Some p \<Rightarrow> JObj [(''conversationId'', JStr conversation), (''domain'', or_null (p_domain p)), (''intent'', or_null (p_intent p)),
       (''phase'', js_or (p_phase p) (JStr ''idle'')), (''targetRef'', or_null (p_target p)),
       (''capabilityRef'', or_null (p_cap p)), (''operationRef'', or_null (p_operation p)),
       (''revision'', JNum (p_rev p)), (''stateDigest'', or_null (JStr (p_digest p)))])"

section \<open>The context window\<close>

definition context_rows :: "msg list \<Rightarrow> msg list" where
  \<comment> \<open>completed user and assistant messages, newest first\<close>
  "context_rows rows = rev (sort_key m_seq
     (filter (\<lambda>m. m_role m \<in> set [''user'', ''assistant''] \<and> m_status m = ''completed'') rows))"

fun fill_window :: "nat \<Rightarrow> (string \<times> string) list \<Rightarrow> msg list \<Rightarrow> (string \<times> string) list" where
  "fill_window characters output [] = output"
| "fill_window characters output (m # ms) =
     (if length output < MAX_CONTEXT_MESSAGES - 1 \<and> characters + length (m_content m) \<le> MAX_CONTEXT_CHARS
      then fill_window (characters + length (m_content m)) ((m_role m, m_content m) # output) ms
      else output)"

definition contextWindow :: "msg list \<Rightarrow> string \<Rightarrow> (string \<times> string) list" where
  "contextWindow rows current =
     fill_window (length current) [] (context_rows rows) @ (if current = [] then [] else [(''user'', current)])"

section \<open>Reading and changing conversations\<close>

definition own :: "string \<Rightarrow> string \<Rightarrow> conv \<Rightarrow> bool" where
  \<comment> \<open>\<open>id=$1 AND owner_id=$2 AND deleted_at IS NULL\<close>\<close>
  "own i owner c \<longleftrightarrow> c_id c = i \<and> c_owner c = owner \<and> c_deleted c = None"

definition latest_preview :: "tables \<Rightarrow> string \<Rightarrow> string" where
  "latest_preview d i =
     (case rev (sort_key m_seq (filter (\<lambda>m. m_conv m = i \<and> m_status m = ''completed'') (msgs d))) of
        [] \<Rightarrow> [] | m # _ \<Rightarrow> take 180 (m_content m))"

definition wanted_status :: "jsval \<Rightarrow> string option" where
  "wanted_status options = (if fld options ''status'' = JStr ''archived'' then Some ''archived''
     else if fld options ''status'' = JStr ''active'' then Some ''active'' else None)"

definition list_conversations :: "senv \<Rightarrow> jsval \<Rightarrow> jsval \<Rightarrow> jsval sprog" where
  "list_conversations e actor options =
     pbind (plift (ownerId actor)) (\<lambda>owner.
     pbind (plift (rbind (get_prop (default_obj options) ''limit'') normalizeLimit)) (\<lambda>n.
     withActor e (select e (\<lambda>_ d.
       let visible = filter (\<lambda>c. c_owner c = owner \<and> c_deleted c = None
             \<and> (case wanted_status options of None \<Rightarrow> True | Some st \<Rightarrow> c_status c = st)) (convs d);
           newest = sort_key (\<lambda>c. - c_last c) (sort_key c_id visible)
       in JArr (map (\<lambda>c. rowConversation c (latest_preview d (c_id c))) (take n newest))))))"

definition conversation_not_found :: jsval where
  "conversation_not_found = failure 404 ''conversation not found'' [] 0"

definition get_conversation :: "senv \<Rightarrow> jsval \<Rightarrow> jsval \<Rightarrow> jsval sprog" where
  "get_conversation e actor v =
     pbind (plift (ownerId actor)) (\<lambda>owner.
     pbind (plift (conversationId v False)) (\<lambda>i.
     withActor e (
       pbind (select e (\<lambda>_ d. find (own i owner) (convs d))) (\<lambda>found.
       case found of
         None \<Rightarrow> pthrow conversation_not_found
       | Some c \<Rightarrow>
           pbind (select e (\<lambda>_ d. sort_key m_seq (filter (\<lambda>m. m_conv m = i \<and> m_status m = ''completed'') (msgs d)))) (\<lambda>rows.
           pret (JObj (spread (obj_entries (rowConversation c []))
             [(''messages'', JArr (map (\<lambda>m. JObj (rowMessage m)) rows))])))))))"

definition change_convs :: "(conv \<Rightarrow> bool) \<Rightarrow> (conv \<Rightarrow> conv) \<Rightarrow> tables \<Rightarrow> tables" where
  "change_convs P f d = d\<lparr>convs := map (\<lambda>c. if P c then f c else c) (convs d)\<rparr>"

definition change_msgs :: "(msg \<Rightarrow> bool) \<Rightarrow> (msg \<Rightarrow> msg) \<Rightarrow> tables \<Rightarrow> tables" where
  "change_msgs P f d = d\<lparr>msgs := map (\<lambda>m. if P m then f m else m) (msgs d)\<rparr>"

definition update_own :: "senv \<Rightarrow> string \<Rightarrow> string \<Rightarrow> (rat \<Rightarrow> conv \<Rightarrow> conv) \<Rightarrow> conv option sprog" where
  \<comment> \<open>\<open>UPDATE \<dots> WHERE id=$1 AND owner_id=$2 AND deleted_at IS NULL RETURNING *\<close>\<close>
  "update_own e i owner f = query e (\<lambda>now d.
     Some (map_option (f now) (find (own i owner) (convs d)), change_convs (own i owner) (f now) d))"

definition requested_title :: "jsval \<Rightarrow> jsval + string option" where
  "requested_title patch = (if fld patch ''title'' = JUndef then Inr None
     else rbind (title (fld patch ''title'') default_title) (\<lambda>t. Inr (Some t)))"

definition requested_status :: "jsval \<Rightarrow> string option" where
  "requested_status patch = (if fld patch ''status'' = JUndef then None
     else Some (trim (str_or_empty (fld patch ''status''))))"

definition update_conversation :: "senv \<Rightarrow> jsval \<Rightarrow> jsval \<Rightarrow> jsval \<Rightarrow> jsval sprog" where
  "update_conversation e actor v patch =
     pbind (plift (ownerId actor)) (\<lambda>owner.
     pbind (plift (conversationId v False)) (\<lambda>i.
     let extra = filter (\<lambda>k. k \<notin> set [''title'', ''status'']) (map fst (obj_entries patch)) in
     pbind (pguard (failure 400 (''unsupported conversation fields: '' @ join '', '' extra) [] 0) (extra = [])) (\<lambda>_.
     pbind (plift (rbind (get_prop (default_obj patch) ''title'') (\<lambda>_. requested_title patch))) (\<lambda>nextTitle.
     let nextStatus = requested_status patch in
     pbind (pguard (failure 400 ''status must be active or archived'' [] 0)
              (case nextStatus of None \<Rightarrow> True | Some st \<Rightarrow> st \<in> set [''active'', ''archived''])) (\<lambda>_.
     pbind (pguard (failure 400 ''title or status is required'' [] 0) (nextTitle \<noteq> None \<or> nextStatus \<noteq> None)) (\<lambda>_.
     withActor e (
       pbind (update_own e i owner (\<lambda>now c. c\<lparr>c_title := (case nextTitle of None \<Rightarrow> c_title c | Some t \<Rightarrow> t),
                c_status := (case nextStatus of None \<Rightarrow> c_status c | Some st \<Rightarrow> st), c_updated := now\<rparr>)) (\<lambda>row.
       case row of None \<Rightarrow> pthrow conversation_not_found | Some c \<Rightarrow> pret (rowConversation c [])))))))))"

definition remove_conversation :: "senv \<Rightarrow> jsval \<Rightarrow> jsval \<Rightarrow> jsval sprog" where
  "remove_conversation e actor v =
     pbind (plift (ownerId actor)) (\<lambda>owner.
     pbind (plift (conversationId v False)) (\<lambda>i.
     withActor e (
       pbind (update_own e i owner (\<lambda>now c. c\<lparr>c_status := ''archived'', c_deleted := Some now, c_updated := now\<rparr>)) (\<lambda>row.
       case row of None \<Rightarrow> pthrow conversation_not_found
       | Some c \<Rightarrow> pret (JObj [(''deleted'', JBool True), (''id'', JStr i)])))))"

section \<open>Beginning a turn\<close>

record turn =
  tn_conv :: string
  tn_request :: string
  tn_lease :: string

datatype begun =
    Replay jsval
  | Begun jsval turn "(string \<times> string) list" jsval

definition str_or_null :: "string \<Rightarrow> jsval" where
  "str_or_null s = (if s = [] then JNull else JStr s)"

definition has_conv :: "string \<Rightarrow> tables \<Rightarrow> bool" where
  "has_conv i d \<longleftrightarrow> list_ex (\<lambda>c. c_id c = i) (convs d)"

definition new_conversation :: "senv \<Rightarrow> string \<Rightarrow> string \<Rightarrow> jsval \<Rightarrow> conv sprog" where
  "new_conversation e owner content modelId =
     pbind (fresh_uuid e) (\<lambda>i.
     pbind (plift (firstTurnTitle content)) (\<lambda>t.
     query e (\<lambda>now d.
       let c = \<lparr>c_id = i, c_owner = owner, c_title = t, c_status = ''active'', c_model = modelId, c_summary = JNull,
                 c_retention = JNum (DEFAULT_RETENTION_DAYS (se_retention e)), c_last = now, c_created = now,
                 c_updated = now, c_deleted = None\<rparr>
       in if has_conv i d \<or> \<not> num_is_integer (DEFAULT_RETENTION_DAYS (se_retention e)) then None
          else Some (c, d\<lparr>convs := convs d @ [c]\<rparr>))))"

definition turn_conversation :: "senv \<Rightarrow> string \<Rightarrow> string \<Rightarrow> string \<Rightarrow> jsval \<Rightarrow> conv sprog" where
  "turn_conversation e owner requested content modelId =
     (if requested = [] then new_conversation e owner content modelId
      else pbind (select e (\<lambda>_ d. find (own requested owner) (convs d))) (\<lambda>found.
           case found of
             None \<Rightarrow> pthrow conversation_not_found
           | Some c \<Rightarrow> if c_status c \<noteq> ''active'' then pthrow (failure 409 ''archived conversation is read-only'' [] 0)
                       else pret c))"

definition live :: "rat \<Rightarrow> msg \<Rightarrow> bool" where
  \<comment> \<open>\<open>role='user' AND status='pending' AND lease_expires_at>clock_timestamp()\<close>\<close>
  "live now m \<longleftrightarrow> m_role m = ''user'' \<and> m_status m = ''pending''
     \<and> (case m_expires m of Some x \<Rightarrow> now < x | None \<Rightarrow> False)"

definition of_turn :: "string \<Rightarrow> string \<Rightarrow> string \<Rightarrow> msg \<Rightarrow> bool" where
  "of_turn i request role m \<longleftrightarrow> m_conv m = i \<and> m_turn m = request \<and> m_role m = role"

definition expiry :: "msg \<Rightarrow> rat" where
  \<comment> \<open>\<open>new Date(lease_expires_at || 0).getTime()\<close>\<close>
  "expiry m = (case m_expires m of Some x \<Rightarrow> x | None \<Rightarrow> 0)"

definition refuse_concurrent :: "senv \<Rightarrow> string \<Rightarrow> string \<Rightarrow> unit sprog" where
  "refuse_concurrent e i request =
     pbind (select e (\<lambda>now d. find (\<lambda>m. m_conv m = i \<and> m_turn m \<noteq> request \<and> live now m) (msgs d))) (\<lambda>other.
     case other of
       None \<Rightarrow> pret ()
     | Some m \<Rightarrow> pbind (app_now e) (\<lambda>now.
         pthrow (failure 409 ''another conversation turn is still in progress'' ''conversation_turn_in_progress''
           (retryAfter (expiry m) now))))"

definition refuse_existing :: "senv \<Rightarrow> string \<Rightarrow> msg option \<Rightarrow> unit sprog" where
  "refuse_existing e content existing =
     (case existing of
        None \<Rightarrow> pret ()
      | Some m \<Rightarrow>
          if m_content m \<noteq> content
          then pthrow (failure 409 ''clientRequestId was already used with different content'' ''conversation_request_conflict'' 0)
          else if m_status m = ''pending''
          then pbind (app_now e) (\<lambda>now.
               if expiry m \<le> now
               then pthrow (failure 409 ''expired conversation turn is awaiting maintenance recovery'' ''conversation_turn_recovery_pending'' 1)
               else pbind (app_now e) (\<lambda>now'.
                    pthrow (failure 409 ''conversation turn is still in progress'' ''conversation_turn_in_progress''
                      (retryAfter (expiry m) now'))))
          else pret ())"

definition lease_until :: "rat \<Rightarrow> rat" where
  "lease_until now = now + of_int (TURN_LEASE_SECONDS * 1000)"

definition retry_turn :: "senv \<Rightarrow> msg \<Rightarrow> string \<Rightarrow> unit sprog" where
  "retry_turn e existing lease =
     (let P = (\<lambda>m. m_id m = m_id existing \<and> m_attempt m < MAX_TURN_ATTEMPTS) in
      pbind (query e (\<lambda>now d. Some (list_ex P (msgs d),
        change_msgs P (\<lambda>m. m\<lparr>m_status := ''pending'', m_completed := None, m_lease := Some lease,
          m_expires := Some (lease_until now), m_beat := Some now, m_attempt := m_attempt m + 1\<rparr>) d))) (\<lambda>retried.
      pguard (failure 409 ''conversation turn retry limit reached'' ''conversation_turn_attempt_limit'' 0) retried))"

definition next_sequence :: "tables \<Rightarrow> string \<Rightarrow> nat" where
  \<comment> \<open>\<open>COALESCE(max(sequence),0)+1\<close>\<close>
  "next_sequence d i = fold max (map m_seq (filter (\<lambda>m. m_conv m = i) (msgs d))) 0 + 1"

definition insert_msg :: "msg \<Rightarrow> tables \<Rightarrow> tables option" where
  \<comment> \<open>foreign key, primary key and unique constraints of \<open>osaa.conversation_message\<close>\<close>
  "insert_msg m d =
     (if \<not> has_conv (m_conv m) d \<or> list_ex (\<lambda>x. m_id x = m_id m \<or> m_conv x = m_conv m \<and> m_seq x = m_seq m
           \<or> of_turn (m_conv m) (m_turn m) (m_role m) x) (msgs d)
      then None else Some (d\<lparr>msgs := msgs d @ [m]\<rparr>))"

definition first_attempt :: "senv \<Rightarrow> string \<Rightarrow> string \<Rightarrow> string \<Rightarrow> jsval \<Rightarrow> string \<Rightarrow> unit sprog" where
  "first_attempt e i request content modelId lease =
     pbind (select e (\<lambda>_ d. next_sequence d i)) (\<lambda>sequence.
     pbind (fresh_uuid e) (\<lambda>new_id.
     query e (\<lambda>now d. map_option (\<lambda>d'. ((), d')) (insert_msg
       \<lparr>m_id = new_id, m_conv = i, m_seq = sequence, m_turn = request, m_role = ''user'', m_content = content,
        m_model = modelId, m_meta = JObj [], m_status = ''pending'', m_created = now, m_completed = None,
        m_lease = Some lease, m_expires = Some (lease_until now), m_beat = Some now, m_attempt = 1\<rparr> d))))"

definition completed_history :: "tables \<Rightarrow> string \<Rightarrow> msg list" where
  "completed_history d i = take MAX_CONTEXT_MESSAGES
     (rev (sort_key m_seq (filter (\<lambda>m. m_conv m = i \<and> m_status m = ''completed'') (msgs d))))"

definition touch_conversation :: "senv \<Rightarrow> string \<Rightarrow> jsval \<Rightarrow> unit sprog" where
  "touch_conversation e i modelId = query e (\<lambda>now d. Some ((), change_convs (\<lambda>c. c_id c = i)
     (\<lambda>c. c\<lparr>c_model := js_coalesce modelId (c_model c), c_last := now, c_updated := now\<rparr>) d))"

definition projection_of :: "tables \<Rightarrow> string \<Rightarrow> string \<Rightarrow> proj option" where
  "projection_of d i owner = find (\<lambda>p. p_conv p = i \<and> p_owner p = owner) (projs d)"

definition admit_turn :: "senv \<Rightarrow> string \<Rightarrow> string \<Rightarrow> string \<Rightarrow> jsval \<Rightarrow> string \<Rightarrow> unit sprog" where
  \<comment> \<open>take the lease on an earlier user message of this request, or insert the message with it\<close>
  "admit_turn e i request content modelId lease =
     pbind (select e (\<lambda>_ d. find (of_turn i request ''user'') (msgs d))) (\<lambda>existing.
     pbind (refuse_existing e content existing) (\<lambda>_.
     case existing of
       None \<Rightarrow> first_attempt e i request content modelId lease
     | Some m \<Rightarrow> retry_turn e m lease))"

definition start_turn :: "senv \<Rightarrow> string \<Rightarrow> conv \<Rightarrow> string \<Rightarrow> string \<Rightarrow> jsval \<Rightarrow> string \<Rightarrow> begun sprog" where
  \<comment> \<open>no completed answer exists: take the lease and gather the context\<close>
  "start_turn e owner c request content modelId lease =
     pbind (admit_turn e (c_id c) request content modelId lease) (\<lambda>_.
     pbind (select e (\<lambda>_ d. completed_history d (c_id c))) (\<lambda>history_rows.
     pbind (select e (\<lambda>_ d. projection_of d (c_id c) owner)) (\<lambda>dialogue.
     pbind (touch_conversation e (c_id c) modelId) (\<lambda>_.
     pret (Begun (rowConversation c []) \<lparr>tn_conv = c_id c, tn_request = request, tn_lease = lease\<rparr>
       (contextWindow history_rows content) (rowDialogueContext dialogue (c_id c)))))))"

definition begin_body :: "senv \<Rightarrow> string \<Rightarrow> string \<Rightarrow> string \<Rightarrow> string \<Rightarrow> jsval \<Rightarrow> string \<Rightarrow> begun sprog" where
  "begin_body e owner requested request content modelId lease =
     pbind (turn_conversation e owner requested content modelId) (\<lambda>c.
     pbind (refuse_concurrent e (c_id c) request) (\<lambda>_.
     pbind (select e (\<lambda>_ d. find (\<lambda>m. of_turn (c_id c) request ''assistant'' m \<and> m_status m = ''completed'') (msgs d))) (\<lambda>replay.
     case replay of
       Some m \<Rightarrow> pret (Replay (responseFromAssistant m))
     | None \<Rightarrow> start_turn e owner c request content modelId lease)))"

definition beginTurn :: "senv \<Rightarrow> jsval \<Rightarrow> jsval \<Rightarrow> begun sprog" where
  "beginTurn e actor body =
     pbind (plift (ownerId actor)) (\<lambda>owner.
     pbind (plift (rbind (get_prop (default_obj body) ''clientRequestId'') requestId)) (\<lambda>request.
     pbind (fresh_uuid e) (\<lambda>lease.
     pbind (plift (messageContent (fld body ''message''))) (\<lambda>content.
     pbind (plift (conversationId (fld body ''conversationId'') True)) (\<lambda>requested.
     withActor e (begin_body e owner requested request content
       (str_or_null (take 120 (trim (str_or_empty (fld body ''model''))))) lease))))))"

section \<open>Completing, failing and renewing a turn\<close>

definition optional_uuid :: "senv \<Rightarrow> jsval \<Rightarrow> bool" where
  \<comment> \<open>a value the cast \<open>::uuid\<close> accepts\<close>
  "optional_uuid e v \<longleftrightarrow> (case v of JStr s \<Rightarrow> se_pg_uuid e s | _ \<Rightarrow> True)"

definition insert_transition :: "senv \<Rightarrow> string \<Rightarrow> turn \<Rightarrow> transition \<Rightarrow> unit sprog" where
  "insert_transition e owner tn tr = query e (\<lambda>now d.
     if \<not> has_conv (tn_conv tn) d \<or> list_ex (\<lambda>t. t_conv t = tn_conv tn \<and> (t_turn t = tn_request tn \<or> t_next t = tr_next tr)) (transs d)
        \<or> \<not> optional_uuid e (fld (tr_material tr) ''operationRef'') then None
     else Some ((), d\<lparr>transs := transs d @ [\<lparr>t_conv = tn_conv tn, t_owner = owner, t_turn = tn_request tn,
       t_base = tr_base tr, t_next = tr_next tr, t_prev = tr_prev tr, t_digest = tr_digest tr,
       t_delta = json_copy (tr_delta tr), t_cap = fld (tr_material tr) ''capabilityRef'',
       t_evidence = json_copy (fld (tr_material tr) ''evidenceRefs''), t_operation = fld (tr_material tr) ''operationRef''\<rparr>]\<rparr>))"

definition projection_row :: "string \<Rightarrow> turn \<Rightarrow> transition \<Rightarrow> proj" where
  "projection_row owner tn tr = (let state = tr_material tr in
     \<lparr>p_conv = tn_conv tn, p_owner = owner, p_domain = fld state ''domain'', p_intent = fld state ''intent'',
      p_phase = fld state ''phase'', p_target = json_copy (fld state ''targetRef''), p_slots = json_copy (fld state ''slots''),
      p_missing = fld state ''missingSlots'', p_cap = fld state ''capabilityRef'', p_evidence = json_copy (fld state ''evidenceRefs''),
      p_operation = fld state ''operationRef'', p_rev = tr_next tr, p_turn = tn_request tn, p_digest = tr_digest tr\<rparr>)"

definition upsert_projection :: "senv \<Rightarrow> proj \<Rightarrow> jnum option sprog" where
  \<comment> \<open>the conditional upsert: a conflicting row is replaced only if it has the same owner and the preceding revision\<close>
  "upsert_projection e row = query e (\<lambda>now d.
     case find (\<lambda>p. p_conv p = p_conv row) (projs d) of
       None \<Rightarrow> if has_conv (p_conv row) d then Some (Some (p_rev row), d\<lparr>projs := projs d @ [row]\<rparr>) else None
     | Some p \<Rightarrow>
         if p_owner p = p_owner row \<and> p_rev p = num_sub (p_rev row) (Fin 1)
         then Some (Some (p_rev row), d\<lparr>projs := map (\<lambda>q. if p_conv q = p_conv row then row else q) (projs d)\<rparr>)
         else Some (None, d))"

definition previous_state :: "proj option \<Rightarrow> jsval" where
  "previous_state p = (case p of None \<Rightarrow> JNull
     | Some q \<Rightarrow> JObj [(''revision'', JNum (p_rev q)), (''state_digest'', JStr (p_digest q))])"

definition commitDialogueTransition :: "senv \<Rightarrow> string \<Rightarrow> turn \<Rightarrow> jsval \<Rightarrow> jsval sprog" where
  "commitDialogueTransition e owner tn candidate =
     (if \<not> truthy candidate then pret JNull
      else pbind (select e (\<lambda>_ d. projection_of d (tn_conv tn) owner)) (\<lambda>current.
           pbind (plift (buildTransition (se_sha e) candidate (tn_conv tn) owner (previous_state current))) (\<lambda>tr.
           pbind (insert_transition e owner tn tr) (\<lambda>_.
           pbind (upsert_projection e (projection_row owner tn tr)) (\<lambda>projected.
           pbind (pguard (failure 409 ''dialogue state revision changed during this turn'' ''osaa_dialogue_revision_conflict'' 0)
                    (projected = Some (tr_next tr))) (\<lambda>_.
           let state = tr_material tr in
           pret (JObj [(''domain'', fld state ''domain''), (''intent'', fld state ''intent''), (''phase'', fld state ''phase''),
             (''missingSlots'', fld state ''missingSlots''), (''contextStatus'', JStr ''validated''), (''revision'', JNum (tr_next tr))])))))))"

definition turn_metadata :: "jsval \<Rightarrow> jsval \<Rightarrow> jsval" where
  "turn_metadata response dialogue = JObj [
     (''response'', JObj (spread (filter (\<lambda>(k, _). k \<notin> set [''message'', ''dialogueTransition'']) (obj_entries response))
        (if truthy dialogue then [(''dialogue'', dialogue)] else []))),
     (''sources'', if is_array (fld response ''sources'') then fld response ''sources'' else JArr []),
     (''concepts'', js_or (fld (fld response ''concepts'') ''concepts'') (JArr [])),
     (''usage'', or_null (fld response ''usage''))]"

definition upsert_answer :: "senv \<Rightarrow> msg \<Rightarrow> msg sprog" where
  \<comment> \<open>\<open>ON CONFLICT (conversation_id,turn_request_id,role) DO UPDATE\<close>\<close>
  "upsert_answer e row = query e (\<lambda>now d.
     let P = of_turn (m_conv row) (m_turn row) (m_role row);
         f = (\<lambda>m. m\<lparr>m_content := m_content row, m_model := m_model row, m_meta := m_meta row,
               m_status := ''completed'', m_completed := Some now\<rparr>)
     in case find P (msgs d) of
          Some m \<Rightarrow> Some (f m, change_msgs P f d)
        | None \<Rightarrow> map_option (\<lambda>d'. (row\<lparr>m_created := now, m_completed := Some now\<rparr>, d'))
            (insert_msg (row\<lparr>m_created := now, m_completed := Some now\<rparr>) d))"

definition lease_lost :: jsval where
  "lease_lost = failure 409 ''conversation turn lease was lost before completion'' ''conversation_turn_lease_lost'' 0"

definition leased :: "turn \<Rightarrow> msg \<Rightarrow> bool" where
  "leased tn m \<longleftrightarrow> of_turn (tn_conv tn) (tn_request tn) ''user'' m \<and> m_lease m = Some (tn_lease tn)"

definition release :: "string \<Rightarrow> rat \<Rightarrow> msg \<Rightarrow> msg" where
  "release status now m = m\<lparr>m_status := status, m_completed := Some now, m_lease := None, m_expires := None, m_beat := None\<rparr>"

definition answer_turn :: "senv \<Rightarrow> string \<Rightarrow> turn \<Rightarrow> jsval \<Rightarrow> jsval \<Rightarrow> jsval sprog" where
  \<comment> \<open>under the lease: record the dialogue transition and the answer, release the turn\<close>
  "answer_turn e owner tn response providerModelId =
     pbind (commitDialogueTransition e owner tn (or_null (fld response ''dialogueTransition''))) (\<lambda>dialogue.
     pbind (select e (\<lambda>_ d. next_sequence d (tn_conv tn))) (\<lambda>sequence.
     pbind (plift (messageContent (fld response ''message''))) (\<lambda>content.
     pbind (fresh_uuid e) (\<lambda>new_id.
     pbind (upsert_answer e
        \<lparr>m_id = new_id, m_conv = tn_conv tn, m_seq = sequence, m_turn = tn_request tn, m_role = ''assistant'', m_content = content,
         m_model = str_or_null (take 120 (str_or_empty (fld response ''model''))),
         m_meta = json_copy (turn_metadata response dialogue), m_status = ''completed'', m_created = 0, m_completed = None,
         m_lease = None, m_expires = None, m_beat = None, m_attempt = 0\<rparr>) (\<lambda>inserted.
     pbind (query e (\<lambda>now d. Some ((), change_msgs (leased tn) (release ''completed'' now) d))) (\<lambda>_.
     pbind (touch_conversation e (tn_conv tn) providerModelId) (\<lambda>_.
     pret (responseFromAssistant inserted))))))))"

definition complete_body :: "senv \<Rightarrow> string \<Rightarrow> turn \<Rightarrow> jsval \<Rightarrow> jsval \<Rightarrow> jsval sprog" where
  "complete_body e owner tn response providerModelId =
     pbind (select e (\<lambda>_ d. find (own (tn_conv tn) owner) (convs d))) (\<lambda>locked.
     case locked of
       None \<Rightarrow> pthrow conversation_not_found
     | Some c \<Rightarrow>
         pbind (select e (\<lambda>now d. find (\<lambda>m. leased tn m \<and> live now m) (msgs d))) (\<lambda>lease.
         case lease of
           None \<Rightarrow> pthrow lease_lost
         | Some m \<Rightarrow> answer_turn e owner tn response providerModelId))"

definition completeTurn :: "senv \<Rightarrow> jsval \<Rightarrow> turn \<Rightarrow> jsval \<Rightarrow> jsval sprog" where
  "completeTurn e actor tn response =
     pbind (plift (ownerId actor)) (\<lambda>owner.
     withActor e (complete_body e owner tn response
       (if fld response ''modelAuthority'' = JStr ''provider''
        then str_or_null (take 120 (trim (str_or_empty (fld response ''model'')))) else JNull)))"

definition held_by :: "tables \<Rightarrow> string \<Rightarrow> turn \<Rightarrow> msg \<Rightarrow> bool" where
  \<comment> \<open>the join with \<open>osaa.conversation\<close> on id and owner, and the lease\<close>
  "held_by d owner tn m \<longleftrightarrow> list_ex (\<lambda>c. c_id c = tn_conv tn \<and> c_owner c = owner) (convs d)
     \<and> leased tn m \<and> m_status m = ''pending''"

definition failTurn :: "senv \<Rightarrow> jsval \<Rightarrow> turn \<Rightarrow> unit sprog" where
  "failTurn e actor tn =
     pbind (plift (ownerId actor)) (\<lambda>owner.
     withActor e (query e (\<lambda>now d. Some ((), change_msgs (held_by d owner tn) (release ''failed'' now) d))))"

definition heartbeatTurn :: "senv \<Rightarrow> jsval \<Rightarrow> turn \<Rightarrow> jsval sprog" where
  "heartbeatTurn e actor tn =
     pbind (plift (ownerId actor)) (\<lambda>owner.
     withActor e (
       pbind (query e (\<lambda>now d.
         let P = (\<lambda>m. held_by d owner tn m \<and> live now m) in
         Some (if list_ex P (msgs d) then Some (lease_until now) else None,
               change_msgs P (\<lambda>m. m\<lparr>m_beat := Some now, m_expires := Some (lease_until now)\<rparr>) d))) (\<lambda>renewed.
       case renewed of
         None \<Rightarrow> pthrow (failure 409 ''conversation turn lease is no longer active'' ''conversation_turn_lease_lost'' 0)
       | Some x \<Rightarrow> pret (JObj [(''lease_expires_at'', time_val x)]))))"

definition dialogueContext :: "senv \<Rightarrow> jsval \<Rightarrow> jsval \<Rightarrow> jsval sprog" where
  "dialogueContext e actor v =
     pbind (plift (ownerId actor)) (\<lambda>owner.
     pbind (plift (conversationId v False)) (\<lambda>i.
     withActor e (
       pbind (select e (\<lambda>_ d. find (own i owner) (convs d))) (\<lambda>found.
       pbind (pguard conversation_not_found (found \<noteq> None)) (\<lambda>_.
       select e (\<lambda>_ d. rowDialogueContext (projection_of d i owner) i))))))"

section \<open>Runs of the store\<close>

datatype store_op =
    List_op jsval jsval
  | Get_op jsval jsval
  | Update_op jsval jsval jsval
  | Remove_op jsval jsval
  | Begin_op jsval jsval
  | Complete_op jsval turn jsval
  | Fail_op jsval turn
  | Heartbeat_op jsval turn
  | Context_op jsval jsval

fun op_actor :: "store_op \<Rightarrow> jsval" where
  "op_actor (List_op a _) = a"
| "op_actor (Get_op a _) = a"
| "op_actor (Update_op a _ _) = a"
| "op_actor (Remove_op a _) = a"
| "op_actor (Begin_op a _) = a"
| "op_actor (Complete_op a _ _) = a"
| "op_actor (Fail_op a _) = a"
| "op_actor (Heartbeat_op a _) = a"
| "op_actor (Context_op a _) = a"

fun run_op :: "senv \<Rightarrow> store_op \<Rightarrow> unit sprog" where
  "run_op e (List_op a options) = pbind (list_conversations e a options) (\<lambda>_. pret ())"
| "run_op e (Get_op a v) = pbind (get_conversation e a v) (\<lambda>_. pret ())"
| "run_op e (Update_op a v patch) = pbind (update_conversation e a v patch) (\<lambda>_. pret ())"
| "run_op e (Remove_op a v) = pbind (remove_conversation e a v) (\<lambda>_. pret ())"
| "run_op e (Begin_op a body) = pbind (beginTurn e a body) (\<lambda>_. pret ())"
| "run_op e (Complete_op a tn response) = pbind (completeTurn e a tn response) (\<lambda>_. pret ())"
| "run_op e (Fail_op a tn) = failTurn e a tn"
| "run_op e (Heartbeat_op a tn) = pbind (heartbeatTurn e a tn) (\<lambda>_. pret ())"
| "run_op e (Context_op a v) = pbind (dialogueContext e a v) (\<lambda>_. pret ())"

text \<open>The states the service goes through, one request after the other.\<close>

inductive reachable :: "senv \<Rightarrow> sstate \<Rightarrow> bool" for e where
  start: "reachable e \<lparr>s_db = \<lparr>convs = [], msgs = [], projs = [], transs = []\<rparr>, s_at = n\<rparr>"
| step: "reachable e s \<Longrightarrow> reachable e (snd (run_op e request s))"

end
