(* ===== verification/StoreLaws.thy ===== *)
theory StoreLaws
  imports ConversationStore
begin

text \<open>
  Laws of the conversation tables.  \<open>table_law\<close> is the contract a state predicate must satisfy to survive every
  request of one owner: it survives the passing of statements, changes of rows that keep their keys, and constrained insertions, in
  the conversations the owner may touch.  All operations are shown to keep such a predicate once, and the contract is
  instantiated twice: for well-formedness, and for the rows of a conversation of another owner.
\<close>

section \<open>Well-formed tables\<close>

definition wf_tables :: "tables \<Rightarrow> bool" where
  "wf_tables d \<longleftrightarrow> distinct (map c_id (convs d)) \<and> distinct (map m_id (msgs d))
     \<and> distinct (map (\<lambda>m. (m_conv m, m_seq m)) (msgs d))
     \<and> distinct (map (\<lambda>m. (m_conv m, m_turn m, m_role m)) (msgs d))
     \<and> distinct (map p_conv (projs d)) \<and> distinct (map (\<lambda>t. (t_conv t, t_turn t)) (transs d))
     \<and> distinct (map (\<lambda>t. (t_conv t, t_next t)) (transs d))
     \<and> list_all (\<lambda>m. has_conv (m_conv m) d \<and> m_attempt m \<le> MAX_TURN_ATTEMPTS) (msgs d)
     \<and> list_all (\<lambda>p. has_conv (p_conv p) d) (projs d) \<and> list_all (\<lambda>t. has_conv (t_conv t) d) (transs d)"

definition same_key :: "msg \<Rightarrow> msg \<Rightarrow> bool" where
  "same_key m m' \<longleftrightarrow> m_id m' = m_id m \<and> m_conv m' = m_conv m \<and> m_seq m' = m_seq m \<and> m_turn m' = m_turn m \<and> m_role m' = m_role m"

definition keeps_key :: "(msg \<Rightarrow> bool) \<Rightarrow> (msg \<Rightarrow> msg) \<Rightarrow> bool" where
  "keeps_key P f \<longleftrightarrow> (\<forall>m. same_key m (f m)) \<and> (\<forall>m. P m \<and> m_attempt m \<le> MAX_TURN_ATTEMPTS \<longrightarrow> m_attempt (f m) \<le> MAX_TURN_ATTEMPTS)"

definition keeps_conv_key :: "(conv \<Rightarrow> conv) \<Rightarrow> bool" where
  "keeps_conv_key f \<longleftrightarrow> (\<forall>c. c_id (f c) = c_id c \<and> c_owner (f c) = c_owner c)"

lemma release_keeps_key: "keeps_key P (release status now)"
  by (simp add: keeps_key_def same_key_def release_def)

lemma change_simps [simp]:
  "msgs (change_convs P f d) = msgs d" "projs (change_convs P f d) = projs d" "transs (change_convs P f d) = transs d"
  "convs (change_msgs Q g d) = convs d" "projs (change_msgs Q g d) = projs d" "transs (change_msgs Q g d) = transs d"
  by (simp_all add: change_convs_def change_msgs_def)

lemma map_change_convs:
  "(\<And>c. k (f c) = k c) \<Longrightarrow> map k (convs (change_convs P f d)) = map k (convs d)"
  by (simp add: change_convs_def)

lemma map_change_msgs:
  "(\<And>m. k (f m) = k m) \<Longrightarrow> map k (msgs (change_msgs P f d)) = map k (msgs d)"
  by (simp add: change_msgs_def)

lemma has_conv_iff: "has_conv i d \<longleftrightarrow> i \<in> c_id ` set (convs d)"
  by (force simp: has_conv_def list_ex_iff)

lemma has_conv_change [simp]:
  "keeps_conv_key f \<Longrightarrow> has_conv i (change_convs P f d) = has_conv i d"
  "has_conv i (change_msgs Q g d) = has_conv i d"
  by (auto simp: has_conv_def keeps_conv_key_def change_convs_def change_msgs_def list_ex_iff)

lemma wf_change_convs: "wf_tables d \<Longrightarrow> keeps_conv_key f \<Longrightarrow> wf_tables (change_convs P f d)"
  using map_change_convs [of c_id f P d] by (simp add: wf_tables_def keeps_conv_key_def)

lemma wf_change_msgs:
  assumes "wf_tables d" and "keeps_key P f"
  shows "wf_tables (change_msgs P f d)"
proof -
  have k: "m_id (f m) = m_id m" "m_conv (f m) = m_conv m" "m_seq (f m) = m_seq m" "m_turn (f m) = m_turn m" "m_role (f m) = m_role m" for m
    using assms(2) by (simp_all add: keeps_key_def same_key_def)
  have "list_all (\<lambda>m. has_conv (m_conv m) d \<and> m_attempt m \<le> MAX_TURN_ATTEMPTS) (msgs (change_msgs P f d))"
    using assms by (auto simp: wf_tables_def list_all_iff change_msgs_def keeps_key_def k)
  then show ?thesis
    using assms(1) map_change_msgs [of m_id f P d] map_change_msgs [of "\<lambda>m. (m_conv m, m_seq m)" f P d]
      map_change_msgs [of "\<lambda>m. (m_conv m, m_turn m, m_role m)" f P d]
    by (simp add: wf_tables_def k)
qed

lemma has_conv_other [simp]:
  "has_conv i (d\<lparr>msgs := xs\<rparr>) = has_conv i d" "has_conv i (d\<lparr>projs := ys\<rparr>) = has_conv i d" "has_conv i (d\<lparr>transs := zs\<rparr>) = has_conv i d"
  by (simp_all add: has_conv_def)

lemma wf_insert_msg: "wf_tables d \<Longrightarrow> m_attempt m \<le> MAX_TURN_ATTEMPTS \<Longrightarrow> insert_msg m d = Some d' \<Longrightarrow> wf_tables d'"
  by (auto simp: wf_tables_def insert_msg_def list_ex_iff of_turn_def image_iff split: if_splits) metis+

lemma wf_insert_conv:
  assumes "wf_tables d" and "\<not> has_conv (c_id c) d"
  shows "wf_tables (d\<lparr>convs := convs d @ [c]\<rparr>)"
proof -
  have "has_conv i d \<Longrightarrow> has_conv i (d\<lparr>convs := convs d @ [c]\<rparr>)" for i
    by (simp add: has_conv_def)
  then show ?thesis
    using assms by (auto simp: wf_tables_def has_conv_iff list_all_iff)
qed

lemma wf_insert_trans:
  "wf_tables d \<Longrightarrow> has_conv (t_conv t) d \<Longrightarrow> \<forall>u\<in>set (transs d). t_conv u = t_conv t \<longrightarrow> t_turn u \<noteq> t_turn t \<and> t_next u \<noteq> t_next t
     \<Longrightarrow> wf_tables (d\<lparr>transs := transs d @ [t]\<rparr>)"
  by (auto simp: wf_tables_def)

lemma wf_insert_proj:
  "wf_tables d \<Longrightarrow> has_conv (p_conv p) d \<Longrightarrow> p_conv p \<notin> p_conv ` set (projs d) \<Longrightarrow> wf_tables (d\<lparr>projs := projs d @ [p]\<rparr>)"
  by (auto simp: wf_tables_def)

lemma wf_replace_proj:
  assumes "wf_tables d"
  shows "wf_tables (d\<lparr>projs := map (\<lambda>q. if p_conv q = p_conv p then p else q) (projs d)\<rparr>)"
proof -
  have "map p_conv (map (\<lambda>q. if p_conv q = p_conv p then p else q) (projs d)) = map p_conv (projs d)"
    by simp
  moreover have "list_all (\<lambda>q. has_conv (p_conv q) d) (map (\<lambda>q. if p_conv q = p_conv p then p else q) (projs d))"
    using assms by (fastforce simp: wf_tables_def list_all_iff)
  ultimately show ?thesis
    using assms unfolding wf_tables_def by (simp del: map_map)
qed

section \<open>Rules for statements\<close>

lemma wp_queryI:
  assumes "\<And>x d. f (se_clock e (s_at s)) (s_db s) = Some (x, d) \<Longrightarrow> Q x (s\<lparr>s_at := Suc (s_at s), s_db := d\<rparr>)"
    and "E db_error (s\<lparr>s_at := Suc (s_at s)\<rparr>)"
  shows "wp (query e f) Q E s"
  using assms by (auto simp: wp_def query_def Let_def split: option.splits)

lemma wp_selectI:
  assumes "Q (f (se_clock e (s_at s)) (s_db s)) (s\<lparr>s_at := Suc (s_at s)\<rparr>)" and "E db_error (s\<lparr>s_at := Suc (s_at s)\<rparr>)"
  shows "wp (select e f) Q E s"
  unfolding select_def using assms by (intro wp_queryI) auto

lemma wp_app_now [wp_simps]: "wp (app_now e) Q E s = Q (se_app_clock e (s_at s)) (s\<lparr>s_at := Suc (s_at s)\<rparr>)"
  by (simp add: wp_def app_now_def)

lemma wp_fresh_uuid [wp_simps]: "wp (fresh_uuid e) Q E s = Q (se_uuid e (s_at s)) (s\<lparr>s_at := Suc (s_at s)\<rparr>)"
  by (simp add: wp_def fresh_uuid_def)

lemma wp_refuse_existing:
  assumes "Q () s" and "\<And>x t. s_db t = s_db s \<Longrightarrow> s_at s \<le> s_at t \<Longrightarrow> E x t"
  shows "wp (refuse_existing e content existing) Q E s"
  using assms by (auto simp: refuse_existing_def wp_simps split: option.splits)

lemma pkeeps_wpI: "(\<And>s. I s \<Longrightarrow> wp m (\<lambda>_. I) (\<lambda>_. I) s) \<Longrightarrow> pkeeps I m"
  by (auto simp: pkeeps_def intro: wp_snd)

section \<open>The contract of the tables\<close>

locale table_law =
  fixes K :: "sstate \<Rightarrow> bool" and owner :: string and allowed :: "string \<Rightarrow> bool"
  assumes wf: "K s \<Longrightarrow> wf_tables (s_db s)"
    and tick: "K s \<Longrightarrow> K (s\<lparr>s_at := n\<rparr>)"
    and owned: "K s \<Longrightarrow> c \<in> set (convs (s_db s)) \<Longrightarrow> c_owner c = owner \<Longrightarrow> allowed (c_id c)"
    and fresh: "K s \<Longrightarrow> \<not> has_conv i (s_db s) \<Longrightarrow> allowed i"
    and change_convs_law: "K s \<Longrightarrow> keeps_conv_key f \<Longrightarrow> (\<And>c. c \<in> set (convs (s_db s)) \<Longrightarrow> P c \<Longrightarrow> allowed (c_id c))
        \<Longrightarrow> K (s\<lparr>s_db := change_convs P f (s_db s)\<rparr>)"
    and change_msgs_law: "K s \<Longrightarrow> keeps_key Q g \<Longrightarrow> (\<And>m. m \<in> set (msgs (s_db s)) \<Longrightarrow> Q m \<Longrightarrow> allowed (m_conv m))
        \<Longrightarrow> K (s\<lparr>s_db := change_msgs Q g (s_db s)\<rparr>)"
    and insert_conv_law: "K s \<Longrightarrow> \<not> has_conv (c_id c) (s_db s) \<Longrightarrow> K (s\<lparr>s_db := s_db s\<lparr>convs := convs (s_db s) @ [c]\<rparr>\<rparr>)"
    and insert_msg_law: "K s \<Longrightarrow> allowed (m_conv m) \<Longrightarrow> m_attempt m \<le> MAX_TURN_ATTEMPTS \<Longrightarrow> insert_msg m (s_db s) = Some d
        \<Longrightarrow> K (s\<lparr>s_db := d\<rparr>)"
    and insert_trans_law: "K s \<Longrightarrow> allowed (t_conv t) \<Longrightarrow> wf_tables (s_db s\<lparr>transs := transs (s_db s) @ [t]\<rparr>)
        \<Longrightarrow> K (s\<lparr>s_db := s_db s\<lparr>transs := transs (s_db s) @ [t]\<rparr>\<rparr>)"
    and insert_proj_law: "K s \<Longrightarrow> allowed (p_conv p) \<Longrightarrow> wf_tables (s_db s\<lparr>projs := projs (s_db s) @ [p]\<rparr>)
        \<Longrightarrow> K (s\<lparr>s_db := s_db s\<lparr>projs := projs (s_db s) @ [p]\<rparr>\<rparr>)"
    and replace_proj_law: "K s \<Longrightarrow> allowed (p_conv p) \<Longrightarrow>
        K (s\<lparr>s_db := s_db s\<lparr>projs := map (\<lambda>q. if p_conv q = p_conv p then p else q) (projs (s_db s))\<rparr>\<rparr>)"
begin

lemma query_keeps:
  assumes "\<And>s x d. K s \<Longrightarrow> f (se_clock e (s_at s)) (s_db s) = Some (x, d) \<Longrightarrow> K (s\<lparr>s_db := d\<rparr>)"
  shows "pkeeps K (query e f)"
  unfolding pkeeps_def
proof (intro allI impI)
  fix s assume k: "K s"
  have "K (s\<lparr>s_at := Suc (s_at s), s_db := d\<rparr>)" if "f (se_clock e (s_at s)) (s_db s) = Some (x, d)" for x d
    using tick [OF assms [OF k that], of "Suc (s_at s)"] by (cases s) simp
  then show "K (snd (query e f s))"
    using k tick [OF k] by (auto simp: query_def Let_def split: option.splits)
qed

lemma select_keeps [inv_intros]: "pkeeps K (select e f)"
  unfolding select_def by (rule query_keeps) simp

lemma statement_keeps [inv_intros]: "pkeeps K (statement e)"
  unfolding statement_def by (rule select_keeps)

lemma fresh_uuid_keeps [inv_intros]: "pkeeps K (fresh_uuid e)"
  by (simp add: pkeeps_def fresh_uuid_def tick)

lemma app_now_keeps [inv_intros]: "pkeeps K (app_now e)"
  by (simp add: pkeeps_def app_now_def tick)

lemma withActor_keeps [inv_intros]:
  assumes "pkeeps K work"
  shows "pkeeps K (withActor e work)"
proof -
  let ?m = "pbind (statement e) (\<lambda>_. pbind (statement e) (\<lambda>_. pbind work (\<lambda>result. pbind (statement e) (\<lambda>_. pret result))))"
  have "pkeeps K ?m"
    by (intro inv_intros assms)
  moreover have "K (t\<lparr>s_db := s_db s\<rparr>)" if "K s" for s t :: sstate
    using tick [OF that, of "s_at t"] by (cases s; cases t) simp
  ultimately show ?thesis
    unfolding pkeeps_def withActor_def by (simp add: split_beta split: sum.splits)
qed

lemma change_convs_keeps:
  assumes "\<And>now. keeps_conv_key (f now)" and "\<And>s c. K s \<Longrightarrow> c \<in> set (convs (s_db s)) \<Longrightarrow> P c \<Longrightarrow> allowed (c_id c)"
  shows "pkeeps K (query e (\<lambda>now d. Some (r now d, change_convs P (f now) d)))"
  by (rule query_keeps) (auto intro: change_convs_law assms)

lemma change_msgs_keeps:
  assumes "\<And>now d. keeps_key (P now d) (f now)" and "\<And>s m now. K s \<Longrightarrow> m \<in> set (msgs (s_db s)) \<Longrightarrow> P now (s_db s) m \<Longrightarrow> allowed (m_conv m)"
  shows "pkeeps K (query e (\<lambda>now d. Some (r now d, change_msgs (P now d) (f now) d)))"
  by (rule query_keeps) (auto intro: change_msgs_law assms)

lemma update_own_keeps [inv_intros]:
  "(\<And>now. keeps_conv_key (f now)) \<Longrightarrow> pkeeps K (update_own e i owner f)"
  unfolding update_own_def by (rule change_convs_keeps) (auto simp: own_def intro: owned)

lemma touch_keeps [inv_intros]: "allowed i \<Longrightarrow> pkeeps K (touch_conversation e i modelId)"
  unfolding touch_conversation_def by (rule change_convs_keeps) (auto simp: keeps_conv_key_def)

lemma first_attempt_keeps [inv_intros]: "allowed i \<Longrightarrow> pkeeps K (first_attempt e i request content modelId lease)"
  unfolding first_attempt_def
  by (intro inv_intros query_keeps) (auto intro!: insert_msg_law simp: MAX_TURN_ATTEMPTS_def)

lemma insert_transition_keeps [inv_intros]: "allowed (tn_conv tn) \<Longrightarrow> pkeeps K (insert_transition e owner' tn tr)"
  unfolding insert_transition_def
  by (rule query_keeps) (auto split: if_splits intro!: insert_trans_law wf_insert_trans wf simp: list_ex_iff)

lemma upsert_projection_keeps [inv_intros]: "allowed (p_conv row) \<Longrightarrow> pkeeps K (upsert_projection e row)"
  unfolding upsert_projection_def
  by (rule query_keeps) (auto split: option.splits if_splits simp: find_None_iff
      intro!: insert_proj_law wf_insert_proj replace_proj_law wf)

lemma commit_keeps [inv_intros]: "allowed (tn_conv tn) \<Longrightarrow> pkeeps K (commitDialogueTransition e owner' tn candidate)"
  unfolding commitDialogueTransition_def Let_def
  by (intro inv_intros) (simp_all add: projection_row_def Let_def)

lemma upsert_answer_keeps [inv_intros]:
  "allowed (m_conv row) \<Longrightarrow> m_attempt row \<le> MAX_TURN_ATTEMPTS \<Longrightarrow> pkeeps K (upsert_answer e row)"
  unfolding upsert_answer_def Let_def
  by (rule query_keeps) (auto split: option.splits simp: of_turn_def keeps_key_def same_key_def
      intro!: change_msgs_law elim!: insert_msg_law [rotated 3])

lemma complete_tail_keeps:
  "allowed (tn_conv tn) \<Longrightarrow> pkeeps K (query e (\<lambda>now d. Some ((), change_msgs (leased tn) (release ''completed'' now) d)))"
  by (rule change_msgs_keeps) (auto simp: leased_def of_turn_def release_keeps_key)

lemma select_bind_keeps:
  assumes "\<And>s now. K s \<Longrightarrow> pkeeps K (f (g now (s_db s)))"
  shows "pkeeps K (pbind (select e g) f)"
  by (rule pkeeps_wpI) (auto simp: wp_pbind intro!: wp_selectI tick pkeeps_wp assms)

lemma same_db: "K s \<Longrightarrow> s_db t = s_db s \<Longrightarrow> K t"
  using tick [of s "s_at t"] by (cases s; cases t) simp

lemma retry_keeps:
  assumes "K s" and "existing \<in> set (msgs (s_db s))" and "allowed (m_conv existing)"
  shows "wp (retry_turn e existing lease) (\<lambda>_. K) (\<lambda>_. K) s"
proof -
  let ?P = "\<lambda>m. m_id m = m_id existing \<and> m_attempt m < MAX_TURN_ATTEMPTS"
  have one: "m = existing" if "m \<in> set (msgs (s_db s))" "?P m" for m
    using that assms(2) wf [OF assms(1)] by (auto simp: wf_tables_def distinct_map inj_on_def)
  have "K (s\<lparr>s_db := change_msgs ?P g (s_db s)\<rparr>)" if "keeps_key ?P g" for g
    using change_msgs_law [OF assms(1) that] one assms(3) by blast
  then have "K (s\<lparr>s_at := n, s_db := change_msgs ?P g (s_db s)\<rparr>)" if "keeps_key ?P g" for g n
    using same_db [OF _ , of _ "s\<lparr>s_at := n, s_db := change_msgs ?P g (s_db s)\<rparr>"] that by fastforce
  then show ?thesis
    unfolding retry_turn_def Let_def wp_pbind
    by (intro wp_queryI) (auto simp: wp_simps keeps_key_def same_key_def intro: tick assms)
qed

lemma admit_keeps [inv_intros]:
  assumes "allowed i"
  shows "pkeeps K (admit_turn e i request content modelId lease)"
  unfolding admit_turn_def
proof (rule pkeeps_wpI)
  fix s assume k: "K s"
  let ?x = "find (of_turn i request ''user'') (msgs (s_db s))"
  have t: "K (s\<lparr>s_at := Suc (s_at s)\<rparr>)"
    by (rule tick [OF k])
  have "wp (case ?x of None \<Rightarrow> first_attempt e i request content modelId lease | Some m \<Rightarrow> retry_turn e m lease)
      (\<lambda>_. K) (\<lambda>_. K) (s\<lparr>s_at := Suc (s_at s)\<rparr>)"
    using t assms by (auto split: option.splits simp: find_Some_iff of_turn_def intro!: retry_keeps first_attempt_keeps [THEN pkeeps_wp])
  then show "wp (pbind (select e (\<lambda>_ d. find (of_turn i request ''user'') (msgs d))) (\<lambda>existing.
     pbind (refuse_existing e content existing) (\<lambda>_. case existing of
       None \<Rightarrow> first_attempt e i request content modelId lease | Some m \<Rightarrow> retry_turn e m lease))) (\<lambda>_. K) (\<lambda>_. K) s"
    unfolding wp_pbind by (intro wp_selectI wp_refuse_existing t same_db [OF t])
qed

lemma start_turn_keeps [inv_intros]: "allowed (c_id c) \<Longrightarrow> pkeeps K (start_turn e owner' c request content modelId lease)"
  unfolding start_turn_def by (intro inv_intros)

lemma refuse_concurrent_keeps [inv_intros]: "pkeeps K (refuse_concurrent e i request)"
  unfolding refuse_concurrent_def by (intro inv_intros)

lemma answer_turn_keeps [inv_intros]: "allowed (tn_conv tn) \<Longrightarrow> pkeeps K (answer_turn e owner' tn response modelId)"
  unfolding answer_turn_def by (intro inv_intros complete_tail_keeps) simp_all

lemma own_allowed: "K s \<Longrightarrow> find (own i owner) (convs (s_db s)) = Some c \<Longrightarrow> allowed i \<and> c_id c = i"
  by (auto simp: find_Some_iff own_def dest: owned [OF _ nth_mem])

lemma complete_body_keeps [inv_intros]: "pkeeps K (complete_body e owner tn response modelId)"
  unfolding complete_body_def
  by (rule select_bind_keeps, intro inv_intros) (auto dest: own_allowed)

lemma new_conversation_keeps: "pkeeps K (new_conversation e owner content modelId)"
  unfolding new_conversation_def Let_def
  by (intro inv_intros query_keeps) (auto split: if_splits intro!: insert_conv_law)

lemma new_conversation_allowed:
  "K s \<Longrightarrow> new_conversation e owner content modelId s = (Inr c, t) \<Longrightarrow> allowed (c_id c)"
  by (auto simp: new_conversation_def query_def Let_def res_splits plift_def fresh_uuid_def split: if_splits intro: fresh)

lemma turn_conversation_keeps:
  assumes "K s"
  shows "wp (turn_conversation e owner requested content modelId) (\<lambda>c t. K t \<and> allowed (c_id c)) (\<lambda>_. K) s"
proof (cases "requested = []")
  case True
  then show ?thesis
    using new_conversation_keeps [of e content modelId] new_conversation_allowed [OF assms, of e content modelId] assms
    by (fastforce simp: turn_conversation_def wp_def pkeeps_def split: sum.splits prod.splits)
next
  case False
  then show ?thesis
    unfolding turn_conversation_def
    by (auto simp: wp_simps split: option.splits intro!: wp_selectI tick assms dest: own_allowed [OF assms])
qed

lemma begin_body_keeps [inv_intros]: "pkeeps K (begin_body e owner requested request content modelId lease)"
proof (rule pkeeps_wpI)
  fix s assume k: "K s"
  show "wp (begin_body e owner requested request content modelId lease) (\<lambda>_. K) (\<lambda>_. K) s"
    unfolding begin_body_def wp_pbind
  proof (rule wp_mono [OF turn_conversation_keeps [OF k]])
    fix c :: conv and t assume "K t \<and> allowed (c_id c)"
    then show "wp (refuse_concurrent e (c_id c) request) (\<lambda>x. wp (select e (\<lambda>_ d. find (\<lambda>m. of_turn (c_id c) request ''assistant'' m \<and> m_status m = ''completed'') (msgs d)))
         (\<lambda>replay. wp (case replay of Some m \<Rightarrow> pret (Replay (responseFromAssistant m))
             | None \<Rightarrow> start_turn e owner c request content modelId lease) (\<lambda>_. K) (\<lambda>_. K)) (\<lambda>_. K)) (\<lambda>_. K) t"
      unfolding wp_pbind [symmetric] by (intro pkeeps_wp inv_intros) simp_all
  qed
qed

lemma held_allowed: "K s \<Longrightarrow> held_by (s_db s) owner tn m \<Longrightarrow> allowed (m_conv m)"
  by (auto simp: held_by_def list_ex_iff leased_def of_turn_def dest: owned)

lemma fail_body_keeps [inv_intros]:
  "pkeeps K (query e (\<lambda>now d. Some ((), change_msgs (held_by d owner tn) (release ''failed'' now) d)))"
  by (rule change_msgs_keeps) (auto simp: release_keeps_key dest: held_allowed)

lemma heartbeat_query_keeps [inv_intros]:
  "pkeeps K (query e (\<lambda>now d. let P = (\<lambda>m. held_by d owner tn m \<and> live now m) in
     Some (if list_ex P (msgs d) then Some (lease_until now) else None,
           change_msgs P (\<lambda>m. m\<lparr>m_beat := Some now, m_expires := Some (lease_until now)\<rparr>) d)))"
  unfolding Let_def by (rule change_msgs_keeps) (auto simp: keeps_key_def same_key_def dest: held_allowed)

lemma owner_keeps:
  assumes "\<And>x. ownerId a = Inr x \<Longrightarrow> x = owner" and "pkeeps K (m owner)"
  shows "pkeeps K (pbind (plift (ownerId a)) m)"
  using assms by (cases "ownerId a") (auto simp: pkeeps_def prog_defs)

lemma list_op_keeps: "(\<And>x. ownerId a = Inr x \<Longrightarrow> x = owner) \<Longrightarrow> pkeeps K (list_conversations e a options)"
  unfolding list_conversations_def by (rule owner_keeps) (auto intro!: inv_intros simp: keeps_conv_key_def split: option.splits)

lemma get_op_keeps: "(\<And>x. ownerId a = Inr x \<Longrightarrow> x = owner) \<Longrightarrow> pkeeps K (get_conversation e a v)"
  unfolding get_conversation_def by (rule owner_keeps) (auto intro!: inv_intros simp: keeps_conv_key_def split: option.splits)

lemma update_op_keeps: "(\<And>x. ownerId a = Inr x \<Longrightarrow> x = owner) \<Longrightarrow> pkeeps K (update_conversation e a v patch)"
  unfolding update_conversation_def Let_def by (rule owner_keeps) (auto intro!: inv_intros simp: keeps_conv_key_def split: option.splits)

lemma remove_op_keeps: "(\<And>x. ownerId a = Inr x \<Longrightarrow> x = owner) \<Longrightarrow> pkeeps K (remove_conversation e a v)"
  unfolding remove_conversation_def by (rule owner_keeps) (auto intro!: inv_intros simp: keeps_conv_key_def split: option.splits)

lemma begin_op_keeps: "(\<And>x. ownerId a = Inr x \<Longrightarrow> x = owner) \<Longrightarrow> pkeeps K (beginTurn e a body)"
  unfolding beginTurn_def by (rule owner_keeps) (auto intro!: inv_intros simp: keeps_conv_key_def split: option.splits)

lemma complete_op_keeps: "(\<And>x. ownerId a = Inr x \<Longrightarrow> x = owner) \<Longrightarrow> pkeeps K (completeTurn e a tn response)"
  unfolding completeTurn_def by (rule owner_keeps) (auto intro!: inv_intros simp: keeps_conv_key_def split: option.splits)

lemma fail_op_keeps: "(\<And>x. ownerId a = Inr x \<Longrightarrow> x = owner) \<Longrightarrow> pkeeps K (failTurn e a tn)"
  unfolding failTurn_def by (rule owner_keeps) (auto intro!: inv_intros simp: keeps_conv_key_def split: option.splits)

lemma heartbeat_op_keeps: "(\<And>x. ownerId a = Inr x \<Longrightarrow> x = owner) \<Longrightarrow> pkeeps K (heartbeatTurn e a tn)"
  unfolding heartbeatTurn_def by (rule owner_keeps) (auto intro!: inv_intros simp: keeps_conv_key_def split: option.splits)

lemma context_op_keeps: "(\<And>x. ownerId a = Inr x \<Longrightarrow> x = owner) \<Longrightarrow> pkeeps K (dialogueContext e a v)"
  unfolding dialogueContext_def by (rule owner_keeps) (auto intro!: inv_intros simp: keeps_conv_key_def split: option.splits)

lemma run_op_keeps:
  "(\<And>x. ownerId (op_actor request) = Inr x \<Longrightarrow> x = owner) \<Longrightarrow> pkeeps K (run_op e request)"
  by (cases request) (auto intro!: pkeeps_pbind pkeeps_pret list_op_keeps get_op_keeps update_op_keeps remove_op_keeps begin_op_keeps complete_op_keeps fail_op_keeps heartbeat_op_keeps context_op_keeps)

end

section \<open>Two instances of the contract\<close>

text \<open>Well-formedness, for every caller.\<close>

interpretation wf_law: table_law "\<lambda>s. wf_tables (s_db s)" owner "\<lambda>_. True" for owner
  by unfold_locales (auto intro: wf_change_convs wf_change_msgs wf_insert_conv wf_insert_msg wf_replace_proj)

text \<open>The rows of one conversation, and the fact that it belongs to another owner.\<close>

definition view :: "string \<Rightarrow> tables \<Rightarrow> conv list \<times> msg list \<times> proj list \<times> trans list" where
  "view j d = (filter (\<lambda>c. c_id c = j) (convs d), filter (\<lambda>m. m_conv m = j) (msgs d),
     filter (\<lambda>p. p_conv p = j) (projs d), filter (\<lambda>t. t_conv t = j) (transs d))"

definition foreign_conv :: "string \<Rightarrow> string \<Rightarrow> tables \<Rightarrow> bool" where
  "foreign_conv j owner d \<longleftrightarrow> list_ex (\<lambda>c. c_id c = j \<and> c_owner c \<noteq> owner) (convs d)"

lemma filter_change:
  "(\<And>x. k (f x) = k x) \<Longrightarrow> (\<And>x. x \<in> set xs \<Longrightarrow> P x \<Longrightarrow> k x \<noteq> j)
     \<Longrightarrow> filter (\<lambda>x. k x = j) (map (\<lambda>x. if P x then f x else x) xs) = filter (\<lambda>x. k x = j) xs"
  by (induction xs) auto

lemma foreign_owned:
  "wf_tables d \<Longrightarrow> foreign_conv j owner d \<Longrightarrow> c \<in> set (convs d) \<Longrightarrow> c_owner c = owner \<Longrightarrow> c_id c \<noteq> j"
  by (auto simp: wf_tables_def foreign_conv_def list_ex_iff distinct_map inj_on_def)

lemma foreign_has: "foreign_conv j owner d \<Longrightarrow> has_conv j d"
  by (auto simp: foreign_conv_def has_conv_def list_ex_iff)

lemma view_change_convs:
  assumes "keeps_conv_key f" and "\<And>c. c \<in> set (convs d) \<Longrightarrow> P c \<Longrightarrow> c_id c \<noteq> j"
  shows "view j (change_convs P f d) = view j d" and "foreign_conv j owner (change_convs P f d) = foreign_conv j owner d"
  using assms filter_change [of c_id f "convs d" P j]
  by (auto simp: view_def change_convs_def keeps_conv_key_def foreign_conv_def list_ex_iff)

lemma view_change_msgs:
  assumes "keeps_key P f" and "\<And>m. m \<in> set (msgs d) \<Longrightarrow> P m \<Longrightarrow> m_conv m \<noteq> j"
  shows "view j (change_msgs P f d) = view j d" and "foreign_conv j owner (change_msgs P f d) = foreign_conv j owner d"
  using assms filter_change [of m_conv f "msgs d" P j]
  by (auto simp: view_def change_msgs_def keeps_key_def same_key_def foreign_conv_def)

lemma view_insert_msg:
  "insert_msg m d = Some d' \<Longrightarrow> m_conv m \<noteq> j \<Longrightarrow> view j d' = view j d \<and> foreign_conv j owner d' = foreign_conv j owner d"
  by (auto simp: insert_msg_def view_def foreign_conv_def split: if_splits)

lemma filter_replace_proj:
  "p_conv p \<noteq> j \<Longrightarrow> filter (\<lambda>q. p_conv q = j) (map (\<lambda>q. if p_conv q = p_conv p then p else q) xs) = filter (\<lambda>q. p_conv q = j) xs"
  by (induction xs) auto

lemma view_other_tables:
  "p_conv p \<noteq> j \<Longrightarrow> view j (d\<lparr>projs := map (\<lambda>q. if p_conv q = p_conv p then p else q) (projs d)\<rparr>) = view j d"
  "p_conv p \<noteq> j \<Longrightarrow> view j (d\<lparr>projs := projs d @ [p]\<rparr>) = view j d"
  "t_conv t \<noteq> j \<Longrightarrow> view j (d\<lparr>transs := transs d @ [t]\<rparr>) = view j d"
  "foreign_conv j owner (d\<lparr>projs := ps\<rparr>) = foreign_conv j owner d" "foreign_conv j owner (d\<lparr>transs := ts\<rparr>) = foreign_conv j owner d"
  by (simp_all add: view_def filter_replace_proj foreign_conv_def)

interpretation isolation: table_law "\<lambda>s. wf_tables (s_db s) \<and> foreign_conv j owner (s_db s) \<and> view j (s_db s) = v" owner "\<lambda>i. i \<noteq> j"
  for j owner v
proof unfold_locales
  fix s and c :: conv
  assume "wf_tables (s_db s) \<and> foreign_conv j owner (s_db s) \<and> view j (s_db s) = v" "\<not> has_conv (c_id c) (s_db s)"
  then show "wf_tables (s_db (s\<lparr>s_db := s_db s\<lparr>convs := convs (s_db s) @ [c]\<rparr>\<rparr>))
    \<and> foreign_conv j owner (s_db (s\<lparr>s_db := s_db s\<lparr>convs := convs (s_db s) @ [c]\<rparr>\<rparr>))
    \<and> view j (s_db (s\<lparr>s_db := s_db s\<lparr>convs := convs (s_db s) @ [c]\<rparr>\<rparr>)) = v"
    using foreign_has [of j owner "s_db s"] by (auto simp: wf_insert_conv foreign_conv_def view_def)
qed (auto simp: foreign_owned view_change_convs view_change_msgs wf_change_convs wf_change_msgs wf_replace_proj view_other_tables
    dest: foreign_owned foreign_has view_insert_msg intro: wf_insert_msg)

end
