(* ===== verification/StoreLive.thy ===== *)
theory StoreLive
  imports StoreLaws
begin

text \<open>
  Leases of turns.  A turn is live while its user message is pending and its lease has not expired on the database clock.  Statements that
  release or renew a lease never create a second live turn; the two that grant one do so after the check for a concurrent turn, on
  whose result the proof of \<open>begin_body\<close> rests.
\<close>

section \<open>One live turn per conversation\<close>

definition only_turn :: "string \<Rightarrow> string \<Rightarrow> rat \<Rightarrow> tables \<Rightarrow> bool" where
  "only_turn i r now d \<longleftrightarrow> (\<forall>m\<in>set (msgs d). m_conv m = i \<and> live now m \<longrightarrow> m_turn m = r)"

definition one_live :: "rat \<Rightarrow> tables \<Rightarrow> bool" where
  "one_live now d \<longleftrightarrow> (\<forall>i. \<exists>r. only_turn i r now d)"

lemma live_antimono: "live now' m \<Longrightarrow> now \<le> now' \<Longrightarrow> live now m"
  by (auto simp: live_def split: option.splits)

lemma only_turn_later: "only_turn i r now d \<Longrightarrow> now \<le> now' \<Longrightarrow> only_turn i r now' d"
  by (auto simp: only_turn_def dest: live_antimono)

lemma one_live_later: "one_live now d \<Longrightarrow> now \<le> now' \<Longrightarrow> one_live now' d"
  unfolding one_live_def by (metis only_turn_later)

lemma only_turn_same_msgs: "msgs d' = msgs d \<Longrightarrow> only_turn i r now d' = only_turn i r now d"
  by (simp add: only_turn_def)

lemma one_live_same_msgs: "msgs d' = msgs d \<Longrightarrow> one_live now d' = one_live now d"
  by (simp add: one_live_def only_turn_def)

lemma only_turn_change:
  assumes "only_turn i r now d" and "keeps_key P f"
    and "\<And>m. m \<in> set (msgs d) \<Longrightarrow> P m \<Longrightarrow> live now (f m) \<Longrightarrow> live now m \<or> m_conv m \<noteq> i \<or> m_turn m = r"
  shows "only_turn i r now (change_msgs P f d)"
  using assms by (fastforce simp: only_turn_def change_msgs_def keeps_key_def same_key_def)

lemma one_live_change:
  assumes "one_live now d" and "keeps_key P f" and "\<And>m. m \<in> set (msgs d) \<Longrightarrow> P m \<Longrightarrow> live now (f m) \<Longrightarrow> live now m"
  shows "one_live now (change_msgs P f d)"
  using assms unfolding one_live_def by (metis only_turn_change)

lemma one_live_grant:
  assumes "one_live now d" and "only_turn i r now d" and "keeps_key P f"
    and "\<And>m. m \<in> set (msgs d) \<Longrightarrow> P m \<Longrightarrow> m_conv m = i \<and> m_turn m = r"
  shows "one_live now (change_msgs P f d) \<and> only_turn i r now (change_msgs P f d)"
proof -
  have 1: "only_turn i r now (change_msgs P f d)"
    by (rule only_turn_change [OF assms(2,3)]) (simp add: assms(4))
  have "\<exists>r'. only_turn j r' now (change_msgs P f d)" if "j \<noteq> i" for j
    using assms(1) only_turn_change [OF _ assms(3), of j _ now] assms(4) that unfolding one_live_def by metis
  then show ?thesis
    using 1 unfolding one_live_def by metis
qed

lemma one_live_insert:
  assumes "one_live now d" and "insert_msg m d = Some d'" and "live now m \<Longrightarrow> only_turn (m_conv m) (m_turn m) now d"
  shows "one_live now d' \<and> (only_turn (m_conv m) (m_turn m) now d \<longrightarrow> only_turn (m_conv m) (m_turn m) now d')"
proof -
  have d': "set (msgs d') = insert m (set (msgs d))"
    using assms(2) by (auto simp: insert_msg_def split: if_splits)
  have "\<exists>r. only_turn j r now d'" for j
  proof (cases "live now m \<and> m_conv m = j")
    case True
    with assms(3) show ?thesis
      by (auto simp: only_turn_def d' intro!: exI [of _ "m_turn m"])
  next
    case False
    obtain r where "only_turn j r now d"
      using assms(1) by (auto simp: one_live_def)
    with False show ?thesis
      by (auto simp: only_turn_def d' intro!: exI [of _ r])
  qed
  then show ?thesis
    by (auto simp: one_live_def only_turn_def d')
qed

definition live_at :: "senv \<Rightarrow> nat \<Rightarrow> sstate \<Rightarrow> bool" where
  "live_at e n s \<longleftrightarrow> n \<le> s_at s \<and> one_live (se_clock e (s_at s)) (s_db s)"

definition turn_at :: "senv \<Rightarrow> nat \<Rightarrow> string \<Rightarrow> string \<Rightarrow> sstate \<Rightarrow> bool" where
  "turn_at e n i r s \<longleftrightarrow> live_at e n s \<and> wf_tables (s_db s) \<and> only_turn i r (se_clock e (s_at s)) (s_db s)"

lemma clock_step: "mono (se_clock e) \<Longrightarrow> se_clock e n \<le> se_clock e (Suc n)"
  by (simp add: monoD)

lemma live_tick: "mono (se_clock e) \<Longrightarrow> live_at e n s \<Longrightarrow> live_at e n (s\<lparr>s_at := Suc (s_at s)\<rparr>)"
  by (auto simp: live_at_def intro: one_live_later [OF _ clock_step])

lemma turn_tick: "mono (se_clock e) \<Longrightarrow> turn_at e n i r s \<Longrightarrow> turn_at e n i r (s\<lparr>s_at := Suc (s_at s)\<rparr>)"
  by (auto simp: turn_at_def intro: live_tick only_turn_later [OF _ clock_step])

lemma tick_db: "s\<lparr>s_at := Suc (s_at s), s_db := d\<rparr> = (s\<lparr>s_db := d\<rparr>)\<lparr>s_at := Suc (s_at (s\<lparr>s_db := d\<rparr>))\<rparr>" for s :: sstate
  by (cases s) simp

lemma live_query:
  assumes "mono (se_clock e)" and "\<And>now d x d'. one_live now d \<Longrightarrow> f now d = Some (x, d') \<Longrightarrow> one_live now d'"
  shows "pkeeps (live_at e n) (query e f)"
proof (rule pkeeps_wpI, rule wp_queryI)
  fix s x d assume s: "live_at e n s" and q: "f (se_clock e (s_at s)) (s_db s) = Some (x, d)"
  have "live_at e n (s\<lparr>s_db := d\<rparr>)"
    using s assms(2) [OF _ q] by (simp add: live_at_def)
  then show "live_at e n (s\<lparr>s_at := Suc (s_at s), s_db := d\<rparr>)"
    unfolding tick_db by (rule live_tick [OF assms(1)])
qed (rule live_tick [OF assms(1)])

lemma turn_query:
  assumes "mono (se_clock e)"
    and "\<And>now d x d'. wf_tables d \<Longrightarrow> one_live now d \<Longrightarrow> only_turn i r now d \<Longrightarrow> f now d = Some (x, d')
           \<Longrightarrow> wf_tables d' \<and> one_live now d' \<and> only_turn i r now d'"
  shows "pkeeps (turn_at e n i r) (query e f)"
proof (rule pkeeps_wpI, rule wp_queryI)
  fix s x d assume s: "turn_at e n i r s" and q: "f (se_clock e (s_at s)) (s_db s) = Some (x, d)"
  have "turn_at e n i r (s\<lparr>s_db := d\<rparr>)"
    using s assms(2) [OF _ _ _ q] by (simp add: turn_at_def live_at_def)
  then show "turn_at e n i r (s\<lparr>s_at := Suc (s_at s), s_db := d\<rparr>)"
    unfolding tick_db by (rule turn_tick [OF assms(1)])
qed (rule turn_tick [OF assms(1)])

lemma live_select [inv_intros]: "mono (se_clock e) \<Longrightarrow> pkeeps (live_at e n) (select e f)"
  unfolding select_def by (rule live_query) auto

lemma turn_select [inv_intros]: "mono (se_clock e) \<Longrightarrow> pkeeps (turn_at e n i r) (select e f)"
  unfolding select_def by (rule turn_query) auto

lemma live_statement [inv_intros]: "mono (se_clock e) \<Longrightarrow> pkeeps (live_at e n) (statement e)"
  unfolding statement_def by (rule live_select)

lemma live_uuid_now [inv_intros]:
  "mono (se_clock e) \<Longrightarrow> pkeeps (live_at e n) (fresh_uuid e)" "mono (se_clock e) \<Longrightarrow> pkeeps (live_at e n) (app_now e)"
  "mono (se_clock e) \<Longrightarrow> pkeeps (turn_at e n i r) (fresh_uuid e)" "mono (se_clock e) \<Longrightarrow> pkeeps (turn_at e n i r) (app_now e)"
  using live_tick [of e] turn_tick [of e] by (simp_all add: pkeeps_def fresh_uuid_def app_now_def)

text \<open>Statements that do not touch a lease, and the ones that release or renew it.\<close>

lemma live_change_convs [inv_intros]:
  "mono (se_clock e) \<Longrightarrow> pkeeps (live_at e n) (query e (\<lambda>now d. Some (r now d, change_convs P (f now) d)))"
  by (rule live_query) (auto simp: one_live_same_msgs [of "change_convs P (f _) _"])

lemma live_update_own [inv_intros]: "mono (se_clock e) \<Longrightarrow> pkeeps (live_at e n) (update_own e i owner f)"
  unfolding update_own_def by (rule live_change_convs)

lemma live_touch [inv_intros]: "mono (se_clock e) \<Longrightarrow> pkeeps (live_at e n) (touch_conversation e i modelId)"
  unfolding touch_conversation_def by (rule live_change_convs)

lemma turn_touch [inv_intros]: "mono (se_clock e) \<Longrightarrow> pkeeps (turn_at e n i r) (touch_conversation e j modelId)"
  unfolding touch_conversation_def
  by (rule turn_query) (auto simp: keeps_conv_key_def one_live_same_msgs [of "change_convs _ _ _"]
     only_turn_same_msgs [of "change_convs _ _ _"] intro: wf_change_convs)

lemma live_insert_transition [inv_intros]: "mono (se_clock e) \<Longrightarrow> pkeeps (live_at e n) (insert_transition e owner tn tr)"
  unfolding insert_transition_def by (rule live_query) (auto simp: one_live_def only_turn_def split: if_splits)

lemma live_upsert_projection [inv_intros]: "mono (se_clock e) \<Longrightarrow> pkeeps (live_at e n) (upsert_projection e row)"
  unfolding upsert_projection_def by (rule live_query) (auto simp: one_live_def only_turn_def split: if_splits option.splits)

lemma live_commit [inv_intros]: "mono (se_clock e) \<Longrightarrow> pkeeps (live_at e n) (commitDialogueTransition e owner tn candidate)"
  unfolding commitDialogueTransition_def Let_def by (intro inv_intros)

lemma live_upsert_answer [inv_intros]:
  assumes "mono (se_clock e)" and "m_role row = ''assistant''"
  shows "pkeeps (live_at e n) (upsert_answer e row)"
  unfolding upsert_answer_def Let_def using assms
  by (intro live_query) (auto split: option.splits simp: live_def keeps_key_def same_key_def
      intro: one_live_change dest: one_live_insert)

lemma live_release [inv_intros]:
  "mono (se_clock e) \<Longrightarrow> pkeeps (live_at e n) (query e (\<lambda>now d. Some (r now d, change_msgs (P now d) (release status now) d)))"
  by (rule live_query) (auto simp: release_keeps_key release_def live_def intro: one_live_change)

lemma live_new_conversation [inv_intros]: "mono (se_clock e) \<Longrightarrow> pkeeps (live_at e n) (new_conversation e owner content modelId)"
  unfolding new_conversation_def Let_def
  by (intro inv_intros live_query) (auto simp: one_live_def only_turn_def split: if_splits)

lemma live_turn_conversation [inv_intros]:
  "mono (se_clock e) \<Longrightarrow> pkeeps (live_at e n) (turn_conversation e owner requested content modelId)"
  unfolding turn_conversation_def by (intro inv_intros)

lemma live_heartbeat [inv_intros]:
  "mono (se_clock e) \<Longrightarrow> pkeeps (live_at e n) (query e (\<lambda>now d. let P = (\<lambda>m. held_by d owner tn m \<and> live now m) in
     Some (if list_ex P (msgs d) then Some (lease_until now) else None,
           change_msgs P (\<lambda>m. m\<lparr>m_beat := Some now, m_expires := Some (lease_until now)\<rparr>) d)))"
  unfolding Let_def by (rule live_query) (auto simp: keeps_key_def same_key_def intro: one_live_change)

lemma live_answer [inv_intros]: "mono (se_clock e) \<Longrightarrow> pkeeps (live_at e n) (answer_turn e owner tn response modelId)"
  unfolding answer_turn_def by (intro inv_intros) simp_all

lemma live_complete_body [inv_intros]: "mono (se_clock e) \<Longrightarrow> pkeeps (live_at e n) (complete_body e owner tn response modelId)"
  unfolding complete_body_def by (intro inv_intros)

section \<open>Taking a lease\<close>

lemma turn_first_attempt [inv_intros]:
  assumes "mono (se_clock e)"
  shows "pkeeps (turn_at e n i r) (first_attempt e i r content modelId lease)"
  unfolding first_attempt_def
proof (intro inv_intros turn_query assms)
  fix new_id sequence now d x d'
  let ?m = "\<lparr>m_id = new_id, m_conv = i, m_seq = sequence, m_turn = r, m_role = ''user'', m_content = content,
        m_model = modelId, m_meta = JObj [], m_status = ''pending'', m_created = now, m_completed = None,
        m_lease = Some lease, m_expires = Some (lease_until now), m_beat = Some now, m_attempt = 1\<rparr>"
  assume "wf_tables d" "one_live now d" "only_turn i r now d" "map_option (\<lambda>d'. ((), d')) (insert_msg ?m d) = Some (x, d')"
  then show "wf_tables d' \<and> one_live now d' \<and> only_turn i r now d'"
    using one_live_insert [of now d ?m d'] wf_insert_msg [of d ?m d'] by (auto simp: MAX_TURN_ATTEMPTS_def)
qed

lemma turn_retry:
  assumes "mono (se_clock e)" and "turn_at e n i r s" and "existing \<in> set (msgs (s_db s))" and "m_conv existing = i" and "m_turn existing = r"
  shows "turn_at e n i r (snd (retry_turn e existing lease s))"
proof -
  let ?P = "\<lambda>m. m_id m = m_id existing \<and> m_attempt m < MAX_TURN_ATTEMPTS"
  have one: "m_conv m = i \<and> m_turn m = r" if "m \<in> set (msgs (s_db s))" "?P m" for m
    using that assms by (auto simp: turn_at_def wf_tables_def distinct_map inj_on_def)
  have "turn_at e n i r (s\<lparr>s_db := change_msgs ?P g (s_db s)\<rparr>)" if "keeps_key ?P g" for g
    using assms(2) one_live_grant [OF _ _ that one] wf_change_msgs [OF _ that] by (auto simp: turn_at_def live_at_def)
  then have "turn_at e n i r (s\<lparr>s_at := Suc (s_at s), s_db := change_msgs ?P g (s_db s)\<rparr>)" if "keeps_key ?P g" for g
    unfolding tick_db using that by (intro turn_tick assms)
  then have "wp (retry_turn e existing lease) (\<lambda>_. turn_at e n i r) (\<lambda>_. turn_at e n i r) s"
    unfolding retry_turn_def Let_def wp_pbind
    by (intro wp_queryI) (auto simp: wp_simps keeps_key_def same_key_def intro!: turn_tick assms)
  then show ?thesis
    by (rule wp_snd)
qed

lemma turn_admit [inv_intros]:
  assumes "mono (se_clock e)"
  shows "pkeeps (turn_at e n i r) (admit_turn e i r content modelId lease)"
  unfolding admit_turn_def
proof (rule pkeeps_wpI)
  fix s assume k: "turn_at e n i r s"
  let ?I = "turn_at e n i r" and ?u = "s\<lparr>s_at := Suc (s_at s)\<rparr>" and ?x = "find (of_turn i r ''user'') (msgs (s_db s))"
  have u: "?I ?u"
    by (rule turn_tick [OF assms k])
  have later: "?I t" if "s_db t = s_db ?u" "s_at ?u \<le> s_at t" for t
    using u that monoD [OF assms that(2)] by (auto simp: turn_at_def live_at_def elim: one_live_later only_turn_later)
  have "?I (snd ((case ?x of None \<Rightarrow> first_attempt e i r content modelId lease | Some m \<Rightarrow> retry_turn e m lease) ?u))"
    using u turn_first_attempt [OF assms]
    by (auto split: option.splits simp: find_Some_iff of_turn_def pkeeps_def intro!: turn_retry [OF assms])
  then have "wp (case ?x of None \<Rightarrow> first_attempt e i r content modelId lease | Some m \<Rightarrow> retry_turn e m lease) (\<lambda>_. ?I) (\<lambda>_. ?I) ?u"
    by (auto simp: wp_def split: prod.splits sum.splits)
  then show "wp (pbind (select e (\<lambda>_ d. find (of_turn i r ''user'') (msgs d))) (\<lambda>existing.
     pbind (refuse_existing e content existing) (\<lambda>_. case existing of
       None \<Rightarrow> first_attempt e i r content modelId lease | Some m \<Rightarrow> retry_turn e m lease))) (\<lambda>_. ?I) (\<lambda>_. ?I) s"
    unfolding wp_pbind by (intro wp_selectI wp_refuse_existing u later)
qed

lemma turn_start [inv_intros]: "mono (se_clock e) \<Longrightarrow> pkeeps (turn_at e n (c_id c) r) (start_turn e owner c r content modelId lease)"
  unfolding start_turn_def by (intro inv_intros)

lemma refuse_concurrent_turn:
  assumes "mono (se_clock e)" and "live_at e n s" and "wf_tables (s_db s)"
  shows "wp (refuse_concurrent e i r) (\<lambda>_. turn_at e n i r) (\<lambda>_. live_at e n) s"
proof -
  have "only_turn i r (se_clock e (s_at s)) (s_db s)"
    if "find (\<lambda>m. m_conv m = i \<and> m_turn m \<noteq> r \<and> live (se_clock e (s_at s)) m) (msgs (s_db s)) = None"
    using that by (auto simp: find_None_iff only_turn_def)
  then show ?thesis
    unfolding refuse_concurrent_def wp_pbind using assms
    by (intro wp_selectI) (auto simp: wp_simps split: option.splits intro!: live_tick only_turn_later [OF _ clock_step] simp: turn_at_def intro: live_tick [of e n "s\<lparr>s_at := _\<rparr>", simplified])
qed

lemma live_begin_body:
  assumes "mono (se_clock e)" and "live_at e n s" and "wf_tables (s_db s)"
  shows "live_at e n (snd (begin_body e owner requested r content modelId lease s))"
proof -
  let ?I = "live_at e n"
  have weak: "wp (pbind (select e g) (\<lambda>replay. case replay of Some m \<Rightarrow> pret (Replay (responseFromAssistant m))
      | None \<Rightarrow> start_turn e owner c r content modelId lease)) (\<lambda>_. ?I) (\<lambda>_. ?I) t" if "turn_at e n (c_id c) r t" for c t g
  proof (rule wp_mono)
    show "wp (pbind (select e g) (\<lambda>replay. case replay of Some m \<Rightarrow> pret (Replay (responseFromAssistant m))
      | None \<Rightarrow> start_turn e owner c r content modelId lease)) (\<lambda>_. turn_at e n (c_id c) r) (\<lambda>_. turn_at e n (c_id c) r) t"
      by (intro pkeeps_wp inv_intros assms that)
  qed (simp_all add: turn_at_def)
  have "wp (turn_conversation e owner requested content modelId) (\<lambda>_ t. ?I t \<and> wf_tables (s_db t)) (\<lambda>_ t. ?I t \<and> wf_tables (s_db t)) s"
    using pkeeps_wp [OF live_turn_conversation [OF assms(1)] assms(2)] wf_law.turn_conversation_keeps [OF assms(3)]
    by (rule wp_mono [OF wp_conj]) auto
  then have "wp (begin_body e owner requested r content modelId lease) (\<lambda>_. ?I) (\<lambda>_. ?I) s"
    unfolding begin_body_def by (rule wp_pbindI [OF wp_mono])
      (auto intro!: wp_pbindI [OF refuse_concurrent_turn [OF assms(1)]] weak)
  then show ?thesis
    by (rule wp_snd)
qed

section \<open>Transactions and runs\<close>

definition sound_at :: "senv \<Rightarrow> nat \<Rightarrow> sstate \<Rightarrow> bool" where
  "sound_at e n s \<longleftrightarrow> live_at e n s \<and> wf_tables (s_db s)"

lemma sound_keeps:
  "pkeeps (live_at e n) m \<Longrightarrow> pkeeps (\<lambda>s. wf_tables (s_db s)) m \<Longrightarrow> pkeeps (sound_at e n) m"
  by (simp add: pkeeps_def sound_at_def)

lemma sound_statement [inv_intros]: "mono (se_clock e) \<Longrightarrow> pkeeps (sound_at e n) (statement e)"
  by (intro sound_keeps live_statement wf_law.statement_keeps)

lemma sound_withActor:
  assumes "mono (se_clock e)" and "\<And>n. pkeeps (sound_at e n) work"
  shows "pkeeps (sound_at e n) (withActor e work)"
  unfolding pkeeps_def
proof (intro allI impI)
  fix s assume s: "sound_at e n s"
  let ?m = "pbind (statement e) (\<lambda>_. pbind (statement e) (\<lambda>_. pbind work (\<lambda>result. pbind (statement e) (\<lambda>_. pret result))))"
  have "pkeeps (sound_at e (s_at s)) ?m"
    by (intro inv_intros assms)
  then have t: "sound_at e (s_at s) (snd (?m s))"
    using s by (simp add: pkeeps_def sound_at_def live_at_def)
  moreover have "one_live (se_clock e (s_at (snd (?m s)))) (s_db s)"
    using t s by (auto simp: sound_at_def live_at_def elim!: one_live_later intro: monoD [OF assms(1)])
  ultimately show "sound_at e n (snd (withActor e work s))"
    using s by (auto simp: withActor_def sound_at_def live_at_def split: prod.splits sum.splits)
qed

lemma sound_op:
  assumes "mono (se_clock e)"
  shows "pkeeps (sound_at e n) (run_op e request)"
proof -
  have own: "pkeeps (sound_at e n) (plift (ownerId a))" "pkeeps (sound_at e n) (fresh_uuid e)" for a
    using live_uuid_now(1) [OF assms] wf_law.fresh_uuid_keeps by (auto intro: sound_keeps inv_intros)
  have bgn: "pkeeps (sound_at e k) (begin_body e owner requested r content modelId lease)" for k owner requested r content modelId lease
    using live_begin_body [OF assms] wf_law.begin_body_keeps by (auto simp: pkeeps_def sound_at_def)
  note body = sound_withActor [OF assms] bgn sound_keeps [OF live_complete_body [OF assms] wf_law.complete_body_keeps]
    sound_keeps [OF live_release [OF assms] wf_law.fail_body_keeps] sound_keeps [OF live_select [OF assms] wf_law.select_keeps]
    sound_keeps [OF live_heartbeat [OF assms] wf_law.heartbeat_query_keeps, unfolded Let_def]
    sound_keeps [OF live_update_own [OF assms] wf_law.update_own_keeps]
  show ?thesis
    by (cases request)
      (auto simp: list_conversations_def get_conversation_def update_conversation_def remove_conversation_def beginTurn_def
        completeTurn_def failTurn_def heartbeatTurn_def dialogueContext_def Let_def keeps_conv_key_def
        intro!: inv_intros own body split: option.splits)
qed

end
