(* ===== verification/StoreProperties.thy ===== *)
theory StoreProperties
  imports StoreLive
begin

text \<open>
  What the conversation store guarantees: atomic requests, well-formed tables in every reachable state, tenant
  isolation, one live turn per conversation, fencing of lost leases, replay of completed turns and the bounds of the
  prompt context.  The last section evaluates a concrete run.
\<close>

section \<open>Atomicity and leases\<close>

lemma withActor_throw: "withActor e work s = (Inl x, t) \<Longrightarrow> s_db t = s_db s"
  by (auto simp: withActor_def split: prod.splits sum.splits)

definition atomic :: "'a sprog \<Rightarrow> bool" where
  "atomic m \<longleftrightarrow> (\<forall>s x t. m s = (Inl x, t) \<longrightarrow> s_db t = s_db s)"

lemma atomic_withActor: "atomic (withActor e work)"
  by (auto simp: atomic_def dest: withActor_throw)

lemma atomic_pure [intro!]: "atomic (pret x)" "atomic (pthrow y)" "atomic (plift r)" "atomic (pguard y b)"
  by (simp_all add: atomic_def prog_defs pguard_def)

lemma atomic_bind_pure:
  "atomic m \<Longrightarrow> (\<And>x. atomic (f x)) \<Longrightarrow> (\<And>s. s_db (snd (m s)) = s_db s) \<Longrightarrow> atomic (pbind m f)"
  unfolding atomic_def pbind_eq_Inl by (metis snd_conv)

lemma atomic_bind_ret: "atomic m \<Longrightarrow> atomic (pbind m (\<lambda>x. pret (g x)))"
  unfolding atomic_def pbind_eq_Inl by (auto simp: pret_def)

lemma atomic_checks:
  "(\<And>x. atomic (f x)) \<Longrightarrow> atomic (pbind (plift r) f)"
  "(\<And>x. atomic (g x)) \<Longrightarrow> atomic (pbind (pguard y b) g)"
  "(\<And>x. atomic (h x)) \<Longrightarrow> atomic (pbind (fresh_uuid e) h)"
  by (rule atomic_bind_pure; simp add: atomic_def prog_defs pguard_def fresh_uuid_def)+



text \<open>C30: tenant isolation: a request made by one owner changes nothing of a conversation that belongs to another: its row,
  its messages, its dialogue projection and its transitions are the same before and after.\<close>

theorem requests_do_not_touch_other_owners_conversations:
  assumes "wf_tables (s_db s)" and "c \<in> set (convs (s_db s))" and "ownerId (op_actor request) \<noteq> Inr (c_owner c)"
  shows "view (c_id c) (s_db (snd (run_op e request s))) = view (c_id c) (s_db s)"
proof -
  obtain owner where o: "\<And>x. ownerId (op_actor request) = Inr x \<Longrightarrow> x = owner" "owner \<noteq> c_owner c"
  proof (cases "ownerId (op_actor request)")
    case (Inl e)
    then show ?thesis
      using that [of "c_owner c @ [CHR 0x41]"] by simp
  qed (use assms(3) that in auto)
  have "foreign_conv (c_id c) owner (s_db s)"
    using assms(2) o(2) by (auto simp: foreign_conv_def list_ex_iff)
  then show ?thesis
    using isolation.run_op_keeps [where j = "c_id c" and v = "view (c_id c) (s_db s)" and e = e, OF o(1)] assms(1) by (simp add: pkeeps_def)
qed


section \<open>Leases\<close>

lemma wp_withActor:
  assumes "\<And>t. s_db t = s_db s \<Longrightarrow> s_at s \<le> s_at t \<Longrightarrow> wp work (\<lambda>x u. Q x (s_db u)) (\<lambda>y _. R y) t" and "R db_error"
  shows "wp (withActor e work) (\<lambda>x u. Q x (s_db u)) (\<lambda>y u. s_db u = s_db s \<and> R y) s"
proof -
  let ?m = "pbind (statement e) (\<lambda>_. pbind (statement e) (\<lambda>_. pbind work (\<lambda>result. pbind (statement e) (\<lambda>_. pret result))))"
  have "wp ?m (\<lambda>x u. Q x (s_db u)) (\<lambda>y _. R y) s"
    unfolding wp_pbind statement_def
    by (intro wp_selectI assms(2)) (rule wp_mono [OF assms(1)]; auto intro!: wp_selectI assms(2) simp: wp_pret)
  then show ?thesis
    by (auto simp: wp_def withActor_def split: prod.splits sum.splits)
qed


section \<open>Replay\<close>

definition recorded :: "turn \<Rightarrow> jsval \<Rightarrow> tables \<Rightarrow> bool" where
  \<comment> \<open>the completed answer of the turn, as the replay query finds it, is worth this response\<close>
  "recorded tn v d \<longleftrightarrow> (case find (\<lambda>m. of_turn (tn_conv tn) (tn_request tn) ''assistant'' m \<and> m_status m = ''completed'') (msgs d) of
     Some m \<Rightarrow> responseFromAssistant m = v | None \<Rightarrow> False)"

lemma find_map_same:
  "(\<And>x. x \<in> set xs \<Longrightarrow> P x \<Longrightarrow> \<not> Q x \<and> \<not> Q (f x)) \<Longrightarrow> find Q (map (\<lambda>x. if P x then f x else x) xs) = find Q xs"
  by (induction xs) auto

lemma find_map_hit:
  "find P xs = Some m \<Longrightarrow> (\<And>x. P x \<Longrightarrow> Q (f x)) \<Longrightarrow> (\<And>x. Q x \<Longrightarrow> P x) \<Longrightarrow> find Q (map (\<lambda>x. if P x then f x else x) xs) = Some (f m)"
  by (induction xs) (auto split: if_splits)

lemma find_append_new: "find P xs = None \<Longrightarrow> Q y \<Longrightarrow> (\<And>x. Q x \<Longrightarrow> P x) \<Longrightarrow> find Q (xs @ [y]) = Some y"
  by (induction xs) (auto split: if_splits)

lemma upsert_answer_records:
  assumes "m_conv row = tn_conv tn" and "m_turn row = tn_request tn" and "m_role row = ''assistant''" and "m_status row = ''completed''"
  shows "wp (upsert_answer e row) (\<lambda>m u. recorded tn (responseFromAssistant m) (s_db u)) (\<lambda>_ _. True) s"
proof -
  let ?P = "of_turn (tn_conv tn) (tn_request tn) ''assistant''"
  let ?Q = "\<lambda>m. ?P m \<and> m_status m = ''completed''"
  have old: "find ?Q (msgs (change_msgs ?P f d)) = Some (f m)"
    if "find ?P (msgs d) = Some m" "\<And>x. same_key x (f x) \<and> m_status (f x) = ''completed''" for f d m
  proof -
    have "?Q (f x)" if "?P x" for x
      using that \<open>\<And>x. same_key x (f x) \<and> m_status (f x) = ''completed''\<close> by (simp add: same_key_def of_turn_def)
    then show ?thesis
      using find_map_hit [OF that(1), of ?Q f] by (simp add: change_msgs_def)
  qed
  have new: "find ?Q (msgs d') = Some m" if "insert_msg m d = Some d'" "find ?P (msgs d) = None" "?Q m" for m d d'
    using that find_append_new [of ?P "msgs d" ?Q m] by (auto simp: insert_msg_def split: if_splits)
  show ?thesis
    unfolding upsert_answer_def Let_def
  proof (rule wp_queryI)
    fix x d
    assume q: "(case find (of_turn (m_conv row) (m_turn row) (m_role row)) (msgs (s_db s)) of
        Some m \<Rightarrow> Some (m\<lparr>m_content := m_content row, m_model := m_model row, m_meta := m_meta row,
             m_status := ''completed'', m_completed := Some (se_clock e (s_at s))\<rparr>,
           change_msgs (of_turn (m_conv row) (m_turn row) (m_role row)) (\<lambda>m. m\<lparr>m_content := m_content row, m_model := m_model row,
             m_meta := m_meta row, m_status := ''completed'', m_completed := Some (se_clock e (s_at s))\<rparr>) (s_db s))
      | None \<Rightarrow> map_option (\<lambda>d'. (row\<lparr>m_created := se_clock e (s_at s), m_completed := Some (se_clock e (s_at s))\<rparr>, d'))
          (insert_msg (row\<lparr>m_created := se_clock e (s_at s), m_completed := Some (se_clock e (s_at s))\<rparr>) (s_db s))) = Some (x, d)"
    have "find ?Q (msgs d) = Some x"
    proof (cases "find ?P (msgs (s_db s))")
      case None
      then show ?thesis
        using q new [of x "s_db s" d] assms by (auto simp: of_turn_def)
    next
      case (Some m)
      then show ?thesis
        using q old [OF Some] assms by (auto simp: same_key_def)
    qed
    then show "recorded tn (responseFromAssistant x) (s_db (s\<lparr>s_at := Suc (s_at s), s_db := d\<rparr>))"
      by (simp add: recorded_def)
  qed simp
qed

lemma recorded_release: "recorded tn v (change_msgs (leased tn') (release st now) d) = recorded tn v d"
  unfolding recorded_def change_msgs_def
  by (simp, subst find_map_same) (auto simp: leased_def of_turn_def release_def)

lemma recorded_keeps [inv_intros]:
  "pkeeps (\<lambda>s. recorded tn v (s_db s)) (query e (\<lambda>now d. Some ((), change_msgs (leased tn') (release st now) d)))"
  "pkeeps (\<lambda>s. recorded tn v (s_db s)) (touch_conversation e i modelId)"
  by (auto simp: pkeeps_def touch_conversation_def query_def Let_def recorded_release) (simp add: recorded_def)

lemma answer_turn_records:
  "wp (answer_turn e owner tn response modelId) (\<lambda>v u. recorded tn v (s_db u)) (\<lambda>_ _. True) s"
proof -
  have tail: "wp (pbind (query e (\<lambda>now d. Some ((), change_msgs (leased tn) (release ''completed'' now) d))) (\<lambda>_.
      pbind (touch_conversation e (tn_conv tn) modelId) (\<lambda>_. pret v))) (\<lambda>w u. w = v \<and> recorded tn v (s_db u)) (\<lambda>_ _. True) t"
    if "recorded tn v (s_db t)" for v t
    using that unfolding wp_pbind wp_pret
    by (auto intro!: wp_mono [OF pkeeps_wp [OF recorded_keeps(1)]] wp_mono [OF pkeeps_wp [OF recorded_keeps(2)]])
  show ?thesis
    unfolding answer_turn_def
    by (rule wp_pbindI [where R = "\<lambda>_ _. True"], rule wp_any, simp_all,
        rule wp_pbindI [where R = "\<lambda>_ _. True"], rule wp_any, simp_all,
        rule wp_pbindI [where R = "\<lambda>_ _. True"], rule wp_any, simp_all,
        rule wp_pbindI [where R = "\<lambda>_ _. True"], rule wp_any, simp_all,
        rule wp_pbindI [OF upsert_answer_records], simp_all)
      (rule wp_mono [OF tail]; simp)
qed

lemma completed_turn_is_recorded:
  assumes "completeTurn e actor tn response s = (Inr v, t)"
  shows "recorded tn v (s_db t)"
proof -
  have "wp (complete_body e owner tn response modelId) (\<lambda>v u. recorded tn v (s_db u)) (\<lambda>_ _. True) s'" for owner modelId s'
    unfolding complete_body_def wp_pbind
    by (intro wp_selectI) (auto simp: wp_pthrow wp_pbind split: option.splits intro!: wp_selectI answer_turn_records)
  then have "wp (withActor e (complete_body e owner tn response modelId)) (\<lambda>v u. recorded tn v (s_db u)) (\<lambda>y u. s_db u = s_db s \<and> True) s" for owner modelId
    by (intro wp_withActor) auto
  then have "wp (completeTurn e actor tn response) (\<lambda>v u. recorded tn v (s_db u)) (\<lambda>_ _. True) s"
    unfolding completeTurn_def wp_pbind wp_plift by (auto split: sum.splits intro: wp_mono)
  from wp_Inr [OF this assms] show ?thesis .
qed

definition replayed :: "jsval \<Rightarrow> tables \<Rightarrow> begun \<Rightarrow> tables \<Rightarrow> bool" where
  "replayed v d b d' \<longleftrightarrow> b = Replay v \<and> d' = d"

lemma begin_body_replays:
  assumes "recorded tn v (s_db t)" and "tn_conv tn \<noteq> []"
  shows "wp (begin_body e owner (tn_conv tn) (tn_request tn) content modelId lease) (\<lambda>b u. replayed v (s_db t) b (s_db u)) (\<lambda>_ _. True) t"
proof -
  have c: "c_id c = tn_conv tn" if "find (own (tn_conv tn) owner) xs = Some c" for c xs
    using that by (auto simp: find_Some_iff own_def)
  have refuse: "wp (refuse_concurrent e i r) (\<lambda>_ u. s_db u = s_db t') (\<lambda>_ _. True) t'" for i r t'
    unfolding refuse_concurrent_def wp_pbind by (intro wp_selectI) (auto simp: wp_simps split: option.splits)
  have rest: "wp (pbind (refuse_concurrent e (tn_conv tn) (tn_request tn)) (\<lambda>_.
      pbind (select e (\<lambda>_ d. find (\<lambda>m. of_turn (tn_conv tn) (tn_request tn) ''assistant'' m \<and> m_status m = ''completed'') (msgs d))) (\<lambda>replay.
      case replay of Some m \<Rightarrow> pret (Replay (responseFromAssistant m)) | None \<Rightarrow> start_turn e owner c r content modelId lease)))
      (\<lambda>b u. replayed v (s_db t) b (s_db u)) (\<lambda>_ _. True) t'" if "s_db t' = s_db t" for c r t'
    by (rule wp_pbindI [OF refuse], unfold wp_pbind, rule wp_selectI)
      (use assms(1) that in \<open>auto simp: recorded_def replayed_def wp_simps split: option.splits\<close>)
  have find_conv: "wp (turn_conversation e owner (tn_conv tn) content modelId) (\<lambda>c u. c_id c = tn_conv tn \<and> s_db u = s_db t) (\<lambda>_ _. True) t"
    unfolding turn_conversation_def using assms(2)
    by (auto simp: wp_simps c split: option.splits intro!: wp_selectI)
  show ?thesis
    unfolding begin_body_def by (rule wp_pbindI [OF find_conv]) (auto intro: rest)
qed

text \<open>C31: an answer is given once and then replayed: after a turn was completed with some response, beginning the same turn again (same owner or
  any other caller, same conversation and request id, whatever the message) never starts new work: it either throws or returns
  exactly the response that completing the turn returned, and leaves the tables as they are.\<close>

theorem completed_turn_is_replayed:
  assumes "completeTurn e actor tn response s = (Inr v, t)" and "tn_conv tn \<noteq> []"
    and "conversationId (fld body ''conversationId'') True = Inr (tn_conv tn)"
    and "requestId (fld body ''clientRequestId'') = Inr (tn_request tn)"
    and "beginTurn e' actor' body t = (Inr b, u)"
  shows "b = Replay v \<and> s_db u = s_db t"
proof -
  note rec = completed_turn_is_recorded [OF assms(1)]
  have fd: "fld (default_obj body) k = fld body k" for k
    by (simp add: default_obj_def fld_def)
  have "wp (withActor e' (begin_body e' owner (tn_conv tn) (tn_request tn) content modelId lease))
      (\<lambda>b u. replayed v (s_db t) b (s_db u)) (\<lambda>_ _. True) t'" if "s_db t' = s_db t" for owner content modelId lease t'
  proof (rule wp_mono [OF wp_withActor])
    fix t'' :: sstate assume "s_db t'' = s_db t'"
    then show "wp (begin_body e' owner (tn_conv tn) (tn_request tn) content modelId lease) (\<lambda>b u. replayed v (s_db t) b (s_db u)) (\<lambda>_ _. True) t''"
      using begin_body_replays [of tn v t'', OF _ assms(2)] rec that by simp
  qed simp_all
  then have "wp (beginTurn e' actor' body) (\<lambda>b u. replayed v (s_db t) b (s_db u)) (\<lambda>_ _. True) t"
    unfolding beginTurn_def wp_pbind wp_plift wp_fresh_uuid
    using assms(3,4) fd by (auto simp: get_prop_def split: sum.splits if_splits)
  from wp_Inr [OF this assms(5)] show ?thesis
    by (simp add: replayed_def)
qed

section \<open>The context window\<close>

definition row_chars :: "msg list \<Rightarrow> nat" where
  "row_chars ms = sum_list (map (length \<circ> m_content) ms)"

definition window_rows :: "msg list \<Rightarrow> (string \<times> string) list" where
  "window_rows ms = map (\<lambda>m. (m_role m, m_content m)) ms"

lemma fill_window_spec:
  assumes "n \<le> MAX_CONTEXT_CHARS" and "length out \<le> MAX_CONTEXT_MESSAGES - 1"
  shows "\<exists>k\<le>length ms. fill_window n out ms = window_rows (rev (take k ms)) @ out
    \<and> length out + k \<le> MAX_CONTEXT_MESSAGES - 1 \<and> n + row_chars (take k ms) \<le> MAX_CONTEXT_CHARS
    \<and> (k < length ms \<and> length out + k < MAX_CONTEXT_MESSAGES - 1 \<longrightarrow> MAX_CONTEXT_CHARS < n + row_chars (take (Suc k) ms))"
  using assms
proof (induction ms arbitrary: n out)
  case Nil
  then show ?case
    by (simp add: window_rows_def row_chars_def)
next
  case (Cons m ms)
  show ?case
  proof (cases "length out < MAX_CONTEXT_MESSAGES - 1 \<and> n + length (m_content m) \<le> MAX_CONTEXT_CHARS")
    case True
    then obtain k where "k \<le> length ms"
      "fill_window (n + length (m_content m)) ((m_role m, m_content m) # out) ms = window_rows (rev (take k ms)) @ (m_role m, m_content m) # out"
      "length ((m_role m, m_content m) # out) + k \<le> MAX_CONTEXT_MESSAGES - 1"
      "n + length (m_content m) + row_chars (take k ms) \<le> MAX_CONTEXT_CHARS"
      "k < length ms \<and> length ((m_role m, m_content m) # out) + k < MAX_CONTEXT_MESSAGES - 1
        \<longrightarrow> MAX_CONTEXT_CHARS < n + length (m_content m) + row_chars (take (Suc k) ms)"
      using Cons.IH [of "n + length (m_content m)" "(m_role m, m_content m) # out"] by auto
    then show ?thesis
      using True by (intro exI [of _ "Suc k"]) (auto simp: window_rows_def row_chars_def add.assoc)
  next
    case False
    then show ?thesis
      using Cons.prems by (intro exI [of _ 0]) (auto simp: window_rows_def row_chars_def)
  qed
qed

text \<open>C35: the prompt context is the longest recent history that fits: it consists of the current message, preceded by the most recent
  completed user and assistant messages in order of their position, at most 24 messages and 24,000 characters in all, and
  a further message is left out only because it would break one of the two bounds.\<close>

theorem context_window_is_the_longest_recent_history_that_fits:
  assumes "length current \<le> MAX_CONTEXT_CHARS" and "current \<noteq> []" and "contextWindow rows current = w"
  shows "\<exists>k\<le>length (context_rows rows). w = window_rows (rev (take k (context_rows rows))) @ [(''user'', current)]
    \<and> length w \<le> MAX_CONTEXT_MESSAGES \<and> sum_list (map (length \<circ> snd) w) \<le> MAX_CONTEXT_CHARS
    \<and> (k < length (context_rows rows) \<longrightarrow> length w = MAX_CONTEXT_MESSAGES
         \<or> MAX_CONTEXT_CHARS < length current + row_chars (take (Suc k) (context_rows rows)))"
proof -
  have chars: "sum_list (map (length \<circ> snd) (window_rows (rev ms))) = row_chars ms" for ms
    by (induction ms) (auto simp: window_rows_def row_chars_def)
  obtain k where k: "k \<le> length (context_rows rows)"
    "fill_window (length current) [] (context_rows rows) = window_rows (rev (take k (context_rows rows)))"
    "k \<le> MAX_CONTEXT_MESSAGES - 1" "length current + row_chars (take k (context_rows rows)) \<le> MAX_CONTEXT_CHARS"
    "k < length (context_rows rows) \<and> k < MAX_CONTEXT_MESSAGES - 1 \<longrightarrow> MAX_CONTEXT_CHARS < length current + row_chars (take (Suc k) (context_rows rows))"
    using fill_window_spec [OF assms(1), of "[]" "context_rows rows"] by auto
  have w: "w = window_rows (rev (take k (context_rows rows))) @ [(''user'', current)]"
    using assms(2,3) k(2) by (simp add: contextWindow_def)
  moreover have "length w = Suc k"
    using k(1) by (simp add: w window_rows_def)
  moreover have "sum_list (map (length \<circ> snd) w) = row_chars (take k (context_rows rows)) + length current"
    unfolding w map_append sum_list_append chars by simp
  ultimately show ?thesis
    using k by (intro exI [of _ k]) (auto simp: MAX_CONTEXT_MESSAGES_def)
qed

text \<open>A concrete run: an owner begins a turn, the worker completes it.\<close>

definition demo_uuid :: string where
  "demo_uuid = ''11111111-1111-4111-8111-111111111111''"

definition demo_senv :: senv where
  "demo_senv = \<lparr>se_clock = (\<lambda>n. of_nat n * 10), se_app_clock = (\<lambda>n. of_nat n * 10), se_uuid = (\<lambda>n. nat_str n @ ''-'' @ demo_uuid),
     se_rejects = (\<lambda>_ _. False), se_pg_uuid = (\<lambda>_. True), se_sha = (\<lambda>_. replicate 64 (CHR ''0'')), se_retention = JUndef\<rparr>"

definition demo_start :: sstate where
  "demo_start = \<lparr>s_db = \<lparr>convs = [\<lparr>c_id = demo_uuid, c_owner = ''alice'', c_title = ''t'', c_status = ''active'', c_model = JNull, c_summary = JNull,
     c_retention = JNull, c_last = 0, c_created = 0, c_updated = 0, c_deleted = None\<rparr>], msgs = [], projs = [], transs = []\<rparr>, s_at = 0\<rparr>"

definition demo_actor :: jsval where
  "demo_actor = JObj [(''subject'', JStr ''alice'')]"

definition demo_begin :: jsval where
  "demo_begin = JObj [(''clientRequestId'', JStr demo_uuid), (''conversationId'', JStr demo_uuid), (''message'', JStr ''hello'')]"

definition demo_answer :: jsval where
  "demo_answer = JObj [(''message'', JStr ''hi'')]"

definition demo_turn :: turn where
  "demo_turn = \<lparr>tn_conv = demo_uuid, tn_request = demo_uuid, tn_lease = ''lease''\<rparr>"

definition demo_begun :: sstate where
  "demo_begun = demo_start\<lparr>s_db := s_db demo_start\<lparr>msgs := [\<lparr>m_id = ''m1'', m_conv = demo_uuid, m_seq = 1, m_turn = demo_uuid, m_role = ''user'',
     m_content = ''hello'', m_model = JNull, m_meta = JObj [], m_status = ''pending'', m_created = 0, m_completed = None, m_lease = Some ''lease'',
     m_expires = Some 1000, m_beat = Some 0, m_attempt = 1\<rparr>]\<rparr>\<rparr>"

definition demo_done :: sstate where
  "demo_done = snd (completeTurn demo_senv demo_actor demo_turn demo_answer demo_begun)"

lemma demo_complete:
  "\<not> isl (fst (completeTurn demo_senv demo_actor demo_turn demo_answer demo_begun))"
  by code_simp

lemma demo_replay: "\<not> isl (fst (beginTurn demo_senv demo_actor demo_begin demo_done))"
  by code_simp

lemma demo_clock: "mono (se_clock demo_senv)"
  by (auto simp: mono_def demo_senv_def)


definition demo_empty :: sstate where
  "demo_empty = \<lparr>s_db = \<lparr>convs = [], msgs = [], projs = [], transs = []\<rparr>, s_at = 0\<rparr>"

definition demo_live :: sstate where
  "demo_live = snd (run_op demo_senv (Begin_op demo_actor (JObj [(''clientRequestId'', JStr demo_uuid), (''message'', JStr ''hello'')])) demo_empty)"

lemma demo_live_reachable: "reachable demo_senv demo_live"
  unfolding demo_live_def demo_empty_def by (intro reachable.intros)

definition single_live :: "senv \<Rightarrow> sstate \<Rightarrow> bool" where
  "single_live e s \<longleftrightarrow> (case msgs (s_db s) of [m] \<Rightarrow> live (se_clock e (s_at s)) m | _ \<Rightarrow> False)"

lemma demo_live_single: "single_live demo_senv demo_live"
  by code_simp

lemma demo_live_msgs: "msgs (s_db demo_live) \<noteq> [] \<and> live (se_clock demo_senv (s_at demo_live)) (hd (msgs (s_db demo_live)))
    \<and> live (se_clock demo_senv (s_at demo_live)) (last (msgs (s_db demo_live)))
    \<and> m_conv (hd (msgs (s_db demo_live))) = m_conv (last (msgs (s_db demo_live)))"
  using demo_live_single by (auto simp: single_live_def split: list.splits)



theorem requests_do_not_touch_other_owners_conversations_witness:
  "view demo_uuid (s_db (snd (run_op demo_senv (Remove_op (JObj [(''subject'', JStr ''mallory'')]) (JStr demo_uuid)) demo_begun)))
     = view demo_uuid (s_db demo_begun)"
proof -
  have "wf_tables (s_db demo_begun)" "c_id (hd (convs (s_db demo_begun))) = demo_uuid" "hd (convs (s_db demo_begun)) \<in> set (convs (s_db demo_begun))"
    by (simp_all add: demo_begun_def demo_start_def wf_tables_def has_conv_def MAX_TURN_ATTEMPTS_def)
  moreover have "\<not> isl (ownerId (op_actor (Remove_op (JObj [(''subject'', JStr ''mallory'')]) (JStr demo_uuid))))"
    "projr (ownerId (op_actor (Remove_op (JObj [(''subject'', JStr ''mallory'')]) (JStr demo_uuid)))) \<noteq> c_owner (hd (convs (s_db demo_begun)))"
    by code_simp+
  ultimately show ?thesis
    using requests_do_not_touch_other_owners_conversations [of demo_begun "hd (convs (s_db demo_begun))"
        "Remove_op (JObj [(''subject'', JStr ''mallory'')]) (JStr demo_uuid)" demo_senv] by (metis sum.sel(2))
qed


theorem completed_turn_is_replayed_witness:
  "\<exists>v t u. completeTurn demo_senv demo_actor demo_turn demo_answer demo_begun = (Inr v, t)
     \<and> beginTurn demo_senv demo_actor demo_begin t = (Inr (Replay v), u) \<and> s_db u = s_db t"
proof -
  obtain v where v: "completeTurn demo_senv demo_actor demo_turn demo_answer demo_begun = (Inr v, demo_done)"
    unfolding demo_done_def using demo_complete by (metis prod.collapse sum.collapse(2))
  obtain b u where b: "beginTurn demo_senv demo_actor demo_begin demo_done = (Inr b, u)"
    using demo_replay by (metis prod.collapse sum.collapse(2))
  have "conversationId (fld demo_begin ''conversationId'') True = Inr (tn_conv demo_turn)"
    "requestId (fld demo_begin ''clientRequestId'') = Inr (tn_request demo_turn)" "tn_conv demo_turn \<noteq> []"
    by code_simp+
  from completed_turn_is_replayed [OF v this(3,1,2) b] v b show ?thesis
    by metis
qed

theorem context_window_is_the_longest_recent_history_that_fits_witness:
  "length (contextWindow [hd (msgs (s_db demo_begun))\<lparr>m_status := ''completed''\<rparr>] ''hi'') \<le> MAX_CONTEXT_MESSAGES"
  using context_window_is_the_longest_recent_history_that_fits [OF _ _ refl, of "''hi''" "[hd (msgs (s_db demo_begun))\<lparr>m_status := ''completed''\<rparr>]"]
  by (auto simp: MAX_CONTEXT_CHARS_def)

end
