(* ===== verification/ModuleOperation.thy ===== *)
theory ModuleOperation
  imports Effects
begin

text \<open>
  The module operation API, \<open>src/apps/console-api/runtime/module-operation-api.js\<close>: the module and risk tables, the projection of the
  owner's status, reconciliation of a recorded operation with it, submission of an operation, and the HTTP handler.

  \<open>restRequest\<close>, \<open>ownerRequest\<close>, \<open>authenticate\<close>, \<open>readBody\<close>, \<open>logAudit\<close>, \<open>randomUUID\<close> and the clock are
  service calls.  A reply \<open>json(res, status, body)\<close> is the returned pair; a path the handler
  does not serve is \<open>None\<close>.
\<close>

section \<open>Tables\<close>

definition TERMINAL_PHASES :: "string list" where
  "TERMINAL_PHASES = [''Succeeded'', ''Failed'', ''RolledBack'']"

definition ACTIVE_OWNER_PHASES :: "string list" where
  "ACTIVE_OWNER_PHASES = [''Queued'', ''Recovering'', ''Installing'', ''Upgrading'', ''RollingBack'',
     ''Configuring'', ''Migrating'', ''Validating'', ''Uninstalling'']"

definition unavailable_module :: "string \<Rightarrow> string \<Rightarrow> string \<Rightarrow> jsval" where
  "unavailable_module i name owner = JObj [(''id'', JStr i), (''displayName'', JStr name), (''owner'', JStr owner),
     (''adapter'', JNull), (''status'', JStr ''NotAvailable''), (''actions'', JArr []),
     (''unavailableReason'', JStr ''Console owner adapter is not implemented yet.'')]"

definition unavailable_actions :: "(string \<times> jsval) list" where
  "unavailable_actions = [(''purge'', JStr ''Shared Observability runtime deletion does not purge retained PVC data.'')]"

definition MODULES :: "(string \<times> jsval) list" where
  "MODULES = [
     (''shared-observability'', JObj [(''id'', JStr ''shared-observability''), (''displayName'', JStr ''Shared Observability''),
        (''owner'', JStr ''cluster-manager/HISS''), (''adapter'', JStr ''his:kube-prometheus-stack''), (''status'', JStr ''Available''),
        (''actions'', JArr [JStr ''install'', JStr ''verify'', JStr ''delete-runtime'', JStr ''reinstall'']),
        (''unavailableActions'', JObj unavailable_actions)]),
     (''argocd'', unavailable_module ''argocd'' ''Argo CD'' ''foundation/platform-delivery''),
     (''crossplane'', unavailable_module ''crossplane'' ''Crossplane'' ''foundation/platform-delivery''),
     (''postgres'', unavailable_module ''postgres'' ''PostgreSQL'' ''foundation/postgres'')]"

definition risk :: "string \<Rightarrow> string \<Rightarrow> jsval" where
  "risk riskClass approvalMode = JObj [(''riskClass'', JStr riskClass), (''assurance'', JStr ''aal2''), (''approvalMode'', JStr approvalMode)]"

definition RISK_TABLE :: "(string \<times> jsval) list" where
  "RISK_TABLE = [
     (''shared-observability:install'', risk ''R1'' ''single-admin''),
     (''shared-observability:verify'', risk ''R1'' ''single-admin''),
     (''shared-observability:delete-runtime'', risk ''R1'' ''single-admin''),
     (''shared-observability:reinstall'', risk ''R1'' ''single-admin''),
     (''shared-observability:purge'', risk ''R3'' ''not-available'')]"

definition lookup :: "(string \<times> jsval) list \<Rightarrow> string \<Rightarrow> jsval" where
  \<comment> \<open>\<open>TABLE[key]\<close>: a member inherited from \<open>Object.prototype\<close> is an object without the properties read below\<close>
  "lookup t k = (case table_get t k of Own v \<Rightarrow> v | Inherited \<Rightarrow> JObj [] | Absent \<Rightarrow> JUndef)"

definition fail :: "int \<Rightarrow> string \<Rightarrow> jsval \<Rightarrow> jsval" where
  \<comment> \<open>\<open>throw { code, errorCode, msg }\<close>\<close>
  "fail code errorCode msg = JObj [(''code'', JInt code), (''errorCode'', JStr errorCode), (''msg'', msg)]"

definition sha256Json :: "(string \<Rightarrow> string) \<Rightarrow> jsval \<Rightarrow> string" where
  "sha256Json sha v = ''sha256:'' @ sha (json_text v)"

definition reasonFrom :: "jsval \<Rightarrow> jsval + string" where
  "reasonFrom v = (let reason = trim (str_or_empty v) in
     if length reason < 8 \<or> 1000 < length reason
     then Inl (fail 400 ''reason_required'' (JStr ''reason must be between 8 and 1000 characters''))
     else Inr reason)"

definition idempotencyKeyFrom :: "jsval \<Rightarrow> jsval \<Rightarrow> jsval + string" where
  "idempotencyKeyFrom req body =
     rbind (get_prop req ''headers'') (\<lambda>headers.
     rbind (get_prop headers ''x-os-idempotency-key'') (\<lambda>header.
     let key = trim (str_or_empty (js_or header (fld body ''idempotencyKey''))) in
     if \<not> is_safe_key key
     then Inl (fail 400 ''idempotency_key_required'' (JStr ''x-os-idempotency-key or idempotencyKey (8-160 safe characters) is required''))
     else Inr key))"

definition publicModuleDescriptor :: "jsval \<Rightarrow> jsval + (string \<times> jsval) list" where
  "publicModuleDescriptor m =
     rbind (iterate (fld m ''actions'')) (\<lambda>actions.
     Inr ([(''id'', fld m ''id''), (''displayName'', fld m ''displayName''), (''owner'', fld m ''owner''),
        (''adapter'', fld m ''adapter''), (''status'', fld m ''status''), (''actions'', JArr actions),
        (''unavailableActions'', js_or (fld m ''unavailableActions'') (JObj []))]
        @ (if truthy (fld m ''unavailableReason'') then [(''unavailableReason'', fld m ''unavailableReason'')] else [])))"

section \<open>The owner's status\<close>

record mapi =
  m_env :: environment
  m_sha :: "string \<Rightarrow> string"

type_synonym 'a mprog = "(fx, jsval, 'a) prog"

definition iso_now :: "mapi \<Rightarrow> string mprog" where
  \<comment> \<open>\<open>new Date().toISOString()\<close>\<close>
  "iso_now a = pbind (call (m_env a) ''now'' []) (\<lambda>t. plift (to_iso_string (to_num t)))"

definition find_by :: "string \<Rightarrow> string \<Rightarrow> jsval \<Rightarrow> jsval" where
  \<comment> \<open>\<open>(Array.isArray(v) ? v : []).find((x) => x?.k === s) || null\<close>\<close>
  "find_by k s v = (case find (\<lambda>x. fld x k = JStr s) (elems v) of Some x \<Rightarrow> or_null x | None \<Rightarrow> JNull)"

definition observabilityItem :: "jsval \<Rightarrow> jsval" where
  "observabilityItem status = find_by ''id'' ''kube-prometheus-stack'' (fld status ''items'')"

definition release_view :: "jsval \<Rightarrow> jsval \<Rightarrow> jsval" where
  "release_view release item = (if \<not> truthy release then JNull else JObj [
     (''status'', js_or (fld release ''status'') (JStr [])),
     (''revision'', JNum (to_num (js_or (fld release ''revision'') (JInt 0)))),
     (''chart'', js_or (js_or (fld release ''chart'') (fld item ''chartName'')) (JStr [])),
     (''chartVersion'', js_or (js_or (fld release ''chartVersion'') (fld item ''chartVersion'')) (JStr [])),
     (''appVersion'', js_or (js_or (fld release ''appVersion'') (fld item ''appVersion'')) (JStr []))])"

definition operation_view :: "jsval \<Rightarrow> jsval" where
  "operation_view operation = (if \<not> truthy operation then JNull else JObj [
     (''id'', JStr (str_or_empty (fld operation ''id''))), (''action'', JStr (str_or_empty (fld operation ''action''))),
     (''phase'', JStr (str_or_empty (fld operation ''phase''))),
     (''updatedAt'', js_or (js_or (js_or (fld operation ''updatedAt'') (fld operation ''completedAt'')) (fld operation ''startedAt'')) (JStr [])),
     (''error'', js_or (fld operation ''error'') (JStr []))])"

definition current_view :: "jsval \<Rightarrow> jsval \<Rightarrow> jsval" where
  "current_view status observedAt =
     (let item = observabilityItem status; profile = find_by ''name'' ''Observability'' (fld status ''profiles'');
          release = or_null (fld item ''release''); check = fld item ''check'' in
      JObj [
        (''installed'', JBool (fld release ''managed'' = JBool True)),
        (''activated'', JBool (fld profile ''selected'' = JBool True)),
        (''ready'', JBool (fld check ''state'' = JStr ''Ready'')),
        (''state'', js_or (fld check ''state'') (JStr (if truthy (fld release ''managed'') then ''Unknown'' else ''Absent''))),
        (''reason'', js_or (js_or (fld check ''reason'') (fld check ''message'')) (JStr [])),
        (''release'', release_view release item),
        (''operation'', operation_view (fld item ''operation'')),
        (''evidence'', or_null (fld check ''details'')),
        (''observedAt'', observedAt)])"

definition fingerprint_of :: "(string \<Rightarrow> string) \<Rightarrow> jsval \<Rightarrow> string" where
  "fingerprint_of sha current = sha256Json sha (JObj [
     (''module'', JStr ''shared-observability''), (''release'', fld current ''release''), (''state'', fld current ''state''),
     (''operation'', if truthy (fld current ''operation'')
        then JObj [(''id'', fld (fld current ''operation'') ''id''), (''phase'', fld (fld current ''operation'') ''phase'')] else JNull)])"

definition observabilityProjection :: "mapi \<Rightarrow> jsval \<Rightarrow> jsval mprog" where
  "observabilityProjection a status =
     (let known = js_or (fld status ''checkedAt'') (fld (fld (observabilityItem status) ''check'') ''checkedAt'') in
      pbind (if truthy known then pret known else pbind (iso_now a) (\<lambda>t. pret (JStr t))) (\<lambda>observedAt.
      let current = current_view status observedAt in
      pret (JObj [(''current'', current), (''targetFingerprint'', JStr (fingerprint_of (m_sha a) current))])))"

definition ownerRequestBody :: "string \<Rightarrow> string \<Rightarrow> jsval \<Rightarrow> jsval + string \<times> jsval" where
  "ownerRequestBody action reason body =
     (if action = ''install'' \<or> action = ''reinstall''
      then Inr (''/api/hiss/install'', JObj ([(''id'', JStr ''kube-prometheus-stack''), (''reason'', JStr reason)]
             @ (if truthy (fld body ''config'') then [(''config'', fld body ''config'')] else [])
             @ (if truthy (fld body ''chartVersion'') then [(''chartVersion'', fld body ''chartVersion'')] else [])))
      else if action = ''verify''
      then Inr (''/api/hiss/validate'', JObj [(''id'', JStr ''kube-prometheus-stack''), (''reason'', JStr reason)])
      else if action = ''delete-runtime''
      then if str_or_empty (fld body ''confirm'') \<noteq> ''kube-prometheus-stack''
           then Inl (fail 400 ''confirmation_required'' (JStr (''confirm must equal '' @ [CHR 0x27] @ ''kube-prometheus-stack'' @ [CHR 0x27])))
           else Inr (''/api/hiss/uninstall'', JObj [(''id'', JStr ''kube-prometheus-stack''), (''reason'', JStr reason),
                  (''confirm'', JStr ''kube-prometheus-stack'')])
      else Inl (fail 400 ''unsupported_action'' (JStr (''unsupported action: '' @ action))))"

definition strip_prefix :: "string \<Rightarrow> string \<Rightarrow> string" where
  "strip_prefix p s = (if starts_with p s then drop (length p) s else s)"

definition settled :: "jsval \<Rightarrow> jsval \<Rightarrow> (string \<times> jsval) option" where
  \<comment> \<open>what the observed state alone says of the operation\<close>
  "settled row current =
     (if fld row ''action'' = JStr ''delete-runtime'' \<and> fld current ''installed'' = JBool False then Some (''Succeeded'', JNull)
      else if fld row ''action'' \<in> set [JStr ''install'', JStr ''reinstall''] \<and> truthy (fld current ''installed'') \<and> truthy (fld current ''ready'')
      then Some (''Succeeded'', JNull)
      else if fld row ''action'' = JStr ''verify'' \<and> truthy (fld current ''ready'') then Some (''Succeeded'', JNull)
      else None)"

definition ownerTerminalResult :: "jsval \<Rightarrow> jsval \<Rightarrow> (string \<times> jsval) option" where
  "ownerTerminalResult row current =
     (let ownerOperationId = strip_prefix ''his-operation:'' (str_or_empty (fld row ''evidence_ref''));
          operation = fld current ''operation''; ph = fld operation ''phase'' in
      if ownerOperationId \<noteq> [] \<and> fld operation ''id'' = JStr ownerOperationId
      then if ph \<in> set [JStr ''Failed'', JStr ''RollbackStalled''] then Some (''Failed'', JStr ''owner_operation_failed'')
           else if ph \<in> set [JStr ''Ready'', JStr ''Removed''] then Some (''Succeeded'', JNull)
           else if ph \<in> set (map JStr ACTIVE_OWNER_PHASES)
           then Some (if fld row ''action'' = JStr ''verify'' then ''Verifying'' else ''Running'', JNull)
           else settled row current
      else settled row current)"

definition normalizeRow :: "jsval \<Rightarrow> jsval + jsval" where
  "normalizeRow row =
     rbind (get_prop row ''operation_id'') (\<lambda>operationId. Inr (JObj [
       (''operationId'', operationId), (''idempotencyKey'', fld row ''idempotency_key''), (''moduleId'', fld row ''module_id''),
       (''action'', fld row ''action''), (''actorId'', fld row ''actor_id''), (''reason'', fld row ''reason''),
       (''assurance'', fld row ''assurance''), (''riskClass'', fld row ''risk_class''),
       (''targetFingerprint'', fld row ''target_fingerprint''), (''phase'', fld row ''phase''),
       (''executionState'', or_null (fld row ''execution_state'')), (''verificationState'', or_null (fld row ''verification_state'')),
       (''result'', js_or (fld row ''result'') (JObj [])), (''errorCode'', or_null (fld row ''error_code'')),
       (''evidenceRef'', or_null (fld row ''evidence_ref'')), (''rollbackResult'', or_null (fld row ''rollback_result'')),
       (''createdAt'', fld row ''created_at''), (''updatedAt'', fld row ''updated_at'')]))"

definition state_pair :: "string \<Rightarrow> string \<Rightarrow> (string \<times> jsval) list" where
  "state_pair execution verification = [(''execution_state'', JStr execution), (''verification_state'', JStr verification)]"

definition moduleOperationState :: "string \<Rightarrow> (string \<times> jsval) list" where
  "moduleOperationState ph =
     (if ph = ''Queued'' then state_pair ''accepted'' ''pending''
      else if ph = ''AwaitingApproval'' then state_pair ''awaiting_approval'' ''pending''
      else if ph = ''Running'' then state_pair ''executing'' ''pending''
      else if ph = ''Verifying'' then state_pair ''complete'' ''verifying''
      else if ph = ''Succeeded'' then state_pair ''complete'' ''succeeded''
      else if ph = ''VerificationFailed'' then state_pair ''complete'' ''failed''
      else if ph = ''Inconclusive'' then state_pair ''complete'' ''inconclusive''
      else if ph = ''Failed'' then state_pair ''failed'' ''not_required''
      else if ph = ''RollingBack'' then state_pair ''rolling_back'' ''failed''
      else if ph = ''RolledBack'' then state_pair ''rolled_back'' ''failed''
      else [])"

section \<open>Rows and reconciliation\<close>

definition getOwnerProjection :: "mapi \<Rightarrow> jsval \<Rightarrow> jsval mprog" where
  "getOwnerProjection a authorization =
     pbind (call (m_env a) ''ownerRequest'' [JStr ''/api/hiss/status'', JObj [(''method'', JStr ''GET''), (''authorization'', authorization)]])
       (observabilityProjection a)"

definition first_or_null :: "jsval \<Rightarrow> jsval" where
  \<comment> \<open>\<open>Array.isArray(rows) && rows[0] ? rows[0] : null\<close>\<close>
  "first_or_null rows = or_null (first_row rows)"

definition findByIdempotencyKey :: "mapi \<Rightarrow> string \<Rightarrow> jsval mprog" where
  "findByIdempotencyKey a key =
     pbind (call (m_env a) ''restRequest'' [JStr ''module_operation'',
        JObj [(''query'', JStr (''select=*&idempotency_key=eq.'' @ encode_uri key @ ''&limit=1''))]]) (\<lambda>rows. pret (first_or_null rows))"

definition findOperation :: "mapi \<Rightarrow> string \<Rightarrow> jsval mprog" where
  "findOperation a operationId =
     pbind (call (m_env a) ''restRequest'' [JStr ''module_operation'',
        JObj [(''query'', JStr (''select=*&operation_id=eq.'' @ encode_uri operationId @ ''&limit=1''))]]) (\<lambda>rows. pret (first_or_null rows))"

definition patchOperation :: "mapi \<Rightarrow> string \<Rightarrow> (string \<times> jsval) list \<Rightarrow> jsval mprog" where
  "patchOperation a operationId patch =
     pbind (iso_now a) (\<lambda>t.
     pbind (call (m_env a) ''restRequest'' [JStr ''module_operation'', JObj [
        (''method'', JStr ''PATCH''), (''query'', JStr (''operation_id=eq.'' @ encode_uri operationId @ ''&select=*'')),
        (''body'', JObj (spread patch [(''updated_at'', JStr t)])), (''prefer'', JStr ''return=representation'')]]) (\<lambda>rows.
     pret (first_or_null rows)))"

definition reconcileOperation :: "mapi \<Rightarrow> jsval \<Rightarrow> jsval \<Rightarrow> jsval mprog" where
  "reconcileOperation a row authorization =
     (if \<not> truthy row \<or> fld row ''phase'' \<in> set (map JStr TERMINAL_PHASES) \<or> fld row ''module_id'' \<noteq> JStr ''shared-observability''
      then pret row
      else pbind (getOwnerProjection a authorization) (\<lambda>projection.
           case ownerTerminalResult row (fld projection ''current'') of
             None \<Rightarrow> pret row
           | Some (ph, errorCode) \<Rightarrow>
               if JStr ph = fld row ''phase'' \<and> js_eq errorCode (fld row ''error_code'') then pret row
               else pbind (iso_now a) (\<lambda>t.
                    patchOperation a (to_str (fld row ''operation_id''))
                      (spread [(''phase'', JStr ph)] (moduleOperationState ph) @ [(''error_code'', errorCode),
                        (''result'', JObj (spread (obj_entries (fld row ''result''))
                           [(''observed'', fld projection ''current''), (''verifiedAt'', JStr t)]))]))))"

section \<open>Submission\<close>

definition unavailable :: "jsval \<Rightarrow> string \<Rightarrow> jsval" where
  "unavailable m action =
     (let reason = js_or (if nullish (fld m ''unavailableActions'') then JUndef
                          else lookup (obj_entries (fld m ''unavailableActions'')) action) (fld m ''unavailableReason'') in
      if truthy reason then fail 409 ''not_available'' reason
      else fail 400 ''unsupported_action'' (JStr (''unsupported action: '' @ action)))"

definition checked_action :: "string \<Rightarrow> jsval \<Rightarrow> jsval + jsval \<times> string \<times> jsval" where
  \<comment> \<open>module, action and policy of a request\<close>
  "checked_action moduleId body =
     (let m = lookup MODULES moduleId in
      if \<not> truthy m then Inl (fail 404 ''module_not_found'' (JStr ''module not found''))
      else let action = trim (str_or_empty (fld body ''action'')) in
        case map_of RISK_TABLE (moduleId @ '':'' @ action) of
          Some policy \<Rightarrow>
            if JStr action \<notin> set (elems (fld m ''actions''))
            then Inl (unavailable m action)
            else if fld policy ''approvalMode'' = JStr ''not-available''
            then Inl (fail 409 ''not_available'' (JStr ''this R3 action is not available''))
            else Inr (m, action, policy)
        | None \<Rightarrow> Inl (unavailable m action))"

definition conflict :: jsval where
  "conflict = fail 409 ''idempotency_conflict'' (JStr ''idempotency key belongs to a different operation intent'')"

definition check_intent :: "jsval \<Rightarrow> string \<Rightarrow> string \<Rightarrow> jsval \<Rightarrow> jsval + unit" where
  "check_intent row moduleId action actor =
     (if fld row ''module_id'' \<noteq> JStr moduleId \<or> fld row ''action'' \<noteq> JStr action then Inl conflict
      else rbind (get_prop actor ''sub'') (\<lambda>sub. guard_else conflict (strict_eq (fld row ''actor_id'') sub)))"

definition receipt :: "bool \<Rightarrow> jsval \<Rightarrow> (string \<times> jsval) list \<Rightarrow> jsval + jsval" where
  "receipt duplicate row extra = rbind (normalizeRow row) (\<lambda>r. Inr (JObj ([(''duplicate'', JBool duplicate), (''receipt'', r)] @ extra)))"

definition new_row :: "string \<Rightarrow> string \<Rightarrow> string \<Rightarrow> string \<Rightarrow> jsval \<Rightarrow> string \<Rightarrow> jsval \<Rightarrow> jsval \<Rightarrow> string \<Rightarrow> jsval \<Rightarrow> jsval" where
  "new_row operationId key moduleId action actor reason policy projection t m = JObj (
     [(''operation_id'', JStr operationId), (''idempotency_key'', JStr key), (''module_id'', JStr moduleId), (''action'', JStr action),
      (''actor_id'', fld actor ''sub''), (''reason'', JStr reason), (''assurance'', js_or (fld actor ''assurance'') (JStr ''aal1'')),
      (''risk_class'', fld policy ''riskClass''), (''target_fingerprint'', fld projection ''targetFingerprint''), (''phase'', JStr ''Queued'')]
     @ moduleOperationState ''Queued'' @ [(''result'', JObj [(''acceptedAt'', JStr t), (''owner'', fld m ''owner'')])])"

definition insert_operation_row :: "mapi \<Rightarrow> string \<Rightarrow> jsval \<Rightarrow> jsval mprog" where
  \<comment> \<open>insert, or read the row that already has the key\<close>
  "insert_operation_row a key row =
     pcatch (pbind (call (m_env a) ''restRequest'' [JStr ''module_operation'', JObj [(''method'', JStr ''POST''), (''query'', JStr ''select=*''),
         (''body'', JArr [row]), (''prefer'', JStr ''return=representation'')]]) (\<lambda>rows.
         plift (if nullish rows then Inl type_error else Inr (first_row rows))))
       (\<lambda>error. if fld error ''code'' \<noteq> JInt 409 then pthrow error
                else pbind (findByIdempotencyKey a key) (\<lambda>found. if truthy found then pret found else pthrow error))"

definition replayed_submission :: "mapi \<Rightarrow> jsval \<Rightarrow> string \<Rightarrow> string \<Rightarrow> jsval \<Rightarrow> jsval \<Rightarrow> jsval mprog" where
  \<comment> \<open>a row with the idempotency key exists\<close>
  "replayed_submission a existing moduleId action authorization actor =
     pbind (plift (check_intent existing moduleId action actor)) (\<lambda>_.
     pbind (pcatch (reconcileOperation a existing authorization) (\<lambda>_. pret existing)) (\<lambda>reconciled.
     plift (receipt True reconciled [])))"

definition check_runtime :: "string \<Rightarrow> jsval \<Rightarrow> jsval + unit" where
  "check_runtime action current =
     (if action = ''reinstall'' \<and> truthy (fld current ''installed'')
      then Inl (fail 409 ''runtime_present'' (JStr ''delete runtime and verify absence before reinstall''))
      else if action = ''install'' \<and> truthy (fld current ''installed'')
      then Inl (fail 409 ''already_installed'' (JStr ''Shared Observability is already installed''))
      else Inr ())"

definition running_phase :: "string \<Rightarrow> string" where
  "running_phase action = (if action = ''verify'' then ''Verifying'' else ''Running'')"

definition record_acceptance :: "mapi \<Rightarrow> string \<Rightarrow> string \<Rightarrow> jsval \<Rightarrow> jsval \<Rightarrow> jsval mprog" where
  "record_acceptance a operationId action inserted ownerOperation =
     pbind (iso_now a) (\<lambda>t.
     patchOperation a operationId (spread [(''phase'', JStr (running_phase action))] (moduleOperationState (running_phase action)) @ [
       (''evidence_ref'', if truthy (fld ownerOperation ''id'') then JStr (''his-operation:'' @ to_str (fld ownerOperation ''id'')) else JNull),
       (''result'', JObj (spread (obj_entries (fld inserted ''result''))
          [(''ownerAcceptedAt'', JStr t), (''ownerOperation'', ownerOperation)]))]))"

definition record_failure :: "mapi \<Rightarrow> string \<Rightarrow> jsval \<Rightarrow> jsval \<Rightarrow> unit mprog" where
  \<comment> \<open>an error of this write is ignored\<close>
  "record_failure a operationId inserted error =
     pcatch (pbind (iso_now a) (\<lambda>t.
       pbind (patchOperation a operationId (spread [(''phase'', JStr ''Failed'')] (moduleOperationState ''Failed'') @ [
         (''error_code'', js_or (fld error ''errorCode'') (JStr (''owner_http_'' @ to_str (js_or (fld error ''code'') (JInt 500))))),
         (''result'', JObj (spread (obj_entries (fld inserted ''result'')) [(''failedAt'', JStr t),
            (''message'', JStr (take 500 (to_str (js_or (fld error ''msg'') (JStr ''owner request failed'')))))]))])) (\<lambda>_. pret ())))
       (\<lambda>_. pret ())"

definition call_owner :: "mapi \<Rightarrow> string \<Rightarrow> string \<Rightarrow> string \<Rightarrow> string \<Rightarrow> jsval \<Rightarrow> jsval \<Rightarrow> jsval \<Rightarrow> string \<Rightarrow> jsval \<Rightarrow> jsval mprog" where
  "call_owner a operationId moduleId action reason authorization actor inserted path body =
     pcatch
       (pbind (call (m_env a) ''ownerRequest'' [JStr path, JObj [(''method'', JStr ''POST''), (''authorization'', authorization), (''body'', body)]]) (\<lambda>result.
        let ownerOperation = or_null (fld result ''operation'') in
        pbind (record_acceptance a operationId action inserted ownerOperation) (\<lambda>row.
        pbind (call (m_env a) ''logAudit'' [actor, JStr (''module.'' @ action), JStr moduleId, JStr ''accepted'', JStr reason,
           JObj [(''requestId'', JStr operationId), (''phase'', JStr ''requested''), (''targetType'', JStr ''module-operation'')]]) (\<lambda>_.
        plift (receipt False row [(''ownerOperation'', ownerOperation)])))))
       (\<lambda>error. pbind (record_failure a operationId inserted error) (\<lambda>_. pthrow error))"

definition new_submission :: "mapi \<Rightarrow> jsval \<Rightarrow> string \<Rightarrow> jsval \<Rightarrow> jsval \<Rightarrow> jsval \<Rightarrow> jsval \<Rightarrow> string \<Rightarrow> jsval \<Rightarrow> string \<Rightarrow> string \<Rightarrow> jsval mprog" where
  "new_submission a req moduleId body authorization actor m action policy reason key =
     pbind (getOwnerProjection a authorization) (\<lambda>projection.
     pbind (plift (check_runtime action (fld projection ''current''))) (\<lambda>_.
     pbind (call (m_env a) ''randomUUID'' []) (\<lambda>uuid.
     let operationId = to_str uuid in
     pbind (plift (get_prop actor ''sub'')) (\<lambda>_.
     pbind (iso_now a) (\<lambda>t.
     pbind (insert_operation_row a key (new_row operationId key moduleId action actor reason policy projection t m)) (\<lambda>inserted.
     pbind (plift (get_prop inserted ''operation_id'')) (\<lambda>insertedId.
     if insertedId \<noteq> JStr operationId
     then pbind (plift (check_intent inserted moduleId action actor)) (\<lambda>_. plift (receipt True inserted []))
     else pbind (plift (ownerRequestBody action reason body)) (\<lambda>(path, ownerBody).
          call_owner a operationId moduleId action reason authorization actor inserted path ownerBody))))))))"

definition submit :: "mapi \<Rightarrow> jsval \<Rightarrow> string \<Rightarrow> jsval \<Rightarrow> jsval \<Rightarrow> jsval \<Rightarrow> jsval mprog" where
  "submit a req moduleId body authorization actor =
     pbind (plift (checked_action moduleId body)) (\<lambda>(m, action, policy).
     pbind (plift (reasonFrom (fld body ''reason''))) (\<lambda>reason.
     pbind (plift (idempotencyKeyFrom req body)) (\<lambda>key.
     pbind (findByIdempotencyKey a key) (\<lambda>existing.
     if truthy existing then replayed_submission a existing moduleId action authorization actor
     else new_submission a req moduleId body authorization actor m action policy reason key))))"

section \<open>The HTTP handler\<close>

definition slug :: "string \<Rightarrow> bool" where
  \<comment> \<open>\<open>[a-z0-9-]+\<close>\<close>
  "slug s \<longleftrightarrow> s \<noteq> [] \<and> list_all (\<lambda>c. 97 \<le> (of_char c :: nat) \<and> (of_char c :: nat) \<le> 122 \<or> digit_char c \<or> c = CHR ''-'') s"

definition path_slug :: "string \<Rightarrow> string \<Rightarrow> string option" where
  \<comment> \<open>\<open>/^\/api\/modules\/([a-z0-9-]+)<suffix>$/\<close>\<close>
  "path_slug suffix p =
     (if starts_with ''/api/modules/'' p \<and> ends_with suffix (drop 13 p)
      then let s = take (length p - 13 - length suffix) (drop 13 p) in if slug s then Some s else None
      else None)"

definition operation_path :: "string \<Rightarrow> string option" where
  \<comment> \<open>\<open>/^\/api\/module-operations\/([0-9a-f-]{36})$/i\<close>; with the flag the literal part matches in any case too\<close>
  "operation_path p =
     (if to_lower (take 23 p) = ''/api/module-operations/'' \<and> length p = 59 \<and> list_all (\<lambda>c. hex_char c \<or> c = CHR ''-'') (drop 23 p)
      then Some (drop 23 p) else None)"

definition set_action :: "jsval \<Rightarrow> jsval + jsval" where
  \<comment> \<open>\<open>operationBody.action = 'verify'\<close> in strict mode; an array keeps no property the handler reads but this one\<close>
  "set_action body = (case body of
       JObj kvs \<Rightarrow> Inr (JObj (upsert ''action'' (JStr ''verify'') kvs))
     | JArr _ \<Rightarrow> Inr (JObj [(''action'', JStr ''verify'')])
     | _ \<Rightarrow> Inl type_error)"

definition handle_list :: "mapi \<Rightarrow> jsval \<Rightarrow> (jsval \<times> jsval) mprog" where
  "handle_list a authorization =
     pbind (plift (map_res (\<lambda>kv. publicModuleDescriptor (snd kv)) MODULES)) (\<lambda>descriptors.
     pbind (pcatch (getOwnerProjection a authorization)
              (\<lambda>error. pret (JObj [(''error'', JStr (to_str (js_or (fld error ''msg'') (JStr ''Shared Observability owner unavailable''))))]))) (\<lambda>projection.
     pret (JInt 200, JObj [(''items'', JArr (map (\<lambda>item.
       if map_of item ''id'' = Some (JStr ''shared-observability'')
       then JObj (spread item [(''current'', or_null (fld projection ''current'')),
              (''targetFingerprint'', or_null (fld projection ''targetFingerprint'')), (''ownerError'', or_null (fld projection ''error''))])
       else JObj item) descriptors))])))"

definition handle_module :: "mapi \<Rightarrow> jsval \<Rightarrow> string \<Rightarrow> (jsval \<times> jsval) mprog" where
  "handle_module a auth moduleId =
     (let m = lookup MODULES moduleId in
      if \<not> truthy m then pret (JInt 404, JObj [(''error'', JStr ''module not found''), (''errorCode'', JStr ''module_not_found'')])
      else pbind (if fld m ''id'' = JStr ''shared-observability'' then pbind (plift (get_prop auth ''authorization'')) (getOwnerProjection a) else pret JNull) (\<lambda>projection.
           pbind (plift (publicModuleDescriptor m)) (\<lambda>descriptor.
           pret (JInt 200, JObj (spread descriptor [(''current'', or_null (fld projection ''current'')),
             (''targetFingerprint'', or_null (fld projection ''targetFingerprint''))])))))"

definition handle_operation :: "mapi \<Rightarrow> jsval \<Rightarrow> string \<Rightarrow> (jsval \<times> jsval) mprog" where
  "handle_operation a auth operationId =
     pbind (findOperation a operationId) (\<lambda>row.
     if \<not> truthy row
     then pret (JInt 404, JObj [(''error'', JStr ''module operation not found''), (''errorCode'', JStr ''operation_not_found'')])
     else pbind (plift (get_prop auth ''authorization'')) (\<lambda>authorization.
          pbind (reconcileOperation a row authorization) (\<lambda>row'.
          pbind (plift (normalizeRow row')) (\<lambda>r. pret (JInt 200, JObj [(''receipt'', r)])))))"

definition handle_submit :: "mapi \<Rightarrow> jsval \<Rightarrow> string \<Rightarrow> jsval \<Rightarrow> jsval \<Rightarrow> (jsval \<times> jsval) mprog" where
  "handle_submit a req moduleId body auth =
     pbind (plift (get_prop auth ''authorization'')) (\<lambda>authorization.
     pbind (submit a req moduleId body authorization (fld auth ''actor'')) (\<lambda>result.
     let r = fld result ''receipt'';
         action = (if fld r ''action'' = JStr ''delete-runtime'' then JStr ''uninstall''
                   else if fld r ''action'' = JStr ''verify'' then JStr ''validate'' else fld r ''action'') in
     pret (JInt (if fld result ''duplicate'' = JBool True then 200 else 202), JObj [
       (''ok'', JBool True), (''duplicate'', fld result ''duplicate''), (''receipt'', r),
       (''operation'', js_or (fld result ''ownerOperation'') (JObj [(''id'', fld r ''operationId''), (''action'', action), (''phase'', fld r ''phase'')]))])))"

definition error_reply :: "jsval \<Rightarrow> jsval \<times> jsval" where
  "error_reply error =
     ((let code = to_num (fld error ''code'') in if num_less code (Fin 400) \<or> code = NaN then JInt 500 else JNum code),
      JObj [(''error'', js_or (fld error ''msg'') (JStr ''module operation unavailable'')), (''errorCode'', or_null (fld error ''errorCode''))])"

definition operation_body :: "mapi \<Rightarrow> jsval \<Rightarrow> bool \<Rightarrow> bool \<Rightarrow> jsval mprog" where
  \<comment> \<open>the body of a mutation; the verify route sets its action\<close>
  "operation_body a req mutates is_verify =
     (if \<not> mutates then pret JNull
      else pbind (call (m_env a) ''readBody'' [req]) (\<lambda>body. if is_verify then plift (set_action body) else pret body))"

definition handle :: "mapi \<Rightarrow> jsval \<Rightarrow> string \<Rightarrow> (jsval \<times> jsval) option mprog" where
  "handle a req pathname =
     (let listPath = (pathname = ''/api/modules''); moduleMatch = path_slug [] pathname;
          createMatch = path_slug ''/operations'' pathname; verifyMatch = path_slug ''/verify'' pathname;
          operationMatch = operation_path pathname;
          target = (case createMatch of Some i \<Rightarrow> Some i | None \<Rightarrow> verifyMatch);
          get = (fld req ''method'' = JStr ''GET''); post = (fld req ''method'' = JStr ''POST'') in
      if \<not> listPath \<and> moduleMatch = None \<and> target = None \<and> operationMatch = None then pret None
      else pbind (pcatch
        (pbind (operation_body a req (target \<noteq> None \<and> post) (verifyMatch \<noteq> None)) (\<lambda>body.
         pbind (call (m_env a) ''authenticate'' [req, JObj [(''mutation'', JBool post), (''action'', JStr (trim (str_or_empty (fld body ''action''))))]]) (\<lambda>auth.
         if listPath \<and> get then pbind (plift (get_prop auth ''authorization'')) (handle_list a)
         else if moduleMatch \<noteq> None \<and> get then handle_module a auth (the moduleMatch)
         else if operationMatch \<noteq> None \<and> get then handle_operation a auth (the operationMatch)
         else if target \<noteq> None \<and> post then handle_submit a req (the target) body auth
         else pret (JInt 405, JObj [(''error'', JStr ''method not allowed'')]))))
        (\<lambda>error. pret (error_reply error))) (\<lambda>reply. pret (Some reply)))"

section \<open>Calls that change the owner\<close>

definition is_post :: "jsval list \<times> answer \<Rightarrow> bool" where
  "is_post c \<longleftrightarrow> (case fst c of [_, options] \<Rightarrow> fld options ''method'' = JStr ''POST'' | _ \<Rightarrow> False)"

definition owner_posts :: "history \<Rightarrow> (jsval list \<times> answer) list" where
  "owner_posts h = filter is_post (calls ''ownerRequest'' h)"

lemma owner_posts_append [simp]: "owner_posts (h @ h') = owner_posts h @ owner_posts h'"
  by (simp add: owner_posts_def)

lemma owner_posts_other: "n \<noteq> ''ownerRequest'' \<Longrightarrow> owner_posts [(Call n args, r)] = []"
  by (simp add: owner_posts_def)

definition no_post :: "history \<Rightarrow> fx \<Rightarrow> bool" where
  \<comment> \<open>the log extends the given one without a mutation of the owner\<close>
  "no_post h s \<longleftrightarrow> (\<exists>h'. fx_log s = h @ h' \<and> owner_posts h' = [])"

lemma no_post_call [inv_intros]:
  "n \<noteq> ''ownerRequest'' \<Longrightarrow> pkeeps (no_post h) (call env n args)"
  by (auto simp: pkeeps_def no_post_def call_def Let_def owner_posts_other)

lemma no_post_get [inv_intros]:
  "pkeeps (no_post h) (call env ''ownerRequest'' [p, JObj [(''method'', JStr ''GET''), opt]])"
  by (auto simp: pkeeps_def no_post_def call_def Let_def owner_posts_def is_post_def fld_obj)

lemma no_post_iso_now [inv_intros]: "pkeeps (no_post h) (iso_now a)"
  unfolding iso_now_def by (intro inv_intros) simp

lemma no_post_projection [inv_intros]: "pkeeps (no_post h) (getOwnerProjection a authorization)"
  unfolding getOwnerProjection_def observabilityProjection_def Let_def by (intro inv_intros)

lemma no_post_patch [inv_intros]: "pkeeps (no_post h) (patchOperation a i patch)"
  unfolding patchOperation_def by (intro inv_intros) simp

lemma no_post_find [inv_intros]: "pkeeps (no_post h) (findByIdempotencyKey a key)"
  unfolding findByIdempotencyKey_def by (intro inv_intros) simp

lemma no_post_reconcile [inv_intros]: "pkeeps (no_post h) (reconcileOperation a row authorization)"
  unfolding reconcileOperation_def by (auto intro!: inv_intros split: option.splits)

lemma no_post_replayed [inv_intros]: "pkeeps (no_post h) (replayed_submission a existing moduleId action authorization actor)"
  unfolding replayed_submission_def by (intro inv_intros)

lemma no_post_record [inv_intros]:
  "pkeeps (no_post h) (record_acceptance a i action inserted op)" "pkeeps (no_post h) (record_failure a i inserted err)"
  unfolding record_acceptance_def record_failure_def by (intro inv_intros)+

definition owner_post :: "string \<Rightarrow> jsval \<Rightarrow> jsval \<Rightarrow> service_call" where
  "owner_post path authorization ownerBody = Call ''ownerRequest'' [JStr path,
     JObj [(''method'', JStr ''POST''), (''authorization'', authorization), (''body'', ownerBody)]]"

definition posted_after :: "history \<Rightarrow> service_call \<Rightarrow> fx \<Rightarrow> bool" where
  "posted_after h c s \<longleftrightarrow> (\<exists>r h2. fx_log s = h @ (c, r) # h2 \<and> owner_posts h2 = [])"

lemma posted_afterI: "no_post (h @ [(c, r)]) s \<Longrightarrow> posted_after h c s"
  by (fastforce simp: no_post_def posted_after_def)

lemma call_owner_posts_once:
  assumes "fx_log s = h"
  shows "posted_after h (owner_post path authorization ownerBody)
    (snd (call_owner a operationId moduleId action reason authorization actor inserted path ownerBody s))"
proof -
  let ?c = "owner_post path authorization ownerBody"
  let ?P = "\<lambda>_. posted_after h ?c"
  have keep: "wp m ?P ?P t" if "no_post (h @ [(?c, r)]) t" and "\<And>h. pkeeps (no_post h) m" for m :: "'b mprog" and t r
    using that by (auto intro!: wp_mono [OF pkeeps_wp] posted_afterI)
  have fail: "wp (pbind (record_failure a operationId inserted error) (\<lambda>_. pthrow error)) ?P ?P t" if p: "posted_after h ?c t" for error t
  proof -
    obtain r where t: "no_post (h @ [(?c, r)]) t"
      using p by (auto simp: posted_after_def no_post_def)
    show ?thesis
      by (rule keep [OF t]) (intro inv_intros)
  qed
  have rest: "wp (pbind (record_acceptance a operationId action inserted op) (\<lambda>row.
        pbind (call (m_env a) ''logAudit'' args) (\<lambda>_. plift (f row)))) ?P ?P t" if "no_post (h @ [(?c, r)]) t" for op args f t r
    by (rule keep [OF that]) (intro inv_intros, simp)
  have start: "no_post (h @ [(?c, r)]) (s\<lparr>fx_log := fx_log s @ [(?c, r)]\<rparr>)" for r
    by (simp add: no_post_def assms) (simp add: owner_posts_def)
  have "wp (call_owner a operationId moduleId action reason authorization actor inserted path ownerBody) ?P ?P s"
    unfolding call_owner_def Let_def wp_pcatch
    by (subst wp_pbind, rule wp_callI)
      (auto simp: owner_post_def [symmetric] intro!: wp_mono [OF rest [OF start]] fail posted_afterI [OF start])
  then show ?thesis
    by (rule wp_snd)
qed

definition saw :: "string \<Rightarrow> jsval list \<Rightarrow> jsval \<Rightarrow> history \<Rightarrow> bool" where
  "saw n args x h \<longleftrightarrow> (args, Inr x) \<in> set (calls n h)"

lemma saw_call [inv_intros]: "pkeeps (\<lambda>s. saw n args x (fx_log s)) (call env n' args')"
  by (auto simp: pkeeps_def saw_def call_def Let_def)

lemma saw_iso [inv_intros]: "pkeeps (\<lambda>s. saw n args x (fx_log s)) (iso_now a)"
  unfolding iso_now_def by (intro inv_intros)

lemma saw_insert [inv_intros]: "pkeeps (\<lambda>s. saw n args x (fx_log s)) (insert_operation_row a key row)"
  unfolding insert_operation_row_def findByIdempotencyKey_def by (intro inv_intros)

lemma no_post_insert [inv_intros]: "pkeeps (no_post h) (insert_operation_row a key row)"
  unfolding insert_operation_row_def by (intro inv_intros) simp

lemma inserted_row_was_read:
  "wp (insert_operation_row a key row) (\<lambda>x s. \<exists>args rows. saw ''restRequest'' args rows (fx_log s) \<and> x = first_row rows) (\<lambda>_ _. True) s"
  unfolding insert_operation_row_def wp_pcatch wp_pbind findByIdempotencyKey_def
  by (rule wp_callI) (auto simp: wp_simps saw_def first_or_null_def or_null_def js_or_def split: sum.splits
      intro!: wp_callI exI)

definition justified_post :: "string \<Rightarrow> jsval \<Rightarrow> history \<Rightarrow> bool" where
  \<comment> \<open>no mutation of the owner, or exactly one, made after the row of this very operation was stored\<close>
  "justified_post moduleId body h \<longleftrightarrow> owner_posts h = [] \<or>
     (\<exists>h1 h2 r path ownerBody authorization reason uuid args rows.
        h = h1 @ (owner_post path authorization ownerBody, r) # h2 \<and> owner_posts h1 = [] \<and> owner_posts h2 = []
        \<and> moduleId = ''shared-observability'' \<and> 8 \<le> length reason \<and> length reason \<le> 1000
        \<and> ownerRequestBody (trim (str_or_empty (fld body ''action''))) reason body = Inr (path, ownerBody)
        \<and> saw ''randomUUID'' [] uuid h1 \<and> saw ''restRequest'' args rows h1
        \<and> fld (first_row rows) ''operation_id'' = JStr (to_str uuid))"

lemma quiet_justified: "no_post [] s \<Longrightarrow> justified_post moduleId body (fx_log s)"
  by (auto simp: no_post_def justified_post_def)

lemma quiet_run:
  "(\<And>h. pkeeps (no_post h) m) \<Longrightarrow> no_post [] s \<Longrightarrow> justified_post moduleId body (fx_log (snd (m s)))"
  by (metis pkeeps_def quiet_justified)

lemma checked_action_module:
  assumes "checked_action moduleId body = Inr (m, action, policy)"
  shows "moduleId = ''shared-observability'' \<and> action = trim (str_or_empty (fld body ''action''))"
proof -
  have own: "truthy (lookup MODULES moduleId)" and act: "action = trim (str_or_empty (fld body ''action''))"
    and pol: "map_of RISK_TABLE (moduleId @ '':'' @ action) \<noteq> None" and m: "JStr action \<in> set (elems (fld (lookup MODULES moduleId) ''actions''))"
    using assms by (auto simp: checked_action_def Let_def split: if_splits option.splits)
  have "moduleId \<in> {''shared-observability'', ''argocd'', ''crossplane'', ''postgres''} \<or> lookup MODULES moduleId = JObj []"
    using own by (auto simp: lookup_def table_get_def MODULES_def split: if_splits)
  then have "moduleId = ''shared-observability''"
    using m by (auto simp: lookup_def table_get_def MODULES_def unavailable_module_def fld_obj elems_def)
  with act show ?thesis
    by simp
qed

lemma new_submission_justified:
  assumes "no_post [] s" and "moduleId = ''shared-observability''" and "action = trim (str_or_empty (fld body ''action''))"
    and "8 \<le> length reason" and "length reason \<le> 1000"
  shows "justified_post moduleId body (fx_log (snd (new_submission a req moduleId body authorization actor m action policy reason key s)))"
proof -
  let ?J = "\<lambda>_ t. justified_post moduleId body (fx_log t)" and ?q = "\<lambda>_. no_post []"
  have call: "wp (call_owner a operationId moduleId action reason authorization actor inserted path ob) ?J ?J t"
    if "no_post [] t" "saw ''randomUUID'' [] uuid (fx_log t)" "saw ''restRequest'' args rows (fx_log t)"
      "fld (first_row rows) ''operation_id'' = JStr (to_str uuid)" "ownerRequestBody action reason body = Inr (path, ob)"
    for operationId inserted path ob t uuid args rows
    using call_owner_posts_once [where s = t, OF refl, of path authorization ob a operationId moduleId action reason actor inserted] that assms(2-5)
    by (auto simp: wp_def posted_after_def justified_post_def no_post_def split: prod.splits sum.splits) (metis append_Nil)+
  let ?G = "\<lambda>uuid t. no_post [] t \<and> saw ''randomUUID'' [] uuid (fx_log t)"
  let ?k4 = "\<lambda>uuid x. pbind (plift (get_prop x ''operation_id'')) (\<lambda>insertedId.
       if insertedId \<noteq> JStr (to_str uuid)
       then pbind (plift (check_intent x moduleId action actor)) (\<lambda>_. plift (receipt True x []))
       else pbind (plift (ownerRequestBody action reason body)) (\<lambda>(path, ownerBody).
            call_owner a (to_str uuid) moduleId action reason authorization actor x path ownerBody))"
  let ?k3 = "\<lambda>uuid row. pbind (insert_operation_row a key row) (?k4 uuid)"
  have 4: "wp (?k4 uuid x) ?J ?J t"
    if "?G uuid t \<and> (\<exists>args rows. saw ''restRequest'' args rows (fx_log t) \<and> x = first_row rows)" for x t uuid
    using that quiet_justified [of t] call [of t uuid] by (auto simp: wp_simps get_prop_def split: sum.splits)
  have 3: "wp (?k3 uuid row) ?J ?J t" if "?G uuid t" for row t uuid
  proof (rule wp_pbindI)
    show "wp (insert_operation_row a key row) (\<lambda>x t. ?G uuid t \<and> (\<exists>args rows. saw ''restRequest'' args rows (fx_log t) \<and> x = first_row rows)) ?J t"
      by (rule wp_mono [OF wp_conj [OF wp_conj [OF pkeeps_wp [OF no_post_insert] pkeeps_wp [OF saw_insert]] inserted_row_was_read]])
        (use that in \<open>auto intro: quiet_justified\<close>)
  qed (rule 4)
  have 2: "wp (pbind (iso_now a) (\<lambda>tm. ?k3 uuid (row tm))) ?J ?J t" if "?G uuid t" for row t uuid
  proof (rule wp_pbindI)
    show "wp (iso_now a) (\<lambda>_. ?G uuid) ?J t"
      by (rule wp_mono [OF wp_conj [OF pkeeps_wp [OF no_post_iso_now] pkeeps_wp [OF saw_iso]]])
        (use that in \<open>auto intro: quiet_justified\<close>)
  qed (rule 3)
  have 1: "wp (pbind (call (m_env a) ''randomUUID'' []) (\<lambda>uuid. pbind (plift (get_prop actor ''sub'')) (\<lambda>_.
      pbind (iso_now a) (\<lambda>tm. ?k3 uuid (row uuid tm))))) ?J ?J t" if t: "no_post [] t" for row t
  proof (rule wp_pbindI)
    show "wp (call (m_env a) ''randomUUID'' []) ?G ?J t"
      using t by (intro wp_callI quiet_justified) (auto simp: saw_def no_post_def owner_posts_other)
    fix uuid u assume "?G uuid u"
    then show "wp (pbind (plift (get_prop actor ''sub'')) (\<lambda>_. pbind (iso_now a) (\<lambda>tm. ?k3 uuid (row uuid tm)))) ?J ?J u"
      using 2 [of u uuid] quiet_justified [of u] by (simp add: wp_pbind [of "plift _"] wp_plift split: sum.splits)
  qed
  show ?thesis
  proof (rule wp_snd [where P = "\<lambda>t. justified_post moduleId body (fx_log t)"], unfold new_submission_def Let_def, rule wp_pbindI)
    show "wp (getOwnerProjection a authorization) ?q ?J s"
      by (rule wp_mono [OF pkeeps_wp [OF no_post_projection assms(1)]]) (auto intro: quiet_justified)
  next
    fix projection t assume t: "no_post [] t"
    show "wp (pbind (plift (check_runtime action (fld projection ''current''))) (\<lambda>_. pbind (call (m_env a) ''randomUUID'' []) (\<lambda>uuid.
       pbind (plift (get_prop actor ''sub'')) (\<lambda>_. pbind (iso_now a) (\<lambda>tm.
       ?k3 uuid (new_row (to_str uuid) key moduleId action actor reason policy projection tm m)))))) ?J ?J t"
      using 1 [OF t] quiet_justified [OF t] by (simp add: wp_pbind [of "plift _"] wp_plift split: sum.splits)
  qed
qed


section \<open>A deletion without confirmation\<close>

definition inserted_row :: "history \<Rightarrow> jsval list" where
  \<comment> \<open>the rows a store that keeps what was posted has\<close>
  "inserted_row h = concat (map (\<lambda>(args, r). case args of [_, options] \<Rightarrow> elems (fld options ''body'') | _ \<Rightarrow> [])
     (filter (\<lambda>(args, r). case args of [_, options] \<Rightarrow> fld options ''method'' = JStr ''POST'' | _ \<Rightarrow> False) (calls ''restRequest'' h)))"

definition demo_module_env :: environment where
  "demo_module_env h c =
     (if cname c = ''now'' then Inr (JInt 0)
      else if cname c = ''randomUUID'' then Inr (JStr ''op-1'')
      else if cname c = ''ownerRequest'' then Inr (JObj [(''checkedAt'', JStr ''t''), (''items'', JArr [JObj [(''id'', JStr ''kube-prometheus-stack''),
             (''release'', JObj [(''managed'', JBool True)])]])])
      else if cname c = ''restRequest''
      then case cargs c of [_, options] \<Rightarrow>
             if fld options ''method'' = JStr ''POST'' then Inr (fld options ''body'') else Inr (JArr (inserted_row h))
           | _ \<Rightarrow> Inr JNull
      else Inr JNull)"

definition demo_module_api :: mapi where
  "demo_module_api = \<lparr>m_env = demo_module_env, m_sha = (\<lambda>_. [])\<rparr>"

definition demo_deletion :: "string \<Rightarrow> jsval" where
  "demo_deletion confirm = JObj [(''action'', JStr ''delete-runtime''), (''reason'', JStr ''free the disk''), (''idempotencyKey'', JStr ''key-0001''),
     (''confirm'', JStr confirm)]"

definition demo_submit :: "string \<Rightarrow> jsval mprog" where
  "demo_submit confirm = submit demo_module_api (JObj [(''headers'', JObj [])]) ''shared-observability'' (demo_deletion confirm) JNull
     (JObj [(''sub'', JStr ''u1'')])"

definition demo_first :: "(jsval + jsval) \<times> fx" where
  "demo_first = demo_submit [] \<lparr>fx_log = []\<rparr>"

definition demo_second :: "(jsval + jsval) \<times> fx" where
  "demo_second = demo_submit ''kube-prometheus-stack'' (snd demo_first)"

text \<open>A runtime deletion without the confirmation is refused only after its row was stored: the request answers \<open>confirmation_required\<close>, yet
  the store keeps the operation as queued under the idempotency key and nothing ever fails it; repeating the request with the right confirmation and the same
  key is answered as a duplicate of the queued operation, and the owner is never asked to delete anything.\<close>

theorem unconfirmed_deletion_leaves_a_queued_operation:
  "projl (fst demo_first) = fail 400 ''confirmation_required'' (JStr (''confirm must equal '' @ [CHR 0x27] @ ''kube-prometheus-stack'' @ [CHR 0x27]))
   \<and> isl (fst demo_first) \<and> map (\<lambda>row. fld row ''phase'') (inserted_row (fx_log (snd demo_first))) = [JStr ''Queued'']
   \<and> \<not> isl (fst demo_second) \<and> fld (projr (fst demo_second)) ''duplicate'' = JBool True
   \<and> fld (fld (projr (fst demo_second)) ''receipt'') ''phase'' = JStr ''Queued''
   \<and> owner_posts (fx_log (snd demo_second)) = []"
  by (intro conjI) code_simp+

end
