(* ===== verification/NotificationContract.thy ===== *)
theory NotificationContract
  imports Effects
begin

text \<open>
  Input contract of the notification dispatcher, \<open>src/apps/notification-dispatcher/contract.js\<close>: channel configuration per
  provider, events, message text and the classification of provider answers.

  \<open>new URL\<close> and \<open>net.isIP\<close> are the parameters \<open>pu\<close> and \<open>ip\<close>.  An HTTP response is its \<open>ok\<close> flag, its status and its
  \<open>retry-after\<close> header.  The bullet of masked values is written as its UTF-8 bytes.
\<close>

definition PROVIDERS :: "string list" where
  "PROVIDERS = [''slack'', ''discord'', ''smtp'', ''twilio'']"

definition SEVERITIES :: "string list" where
  "SEVERITIES = [''info'', ''success'', ''warning'', ''error'', ''critical'']"

definition asText :: "jsval \<Rightarrow> string \<Rightarrow> nat \<Rightarrow> nat \<Rightarrow> bool \<Rightarrow> jsval + string" where
  "asText v label low high required =
     (let text = trim (to_str (js_coalesce v (JStr []))) in
      if required \<and> text = [] then Inl (http_error 400 (label @ '' is required''))
      else if length text < low \<or> high < length text
      then Inl (http_error 400 (label @ '' must be '' @ nat_str low @ ''-'' @ nat_str high @ '' characters''))
      else Inr text)"

record url =
  u_protocol :: string
  u_username :: string
  u_password :: string
  u_hash :: string
  u_hostname :: string
  u_pathname :: string
  u_href :: string

definition webhook_path :: "string \<Rightarrow> bool" where
  \<comment> \<open>\<open>/^\/api\/webhooks\/[^/]+\/[^/]+/\<close>\<close>
  "webhook_path p \<longleftrightarrow> starts_with ''/api/webhooks/'' p \<and>
     (let rest = drop 14 p; seg = takeWhile (\<lambda>c. c \<noteq> CHR ''/'') rest; after = drop (length seg) rest
      in seg \<noteq> [] \<and> 2 \<le> length after \<and> after ! 1 \<noteq> CHR ''/'')"

definition safeUrl :: "(string \<Rightarrow> url option) \<Rightarrow> jsval \<Rightarrow> string \<Rightarrow> jsval + string" where
  "safeUrl pu v provider = (case pu (str_or_empty v) of
       None \<Rightarrow> Inl (http_error 400 (provider @ '' webhook URL is invalid''))
     | Some u \<Rightarrow>
         let host = to_lower (u_hostname u) in
         if u_protocol u \<noteq> ''https:'' \<or> u_username u \<noteq> [] \<or> u_password u \<noteq> [] \<or> u_hash u \<noteq> []
         then Inl (http_error 400 (provider @ '' webhook must be an HTTPS URL without credentials''))
         else if provider = ''slack'' \<and> host \<notin> set [''hooks.slack.com'', ''hooks.slack-gov.com'']
         then Inl (http_error 400 ''Slack webhook host is not allowed'')
         else if provider = ''discord'' \<and> host \<notin> set [''discord.com'', ''discordapp.com'']
         then Inl (http_error 400 ''Discord webhook host is not allowed'')
         else if provider = ''discord'' \<and> \<not> webhook_path (u_pathname u)
         then Inl (http_error 400 ''Discord webhook path is invalid'')
         else Inr (u_href u))"

definition safeSmtpHost :: "(string \<Rightarrow> bool) \<Rightarrow> jsval \<Rightarrow> jsval + string" where
  "safeSmtpHost ip v =
     rbind (asText v ''SMTP host'' 0 253 True) (\<lambda>text.
     let host = to_lower text in
     if host = ''localhost'' \<or> ends_with ''.localhost'' host \<or> ip host
     then Inl (http_error 400 ''SMTP host must be a configured DNS name'') else Inr host)"

fun split_on :: "char \<Rightarrow> string \<Rightarrow> string list" where
  \<comment> \<open>\<open>s.split(c)\<close>\<close>
  "split_on c [] = [[]]"
| "split_on c (x # s) = (if x = c then [] # split_on c s
     else case split_on c s of [] \<Rightarrow> [[x]] | t # ts \<Rightarrow> (x # t) # ts)"

definition entries_of :: "jsval \<Rightarrow> string list" where
  \<comment> \<open>\<open>(Array.isArray(v) ? v : String(v || '').split(',')).map(String)\<close>\<close>
  "entries_of v = (case v of JArr xs \<Rightarrow> map to_str xs | _ \<Rightarrow> split_on (CHR '','') (str_or_empty v))"

definition is_email :: "string \<Rightarrow> bool" where
  \<comment> \<open>\<open>/^[^@\s]+@[^@\s]+\.[^@\s]+$/\<close>\<close>
  "is_email s \<longleftrightarrow> \<not> list_ex ws s \<and> (case split_on (CHR ''@'') s of
       [local, domain] \<Rightarrow> local \<noteq> [] \<and> list_ex (\<lambda>i. domain ! i = CHR ''.'') [1..<length domain - 1]
     | _ \<Rightarrow> False)"

definition emailList :: "jsval \<Rightarrow> jsval + string list" where
  "emailList v = (let out = uniq (filter (\<lambda>s. s \<noteq> []) (map (\<lambda>s. to_lower (trim s)) (entries_of v))) in
     if out = [] \<or> 30 < length out \<or> list_ex (\<lambda>s. \<not> is_email s) out
     then Inl (http_error 400 ''at least one valid email recipient is required'') else Inr out)"

definition is_phone :: "string \<Rightarrow> bool" where
  \<comment> \<open>\<open>/^\+[1-9]\d{7,14}$/\<close>\<close>
  "is_phone s \<longleftrightarrow> 9 \<le> length s \<and> length s \<le> 16 \<and> hd s = CHR ''+'' \<and> list_all digit_char (tl s) \<and> s ! 1 \<noteq> CHR ''0''"

definition phoneList :: "jsval \<Rightarrow> jsval + string list" where
  "phoneList v = (let out = uniq (filter (\<lambda>s. s \<noteq> []) (map (filter (\<lambda>c. \<not> ws c \<and> c \<notin> set ''()-'')) (entries_of v))) in
     if out = [] \<or> 30 < length out \<or> list_ex (\<lambda>s. \<not> is_phone s) out
     then Inl (http_error 400 ''SMS recipients must use E.164 format'') else Inr out)"

definition bullet :: string where
  "bullet = [CHR 0xE2, CHR 0x80, CHR 0xA2]"

definition redact :: "jsval \<Rightarrow> string" where
  "redact v = (let text = str_or_empty v in
     if length text \<le> 6 then concat (replicate 6 bullet)
     else take 3 text @ concat (replicate 4 bullet) @ drop (length text - 3) text)"

definition maskTarget :: "jsval \<Rightarrow> jsval \<Rightarrow> jsval + string" where
  "maskTarget provider config =
     (if provider = JStr ''smtp'' \<or> provider = JStr ''twilio''
      then rbind (array_of (js_or (fld config ''recipients'') (JArr []))) (\<lambda>xs. Inr (join '', '' (map redact xs)))
      else rbind (asText (js_or (fld config ''target'') (JStr [])) ''target'' 0 160 False) (\<lambda>t.
           Inr (if t = [] then ''configured webhook'' else t)))"

section \<open>Channels\<close>

definition or_text :: "string \<Rightarrow> string \<Rightarrow> string" where
  "or_text s fallback = (if s = [] then fallback else s)"

definition slack_channel :: "(string \<Rightarrow> url option) \<Rightarrow> jsval \<Rightarrow> jsval \<Rightarrow> jsval + jsval \<times> jsval" where
  "slack_channel pu raw secret =
     rbind (asText (fld raw ''target'') ''Slack target'' 0 160 False) (\<lambda>target.
     rbind (asText (fld raw ''titlePrefix'') ''title prefix'' 0 80 False) (\<lambda>prefix.
     rbind (safeUrl pu (fld secret ''webhookUrl'') ''slack'') (\<lambda>u.
     Inr (JObj [(''target'', JStr (or_text target ''Slack channel'')), (''titlePrefix'', JStr prefix)],
          JObj [(''webhookUrl'', JStr u)]))))"

definition discord_channel :: "(string \<Rightarrow> url option) \<Rightarrow> jsval \<Rightarrow> jsval \<Rightarrow> jsval + jsval \<times> jsval" where
  "discord_channel pu raw secret =
     rbind (asText (fld raw ''target'') ''Discord target'' 0 160 False) (\<lambda>target.
     rbind (asText (fld raw ''threadId'') ''Discord thread ID'' 0 32 False) (\<lambda>thread.
     rbind (asText (fld raw ''titlePrefix'') ''title prefix'' 0 80 False) (\<lambda>prefix.
     rbind (safeUrl pu (fld secret ''webhookUrl'') ''discord'') (\<lambda>u.
     Inr (JObj [(''target'', JStr (or_text target ''Discord channel'')), (''threadId'', JStr thread), (''titlePrefix'', JStr prefix)],
          JObj [(''webhookUrl'', JStr u)])))))"

definition smtp_port :: "jsval \<Rightarrow> jsval + jnum" where
  "smtp_port v = (let port = to_num (js_or v (JInt 587)) in
     if \<not> num_is_integer port \<or> num_less port (Fin 1) \<or> num_less (Fin 65535) port
     then Inl (http_error 400 ''SMTP port is invalid'') else Inr port)"

definition smtp_channel :: "(string \<Rightarrow> bool) \<Rightarrow> jsval \<Rightarrow> jsval \<Rightarrow> jsval + jsval \<times> jsval" where
  "smtp_channel ip raw secret =
     rbind (smtp_port (fld raw ''port'')) (\<lambda>port.
     rbind (safeSmtpHost ip (fld raw ''host'')) (\<lambda>host.
     rbind (emailList (JArr [fld raw ''from''])) (\<lambda>sender.
     rbind (emailList (fld raw ''recipients'')) (\<lambda>recipients.
     rbind (asText (fld raw ''titlePrefix'') ''title prefix'' 0 80 False) (\<lambda>prefix.
     rbind (asText (fld secret ''username'') ''SMTP username'' 0 255 True) (\<lambda>username.
     rbind (asText (fld secret ''password'') ''SMTP password'' 0 1024 True) (\<lambda>password.
     Inr (JObj [(''host'', JStr host), (''port'', JNum port), (''secure'', JBool (fld raw ''secure'' = JBool True)),
            (''starttls'', JBool (fld raw ''starttls'' \<noteq> JBool False)), (''from'', JStr (hd sender)),
            (''recipients'', JArr (map JStr recipients)), (''titlePrefix'', JStr prefix)],
          JObj [(''username'', JStr username), (''password'', JStr password)]))))))))"

definition twilio_channel :: "jsval \<Rightarrow> jsval \<Rightarrow> jsval + jsval \<times> jsval" where
  "twilio_channel raw secret =
     rbind (asText (fld raw ''accountSid'') ''Twilio account SID'' 0 64 True) (\<lambda>sid.
     rbind (asText (fld raw ''messagingServiceSid'') ''Twilio messaging service SID'' 0 64 False) (\<lambda>service.
     rbind (asText (fld raw ''from'') ''Twilio sender'' 0 32 False) (\<lambda>sender.
     rbind (phoneList (fld raw ''recipients'')) (\<lambda>recipients.
     rbind (asText (fld raw ''titlePrefix'') ''title prefix'' 0 80 False) (\<lambda>prefix.
     rbind (guard_else (http_error 400 ''Twilio sender or messaging service is required'') (service \<noteq> [] \<or> sender \<noteq> [])) (\<lambda>_.
     rbind (asText (fld secret ''authToken'') ''Twilio auth token'' 0 255 True) (\<lambda>token.
     Inr (JObj [(''accountSid'', JStr sid), (''messagingServiceSid'', JStr service), (''from'', JStr sender),
            (''recipients'', JArr (map JStr recipients)), (''titlePrefix'', JStr prefix)],
          JObj [(''authToken'', JStr token)]))))))))"

record channel =
  ch_name :: string
  ch_provider :: string
  ch_config :: jsval
  ch_secret :: jsval

definition object_or_empty :: "jsval \<Rightarrow> jsval" where
  \<comment> \<open>\<open>v && typeof v === 'object' ? v : {}\<close>\<close>
  "object_or_empty v = (if is_object v then v else JObj [])"

definition channelInput :: "(string \<Rightarrow> url option) \<Rightarrow> (string \<Rightarrow> bool) \<Rightarrow> jsval \<Rightarrow> jsval + channel" where
  "channelInput pu ip input =
     rbind (asText (fld input ''provider'') ''provider'' 0 32 True) (\<lambda>p.
     let provider = to_lower p in
     rbind (guard_else (http_error 400 ''unsupported notification provider'') (provider \<in> set PROVIDERS)) (\<lambda>_.
     rbind (asText (fld input ''name'') ''name'' 2 80 True) (\<lambda>name.
     let raw = object_or_empty (fld input ''config''); secret = object_or_empty (fld input ''secret'') in
     rbind (if provider = ''slack'' then slack_channel pu raw secret
            else if provider = ''discord'' then discord_channel pu raw secret
            else if provider = ''smtp'' then smtp_channel ip raw secret
            else twilio_channel raw secret) (\<lambda>(config, normalized).
     Inr \<lparr>ch_name = name, ch_provider = provider, ch_config = config, ch_secret = normalized\<rparr>))))"

section \<open>Events and messages\<close>

definition plain_or_empty :: "jsval \<Rightarrow> jsval" where
  "plain_or_empty v = (if is_plain_object v then v else JObj [])"

definition normalizedEvent :: "(string \<Rightarrow> jnum) \<Rightarrow> jnum \<Rightarrow> jsval \<Rightarrow> jsval + jsval" where
  "normalizedEvent dp now input =
     rbind (asText (fld input ''severity'') ''severity'' 0 16 True) (\<lambda>sev.
     let severity = to_lower sev in
     rbind (guard_else (http_error 400 ''invalid notification severity'') (severity \<in> set SEVERITIES)) (\<lambda>_.
     rbind (asText (fld input ''sourceType'') ''source type'' 0 80 True) (\<lambda>sourceType.
     rbind (asText (fld input ''sourceId'') ''source ID'' 0 255 True) (\<lambda>sourceId.
     rbind (asText (fld input ''source'') ''source'' 0 120 True) (\<lambda>source.
     rbind (asText (fld input ''category'') ''category'' 0 120 False) (\<lambda>category.
     rbind (asText (fld input ''title'') ''title'' 0 240 True) (\<lambda>title.
     rbind (asText (fld input ''body'') ''body'' 0 4000 False) (\<lambda>body.
     rbind (asText (fld input ''route'') ''route'' 0 500 False) (\<lambda>route.
     rbind (to_iso_string (if truthy (fld input ''occurredAt'') then date_time dp (fld input ''occurredAt'') else now)) (\<lambda>tm.
     Inr (JObj [(''sourceType'', JStr sourceType), (''sourceId'', JStr sourceId), (''source'', JStr source), (''category'', JStr category),
       (''severity'', JStr severity), (''title'', JStr title), (''body'', JStr body), (''route'', JStr route),
       (''labels'', plain_or_empty (fld input ''labels'')), (''occurredAt'', JStr tm)])))))))))))"

definition messageFor :: "jsval \<Rightarrow> jsval \<Rightarrow> string" where
  "messageFor event config =
     (let prefix = (if truthy (fld config ''titlePrefix'') then ''['' @ to_str (fld config ''titlePrefix'') @ ''] '' else []) in
      take 3500 (join [CHR 0x0A] (
        [prefix @ to_str (fld event ''title''),
         ''Severity: '' @ to_upper (to_str (js_or (fld event ''severity'') (JStr ''info''))),
         ''Source: '' @ to_str (js_or (fld event ''source'') (JStr ''Console''))]
        @ (if truthy (fld event ''body'') then [to_str (fld event ''body'')] else [])
        @ (if truthy (fld event ''route'') then [to_str (fld event ''route'')] else []))))"

definition retryAfterMs :: "jsval \<Rightarrow> jsval \<Rightarrow> int option" where
  \<comment> \<open>of the \<open>retry-after\<close> header and the answer\<close>
  "retryAfterMs header body = (case to_num (js_or (js_or header (fld body ''retry_after'')) (JInt 0)) of
       Fin r \<Rightarrow> if 0 < r then Some \<lceil>r * 1000\<rceil> else None
     | _ \<Rightarrow> None)"

datatype outcome = Accepted | Delivered | Retryable | Permanent

record response =
  rs_ok :: bool
  rs_status :: int
  rs_retry_after :: jsval

record send_result =
  sr_kind :: outcome
  sr_code :: string
  sr_retry_after :: "int option"
  sr_message_id :: jsval
  sr_detail :: string

definition classifyHttp :: "response \<Rightarrow> jsval \<Rightarrow> send_result" where
  "classifyHttp r body =
     (let base = \<lparr>sr_kind = Permanent, sr_code = int_str (rs_status r), sr_retry_after = None, sr_message_id = JStr [], sr_detail = []\<rparr> in
      if rs_ok r then base\<lparr>sr_kind := Accepted\<rparr>
      else if rs_status r = 429 \<or> 500 \<le> rs_status r
      then base\<lparr>sr_kind := Retryable, sr_retry_after := retryAfterMs (rs_retry_after r) body\<rparr>
      else base)"

end
