(* ===== verification/OwnerAdmission.thy ===== *)
theory OwnerAdmission
  imports Effects
begin

text \<open>
  Admission of browser requests at an owner service, \<open>src/apps/notification-dispatcher/owner-admission.js\<close> and
  \<open>owner-policy.js\<close>: the closed route list, the admission marker and CSRF evidence, the exchanged bearer credential, and the
  current identity projection fetched from the Console API.

  \<open>new URL\<close> (for the request path) and the decoding of the credential's payload are parameters; \<open>fetch\<close> and reading its body
  are service calls.  A response carries \<open>ok\<close> and \<open>status\<close>; \<open>Buffer.byteLength\<close> of a text is its length.
\<close>

definition ROLE_MARKERS :: "(string \<times> string) list" where
  "ROLE_MARKERS = [(''console.role.admin'', ''console-admins''), (''console.role.operator'', ''console-operators''),
     (''console.role.viewer'', ''console-viewers'')]"

definition SAFE_METHODS :: "string list" where
  "SAFE_METHODS = [''GET'', ''HEAD'', ''OPTIONS'']"

definition is_permission :: "string \<Rightarrow> bool" where
  \<comment> \<open>\<open>/^[a-z][a-z0-9._:-]{0,127}$/u\<close>\<close>
  "is_permission s \<longleftrightarrow> 1 \<le> length s \<and> length s \<le> 128 \<and>
     (let low = (\<lambda>c. 97 \<le> (of_char c :: nat) \<and> (of_char c :: nat) \<le> 122) in
      low (hd s) \<and> list_all (\<lambda>c. low c \<or> digit_char c \<or> c \<in> set ''._:-'') (tl s))"

definition is_revision :: "string \<Rightarrow> bool" where
  \<comment> \<open>\<open>/^(?:0|[1-9][0-9]*)$/u\<close>\<close>
  "is_revision s \<longleftrightarrow> s \<noteq> [] \<and> list_all digit_char s \<and> (s = ''0'' \<or> hd s \<noteq> CHR ''0'')"

definition owner_fail :: "int \<Rightarrow> jsval \<Rightarrow> jsval" where
  "owner_fail code msg = JObj [(''code'', JInt code), (''status'', JInt code), (''msg'', msg), (''message'', msg)]"

definition token_part :: "string \<Rightarrow> bool" where
  "token_part s \<longleftrightarrow> s \<noteq> [] \<and> list_all (\<lambda>c. alpha_char c \<or> digit_char c \<or> c \<in> set ''_-'') s"

fun split_dots :: "string \<Rightarrow> string list" where
  "split_dots [] = [[]]"
| "split_dots (x # s) = (if x = CHR ''.'' then [] # split_dots s
     else case split_dots s of [] \<Rightarrow> [[x]] | t # ts \<Rightarrow> (x # t) # ts)"

definition bearerCredential :: "jsval \<Rightarrow> jsval + string" where
  \<comment> \<open>\<open>/^Bearer\s+([A-Za-z0-9_-]+[.][A-Za-z0-9_-]+[.][A-Za-z0-9_-]+)$/u\<close>\<close>
  "bearerCredential req =
     (let header = str_or_empty (fld (fld req ''headers'') ''authorization'');
          rest = drop 6 header; token = dropWhile ws rest
      in if starts_with ''Bearer'' header \<and> length token < length rest \<and> length (split_dots token) = 3
            \<and> list_all token_part (split_dots token) \<and> int (length token) \<le> 16384
         then Inr token
         else Inl (owner_fail 401 (JStr ''valid exchanged Owner bearer credential is required'')))"

record coordinates =
  co_subject :: string
  co_session :: string
  co_aal :: string

definition control_char :: "char \<Rightarrow> bool" where
  "control_char c \<longleftrightarrow> (of_char c :: nat) < 32 \<or> (of_char c :: nat) = 127"

definition credentialCoordinates :: "(string \<Rightarrow> jsval option) \<Rightarrow> string \<Rightarrow> jsval + coordinates" where
  \<comment> \<open>\<open>decode\<close> is \<open>JSON.parse\<close> of the base64url payload; None when it throws\<close>
  "credentialCoordinates decode token =
     (case decode (split_dots token ! 1) of
        None \<Rightarrow> Inl (owner_fail 401 (JStr ''Owner bearer credential payload is invalid''))
      | Some claims \<Rightarrow>
          let session = str_or_empty (fld claims ''session_id''); sub = str_or_empty (fld claims ''sub''); aal = str_or_empty (fld claims ''aal'') in
          if \<not> is_uuid sub \<or> length session < 1 \<or> 256 < length session \<or> list_ex control_char session \<or> aal \<notin> set [''aal1'', ''aal2'']
          then Inl (owner_fail 401 (JStr ''Owner bearer credential coordinates are incomplete''))
          else Inr \<lparr>co_subject = sub, co_session = session, co_aal = aal\<rparr>)"

definition mappedAuthorityStatus :: "jnum \<Rightarrow> int" where
  "mappedAuthorityStatus status =
     (if status = Fin 401 then 401 else if status = Fin 403 then 403
      else if \<not> num_less status (Fin 500) \<and> status \<noteq> NaN then 503 else 401)"

record admission =
  ad_env :: environment
  ad_origin :: string
  ad_marker :: string
  ad_prefix :: string
  ad_allow :: "string \<Rightarrow> string \<Rightarrow> bool"
  ad_path :: "string \<Rightarrow> string option"
  ad_decode :: "string \<Rightarrow> jsval option"
  ad_dp :: "string \<Rightarrow> jnum"

definition safe_integer :: "string \<Rightarrow> bool" where
  \<comment> \<open>\<open>Number.isSafeInteger(Number(s))\<close>\<close>
  "safe_integer s \<longleftrightarrow> (case str_num s of Fin r \<Rightarrow> is_int_rat r \<and> \<bar>r\<bar> \<le> 9007199254740991 | _ \<Rightarrow> False)"

definition revision_text :: "jsval \<Rightarrow> bool" where
  "revision_text v \<longleftrightarrow> (case v of JStr s \<Rightarrow> is_revision s \<and> safe_integer s | _ \<Rightarrow> False)"

definition valid_permissions :: "jsval \<Rightarrow> bool" where
  "valid_permissions v \<longleftrightarrow> (case v of
       JArr xs \<Rightarrow> length xs \<le> 256 \<and> list_all (\<lambda>x. case x of JStr s \<Rightarrow> is_permission s | _ \<Rightarrow> False) xs \<and> int (length (json_text v)) \<le> 8192
     | _ \<Rightarrow> False)"

definition valid_projection :: "(string \<Rightarrow> jnum) \<Rightarrow> coordinates \<Rightarrow> jsval \<Rightarrow> bool" where
  "valid_projection dp co body \<longleftrightarrow> (let projection = fld body ''data'' in
     fld body ''schemaVersion'' = JStr ''1.0'' \<and> fld body ''authority'' = JStr ''SupabaseAuth'' \<and> fld body ''freshness'' = JStr ''fresh''
     \<and> (case fld body ''observedAt'' of JStr s \<Rightarrow> num_is_finite (dp s) | _ \<Rightarrow> False)
     \<and> fld projection ''state'' = JStr ''Active'' \<and> is_uuid (str_or_empty (fld projection ''sessionId''))
     \<and> fld projection ''subjectId'' = JStr (co_subject co) \<and> fld projection ''aal'' = JStr (co_aal co)
     \<and> revision_text (fld projection ''permissionRevision'') \<and> revision_text (fld projection ''revokeEpoch'')
     \<and> valid_permissions (fld projection ''permissions''))"

definition to_strings :: "jsval \<Rightarrow> string list" where
  "to_strings v = map to_str (elems v)"

definition owner_actor :: "coordinates \<Rightarrow> jsval \<Rightarrow> jsval" where
  "owner_actor co projection =
     (let permissions = sort (uniq (to_strings (fld projection ''permissions'')));
          revision = num_str (to_num (fld projection ''permissionRevision'')) in
      JObj [(''sub'', JStr (co_subject co)), (''subject'', JStr (co_subject co)),
        (''browserSessionId'', JStr (to_str (fld projection ''sessionId''))), (''authSessionRef'', JStr (co_session co)),
        (''permissions'', JArr (map JStr permissions)),
        (''groups'', JArr (map JStr (sort (uniq (List.map_filter (map_of ROLE_MARKERS) permissions))))),
        (''assurance'', JStr (co_aal co)), (''permissionRevision'', JNum (to_num (fld projection ''permissionRevision''))),
        (''authzRevision'', JStr revision), (''revokeEpoch'', JStr (num_str (to_num (fld projection ''revokeEpoch''))))])"

definition check_route :: "admission \<Rightarrow> jsval \<Rightarrow> jsval + unit" where
  "check_route a req =
     (let verb = to_upper (str_or_empty (fld req ''method'')); headers = fld req ''headers'' in
      case ad_path a (str_or_empty (fld req ''url'')) of
        None \<Rightarrow> Inl (owner_fail 400 (JStr ''Owner request URI is invalid''))
      | Some path \<Rightarrow>
          if path \<noteq> ad_prefix a \<and> \<not> starts_with (ad_prefix a @ ''/'') path \<or> \<not> ad_allow a verb path
          then Inl (owner_fail 403 (JStr ''request is outside the exact admitted Owner routes''))
          else if truthy (fld headers ''cookie'') \<or> truthy (fld headers ''x-os-csrf-token'')
          then Inl (owner_fail 403 (JStr ''raw browser credentials reached an Owner''))
          else if fld headers ''x-os-owner-admission'' \<noteq> JStr (ad_marker a)
          then Inl (owner_fail 403 (JStr ''Owner admission marker is invalid''))
          else if verb \<notin> set SAFE_METHODS \<and> fld headers ''x-os-owner-csrf-verified'' \<noteq> JStr ''true''
          then Inl (owner_fail 403 (JStr ''Owner mutation requires verified browser CSRF''))
          else Inr ())"

definition authority_request :: "admission \<Rightarrow> jsval \<Rightarrow> string \<Rightarrow> jsval list" where
  "authority_request a req token = [JStr (ad_origin a @ ''/api/identity/me''), JObj [
     (''method'', JStr ''GET''), (''headers'', JObj ([
        (''authorization'', JStr (''Bearer '' @ token)), (''accept'', JStr ''application/json''), (''x-os-owner-admission'', JStr (ad_marker a))]
        @ (if truthy (fld (fld req ''headers'') ''x-os-correlation-id'')
           then [(''x-os-correlation-id'', JStr (take 128 (to_str (fld (fld req ''headers'') ''x-os-correlation-id''))))] else []))),
     (''redirect'', JStr ''error'')]]"

definition verifyOwnerRequest :: "admission \<Rightarrow> jsval \<Rightarrow> ('x, jsval) fxprog" where
  "verifyOwnerRequest a req =
     pbind (plift (check_route a req)) (\<lambda>_.
     pbind (plift (bearerCredential req)) (\<lambda>token.
     pbind (plift (credentialCoordinates (ad_decode a) token)) (\<lambda>credential.
     pbind (pcatch (call (ad_env a) ''fetch'' (authority_request a req token))
              (\<lambda>_. pthrow (owner_fail 503 (JStr ''Console owner authority is unavailable'')))) (\<lambda>response.
     pbind (pcatch (call (ad_env a) ''response.json'' [response]) (\<lambda>_. pret (JObj []))) (\<lambda>body.
     if \<not> truthy (fld response ''ok'')
     then pthrow (owner_fail (mappedAuthorityStatus (to_num (fld response ''status'')))
            (js_or (js_or (fld body ''message'') (fld body ''error'')) (JStr ''Owner authority rejected'')))
     else if \<not> valid_projection (ad_dp a) credential body
     then pthrow (owner_fail 503 (JStr ''Console owner authority returned an invalid current projection''))
     else pret (owner_actor credential (fld body ''data'')))))))"

definition requirePermission :: "jsval \<Rightarrow> string \<Rightarrow> bool \<Rightarrow> bool \<Rightarrow> jsval + jsval" where
  "requirePermission actor permission requireAal2 allowAdmin =
     rbind (iterate (js_or (fld actor ''permissions'') (JArr []))) (\<lambda>permissions.
     if JStr permission \<notin> set permissions \<and> \<not> (allowAdmin \<and> JStr ''console.role.admin'' \<in> set permissions)
     then Inl (owner_fail 403 (JStr (''requires '' @ permission)))
     else if requireAal2 \<and> fld actor ''assurance'' \<noteq> JStr ''aal2''
     then Inl (owner_fail 403 (JStr ''Owner mutation requires MFA assurance aal2''))
     else Inr actor)"

section \<open>Notification policy\<close>

datatype route = Exact string | With_id string "string list"

definition NOTIFICATION_ROUTES :: "(string \<times> route) list" where
  "NOTIFICATION_ROUTES = [
     (''GET'', Exact ''/api/notifications/summary''), (''GET'', Exact ''/api/notifications/channels''),
     (''POST'', Exact ''/api/notifications/channels''),
     (''GET'', With_id ''/api/notifications/channels/'' [[]]), (''PUT'', With_id ''/api/notifications/channels/'' [[]]),
     (''POST'', With_id ''/api/notifications/channels/'' [''/enable'', ''/disable'', ''/test'']),
     (''GET'', Exact ''/api/notifications/rules''), (''POST'', Exact ''/api/notifications/rules''),
     (''GET'', Exact ''/api/notifications/deliveries''),
     (''POST'', With_id ''/api/notifications/deliveries/'' [''/retry''])]"

fun route_matches :: "route \<Rightarrow> string \<Rightarrow> bool" where
  "route_matches (Exact p) path = (path = p)"
| "route_matches (With_id p suffixes) path =
     (to_lower (take (length p) path) = p \<and> is_uuid (take 36 (drop (length p) path))
      \<and> to_lower (drop (length p + 36) path) \<in> set suffixes)"

definition notificationRequestAllowed :: "string \<Rightarrow> string \<Rightarrow> bool" where
  "notificationRequestAllowed verb path \<longleftrightarrow>
     list_ex (\<lambda>(expected, r). expected = to_upper verb \<and> route_matches r path) NOTIFICATION_ROUTES"

definition authorizeNotification :: "jsval \<Rightarrow> jsval \<Rightarrow> bool \<Rightarrow> jsval + jsval" where
  "authorizeNotification actor verb requireAal2 =
     (let mutation = (to_upper (str_or_empty verb) \<notin> set SAFE_METHODS) in
      requirePermission actor (if mutation then ''console.notification.manage'' else ''console.notification.read'')
        (mutation \<and> requireAal2) False)"

section \<open>What admission means\<close>

definition fetched :: "admission \<Rightarrow> jsval \<Rightarrow> string \<Rightarrow> jsval \<Rightarrow> history \<Rightarrow> bool" where
  \<comment> \<open>the authority answered this very request with this body\<close>
  "fetched a req token body h \<longleftrightarrow> (\<exists>response. h = [(Call ''fetch'' (authority_request a req token), Inr response),
     (Call ''response.json'' [response], Inr body)] \<and> truthy (fld response ''ok''))"

lemma check_route_Inr:
  assumes "check_route a req = Inr u"
  obtains path where "ad_path a (str_or_empty (fld req ''url'')) = Some path" "ad_allow a (to_upper (str_or_empty (fld req ''method''))) path"
    "\<not> truthy (fld (fld req ''headers'') ''cookie'')" "\<not> truthy (fld (fld req ''headers'') ''x-os-csrf-token'')"
    "fld (fld req ''headers'') ''x-os-owner-admission'' = JStr (ad_marker a)"
    "to_upper (str_or_empty (fld req ''method'')) \<in> set SAFE_METHODS \<or> fld (fld req ''headers'') ''x-os-owner-csrf-verified'' = JStr ''true''"
  using assms by (simp add: check_route_def Let_def split: option.splits if_splits)

lemma empty_projection: "\<not> valid_projection dp co (JObj [])"
  by (simp add: valid_projection_def Let_def fld_obj)

lemma verify_wp:
  "wp (verifyOwnerRequest a req) (\<lambda>actor t. \<exists>token co body. check_route a req = Inr () \<and> bearerCredential req = Inr token
     \<and> credentialCoordinates (ad_decode a) token = Inr co \<and> fetched a req token body (fx_log t) \<and> valid_projection (ad_dp a) co body
     \<and> actor = owner_actor co (fld body ''data'')) (\<lambda>_ t. calls ''rest'' (fx_log t) = []) s" if "fx_log s = []"
  using that unfolding verifyOwnerRequest_def fetched_def
  by (simp add: wp_simps Let_def empty_projection split: sum.splits)

lemma permission_texts:
  assumes "valid_permissions v"
  shows "JStr p \<in> set (elems v) \<longleftrightarrow> p \<in> set (to_strings v)"
proof -
  have "\<exists>s. x = JStr s" if "x \<in> set (elems v)" for x
    using assms that by (cases x; cases v) (auto simp: valid_permissions_def elems_def list_all_iff)
  then show ?thesis
    by (force simp: to_strings_def)
qed

lemma requirePermission_Inr:
  assumes "requirePermission (owner_actor co projection) p aal2 False = Inr x" and "valid_permissions (fld projection ''permissions'')"
  shows "JStr p \<in> set (elems (fld projection ''permissions'')) \<and> (aal2 \<longrightarrow> co_aal co = ''aal2'')"
proof -
  have "fld (owner_actor co projection) ''permissions'' = JArr (map JStr (sort (uniq (to_strings (fld projection ''permissions'')))))"
    "fld (owner_actor co projection) ''assurance'' = JStr (co_aal co)"
    by (simp_all add: owner_actor_def Let_def fld_obj)
  then show ?thesis
    using assms permission_texts [OF assms(2), of p]
    by (auto simp: requirePermission_def js_or_def iterate_def res_splits split: if_splits)
qed

text \<open>
  The route is on the closed list, no raw browser credential came along, the admission marker is right, a mutation carries the CSRF evidence, and
  the Console API, asked once with the presented credential, answered with an active, fresh projection of the same subject and assurance
  that holds the permission the method needs; a mutation moreover needs \<open>aal2\<close> where that is required, and the
  administrator role is no substitute.
\<close>

definition admitted :: "admission \<Rightarrow> bool \<Rightarrow> jsval \<Rightarrow> history \<Rightarrow> bool" where
  "admitted a requireAal2 req h \<longleftrightarrow>
     (let verb = to_upper (str_or_empty (fld req ''method'')); mutation = (verb \<notin> set SAFE_METHODS); headers = fld req ''headers'' in
      \<exists>path token co body.
        ad_path a (str_or_empty (fld req ''url'')) = Some path \<and> notificationRequestAllowed verb path
        \<and> \<not> truthy (fld headers ''cookie'') \<and> \<not> truthy (fld headers ''x-os-csrf-token'')
        \<and> fld headers ''x-os-owner-admission'' = JStr (ad_marker a)
        \<and> (mutation \<longrightarrow> fld headers ''x-os-owner-csrf-verified'' = JStr ''true'')
        \<and> bearerCredential req = Inr token \<and> credentialCoordinates (ad_decode a) token = Inr co
        \<and> fetched a req token body h \<and> valid_projection (ad_dp a) co body
        \<and> JStr (if mutation then ''console.notification.manage'' else ''console.notification.read'')
            \<in> set (elems (fld (fld body ''data'') ''permissions''))
        \<and> (mutation \<and> requireAal2 \<longrightarrow> fld (fld body ''data'') ''aal'' = JStr ''aal2''))"

lemma admitted_on_current_authority:
  assumes "verifyOwnerRequest a req s = (Inr actor, t)" and "authorizeNotification actor (fld req ''method'') requireAal2 = Inr x"
    and "ad_allow a = notificationRequestAllowed" and "fx_log s = []"
  shows "admitted a requireAal2 req (fx_log t)"
proof -
  define mutation where m: "mutation = (to_upper (str_or_empty (fld req ''method'')) \<notin> set SAFE_METHODS)"
  obtain token co body where s: "check_route a req = Inr ()" "bearerCredential req = Inr token"
    "credentialCoordinates (ad_decode a) token = Inr co" "fetched a req token body (fx_log t)" "valid_projection (ad_dp a) co body"
    "actor = owner_actor co (fld body ''data'')"
    using wp_Inr [OF verify_wp [OF assms(4)] assms(1)] by blast
  obtain path where p: "ad_path a (str_or_empty (fld req ''url'')) = Some path" "ad_allow a (to_upper (str_or_empty (fld req ''method''))) path"
    "\<not> truthy (fld (fld req ''headers'') ''cookie'')" "\<not> truthy (fld (fld req ''headers'') ''x-os-csrf-token'')"
    "fld (fld req ''headers'') ''x-os-owner-admission'' = JStr (ad_marker a)"
    "to_upper (str_or_empty (fld req ''method'')) \<in> set SAFE_METHODS \<or> fld (fld req ''headers'') ''x-os-owner-csrf-verified'' = JStr ''true''"
    using check_route_Inr [OF s(1)] .
  have v: "valid_permissions (fld (fld body ''data'') ''permissions'')" "fld (fld body ''data'') ''aal'' = JStr (co_aal co)"
    using s(5) by (simp_all add: valid_projection_def Let_def)
  have r: "JStr (if mutation then ''console.notification.manage'' else ''console.notification.read'') \<in> set (elems (fld (fld body ''data'') ''permissions''))
      \<and> (mutation \<and> requireAal2 \<longrightarrow> co_aal co = ''aal2'')"
    by (rule requirePermission_Inr [OF _ v(1)]) (use assms(2) m s(6) in \<open>simp add: authorizeNotification_def Let_def\<close>)
  show ?thesis
    unfolding admitted_def Let_def m [symmetric]
    using s p r v(2) assms(3) m by (intro exI [of _ path] exI [of _ token] exI [of _ co] exI [of _ body]) auto
qed

end
