(* ===== verification/NotificationDispatcher.thy ===== *)
theory NotificationDispatcher
  imports NotificationContract OwnerAdmission
begin

text \<open>
  The notification dispatcher, \<open>src/apps/notification-dispatcher/server.js\<close>: channel secrets, sending through the four providers, the
  delivery worker and the test of a channel.

  \<open>rest\<close> (PostgREST), \<open>fetch\<close>, the SMTP socket, the AES-GCM cipher, randomness and the clock are service calls; reading an HTTP
  answer's text is one too.  \<open>JSON.parse\<close> and \<open>new URL\<close> are parameters.  The flag \<open>polling\<close> is the module's state.
\<close>

section \<open>Configuration and state\<close>

record dispatcher =
  d_env :: environment
  d_pu :: "string \<Rightarrow> url option"
  d_ip :: "string \<Rightarrow> bool"
  d_json :: "string \<Rightarrow> jsval option"
  d_sha :: "string \<Rightarrow> string"
  d_hosts :: "string list"
  d_max :: jnum
  d_worker :: string
  d_helo :: string

definition MAX_ATTEMPTS :: "jsval \<Rightarrow> jnum" where
  "MAX_ATTEMPTS v = num_max (Fin 1) (to_num (js_or v (JInt 8)))"

definition SMTP_ALLOWED_HOSTS :: "jsval \<Rightarrow> string list" where
  "SMTP_ALLOWED_HOSTS v = filter (\<lambda>s. s \<noteq> []) (map (\<lambda>s. to_lower (trim s)) (split_on (CHR '','') (str_or_empty v)))"

record dstate = fx +
  polling :: bool

type_synonym 'a dprog = "(dstate, jsval, 'a) prog"

definition rest_read :: "dispatcher \<Rightarrow> string \<Rightarrow> string \<Rightarrow> jsval dprog" where
  "rest_read d resource q = call (d_env d) ''rest'' [JStr resource, JObj [(''query'', JStr q)]]"

definition rest_post :: "dispatcher \<Rightarrow> string \<Rightarrow> jsval \<Rightarrow> jsval dprog" where
  "rest_post d resource body = call (d_env d) ''rest'' [JStr resource, JObj [(''method'', JStr ''POST''), (''body'', body)]]"

definition rest_patch :: "dispatcher \<Rightarrow> string \<Rightarrow> string \<Rightarrow> (string \<times> jsval) list \<Rightarrow> unit dprog" where
  "rest_patch d resource q body =
     pbind (call (d_env d) ''rest'' [JStr resource, JObj [(''method'', JStr ''PATCH''), (''query'', JStr q), (''body'', JObj body),
        (''prefer'', JStr ''return=minimal'')]]) (\<lambda>_. pret ())"

definition clock_ms :: "dispatcher \<Rightarrow> jnum dprog" where
  "clock_ms d = pbind (call (d_env d) ''Date.now'' []) (\<lambda>t. pret (to_num t))"

definition date_iso :: "dispatcher \<Rightarrow> string dprog" where
  "date_iso d = pbind (clock_ms d) (\<lambda>t. plift (to_iso_string t))"

definition row_of :: "jsval \<Rightarrow> jsval + jsval" where
  \<comment> \<open>\<open>rows[0]\<close>\<close>
  "row_of rows = (if nullish rows then Inl type_error else Inr (first_row rows))"

definition required_row :: "jsval \<Rightarrow> jsval \<Rightarrow> jsval dprog" where
  \<comment> \<open>\<open>if (!rows[0]) throw e\<close>\<close>
  "required_row e rows = pbind (plift (row_of rows)) (\<lambda>row. pbind (pguard e (truthy row)) (\<lambda>_. pret row))"

section \<open>Secrets\<close>

definition safeEqual :: "jsval \<Rightarrow> jsval \<Rightarrow> bool" where
  "safeEqual l r \<longleftrightarrow> str_or_empty l = str_or_empty r"

definition cipherSecret :: "dispatcher \<Rightarrow> jsval \<Rightarrow> jsval dprog" where
  \<comment> \<open>\<open>cipher\<close> encrypts a text under the configured key and a fresh nonce\<close>
  "cipherSecret d secret =
     (let text = json_text secret in
      pbind (call (d_env d) ''cipher'' [JStr text]) (\<lambda>c.
      pret (JObj [(''iv'', fld c ''iv''), (''authTag'', fld c ''authTag''), (''ciphertext'', fld c ''ciphertext''),
        (''digest'', JStr (''sha256:'' @ d_sha d text))])))"

definition decipherSecret :: "dispatcher \<Rightarrow> jsval \<Rightarrow> jsval dprog" where
  "decipherSecret d row =
     pbind (call (d_env d) ''decipher'' [fld row ''iv'', fld row ''auth_tag'', fld row ''ciphertext'']) (\<lambda>text.
     pbind (pguard (http_error 500 ''notification secret integrity check failed'')
              (safeEqual (JStr (''sha256:'' @ d_sha d (to_str text))) (fld row ''plaintext_digest''))) (\<lambda>_.
     plift (case d_json d (to_str text) of Some v \<Rightarrow> Inr v | None \<Rightarrow> Inl (js_error ''SyntaxError'' []))))"

definition assertAllowedSmtpHost :: "dispatcher \<Rightarrow> jsval \<Rightarrow> jsval + unit" where
  "assertAllowedSmtpHost d host =
     (let v = to_lower (str_or_empty host) in
      guard_else (http_error 400 ''SMTP host is not in NOTIFICATION_SMTP_ALLOWED_HOSTS'')
        (list_ex (\<lambda>entry. entry = v \<or> starts_with ''*.'' entry \<and> ends_with (drop 1 entry) v) (d_hosts d)))"

definition channel_missing :: jsval where
  "channel_missing = http_error 404 ''notification channel not found''"

definition storeSecret :: "dispatcher \<Rightarrow> string \<Rightarrow> jsval \<Rightarrow> jsval dprog" where
  "storeSecret d channelId input =
     pbind (plift (channelInput (d_pu d) (d_ip d) input)) (\<lambda>parsed.
     pbind (plift (if ch_provider parsed = ''smtp'' then assertAllowedSmtpHost d (fld (ch_config parsed) ''host'') else Inr ())) (\<lambda>_.
     pbind (rest_read d ''notification_channel'' (''select=secret_version&id=eq.'' @ encode_uri channelId @ ''&deleted_at=is.null'')) (\<lambda>rows.
     pbind (required_row channel_missing rows) (\<lambda>current.
     let version = num_add (to_num (js_or (fld current ''secret_version'') (JInt 0))) (Fin 1) in
     pbind (cipherSecret d (ch_secret parsed)) (\<lambda>c.
     pbind (rest_post d ''rpc/notification_store_secret'' (JObj [(''p_channel_id'', JStr channelId), (''p_version'', JNum version),
        (''p_iv'', fld c ''iv''), (''p_auth_tag'', fld c ''authTag''), (''p_ciphertext'', fld c ''ciphertext''),
        (''p_plaintext_digest'', fld c ''digest'')])) (\<lambda>_.
     pbind (date_iso d) (\<lambda>now.
     pbind (rest_patch d ''notification_channel'' (''id=eq.'' @ encode_uri channelId) [(''credential_configured'', JBool True),
        (''secret_version'', JNum version), (''health_state'', JStr ''Draft''), (''updated_at'', JStr now)]) (\<lambda>_.
     pret (JObj [(''version'', JNum version)])))))))))"

definition secretFor :: "dispatcher \<Rightarrow> string \<Rightarrow> jsval dprog" where
  "secretFor d channelId =
     pbind (rest_post d ''rpc/notification_read_secret'' (JObj [(''p_channel_id'', JStr channelId)])) (\<lambda>rows.
     pbind (required_row (http_error 409 ''notification credentials are not configured'') rows) (decipherSecret d))"

definition supplied_secret :: "jsval \<Rightarrow> bool" where
  "supplied_secret input \<longleftrightarrow> is_object (fld input ''secret'') \<and>
     (trim (str_or_empty (fld (fld input ''secret'') ''username'')) \<noteq> [] \<or> trim (str_or_empty (fld (fld input ''secret'') ''password'')) \<noteq> [])"

definition channel_value :: "channel \<Rightarrow> jsval" where
  "channel_value c = JObj [(''name'', JStr (ch_name c)), (''provider'', JStr (ch_provider c)), (''config'', ch_config c), (''secret'', ch_secret c)]"

definition updateChannelConfiguration :: "dispatcher \<Rightarrow> string \<Rightarrow> jsval \<Rightarrow> jsval dprog" where
  "updateChannelConfiguration d channelId input =
     pbind (rest_read d ''notification_channel'' (''select=*&id=eq.'' @ encode_uri channelId @ ''&deleted_at=is.null'')) (\<lambda>rows.
     pbind (required_row channel_missing rows) (\<lambda>current.
     pbind (pguard (http_error 400 ''only SMTP channel configuration can be edited'') (fld current ''provider'' = JStr ''smtp'')) (\<lambda>_.
     pbind (if supplied_secret input then pret (fld input ''secret'') else secretFor d channelId) (\<lambda>secret.
     pbind (plift (channelInput (d_pu d) (d_ip d) (JObj [(''name'', fld input ''name''), (''provider'', fld current ''provider''),
        (''config'', fld input ''config''), (''secret'', secret)]))) (\<lambda>parsed.
     pbind (plift (assertAllowedSmtpHost d (fld (ch_config parsed) ''host''))) (\<lambda>_.
     pbind (if supplied_secret input then pbind (storeSecret d channelId (channel_value parsed)) (\<lambda>_. pret ()) else pret ()) (\<lambda>_.
     pbind (date_iso d) (\<lambda>now.
     pbind (rest_patch d ''notification_channel'' (''id=eq.'' @ encode_uri channelId) [(''name'', JStr (ch_name parsed)), (''config'', ch_config parsed),
        (''health_state'', JStr ''Draft''), (''updated_at'', JStr now)]) (\<lambda>_.
     pret (JObj [(''ok'', JBool True), (''credentialConfigured'', JBool True)]))))))))))"

section \<open>HTTP providers\<close>

definition response_of :: "jsval \<Rightarrow> response" where
  "response_of v = \<lparr>rs_ok = truthy (fld v ''ok''), rs_status = (case to_num (fld v ''status'') of Fin r \<Rightarrow> \<lfloor>r\<rfloor> | _ \<Rightarrow> 0), rs_retry_after = fld v ''retry-after''\<rparr>"

definition json_object :: "dispatcher \<Rightarrow> string \<Rightarrow> jsval" where
  \<comment> \<open>\<open>try { body = text ? JSON.parse(text) : {} } catch { body = {} }\<close>\<close>
  "json_object d text = (if text = [] then JObj [] else case d_json d text of Some v \<Rightarrow> v | None \<Rightarrow> JObj [])"

definition post_to :: "dispatcher \<Rightarrow> jsval \<Rightarrow> jsval \<Rightarrow> (jsval \<times> string) dprog" where
  \<comment> \<open>\<open>fetch\<close> and \<open>response.text()\<close>\<close>
  "post_to d u options =
     pbind (call (d_env d) ''fetch'' [u, options]) (\<lambda>response.
     pbind (call (d_env d) ''response.text'' [response]) (\<lambda>text. pret (response, to_str text)))"

definition sendSlack :: "dispatcher \<Rightarrow> jsval \<Rightarrow> jsval \<Rightarrow> jsval \<Rightarrow> send_result dprog" where
  "sendSlack d config secret event =
     pbind (plift (get_prop secret ''webhookUrl'')) (\<lambda>u.
     pbind (post_to d u (JObj [(''method'', JStr ''POST''), (''body'', JObj [(''text'', JStr (messageFor event config))])])) (\<lambda>(response, text).
     pret ((classifyHttp (response_of response) (JObj []))\<lparr>sr_message_id := JStr [], sr_detail := take 200 text\<rparr>)))"

definition sendDiscord :: "dispatcher \<Rightarrow> jsval \<Rightarrow> jsval \<Rightarrow> jsval \<Rightarrow> send_result dprog" where
  "sendDiscord d config secret event =
     pbind (plift (get_prop secret ''webhookUrl'')) (\<lambda>u.
     pbind (plift (if d_pu d (to_str u) = None then Inl type_error else Inr ())) (\<lambda>_.
     pbind (post_to d (JObj ([(''url'', u), (''wait'', JStr ''true'')]
              @ (if truthy (fld config ''threadId'') then [(''thread_id'', fld config ''threadId'')] else [])))
            (JObj [(''method'', JStr ''POST''), (''body'', JObj [(''content'', JStr (take 2000 (messageFor event config))),
              (''allowed_mentions'', JObj [(''parse'', JArr [])])])])) (\<lambda>(response, text).
     let body = json_object d text in
     pbind (plift (get_prop body ''id'')) (\<lambda>i.
     pret ((classifyHttp (response_of response) body)\<lparr>sr_message_id := js_or i (JStr []), sr_detail := take 200 text\<rparr>)))))"

definition sendTwilio :: "dispatcher \<Rightarrow> jsval \<Rightarrow> jsval \<Rightarrow> jsval \<Rightarrow> jsval \<Rightarrow> send_result dprog" where
  "sendTwilio d callback config secret event =
     pbind (plift (row_of (fld config ''recipients''))) (\<lambda>recipient.
     pbind (plift (get_prop secret ''authToken'')) (\<lambda>token.
     pbind (post_to d (JStr (''https://api.twilio.com/2010-04-01/Accounts/'' @ encode_uri (to_str (fld config ''accountSid'')) @ ''/Messages.json''))
            (JObj [(''method'', JStr ''POST''), (''account'', fld config ''accountSid''), (''token'', token),
              (''body'', JObj ([(''To'', JStr (to_str recipient)), (''Body'', JStr (take 1500 (messageFor event config)))]
                 @ (let cb = trim (str_or_empty callback) in if cb \<noteq> [] then [(''StatusCallback'', JStr cb)] else [])
                 @ (if truthy (fld config ''messagingServiceSid'') then [(''MessagingServiceSid'', fld config ''messagingServiceSid'')]
                    else [(''From'', fld config ''from'')])))])) (\<lambda>(response, text).
     let body = json_object d text in
     pbind (plift (get_prop body ''sid'')) (\<lambda>i.
     pret ((classifyHttp (response_of response) body)\<lparr>sr_message_id := js_or i (JStr []), sr_detail := take 200 text\<rparr>)))))"

section \<open>SMTP\<close>

definition smtp_fault :: "string \<Rightarrow> string \<Rightarrow> string \<Rightarrow> jsval" where
  "smtp_fault kind code detail = JObj [(''kind'', JStr kind), (''code'', JStr code), (''detail'', JStr detail)]"

definition smtpConnection :: "dispatcher \<Rightarrow> jsval \<Rightarrow> unit dprog" where
  "smtpConnection d config =
     pcatch (pbind (call (d_env d) (if truthy (fld config ''secure'') then ''tls.connect'' else ''net.connect'') [fld config ''host'', fld config ''port''])
        (\<lambda>_. pret ()))
       (\<lambda>error. pthrow (smtp_fault ''retryable'' ''smtp-connect'' (to_str (fld error ''message''))))"

definition smtp_expect :: "dispatcher \<Rightarrow> int list \<Rightarrow> string dprog" where
  "smtp_expect d accepted =
     pbind (call (d_env d) ''smtp.next'' []) (\<lambda>reply.
     let line = to_str reply; code = str_num (take 3 line) in
     if code \<in> set (map (\<lambda>i. Fin (of_int i)) accepted) then pret line
     else pthrow (smtp_fault (if code \<noteq> NaN \<and> \<not> num_less code (Fin 500) then ''permanent'' else ''retryable'') (''smtp-'' @ num_str code) line))"

definition CRLF :: string where
  "CRLF = [CHR 0x0D, CHR 0x0A]"

definition smtp_write :: "dispatcher \<Rightarrow> string \<Rightarrow> unit dprog" where
  "smtp_write d text = pbind (call (d_env d) ''socket.write'' [JStr text]) (\<lambda>_. pret ())"

definition smtp_command :: "dispatcher \<Rightarrow> string \<Rightarrow> int list \<Rightarrow> string dprog" where
  "smtp_command d line accepted = pbind (smtp_write d (line @ CRLF)) (\<lambda>_. smtp_expect d accepted)"

definition start_tls :: "dispatcher \<Rightarrow> jsval \<Rightarrow> unit dprog" where
  "start_tls d config =
     pwhen (\<not> truthy (fld config ''secure'') \<and> truthy (fld config ''starttls''))
       (pbind (smtp_command d ''STARTTLS'' [220]) (\<lambda>_.
        pbind (call (d_env d) ''tls.upgrade'' [fld config ''host'']) (\<lambda>_.
        pbind (smtp_command d (''EHLO '' @ d_helo d) [250]) (\<lambda>_. pret ()))))"

definition rcpt_to :: "string \<Rightarrow> string" where
  "rcpt_to r = ''RCPT TO:<'' @ r @ ''>''"

fun rcpt_all :: "dispatcher \<Rightarrow> jsval list \<Rightarrow> unit dprog" where
  "rcpt_all d [] = pret ()"
| "rcpt_all d (r # rs) = pbind (smtp_command d (rcpt_to (to_str r)) [250, 251]) (\<lambda>_. rcpt_all d rs)"

fun dot_stuff :: "bool \<Rightarrow> string \<Rightarrow> string" where
  \<comment> \<open>\<open>s.replace(/^\./gm, '..')\<close>; the flag says that a line starts here (the two Unicode separators are not modelled)\<close>
  "dot_stuff b [] = []"
| "dot_stuff b (c # s) = (if b \<and> c = CHR ''.'' then CHR ''.'' # CHR ''.'' # dot_stuff False s
     else c # dot_stuff (c = CHR 0x0A \<or> c = CHR 0x0D) s)"

definition smtp_subject :: "jsval \<Rightarrow> jsval \<Rightarrow> string" where
  "smtp_subject config event = map (\<lambda>c. if c = CHR 0x0D \<or> c = CHR 0x0A then CHR '' '' else c)
     ((if truthy (fld config ''titlePrefix'') then ''['' @ to_str (fld config ''titlePrefix'') @ ''] '' else []) @ to_str (fld event ''title''))"

definition end_of_data :: string where
  "end_of_data = CRLF @ ''.'' @ CRLF"

definition smtp_data :: "string \<Rightarrow> string list \<Rightarrow> string \<Rightarrow> string \<Rightarrow> string" where
  "smtp_data sender recipients subject text =
     ''From: <'' @ sender @ ''>'' @ CRLF @ ''To: '' @ join '', '' recipients @ CRLF @ ''Subject: '' @ subject @ CRLF
     @ ''MIME-Version: 1.0'' @ CRLF @ ''Content-Type: text/plain; charset=UTF-8'' @ CRLF @ CRLF @ text @ end_of_data"

definition smtp_block :: "jsval \<Rightarrow> string list \<Rightarrow> jsval \<Rightarrow> string" where
  "smtp_block config recipients event =
     smtp_data (to_str (fld config ''from'')) recipients (smtp_subject config event) (dot_stuff True (messageFor event config))"

definition join_texts :: "jsval list \<Rightarrow> string list" where
  \<comment> \<open>the texts \<open>Array.prototype.join\<close> puts together\<close>
  "join_texts xs = map (\<lambda>x. if nullish x then [] else to_str x) xs"

definition mail_from :: "jsval \<Rightarrow> string" where
  "mail_from config = ''MAIL FROM:<'' @ to_str (fld config ''from'') @ ''>''"

definition smtp_dialogue :: "dispatcher \<Rightarrow> jsval \<Rightarrow> jsval \<Rightarrow> jsval \<Rightarrow> send_result dprog" where
  "smtp_dialogue d config secret event =
     pbind (smtp_expect d [220]) (\<lambda>_.
     pbind (smtp_command d (''EHLO '' @ d_helo d) [250]) (\<lambda>_.
     pbind (start_tls d config) (\<lambda>_.
     pbind (plift (get_prop secret ''username'')) (\<lambda>username.
     pbind (call (d_env d) ''base64'' [username, fld secret ''password'']) (\<lambda>auth.
     pbind (smtp_command d (''AUTH PLAIN '' @ to_str auth) [235]) (\<lambda>_.
     pbind (smtp_command d (mail_from config) [250]) (\<lambda>_.
     pbind (plift (iterate (fld config ''recipients''))) (\<lambda>recipients.
     pbind (rcpt_all d recipients) (\<lambda>_.
     pbind (smtp_command d ''DATA'' [354]) (\<lambda>_.
     pbind (plift (array_of (fld config ''recipients''))) (\<lambda>joined.
     pbind (smtp_write d (smtp_block config (join_texts joined) event)) (\<lambda>_.
     pbind (smtp_expect d [250]) (\<lambda>_.
     pbind (smtp_write d (''QUIT'' @ CRLF)) (\<lambda>_.
     pbind (call (d_env d) ''socket.end'' []) (\<lambda>_.
     pret \<lparr>sr_kind = Accepted, sr_code = ''smtp-250'', sr_retry_after = None, sr_message_id = JStr [], sr_detail = []\<rparr>)))))))))))))))"

definition outcome_of :: "jsval \<Rightarrow> outcome" where
  "outcome_of v = (if v = JStr ''permanent'' then Permanent else if v = JStr ''accepted'' then Accepted
     else if v = JStr ''delivered'' then Delivered else Retryable)"

definition fault_result :: "jsval \<Rightarrow> send_result" where
  "fault_result error =
     (if truthy (fld error ''kind'')
      then \<lparr>sr_kind = outcome_of (fld error ''kind''), sr_code = to_str (fld error ''code''), sr_retry_after = None, sr_message_id = JStr [],
            sr_detail = to_str (fld error ''detail'')\<rparr>
      else \<lparr>sr_kind = Retryable, sr_code = ''smtp-error'', sr_retry_after = None, sr_message_id = JStr [],
            sr_detail = to_str (js_or (fld error ''message'') (JStr (to_str error)))\<rparr>)"

definition smtpSend :: "dispatcher \<Rightarrow> jsval \<Rightarrow> jsval \<Rightarrow> jsval \<Rightarrow> send_result dprog" where
  "smtpSend d config secret event =
     pbind (plift (assertAllowedSmtpHost d (fld config ''host''))) (\<lambda>_.
     pbind (smtpConnection d config) (\<lambda>_.
     pcatch (smtp_dialogue d config secret event)
       (\<lambda>error. pbind (call (d_env d) ''socket.destroy'' []) (\<lambda>_. pret (fault_result error)))))"

definition send :: "dispatcher \<Rightarrow> jsval \<Rightarrow> jsval \<Rightarrow> jsval \<Rightarrow> jsval \<Rightarrow> send_result dprog" where
  "send d callback channel secret event =
     (let config = js_or (fld channel ''config'') (JObj []) in
      if fld channel ''provider'' = JStr ''slack'' then sendSlack d config secret event
      else if fld channel ''provider'' = JStr ''discord'' then sendDiscord d config secret event
      else if fld channel ''provider'' = JStr ''smtp'' then smtpSend d config secret event
      else sendTwilio d callback config secret event)"

section \<open>Deliveries\<close>

definition attempt_number :: "jsval \<Rightarrow> nat" where
  \<comment> \<open>\<open>Number(delivery.attempt_count || 0) + 1\<close>; the column is a nonnegative integer\<close>
  "attempt_number delivery = (case to_num (js_or (fld delivery ''attempt_count'') (JInt 0)) of Fin r \<Rightarrow> nat \<lfloor>r\<rfloor> | _ \<Rightarrow> 0) + 1"

definition backoff :: "nat \<Rightarrow> rat" where
  "backoff attempts = min 3600000 (1000 * 2 ^ min attempts 10)"

definition nextAttempt :: "dispatcher \<Rightarrow> nat \<Rightarrow> int option \<Rightarrow> string dprog" where
  "nextAttempt d attempts retryAfter =
     pbind (call (d_env d) ''Math.random'' []) (\<lambda>r.
     let bounded = backoff attempts;
         jitter = (case to_num r of Fin x \<Rightarrow> of_int \<lfloor>x * max 250 (bounded / 4)\<rfloor> | _ \<Rightarrow> 0);
         wait = max (of_int (case retryAfter of Some ms \<Rightarrow> ms | None \<Rightarrow> 0)) (bounded + jitter) in
     pbind (clock_ms d) (\<lambda>now. plift (to_iso_string (num_add now (Fin wait)))))"

record delivery_context =
  cx_delivery :: jsval
  cx_event :: jsval
  cx_channel :: jsval

definition deliveryContext :: "dispatcher \<Rightarrow> jsval \<Rightarrow> delivery_context dprog" where
  "deliveryContext d i =
     pbind (rest_read d ''notification_delivery'' (''select=*&id=eq.'' @ encode_uri (to_str i))) (\<lambda>rows.
     pbind (required_row (http_error 404 ''notification delivery not found'') rows) (\<lambda>delivery.
     pbind (rest_read d ''notification_event'' (''select=*&id=eq.'' @ encode_uri (to_str (fld delivery ''event_id'')))) (\<lambda>events.
     pbind (rest_read d ''notification_channel'' (''select=*&id=eq.'' @ encode_uri (to_str (fld delivery ''channel_id'')))) (\<lambda>channels.
     pbind (plift (row_of events)) (\<lambda>event.
     pbind (pguard (http_error 409 ''notification delivery references unavailable data'') (truthy event)) (\<lambda>_.
     pbind (required_row (http_error 409 ''notification delivery references unavailable data'') channels) (\<lambda>channel.
     pret \<lparr>cx_delivery = delivery, cx_event = JObj (map (\<lambda>k. (k, fld event k)) [''source'', ''severity'', ''title'', ''body'', ''route'']),
           cx_channel = channel\<rparr>)))))))"

definition terminal :: "outcome \<Rightarrow> bool" where
  "terminal k \<longleftrightarrow> k = Accepted \<or> k = Delivered"

definition kind_text :: "outcome \<Rightarrow> string" where
  "kind_text k = (case k of Accepted \<Rightarrow> ''accepted'' | Delivered \<Rightarrow> ''delivered'' | Retryable \<Rightarrow> ''retryable'' | Permanent \<Rightarrow> ''permanent'')"

definition delivery_status :: "jnum \<Rightarrow> outcome \<Rightarrow> nat \<Rightarrow> string" where
  "delivery_status limit k attempt =
     (if terminal k then kind_text k
      else if k = Permanent then ''failed''
      else if num_le limit (Fin (of_nat attempt)) then ''dead-letter'' else ''retrying'')"

definition text_or_null :: "string \<Rightarrow> jsval" where
  "text_or_null s = or_null (JStr s)"

definition attempt_row :: "dispatcher \<Rightarrow> delivery_context \<Rightarrow> send_result \<Rightarrow> jnum \<Rightarrow> string \<Rightarrow> jsval" where
  "attempt_row d cx r latency now = JObj [
     (''delivery_id'', fld (cx_delivery cx) ''id''), (''attempt_number'', JInt (int (attempt_number (cx_delivery cx)))), (''worker_id'', JStr (d_worker d)),
     (''outcome'', JStr (kind_text (sr_kind r))), (''provider_code'', text_or_null (sr_code r)), (''provider_message_id'', or_null (sr_message_id r)),
     (''retry_after_ms'', case sr_retry_after r of Some ms \<Rightarrow> or_null (JInt ms) | None \<Rightarrow> JNull), (''latency_ms'', JNum latency),
     (''error_class'', if terminal (sr_kind r) then JNull else JStr (kind_text (sr_kind r))),
     (''error_message'', if terminal (sr_kind r) then JNull
        else JStr (take 500 (if sr_detail r \<noteq> [] then sr_detail r else sr_code r))),
     (''completed_at'', JStr now)]"

definition delivery_patch :: "delivery_context \<Rightarrow> send_result \<Rightarrow> string \<Rightarrow> string \<Rightarrow> string \<Rightarrow> (string \<times> jsval) list" where
  "delivery_patch cx r st now later =
     [(''status'', JStr st), (''attempt_count'', JInt (int (attempt_number (cx_delivery cx)))),
      (''provider_message_id'', or_null (js_or (sr_message_id r) (fld (cx_delivery cx) ''provider_message_id''))),
      (''last_error_class'', if terminal (sr_kind r) then JNull else JStr (kind_text (sr_kind r))),
      (''last_error_code'', if terminal (sr_kind r) then JNull else JStr (if sr_code r \<noteq> [] then sr_code r else ''delivery-error'')),
      (''locked_at'', JNull), (''lock_owner'', JNull), (''updated_at'', JStr now)]
     @ (if terminal (sr_kind r) then [(''accepted_at'', JStr now), (''completed_at'', JStr now)] else [])
     @ (if st = ''retrying'' then [(''next_attempt_at'', JStr later)] else [])
     @ (if st \<in> set [''dead-letter'', ''failed''] then [(''completed_at'', JStr now)] else [])"

definition health_after :: "outcome \<Rightarrow> string" where
  "health_after k = (if terminal k then ''Healthy'' else if k = Permanent then ''Misconfigured'' else ''Degraded'')"

definition completeDelivery :: "dispatcher \<Rightarrow> delivery_context \<Rightarrow> send_result \<Rightarrow> jnum \<Rightarrow> unit dprog" where
  "completeDelivery d cx r startedAt =
     (let attempt = attempt_number (cx_delivery cx); st = delivery_status (d_max d) (sr_kind r) attempt in
      pbind (date_iso d) (\<lambda>now.
      pbind (clock_ms d) (\<lambda>t.
      pbind (rest_post d ''notification_attempt'' (JArr [attempt_row d cx r (num_max (Fin 0) (num_sub t startedAt)) now])) (\<lambda>_.
      pbind (if st = ''retrying'' then nextAttempt d attempt (sr_retry_after r) else pret []) (\<lambda>later.
      pbind (rest_patch d ''notification_delivery'' (''id=eq.'' @ encode_uri (to_str (fld (cx_delivery cx) ''id'')))
         (delivery_patch cx r st now later)) (\<lambda>_.
      rest_patch d ''notification_channel'' (''id=eq.'' @ encode_uri (to_str (fld (cx_channel cx) ''id'')))
        [(''health_state'', JStr (health_after (sr_kind r))),
         (''last_success_at'', if terminal (sr_kind r) then JStr now else fld (cx_channel cx) ''last_success_at''), (''updated_at'', JStr now)]))))))"

definition worker_fault :: "jsval \<Rightarrow> send_result" where
  "worker_fault error = \<lparr>sr_kind = Retryable,
     sr_code = (if truthy (fld error ''code'') then to_str (fld error ''code'') else ''worker-error''), sr_retry_after = None, sr_message_id = JStr [],
     sr_detail = to_str (js_or (js_or (fld error ''msg'') (fld error ''message'')) (JStr (to_str error)))\<rparr>"

definition deliver :: "dispatcher \<Rightarrow> jsval \<Rightarrow> jsval \<Rightarrow> unit dprog" where
  "deliver d callback delivery =
     pbind (clock_ms d) (\<lambda>startedAt.
     pcatch
       (pbind (plift (get_prop delivery ''id'')) (\<lambda>i.
        pbind (deliveryContext d i) (\<lambda>cx.
        pbind (secretFor d (to_str (fld (cx_channel cx) ''id''))) (\<lambda>secret.
        pbind (send d callback (cx_channel cx) secret (cx_event cx)) (\<lambda>r.
        completeDelivery d cx r startedAt)))))
       (\<lambda>error.
        pbind (plift (get_prop delivery ''id'')) (\<lambda>i.
        pbind (pcatch (pbind (deliveryContext d i) (\<lambda>cx. pret (Some cx))) (\<lambda>_. pret None)) (\<lambda>found.
        case found of None \<Rightarrow> pret () | Some cx \<Rightarrow> completeDelivery d cx (worker_fault error) startedAt))))"

fun each :: "('b \<Rightarrow> unit dprog) \<Rightarrow> 'b list \<Rightarrow> unit dprog" where
  "each f [] = pret ()"
| "each f (x # xs) = pbind (f x) (\<lambda>_. each f xs)"

definition poll :: "dispatcher \<Rightarrow> jsval \<Rightarrow> unit dprog" where
  "poll d callback =
     (let claim = JObj [(''p_worker_id'', JStr (d_worker d)), (''p_limit'', JInt 25)] in
      pbind (rest_post d ''rpc/notification_claim_events'' claim) (\<lambda>events.
      pbind (plift (iterate events)) (\<lambda>es.
      pbind (each (\<lambda>event. pbind (plift (get_prop event ''id'')) (\<lambda>i.
         pbind (rest_post d ''rpc/notification_materialize_deliveries'' (JObj [(''p_event_id'', i)])) (\<lambda>_. pret ()))) es) (\<lambda>_.
      pbind (rest_post d ''rpc/notification_claim_deliveries'' claim) (\<lambda>deliveries.
      pbind (plift (iterate deliveries)) (\<lambda>ds.
      each (deliver d callback) ds))))))"

definition runOnce :: "dispatcher \<Rightarrow> jsval \<Rightarrow> unit dprog" where
  "runOnce d callback =
     pbind (pget polling) (\<lambda>busy.
     if busy then pret ()
     else pbind (pmod (polling_update (\<lambda>_. True))) (\<lambda>_.
          pbind (pcatch (poll d callback) (\<lambda>error. pbind (pmod (polling_update (\<lambda>_. False))) (\<lambda>_. pthrow error))) (\<lambda>_.
          pmod (polling_update (\<lambda>_. False)))))"

section \<open>A delivery is tried a bounded number of times\<close>

definition patched :: "delivery_context \<Rightarrow> (string \<times> jsval) list \<Rightarrow> delivery_context" where
  \<comment> \<open>the row after the PATCH\<close>
  "patched cx patch = cx\<lparr>cx_delivery := JObj (spread (obj_entries (cx_delivery cx)) patch)\<rparr>"

fun settle_delivery :: "dispatcher \<Rightarrow> delivery_context \<Rightarrow> (send_result \<times> string \<times> string) list \<Rightarrow> delivery_context" where
  \<comment> \<open>the row over successive attempts, each with its result, its time and the time of the next one; a row that is not retrying is not
    claimed again\<close>
  "settle_delivery d cx [] = cx"
| "settle_delivery d cx ((r, now, later) # rs) =
     (let st = delivery_status (d_max d) (sr_kind r) (attempt_number (cx_delivery cx)); cx' = patched cx (delivery_patch cx r st now later) in
      if st = ''retrying'' then settle_delivery d cx' rs else cx')"

lemma patched_status: "fld (cx_delivery (patched cx (delivery_patch cx r st now later))) ''status'' = JStr st"
  by (simp add: patched_def delivery_patch_def fld_obj map_of_spread map_add_def)

lemma patched_attempts:
  "fld (cx_delivery (patched cx (delivery_patch cx r st now later))) ''attempt_count'' = JInt (int (attempt_number (cx_delivery cx)))"
  by (simp add: patched_def delivery_patch_def fld_obj map_of_spread map_add_def)

lemma attempt_number_of: "fld row ''attempt_count'' = JInt (int n) \<Longrightarrow> attempt_number row = Suc n"
  by (cases n) (simp_all add: attempt_number_def js_or_def)

lemma delivery_status_cases:
  "delivery_status limit k n = ''retrying'' \<or> delivery_status limit k n \<in> set [''accepted'', ''delivered'', ''failed'', ''dead-letter'']"
  by (cases k) (simp_all add: delivery_status_def terminal_def kind_text_def)

lemma retrying_below_limit: "delivery_status (Fin m) k n = ''retrying'' \<Longrightarrow> of_nat n < m"
  by (cases k) (auto simp: delivery_status_def terminal_def kind_text_def num_le_def split: if_splits)

lemma settle_delivery_ends:
  assumes "rs \<noteq> []" and "m \<le> of_nat (attempt_number (cx_delivery cx) + length rs - 1)" and "d_max d = Fin m"
  shows "\<exists>st n. fld (cx_delivery (settle_delivery d cx rs)) ''status'' = JStr st \<and> st \<in> set [''accepted'', ''delivered'', ''failed'', ''dead-letter'']
    \<and> fld (cx_delivery (settle_delivery d cx rs)) ''attempt_count'' = JInt (int n) \<and> n \<le> max (attempt_number (cx_delivery cx)) (nat \<lceil>m\<rceil>)"
  using assms
proof (induction rs arbitrary: cx)
  case (Cons x rs)
  obtain r now later where x: "x = (r, now, later)"
    by (cases x)
  let ?n = "attempt_number (cx_delivery cx)"
  let ?st = "delivery_status (d_max d) (sr_kind r) ?n"
  let ?cx = "patched cx (delivery_patch cx r ?st now later)"
  show ?case
  proof (cases "?st = ''retrying''")
    case False
    then have "settle_delivery d cx (x # rs) = ?cx"
      by (simp add: x Let_def)
    moreover have "?st \<in> set [''accepted'', ''delivered'', ''failed'', ''dead-letter'']"
      using False delivery_status_cases [of "d_max d" "sr_kind r" ?n] by blast
    ultimately show ?thesis
      using patched_status [of cx r ?st now later] patched_attempts [of cx r ?st now later] by auto
  next
    case True
    then have s: "settle_delivery d cx (x # rs) = settle_delivery d ?cx rs"
      by (simp add: x Let_def)
    have lt: "of_nat ?n < m"
      using True Cons.prems(3) retrying_below_limit by simp
    have n: "attempt_number (cx_delivery ?cx) = Suc ?n"
      by (rule attempt_number_of [OF patched_attempts])
    have ne: "rs \<noteq> []"
      using Cons.prems(2) lt by auto
    have "\<exists>st k. fld (cx_delivery (settle_delivery d ?cx rs)) ''status'' = JStr st \<and> st \<in> set [''accepted'', ''delivered'', ''failed'', ''dead-letter'']
      \<and> fld (cx_delivery (settle_delivery d ?cx rs)) ''attempt_count'' = JInt (int k) \<and> k \<le> max (attempt_number (cx_delivery ?cx)) (nat \<lceil>m\<rceil>)"
      by (rule Cons.IH [OF ne]) (use Cons.prems n in simp_all)
    moreover have "Suc ?n \<le> nat \<lceil>m\<rceil>"
      using lt by linarith
    ultimately show ?thesis
      unfolding s n by (metis max.absorb2 max.coboundedI2)
  qed
qed simp


definition demo_dispatcher :: dispatcher where
  "demo_dispatcher = \<lparr>d_env = (\<lambda>_ _. Inr JNull), d_pu = (\<lambda>_. None), d_ip = (\<lambda>_. False), d_json = (\<lambda>_. None), d_sha = (\<lambda>s. s),
     d_hosts = [''mail.example.com''], d_max = Fin 2, d_worker = ''w'', d_helo = ''h''\<rparr>"

definition demo_context :: delivery_context where
  "demo_context = \<lparr>cx_delivery = JObj [(''id'', JStr ''d1''), (''status'', JStr ''queued''), (''attempt_count'', JInt 0)],
     cx_event = JObj [], cx_channel = JObj [(''id'', JStr ''c1'')]\<rparr>"


section \<open>The mail a recipient's server reads\<close>

fun dots_ok :: "bool \<Rightarrow> string \<Rightarrow> bool" where
  \<comment> \<open>a dot after a line feed is followed by something other than a carriage return; the flag says that a line feed came before\<close>
  "dots_ok b [] = True"
| "dots_ok b (c # s) = ((b \<and> c = CHR ''.'' \<longrightarrow> s \<noteq> [] \<and> hd s \<noteq> CHR 0x0D) \<and> dots_ok (c = CHR 0x0A) s)"

lemma dots_ok_stuffed: "(b \<longrightarrow> b') \<Longrightarrow> dots_ok b (dot_stuff b' s)"
  by (induction b' s arbitrary: b rule: dot_stuff.induct) auto

lemma dots_ok_line:
  "CHR 0x0A \<notin> set l \<Longrightarrow> b \<longrightarrow> l = [] \<or> hd l \<noteq> CHR ''.'' \<Longrightarrow> dots_ok b (l @ CRLF @ s) = dots_ok True s"
proof (induction l arbitrary: b)
  case (Cons c l)
  then have "dots_ok False (l @ CRLF @ s) = dots_ok True s"
    by simp
  then show ?case
    using Cons.prems by auto
qed (simp add: CRLF_def)

lemma end_of_data_unique:
  assumes "dots_ok b w" and "w @ end_of_data = pre @ [CHR 0x0A, CHR ''.'', CHR 0x0D] @ post"
  shows "post = [CHR 0x0A]"
  using assms
proof (induction w arbitrary: b pre)
  case Nil
  then show ?case
    by (auto simp: end_of_data_def CRLF_def Cons_eq_append_conv)
next
  case (Cons c w)
  show ?case
  proof (cases pre)
    case Nil
    then have "c = CHR 0x0A" "w @ end_of_data = [CHR ''.'', CHR 0x0D] @ post"
      using Cons.prems(2) by simp_all
    then show ?thesis
      using Cons.prems(1) by (cases w; cases "tl w") (auto simp: end_of_data_def CRLF_def)
  next
    case (Cons x pre')
    then show ?thesis
      using Cons.IH [of "c = CHR 0x0A" pre'] Cons.prems by simp
  qed
qed

definition one_line :: "string \<Rightarrow> bool" where
  "one_line s \<longleftrightarrow> CHR 0x0A \<notin> set s \<and> CHR 0x0D \<notin> set s"

lemma set_join: "set (join sep xs) \<subseteq> set sep \<union> \<Union> (set ` set xs)"
  by (induction sep xs rule: join.induct) auto

lemma subject_one_line: "one_line (smtp_subject config event)"
  by (auto simp: one_line_def smtp_subject_def)

lemma email_one_line:
  assumes "emailList v = Inr out" and "s \<in> set out"
  shows "one_line s"
proof -
  have "is_email s"
    using assms by (auto simp: emailList_def Let_def list_ex_iff split: if_splits)
  then have "\<not> list_ex ws s"
    by (simp add: is_email_def)
  moreover have "ws (CHR 0x0A)" "ws (CHR 0x0D)"
    by (simp_all add: ws_def)
  ultimately show ?thesis
    by (auto simp: one_line_def list_ex_iff)
qed

lemma emailList_nonempty: "emailList v = Inr out \<Longrightarrow> hd out \<in> set out"
  by (auto simp: emailList_def Let_def split: if_splits)

lemma smtp_channel_addresses:
  assumes "smtp_channel ip raw secret = Inr (config, sec)"
  shows "\<exists>sender recipients. fld config ''from'' = JStr sender \<and> fld config ''recipients'' = JArr (map JStr recipients)
    \<and> list_all one_line (sender # recipients)"
  using assms unfolding smtp_channel_def
  by (auto simp: rbind_def fld_obj list_all_iff email_one_line emailList_nonempty Let_def split: sum.splits)
    (blast intro: email_one_line)

lemma block_ends_once:
  assumes "one_line sender" and "list_all one_line recipients" and "one_line subject"
    and "smtp_data sender recipients subject (dot_stuff True text) = pre @ end_of_data @ post"
  shows "post = []"
proof -
  let ?to = "''To: '' @ join '', '' recipients" and ?subject = "''Subject: '' @ subject"
  let ?w = "(''From: <'' @ sender @ ''>'') @ CRLF @ ?to @ CRLF @ ?subject @ CRLF @ ''MIME-Version: 1.0'' @ CRLF
    @ ''Content-Type: text/plain; charset=UTF-8'' @ CRLF @ [] @ CRLF @ dot_stuff True text"
  have "CHR 0x0A \<notin> set ?to"
    using assms(2) set_join [of "'', ''" recipients] by (auto simp: one_line_def list_all_iff)
  moreover have "dots_ok True (dot_stuff True text)"
    by (simp add: dots_ok_stuffed)
  ultimately have "dots_ok False ?w"
    using assms(1,3) by (subst dots_ok_line, simp_all add: one_line_def del: append_assoc append.simps)+
  moreover have "?w @ end_of_data = (pre @ [CHR 0x0D]) @ [CHR 0x0A, CHR ''.'', CHR 0x0D] @ (CHR 0x0A # post)"
    using assms(4) by (simp add: smtp_data_def end_of_data_def CRLF_def)
  ultimately show ?thesis
    using end_of_data_unique by blast
qed

lemma channelInput_smtp:
  assumes "channelInput pu ip input = Inr parsed" and "ch_provider parsed = ''smtp''"
  obtains raw secret sec where "smtp_channel ip raw secret = Inr (ch_config parsed, sec)"
  using assms by (auto simp: channelInput_def rbind_def Let_def guard_else_def split: sum.splits prod.splits if_splits)

text \<open>C39: no event can break out of its mail: for a channel configuration that was accepted, every command line that carries an address is one
  line, and the text written after DATA contains the end-of-data sequence only at its very end, whatever title, body, source and route the
  event has.\<close>

theorem mail_text_ends_exactly_once:
  assumes "channelInput pu ip input = Inr parsed" and "ch_provider parsed = ''smtp''"
  shows "\<exists>recipients. fld (ch_config parsed) ''recipients'' = JArr recipients
    \<and> list_all one_line (mail_from (ch_config parsed) # map (\<lambda>r. rcpt_to (to_str r)) recipients)
    \<and> (\<forall>event pre post. smtp_block (ch_config parsed) (join_texts recipients) event = pre @ end_of_data @ post \<longrightarrow> post = [])"
proof -
  obtain raw secret sec where "smtp_channel ip raw secret = Inr (ch_config parsed, sec)"
    using channelInput_smtp [OF assms] .
  from smtp_channel_addresses [OF this] obtain sender recipients where a: "fld (ch_config parsed) ''from'' = JStr sender"
    "fld (ch_config parsed) ''recipients'' = JArr (map JStr recipients)" "list_all one_line (sender # recipients)"
    by blast
  have j: "join_texts (map JStr recipients) = recipients"
    by (induction recipients) (simp_all add: join_texts_def nullish_def)
  have "list_all one_line (mail_from (ch_config parsed) # map (\<lambda>r. rcpt_to (to_str r)) (map JStr recipients))"
    using a(1,3) by (auto simp: mail_from_def rcpt_to_def one_line_def list_all_iff)
  moreover have "post = []" if "smtp_block (ch_config parsed) recipients event = pre @ end_of_data @ post" for event pre post
    by (rule block_ends_once [of sender recipients "smtp_subject (ch_config parsed) event"])
      (use a that in \<open>simp_all add: subject_one_line smtp_block_def\<close>)
  ultimately show ?thesis
    using a(2) j by metis
qed

definition demo_smtp_channel :: jsval where
  "demo_smtp_channel = JObj [(''provider'', JStr ''smtp''), (''name'', JStr ''ops mail''),
     (''config'', JObj [(''host'', JStr ''mail.example.com''), (''from'', JStr ''a@b.co''), (''recipients'', JArr [JStr ''c@d.co''])]),
     (''secret'', JObj [(''username'', JStr ''u''), (''password'', JStr ''p'')])]"

definition demo_parsed_ok :: bool where
  "demo_parsed_ok = (case channelInput (\<lambda>_. None) (\<lambda>_. False) demo_smtp_channel of Inr c \<Rightarrow> ch_provider c = ''smtp'' | Inl _ \<Rightarrow> False)"

lemma demo_parsed: "demo_parsed_ok"
  by code_simp

theorem mail_text_ends_exactly_once_witness:
  "\<exists>parsed recipients. channelInput (\<lambda>_. None) (\<lambda>_. False) demo_smtp_channel = Inr parsed
     \<and> fld (ch_config parsed) ''recipients'' = JArr recipients
     \<and> (\<forall>event pre post. smtp_block (ch_config parsed) (join_texts recipients) event = pre @ end_of_data @ post \<longrightarrow> post = [])"
proof -
  obtain parsed where "channelInput (\<lambda>_. None) (\<lambda>_. False) demo_smtp_channel = Inr parsed" "ch_provider parsed = ''smtp''"
    using demo_parsed by (auto simp: demo_parsed_ok_def split: sum.splits)
  then show ?thesis
    using mail_text_ends_exactly_once by blast
qed

end
