(* ===== verification/NotificationApi.thy ===== *)
theory NotificationApi
  imports NotificationDispatcher
begin

text \<open>
  The browser API of the notification dispatcher: \<open>src/apps/notification-dispatcher/browser-api.js\<close> (channels, rules, deliveries) and the rest of
  \<open>server.js\<close> (audit, channel test, internal operations, HTTP routes).  \<open>Promise.all\<close> of independent reads is modelled as the
  reads in order; a reply \<open>json(res, status, body)\<close> is the returned pair.  Korean texts are written as their UTF-8 bytes.
\<close>

section \<open>Audit and the channel test\<close>

definition audit_row :: "dispatcher \<Rightarrow> string \<Rightarrow> jsval \<Rightarrow> string \<Rightarrow> string \<Rightarrow> string \<Rightarrow> string \<Rightarrow> string \<Rightarrow> jsval" where
  \<comment> \<open>for the options the API passes: request id and target type\<close>
  "audit_row d requestId actor action target result reason targetType = JObj [
     (''request_id'', JStr requestId), (''correlation_id'', JStr requestId), (''actor_type'', JStr ''human''),
     (''actor_id'', JStr (str_or_empty (fld actor ''sub''))), (''auth_session_id'', or_null (fld actor ''browserSessionId'')),
     (''action'', JStr action), (''target_type'', JStr targetType), (''target_id'', JStr target), (''reason'', JStr (take 240 reason)),
     (''phase'', JStr ''applied''), (''result'', JStr result), (''payload_digest'', JNull),
     (''event_hash'', JStr (''sha256:'' @ d_sha d (json_text (JObj [(''requestId'', JStr requestId), (''actorId'', JStr (str_or_empty (fld actor ''sub''))),
        (''action'', JStr action), (''target'', JStr target), (''reason'', JStr reason), (''result'', JStr result)]))))]"

definition logAudit :: "dispatcher \<Rightarrow> jsval \<Rightarrow> string \<Rightarrow> string \<Rightarrow> string \<Rightarrow> string \<Rightarrow> string \<Rightarrow> unit dprog" where
  "logAudit d actor action target result reason targetType =
     pbind (call (d_env d) ''randomUUID'' []) (\<lambda>uuid.
     pbind (pguard (http_error 401 ''notification audit actor is unavailable'') (str_or_empty (fld actor ''sub'') \<noteq> [])) (\<lambda>_.
     pbind (call (d_env d) ''rest'' [JStr ''event'', JObj [(''profile'', JStr ''audit''), (''method'', JStr ''POST''),
        (''query'', JStr ''select=request_id,correlation_id''), (''body'', JArr [audit_row d (to_str uuid) actor action target result reason targetType]),
        (''prefer'', JStr ''return=representation'')]]) (\<lambda>output.
     pguard (http_error 503 ''notification audit append failed'') (is_array output \<and> truthy (fld (first_row output) ''request_id'')))))"

definition test_title :: string where
  "test_title = ''OpenSphere '' @
     [CHR 0xEC, CHR 0x99, CHR 0xB8, CHR 0xEB, CHR 0xB6, CHR 0x80, CHR 0x20, CHR 0xEC, CHR 0xB1, CHR 0x84, CHR 0xEB, CHR 0x84, CHR 0x90, CHR 0x20,
     CHR 0xED, CHR 0x85, CHR 0x8C, CHR 0xEC, CHR 0x8A, CHR 0xA4, CHR 0xED, CHR 0x8A, CHR 0xB8]"

definition test_body :: string where
  "test_body =
     [CHR 0xEC, CHR 0x9D, CHR 0xB4, CHR 0x20, CHR 0xEB, CHR 0xA9, CHR 0x94, CHR 0xEC, CHR 0x8B, CHR 0x9C, CHR 0xEC, CHR 0xA7, CHR 0x80, CHR 0xEB,
     CHR 0x8A, CHR 0x94, CHR 0x20, CHR 0xEC, CHR 0xB1, CHR 0x84, CHR 0xEB, CHR 0x84, CHR 0x90, CHR 0x20, CHR 0xEC, CHR 0x97, CHR 0xB0, CHR 0xEA,
     CHR 0xB2, CHR 0xB0, CHR 0x20, CHR 0xEA, CHR 0xB2, CHR 0x80, CHR 0xEC, CHR 0xA6, CHR 0x9D, CHR 0xEC, CHR 0x9A, CHR 0xA9, CHR 0x20, CHR 0xED,
     CHR 0x85, CHR 0x8C, CHR 0xEC, CHR 0x8A, CHR 0xA4, CHR 0xED, CHR 0x8A, CHR 0xB8, CHR 0xEC, CHR 0x9E, CHR 0x85, CHR 0xEB, CHR 0x8B, CHR 0x88,
     CHR 0xEB, CHR 0x8B, CHR 0xA4, CHR 0x2E]"

definition test_recipient :: "jsval \<Rightarrow> jsval + string" where
  "test_recipient input = (let raw = trim (str_or_empty (fld input ''testRecipient'')) in
     if raw = [] then Inr [] else rbind (emailList (JArr [JStr raw])) (\<lambda>xs. Inr (hd xs)))"

definition testChannelDelivery :: "dispatcher \<Rightarrow> jsval \<Rightarrow> string \<Rightarrow> jsval \<Rightarrow> jsval dprog" where
  "testChannelDelivery d callback channelId input =
     pbind (rest_read d ''notification_channel'' (''select=*&id=eq.'' @ encode_uri channelId @ ''&deleted_at=is.null'')) (\<lambda>rows.
     pbind (required_row channel_missing rows) (\<lambda>channel.
     pbind (plift (test_recipient input)) (\<lambda>recipient.
     pbind (pguard (http_error 400 ''a test recipient is supported only for SMTP channels'') (recipient = [] \<or> fld channel ''provider'' = JStr ''smtp'')) (\<lambda>_.
     let target = (if recipient = [] then channel
           else JObj (upsert ''config'' (JObj (upsert ''recipients'' (JArr [JStr recipient]) (obj_entries (fld channel ''config'')))) (obj_entries channel))) in
     pbind (secretFor d (to_str (fld channel ''id''))) (\<lambda>secret.
     pbind (send d callback target secret (JObj [(''source'', JStr ''OpenSphere Console''), (''severity'', JStr ''info''), (''title'', JStr test_title),
        (''body'', JStr test_body), (''route'', JStr [])])) (\<lambda>r.
     pbind (date_iso d) (\<lambda>t1.
     pbind (date_iso d) (\<lambda>t2.
     pbind (rest_patch d ''notification_channel'' (''id=eq.'' @ encode_uri (to_str (fld channel ''id''))) [
        (''last_test_status'', JStr (if terminal (sr_kind r) then ''accepted'' else ''failed'')), (''last_test_at'', JStr t1),
        (''last_test_error_code'', if terminal (sr_kind r) then JNull else JStr (or_text (sr_code r) ''test-failed'')),
        (''health_state'', JStr (health_after (sr_kind r))), (''updated_at'', JStr t2)]) (\<lambda>_.
     pret (JObj [(''accepted'', JBool (terminal (sr_kind r))), (''code'', JStr (sr_code r)), (''providerMessageId'', js_or (sr_message_id r) (JStr []))]))))))))))"

definition channel_path :: "string \<Rightarrow> string \<Rightarrow> string option" where
  \<comment> \<open>\<open>/^\/internal\/channels\/([0-9a-f-]+)\/<suffix>$/i\<close>\<close>
  "channel_path suffix p =
     (let i = take (length p - 19 - length suffix) (drop 19 p) in
      if to_lower (take 19 p) = ''/internal/channels/'' \<and> 19 + length suffix < length p \<and> to_lower (drop (length p - length suffix) p) = suffix
         \<and> list_all (\<lambda>c. hex_char c \<or> c = CHR ''-'') i
      then Some i else None)"

definition dispatcherRequest :: "dispatcher \<Rightarrow> jsval \<Rightarrow> string \<Rightarrow> jsval \<Rightarrow> jsval dprog" where
  "dispatcherRequest d callback path body =
     (case channel_path ''/credentials'' path of Some i \<Rightarrow> storeSecret d i body | None \<Rightarrow>
      case channel_path ''/configuration'' path of Some i \<Rightarrow> updateChannelConfiguration d i body | None \<Rightarrow>
      case channel_path ''/test'' path of Some i \<Rightarrow> testChannelDelivery d callback i body | None \<Rightarrow>
      pthrow (http_error 500 ''notification browser API requested an unknown dispatcher operation''))"

section \<open>Channels\<close>

definition CHANNEL_TYPE :: "(string \<times> string) list" where
  "CHANNEL_TYPE = [(''slack'', ''chat''), (''discord'', ''chat''), (''smtp'', ''email''), (''twilio'', ''sms'')]"

definition auditReason :: "jsval \<Rightarrow> jsval + string" where
  "auditReason v = asText v ''reason'' 0 240 False"

definition publicChannel :: "jsval \<Rightarrow> jsval + jsval" where
  "publicChannel row =
     rbind (get_prop row ''config'') (\<lambda>config0.
     let config = object_or_empty config0 in
     rbind (maskTarget (fld row ''provider'') config) (\<lambda>target.
     Inr (JObj [(''id'', fld row ''id''), (''name'', fld row ''name''), (''provider'', fld row ''provider''), (''channelType'', fld row ''channel_type''),
       (''enabled'', JBool (truthy (fld row ''enabled''))), (''healthState'', fld row ''health_state''), (''target'', JStr target),
       (''credential'', JObj [(''configured'', JBool (truthy (fld row ''credential_configured''))),
          (''version'', JNum (to_num (js_or (fld row ''secret_version'') (JInt 0))))]),
       (''lastTest'', if truthy (fld row ''last_test_at'')
          then JObj [(''status'', fld row ''last_test_status''), (''at'', fld row ''last_test_at''), (''errorCode'', or_null (fld row ''last_test_error_code''))]
          else JNull),
       (''lastSuccessAt'', or_null (fld row ''last_success_at'')), (''createdAt'', fld row ''created_at''), (''updatedAt'', fld row ''updated_at'')])))"

definition channels :: "dispatcher \<Rightarrow> jsval dprog" where
  "channels d =
     pbind (rest_read d ''notification_channel'' ''select=*&deleted_at=is.null&order=name.asc'') (\<lambda>rows.
     pbind (plift (array_of rows)) (\<lambda>xs.
     pbind (plift (map_res publicChannel xs)) (\<lambda>ys. pret (JArr ys))))"

definition count_rows :: "(jsval \<Rightarrow> bool) \<Rightarrow> jsval list \<Rightarrow> jsval" where
  "count_rows P xs = JInt (int (length (filter P xs)))"

definition summary :: "dispatcher \<Rightarrow> jsval dprog" where
  "summary d =
     pbind (rest_read d ''notification_channel'' ''select=id,enabled,health_state&deleted_at=is.null'') (\<lambda>allChannels.
     pbind (clock_ms d) (\<lambda>now.
     pbind (plift (to_iso_string (num_sub now (Fin 86400000)))) (\<lambda>since.
     pbind (rest_read d ''notification_delivery'' (''select=status&updated_at=gte.'' @ since)) (\<lambda>deliveries.
     pbind (rest_read d ''notification_delivery_control'' ''select=paused,reason,changed_at&singleton=eq.true'') (\<lambda>control.
     pbind (plift (array_of allChannels)) (\<lambda>chs.
     pbind (plift (array_of deliveries)) (\<lambda>ds.
     pbind (plift (row_of control)) (\<lambda>pause.
     let st = (\<lambda>x. fld x ''status''); h = (\<lambda>x. fld x ''health_state''); on = (\<lambda>x. truthy (fld x ''enabled'')) in
     pret (JObj [(''active'', count_rows on chs), (''healthy'', count_rows (\<lambda>x. on x \<and> h x = JStr ''Healthy'') chs),
       (''degraded'', count_rows (\<lambda>x. on x \<and> h x \<in> set [JStr ''Degraded'', JStr ''Misconfigured'']) chs),
       (''failed24h'', count_rows (\<lambda>x. st x \<in> set [JStr ''failed'', JStr ''dead-letter'']) ds),
       (''deadLetter'', count_rows (\<lambda>x. st x = JStr ''dead-letter'') ds),
       (''paused'', JBool (truthy (fld pause ''paused''))), (''pause'', or_null pause)])))))))))"

definition by_id :: "string \<Rightarrow> string" where
  "by_id i = ''id=eq.'' @ encode_uri i"

definition channel_row :: "string \<Rightarrow> channel \<Rightarrow> jsval \<Rightarrow> string \<Rightarrow> jsval" where
  "channel_row i parsed actor now = JObj [(''id'', JStr i), (''name'', JStr (ch_name parsed)), (''provider'', JStr (ch_provider parsed)),
     (''channel_type'', case map_of CHANNEL_TYPE (ch_provider parsed) of Some t \<Rightarrow> JStr t | None \<Rightarrow> JUndef), (''config'', ch_config parsed),
     (''created_by'', fld actor ''sub''), (''updated_by'', fld actor ''sub''), (''created_at'', JStr now), (''updated_at'', JStr now)]"

definition createChannel :: "dispatcher \<Rightarrow> jsval \<Rightarrow> jsval \<Rightarrow> jsval \<Rightarrow> jsval dprog" where
  "createChannel d callback actor body =
     pbind (plift (auditReason (fld body ''reason''))) (\<lambda>reason.
     pbind (plift (channelInput (d_pu d) (d_ip d) body)) (\<lambda>parsed.
     pbind (call (d_env d) ''randomUUID'' []) (\<lambda>uuid.
     let i = to_str uuid in
     pbind (date_iso d) (\<lambda>now.
     pbind (plift (get_prop actor ''sub'')) (\<lambda>_.
     pbind (rest_post d ''notification_channel'' (JArr [channel_row i parsed actor now])) (\<lambda>_.
     pbind (pcatch (pbind (dispatcherRequest d callback (''/internal/channels/'' @ i @ ''/credentials'') (channel_value parsed)) (\<lambda>_. pret ()))
       (\<lambda>error. pbind (pcatch (pbind (call (d_env d) ''rest'' [JStr ''notification_channel'', JObj [(''method'', JStr ''DELETE''), (''query'', JStr (by_id i)),
             (''prefer'', JStr ''return=minimal'')]]) (\<lambda>_. pret ())) (\<lambda>_. pret ())) (\<lambda>_. pthrow error))) (\<lambda>_.
     pbind (logAudit d actor ''notification-channel-create'' i ''ok'' reason ''notification-channel'') (\<lambda>_.
     pbind (rest_read d ''notification_channel'' (''select=*&'' @ by_id i)) (\<lambda>rows.
     pbind (plift (row_of rows)) (\<lambda>row. plift (publicChannel row)))))))))))"

definition smtpChannelConfiguration :: "dispatcher \<Rightarrow> string \<Rightarrow> jsval dprog" where
  "smtpChannelConfiguration d i =
     pbind (rest_read d ''notification_channel'' (''select=id,name,provider,config,credential_configured&'' @ by_id i @ ''&deleted_at=is.null'')) (\<lambda>rows.
     pbind (required_row channel_missing rows) (\<lambda>row.
     pbind (pguard (http_error 400 ''only SMTP channel configuration can be edited'') (fld row ''provider'' = JStr ''smtp'')) (\<lambda>_.
     pret (JObj [(''id'', fld row ''id''), (''name'', fld row ''name''), (''provider'', fld row ''provider''),
       (''config'', js_or (fld row ''config'') (JObj [])), (''credentialConfigured'', JBool (truthy (fld row ''credential_configured'')))]))))"

definition updateSmtpChannel :: "dispatcher \<Rightarrow> jsval \<Rightarrow> jsval \<Rightarrow> string \<Rightarrow> jsval \<Rightarrow> jsval dprog" where
  "updateSmtpChannel d callback actor i body =
     pbind (plift (auditReason (fld body ''reason''))) (\<lambda>reason.
     pbind (pguard (http_error 400 ''only SMTP channel configuration can be edited'') (to_lower (str_or_empty (fld body ''provider'')) = ''smtp'')) (\<lambda>_.
     pbind (dispatcherRequest d callback (''/internal/channels/'' @ i @ ''/configuration'') body) (\<lambda>row.
     pbind (logAudit d actor ''notification-channel-update'' i ''ok'' reason ''notification-channel'') (\<lambda>_. pret row))))"

definition enabled_health :: "bool \<Rightarrow> jsval \<Rightarrow> jsval" where
  "enabled_health on health = (if on then (if health = JStr ''Draft'' then JStr ''Healthy'' else health) else JStr ''Disabled'')"

definition setChannelEnabled :: "dispatcher \<Rightarrow> jsval \<Rightarrow> string \<Rightarrow> bool \<Rightarrow> jsval \<Rightarrow> jsval dprog" where
  "setChannelEnabled d actor i on body =
     pbind (plift (auditReason (fld body ''reason''))) (\<lambda>reason.
     pbind (rest_read d ''notification_channel'' (''select=*&'' @ by_id i @ ''&deleted_at=is.null'')) (\<lambda>rows.
     pbind (required_row channel_missing rows) (\<lambda>row.
     pbind (pguard (http_error 409 ''notification credentials are not configured'') (\<not> on \<or> truthy (fld row ''credential_configured''))) (\<lambda>_.
     pbind (plift (get_prop actor ''sub'')) (\<lambda>sub.
     pbind (date_iso d) (\<lambda>now.
     pbind (rest_patch d ''notification_channel'' (by_id i) [(''enabled'', JBool on), (''health_state'', enabled_health on (fld row ''health_state'')),
        (''updated_by'', sub), (''updated_at'', JStr now)]) (\<lambda>_.
     pbind (logAudit d actor (if on then ''notification-channel-enable'' else ''notification-channel-disable'') i ''ok'' reason ''notification-channel'') (\<lambda>_.
     pret (JObj [(''ok'', JBool True)])))))))))"

definition testChannel :: "dispatcher \<Rightarrow> jsval \<Rightarrow> jsval \<Rightarrow> string \<Rightarrow> jsval \<Rightarrow> jsval dprog" where
  "testChannel d callback actor i body =
     pbind (plift (auditReason (fld body ''reason''))) (\<lambda>reason.
     pbind (plift (if truthy (fld body ''testRecipient'') then rbind (emailList (JArr [fld body ''testRecipient''])) (\<lambda>xs. Inr (hd xs)) else Inr [])) (\<lambda>recipient.
     pbind (dispatcherRequest d callback (''/internal/channels/'' @ i @ ''/test'')
              (if recipient = [] then JObj [] else JObj [(''testRecipient'', JStr recipient)])) (\<lambda>row.
     pbind (logAudit d actor ''notification-channel-test'' i (if truthy (fld row ''accepted'') then ''ok'' else ''error'') reason ''notification-channel'') (\<lambda>_.
     pret row))))"

section \<open>Rules and deliveries\<close>

definition text_list :: "jsval \<Rightarrow> string \<Rightarrow> nat \<Rightarrow> nat \<Rightarrow> jsval + string list" where
  \<comment> \<open>\<open>[...new Set((Array.isArray(v) ? v : []).map((item) => asText(item, \<dots>)).filter(Boolean))]\<close>\<close>
  "text_list v label low high =
     rbind (map_res (\<lambda>item. asText item label low high False) (elems v)) (\<lambda>xs. Inr (uniq (filter (\<lambda>s. s \<noteq> []) xs)))"

definition bounded_integer :: "jsval \<Rightarrow> rat \<Rightarrow> rat \<Rightarrow> rat \<Rightarrow> string \<Rightarrow> jsval + jnum" where
  "bounded_integer v fallback low high msg =
     (let n = to_num (js_or v (JNum (Fin fallback))) in
      if \<not> num_is_integer n \<or> num_less n (Fin low) \<or> num_less (Fin high) n then Inl (http_error 400 msg) else Inr n)"

record rule =
  ru_channels :: "string list"
  ru_fields :: "(string \<times> jsval) list"

definition normalizeRule :: "jsval \<Rightarrow> jsval + rule" where
  "normalizeRule input =
     rbind (text_list (fld input ''sources'') ''source'' 0 120) (\<lambda>sources.
     rbind (text_list (fld input ''categories'') ''category'' 0 120) (\<lambda>categories.
     rbind (text_list (fld input ''channelIds'') ''channel ID'' 36 36) (\<lambda>channelIds.
     rbind (guard_else (http_error 400 ''at least one target channel is required'') (channelIds \<noteq> [])) (\<lambda>_.
     rbind (asText (js_or (fld input ''minSeverity'') (JStr ''error'')) ''minimum severity'' 0 16 True) (\<lambda>sev.
     rbind (guard_else (http_error 400 ''invalid minimum severity'') (to_lower sev \<in> set SEVERITIES)) (\<lambda>_.
     rbind (bounded_integer (fld input ''priority'') 100 1 100000 ''priority is invalid'') (\<lambda>priority.
     rbind (bounded_integer (fld input ''dedupWindowSeconds'') 0 0 86400 ''dedup window is invalid'') (\<lambda>dedup.
     rbind (asText (fld input ''name'') ''rule name'' 2 120 True) (\<lambda>name.
     rbind (asText (fld input ''description'') ''description'' 0 500 False) (\<lambda>description.
     Inr \<lparr>ru_channels = channelIds, ru_fields = [
       (''name'', JStr name), (''description'', JStr description), (''enabled'', JBool (fld input ''enabled'' \<noteq> JBool False)),
       (''priority'', JNum priority), (''min_severity'', JStr (to_lower sev)), (''sources'', JArr (map JStr sources)),
       (''categories'', JArr (map JStr categories)), (''label_match'', plain_or_empty (fld input ''labelMatch'')),
       (''quiet_hours'', object_or_empty (fld input ''quietHours'')), (''dedup_window_seconds'', JNum dedup),
       (''throttle'', object_or_empty (fld input ''throttle'')), (''message_policy'', object_or_empty (fld input ''messagePolicy''))]\<rparr>))))))))))"

definition publicRule :: "jsval \<Rightarrow> jsval list \<Rightarrow> jsval" where
  "publicRule row chans = JObj [
     (''id'', fld row ''id''), (''name'', fld row ''name''), (''description'', fld row ''description''), (''enabled'', JBool (truthy (fld row ''enabled''))),
     (''priority'', fld row ''priority''), (''version'', fld row ''version''), (''minSeverity'', fld row ''min_severity''),
     (''sources'', js_or (fld row ''sources'') (JArr [])), (''categories'', js_or (fld row ''categories'') (JArr [])),
     (''labelMatch'', js_or (fld row ''label_match'') (JObj [])), (''quietHours'', js_or (fld row ''quiet_hours'') (JObj [])),
     (''dedupWindowSeconds'', fld row ''dedup_window_seconds''), (''throttle'', js_or (fld row ''throttle'') (JObj [])),
     (''channelIds'', JArr (map (\<lambda>c. fld c ''id'') chans)), (''channels'', JArr chans), (''updatedAt'', fld row ''updated_at'')]"

definition index_by_id :: "jsval list \<Rightarrow> jsval \<Rightarrow> jsval option" where
  \<comment> \<open>\<open>new Map(rows.map((row) => [row.id, row])).get(i)\<close>: the last row with the id\<close>
  "index_by_id rows i = find (\<lambda>row. fld row ''id'' = i) (rev rows)"

definition linked_channels :: "jsval list \<Rightarrow> jsval list \<Rightarrow> jsval \<Rightarrow> jsval list" where
  "linked_channels links chans i = filter truthy (List.map_filter (\<lambda>link. index_by_id chans (fld link ''channel_id''))
     (filter (\<lambda>link. fld link ''rule_id'' = i) links))"

definition rules :: "dispatcher \<Rightarrow> jsval dprog" where
  "rules d =
     pbind (rest_read d ''notification_rule'' ''select=*&deleted_at=is.null&order=priority.asc,name.asc'') (\<lambda>ruleRows.
     pbind (rest_read d ''notification_rule_channel'' ''select=rule_id,channel_id'') (\<lambda>links.
     pbind (rest_read d ''notification_channel'' ''select=id,name,provider,enabled,health_state&deleted_at=is.null'') (\<lambda>channelRows.
     pbind (plift (array_of channelRows)) (\<lambda>chs.
     pbind (plift (iterate links)) (\<lambda>ls.
     pbind (plift (array_of ruleRows)) (\<lambda>rs.
     pret (JArr (map (\<lambda>row. publicRule row (linked_channels ls chs (fld row ''id''))) rs))))))))"

definition createRule :: "dispatcher \<Rightarrow> jsval \<Rightarrow> jsval \<Rightarrow> jsval dprog" where
  "createRule d actor body =
     pbind (plift (auditReason (fld body ''reason''))) (\<lambda>reason.
     pbind (plift (normalizeRule body)) (\<lambda>input.
     pbind (plift (get_prop actor ''sub'')) (\<lambda>sub.
     pbind (rest_post d ''notification_rule'' (JArr [JObj (ru_fields input @ [(''created_by'', sub), (''updated_by'', sub)])])) (\<lambda>created.
     pbind (plift (row_of created)) (\<lambda>row.
     pbind (plift (get_prop row ''id'')) (\<lambda>i.
     pbind (rest_post d ''notification_rule_channel'' (JArr (map (\<lambda>c. JObj [(''rule_id'', i), (''channel_id'', JStr c)]) (ru_channels input)))) (\<lambda>_.
     pbind (logAudit d actor ''notification-rule-create'' (str_or_empty i) ''ok'' reason ''notification-rule'') (\<lambda>_.
     pret (JObj [(''id'', i)])))))))))"

definition page_limit :: "jsval \<Rightarrow> jnum" where
  "page_limit v = num_min (Fin 250) (num_max (Fin 1) (to_num (js_or v (JInt 100))))"

fun read_each :: "dispatcher \<Rightarrow> string \<Rightarrow> string \<Rightarrow> jsval list \<Rightarrow> jsval list dprog" where
  \<comment> \<open>the first row for each id, without the missing ones\<close>
  "read_each d resource q [] = pret []"
| "read_each d resource q (i # is) =
     pbind (rest_read d resource (q @ encode_uri (to_str i))) (\<lambda>rows.
     pbind (plift (row_of rows)) (\<lambda>row.
     pbind (read_each d resource q is) (\<lambda>more. pret (if truthy row then row # more else more))))"

definition public_delivery :: "jsval list \<Rightarrow> jsval list \<Rightarrow> jsval \<Rightarrow> jsval" where
  "public_delivery events chans row = JObj [
     (''id'', fld row ''id''), (''status'', fld row ''status''), (''attempts'', fld row ''attempt_count''),
     (''providerMessageId'', js_or (fld row ''provider_message_id'') (JStr [])), (''lastErrorCode'', js_or (fld row ''last_error_code'') (JStr [])),
     (''updatedAt'', fld row ''updated_at''), (''nextAttemptAt'', fld row ''next_attempt_at''),
     (''event'', case index_by_id events (fld row ''event_id'') of Some x \<Rightarrow> or_null x | None \<Rightarrow> JNull),
     (''channel'', case index_by_id chans (fld row ''channel_id'') of Some x \<Rightarrow> or_null x | None \<Rightarrow> JNull)]"

definition deliveries :: "dispatcher \<Rightarrow> jsval \<Rightarrow> jsval dprog" where
  "deliveries d limit =
     pbind (rest_read d ''notification_delivery'' (''select=*&order=updated_at.desc&limit='' @ num_str (page_limit limit))) (\<lambda>rows.
     pbind (plift (array_of rows)) (\<lambda>xs.
     pbind (read_each d ''notification_event'' ''select=id,source,severity,title,route,occurred_at&id=eq.'' (uniq (map (\<lambda>x. fld x ''event_id'') xs))) (\<lambda>events.
     pbind (read_each d ''notification_channel'' ''select=id,name,provider&id=eq.'' (uniq (map (\<lambda>x. fld x ''channel_id'') xs))) (\<lambda>chs.
     pret (JArr (map (public_delivery events chs) xs))))))"

definition retryDelivery :: "dispatcher \<Rightarrow> jsval \<Rightarrow> string \<Rightarrow> jsval \<Rightarrow> jsval dprog" where
  "retryDelivery d actor i body =
     pbind (plift (auditReason (fld body ''reason''))) (\<lambda>reason.
     pbind (rest_read d ''notification_delivery'' (''select=id,status,retry_generation&'' @ by_id i)) (\<lambda>rows.
     pbind (required_row (http_error 404 ''notification delivery not found'') rows) (\<lambda>row.
     pbind (pguard (http_error 409 ''only failed deliveries can be retried'') (fld row ''status'' \<in> set [JStr ''failed'', JStr ''dead-letter''])) (\<lambda>_.
     pbind (date_iso d) (\<lambda>t1.
     pbind (date_iso d) (\<lambda>t2.
     pbind (rest_patch d ''notification_delivery'' (by_id i) [(''status'', JStr ''queued''), (''next_attempt_at'', JStr t1), (''locked_at'', JNull),
        (''lock_owner'', JNull), (''retry_generation'', JNum (num_add (to_num (js_or (fld row ''retry_generation'') (JInt 0))) (Fin 1))),
        (''updated_at'', JStr t2)]) (\<lambda>_.
     pbind (logAudit d actor ''notification-delivery-retry'' i ''ok'' reason ''notification-delivery'') (\<lambda>_.
     pret (JObj [(''ok'', JBool True)])))))))))"

section \<open>HTTP\<close>

definition verifyNotificationAdmin :: "admission \<Rightarrow> bool \<Rightarrow> jsval \<Rightarrow> jsval dprog" where
  "verifyNotificationAdmin a requireAal2 req =
     pbind (verifyOwnerRequest a req) (\<lambda>actor. plift (authorizeNotification actor (fld req ''method'') requireAal2))"

definition id_path :: "string \<Rightarrow> string \<Rightarrow> string \<Rightarrow> string option" where
  \<comment> \<open>\<open>/^<prefix>([0-9a-f-]+)<suffix>$/i\<close>\<close>
  "id_path prefix suffix p =
     (let i = take (length p - length prefix - length suffix) (drop (length prefix) p) in
      if to_lower (take (length prefix) p) = prefix \<and> length prefix + length suffix < length p
         \<and> to_lower (drop (length p - length suffix) p) = suffix \<and> list_all (\<lambda>c. hex_char c \<or> c = CHR ''-'') i
      then Some i else None)"

definition reply :: "int \<Rightarrow> jsval dprog \<Rightarrow> (int \<times> jsval) option dprog" where
  "reply status m = pbind m (\<lambda>v. pret (Some (status, v)))"

definition items :: "jsval dprog \<Rightarrow> jsval dprog" where
  "items m = pbind m (\<lambda>v. pret (JObj [(''items'', v)]))"

definition channel_action :: "string \<Rightarrow> (string \<times> string) option" where
  \<comment> \<open>\<open>/^\/api\/notifications\/channels\/([0-9a-f-]+)\/(enable|disable|test)$/i\<close>; the action is the text as sent\<close>
  "channel_action path = (let prefix = ''/api/notifications/channels/'' in
     case id_path prefix ''/enable'' path of Some i \<Rightarrow> Some (i, drop (length path - 6) path) | None \<Rightarrow>
     case id_path prefix ''/disable'' path of Some i \<Rightarrow> Some (i, drop (length path - 7) path) | None \<Rightarrow>
     case id_path prefix ''/test'' path of Some i \<Rightarrow> Some (i, drop (length path - 4) path) | None \<Rightarrow> None)"

definition handleNotificationBrowserApi :: "dispatcher \<Rightarrow> admission \<Rightarrow> jsval \<Rightarrow> bool \<Rightarrow> jsval \<Rightarrow> string \<Rightarrow> jsval \<Rightarrow> (int \<times> jsval) option dprog" where
  "handleNotificationBrowserApi d a callback requireAal2 req path limit =
     (let get = (fld req ''method'' = JStr ''GET''); post = (fld req ''method'' = JStr ''POST''); put = (fld req ''method'' = JStr ''PUT'');
          admin = verifyNotificationAdmin a requireAal2 req; body = call (d_env d) ''readBody'' [req];
          item = id_path ''/api/notifications/channels/'' [] path;
          retry = id_path ''/api/notifications/deliveries/'' ''/retry'' path in
      if path = ''/api/notifications/summary'' \<and> get then pbind admin (\<lambda>_. reply 200 (summary d))
      else if path = ''/api/notifications/channels'' \<and> get then pbind admin (\<lambda>_. reply 200 (items (channels d)))
      else if path = ''/api/notifications/channels'' \<and> post
      then pbind admin (\<lambda>actor. reply 201 (pbind body (createChannel d callback actor)))
      else if item \<noteq> None
      then pbind admin (\<lambda>actor.
             if get then reply 200 (smtpChannelConfiguration d (the item))
             else if put then reply 200 (pbind body (updateSmtpChannel d callback actor (the item)))
             else pret (Some (405, JObj [(''error'', JStr ''method not allowed'')])))
      else if channel_action path \<noteq> None \<and> post
      then pbind admin (\<lambda>actor. pbind body (\<lambda>b. case the (channel_action path) of (i, action) \<Rightarrow>
             reply 200 (if action = ''test'' then testChannel d callback actor i b else setChannelEnabled d actor i (action = ''enable'') b)))
      else if path = ''/api/notifications/rules'' \<and> get then pbind admin (\<lambda>_. reply 200 (items (rules d)))
      else if path = ''/api/notifications/rules'' \<and> post then pbind admin (\<lambda>actor. reply 201 (pbind body (createRule d actor)))
      else if path = ''/api/notifications/deliveries'' \<and> get then pbind admin (\<lambda>_. reply 200 (items (deliveries d limit)))
      else if retry \<noteq> None \<and> post then pbind admin (\<lambda>actor. reply 202 (pbind body (retryDelivery d actor (the retry))))
      else pret None)"

section \<open>Nothing happens before admission\<close>

definition log_from :: "history \<Rightarrow> ('x :: type) fx_scheme \<Rightarrow> bool" where
  "log_from h s \<longleftrightarrow> (\<exists>h'. fx_log s = h @ h')"

lemma grows_call [inv_intros]: "pkeeps (log_from h) (call env name args)"
  by (auto simp: pkeeps_def log_from_def call_def Let_def)

lemma grows_case_sum [inv_intros]:
  "(\<And>x. pkeeps I (f x)) \<Longrightarrow> (\<And>y. pkeeps I (g y)) \<Longrightarrow> pkeeps I (case r of Inl x \<Rightarrow> f x | Inr y \<Rightarrow> g y)"
  by (cases r) simp_all

lemmas rest_defs = rest_read_def rest_post_def rest_patch_def clock_ms_def date_iso_def required_row_def

lemma grows_rest [inv_intros]:
  "pkeeps (log_from h) (rest_read d resource q)" "pkeeps (log_from h) (rest_post d resource b)" "pkeeps (log_from h) (rest_patch d resource q kvs)"
  "pkeeps (log_from h) (clock_ms d)" "pkeeps (log_from h) (date_iso d)" "pkeeps (log_from h) (required_row e rows)"
  unfolding rest_defs by (intro inv_intros)+

lemma grows_secrets [inv_intros]:
  "pkeeps (log_from h) (cipherSecret d v)" "pkeeps (log_from h) (decipherSecret d v)" "pkeeps (log_from h) (secretFor d i)"
  unfolding cipherSecret_def decipherSecret_def secretFor_def Let_def by (intro inv_intros)+

lemma grows_store [inv_intros]:
  "pkeeps (log_from h) (storeSecret d i v)" "pkeeps (log_from h) (updateChannelConfiguration d i v)"
  unfolding storeSecret_def updateChannelConfiguration_def Let_def by (intro inv_intros)+

lemma grows_http [inv_intros]:
  "pkeeps (log_from h) (post_to d u v)"
  "pkeeps (log_from h) (sendSlack d c x e)" "pkeeps (log_from h) (sendDiscord d c x e)" "pkeeps (log_from h) (sendTwilio d b c x e)"
  unfolding post_to_def sendSlack_def sendDiscord_def sendTwilio_def Let_def by (intro inv_intros)+

lemma grows_smtp_io [inv_intros]:
  "pkeeps (log_from h) (smtp_expect d cs)" "pkeeps (log_from h) (smtp_write d w)" "pkeeps (log_from h) (smtp_command d w cs)"
  "pkeeps (log_from h) (start_tls d c)" "pkeeps (log_from h) (smtpConnection d c)"
  unfolding smtp_expect_def smtp_write_def smtp_command_def start_tls_def smtpConnection_def Let_def by (intro inv_intros)+

lemma grows_rcpt [inv_intros]: "pkeeps (log_from h) (rcpt_all d rs)"
  by (induction rs) (auto intro: inv_intros)

lemma grows_send [inv_intros]:
  "pkeeps (log_from h) (smtp_dialogue d c x e)" "pkeeps (log_from h) (smtpSend d c x e)" "pkeeps (log_from h) (send d b ch x e)"
  unfolding smtp_dialogue_def smtpSend_def send_def Let_def by (intro inv_intros)+

lemma grows_audit [inv_intros]: "pkeeps (log_from h) (logAudit d actor ac tg rs rn ty)"
  unfolding logAudit_def by (intro inv_intros)

lemma grows_dispatcher [inv_intros]:
  "pkeeps (log_from h) (testChannelDelivery d b i v)" "pkeeps (log_from h) (dispatcherRequest d b p v)"
  unfolding testChannelDelivery_def dispatcherRequest_def Let_def by (intro inv_intros)+

lemma grows_read_each [inv_intros]: "pkeeps (log_from h) (read_each d resource q is)"
  by (induction "is") (auto intro!: inv_intros)

lemma grows_reads [inv_intros]:
  "pkeeps (log_from h) (channels d)" "pkeeps (log_from h) (summary d)" "pkeeps (log_from h) (rules d)" "pkeeps (log_from h) (deliveries d v)"
  "pkeeps (log_from h) (smtpChannelConfiguration d i)"
  unfolding channels_def summary_def rules_def deliveries_def smtpChannelConfiguration_def Let_def by (intro inv_intros)+

lemma grows_writes [inv_intros]:
  "pkeeps (log_from h) (createChannel d b ac v)" "pkeeps (log_from h) (updateSmtpChannel d b ac i v)" "pkeeps (log_from h) (setChannelEnabled d ac i on v)"
  "pkeeps (log_from h) (testChannel d b ac i v)" "pkeeps (log_from h) (createRule d ac v)" "pkeeps (log_from h) (retryDelivery d ac i v)"
  unfolding createChannel_def updateSmtpChannel_def setChannelEnabled_def testChannel_def createRule_def retryDelivery_def Let_def
  by (intro inv_intros)+

lemma grows_reply [inv_intros]: "pkeeps I m \<Longrightarrow> pkeeps I (reply st m)" "pkeeps I m \<Longrightarrow> pkeeps I (items m)"
  by (auto simp: reply_def items_def intro!: inv_intros)

definition guarded :: "jsval dprog \<Rightarrow> 'b option dprog \<Rightarrow> bool" where
  "guarded adm m \<longleftrightarrow> (\<exists>k. m = pbind adm k \<and> (\<forall>h actor. pkeeps (log_from h) (k actor))) \<or> m = pret None"

lemma guarded_if: "(b \<Longrightarrow> guarded adm m) \<Longrightarrow> (\<not> b \<Longrightarrow> guarded adm n) \<Longrightarrow> guarded adm (if b then m else n)"
  by simp

lemma guarded_pbind: "(\<And>h actor. pkeeps (log_from h) (k actor)) \<Longrightarrow> guarded adm (pbind adm k)"
  by (auto simp: guarded_def)

lemma guarded_none: "guarded adm (pret None)"
  by (simp add: guarded_def)

lemma handle_is_guarded: "guarded (verifyNotificationAdmin a requireAal2 req) (handleNotificationBrowserApi d a callback requireAal2 req path limit)"
  unfolding handleNotificationBrowserApi_def Let_def by (intro guarded_if guarded_pbind guarded_none inv_intros)

lemma after_admission:
  assumes "pbind (verifyNotificationAdmin a requireAal2 req) k s = (r, t)" and "\<And>h actor. pkeeps (log_from h) (k actor)"
    and "fx_log s = []" and "ad_allow a = notificationRequestAllowed" and "calls ''rest'' (fx_log t) \<noteq> []"
  shows "\<exists>h h'. fx_log t = h @ h' \<and> admitted a requireAal2 req h"
proof (cases "verifyNotificationAdmin a requireAal2 req s")
  case (Pair q u)
  have v: "verifyNotificationAdmin a requireAal2 req s = (case verifyOwnerRequest a req s of (Inl e, u) \<Rightarrow> (Inl e, u)
      | (Inr actor, u) \<Rightarrow> (authorizeNotification actor (fld req ''method'') requireAal2, u))"
    by (simp add: verifyNotificationAdmin_def prog_defs split: prod.splits sum.splits)
  show ?thesis
  proof (cases q)
    case (Inl e)
    then have "t = u"
      using assms(1) Pair by (simp add: prog_defs)
    moreover have "wp (verifyNotificationAdmin a requireAal2 req) (\<lambda>_ _. True) (\<lambda>_ t. calls ''rest'' (fx_log t) = []) s"
      unfolding verifyNotificationAdmin_def
      by (rule wp_pbindI [OF verify_wp [OF assms(3)]]) (auto simp: wp_simps fetched_def split: sum.splits)
    ultimately show ?thesis
      using wp_Inl Pair Inl assms(5) by fastforce
  next
    case (Inr x)
    then obtain actor where "verifyOwnerRequest a req s = (Inr actor, u)" "authorizeNotification actor (fld req ''method'') requireAal2 = Inr x"
      using v Pair by (auto split: prod.splits sum.splits)
    then have "admitted a requireAal2 req (fx_log u)"
      by (rule admitted_on_current_authority) (use assms in simp_all)
    moreover have "t = snd (k x u)"
      using assms(1) Pair Inr by (simp add: prog_defs)
    then have "log_from (fx_log u) t"
      using assms(2) [of "fx_log u" x] by (simp add: pkeeps_def log_from_def)
    ultimately show ?thesis
      by (auto simp: log_from_def)
  qed
qed

text \<open>C37: the notification API touches its database only on current authority: if a run of the request handler reads or writes any table, then
  before that the route was found on the closed list, no raw browser credential came along, the admission marker was right, a mutation carried the
  CSRF evidence, and the Console API, asked once with the presented credential, answered with an active, fresh projection of the same
  subject and assurance that holds the permission the method needs (and \<open>aal2\<close> for a mutation, where that is required).\<close>

theorem browser_api_acts_only_on_current_authority:
  assumes "handleNotificationBrowserApi d a callback requireAal2 req path limit s = (r, t)"
    and "fx_log s = []" and "ad_allow a = notificationRequestAllowed" and "calls ''rest'' (fx_log t) \<noteq> []"
  shows "\<exists>h h'. fx_log t = h @ h' \<and> calls ''rest'' h = [] \<and> admitted a requireAal2 req h"
proof -
  consider (act) k where "handleNotificationBrowserApi d a callback requireAal2 req path limit = pbind (verifyNotificationAdmin a requireAal2 req) k"
      "\<And>h actor. pkeeps (log_from h) (k actor)"
    | (none) "handleNotificationBrowserApi d a callback requireAal2 req path limit = pret None"
    using handle_is_guarded [of a requireAal2 req d callback path limit] by (auto simp: guarded_def)
  then show ?thesis
  proof cases
    case act
    obtain h h' where h: "fx_log t = h @ h'" "admitted a requireAal2 req h"
      using after_admission [OF assms(1) [unfolded act(1)] act(2) assms(2-4)] by blast
    then have "calls ''rest'' h = []"
      by (auto simp: admitted_def fetched_def Let_def)
    with h show ?thesis
      by blast
  next
    case none
    then show ?thesis
      using assms by (simp add: prog_defs)
  qed
qed

text \<open>A viewer lists the channels.\<close>

definition demo_projection :: jsval where
  "demo_projection = JObj [(''schemaVersion'', JStr ''1.0''), (''authority'', JStr ''SupabaseAuth''), (''freshness'', JStr ''fresh''),
     (''observedAt'', JStr ''t''), (''data'', JObj [(''state'', JStr ''Active''), (''sessionId'', JStr ''11111111-1111-4111-8111-111111111111''),
       (''subjectId'', JStr ''11111111-1111-4111-8111-111111111111''), (''aal'', JStr ''aal1''), (''permissionRevision'', JStr ''3''),
       (''revokeEpoch'', JStr ''0''), (''permissions'', JArr [JStr ''console.notification.read''])])]"

definition demo_owner_env :: environment where
  "demo_owner_env h c = Inr (if cname c = ''fetch'' then JObj [(''ok'', JBool True)] else if cname c = ''rest'' then JArr [] else demo_projection)"

definition demo_admission :: admission where
  "demo_admission = \<lparr>ad_env = demo_owner_env, ad_origin = [],
     ad_marker = ''notification-dispatcher-v1'', ad_prefix = ''/api/notifications'', ad_allow = notificationRequestAllowed, ad_path = Some,
     ad_decode = (\<lambda>_. Some (JObj [(''sub'', JStr ''11111111-1111-4111-8111-111111111111''), (''session_id'', JStr ''s''), (''aal'', JStr ''aal1'')])),
     ad_dp = (\<lambda>_. Fin 0)\<rparr>"

definition demo_owner_request :: jsval where
  "demo_owner_request = JObj [(''method'', JStr ''GET''), (''url'', JStr ''/api/notifications/channels''), (''headers'', JObj [
     (''x-os-owner-admission'', JStr ''notification-dispatcher-v1''), (''authorization'', JStr ''Bearer a.b.c'')])]"

definition demo_coordinates :: coordinates where
  "demo_coordinates = \<lparr>co_subject = ''11111111-1111-4111-8111-111111111111'', co_session = ''s'', co_aal = ''aal1''\<rparr>"

definition demo_actor :: jsval where
  "demo_actor = owner_actor demo_coordinates (fld demo_projection ''data'')"

lemma demo_checks:
  "check_route demo_admission demo_owner_request = Inr ()"
  "bearerCredential demo_owner_request = Inr ''a.b.c''"
  "credentialCoordinates (ad_decode demo_admission) ''a.b.c'' = Inr demo_coordinates"
  "valid_projection (ad_dp demo_admission) demo_coordinates demo_projection"
  "\<not> isl (authorizeNotification demo_actor (JStr ''GET'') True)"
  by code_simp+

lemma demo_owner_answers: "ad_env demo_admission h (Call ''fetch'' xs) = Inr (JObj [(''ok'', JBool True)])"
  "ad_env demo_admission h (Call ''response.json'' xs) = Inr demo_projection"
  "demo_owner_env h (Call ''rest'' xs) = Inr (JArr [])"
  by (simp_all add: demo_admission_def demo_owner_env_def)

definition demo_run :: "(jsval + (int \<times> jsval) option) \<times> dstate" where
  "demo_run = handleNotificationBrowserApi (demo_dispatcher\<lparr>d_env := demo_owner_env\<rparr>) demo_admission JUndef True demo_owner_request
     ''/api/notifications/channels'' JUndef \<lparr>fx_log = [], polling = False\<rparr>"

lemma demo_method: "fld demo_owner_request ''method'' = JStr ''GET''"
  by (simp add: demo_owner_request_def fld_obj)

lemma demo_reads: "calls ''rest'' (fx_log (snd demo_run)) \<noteq> []"
proof -
  obtain x where "authorizeNotification demo_actor (JStr ''GET'') True = Inr x"
    using demo_checks(5) by (metis sum.collapse(2))
  then show ?thesis
    by (simp add: demo_run_def handleNotificationBrowserApi_def Let_def demo_method verifyNotificationAdmin_def verifyOwnerRequest_def prog_defs
        call_def demo_checks demo_owner_answers fld_obj demo_actor_def [symmetric] reply_def items_def channels_def rest_read_def array_of_def
        map_res.simps)
qed

theorem browser_api_acts_only_on_current_authority_witness:
  "\<exists>h h'. fx_log (snd demo_run) = h @ h' \<and> calls ''rest'' h = [] \<and> admitted demo_admission True demo_owner_request h"
proof -
  have "ad_allow demo_admission = notificationRequestAllowed"
    by (simp add: demo_admission_def)
  then show ?thesis
    using browser_api_acts_only_on_current_authority
      [OF _ _ _ demo_reads, of "demo_dispatcher\<lparr>d_env := demo_owner_env\<rparr>" demo_admission JUndef True demo_owner_request
        "''/api/notifications/channels''" JUndef "\<lparr>fx_log = [], polling = False\<rparr>" "fst demo_run"]
    by (simp add: demo_run_def)
qed

text \<open>The routes are matched without regard to case but the action is compared as sent, so a POST to \<open>.../ENABLE\<close> is admitted and takes the
  branch that disables the channel.\<close>

definition demo_enable_path :: string where
  "demo_enable_path = ''/api/notifications/channels/11111111-1111-4111-8111-111111111111/ENABLE''"

lemma uppercase_enable_disables:
  "notificationRequestAllowed ''POST'' demo_enable_path" "map_option snd (channel_action demo_enable_path) = Some ''ENABLE''" "''ENABLE'' \<noteq> ''enable''"
  by code_simp+

end
