(* ===== verification/DialogueCapability.thy ===== *)
theory DialogueCapability
  imports DialogueState
begin

text \<open>
  The capability join of the assistant's dialogue, \<open>src/apps/osaa-gateway/dialogue-capability.js\<close>: an intent of the PostgreSQL
  service is available only when the owner's contract, the tool manifest, the descriptor and the fixed inventory agree.

  The hash is a parameter.  An intent is a text; a name inherited from \<open>Object.prototype\<close> is not in the inventory (the code then
  answers with another reason, never with an available binding).  The same inheritance matters for a risk text: \<open>TOOL_RISK['constructor']\<close>
  is a function and \<open>TOOL_RISK['__proto__']\<close> an object, both truthy and without a rank; such a result is \<open>Inherited\<close> with its
  value as JSON sees it.
\<close>

section \<open>Inventory and risk\<close>

record inventory =
  in_semanticKey :: string
  in_ownerOperation :: string
  in_toolId :: string
  in_descriptorId :: "string option"
  in_riskClass :: string

definition PFSS_DIALOGUE_CAPABILITY_INVENTORY :: "(string \<times> inventory) list" where
  "PFSS_DIALOGUE_CAPABILITY_INVENTORY = [
     (''status.read'', \<lparr>in_semanticKey = ''pfss.postgresql.status.read'', in_ownerOperation = ''cluster.status'',
        in_toolId = ''osaa.foundation.postgres.status'', in_descriptorId = None, in_riskClass = ''R0''\<rparr>),
     (''create.capability.check'', \<lparr>in_semanticKey = ''pfss.postgresql.create.capability.check'', in_ownerOperation = ''catalog.read'',
        in_toolId = ''osaa.foundation.postgres.capabilities'', in_descriptorId = None, in_riskClass = ''R0''\<rparr>),
     (''create.plan'', \<lparr>in_semanticKey = ''pfss.postgresql.create.plan'', in_ownerOperation = ''cluster.plan'',
        in_toolId = ''osaa.foundation.postgres.plan'', in_descriptorId = Some ''foundation.postgres.cluster.create'', in_riskClass = ''R2''\<rparr>),
     (''create.apply'', \<lparr>in_semanticKey = ''pfss.postgresql.create.apply'', in_ownerOperation = ''cluster.create'',
        in_toolId = ''osaa.foundation.postgres.claim.create'', in_descriptorId = Some ''foundation.postgres.cluster.create'', in_riskClass = ''R2''\<rparr>),
     (''operation.watch'', \<lparr>in_semanticKey = ''pfss.postgresql.operation.watch'', in_ownerOperation = ''operation.watch'',
        in_toolId = ''osaa.foundation.postgres.operation.watch'', in_descriptorId = None, in_riskClass = ''R0''\<rparr>)]"

definition RISK_RANK :: "(string \<times> nat) list" where
  "RISK_RANK = [(''R0'', 0), (''R1'', 1), (''R2'', 2), (''R3'', 3)]"

definition TOOL_RISK :: "(string \<times> string) list" where
  "TOOL_RISK = [(''read'', ''R0''), (''low'', ''R0''), (''medium'', ''R1''), (''high'', ''R2''), (''critical'', ''R3'')]"

datatype risk = Class string | Inherited jsval | Unknown

definition riskClass :: "jsval \<Rightarrow> risk" where
  "riskClass v =
     (let normalized = to_upper (str_or_empty v); low = to_lower (str_or_empty v) in
      if normalized \<in> fst ` set RISK_RANK then Class normalized
      else case map_of TOOL_RISK low of
        Some r \<Rightarrow> Class r
      | None \<Rightarrow> if low = ''constructor'' then Inherited JUndef else if low = ''__proto__'' then Inherited (JObj []) else Unknown)"

fun risk_value :: "risk \<Rightarrow> jsval" where
  "risk_value (Class r) = JStr r"
| "risk_value (Inherited v) = v"
| "risk_value Unknown = JNull"

fun rank :: "risk \<Rightarrow> nat option" where
  \<comment> \<open>\<open>RISK_RANK[item]\<close>\<close>
  "rank (Class r) = map_of RISK_RANK r"
| "rank _ = None"

definition higher :: "risk \<Rightarrow> risk \<Rightarrow> bool" where
  \<comment> \<open>\<open>RISK_RANK[a] > RISK_RANK[b]\<close>; a comparison with \<open>undefined\<close> is false\<close>
  "higher a b \<longleftrightarrow> (case (rank a, rank b) of (Some m, Some n) \<Rightarrow> n < m | _ \<Rightarrow> False)"

definition effective_risk :: "risk list \<Rightarrow> risk" where
  "effective_risk rs = foldl (\<lambda>highest item. if higher item highest then item else highest) (Class ''R0'') rs"

section \<open>The join\<close>

definition ownerContracts :: "jsval \<Rightarrow> string \<Rightarrow> jsval option" where
  \<comment> \<open>\<open>new Map(...).get(operation)\<close>: the last entry for the key\<close>
  "ownerContracts owner operation =
     (let contracts = (case fld owner ''operationContracts'' of JArr xs \<Rightarrow> xs | _ \<Rightarrow> []) in
      find (\<lambda>item. str_or_empty (fld item ''operation'') = operation) (rev contracts))"

definition unavailable :: "string \<Rightarrow> string \<Rightarrow> (string \<times> jsval) list \<Rightarrow> jsval" where
  "unavailable intent reason details = JObj ([
     (''schema'', JStr ''osaa.dialogue-capability-binding/v1''), (''intent'', JStr intent), (''available'', JBool False),
     (''reason'', JStr reason),
     (''riskClass'', case map_of PFSS_DIALOGUE_CAPABILITY_INVENTORY intent of Some i \<Rightarrow> JStr (in_riskClass i) | None \<Rightarrow> JNull)] @ details)"

definition owner_material :: "jsval \<Rightarrow> jsval" where
  "owner_material owner = JObj [(''capability'', fld owner ''capability''), (''operationContracts'', fld owner ''operationContracts''),
     (''revision'', JStr (to_str (fld owner ''revision'')))]"

definition find_tool :: "jsval \<Rightarrow> string \<Rightarrow> jsval + jsval" where
  \<comment> \<open>\<open>undefined\<close> when there is none\<close>
  "find_tool inputs i = rbind (array_of (js_or (fld (fld inputs ''toolManifest'') ''tools'') (JArr []))) (\<lambda>tools.
     Inr (case find (\<lambda>item. fld item ''id'' = JStr i) tools of Some t \<Rightarrow> t | None \<Rightarrow> JUndef))"

definition descriptor_bound :: "jsval \<Rightarrow> string \<Rightarrow> bool" where
  "descriptor_bound descriptor i \<longleftrightarrow> fld descriptor ''descriptorId'' = JStr i \<and> str_or_empty (fld descriptor ''descriptorRevision'') \<noteq> []
     \<and> is_sha256_ref (str_or_empty (fld descriptor ''descriptorDigest''))"

definition binding_material :: "inventory \<Rightarrow> string \<Rightarrow> jsval \<Rightarrow> jsval \<Rightarrow> jsval \<Rightarrow> risk \<Rightarrow> jsval" where
  "binding_material entry intent owner tool descriptor effective = JObj [
     (''semanticKey'', JStr (in_semanticKey entry)), (''intent'', JStr intent),
     (''owner'', JObj [(''revision'', JStr (to_str (fld owner ''revision''))), (''contractDigest'', fld owner ''contractDigest''),
        (''operation'', JStr (in_ownerOperation entry))]),
     (''tool'', JObj [(''id'', fld tool ''id''), (''riskClass'', risk_value (riskClass (fld tool ''riskLevel''))),
        (''readOnly'', JBool (fld tool ''readOnly'' = JBool True))]),
     (''descriptor'', if in_descriptorId entry \<noteq> None
        then JObj [(''id'', fld descriptor ''descriptorId''), (''revision'', JStr (to_str (fld descriptor ''descriptorRevision''))),
           (''digest'', fld descriptor ''descriptorDigest'')]
        else JNull),
     (''riskClass'', risk_value effective)]"

definition observed_risks :: "inventory \<Rightarrow> jsval \<Rightarrow> jsval \<Rightarrow> jsval \<Rightarrow> risk list" where
  "observed_risks entry contract tool descriptor =
     [Class (in_riskClass entry), riskClass (fld contract ''riskClass''), riskClass (fld tool ''riskLevel'')]
     @ (if in_descriptorId entry \<noteq> None then [riskClass (fld descriptor ''riskClass'')] else [])"

definition joinPfssDialogueCapability :: "(string \<Rightarrow> string) \<Rightarrow> string \<Rightarrow> jsval \<Rightarrow> jsval + jsval" where
  "joinPfssDialogueCapability sha intent inputs =
     (case map_of PFSS_DIALOGUE_CAPABILITY_INVENTORY intent of
        None \<Rightarrow> Inr (unavailable intent ''inventory_not_registered'' [])
      | Some entry \<Rightarrow>
          rbind (get_prop inputs ''ownerCapability'') (\<lambda>owner.
          if fld owner ''schema'' \<noteq> JStr ''foundation.control-capabilities/v1'' \<or> fld owner ''capability'' \<noteq> JStr ''data.sql.postgres''
          then Inr (unavailable intent ''owner_contract_unavailable'' [])
          else if \<not> is_sha256_ref (str_or_empty (fld owner ''contractDigest'')) \<or> str_or_empty (fld owner ''revision'') = []
          then Inr (unavailable intent ''owner_contract_not_revision_bound'' [])
          else rbind (dialogue_digest sha (owner_material owner)) (\<lambda>expected.
          if fld owner ''contractDigest'' \<noteq> JStr expected then Inr (unavailable intent ''owner_contract_digest_mismatch'' [])
          else case ownerContracts owner (in_ownerOperation entry) of
            None \<Rightarrow> Inr (unavailable intent ''owner_semantic_orphan'' [])
          | Some contract \<Rightarrow>
              if \<not> truthy contract \<or> fld contract ''semanticKey'' \<noteq> JStr (in_semanticKey entry)
              then Inr (unavailable intent ''owner_semantic_orphan'' [])
              else rbind (find_tool inputs (in_toolId entry)) (\<lambda>tool.
              if \<not> truthy tool then Inr (unavailable intent ''tool_semantic_orphan'' [])
              else if \<not> (case in_descriptorId entry of None \<Rightarrow> True | Some i \<Rightarrow> descriptor_bound (fld inputs ''descriptor'') i)
              then Inr (unavailable intent ''descriptor_semantic_orphan'' [])
              else
                let observed = observed_risks entry contract tool (fld inputs ''descriptor''); effective = effective_risk observed in
                if Unknown \<in> set observed then Inr (unavailable intent ''risk_contract_incomplete'' [])
                else if higher (Class (in_riskClass entry)) effective \<or> list_ex (higher (Class (in_riskClass entry))) observed
                then Inr (unavailable intent ''risk_downgrade_detected'' [(''observedRisks'', JArr (map risk_value observed))])
                else
                  let material = binding_material entry intent owner tool (fld inputs ''descriptor'') effective in
                  rbind (dialogue_digest sha material) (\<lambda>bindingDigest.
                  Inr (JObj [(''schema'', JStr ''osaa.dialogue-capability-binding/v1''), (''intent'', JStr intent), (''available'', JBool True),
                    (''semanticKey'', JStr (in_semanticKey entry)), (''riskClass'', risk_value effective),
                    (''bindingDigest'', JStr bindingDigest), (''capabilityRef'', JStr (in_semanticKey entry @ ''@'' @ bindingDigest)),
                    (''material'', material)]))))))"

section \<open>What an available binding guarantees\<close>

lemma inventory_ranked: "map_of PFSS_DIALOGUE_CAPABILITY_INVENTORY intent = Some entry \<Longrightarrow> \<exists>n. map_of RISK_RANK (in_riskClass entry) = Some n"
  by (auto simp: PFSS_DIALOGUE_CAPABILITY_INVENTORY_def RISK_RANK_def split: if_splits)

lemma effective_risk_step:
  assumes "rank acc = Some m"
  shows "\<exists>n. rank (foldl (\<lambda>highest item. if higher item highest then item else highest) acc rs) = Some n \<and> m \<le> n
    \<and> (\<forall>r k. r \<in> set rs \<and> rank r = Some k \<longrightarrow> k \<le> n)"
  using assms
proof (induction rs arbitrary: acc m)
  case (Cons r rs)
  let ?acc = "if higher r acc then r else acc"
  have "\<exists>k. rank ?acc = Some k \<and> m \<le> k \<and> (\<forall>j. rank r = Some j \<longrightarrow> j \<le> k)"
    using Cons.prems by (cases "rank r") (auto simp: higher_def)
  then obtain k where k: "rank ?acc = Some k" "m \<le> k" "\<And>j. rank r = Some j \<Longrightarrow> j \<le> k"
    by blast
  from Cons.IH [OF k(1)] k(2,3) show ?case
    by (fastforce intro: le_trans)
qed simp

lemma effective_risk_is_maximal:
  obtains c n where "effective_risk rs = Class c" "map_of RISK_RANK c = Some n" "\<And>r k. r \<in> set rs \<Longrightarrow> rank r = Some k \<Longrightarrow> k \<le> n"
proof -
  have "rank (Class ''R0'') = Some 0"
    by (simp add: RISK_RANK_def)
  from effective_risk_step [OF this, of rs] obtain n where n: "rank (effective_risk rs) = Some n"
    "\<And>r k. r \<in> set rs \<Longrightarrow> rank r = Some k \<Longrightarrow> k \<le> n"
    by (auto simp: effective_risk_def)
  then obtain c where "effective_risk rs = Class c"
    by (cases "effective_risk rs") auto
  with n that show thesis
    by simp
qed

text \<open>C40: the join never creates authority and never lowers risk: a binding is available only for an intent of the inventory, when the owner's
  contract hashes to the digest it states and gives the operation the semantic key of the inventory, the manifest has the tool, and the
  descriptor, where one is needed, is the named one. Its risk class is a known class at least as high as that of the inventory
  and of every contract that states a known one, none of which is below the inventory's, and its reference is the digest of exactly that
  material.\<close>

theorem available_capability_is_bound_and_not_downgraded:
  assumes "joinPfssDialogueCapability sha intent inputs = Inr b" and "fld b ''available'' = JBool True"
  shows "\<exists>entry contract tool c n d.
      map_of PFSS_DIALOGUE_CAPABILITY_INVENTORY intent = Some entry \<and> fld b ''semanticKey'' = JStr (in_semanticKey entry)
      \<and> (\<exists>e. dialogue_digest sha (owner_material (fld inputs ''ownerCapability'')) = Inr e \<and> fld (fld inputs ''ownerCapability'') ''contractDigest'' = JStr e)
      \<and> ownerContracts (fld inputs ''ownerCapability'') (in_ownerOperation entry) = Some contract \<and> fld contract ''semanticKey'' = JStr (in_semanticKey entry)
      \<and> find_tool inputs (in_toolId entry) = Inr tool \<and> fld tool ''id'' = JStr (in_toolId entry)
      \<and> (in_descriptorId entry = None \<or> (\<exists>i. in_descriptorId entry = Some i \<and> descriptor_bound (fld inputs ''descriptor'') i))
      \<and> fld b ''riskClass'' = JStr c \<and> map_of RISK_RANK c = Some n
      \<and> (\<forall>r k m. r \<in> set (observed_risks entry contract tool (fld inputs ''descriptor'')) \<and> rank r = Some k
            \<and> map_of RISK_RANK (in_riskClass entry) = Some m \<longrightarrow> m \<le> k \<and> k \<le> n)
      \<and> dialogue_digest sha (binding_material entry intent (fld inputs ''ownerCapability'') tool (fld inputs ''descriptor'') (Class c)) = Inr d
      \<and> fld b ''capabilityRef'' = JStr (in_semanticKey entry @ ''@'' @ d)"
proof -
  have no: "fld (unavailable intent reason ds) ''available'' = JBool False" for reason ds
    by (simp add: unavailable_def fld_obj)
  obtain entry where e: "map_of PFSS_DIALOGUE_CAPABILITY_INVENTORY intent = Some entry"
    using assms no by (cases "map_of PFSS_DIALOGUE_CAPABILITY_INVENTORY intent") (auto simp: joinPfssDialogueCapability_def)
  let ?owner = "fld inputs ''ownerCapability''" and ?desc = "fld inputs ''descriptor''"
  from assms e no obtain expected contract tool d where s:
    "dialogue_digest sha (owner_material ?owner) = Inr expected" "fld ?owner ''contractDigest'' = JStr expected"
    "ownerContracts ?owner (in_ownerOperation entry) = Some contract" "fld contract ''semanticKey'' = JStr (in_semanticKey entry)"
    "find_tool inputs (in_toolId entry) = Inr tool" "truthy tool"
    "case in_descriptorId entry of None \<Rightarrow> True | Some i \<Rightarrow> descriptor_bound ?desc i"
    "\<not> list_ex (higher (Class (in_riskClass entry))) (observed_risks entry contract tool ?desc)"
    "dialogue_digest sha (binding_material entry intent ?owner tool ?desc (effective_risk (observed_risks entry contract tool ?desc))) = Inr d"
    "fld b ''semanticKey'' = JStr (in_semanticKey entry)"
    "fld b ''riskClass'' = risk_value (effective_risk (observed_risks entry contract tool ?desc))"
    "fld b ''capabilityRef'' = JStr (in_semanticKey entry @ ''@'' @ d)"
    by (auto simp: joinPfssDialogueCapability_def rbind_def get_prop_def Let_def fld_obj split: if_splits sum.splits option.splits)
  obtain c n where c: "effective_risk (observed_risks entry contract tool ?desc) = Class c" "map_of RISK_RANK c = Some n"
    "\<And>r k. r \<in> set (observed_risks entry contract tool ?desc) \<Longrightarrow> rank r = Some k \<Longrightarrow> k \<le> n"
    using effective_risk_is_maximal [of "observed_risks entry contract tool ?desc"] by blast
  have "m \<le> k" if "r \<in> set (observed_risks entry contract tool ?desc)" "rank r = Some k" "map_of RISK_RANK (in_riskClass entry) = Some m" for r k m
    using s(8) that by (force simp: list_ex_iff higher_def)
  moreover have "fld tool ''id'' = JStr (in_toolId entry)"
    using s(5,6) by (auto simp: find_tool_def rbind_def find_Some_iff split: sum.splits option.splits)
  moreover have "in_descriptorId entry = None \<or> (\<exists>i. in_descriptorId entry = Some i \<and> descriptor_bound ?desc i)"
    using s(7) by (cases "in_descriptorId entry") auto
  ultimately show ?thesis
    using e s c by (intro exI [of _ entry] exI [of _ contract] exI [of _ tool] exI [of _ c] exI [of _ n] exI [of _ d]) auto
qed

definition demo_digest :: string where
  "demo_digest = ''sha256:'' @ replicate 64 (CHR ''0'')"

definition demo_inputs :: jsval where
  "demo_inputs = JObj [
     (''ownerCapability'', JObj [(''schema'', JStr ''foundation.control-capabilities/v1''), (''capability'', JStr ''data.sql.postgres''),
        (''contractDigest'', JStr demo_digest), (''revision'', JStr ''7''),
        (''operationContracts'', JArr [JObj [(''operation'', JStr ''cluster.create''), (''semanticKey'', JStr ''pfss.postgresql.create.apply''),
           (''riskClass'', JStr ''R2'')]])]),
     (''toolManifest'', JObj [(''tools'', JArr [JObj [(''id'', JStr ''osaa.foundation.postgres.claim.create''), (''riskLevel'', JStr ''critical'')]])]),
     (''descriptor'', JObj [(''descriptorId'', JStr ''foundation.postgres.cluster.create''), (''descriptorRevision'', JStr ''3''),
        (''descriptorDigest'', JStr demo_digest), (''riskClass'', JStr ''high'')])]"

definition demo_join :: "jsval + jsval" where
  "demo_join = joinPfssDialogueCapability (\<lambda>_. replicate 64 (CHR ''0'')) ''create.apply'' demo_inputs"

definition demo_available :: bool where
  "demo_available = (case demo_join of Inr b \<Rightarrow> fld b ''available'' = JBool True | Inl _ \<Rightarrow> False)"

lemma demo_is_available: "demo_available"
  by code_simp

theorem available_capability_is_bound_and_not_downgraded_witness:
  "\<exists>b c n. demo_join = Inr b \<and> fld b ''available'' = JBool True \<and> fld b ''riskClass'' = JStr c \<and> map_of RISK_RANK c = Some n"
proof -
  obtain b where "demo_join = Inr b" "fld b ''available'' = JBool True"
    using demo_is_available by (auto simp: demo_available_def split: sum.splits)
  then show ?thesis
    using available_capability_is_bound_and_not_downgraded [of "\<lambda>_. replicate 64 (CHR ''0'')" "''create.apply''" demo_inputs b]
    unfolding demo_join_def by blast
qed

text \<open>A risk text that is the name of an inherited property passes as known: the tool's risk level here is not a level at all.\<close>

definition demo_inherited :: bool where
  "demo_inherited = (case joinPfssDialogueCapability (\<lambda>_. replicate 64 (CHR ''0'')) ''create.apply''
       (JObj (upsert ''toolManifest'' (JObj [(''tools'', JArr [JObj [(''id'', JStr ''osaa.foundation.postgres.claim.create''),
          (''riskLevel'', JStr ''constructor'')]])]) (obj_entries demo_inputs))) of
     Inr b \<Rightarrow> fld b ''available'' = JBool True | Inl _ \<Rightarrow> False)"

lemma inherited_risk_text_is_accepted: "demo_inherited"
  by code_simp

end
