(* ===== verification/OperationService.thy ===== *)
theory OperationService
  imports Effects
begin

text \<open>
  The operation service of the Console API: states and receipts of operations (\<open>src/packages/domain/src/operation-state.mjs\<close>,
  \<open>src/packages/operation-receipt/src/operation-receipt.mjs\<close>), authorization (\<open>src/packages/authz/src/authorize-operation.mjs\<close>) and the service
  (\<open>src/apps/console-api/src/operation-service.mjs\<close>).

  The store, \<open>moduleInstallationPolicy\<close>, the clock and \<open>randomUUID\<close> are service calls; the hash, \<open>Date.parse\<close> and the regular expressions of the
  policy catalog (None for a pattern that does not compile) are parameters.
\<close>

section \<open>Operation states\<close>

definition operationStates :: "string list" where
  "operationStates = [''Planned'', ''Authorized'', ''Submitted'', ''Reconciling'', ''Applied'', ''Verified'', ''Failed'', ''Unknown'', ''RolledBack'']"

definition transitions :: "(string \<times> string list) list" where
  "transitions = [
     (''Planned'', [''Authorized'', ''Failed'']), (''Authorized'', [''Submitted'', ''Failed'']),
     (''Submitted'', [''Reconciling'', ''Failed'', ''Unknown'']), (''Reconciling'', [''Applied'', ''Failed'', ''Unknown'']),
     (''Applied'', [''Verified'', ''Failed'', ''Unknown'', ''RolledBack'']), (''Verified'', [''RolledBack'']), (''Failed'', [''RolledBack'']),
     (''Unknown'', [''Reconciling'', ''Applied'', ''Verified'', ''Failed'', ''RolledBack'']), (''RolledBack'', [])]"

definition requireOperationTransition :: "jsval \<Rightarrow> jsval \<Rightarrow> jsval + string" where
  "requireOperationTransition current nxt =
     (case (current, nxt) of
        (JStr c, JStr n) \<Rightarrow>
          if c \<notin> set operationStates \<or> n \<notin> set operationStates
          then Inl (js_error ''operation state is outside the closed contract'' [])
          else if n \<notin> set (case map_of transitions c of Some ns \<Rightarrow> ns | None \<Rightarrow> [])
          then Inl (js_error (''operation transition is not allowed: '' @ c @ '' -> '' @ n) [])
          else Inr n
      | _ \<Rightarrow> Inl (js_error ''operation state is outside the closed contract'' []))"

section \<open>Receipts\<close>

fun canonical_text :: "jsval \<Rightarrow> string option" where
  \<comment> \<open>None is \<open>undefined\<close>, which \<open>join\<close> writes as nothing and a template as its name\<close>
  "canonical_text (JArr xs) = Some (''['' @ join '','' (map (\<lambda>x. case canonical_text x of Some t \<Rightarrow> t | None \<Rightarrow> []) xs) @ '']'')"
| "canonical_text (JObj kvs) = Some (''{'' @ join '','' (map (\<lambda>(k, t). json_text (JStr k) @ '':'' @ t)
     (sort_keys (map (\<lambda>kv. (fst kv, case canonical_text (snd kv) of Some t \<Rightarrow> t | None \<Rightarrow> ''undefined'')) kvs))) @ ''}'')"
| "canonical_text v = json v"

definition payloadDigest :: "(string \<Rightarrow> string) \<Rightarrow> jsval \<Rightarrow> jsval + string" where
  "payloadDigest sha payload = (case canonical_text payload of Some t \<Rightarrow> Inr (''sha256:'' @ sha t) | None \<Rightarrow> Inl type_error)"

fun required_texts :: "jsval \<Rightarrow> string list \<Rightarrow> jsval + unit" where
  "required_texts input [] = Inr ()"
| "required_texts input (f # fs) =
     (if trim (str_or_empty (fld input f)) = [] then Inl (js_error (f @ '' is required'') []) else required_texts input fs)"

definition plan_receipt :: "environment \<Rightarrow> (string \<Rightarrow> string) \<Rightarrow> jsval \<Rightarrow> ('x, jsval) fxprog" where
  "plan_receipt env sha input =
     pbind (plift (get_prop input ''actionId'')) (\<lambda>_.
     pbind (plift (required_texts input [''actionId'', ''actionVersion'', ''actorRef'', ''targetRef'', ''planRevision'', ''idempotencyKey'', ''correlationId''])) (\<lambda>_.
     pbind (call env ''clock'' []) (\<lambda>now.
     pbind (plift (to_iso_string (to_num now))) (\<lambda>createdAt.
     pbind (if truthy (fld input ''operationId'') then pret (fld input ''operationId'') else call env ''randomUUID'' []) (\<lambda>operationId.
     pbind (plift (payloadDigest sha (fld input ''payload''))) (\<lambda>d.
     pret (JObj [(''schemaVersion'', JStr ''1.0''), (''operationId'', operationId), (''actionId'', fld input ''actionId''),
       (''actionVersion'', fld input ''actionVersion''), (''actorRef'', fld input ''actorRef''), (''targetRef'', fld input ''targetRef''),
       (''payloadDigest'', JStr d), (''reason'', JStr (str_or_empty (fld input ''reason''))), (''risk'', fld input ''risk''),
       (''aal'', js_or (fld input ''aal'') (JStr ''aal1'')), (''approvalRevision'', JNull), (''planRevision'', fld input ''planRevision''),
       (''idempotencyKey'', fld input ''idempotencyKey''), (''sourceRevision'', or_null (fld input ''sourceRevision'')),
       (''ownerRef'', or_null (fld input ''ownerRef'')), (''state'', JStr ''Planned''),
       (''expectedPostcondition'', or_null (fld input ''expectedPostcondition'')), (''observedPostcondition'', JNull), (''error'', JNull),
       (''createdAt'', JStr createdAt), (''updatedAt'', JStr createdAt), (''correlationId'', fld input ''correlationId'')])))))))"

definition transitionOperation :: "environment \<Rightarrow> jsval \<Rightarrow> jsval \<Rightarrow> jsval \<Rightarrow> ('x, jsval) fxprog" where
  "transitionOperation env receipt nxt patch =
     pbind (plift (get_prop receipt ''state'')) (\<lambda>st.
     pbind (plift (requireOperationTransition st nxt)) (\<lambda>n.
     pbind (call env ''clock'' []) (\<lambda>now.
     pbind (plift (to_iso_string (to_num now))) (\<lambda>updatedAt.
     pret (JObj (spread (spread (obj_entries receipt) (obj_entries patch)) [(''state'', JStr n), (''updatedAt'', JStr updatedAt)]))))))"

section \<open>Authorization\<close>

fun has_sub :: "string \<Rightarrow> string \<Rightarrow> bool" where
  "has_sub p [] = (p = [])"
| "has_sub p (c # s) = (starts_with p (c # s) \<or> has_sub p s)"

definition includes_value :: "jsval \<Rightarrow> jsval \<Rightarrow> jsval + bool" where
  \<comment> \<open>\<open>permissions?.includes(p)\<close> as a condition\<close>
  "includes_value v p = (case v of
       JArr xs \<Rightarrow> Inr (set_has xs p)
     | JStr s \<Rightarrow> Inr (has_sub (to_str p) s)
     | _ \<Rightarrow> if nullish v then Inr False else Inl type_error)"

definition module_exception :: "jsval \<Rightarrow> jsval \<Rightarrow> jsval \<Rightarrow> bool" where
  "module_exception localInstall risk permission \<longleftrightarrow> localInstall = JBool True \<and> risk = JStr ''R2''
     \<and> permission \<in> set [JStr ''console.extension.install'', JStr ''console.operation.approve'']"

record authorization =
  az_actorRef :: jsval
  az_permissionRevision :: jsval
  az_aal :: jsval
  az_authorizedAt :: string

definition authorizeOperation :: "(string \<Rightarrow> jnum) \<Rightarrow> jsval \<Rightarrow> jsval \<Rightarrow> jsval \<Rightarrow> jsval \<Rightarrow> jnum \<Rightarrow> jsval \<Rightarrow> jsval + authorization" where
  "authorizeOperation dp session permission risk reason now localInstall =
     (if \<not> truthy (fld session ''subjectId'') \<or> truthy (fld session ''revokedAt'') \<or> num_le (date_time dp (fld session ''expiresAt'')) now
      then Inl (coded_error ''active session is required'' ''SessionInvalid'')
      else if fld session ''authorityFresh'' \<noteq> JBool True
      then Inl (coded_error ''authorization authority is unavailable'' ''AuthorizationAuthorityUnavailable'')
      else rbind (includes_value (fld session ''permissions'') permission) (\<lambda>has.
      if \<not> has then Inl (coded_error ''permission denied'' ''PermissionDenied'')
      else if risk \<notin> set [JStr ''R0'', JStr ''R1'', JStr ''R2'', JStr ''R3''] then Inl (js_error ''risk is outside the closed contract'' [])
      else if risk \<noteq> JStr ''R0'' \<and> trim (str_or_empty reason) = [] then Inl (coded_error ''reason is required'' ''ReasonRequired'')
      else if risk \<in> set [JStr ''R2'', JStr ''R3''] \<and> fld session ''aal'' \<noteq> JStr ''aal2'' \<and> \<not> module_exception localInstall risk permission
      then Inl (js_error ''recent aal2 is required'' [(''code'', JStr ''StepUpRequired''), (''status'', JInt 428)])
      else rbind (to_iso_string now) (\<lambda>t.
        Inr \<lparr>az_actorRef = fld session ''subjectId'', az_permissionRevision = fld session ''permissionRevision'', az_aal = fld session ''aal'',
             az_authorizedAt = t\<rparr>)))"

section \<open>Requests\<close>

definition service_fail :: "string \<Rightarrow> string \<Rightarrow> int \<Rightarrow> jsval" where
  "service_fail code message status = js_error message [(''code'', JStr code), (''status'', JInt status)]"

definition invalid :: "string \<Rightarrow> jsval" where
  "invalid message = service_fail ''ValidationFailed'' message 400"

definition low_letter :: "char \<Rightarrow> bool" where
  "low_letter c \<longleftrightarrow> 97 \<le> (of_char c :: nat) \<and> (of_char c :: nat) \<le> 122"

definition ACTION_ID :: "string \<Rightarrow> bool" where
  \<comment> \<open>\<open>/^[a-z][a-z0-9.-]{2,127}$/\<close>\<close>
  "ACTION_ID s \<longleftrightarrow> 3 \<le> length s \<and> length s \<le> 128 \<and> low_letter (hd s)
     \<and> list_all (\<lambda>c. low_letter c \<or> digit_char c \<or> c = CHR ''.'' \<or> c = CHR ''-'') (tl s)"

definition ACTION_VERSION :: "string \<Rightarrow> bool" where
  \<comment> \<open>\<open>/^[0-9]+\.[0-9]+$/\<close>\<close>
  "ACTION_VERSION s \<longleftrightarrow> (let major = takeWhile digit_char s; rest = dropWhile digit_char s in
     major \<noteq> [] \<and> rest \<noteq> [] \<and> hd rest = CHR ''.'' \<and> tl rest \<noteq> [] \<and> list_all digit_char (tl rest))"

definition service_text :: "jsval \<Rightarrow> string \<Rightarrow> nat \<Rightarrow> nat \<Rightarrow> jsval + string" where
  "service_text v name minimum maximum =
     (let normalized = trim (if nullish v then [] else to_str v) in
      if length normalized < minimum \<or> maximum < length normalized
      then Inl (invalid (name @ '' must contain '' @ nat_str minimum @ ''..'' @ nat_str maximum @ '' characters'')) else Inr normalized)"

definition exactObject :: "jsval \<Rightarrow> string list \<Rightarrow> string \<Rightarrow> jsval + unit" where
  "exactObject v allowed name =
     (if \<not> is_plain_object v then Inl (invalid (name @ '' must be an object''))
      else let unknown = filter (\<lambda>k. k \<notin> set allowed) (map fst (obj_entries v)) in
        if unknown \<noteq> [] then Inl (invalid (name @ '' contains unknown fields: '' @ join '', '' unknown)) else Inr ())"

fun index_policies :: "jsval \<Rightarrow> jsval list \<Rightarrow> (string \<times> jsval) list \<Rightarrow> jsval + (string \<times> jsval) list" where
  "index_policies revision [] acc = Inr acc"
| "index_policies revision (policy # ps) acc =
     rbind (get_prop policy ''actionId'') (\<lambda>i.
     let key = to_str i @ ''@'' @ to_str (fld policy ''actionVersion'') in
     if key \<in> fst ` set acc then Inl (js_error (''duplicate action policy: '' @ key) [])
     else if \<not> ACTION_ID (to_str i) \<or> \<not> ACTION_VERSION (to_str (fld policy ''actionVersion''))
     then Inl (js_error (''invalid action policy identity: '' @ key) [])
     else index_policies revision ps (acc @ [(key, JObj (upsert ''policyRevision'' revision (obj_entries policy)))]))"

definition indexActionPolicies :: "jsval \<Rightarrow> jsval + (string \<times> jsval) list" where
  "indexActionPolicies catalog =
     (case fld catalog ''actions'' of
        JArr ps \<Rightarrow> if fld catalog ''schemaVersion'' \<noteq> JStr ''1.0'' then Inl (js_error ''invalid Console action policy catalog'' [])
          else index_policies (fld catalog ''policyRevision'') ps []
      | _ \<Rightarrow> Inl (js_error ''invalid Console action policy catalog'' []))"

record operation_request =
  rq_actionId :: string
  rq_actionVersion :: string
  rq_targetRef :: string
  rq_payload :: jsval
  rq_reason :: string
  rq_risk :: jsval
  rq_planRevision :: string
  rq_confirmation :: "string option"

definition optional_text :: "jsval \<Rightarrow> string \<Rightarrow> nat \<Rightarrow> nat \<Rightarrow> jsval + string option" where
  "optional_text v name minimum maximum =
     (if nullish v then Inr None else rbind (service_text v name minimum maximum) (\<lambda>t. Inr (Some t)))"

definition validateOperationRequest :: "jsval \<Rightarrow> jsval + operation_request" where
  "validateOperationRequest request =
     rbind (exactObject request [''schemaVersion'', ''actionId'', ''actionVersion'', ''targetRef'', ''payload'', ''reason'', ''risk'', ''planRevision'',
       ''confirmation''] ''operation request'') (\<lambda>_.
     rbind (guard_else (invalid ''unsupported operation schemaVersion'') (fld request ''schemaVersion'' = JStr ''1.0'')) (\<lambda>_.
     rbind (service_text (fld request ''actionId'') ''actionId'' 3 128) (\<lambda>actionId.
     rbind (service_text (fld request ''actionVersion'') ''actionVersion'' 3 16) (\<lambda>actionVersion.
     rbind (guard_else (invalid ''invalid action identity'') (ACTION_ID actionId \<and> ACTION_VERSION actionVersion)) (\<lambda>_.
     rbind (guard_else (invalid ''payload must be an object'') (is_plain_object (fld request ''payload''))) (\<lambda>_.
     rbind (service_text (fld request ''targetRef'') ''targetRef'' 1 512) (\<lambda>targetRef.
     rbind (service_text (fld request ''reason'') ''reason'' 3 500) (\<lambda>reason.
     rbind (service_text (fld request ''planRevision'') ''planRevision'' 1 128) (\<lambda>planRevision.
     rbind (optional_text (fld request ''confirmation'') ''confirmation'' 1 500) (\<lambda>confirmation.
     Inr \<lparr>rq_actionId = actionId, rq_actionVersion = actionVersion, rq_targetRef = targetRef, rq_payload = fld request ''payload'', rq_reason = reason,
          rq_risk = fld request ''risk'', rq_planRevision = planRevision, rq_confirmation = confirmation\<rparr>))))))))))"

definition safe_natural :: "jnum \<Rightarrow> bool" where
  \<comment> \<open>\<open>Number.isSafeInteger(n) && n >= 0\<close>\<close>
  "safe_natural n \<longleftrightarrow> num_is_integer n \<and> \<not> num_less n (Fin 0) \<and> \<not> num_less (Fin 9007199254740991) n"

definition state_version :: "jsval \<Rightarrow> jsval + jnum" where
  "state_version v = (let n = to_num v in
     if safe_natural n then Inr n else Inl (invalid ''expectedStateVersion must be a non-negative safe integer''))"

record approval_request =
  ar_reason :: string
  ar_approvalRevision :: string
  ar_expectedStateVersion :: jnum
  ar_confirmation :: "string option"

definition validateApprovalRequest :: "jsval \<Rightarrow> jsval + approval_request" where
  "validateApprovalRequest request =
     rbind (exactObject request [''reason'', ''approvalRevision'', ''expectedStateVersion'', ''confirmation''] ''approval request'') (\<lambda>_.
     rbind (state_version (fld request ''expectedStateVersion'')) (\<lambda>version.
     rbind (service_text (fld request ''reason'') ''reason'' 3 500) (\<lambda>reason.
     rbind (service_text (fld request ''approvalRevision'') ''approvalRevision'' 1 128) (\<lambda>revision.
     rbind (optional_text (fld request ''confirmation'') ''confirmation'' 1 500) (\<lambda>confirmation.
     Inr \<lparr>ar_reason = reason, ar_approvalRevision = revision, ar_expectedStateVersion = version, ar_confirmation = confirmation\<rparr>)))))"

definition validateVerificationRequest :: "jsval \<Rightarrow> jsval + jnum" where
  "validateVerificationRequest request =
     rbind (exactObject request [''expectedStateVersion''] ''verification request'') (\<lambda>_. state_version (fld request ''expectedStateVersion''))"

section \<open>The service\<close>

definition null_coalesce :: "jsval \<Rightarrow> jsval" where
  \<comment> \<open>\<open>v ?? null\<close>\<close>
  "null_coalesce v = (if nullish v then JNull else v)"

definition iso_of :: "(string \<Rightarrow> jnum) \<Rightarrow> jsval \<Rightarrow> jsval + string" where
  "iso_of dp v = to_iso_string (date_time dp v)"

definition receipt :: "(string \<Rightarrow> jnum) \<Rightarrow> jsval \<Rightarrow> jsval + jsval" where
  "receipt dp record =
     (if \<not> truthy record then Inr JNull
      else let f = fld record in
        rbind (iso_of dp (f ''created_at'')) (\<lambda>createdAt.
        rbind (iso_of dp (f ''updated_at'')) (\<lambda>updatedAt.
        Inr (JObj [(''schemaVersion'', JStr ''1.0''), (''operationId'', f ''operation_id''), (''actionId'', f ''action_id''),
          (''actionVersion'', f ''action_version''), (''actorRef'', f ''actor_ref''), (''targetRef'', f ''target_ref''),
          (''requiredPermission'', f ''required_permission''), (''payloadDigest'', f ''payload_digest''), (''requestDigest'', f ''request_digest''),
          (''reason'', f ''reason''), (''risk'', f ''risk''), (''aal'', f ''aal''), (''permissionRevision'', JStr (to_str (f ''permission_revision''))),
          (''approvalRequired'', JBool (truthy (f ''approval_required''))), (''approvalRevision'', null_coalesce (f ''approval_revision'')),
          (''planRevision'', f ''plan_revision''), (''idempotencyKey'', f ''idempotency_key''), (''sourceRevision'', null_coalesce (f ''source_revision'')),
          (''ownerRef'', null_coalesce (f ''owner_ref'')), (''executionPlan'', null_coalesce (f ''execution_plan'')), (''state'', f ''state''),
          (''stateVersion'', JNum (to_num (f ''state_version''))), (''expectedPostcondition'', null_coalesce (f ''expected_postcondition'')),
          (''observedPostcondition'', null_coalesce (f ''observed_postcondition'')), (''error'', null_coalesce (f ''error'')),
          (''createdAt'', JStr createdAt), (''updatedAt'', JStr updatedAt), (''correlationId'', f ''correlation_id'')]))))"

record service =
  sv_env :: environment
  sv_sha :: "string \<Rightarrow> string"
  sv_dp :: "string \<Rightarrow> jnum"
  sv_re :: "jsval \<Rightarrow> string \<Rightarrow> bool option"
  sv_policies :: "(string \<times> jsval) list"

definition createOperationService ::
  "environment \<Rightarrow> (string \<Rightarrow> string) \<Rightarrow> (string \<Rightarrow> jnum) \<Rightarrow> (jsval \<Rightarrow> string \<Rightarrow> bool option) \<Rightarrow> (string \<Rightarrow> bool) \<Rightarrow> jsval \<Rightarrow> jsval + service" where
  \<comment> \<open>\<open>has\<close> says which operations the store has\<close>
  "createOperationService env sha dp re has catalog =
     rbind (guard_else (js_error ''operation store accept/approve/verify/get is required'' []) (list_all has [''accept'', ''approve'', ''verify'', ''get''])) (\<lambda>_.
     rbind (indexActionPolicies catalog) (\<lambda>policies.
     Inr \<lparr>sv_env = env, sv_sha = sha, sv_dp = dp, sv_re = re, sv_policies = policies\<rparr>))"

definition clock_now :: "service \<Rightarrow> ('x, jnum) fxprog" where
  "clock_now sv = pbind (call (sv_env sv) ''clock'' []) (\<lambda>t. pret (to_num t))"

definition module_policy :: "service \<Rightarrow> jsval \<Rightarrow> jsval \<Rightarrow> ('x, jsval) fxprog" where
  "module_policy sv action target = call (sv_env sv) ''moduleInstallationPolicy'' [action, target]"

definition matches :: "service \<Rightarrow> jsval \<Rightarrow> string \<Rightarrow> jsval + bool" where
  \<comment> \<open>\<open>new RegExp(pattern).test(s)\<close>\<close>
  "matches sv pattern s = (case sv_re sv pattern s of Some b \<Rightarrow> Inr b | None \<Rightarrow> Inl (js_error ''SyntaxError'' []))"

definition unauthenticated :: "string \<Rightarrow> jsval" where
  "unauthenticated message = service_fail ''AuthenticationRequired'' message 401"

definition session_bound :: "jsval \<Rightarrow> authorization \<Rightarrow> jsval + jnum \<times> jnum" where
  \<comment> \<open>the session id and the two revisions every write of the service is bound to\<close>
  "session_bound session az =
     (let permissionRevision = to_num (az_permissionRevision az); revokeEpoch = to_num (fld session ''revokeEpoch'') in
      if \<not> truthy (fld session ''sessionId'') then Inl (unauthenticated ''opaque session id is required'')
      else if \<not> safe_natural permissionRevision \<or> \<not> safe_natural revokeEpoch
      then Inl (unauthenticated ''session authority revision is invalid'')
      else Inr (permissionRevision, revokeEpoch))"

definition stored_receipt :: "service \<Rightarrow> jsval \<Rightarrow> jsval + jsval" where
  "stored_receipt sv answer =
     rbind (get_prop answer ''operationRecord'') (\<lambda>record.
     rbind (receipt (sv_dp sv) record) (\<lambda>r.
     Inr (JObj [(''receipt'', r), (''replayed'', JBool (truthy (fld answer ''replayed'')))])))"

definition assertExtensionInstallIntake :: "service \<Rightarrow> jsval \<Rightarrow> jsval \<Rightarrow> ('x, unit) fxprog" where
  "assertExtensionInstallIntake sv session descriptorId =
     pbind (plift (get_prop session ''aal'')) (\<lambda>aal.
     pwhen (aal \<noteq> JStr ''aal2'')
       (pbind (module_policy sv (JStr ''console.extension.inspect'') descriptorId) (\<lambda>allowed.
        pguard (service_fail ''StepUpRequired'' ''recent aal2 is required'' 428) (truthy allowed))))"

definition approval_authority :: "authorization \<Rightarrow> string \<Rightarrow> jsval" where
  "approval_authority az reason = JObj [(''actorRef'', az_actorRef az), (''reason'', JStr reason)]"

definition assertApprovalAuthority :: "service \<Rightarrow> jsval \<Rightarrow> jsval \<Rightarrow> ('x, jsval) fxprog" where
  "assertApprovalAuthority sv session reason =
     pbind (plift (service_text reason ''reason'' 3 500)) (\<lambda>approvalReason.
     pbind (clock_now sv) (\<lambda>now.
     pbind (plift (authorizeOperation (sv_dp sv) session (JStr ''console.operation.approve'') (JStr ''R2'') (JStr approvalReason) now (JBool False))) (\<lambda>az.
     pbind (plift (session_bound session az)) (\<lambda>_.
     pret (approval_authority az approvalReason)))))"

definition local_install_candidate :: "jsval \<Rightarrow> bool" where
  "local_install_candidate record \<longleftrightarrow> fld (fld record ''declaration_binding'') ''templateId'' = JStr ''console-cluster-manager-install''
     \<and> fld record ''local_development_module_install'' = JBool True \<and> fld record ''action_id'' = JStr ''console.extension.install''
     \<and> fld record ''owner_ref'' = JStr ''C_EXT''"

definition safe_integer_number :: "jsval \<Rightarrow> bool" where
  \<comment> \<open>\<open>Number.isSafeInteger(Number(v))\<close>\<close>
  "safe_integer_number v \<longleftrightarrow> (let n = to_num v in num_is_integer n \<and> \<not> num_less n (Fin (- 9007199254740991)) \<and> \<not> num_less (Fin 9007199254740991) n)"

definition store_get :: "service \<Rightarrow> jsval \<Rightarrow> jsval \<Rightarrow> ('x, jsval) fxprog" where
  "store_get sv session operationId = pbind (plift (get_prop session ''sessionId'')) (\<lambda>sid.
     call (sv_env sv) ''store.get'' [JObj [(''sessionId'', sid), (''actorRef'', fld session ''subjectId''), (''operationId'', operationId)]])"

definition assertGiteaModuleApprovalAuthority :: "service \<Rightarrow> jsval \<Rightarrow> jsval \<Rightarrow> jsval \<Rightarrow> ('x, jsval) fxprog" where
  "assertGiteaModuleApprovalAuthority sv session reason operationId =
     pbind (store_get sv session operationId) (\<lambda>record.
     pbind (if local_install_candidate record then module_policy sv (fld record ''action_id'') (fld record ''target_ref'') else pret (JBool False)) (\<lambda>localInstall.
     pbind (plift (service_text reason ''reason'' 8 500)) (\<lambda>approvalReason.
     pbind (clock_now sv) (\<lambda>now.
     pbind (plift (authorizeOperation (sv_dp sv) session (JStr ''console.operation.approve'') (JStr ''R2'') (JStr approvalReason) now localInstall)) (\<lambda>az.
     pbind (pguard (unauthenticated ''current session authority is required'') (truthy (fld session ''sessionId'')
        \<and> safe_integer_number (fld session ''permissionRevision'') \<and> safe_integer_number (fld session ''revokeEpoch''))) (\<lambda>_.
     pret (approval_authority az approvalReason)))))))"

definition policy_conform :: "service \<Rightarrow> operation_request \<Rightarrow> jsval + jsval" where
  \<comment> \<open>the registered policy of a request that keeps to it\<close>
  "policy_conform sv rq =
     (case map_of (sv_policies sv) (rq_actionId rq @ ''@'' @ rq_actionVersion rq) of
        None \<Rightarrow> Inl (service_fail ''PolicyRejected'' ''operation action is not registered'' 422)
      | Some policy \<Rightarrow>
          if \<not> strict_eq (rq_risk rq) (fld policy ''risk'')
          then Inl (service_fail ''PolicyRejected'' ''request risk differs from the registered action policy'' 422)
          else if fld policy ''policyRevision'' \<noteq> JStr (rq_planRevision rq)
          then Inl (service_fail ''StaleRevision'' ''operation policy revision is stale'' 409)
          else rbind (matches sv (fld policy ''targetPattern'') (rq_targetRef rq)) (\<lambda>inside.
            if inside then Inr policy
            else Inl (service_fail ''PolicyRejected'' ''target is outside the registered action boundary'' 422)))"

definition approval_needed :: "service \<Rightarrow> operation_request \<Rightarrow> jsval \<Rightarrow> jsval \<Rightarrow> jsval + bool" where
  "approval_needed sv rq policy binding =
     (if \<not> truthy (fld policy ''approvalRequired'') then Inr False
      else if binding = JNull \<and> rq_actionId rq = ''console.extension.install'' \<and> truthy (fld policy ''requesterConfirmedTargetPattern'')
      then rbind (matches sv (fld policy ''requesterConfirmedTargetPattern'') (rq_targetRef rq)) (\<lambda>m. Inr (\<not> m))
      else Inr True)"

definition accept_record ::
  "operation_request \<Rightarrow> jsval \<Rightarrow> jsval \<Rightarrow> jsval \<Rightarrow> jsval \<Rightarrow> authorization \<Rightarrow> jnum \<times> jnum \<Rightarrow> string \<Rightarrow> bool \<Rightarrow> string \<Rightarrow> string \<Rightarrow> jsval \<Rightarrow> jsval" where
  "accept_record rq policy session binding plan az revisions d approval key correlation localInstall = JObj [
     (''localDevelopmentModuleInstall'', localInstall), (''sessionId'', fld session ''sessionId''), (''actorRef'', az_actorRef az),
     (''expectedPermissionRevision'', JNum (fst revisions)), (''expectedRevokeEpoch'', JNum (snd revisions)),
     (''requiredPermission'', fld policy ''permission''), (''actionId'', JStr (rq_actionId rq)), (''actionVersion'', JStr (rq_actionVersion rq)),
     (''targetRef'', JStr (rq_targetRef rq)), (''payloadDigest'', JStr d), (''risk'', fld policy ''risk''), (''reason'', JStr (rq_reason rq)),
     (''planRevision'', fld policy ''policyRevision''), (''approvalRequired'', JBool approval), (''idempotencyKey'', JStr key),
     (''correlationId'', JStr correlation), (''sourceRevision'', JNull), (''ownerRef'', fld policy ''ownerRef''),
     (''expectedPostcondition'', if truthy binding then JObj [(''declaration'', binding)] else JNull), (''executionPlan'', plan),
     (''declarationBinding'', binding)]"

definition accept_operation :: "service \<Rightarrow> jsval \<Rightarrow> jsval \<Rightarrow> jsval \<Rightarrow> jsval \<Rightarrow> jsval \<Rightarrow> jsval \<Rightarrow> ('x, jsval) fxprog" where
  \<comment> \<open>\<open>plan\<close> and \<open>binding\<close> are \<open>null\<close> where the caller leaves them out\<close>
  "accept_operation sv session request idempotencyKey correlationId plan binding =
     pbind (plift (validateOperationRequest request)) (\<lambda>rq.
     pbind (plift (policy_conform sv rq)) (\<lambda>policy.
     pbind (module_policy sv (JStr (rq_actionId rq)) (JStr (rq_targetRef rq))) (\<lambda>localInstall.
     pbind (clock_now sv) (\<lambda>now.
     pbind (plift (authorizeOperation (sv_dp sv) session (fld policy ''permission'') (fld policy ''risk'') (JStr (rq_reason rq)) now localInstall)) (\<lambda>az.
     pbind (plift (service_text idempotencyKey ''Idempotency-Key'' 8 256)) (\<lambda>key.
     pbind (plift (service_text correlationId ''correlationId'' 8 128)) (\<lambda>correlation.
     pbind (pguard (invalid ''execution plan must be an object'') (plan = JNull \<or> is_plain_object plan)) (\<lambda>_.
     pbind (plift (session_bound session az)) (\<lambda>revisions.
     pbind (plift (payloadDigest (sv_sha sv) (rq_payload rq))) (\<lambda>d.
     pbind (plift (approval_needed sv rq policy binding)) (\<lambda>approval.
     pbind (call (sv_env sv) ''store.accept'' [accept_record rq policy session binding plan az revisions d approval key correlation localInstall]) (\<lambda>accepted.
     plift (stored_receipt sv accepted)))))))))))))"

definition local_install_of :: "service \<Rightarrow> jsval \<Rightarrow> jsval \<Rightarrow> ('x, jsval) fxprog" where
  "local_install_of sv session operationId =
     (if fld session ''aal'' = JStr ''aal2'' then pret (JBool False)
      else pbind (store_get sv session operationId) (\<lambda>existing.
        if fld existing ''local_development_module_install'' = JBool True
        then module_policy sv (fld existing ''action_id'') (fld existing ''target_ref'') else pret (JBool False)))"

definition text_opt :: "string option \<Rightarrow> jsval" where
  "text_opt t = (case t of Some s \<Rightarrow> JStr s | None \<Rightarrow> JNull)"

definition approve_operation :: "service \<Rightarrow> jsval \<Rightarrow> jsval \<Rightarrow> jsval \<Rightarrow> jsval \<Rightarrow> jsval \<Rightarrow> ('x, jsval) fxprog" where
  "approve_operation sv session operationId request idempotencyKey correlationId =
     pbind (plift (validateApprovalRequest request)) (\<lambda>ar.
     pbind (local_install_of sv session operationId) (\<lambda>localInstall.
     pbind (clock_now sv) (\<lambda>now.
     pbind (plift (authorizeOperation (sv_dp sv) session (JStr ''console.operation.approve'') (JStr ''R2'') (JStr (ar_reason ar)) now localInstall)) (\<lambda>az.
     pbind (plift (session_bound session az)) (\<lambda>revisions.
     pbind (plift (service_text operationId ''operationId'' 1 128)) (\<lambda>i.
     pbind (plift (service_text idempotencyKey ''Idempotency-Key'' 8 256)) (\<lambda>key.
     pbind (plift (service_text correlationId ''correlationId'' 8 128)) (\<lambda>correlation.
     pbind (call (sv_env sv) ''store.approve'' [JObj [
        (''localDevelopmentModuleInstall'', localInstall), (''sessionId'', fld session ''sessionId''), (''actorRef'', az_actorRef az),
        (''expectedPermissionRevision'', JNum (fst revisions)), (''expectedRevokeEpoch'', JNum (snd revisions)), (''operationId'', JStr i),
        (''expectedStateVersion'', JNum (ar_expectedStateVersion ar)), (''reason'', JStr (ar_reason ar)),
        (''approvalRevision'', JStr (ar_approvalRevision ar)), (''confirmation'', text_opt (ar_confirmation ar)), (''idempotencyKey'', JStr key),
        (''correlationId'', JStr correlation)]]) (\<lambda>approved.
     plift (stored_receipt sv approved))))))))))"

definition verify_operation :: "service \<Rightarrow> jsval \<Rightarrow> jsval \<Rightarrow> jsval \<Rightarrow> jsval \<Rightarrow> jsval \<Rightarrow> ('x, jsval) fxprog" where
  "verify_operation sv session operationId request idempotencyKey correlationId =
     pbind (plift (validateVerificationRequest request)) (\<lambda>version.
     pbind (clock_now sv) (\<lambda>now.
     pbind (plift (authorizeOperation (sv_dp sv) session (JStr ''console.operation.verify'') (JStr ''R0'') (JStr []) now (JBool False))) (\<lambda>az.
     pbind (plift (session_bound session az)) (\<lambda>revisions.
     pbind (plift (service_text operationId ''operationId'' 1 128)) (\<lambda>i.
     pbind (plift (service_text idempotencyKey ''Idempotency-Key'' 8 256)) (\<lambda>key.
     pbind (plift (service_text correlationId ''correlationId'' 8 128)) (\<lambda>correlation.
     pbind (call (sv_env sv) ''store.verify'' [JObj [
        (''sessionId'', fld session ''sessionId''), (''actorRef'', az_actorRef az),
        (''expectedPermissionRevision'', JNum (fst revisions)), (''expectedRevokeEpoch'', JNum (snd revisions)), (''operationId'', JStr i),
        (''expectedStateVersion'', JNum version), (''idempotencyKey'', JStr key), (''correlationId'', JStr correlation)]]) (\<lambda>verified.
     plift (stored_receipt sv verified)))))))))"

definition get_receipt :: "service \<Rightarrow> jsval \<Rightarrow> jsval \<Rightarrow> ('x, jsval) fxprog" where
  "get_receipt sv session operationId =
     pbind (pguard (unauthenticated ''active session is required'') (truthy (fld session ''sessionId'') \<and> truthy (fld session ''subjectId''))) (\<lambda>_.
     pbind (plift (service_text operationId ''operationId'' 1 128)) (\<lambda>i.
     pbind (store_get sv session (JStr i)) (\<lambda>record.
     pbind (pguard (service_fail ''NotFound'' ''operation was not found'' 404) (truthy record)) (\<lambda>_.
     plift (receipt (sv_dp sv) record)))))"

definition install_key :: "jsval \<Rightarrow> bool" where
  \<comment> \<open>\<open>/^r2d2-install-[a-f0-9]{64}$/\<close>\<close>
  "install_key v \<longleftrightarrow> (let s = str_or_empty v in starts_with ''r2d2-install-'' s \<and> is_hex64 (drop 13 s))"

definition getInstallationRequest :: "service \<Rightarrow> jsval \<Rightarrow> jsval \<Rightarrow> ('x, jsval) fxprog" where
  "getInstallationRequest sv session requestKey =
     (let denied = service_fail ''PermissionDenied'' ''current module installation authority is required'' 403 in
      pbind (pguard denied (truthy (fld session ''sessionId'') \<and> truthy (fld session ''subjectId'') \<and> truthy (fld session ''authorityFresh'')
         \<and> \<not> truthy (fld session ''revokedAt''))) (\<lambda>_.
      pbind (plift (includes_value (fld session ''permissions'') (JStr ''console.extension.install''))) (\<lambda>has.
      pbind (pguard denied has) (\<lambda>_.
      pbind (pguard (invalid ''installation request key is invalid'') (install_key requestKey)) (\<lambda>_.
      pbind (call (sv_env sv) ''store.getByRequest'' [JObj [(''sessionId'', fld session ''sessionId''), (''actorRef'', fld session ''subjectId''),
         (''idempotencyKey'', requestKey)]]) (\<lambda>record.
      pbind (plift (receipt (sv_dp sv) record)) (\<lambda>r.
      pret (JObj [(''schemaVersion'', JStr ''1.0''), (''receipt'', r)]))))))))"

section \<open>What an accepted operation rests on\<close>

definition accept_basis :: "service \<Rightarrow> jsval \<Rightarrow> jsval \<Rightarrow> jsval \<Rightarrow> jsval \<Rightarrow> jsval \<Rightarrow> jsval \<Rightarrow> operation_request \<Rightarrow> jsval \<Rightarrow> jsval \<Rightarrow> history \<Rightarrow> bool" where
  "accept_basis sv session request ik ci plan binding rq policy localInstall h \<longleftrightarrow>
     validateOperationRequest request = Inr rq \<and> policy_conform sv rq = Inr policy
     \<and> calls ''moduleInstallationPolicy'' h = [([JStr (rq_actionId rq), JStr (rq_targetRef rq)], Inr localInstall)]
     \<and> (\<exists>now az. calls ''clock'' h = [([], Inr now)]
          \<and> authorizeOperation (sv_dp sv) session (fld policy ''permission'') (fld policy ''risk'') (JStr (rq_reason rq)) (to_num now) localInstall = Inr az
          \<and> (\<exists>revisions d approval key correlation ans. session_bound session az = Inr revisions \<and> payloadDigest (sv_sha sv) (rq_payload rq) = Inr d
               \<and> approval_needed sv rq policy binding = Inr approval \<and> service_text ik ''Idempotency-Key'' 8 256 = Inr key
               \<and> service_text ci ''correlationId'' 8 128 = Inr correlation
               \<and> calls ''store.accept'' h = [([accept_record rq policy session binding plan az revisions d approval key correlation localInstall], ans)]))"

lemma accept_wp:
  assumes "fx_log s = []"
  shows "wp (accept_operation sv session request ik ci plan binding)
    (\<lambda>_ t. \<exists>rq policy localInstall. accept_basis sv session request ik ci plan binding rq policy localInstall (fx_log t))
    (\<lambda>_ t. calls ''store.accept'' (fx_log t) = [] \<or> (\<exists>rq policy localInstall. accept_basis sv session request ik ci plan binding rq policy localInstall (fx_log t))) s"
  using assms unfolding accept_operation_def accept_basis_def module_policy_def clock_now_def
  by (simp add: wp_simps Let_def split: sum.splits)

lemma authorizeOperation_Inr:
  assumes "authorizeOperation dp session permission risk reason now localInstall = Inr az"
  shows "truthy (fld session ''subjectId'') \<and> \<not> truthy (fld session ''revokedAt'') \<and> \<not> num_le (date_time dp (fld session ''expiresAt'')) now
    \<and> fld session ''authorityFresh'' = JBool True \<and> includes_value (fld session ''permissions'') permission = Inr True
    \<and> (risk \<in> set [JStr ''R2'', JStr ''R3''] \<longrightarrow> fld session ''aal'' = JStr ''aal2'' \<or> module_exception localInstall risk permission)
    \<and> az_actorRef az = fld session ''subjectId''"
  using assms by (auto simp: authorizeOperation_def rbind_def split: if_splits sum.splits)

lemma policy_conform_Inr:
  assumes "policy_conform sv rq = Inr policy"
  shows "map_of (sv_policies sv) (rq_actionId rq @ ''@'' @ rq_actionVersion rq) = Some policy \<and> strict_eq (rq_risk rq) (fld policy ''risk'')
    \<and> fld policy ''policyRevision'' = JStr (rq_planRevision rq) \<and> sv_re sv (fld policy ''targetPattern'') (rq_targetRef rq) = Some True"
  using assms by (auto simp: policy_conform_def matches_def rbind_def split: if_splits sum.splits option.splits)

text \<open>C11: an operation reaches the store only on a registered policy and current authority, and at most once per request, whatever the services
  answer: the request is valid and names a registered action, states that action's risk, the current policy revision and a target inside
  the action's boundary; the session is neither revoked nor expired, its authority is fresh, it holds the permission of the policy and, for R2 and
  R3, the second factor (or, for R2, the local module exception that the installation policy granted in this very run); and the
  record handed over names the session's subject, the policy's permission and risk, and the digest of the payload.\<close>

theorem operations_are_accepted_only_on_policy_and_authority:
  assumes "accept_operation sv session request ik ci plan binding s = (r, t)" and "fx_log s = []" and "calls ''store.accept'' (fx_log t) \<noteq> []"
  shows "\<exists>rq policy localInstall record ans d.
      validateOperationRequest request = Inr rq \<and> map_of (sv_policies sv) (rq_actionId rq @ ''@'' @ rq_actionVersion rq) = Some policy
      \<and> strict_eq (rq_risk rq) (fld policy ''risk'') \<and> fld policy ''policyRevision'' = JStr (rq_planRevision rq)
      \<and> sv_re sv (fld policy ''targetPattern'') (rq_targetRef rq) = Some True
      \<and> truthy (fld session ''subjectId'') \<and> \<not> truthy (fld session ''revokedAt'') \<and> truthy (fld session ''sessionId'')
      \<and> (\<exists>now. calls ''clock'' (fx_log t) = [([], Inr now)] \<and> \<not> num_le (date_time (sv_dp sv) (fld session ''expiresAt'')) (to_num now))
      \<and> fld session ''authorityFresh'' = JBool True \<and> includes_value (fld session ''permissions'') (fld policy ''permission'') = Inr True
      \<and> calls ''moduleInstallationPolicy'' (fx_log t) = [([JStr (rq_actionId rq), JStr (rq_targetRef rq)], Inr localInstall)]
      \<and> (fld policy ''risk'' \<in> set [JStr ''R2'', JStr ''R3''] \<longrightarrow>
           fld session ''aal'' = JStr ''aal2'' \<or> module_exception localInstall (fld policy ''risk'') (fld policy ''permission''))
      \<and> calls ''store.accept'' (fx_log t) = [([record], ans)] \<and> fld record ''actorRef'' = fld session ''subjectId''
      \<and> fld record ''requiredPermission'' = fld policy ''permission'' \<and> fld record ''risk'' = fld policy ''risk''
      \<and> payloadDigest (sv_sha sv) (rq_payload rq) = Inr d \<and> fld record ''payloadDigest'' = JStr d"
proof -
  have "\<exists>rq policy localInstall. accept_basis sv session request ik ci plan binding rq policy localInstall (fx_log t)"
    using accept_wp [OF assms(2), of sv session request ik ci plan binding] assms(1,3) by (cases r) (simp_all add: wp_def)
  then obtain rq policy localInstall now az revisions d approval key correlation ans where b:
    "validateOperationRequest request = Inr rq" "policy_conform sv rq = Inr policy"
    "calls ''moduleInstallationPolicy'' (fx_log t) = [([JStr (rq_actionId rq), JStr (rq_targetRef rq)], Inr localInstall)]"
    "calls ''clock'' (fx_log t) = [([], Inr now)]"
    "authorizeOperation (sv_dp sv) session (fld policy ''permission'') (fld policy ''risk'') (JStr (rq_reason rq)) (to_num now) localInstall = Inr az"
    "session_bound session az = Inr revisions" "payloadDigest (sv_sha sv) (rq_payload rq) = Inr d"
    "calls ''store.accept'' (fx_log t) = [([accept_record rq policy session binding plan az revisions d approval key correlation localInstall], ans)]"
    unfolding accept_basis_def by blast
  let ?rec = "accept_record rq policy session binding plan az revisions d approval key correlation localInstall"
  have "truthy (fld session ''sessionId'')"
    using b(6) by (simp add: session_bound_def Let_def split: if_splits)
  moreover have "fld ?rec ''actorRef'' = az_actorRef az" "fld ?rec ''requiredPermission'' = fld policy ''permission''" "fld ?rec ''risk'' = fld policy ''risk''"
    "fld ?rec ''payloadDigest'' = JStr d"
    by (simp_all add: accept_record_def fld_obj)
  ultimately show ?thesis
    using b authorizeOperation_Inr [OF b(5)] policy_conform_Inr [OF b(2)]
    by (intro exI [of _ rq] exI [of _ policy] exI [of _ localInstall] exI [of _ ?rec] exI [of _ ans] exI [of _ d]) simp
qed

text \<open>An operator restarts the search index.\<close>

definition demo_session :: jsval where
  "demo_session = JObj [(''subjectId'', JStr ''u1''), (''sessionId'', JStr ''s1''), (''expiresAt'', JInt 5), (''authorityFresh'', JBool True),
     (''permissions'', JArr [JStr ''console.index.restart'']), (''aal'', JStr ''aal2''), (''permissionRevision'', JInt 3), (''revokeEpoch'', JInt 0)]"

definition demo_request :: jsval where
  "demo_request = JObj [(''schemaVersion'', JStr ''1.0''), (''actionId'', JStr ''console.index.restart''), (''actionVersion'', JStr ''1.0''),
     (''targetRef'', JStr ''index''), (''payload'', JObj []), (''reason'', JStr ''stale''), (''risk'', JStr ''R2''), (''planRevision'', JStr ''p1'')]"

definition demo_policies :: "(string \<times> jsval) list" where
  "demo_policies = (case indexActionPolicies (JObj [(''schemaVersion'', JStr ''1.0''), (''policyRevision'', JStr ''p1''), (''actions'', JArr [JObj [
     (''actionId'', JStr ''console.index.restart''), (''actionVersion'', JStr ''1.0''), (''risk'', JStr ''R2''), (''targetPattern'', JStr ''index''),
     (''permission'', JStr ''console.index.restart''), (''approvalRequired'', JBool True)]])]) of Inr ps \<Rightarrow> ps | Inl _ \<Rightarrow> [])"

definition demo_service :: service where
  "demo_service = \<lparr>sv_env = (\<lambda>h c. Inr (if cname c = ''clock'' then JInt 1 else JBool False)), sv_sha = (\<lambda>s. s), sv_dp = (\<lambda>_. NaN),
     sv_re = (\<lambda>p s. Some (p = JStr s)), sv_policies = demo_policies\<rparr>"

definition demo_accept :: "(jsval + jsval) \<times> fx" where
  "demo_accept = accept_operation demo_service demo_session demo_request (JStr ''key-0001'') (JStr ''corr-001'') JNull JNull \<lparr>fx_log = []\<rparr>"

definition demo_stored :: bool where
  "demo_stored \<longleftrightarrow> calls ''store.accept'' (fx_log (snd demo_accept)) \<noteq> []"

lemma demo_is_stored: "demo_stored"
  by code_simp

theorem operations_are_accepted_only_on_policy_and_authority_witness:
  "\<exists>record ans. calls ''store.accept'' (fx_log (snd demo_accept)) = [([record], ans)] \<and> fld record ''actorRef'' = JStr ''u1''
     \<and> fld demo_session ''authorityFresh'' = JBool True"
proof -
  have "accept_operation demo_service demo_session demo_request (JStr ''key-0001'') (JStr ''corr-001'') JNull JNull \<lparr>fx_log = []\<rparr>
      = (fst demo_accept, snd demo_accept)"
    by (simp add: demo_accept_def)
  moreover have "fx_log \<lparr>fx_log = []\<rparr> = ([] :: history)" "calls ''store.accept'' (fx_log (snd demo_accept)) \<noteq> []"
    using demo_is_stored by (simp_all add: demo_stored_def)
  moreover have "fld demo_session ''subjectId'' = JStr ''u1''"
    by (simp add: demo_session_def fld_obj)
  ultimately show ?thesis
    using operations_are_accepted_only_on_policy_and_authority by metis
qed

end
