(* ===== verification/CanonicalText.thy ===== *)
theory CanonicalText
  imports OperationService
begin

text \<open>
  The canonical text of a value determines it.  \<open>canonicalJson\<close> of the release contract and of the operation receipts sorts the properties of
  an object; over nulls, booleans, strings, arrays and objects with distinct properties, two values have the same text exactly when they are the
  same up to the order of properties.  The comparison of components by text is therefore a comparison of components.

  The proof reads the text from the left: the text of a value cannot be continued to the text of another one.
\<close>

fun plain_json :: "jsval \<Rightarrow> bool" where
  \<comment> \<open>no \<open>undefined\<close>, no number, and distinct properties\<close>
  "plain_json (JArr xs) \<longleftrightarrow> list_all plain_json xs"
| "plain_json (JObj kvs) \<longleftrightarrow> list_all (\<lambda>kv. plain_json (snd kv)) kvs \<and> distinct (map fst kvs)"
| "plain_json JUndef \<longleftrightarrow> False"
| "plain_json (JNum n) \<longleftrightarrow> False"
| "plain_json v \<longleftrightarrow> True"

fun sorted_value :: "jsval \<Rightarrow> jsval" where
  \<comment> \<open>the same value with the properties of every object in order\<close>
  "sorted_value (JArr xs) = JArr (map sorted_value xs)"
| "sorted_value (JObj kvs) = JObj (sort_keys (map (\<lambda>kv. (fst kv, sorted_value (snd kv))) kvs))"
| "sorted_value v = v"

section \<open>Strings\<close>

lemma hex_digit_inj: "m < 16 \<Longrightarrow> n < 16 \<Longrightarrow> hex_digit m = hex_digit n \<Longrightarrow> m = n"
proof -
  assume b: "m < 16" "n < 16" and e: "hex_digit m = hex_digit n"
  have "of_char (hex_digit m) = (of_char (hex_digit n) :: nat)"
    using e by simp
  then show "m = n"
    using b by (auto simp: hex_digit_def of_char_of split: if_splits)
qed

lemma hex_pair_inj:
  fixes m n :: nat
  assumes "m < 32" "n < 32" "hex_digit (m div 16) = hex_digit (n div 16)" "hex_digit (m mod 16) = hex_digit (n mod 16)"
  shows "m = n"
proof -
  have "m div 16 = n div 16" "m mod 16 = n mod 16"
    using assms hex_digit_inj [of "m div 16" "n div 16"] hex_digit_inj [of "m mod 16" "n mod 16"] by auto
  then show ?thesis
    by (metis div_mult_mod_eq)
qed

lemma json_char_start: "\<exists>x xs. json_char c = x # xs \<and> x \<noteq> CHR 0x22"
  by (auto simp: json_char_def Let_def)

lemma json_char_cases:
  obtains (plain) "json_char c = [c]" "c \<noteq> CHR 0x5C"
  | (short) e where "json_char c = [CHR 0x5C, e]"
      "(c, e) \<in> set [(CHR 0x22, CHR 0x22), (CHR 0x5C, CHR 0x5C), (CHR 0x08, CHR ''b''), (CHR 0x09, CHR ''t''), (CHR 0x0A, CHR ''n''), (CHR 0x0C, CHR ''f''), (CHR 0x0D, CHR ''r'')]"
  | (control) n where "c = char_of n" "n < 32" "json_char c = CHR 0x5C # ''u00'' @ [hex_digit (n div 16), hex_digit (n mod 16)]"
proof -
  have code: "c = x" if "of_char c = (of_char x :: nat)" for x
    using that by simp
  show ?thesis
  proof (cases "of_char c \<in> {34, 92, 8, 9, 10, 12, 13 :: nat}")
    case True
    then have "c \<in> {CHR 0x22, CHR 0x5C, CHR 0x08, CHR 0x09, CHR 0x0A, CHR 0x0C, CHR 0x0D}"
      using code [of "CHR 0x22"] code [of "CHR 0x5C"] code [of "CHR 0x08"] code [of "CHR 0x09"] code [of "CHR 0x0A"] code [of "CHR 0x0C"]
        code [of "CHR 0x0D"] by (simp del: of_char_eq_iff) blast
    then show ?thesis
      using short by (auto simp: json_char_def)
  next
    case False
    then have "c \<noteq> CHR 0x5C"
      by auto
    then show ?thesis
      using False plain control [of "of_char c"] by (cases "of_char c < (32 :: nat)") (auto simp: json_char_def Let_def)
  qed
qed

lemma json_char_unique:
  assumes "json_char c @ r = json_char d @ r'"
  shows "c = d \<and> r = r'"
  using assms by (cases c rule: json_char_cases; cases d rule: json_char_cases) (auto dest: hex_pair_inj)

lemma json_chars_unique:
  "concat (map json_char s) @ CHR 0x22 # r = concat (map json_char s') @ CHR 0x22 # r' \<Longrightarrow> s = s' \<and> r = r'"
proof (induction s arbitrary: s')
  case Nil
  then show ?case
    using json_char_start by (cases s') (auto, metis append_Cons list.inject)
next
  case (Cons c s)
  then show ?case
  proof (cases s')
    case Nil
    then show ?thesis
      using Cons.prems json_char_start [of c] by auto
  next
    case (Cons d s2)
    then show ?thesis
      using Cons.prems Cons.IH [of s2] json_char_unique [of c _ d] by fastforce
  qed
qed

lemma json_string_unique: "json_string s @ r = json_string s' @ r' \<Longrightarrow> s = s' \<and> r = r'"
  using json_chars_unique [of s r s' r'] by (simp add: json_string_def)

section \<open>Separated lists\<close>

lemma join_concat: "join sep (x # xs) = x @ concat (map (\<lambda>y. sep @ y) xs)"
  by (induction xs arbitrary: x) auto

lemma tail_unique:
  assumes "\<And>x y r r'. x \<in> set xs \<Longrightarrow> y \<in> P \<Longrightarrow> t x @ r = t y @ r' \<Longrightarrow> f x = f y \<and> r = r'" and "set ys \<subseteq> P" and "sep \<noteq> close"
    and "concat (map (\<lambda>y. sep # t y) xs) @ close # r = concat (map (\<lambda>y. sep # t y) ys) @ close # r'"
  shows "map f xs = map f ys \<and> r = r'"
  using assms
proof (induction xs arbitrary: ys)
  case Nil
  then show ?case by (cases ys) auto
next
  case (Cons x xs)
  then obtain y ys' where ys: "ys = y # ys'"
    by (cases ys) auto
  have "f x = f y \<and> concat (map (\<lambda>y. sep # t y) xs) @ close # r = concat (map (\<lambda>y. sep # t y) ys') @ close # r'"
    using Cons.prems ys by (intro Cons.prems(1)) auto
  then show ?case
    using Cons.IH [of ys'] Cons.prems ys by auto
qed

lemma join_unique:
  assumes u: "\<And>x y r r'. x \<in> set xs \<Longrightarrow> y \<in> set ys \<Longrightarrow> t x @ r = t y @ r' \<Longrightarrow> f x = f y \<and> r = r'"
    and h: "\<And>x. x \<in> set xs \<union> set ys \<Longrightarrow> \<exists>c cs. t x = c # cs \<and> c \<noteq> close"
    and "sep \<noteq> close" and e: "join [sep] (map t xs) @ close # r = join [sep] (map t ys) @ close # r'"
  shows "map f xs = map f ys \<and> r = r'"
proof (cases xs)
  case Nil
  then show ?thesis
    using e h by (cases ys) (fastforce simp: join_concat)+
next
  case x: (Cons x xs')
  show ?thesis
  proof (cases ys)
    case Nil
    then show ?thesis
      using e h x by (fastforce simp: join_concat)
  next
    case y: (Cons y ys')
    have "f x = f y \<and> concat (map (\<lambda>y. sep # t y) xs') @ close # r = concat (map (\<lambda>y. sep # t y) ys') @ close # r'"
      using e x y by (intro u) (auto simp: join_concat comp_def)
    then show ?thesis
      using tail_unique [of xs' "set ys" t f ys' sep close r r'] u x y \<open>sep \<noteq> close\<close> by auto
  qed
qed

section \<open>Values\<close>

definition plain_text :: "jsval \<Rightarrow> string" where
  "plain_text v = (case canonical_text v of Some t \<Rightarrow> t | None \<Rightarrow> [])"

lemma canonical_text_plain: "plain_json v \<Longrightarrow> canonical_text v = Some (plain_text v)"
  by (cases v) (auto simp: plain_text_def)

lemma plain_text_simps:
  "plain_text JNull = ''null''" "plain_text (JBool b) = (if b then ''true'' else ''false'')" "plain_text (JStr s) = json_string s"
  "plain_text (JArr xs) = ''['' @ join '','' (map plain_text xs) @ '']''"
  by (auto simp: plain_text_def [abs_def])

lemma plain_text_obj:
  assumes "list_all (\<lambda>kv. plain_json (snd kv)) kvs"
  shows "plain_text (JObj kvs) = ''{'' @ join '','' (map (\<lambda>kv. json_string (fst kv) @ '':'' @ plain_text (snd kv)) (sort_keys kvs)) @ ''}''"
proof -
  have "map (\<lambda>kv. (fst kv, case canonical_text (snd kv) of Some t \<Rightarrow> t | None \<Rightarrow> ''undefined'')) kvs = map (\<lambda>kv. (fst kv, plain_text (snd kv))) kvs"
    using assms by (auto simp: list_all_iff canonical_text_plain)
  then have "plain_text (JObj kvs) = ''{'' @ join '','' (map (\<lambda>(k, t). json_text (JStr k) @ '':'' @ t) (sort_keys (map (\<lambda>kv. (fst kv, plain_text (snd kv))) kvs))) @ ''}''"
    unfolding plain_text_def [of "JObj kvs"] by (simp only: canonical_text.simps option.case)
  then show ?thesis
    by (simp add: map_snd_sort_keys json_text_def comp_def)
qed

lemma plain_text_start: "plain_json v \<Longrightarrow> \<exists>c cs. plain_text v = c # cs \<and> c \<noteq> CHR '']''"
  by (cases v) (auto simp: plain_text_simps plain_text_obj json_string_def)

lemma plain_text_unique:
  "plain_json v \<Longrightarrow> plain_json w \<Longrightarrow> plain_text v @ r = plain_text w @ r' \<Longrightarrow> sorted_value v = sorted_value w \<and> r = r'"
proof (induction v arbitrary: w r r' rule: sorted_value.induct [case_names Arr Obj Undef Null Bool Num Str])
  case (Arr xs)
  then obtain ys where w: "w = JArr ys"
    by (cases w) (auto simp: plain_text_simps plain_text_obj json_string_def split: if_splits)
  have "map sorted_value xs = map sorted_value ys \<and> r = r'"
  proof (rule join_unique)
    show "join '','' (map plain_text xs) @ CHR '']'' # r = join '','' (map plain_text ys) @ CHR '']'' # r'"
      using Arr w by (simp add: plain_text_simps)
    fix x y q q' assume "x \<in> set xs" "y \<in> set ys" "plain_text x @ q = plain_text y @ q'"
    then show "sorted_value x = sorted_value y \<and> q = q'"
      using Arr.prems w by (intro Arr.IH) (auto simp: list_all_iff)
  next
    fix x assume "x \<in> set xs \<union> set ys"
    then show "\<exists>c cs. plain_text x = c # cs \<and> c \<noteq> CHR '']''"
      using Arr.prems(1,2) w by (intro plain_text_start) (auto simp: list_all_iff)
  qed simp
  then show ?case
    using w by simp
next
  case (Obj kvs)
  then obtain kvs' where w: "w = JObj kvs'"
    by (cases w) (auto simp: plain_text_simps plain_text_obj json_string_def split: if_splits)
  let ?t = "\<lambda>kv. json_string (fst kv) @ '':'' @ plain_text (snd kv)" and ?f = "\<lambda>kv. (fst kv, sorted_value (snd kv))"
  have "map ?f (sort_keys kvs) = map ?f (sort_keys kvs') \<and> r = r'"
  proof (rule join_unique)
    show "join '','' (map ?t (sort_keys kvs)) @ CHR ''}'' # r = join '','' (map ?t (sort_keys kvs')) @ CHR ''}'' # r'"
      using Obj w by (simp add: plain_text_obj)
    fix x y q q' assume xy: "x \<in> set (sort_keys kvs)" "y \<in> set (sort_keys kvs')" and e: "?t x @ q = ?t y @ q'"
    from e have "fst x = fst y" and "plain_text (snd x) @ q = plain_text (snd y) @ q'"
      using json_string_unique [of "fst x" _ "fst y"] by fastforce+
    then show "?f x = ?f y \<and> q = q'"
      using Obj.prems(1,2) Obj.IH [of x "snd y" q q'] w xy by (simp add: list_all_iff)
  qed (auto simp: json_string_def)
  then show ?case
    using w by (simp add: map_snd_sort_keys)
next
  case Undef
  then show ?case by simp
next
  case Null
  then show ?case
    by (cases w) (auto simp: plain_text_simps plain_text_obj json_string_def split: if_splits)
next
  case (Bool b)
  then show ?case
    by (cases w) (auto simp: plain_text_simps plain_text_obj json_string_def split: if_splits)
next
  case (Num n)
  then show ?case by simp
next
  case (Str s)
  then obtain s' where w: "w = JStr s'"
    by (cases w) (auto simp: plain_text_simps plain_text_obj json_string_def split: if_splits)
  then show ?case
    using json_string_unique [of s r s' r'] Str by (simp add: plain_text_simps)
qed

lemma plain_sorted: "plain_json v \<Longrightarrow> plain_json (sorted_value v)"
  by (induction v rule: sorted_value.induct) (auto simp: list_all_iff comp_def)

lemma plain_text_sorted: "plain_json v \<Longrightarrow> plain_text (sorted_value v) = plain_text v"
proof (induction v rule: sorted_value.induct)
  case (1 xs)
  then have "map plain_text (map sorted_value xs) = map plain_text xs"
    by (auto simp: list_all_iff)
  then show ?case
    by (simp only: sorted_value.simps plain_text_simps)
next
  case (2 kvs)
  let ?f = "\<lambda>kv. (fst kv, sorted_value (snd kv))"
  have "list_all (\<lambda>kv. plain_json (snd kv)) (sort_keys (map ?f kvs))"
    using 2 plain_sorted by (auto simp: list_all_iff)
  moreover have "map ((\<lambda>kv. json_string (fst kv) @ '':'' @ plain_text (snd kv)) \<circ> ?f) (sort_keys kvs)
      = map (\<lambda>kv. json_string (fst kv) @ '':'' @ plain_text (snd kv)) (sort_keys kvs)"
    using 2 by (auto simp: list_all_iff)
  ultimately show ?case
    using 2 by (simp only: sorted_value.simps plain_text_obj plain_json.simps sort_keys_idem map_snd_sort_keys map_map)
qed simp_all

lemma canonical_text_eq_iff:
  assumes "plain_json v" and "plain_json w"
  shows "canonical_text v = canonical_text w \<longleftrightarrow> sorted_value v = sorted_value w"
proof -
  have "plain_text v = plain_text w \<longleftrightarrow> sorted_value v = sorted_value w"
    using plain_text_unique [of v w "[]" "[]"] plain_text_sorted [of v] plain_text_sorted [of w] assms by auto
  then show ?thesis
    using assms by (simp add: canonical_text_plain)
qed

end
