(* ===== verification/ReleaseContract.thy ===== *)
theory ReleaseContract
  imports CanonicalText
begin

text \<open>
  The platform release contract, \<open>src/apps/console-api/runtime/platform-release-contract.js\<close> and
  \<open>platform-release-agent-identity-cutover.js\<close>: release locks, the transition from an installed lock to a component lock, the generation of
  such a lock from evidence, and the approval policy.

  The hash is a parameter.  \<open>structuredClone\<close> and \<open>Object.freeze\<close> leave a value as it is.  A check is a value of \<open>jsval + unit\<close>; \<open>check_all\<close> runs
  one over a list and stops at the first error, as the loops do.
\<close>

fun check_all :: "('a \<Rightarrow> 'e + unit) \<Rightarrow> 'a list \<Rightarrow> 'e + unit" where
  "check_all f [] = Inr ()"
| "check_all f (x # xs) = rbind (f x) (\<lambda>_. check_all f xs)"

lemma check_all_Inr: "check_all f xs = Inr u \<longleftrightarrow> (\<forall>x. x \<in> set xs \<longrightarrow> f x = Inr ())"
  by (induction xs) (auto simp: res_splits)

definition reject :: "string \<Rightarrow> jsval" where
  \<comment> \<open>\<open>throw new Error(message)\<close>\<close>
  "reject message = js_error message []"

definition own_keys :: "jsval \<Rightarrow> string list" where
  \<comment> \<open>\<open>Object.keys(v ?? {})\<close>; an array or a text has its indices\<close>
  "own_keys v = (case v of
       JObj kvs \<Rightarrow> map fst kvs
     | JArr xs \<Rightarrow> map nat_str [0..<length xs]
     | JStr s \<Rightarrow> map nat_str [0..<length s]
     | _ \<Rightarrow> [])"

section \<open>The one-way identity cutover\<close>

definition LEGACY_INSTALLED_AGENT_COMPONENTS :: "(string \<times> string) list" where
  "LEGACY_INSTALLED_AGENT_COMPONENTS = [(''oaaGateway'', ''opensphere-console-oaa-gateway''), (''oaaGovernedAdapter'', ''opensphere-oaa-governed-adapter'')]"

definition CANONICAL_AGENT_COMPONENTS :: "(string \<times> string) list" where
  "CANONICAL_AGENT_COMPONENTS = [(''osaaGateway'', ''opensphere-console-osaa-gateway''), (''osaaGovernedAdapter'', ''opensphere-osaa-governed-adapter'')]"

definition LEGACY_TO_CANONICAL :: "(string \<times> string) list" where
  "LEGACY_TO_CANONICAL = [(''oaaGateway'', ''osaaGateway''), (''oaaGovernedAdapter'', ''osaaGovernedAdapter'')]"

definition CANONICAL_TO_LEGACY :: "(string \<times> string) list" where
  "CANONICAL_TO_LEGACY = map (\<lambda>(legacy, c). (c, legacy)) LEGACY_TO_CANONICAL"

definition legacyInstalledComponentMap :: "(string \<times> string) list \<Rightarrow> (string \<times> string) list" where
  "legacyInstalledComponentMap cs =
     filter (\<lambda>(name, _). name \<notin> fst ` set CANONICAL_AGENT_COMPONENTS) cs @ LEGACY_INSTALLED_AGENT_COMPONENTS"

definition name_or_self :: "(string \<times> string) list \<Rightarrow> string \<Rightarrow> string" where
  "name_or_self m name = (case map_of m name of Some n \<Rightarrow> n | None \<Rightarrow> name)"

definition canonicalNameForInstalledComponent :: "string \<Rightarrow> string" where
  "canonicalNameForInstalledComponent name = name_or_self LEGACY_TO_CANONICAL name"

definition installedNameForCanonicalComponent :: "string \<Rightarrow> string" where
  "installedNameForCanonicalComponent name = name_or_self CANONICAL_TO_LEGACY name"

definition isAgentIdentityCutover :: "jsval \<Rightarrow> jsval \<Rightarrow> bool" where
  "isAgentIdentityCutover baseComponents targetComponents \<longleftrightarrow>
     list_all (\<lambda>n. n \<in> set (own_keys baseComponents)) (map fst LEGACY_INSTALLED_AGENT_COMPONENTS)
     \<and> list_all (\<lambda>n. n \<in> set (own_keys targetComponents)) (map fst CANONICAL_AGENT_COMPONENTS)"

definition hasLegacyInstalledAgentIdentity :: "jsval \<Rightarrow> bool" where
  "hasLegacyInstalledAgentIdentity components \<longleftrightarrow>
     list_all (\<lambda>n. n \<in> set (own_keys components)) (map fst LEGACY_INSTALLED_AGENT_COMPONENTS)
     \<and> list_all (\<lambda>n. n \<notin> set (own_keys components)) (map fst CANONICAL_AGENT_COMPONENTS)"

section \<open>Constants\<close>

definition LOCAL_EDGE_TRUST :: jsval where
  "LOCAL_EDGE_TRUST = JObj [(''type'', JStr ''localhost-edge/v1''), (''repository'', JStr ''opensphere-platform/OpenSphere-console''),
     (''publisher'', JStr ''scripts/Publish-LocalEdge.ps1''), (''buildAuthority'', JStr ''localhost''), (''releaseClass'', JStr ''pre-ga''),
     (''gaEligible'', JBool False)]"

definition RELEASE_TRUST :: jsval where
  "RELEASE_TRUST = JObj [(''type'', JStr ''github-actions-attestation/v2''), (''repository'', JStr ''opensphere-platform/OpenSphere-console''),
     (''signerWorkflow'', JStr ''opensphere-platform/OpenSphere-console/.github/workflows/publish-candidate-images.yml''),
     (''promoterWorkflow'', JStr ''opensphere-platform/OpenSphere-console/.github/workflows/promote-release.yml''),
     (''oidcIssuer'', JStr ''https://token.actions.githubusercontent.com''), (''sourceRef'', JStr ''refs/heads/main''),
     (''provenancePredicate'', JStr ''https://slsa.dev/provenance/v1''), (''sbomPredicate'', JStr ''https://spdx.dev/Document/v2.3''),
     (''promotionPredicate'', JStr ''https://opensphere.io/attestations/channel-promotion/v1'')]"

definition COMPONENT_REPOSITORIES :: "(string \<times> string) list" where
  "COMPONENT_REPOSITORIES = [(''console'', ''opensphere-console''), (''backend'', ''opensphere-console-backend''),
     (''dupaController'', ''opensphere-console-dupa-controller''), (''registry'', ''opensphere-registry''),
     (''osaaGateway'', ''opensphere-console-osaa-gateway''), (''osdst'', ''opensphere-osdst''),
     (''osaaGovernedAdapter'', ''opensphere-osaa-governed-adapter''), (''notificationDispatcher'', ''opensphere-console-notification-dispatcher''),
     (''gitea'', ''opensphere-console-gitea''), (''supabasePostgres'', ''opensphere-console-supabase-postgres''),
     (''supabaseAuth'', ''opensphere-console-supabase-auth''), (''supabaseRest'', ''opensphere-console-supabase-rest''),
     (''supabaseStorage'', ''opensphere-console-supabase-storage''), (''giteaPostgres'', ''opensphere-console-gitea-postgres''),
     (''recovery'', ''opensphere-console-recovery'')]"

definition TARGET_COMPONENT_REPOSITORIES :: "(string \<times> string) list" where
  "TARGET_COMPONENT_REPOSITORIES = [(''console'', ''opensphere-console''), (''consoleApi'', ''opensphere-console-api''),
     (''extensionController'', ''opensphere-extension-controller''), (''registry'', ''opensphere-registry''),
     (''osaaGateway'', ''opensphere-console-osaa-gateway''), (''osdst'', ''opensphere-osdst''),
     (''osaaGovernedAdapter'', ''opensphere-osaa-governed-adapter''), (''notificationDispatcher'', ''opensphere-console-notification-dispatcher''),
     (''gitea'', ''opensphere-console-gitea''), (''supabasePostgres'', ''opensphere-console-supabase-postgres''),
     (''supabaseAuth'', ''opensphere-console-supabase-auth''), (''supabaseRest'', ''opensphere-console-supabase-rest''),
     (''supabaseStorage'', ''opensphere-console-supabase-storage''), (''giteaPostgres'', ''opensphere-console-gitea-postgres''),
     (''recovery'', ''opensphere-console-recovery''), (''beszelHub'', ''opensphere-console-beszel-hub''),
     (''beszelAgent'', ''opensphere-console-beszel-agent''), (''beszelBootstrap'', ''opensphere-console-beszel-bootstrap'')]"

definition TARGET_AUXILIARY_ARTIFACT_REPOSITORIES :: "(string \<times> string) list" where
  "TARGET_AUXILIARY_ARTIFACT_REPOSITORIES = [(''cliArtifacts'', ''opensphere-os-cli''), (''osShellControl'', ''opensphere-console-os-shell-control''),
     (''osShellRuntime'', ''opensphere-os-shell-runtime''), (''consoleIndexContent'', ''opensphere-console-index-content'')]"

definition LEGACY_TARGET_AUXILIARY_ARTIFACT_REPOSITORIES :: "(string \<times> string) list" where
  "LEGACY_TARGET_AUXILIARY_ARTIFACT_REPOSITORIES = filter (\<lambda>(name, _). name \<noteq> ''consoleIndexContent'') TARGET_AUXILIARY_ARTIFACT_REPOSITORIES"

definition AUXILIARY_ARTIFACT_REPOSITORIES :: "(string \<times> string) list" where
  "AUXILIARY_ARTIFACT_REPOSITORIES = [(''cliArtifacts'', ''opensphere-os-cli'')]"

definition REQUIRED_COMPONENTS :: "string list" where
  "REQUIRED_COMPONENTS = map fst COMPONENT_REPOSITORIES"

definition PRE_REGISTRY_COMPONENT_REPOSITORIES :: "(string \<times> string) list" where
  "PRE_REGISTRY_COMPONENT_REPOSITORIES = filter (\<lambda>(name, _). name \<noteq> ''registry'') COMPONENT_REPOSITORIES"

definition PRE_OSDST_COMPONENT_REPOSITORIES :: "(string \<times> string) list" where
  "PRE_OSDST_COMPONENT_REPOSITORIES = filter (\<lambda>(name, _). name \<noteq> ''osdst'') COMPONENT_REPOSITORIES"

definition LEGACY_INSTALLED_COMPONENT_REPOSITORIES :: "(string \<times> string) list" where
  "LEGACY_INSTALLED_COMPONENT_REPOSITORIES = legacyInstalledComponentMap COMPONENT_REPOSITORIES"

definition REVISION_RE :: "string \<Rightarrow> bool" where
  "REVISION_RE s \<longleftrightarrow> length s = 40 \<and> list_all hex_lower s"

definition IMAGE_RE :: "string \<Rightarrow> string option" where
  \<comment> \<open>\<open>/^ghcr\.io\/opensphere-platform\/([a-z0-9][a-z0-9-]*)@sha256:[a-f0-9]{64}$/\<close> with the captured repository\<close>
  "IMAGE_RE s =
     (let rest = drop 28 s; repository = takeWhile (\<lambda>c. c \<noteq> CHR ''@'') rest; d = drop (Suc (length repository)) rest in
      if starts_with ''ghcr.io/opensphere-platform/'' s \<and> repository \<noteq> [] \<and> (low_letter (hd repository) \<or> digit_char (hd repository))
         \<and> list_all (\<lambda>c. low_letter c \<or> digit_char c \<or> c = CHR ''-'') (tl repository) \<and> length repository < length rest \<and> is_sha256_ref d
      then Some repository else None)"

section \<open>Digests and closed objects\<close>

definition canonicalJson :: "jsval \<Rightarrow> string option" where
  \<comment> \<open>the canonical text of the operation receipts\<close>
  "canonicalJson v = canonical_text v"

definition optional_entry :: "jsval \<Rightarrow> string \<Rightarrow> (string \<times> jsval) list" where
  "optional_entry lock k = (if truthy (fld lock k) then [(k, fld lock k)] else [])"

definition calculateReleaseDigest :: "(string \<Rightarrow> string) \<Rightarrow> jsval \<Rightarrow> string" where
  "calculateReleaseDigest sha lock = ''sha256:'' @ sha (json_text (JObj (
     [(''channel'', fld lock ''channel''), (''components'', fld lock ''components''), (''trust'', fld lock ''trust'')]
     @ optional_entry lock ''releaseBom'' @ optional_entry lock ''releaseScope'' @ optional_entry lock ''baseReleaseDigest''
     @ optional_entry lock ''changedComponents'' @ optional_entry lock ''changedAuxiliaryArtifacts'' @ optional_entry lock ''auxiliaryArtifacts'')))"

definition assertClosedObject :: "jsval \<Rightarrow> string list \<Rightarrow> string \<Rightarrow> jsval + unit" where
  "assertClosedObject v allowed label =
     (if \<not> is_plain_object v then Inl (reject (label @ '' must be an object''))
      else let unknown = filter (\<lambda>k. k \<notin> set allowed) (own_keys v) in
        if unknown \<noteq> [] then Inl (reject (label @ '' contains unsupported fields: '' @ join '', '' unknown)) else Inr ())"

section \<open>Release locks\<close>

record profile =
  pf_names :: "string list"
  pf_repositories :: "(string \<times> string) list"
  pf_identity :: string

definition names_of_profile :: "string list \<Rightarrow> (string \<times> string) list \<Rightarrow> bool" where
  \<comment> \<open>as many names as expected, and every expected one among them\<close>
  "names_of_profile names repositories \<longleftrightarrow> length names = length repositories \<and> list_all (\<lambda>n. n \<in> set names) (map fst repositories)"

definition profile_of :: "(string \<times> string) list \<Rightarrow> string \<Rightarrow> profile option" where
  "profile_of repositories identity = Some \<lparr>pf_names = map fst repositories, pf_repositories = repositories, pf_identity = identity\<rparr>"

definition installedComponentProfile :: "jsval \<Rightarrow> bool \<Rightarrow> profile option" where
  "installedComponentProfile components allowInstalled =
     (let names = own_keys components in
      if names_of_profile names TARGET_COMPONENT_REPOSITORIES then profile_of TARGET_COMPONENT_REPOSITORIES ''canonical''
      else if names_of_profile names COMPONENT_REPOSITORIES then profile_of COMPONENT_REPOSITORIES ''canonical''
      else if allowInstalled \<and> names_of_profile names PRE_OSDST_COMPONENT_REPOSITORIES
      then profile_of PRE_OSDST_COMPONENT_REPOSITORIES ''installed-pre-osdst''
      else if allowInstalled \<and> names_of_profile names PRE_REGISTRY_COMPONENT_REPOSITORIES
      then profile_of PRE_REGISTRY_COMPONENT_REPOSITORIES ''installed-pre-registry''
      else if allowInstalled \<and> names_of_profile names LEGACY_INSTALLED_COMPONENT_REPOSITORIES
      then profile_of LEGACY_INSTALLED_COMPONENT_REPOSITORIES ''installed-pre-osaa''
      else None)"

definition local_edge :: "jsval \<Rightarrow> bool" where
  "local_edge lock \<longleftrightarrow> canonicalJson (fld lock ''trust'') = canonicalJson LOCAL_EDGE_TRUST"

definition signed_release :: "jsval \<Rightarrow> bool" where
  "signed_release lock \<longleftrightarrow> canonicalJson (fld lock ''trust'') = canonicalJson RELEASE_TRUST"

definition release_scope :: "jsval \<Rightarrow> jsval" where
  "release_scope lock = js_or (fld lock ''releaseScope'') (JStr ''integrated'')"

definition check_header :: "jsval \<Rightarrow> jsval + unit" where
  "check_header lock =
     rbind (assertClosedObject lock [''apiVersion'', ''kind'', ''channel'', ''releaseDigest'', ''resolvedAt'', ''source'', ''sourceRevision'', ''trust'',
       ''releaseBom'', ''components'', ''releaseScope'', ''baseReleaseDigest'', ''changedComponents'', ''changedAuxiliaryArtifacts'',
       ''provenanceVerifiedAt'', ''sbomVerifiedAt'', ''auxiliaryArtifacts''] ''targetLock'') (\<lambda>_.
     rbind (guard_else (reject ''targetLock is not an OpenSphere release lock'')
       (fld lock ''apiVersion'' = JStr ''release.opensphere.io/v1alpha1'' \<and> fld lock ''kind'' = JStr ''OpenSphereReleaseLock'')) (\<lambda>_.
     rbind (guard_else (reject ''targetLock channel is unsupported'') (fld lock ''channel'' = JStr ''edge'')) (\<lambda>_.
     rbind (guard_else (reject ''targetLock releaseDigest is invalid'') (is_sha256_ref (str_or_empty (fld lock ''releaseDigest'')))) (\<lambda>_.
     rbind (guard_else (reject ''targetLock source is outside the canonical Console repository'')
       (fld lock ''source'' = JStr ''https://github.com/opensphere-platform/OpenSphere-console'')) (\<lambda>_.
     guard_else (reject ''targetLock sourceRevision is invalid'') (REVISION_RE (str_or_empty (fld lock ''sourceRevision''))))))))"

definition check_trust :: "jsval \<Rightarrow> jsval + unit" where
  "check_trust lock =
     rbind (assertClosedObject (fld lock ''trust'') [''type'', ''repository'', ''publisher'', ''buildAuthority'', ''releaseClass'', ''gaEligible'',
       ''signerWorkflow'', ''promoterWorkflow'', ''oidcIssuer'', ''sourceRef'', ''provenancePredicate'', ''sbomPredicate'', ''promotionPredicate'']
       ''targetLock.trust'') (\<lambda>_.
     rbind (guard_else (reject ''targetLock trust root is not canonical'') (local_edge lock \<or> signed_release lock)) (\<lambda>_.
     guard_else (reject ''targetLock channel and build authority do not match'')
       (\<not> (fld lock ''channel'' = JStr ''edge'' \<and> \<not> local_edge lock \<or> fld lock ''channel'' \<noteq> JStr ''edge'' \<and> \<not> signed_release lock))))"

definition check_bom :: "jsval \<Rightarrow> jsval + unit" where
  "check_bom lock =
     (let bom = fld lock ''releaseBom'' in
      rbind (if bom = JUndef then Inr ()
        else rbind (assertClosedObject bom [''subject'', ''digest'', ''predicateType''] ''targetLock.releaseBom'') (\<lambda>_.
          guard_else (reject ''targetLock releaseBom pointer is invalid'') (IMAGE_RE (str_or_empty (fld bom ''subject'')) \<noteq> None
            \<and> is_sha256_ref (str_or_empty (fld bom ''digest'')) \<and> fld bom ''predicateType'' = JStr ''https://opensphere.io/attestations/release-bom/v1''))) (\<lambda>_.
      rbind (guard_else (reject ''local edge targetLock cannot claim a signed Release BOM'') (\<not> (local_edge lock \<and> bom \<noteq> JUndef))) (\<lambda>_.
      guard_else (reject ''candidate and stable targetLock require a signed Release BOM'') (\<not> (signed_release lock \<and> bom = JUndef)))))"

definition is_name :: "jsval \<Rightarrow> bool" where
  "is_name v \<longleftrightarrow> (case v of JStr _ \<Rightarrow> True | _ \<Rightarrow> False)"

definition canonical_set :: "(jsval \<Rightarrow> bool) \<Rightarrow> jsval \<Rightarrow> bool" where
  \<comment> \<open>an array of allowed elements that equals \<open>[...new Set(v)].sort()\<close>: in order, and no text twice (two arrays are never the same element)\<close>
  "canonical_set allowed v \<longleftrightarrow> (case v of
       JArr xs \<Rightarrow> sorted (map to_str xs) \<and> distinct (filter is_name xs) \<and> list_all allowed xs
     | _ \<Rightarrow> False)"

definition or_empty_array :: "jsval \<Rightarrow> jsval" where
  \<comment> \<open>\<open>v ?? []\<close>\<close>
  "or_empty_array v = (if nullish v then JArr [] else v)"

definition names_in :: "jsval \<Rightarrow> string list" where
  \<comment> \<open>the texts among the elements, those that \<open>includes(name)\<close> and \<open>has(name)\<close> can find\<close>
  "names_in v = map to_str (filter is_name (elems v))"

definition assertShellArtifactSet :: "string list \<Rightarrow> jsval + unit" where
  "assertShellArtifactSet names =
     guard_else (reject ''OS Shell updates require matching cliArtifacts, osShellControl and osShellRuntime together'')
       (\<not> (list_ex (\<lambda>n. n = ''osShellControl'' \<or> n = ''osShellRuntime'') names
           \<and> \<not> list_all (\<lambda>n. n \<in> set names) [''cliArtifacts'', ''osShellControl'', ''osShellRuntime'']))"

definition check_component_scope :: "bool \<Rightarrow> jsval \<Rightarrow> jsval + unit" where
  "check_component_scope allowInstalled lock =
     (let allowed = (case installedComponentProfile (fld lock ''components'') allowInstalled of Some p \<Rightarrow> pf_names p | None \<Rightarrow> REQUIRED_COMPONENTS);
          auxiliary = or_empty_array (fld lock ''changedAuxiliaryArtifacts'') in
      rbind (guard_else (reject ''component targetLock requires localhost edge trust'') (local_edge lock \<and> fld lock ''channel'' = JStr ''edge'')) (\<lambda>_.
      rbind (guard_else (reject ''component targetLock baseReleaseDigest is invalid'') (is_sha256_ref (str_or_empty (fld lock ''baseReleaseDigest'')))) (\<lambda>_.
      rbind (guard_else (reject ''component targetLock changedComponents must be a canonical sorted set'')
        (canonical_set (\<lambda>x. x \<in> JStr ` set allowed) (fld lock ''changedComponents''))) (\<lambda>_.
      rbind (guard_else (reject ''component targetLock changedAuxiliaryArtifacts must contain only canonical Console artifacts'')
        (canonical_set (\<lambda>x. to_str x \<in> fst ` set TARGET_AUXILIARY_ARTIFACT_REPOSITORIES) auxiliary)) (\<lambda>_.
      rbind (assertShellArtifactSet (names_in auxiliary)) (\<lambda>_.
      rbind (guard_else (reject ''component targetLock must change at least one component or auxiliary artifact'')
        (elems (fld lock ''changedComponents'') \<noteq> [] \<or> elems auxiliary \<noteq> [])) (\<lambda>_.
      guard_else (reject ''component targetLock cannot claim a signed Release BOM'') (fld lock ''releaseBom'' = JUndef))))))))"

definition check_scope :: "bool \<Rightarrow> jsval \<Rightarrow> jsval + unit" where
  "check_scope allowInstalled lock =
     rbind (guard_else (reject ''targetLock releaseScope is unsupported'') (release_scope lock \<in> set [JStr ''integrated'', JStr ''component''])) (\<lambda>_.
     rbind (guard_else (reject ''integrated targetLock cannot declare a component transition'')
       (\<not> (release_scope lock = JStr ''integrated'' \<and> (fld lock ''baseReleaseDigest'' \<noteq> JUndef \<or> fld lock ''changedComponents'' \<noteq> JUndef
            \<or> fld lock ''changedAuxiliaryArtifacts'' \<noteq> JUndef)))) (\<lambda>_.
     if release_scope lock = JStr ''component'' then check_component_scope allowInstalled lock else Inr ()))"

definition check_artifact :: "jsval \<Rightarrow> string \<Rightarrow> string list \<Rightarrow> jsval \<Rightarrow> string \<times> string \<Rightarrow> jsval + unit" where
  \<comment> \<open>one entry of \<open>components\<close> or \<open>auxiliaryArtifacts\<close>; \<open>kind\<close> is the word of the messages, \<open>changed\<close> the names declared as changed\<close>
  "check_artifact lock kind changed artifacts nr =
     (let name = fst nr; artifact = fld artifacts name; what = ''targetLock '' @ kind @ '' '' @ name in
      rbind (assertClosedObject artifact [''repository'', ''image'', ''sourceRevision'', ''registryCredentialsRequired'']
        (''targetLock.'' @ (if kind = ''component'' then ''components'' else ''auxiliaryArtifacts'') @ ''.'' @ name)) (\<lambda>_.
      rbind (guard_else (reject (what @ '' is not a canonical exact-digest image''))
        (case IMAGE_RE (str_or_empty (fld artifact ''image'')) of Some r \<Rightarrow> fld artifact ''repository'' = JStr r \<and> r = snd nr | None \<Rightarrow> False)) (\<lambda>_.
      rbind (guard_else (reject (what @ '' sourceRevision is invalid'')) (REVISION_RE (str_or_empty (fld artifact ''sourceRevision'')))) (\<lambda>_.
      rbind (guard_else (reject (what @ '' sourceRevision differs from the release''))
        (\<not> (release_scope lock = JStr ''integrated'' \<and> \<not> strict_eq (fld artifact ''sourceRevision'') (fld lock ''sourceRevision'')))) (\<lambda>_.
      rbind (guard_else (reject (''targetLock changed '' @ kind @ '' '' @ name @ '' sourceRevision differs from the component release''))
        (\<not> (release_scope lock = JStr ''component'' \<and> name \<in> set changed
            \<and> \<not> strict_eq (fld artifact ''sourceRevision'') (fld lock ''sourceRevision'')))) (\<lambda>_.
      guard_else (reject (what @ '' registry credential flag is invalid''))
        (fld artifact ''registryCredentialsRequired'' = JUndef \<or> (\<exists>b\<in>set [True, False]. fld artifact ''registryCredentialsRequired'' = JBool b))))))))"

definition auxiliary_repositories :: "(string \<times> string) list \<Rightarrow> jsval \<Rightarrow> (string \<times> string) list" where
  "auxiliary_repositories repositories lock =
     (if repositories = TARGET_COMPONENT_REPOSITORIES
      then (if ''consoleIndexContent'' \<in> set (own_keys (fld lock ''auxiliaryArtifacts'')) then TARGET_AUXILIARY_ARTIFACT_REPOSITORIES
            else LEGACY_TARGET_AUXILIARY_ARTIFACT_REPOSITORIES)
      else AUXILIARY_ARTIFACT_REPOSITORIES)"

definition check_components :: "jsval \<Rightarrow> profile \<Rightarrow> jsval + unit" where
  "check_components lock p =
     (let components = fld lock ''components'' in
      rbind (assertClosedObject components (pf_names p) ''targetLock.components'') (\<lambda>_.
      rbind (guard_else (reject ''targetLock component set is incomplete or unsupported'') (sort (own_keys components) = sort (pf_names p))) (\<lambda>_.
      check_all (check_artifact lock ''component'' (names_in (fld lock ''changedComponents'')) components) (pf_repositories p))))"

definition names_value :: "string list \<Rightarrow> jsval" where
  "names_value names = JArr (map JStr names)"

definition check_auxiliary :: "jsval \<Rightarrow> (string \<times> string) list \<Rightarrow> jsval + unit" where
  "check_auxiliary lock repositories =
     (let artifacts = fld lock ''auxiliaryArtifacts'' in
      if artifacts = JUndef then Inr ()
      else rbind (guard_else (reject ''targetLock auxiliary artifacts require localhost edge trust'') (local_edge lock \<and> fld lock ''channel'' = JStr ''edge'')) (\<lambda>_.
        rbind (assertClosedObject artifacts (map fst repositories) ''targetLock.auxiliaryArtifacts'') (\<lambda>_.
        rbind (guard_else (reject ''targetLock auxiliary artifact set is incomplete or unsupported'')
          (canonicalJson (names_value (own_keys artifacts)) = canonicalJson (names_value (map fst repositories)))) (\<lambda>_.
        check_all (check_artifact lock ''auxiliary artifact'' (names_in (fld lock ''changedAuxiliaryArtifacts'')) artifacts) repositories))))"

definition validateReleaseLock :: "(string \<Rightarrow> string) \<Rightarrow> bool \<Rightarrow> jsval \<Rightarrow> jsval + jsval" where
  "validateReleaseLock sha allowInstalled lock =
     rbind (check_header lock) (\<lambda>_.
     rbind (check_trust lock) (\<lambda>_.
     rbind (check_bom lock) (\<lambda>_.
     rbind (check_scope allowInstalled lock) (\<lambda>_.
     case installedComponentProfile (fld lock ''components'') allowInstalled of
       None \<Rightarrow> Inl (reject ''targetLock component set is incomplete or unsupported'')
     | Some p \<Rightarrow>
         rbind (guard_else (reject ''current targetLock requires the complete governed auxiliary artifact set'')
           (\<not> (pf_repositories p = TARGET_COMPONENT_REPOSITORIES \<and> fld lock ''auxiliaryArtifacts'' = JUndef))) (\<lambda>_.
         rbind (check_components lock p) (\<lambda>_.
         rbind (check_auxiliary lock (auxiliary_repositories (pf_repositories p) lock)) (\<lambda>_.
         rbind (guard_else (reject ''targetLock releaseBom subject is not the Console anchor'')
           (fld lock ''releaseBom'' = JUndef
            \<or> strict_eq (fld (fld lock ''releaseBom'') ''subject'') (fld (fld (fld lock ''components'') ''console'') ''image''))) (\<lambda>_.
         rbind (guard_else (reject ''targetLock releaseDigest does not match its component set and trust root'')
           (fld lock ''releaseDigest'' = JStr (calculateReleaseDigest sha lock))) (\<lambda>_.
         Inr lock)))))))))"

section \<open>Transitions\<close>

definition sameComponent :: "jsval \<Rightarrow> jsval \<Rightarrow> bool" where
  "sameComponent l r \<longleftrightarrow> canonicalJson l = canonicalJson r"

definition same_names :: "string list \<Rightarrow> string list \<Rightarrow> bool" where
  "same_names xs ys \<longleftrightarrow> canonicalJson (names_value xs) = canonicalJson (names_value ys)"

definition introduces :: "string \<Rightarrow> string list \<Rightarrow> string list \<Rightarrow> string list \<Rightarrow> bool" where
  \<comment> \<open>the target adds exactly this name to the installed ones, and declares it as changed\<close>
  "introduces name base target changed \<longleftrightarrow> name \<notin> set base \<and> name \<in> set target \<and> same_names (sort (base @ [name])) target \<and> name \<in> set changed"

definition check_changed :: "string \<Rightarrow> string \<Rightarrow> string list \<Rightarrow> (string \<Rightarrow> bool) \<Rightarrow> string \<Rightarrow> jsval + unit" where
  \<comment> \<open>a name is declared as changed exactly when it differs\<close>
  "check_changed identical unlisted changed differs name =
     rbind (guard_else (reject (identical @ name @ '' is identical to the base release'')) (\<not> (name \<in> set changed \<and> \<not> differs name))) (\<lambda>_.
     guard_else (reject (unlisted @ name @ '' differs from the base release'')) (\<not> (name \<notin> set changed \<and> differs name)))"

definition check_auxiliary_transition :: "jsval \<Rightarrow> jsval \<Rightarrow> jsval + unit" where
  "check_auxiliary_transition base target =
     (let changed = names_in (or_empty_array (fld target ''changedAuxiliaryArtifacts''));
          baseNames = sort (own_keys (fld base ''auxiliaryArtifacts''));
          targetNames = sort (own_keys (fld target ''auxiliaryArtifacts''));
          introduced = introduces ''consoleIndexContent'' baseNames targetNames changed in
      rbind (guard_else (reject ''Console index artifact introduction must change the Console component manifest'')
        (\<not> (introduced \<and> ''console'' \<notin> set (names_in (fld target ''changedComponents''))))) (\<lambda>_.
      rbind (guard_else (reject ''component targetLock cannot add or remove auxiliary runtime artifacts'') (same_names baseNames targetNames \<or> introduced)) (\<lambda>_.
      check_all (check_changed ''changed auxiliary artifact '' ''unlisted auxiliary artifact '' changed
        (\<lambda>name. introduced \<and> name = ''consoleIndexContent''
            \<or> \<not> sameComponent (fld (fld base ''auxiliaryArtifacts'') name) (fld (fld target ''auxiliaryArtifacts'') name))) targetNames)))"

definition installed_name :: "bool \<Rightarrow> string \<Rightarrow> string" where
  "installed_name cutover name = (if cutover then installedNameForCanonicalComponent name else name)"

definition base_names :: "bool \<Rightarrow> jsval \<Rightarrow> string list" where
  "base_names cutover base = sort (map (\<lambda>n. if cutover then canonicalNameForInstalledComponent n else n) (own_keys (fld base ''components'')))"

definition check_component_transition :: "jsval \<Rightarrow> jsval \<Rightarrow> jsval + unit" where
  "check_component_transition base target =
     (let changed = names_in (fld target ''changedComponents'');
          cutover = isAgentIdentityCutover (fld base ''components'') (fld target ''components'');
          baseNames = base_names cutover base;
          targetNames = sort (own_keys (fld target ''components''));
          introduced = introduces ''registry'' baseNames targetNames changed in
      rbind (guard_else (reject ''OSAA identity cutover must change both canonical agent components together'')
        (\<not> (cutover \<and> \<not> list_all (\<lambda>n. n \<in> set changed) (map fst CANONICAL_AGENT_COMPONENTS)))) (\<lambda>_.
      rbind (guard_else (reject ''component targetLock cannot change the installed component set'') (same_names baseNames targetNames \<or> introduced)) (\<lambda>_.
      check_all (check_changed ''component targetLock changed component '' ''component targetLock unlisted component '' changed
        (\<lambda>name. introduced \<and> name = ''registry''
            \<or> \<not> sameComponent (fld (fld base ''components'') (installed_name cutover name)) (fld (fld target ''components'') name))) targetNames)))"

definition validateReleaseTransition :: "(string \<Rightarrow> string) \<Rightarrow> jsval \<Rightarrow> jsval \<Rightarrow> jsval + jsval" where
  "validateReleaseTransition sha baseLock targetLock =
     rbind (validateReleaseLock sha True baseLock) (\<lambda>base.
     rbind (validateReleaseLock sha False targetLock) (\<lambda>target.
     if release_scope target \<noteq> JStr ''component''
     then (if hasLegacyInstalledAgentIdentity (fld base ''components'')
           then Inl (reject ''installed pre-OSAA lock requires the one-way OSAA component transition'') else Inr target)
     else
       rbind (guard_else (reject ''component targetLock does not name the installed base release digest'')
         (strict_eq (fld target ''baseReleaseDigest'') (fld base ''releaseDigest''))) (\<lambda>_.
       rbind (guard_else (reject ''component targetLock channel or trust differs from its base release'')
         (strict_eq (fld target ''channel'') (fld base ''channel'') \<and> canonicalJson (fld target ''trust'') = canonicalJson (fld base ''trust''))) (\<lambda>_.
       rbind (check_auxiliary_transition base target) (\<lambda>_.
       rbind (check_component_transition base target) (\<lambda>_.
       Inr target))))))"

section \<open>Generating a component lock\<close>

definition normalizeComponentImage :: "string \<Rightarrow> jsval \<Rightarrow> (string \<times> string) list \<Rightarrow> jsval + string" where
  "normalizeComponentImage name v repositories =
     (let repository = map_of repositories name; raw = trim (str_or_empty v);
          image = (if is_sha256_ref raw
                   then ''ghcr.io/opensphere-platform/'' @ (case repository of Some r \<Rightarrow> r | None \<Rightarrow> ''undefined'') @ ''@'' @ raw else raw) in
      if repository \<noteq> None \<and> IMAGE_RE image = repository then Inr image
      else Inl (reject (''component evidence '' @ name @ '' is not the canonical exact-digest image'')))"

definition evidence_artifact :: "string \<Rightarrow> string \<Rightarrow> jsval \<Rightarrow> jsval \<Rightarrow> jsval \<Rightarrow> (string \<times> string) list \<Rightarrow> string \<Rightarrow> jsval + jsval" where
  \<comment> \<open>the entry built from one piece of evidence; \<open>previous\<close> is the entry of the installed lock\<close>
  "evidence_artifact label kind item previous revision repositories name =
     rbind (assertClosedObject item [''image'', ''registryCredentialsRequired''] (label @ ''.'' @ name)) (\<lambda>_.
     rbind (guard_else (reject (''componentEvidence '' @ kind @ '' '' @ name @ '' registry credential flag is invalid''))
       (fld item ''registryCredentialsRequired'' = JUndef \<or> (\<exists>b\<in>set [True, False]. fld item ''registryCredentialsRequired'' = JBool b))) (\<lambda>_.
     rbind (normalizeComponentImage name (fld item ''image'') repositories) (\<lambda>image.
     Inr (JObj [(''repository'', case map_of repositories name of Some r \<Rightarrow> JStr r | None \<Rightarrow> JUndef), (''image'', JStr image), (''sourceRevision'', revision),
       (''registryCredentialsRequired'',
          if \<not> nullish (fld item ''registryCredentialsRequired'') then fld item ''registryCredentialsRequired''
          else if \<not> nullish (fld previous ''registryCredentialsRequired'') then fld previous ''registryCredentialsRequired'' else JBool False)]))))"

fun apply_evidence :: "(string \<Rightarrow> jsval + jsval) \<Rightarrow> string list \<Rightarrow> (string \<times> jsval) list \<Rightarrow> jsval + (string \<times> jsval) list" where
  "apply_evidence f [] entries = Inr entries"
| "apply_evidence f (name # names) entries = rbind (f name) (\<lambda>a. apply_evidence f names (upsert name a entries))"

definition carried_components :: "bool \<Rightarrow> jsval \<Rightarrow> (string \<times> jsval) list" where
  "carried_components cutover base =
     spread [] (map (\<lambda>(n, c). (if cutover then canonicalNameForInstalledComponent n else n, c)) (obj_entries (fld base ''components'')))"

definition or_empty_object :: "jsval \<Rightarrow> jsval" where
  "or_empty_object v = (if nullish v then JObj [] else v)"

definition component_lock :: "(string \<Rightarrow> string) \<Rightarrow> jsval \<Rightarrow> jsval \<Rightarrow> string list \<Rightarrow> string list \<Rightarrow> (string \<times> jsval) list \<Rightarrow> (string \<times> jsval) list \<Rightarrow> string \<Rightarrow> jsval" where
  "component_lock sha base revision changed changedAux components auxiliary now =
     (let lock = (\<lambda>d. JObj ([(''apiVersion'', JStr ''release.opensphere.io/v1alpha1''), (''kind'', JStr ''OpenSphereReleaseLock''), (''channel'', JStr ''edge''),
        (''releaseDigest'', JStr d), (''resolvedAt'', JStr now), (''source'', JStr ''https://github.com/opensphere-platform/OpenSphere-console''),
        (''sourceRevision'', revision), (''trust'', LOCAL_EDGE_TRUST), (''releaseScope'', JStr ''component''),
        (''baseReleaseDigest'', fld base ''releaseDigest''), (''changedComponents'', names_value changed)]
        @ (if changedAux \<noteq> [] then [(''changedAuxiliaryArtifacts'', names_value changedAux)] else [])
        @ (if auxiliary \<noteq> [] then [(''auxiliaryArtifacts'', JObj auxiliary)] else []) @ [(''components'', JObj components)]))
      in lock (calculateReleaseDigest sha (lock [])))"

definition component_profile :: "jsval \<Rightarrow> (string \<times> string) list" where
  "component_profile base =
     (case installedComponentProfile (fld base ''components'') True of
        Some p \<Rightarrow> if pf_repositories p = TARGET_COMPONENT_REPOSITORIES then TARGET_COMPONENT_REPOSITORIES else COMPONENT_REPOSITORIES
      | None \<Rightarrow> COMPONENT_REPOSITORIES)"

definition check_evidence :: "jsval \<Rightarrow> jsval \<Rightarrow> jsval + unit" where
  "check_evidence base evidence =
     (let repositories = component_profile base; components = or_empty_object (fld evidence ''components'');
          auxiliary = or_empty_object (fld evidence ''auxiliaryArtifacts'') in
      rbind (guard_else (reject ''component target generation requires an installed localhost edge release'')
        (fld base ''channel'' = JStr ''edge'' \<and> local_edge base)) (\<lambda>_.
      rbind (assertClosedObject evidence [''sourceRevision'', ''components'', ''auxiliaryArtifacts''] ''componentEvidence'') (\<lambda>_.
      rbind (guard_else (reject ''componentEvidence sourceRevision is invalid'') (REVISION_RE (str_or_empty (fld evidence ''sourceRevision'')))) (\<lambda>_.
      rbind (assertClosedObject components (map fst repositories) ''componentEvidence.components'') (\<lambda>_.
      rbind (assertClosedObject auxiliary (map fst TARGET_AUXILIARY_ARTIFACT_REPOSITORIES) ''componentEvidence.auxiliaryArtifacts'') (\<lambda>_.
      rbind (assertShellArtifactSet (sort (own_keys auxiliary))) (\<lambda>_.
      rbind (guard_else (reject ''Auxiliary artifact updates require the current C_API/C_EXT component profile'')
        (repositories = TARGET_COMPONENT_REPOSITORIES \<or> own_keys auxiliary = [])) (\<lambda>_.
      rbind (guard_else (reject ''componentEvidence must contain at least one changed component or auxiliary artifact'')
        (own_keys components \<noteq> [] \<or> own_keys auxiliary \<noteq> [])) (\<lambda>_.
      guard_else (reject ''OSAA identity cutover must change both canonical agent components together'')
        (\<not> (hasLegacyInstalledAgentIdentity (fld base ''components'')
            \<and> \<not> list_all (\<lambda>n. n \<in> set (own_keys components)) (map fst CANONICAL_AGENT_COMPONENTS))))))))))))"

definition buildComponentReleaseLock :: "(string \<Rightarrow> string) \<Rightarrow> jsval \<Rightarrow> jsval \<Rightarrow> jnum \<Rightarrow> jsval + jsval" where
  "buildComponentReleaseLock sha baseLock evidence now =
     rbind (validateReleaseLock sha True baseLock) (\<lambda>base.
     rbind (check_evidence base evidence) (\<lambda>_.
     let evidenceComponents = or_empty_object (fld evidence ''components''); evidenceAuxiliary = or_empty_object (fld evidence ''auxiliaryArtifacts'');
         changed = sort (own_keys evidenceComponents); changedAux = sort (own_keys evidenceAuxiliary);
         cutover = hasLegacyInstalledAgentIdentity (fld base ''components''); revision = fld evidence ''sourceRevision'' in
     rbind (apply_evidence (\<lambda>name. evidence_artifact ''componentEvidence.components'' ''component'' (fld evidenceComponents name)
         (fld (fld base ''components'') (installed_name cutover name)) revision (component_profile base) name) changed (carried_components cutover base)) (\<lambda>components.
     rbind (apply_evidence (\<lambda>name. evidence_artifact ''componentEvidence.auxiliaryArtifacts'' ''auxiliary artifact'' (fld evidenceAuxiliary name)
         (fld (fld base ''auxiliaryArtifacts'') name) revision TARGET_AUXILIARY_ARTIFACT_REPOSITORIES name) changedAux
         (obj_entries (fld base ''auxiliaryArtifacts''))) (\<lambda>auxiliary.
     rbind (to_iso_string now) (\<lambda>resolvedAt.
     let target = component_lock sha base revision changed changedAux components auxiliary resolvedAt in
     rbind (validateReleaseTransition sha base target) (\<lambda>_.
     Inr target))))))"

section \<open>Desired state and approval\<close>

definition validatePlatformReleaseDesiredState :: "(string \<Rightarrow> string) \<Rightarrow> jsval \<Rightarrow> jsval + jsval" where
  "validatePlatformReleaseDesiredState sha v =
     rbind (assertClosedObject v [''contract'', ''previousReleaseDigest'', ''targetLock''] ''desiredState'') (\<lambda>_.
     rbind (guard_else (reject ''unsupported Platform Release contract'') (fld v ''contract'' = JStr ''opensphere.platform.release/v1'')) (\<lambda>_.
     rbind (guard_else (reject ''previousReleaseDigest is invalid'') (is_sha256_ref (str_or_empty (fld v ''previousReleaseDigest'')))) (\<lambda>_.
     rbind (validateReleaseLock sha False (fld v ''targetLock'')) (\<lambda>lock.
     Inr (JObj [(''contract'', JStr ''opensphere.platform.release/v1''), (''previousReleaseDigest'', fld v ''previousReleaseDigest''), (''targetLock'', lock)])))))"

record approval_policy =
  ap_mode :: string
  ap_requiredHumanApprovals :: nat
  ap_autoMerge :: bool
  ap_rationale :: string

definition platformReleaseApprovalPolicy :: "(string \<Rightarrow> string) \<Rightarrow> jsval \<Rightarrow> jsval \<Rightarrow> jsval + approval_policy" where
  "platformReleaseApprovalPolicy sha action desiredState =
     rbind (validatePlatformReleaseDesiredState sha desiredState) (\<lambda>validated.
     let lock = fld validated ''targetLock'' in
     Inr (if to_lower (str_or_empty action) = ''apply'' \<and> fld lock ''channel'' = JStr ''edge'' \<and> fld lock ''releaseScope'' = JStr ''component''
             \<and> local_edge lock
          then \<lparr>ap_mode = ''local-edge-automation'', ap_requiredHumanApprovals = 0, ap_autoMerge = True,
            ap_rationale = ''localhost edge component apply is authorized by the docker-desktop local automation boundary''\<rparr>
          else \<lparr>ap_mode = ''cross-operator'', ap_requiredHumanApprovals = 1, ap_autoMerge = False,
            ap_rationale = ''integrated, rollback and promoted releases require an independent operator''\<rparr>))"

definition releaseSummary :: "(string \<Rightarrow> string) \<Rightarrow> bool \<Rightarrow> jsval \<Rightarrow> jsval + jsval" where
  "releaseSummary sha allowInstalled lock =
     rbind (validateReleaseLock sha allowInstalled lock) (\<lambda>v.
     Inr (JObj [(''channel'', fld v ''channel''), (''releaseDigest'', fld v ''releaseDigest''), (''sourceRevision'', fld v ''sourceRevision''),
       (''resolvedAt'', or_null (fld v ''resolvedAt'')), (''componentCount'', JInt (int (length (own_keys (fld v ''components''))))),
       (''buildAuthority'', or_null (fld (fld v ''trust'') ''buildAuthority'')), (''releaseClass'', or_null (fld (fld v ''trust'') ''releaseClass'')),
       (''releaseScope'', release_scope v), (''baseReleaseDigest'', or_null (fld v ''baseReleaseDigest'')),
       (''changedComponents'', js_or (fld v ''changedComponents'') (JArr [])),
       (''changedAuxiliaryArtifacts'', js_or (fld v ''changedAuxiliaryArtifacts'') (JArr []))]))"

section \<open>What an accepted lock is\<close>

definition exact_image :: "string \<Rightarrow> string \<Rightarrow> bool" where
  \<comment> \<open>an image of this repository of the platform registry, pinned by digest\<close>
  "exact_image repository s \<longleftrightarrow> (\<exists>d. is_sha256_ref d \<and> s = ''ghcr.io/opensphere-platform/'' @ repository @ ''@'' @ d)"

lemma starts_with_split: "starts_with p s \<Longrightarrow> s = p @ drop (length p) s"
  unfolding starts_with_def by (metis append_take_drop_id)

lemma IMAGE_RE_exact: "IMAGE_RE s = Some r \<Longrightarrow> exact_image r s"
proof -
  assume m: "IMAGE_RE s = Some r"
  let ?rest = "drop 28 s"
  have r: "r = takeWhile (\<lambda>c. c \<noteq> CHR ''@'') ?rest" and l: "length r < length ?rest" and p: "starts_with ''ghcr.io/opensphere-platform/'' s"
    and d: "is_sha256_ref (drop (Suc (length r)) ?rest)"
    using m by (auto simp: IMAGE_RE_def Let_def split: if_splits)
  have "?rest ! length r = CHR ''@''"
    using r l nth_length_takeWhile [of "\<lambda>c. c \<noteq> CHR ''@''" ?rest] by simp
  moreover have "take (length r) ?rest = r"
    using r by (metis takeWhile_eq_take)
  ultimately have "?rest = r @ CHR ''@'' # drop (Suc (length r)) ?rest"
    using l by (metis append_take_drop_id Cons_nth_drop_Suc)
  moreover have "length ''ghcr.io/opensphere-platform/'' = 28"
    by simp
  then have "s = ''ghcr.io/opensphere-platform/'' @ ?rest"
    using starts_with_split [OF p] by (simp only:)
  ultimately show ?thesis
    using d unfolding exact_image_def by (metis append_Cons append_Nil)
qed

lemma same_names_iff: "same_names xs ys \<longleftrightarrow> xs = ys"
proof -
  have p: "plain_json (names_value zs)" "sorted_value (names_value zs) = names_value zs" for zs
    by (auto simp: names_value_def list_all_iff comp_def)
  show ?thesis
    using canonical_text_eq_iff [OF p(1) p(1), of xs ys] by (auto simp: same_names_def canonicalJson_def p(2)) (auto simp: names_value_def dest: map_injective [OF _ injI])
qed

lemma installedComponentProfile_Some:
  assumes "installedComponentProfile components allow = Some p"
  shows "pf_names p = map fst (pf_repositories p)"
    and "pf_repositories p \<in> set ([TARGET_COMPONENT_REPOSITORIES, COMPONENT_REPOSITORIES]
      @ (if allow then [PRE_OSDST_COMPONENT_REPOSITORIES, PRE_REGISTRY_COMPONENT_REPOSITORIES, LEGACY_INSTALLED_COMPONENT_REPOSITORIES] else []))"
  using assms by (auto simp: installedComponentProfile_def profile_of_def Let_def split: if_splits)

lemma validateReleaseLock_Inr:
  assumes "validateReleaseLock sha allow lock = Inr l"
  shows "l = lock" and "check_header lock = Inr ()" and "check_trust lock = Inr ()" and "check_scope allow lock = Inr ()"
    and "fld lock ''releaseDigest'' = JStr (calculateReleaseDigest sha lock)"
    and "\<exists>p. installedComponentProfile (fld lock ''components'') allow = Some p \<and> check_components lock p = Inr ()
       \<and> check_auxiliary lock (auxiliary_repositories (pf_repositories p) lock) = Inr ()"
  using assms unfolding validateReleaseLock_def rbind_eq_Inr by (auto simp: rbind_eq_Inr split: option.splits)

lemma accepted_channel: "check_header lock = Inr () \<Longrightarrow> fld lock ''channel'' = JStr ''edge''"
  unfolding check_header_def by (auto simp only: rbind_eq_Inr guard_else_eq)

lemma accepted_trust: "check_header lock = Inr () \<Longrightarrow> check_trust lock = Inr () \<Longrightarrow> local_edge lock"
  using accepted_channel unfolding check_trust_def by (auto simp only: rbind_eq_Inr guard_else_eq)

lemma check_artifact_exact:
  assumes "check_artifact lock kind changed artifacts nr = Inr ()"
  shows "exact_image (snd nr) (str_or_empty (fld (fld artifacts (fst nr)) ''image''))"
    and "fld (fld artifacts (fst nr)) ''repository'' = JStr (snd nr)"
  using assms unfolding check_artifact_def Let_def rbind_eq_Inr guard_else_eq
  by (auto dest: IMAGE_RE_exact split: option.splits)

text \<open>a lock that is accepted is on the edge channel, carries the localhost trust root and the digest of its own content, and names exactly the
  components of one closed profile (the two current ones, and the three installed ones only where they are allowed); each component has
  the repository the profile gives it and an image of that repository pinned by digest.
\<close>

theorem accepted_lock_pins_every_component:
  assumes "validateReleaseLock sha allow lock = Inr l"
  shows "l = lock \<and> fld lock ''channel'' = JStr ''edge'' \<and> local_edge lock \<and> fld lock ''releaseDigest'' = JStr (calculateReleaseDigest sha lock)
    \<and> (\<exists>repositories \<in> set ([TARGET_COMPONENT_REPOSITORIES, COMPONENT_REPOSITORIES]
        @ (if allow then [PRE_OSDST_COMPONENT_REPOSITORIES, PRE_REGISTRY_COMPONENT_REPOSITORIES, LEGACY_INSTALLED_COMPONENT_REPOSITORIES] else [])).
       sort (own_keys (fld lock ''components'')) = sort (map fst repositories)
       \<and> (\<forall>(name, repository) \<in> set repositories.
            fld (fld (fld lock ''components'') name) ''repository'' = JStr repository
            \<and> exact_image repository (str_or_empty (fld (fld (fld lock ''components'') name) ''image''))))"
proof -
  obtain p where p: "installedComponentProfile (fld lock ''components'') allow = Some p" and c: "check_components lock p = Inr ()"
    using validateReleaseLock_Inr [OF assms] by blast
  note ps = installedComponentProfile_Some [OF p]
  have s: "sort (own_keys (fld lock ''components'')) = sort (map fst (pf_repositories p))"
    and a: "\<And>nr. nr \<in> set (pf_repositories p) \<Longrightarrow> check_artifact lock ''component'' (names_in (fld lock ''changedComponents'')) (fld lock ''components'') nr = Inr ()"
    using c ps(1) unfolding check_components_def Let_def by (auto simp: rbind_eq_Inr check_all_Inr)
  show ?thesis
    using validateReleaseLock_Inr [OF assms] accepted_channel accepted_trust s check_artifact_exact [OF a] ps(2)
    by (intro conjI bexI [of _ "pf_repositories p"]) auto
qed

section \<open>What an accepted transition is\<close>

lemma fld_not_key:
  assumes "k \<notin> set (own_keys v)"
  shows "fld v k = JUndef"
proof (cases v)
  case (JObj kvs)
  then have "map_of kvs k = None"
    using assms by (simp add: own_keys_def map_of_eq_None_iff)
  then show ?thesis
    using JObj by (simp add: fld_obj)
qed (simp_all add: fld_def)

lemma introduced_differs: "is_plain_object w \<Longrightarrow> \<not> sameComponent JUndef w"
  by (cases w) (auto simp: sameComponent_def canonicalJson_def is_plain_object_def)

lemma assertClosedObject_Inr:
  "assertClosedObject v allowed label = Inr u \<longleftrightarrow> is_plain_object v \<and> set (own_keys v) \<subseteq> set allowed"
  by (auto simp: assertClosedObject_def Let_def filter_empty_conv split: if_splits)

lemma check_changed_Inr: "check_changed i u changed differs name = Inr x \<longleftrightarrow> (name \<in> set changed \<longleftrightarrow> differs name)"
  by (auto simp: check_changed_def rbind_eq_Inr)

lemma introduces_iff: "introduces name base target changed \<longleftrightarrow> name \<notin> set base \<and> sort (base @ [name]) = target \<and> name \<in> set changed"
  by (auto simp: introduces_def same_names_iff)

lemma accepted_components:
  assumes "validateReleaseLock sha allow lock = Inr l" and "name \<in> set (own_keys (fld lock ''components''))"
  shows "is_plain_object (fld (fld lock ''components'') name)"
proof -
  obtain p where p: "installedComponentProfile (fld lock ''components'') allow = Some p" and c: "check_components lock p = Inr ()"
    using validateReleaseLock_Inr [OF assms(1)] by blast
  have "name \<in> fst ` set (pf_repositories p)"
    using c assms(2) installedComponentProfile_Some(1) [OF p]
    unfolding check_components_def Let_def by (auto simp: rbind_eq_Inr assertClosedObject_Inr)
  then show ?thesis
    using c unfolding check_components_def Let_def
    by (fastforce simp: rbind_eq_Inr check_all_Inr check_artifact_def Let_def assertClosedObject_Inr)
qed

lemma accepted_auxiliary:
  assumes "validateReleaseLock sha allow lock = Inr l" and "name \<in> set (own_keys (fld lock ''auxiliaryArtifacts''))"
  shows "is_plain_object (fld (fld lock ''auxiliaryArtifacts'') name)"
proof -
  obtain rs where c: "check_auxiliary lock rs = Inr ()"
    using validateReleaseLock_Inr [OF assms(1)] by blast
  have "fld lock ''auxiliaryArtifacts'' \<noteq> JUndef"
    using assms(2) by (auto simp: own_keys_def)
  then have cl: "set (own_keys (fld lock ''auxiliaryArtifacts'')) \<subseteq> fst ` set rs"
    and all: "\<And>nr. nr \<in> set rs \<Longrightarrow> is_plain_object (fld (fld lock ''auxiliaryArtifacts'') (fst nr))"
    using c unfolding check_auxiliary_def Let_def
    by (auto simp: rbind_eq_Inr check_all_Inr assertClosedObject_Inr check_artifact_def Let_def)
  then show ?thesis
    using assms(2) by force
qed

lemma validateReleaseTransition_component:
  assumes "validateReleaseTransition sha base target = Inr t" and "release_scope target = JStr ''component''"
  shows "t = target" and "validateReleaseLock sha True base = Inr base" and "validateReleaseLock sha False target = Inr target"
    and "strict_eq (fld target ''baseReleaseDigest'') (fld base ''releaseDigest'')"
    and "canonicalJson (fld target ''trust'') = canonicalJson (fld base ''trust'')"
    and "check_auxiliary_transition base target = Inr ()" and "check_component_transition base target = Inr ()"
proof -
  obtain b g where b: "validateReleaseLock sha True base = Inr b" and g: "validateReleaseLock sha False target = Inr g"
    using assms(1) unfolding validateReleaseTransition_def rbind_eq_Inr by blast
  have e: "b = base" "g = target"
    using validateReleaseLock_Inr(1) b g by blast+
  show "validateReleaseLock sha True base = Inr base" "validateReleaseLock sha False target = Inr target"
    using b g e by simp_all
  show "t = target" "strict_eq (fld target ''baseReleaseDigest'') (fld base ''releaseDigest'')"
    "canonicalJson (fld target ''trust'') = canonicalJson (fld base ''trust'')"
    "check_auxiliary_transition base target = Inr ()" "check_component_transition base target = Inr ()"
    using assms b g unfolding e validateReleaseTransition_def by (auto simp: rbind_eq_Inr)
qed

lemma installed_name_registry [simp]: "installed_name cutover ''registry'' = ''registry''"
  by (simp add: installed_name_def installedNameForCanonicalComponent_def name_or_self_def CANONICAL_TO_LEGACY_def LEGACY_TO_CANONICAL_def)

lemma registry_in_base_names:
  assumes "''registry'' \<in> set (own_keys (fld base ''components''))"
  shows "''registry'' \<in> set (base_names cutover base)"
proof -
  have "canonicalNameForInstalledComponent ''registry'' = ''registry''"
    by (simp add: canonicalNameForInstalledComponent_def name_or_self_def LEGACY_TO_CANONICAL_def)
  then show ?thesis
    using assms unfolding base_names_def set_sort set_map image_iff by metis
qed

lemma component_transition_exact:
  assumes "check_component_transition base target = Inr ()" and "validateReleaseLock sha False target = Inr target"
    and "cutover = isAgentIdentityCutover (fld base ''components'') (fld target ''components'')"
    and "targetNames = sort (own_keys (fld target ''components''))" and "changed = names_in (fld target ''changedComponents'')"
  shows "targetNames = base_names cutover base
       \<or> ''registry'' \<notin> set (base_names cutover base) \<and> targetNames = sort (base_names cutover base @ [''registry'']) \<and> ''registry'' \<in> set changed"
    and "name \<in> set (own_keys (fld target ''components'')) \<Longrightarrow> name \<in> set changed
       \<longleftrightarrow> \<not> sameComponent (fld (fld base ''components'') (installed_name cutover name)) (fld (fld target ''components'') name)"
    and "cutover \<Longrightarrow> set (map fst CANONICAL_AGENT_COMPONENTS) \<subseteq> set changed"
proof -
  let ?introduced = "introduces ''registry'' (base_names cutover base) targetNames changed"
  let ?differs = "\<lambda>name. ?introduced \<and> name = ''registry''
      \<or> \<not> sameComponent (fld (fld base ''components'') (installed_name cutover name)) (fld (fld target ''components'') name)"
  note c = assms(1) [unfolded check_component_transition_def Let_def, folded assms(3-5)]
  show "targetNames = base_names cutover base
       \<or> ''registry'' \<notin> set (base_names cutover base) \<and> targetNames = sort (base_names cutover base @ [''registry'']) \<and> ''registry'' \<in> set changed"
    using c by (auto simp: rbind_eq_Inr same_names_iff introduces_iff)
  show "cutover \<Longrightarrow> set (map fst CANONICAL_AGENT_COMPONENTS) \<subseteq> set changed"
    using c by (auto simp: rbind_eq_Inr list_all_iff)
  assume n: "name \<in> set (own_keys (fld target ''components''))"
  then have "name \<in> set changed \<longleftrightarrow> ?differs name"
    using c assms(4) by (auto simp: rbind_eq_Inr check_all_Inr check_changed_Inr)
  moreover have "\<not> sameComponent (fld (fld base ''components'') (installed_name cutover name)) (fld (fld target ''components'') name)"
    if "?introduced" "name = ''registry''"
  proof -
    have "fld (fld base ''components'') name = JUndef"
      using that registry_in_base_names by (auto simp: introduces_iff intro!: fld_not_key)
    then show ?thesis
      using introduced_differs accepted_components [OF assms(2) n] that by simp
  qed
  ultimately show "name \<in> set changed
       \<longleftrightarrow> \<not> sameComponent (fld (fld base ''components'') (installed_name cutover name)) (fld (fld target ''components'') name)"
    by blast
qed

lemma auxiliary_transition_exact:
  assumes "check_auxiliary_transition base target = Inr ()" and "validateReleaseLock sha False target = Inr target"
    and "name \<in> set (own_keys (fld target ''auxiliaryArtifacts''))"
  shows "name \<in> set (names_in (or_empty_array (fld target ''changedAuxiliaryArtifacts'')))
       \<longleftrightarrow> \<not> sameComponent (fld (fld base ''auxiliaryArtifacts'') name) (fld (fld target ''auxiliaryArtifacts'') name)"
proof -
  let ?introduced = "introduces ''consoleIndexContent'' (sort (own_keys (fld base ''auxiliaryArtifacts''))) (sort (own_keys (fld target ''auxiliaryArtifacts'')))
      (names_in (or_empty_array (fld target ''changedAuxiliaryArtifacts'')))"
  have "name \<in> set (names_in (or_empty_array (fld target ''changedAuxiliaryArtifacts'')))
      \<longleftrightarrow> ?introduced \<and> name = ''consoleIndexContent''
        \<or> \<not> sameComponent (fld (fld base ''auxiliaryArtifacts'') name) (fld (fld target ''auxiliaryArtifacts'') name)"
    using assms(1,3) unfolding check_auxiliary_transition_def Let_def by (auto simp: rbind_eq_Inr check_all_Inr check_changed_Inr)
  moreover have "\<not> sameComponent (fld (fld base ''auxiliaryArtifacts'') name) (fld (fld target ''auxiliaryArtifacts'') name)"
    if "?introduced" "name = ''consoleIndexContent''"
    using that introduced_differs accepted_auxiliary [OF assms(2,3)] by (simp add: introduces_iff fld_not_key)
  ultimately show ?thesis
    by blast
qed

text \<open>C14: an accepted component transition names the digest of the installed lock it starts from, keeps the set of components (apart from the
  one-time introduction of the registry, which it must declare), and declares a component or an auxiliary artifact as changed exactly when it
  differs from the installed one, under its former name during the identity cutover; the cutover changes both agent components together.
\<close>

theorem component_transition_declares_exactly_what_changes:
  assumes "validateReleaseTransition sha base target = Inr t" and "release_scope target = JStr ''component''"
    and "cutover = isAgentIdentityCutover (fld base ''components'') (fld target ''components'')"
    and "changed = names_in (fld target ''changedComponents'')"
  shows "t = target \<and> fld target ''baseReleaseDigest'' = JStr (calculateReleaseDigest sha base) \<and> local_edge base \<and> local_edge target
    \<and> (sort (own_keys (fld target ''components'')) = base_names cutover base
       \<or> ''registry'' \<notin> set (base_names cutover base) \<and> ''registry'' \<in> set changed
          \<and> sort (own_keys (fld target ''components'')) = sort (base_names cutover base @ [''registry'']))
    \<and> (\<forall>name \<in> set (own_keys (fld target ''components'')). name \<in> set changed
       \<longleftrightarrow> \<not> sameComponent (fld (fld base ''components'') (installed_name cutover name)) (fld (fld target ''components'') name))
    \<and> (\<forall>name \<in> set (own_keys (fld target ''auxiliaryArtifacts'')). name \<in> set (names_in (or_empty_array (fld target ''changedAuxiliaryArtifacts'')))
       \<longleftrightarrow> \<not> sameComponent (fld (fld base ''auxiliaryArtifacts'') name) (fld (fld target ''auxiliaryArtifacts'') name))
    \<and> (cutover \<longrightarrow> set (map fst CANONICAL_AGENT_COMPONENTS) \<subseteq> set changed)"
proof -
  note v = validateReleaseTransition_component [OF assms(1,2)]
  note b = validateReleaseLock_Inr [OF v(2)] and g = validateReleaseLock_Inr [OF v(3)]
  note x = component_transition_exact [OF v(7) v(3) assms(3) refl assms(4)]
  have "fld target ''baseReleaseDigest'' = JStr (calculateReleaseDigest sha base)"
    using v(4) unfolding b(5) by (cases "fld target ''baseReleaseDigest''") (auto simp: strict_eq_def)
  moreover have "local_edge base" "local_edge target"
    using accepted_trust b(2,3) g(2,3) by blast+
  ultimately show ?thesis
    using v(1) x auxiliary_transition_exact [OF v(6) v(3)] by blast
qed

section \<open>What an approval policy is\<close>

text \<open>the approval policy exists only for a desired state with an accepted target lock, and it waives the human approval and merges
  automatically exactly for the action \<open>apply\<close> of a lock of component scope; every other accepted request needs one approval.
\<close>

theorem approval_is_waived_exactly_for_component_apply:
  assumes "platformReleaseApprovalPolicy sha action desired = Inr policy"
  shows "validateReleaseLock sha False (fld desired ''targetLock'') = Inr (fld desired ''targetLock'')
    \<and> (if to_lower (str_or_empty action) = ''apply'' \<and> fld (fld desired ''targetLock'') ''releaseScope'' = JStr ''component''
       then ap_requiredHumanApprovals policy = 0 \<and> ap_autoMerge policy
       else ap_requiredHumanApprovals policy = 1 \<and> \<not> ap_autoMerge policy)"
proof -
  obtain lock where v: "validateReleaseLock sha False (fld desired ''targetLock'') = Inr lock"
    and d: "validatePlatformReleaseDesiredState sha desired = Inr (JObj [(''contract'', JStr ''opensphere.platform.release/v1''),
      (''previousReleaseDigest'', fld desired ''previousReleaseDigest''), (''targetLock'', lock)])"
    using assms unfolding platformReleaseApprovalPolicy_def validatePlatformReleaseDesiredState_def rbind_eq_Inr by auto
  have l: "lock = fld desired ''targetLock''" and e: "fld lock ''channel'' = JStr ''edge''" "local_edge lock"
    using validateReleaseLock_Inr [OF v] accepted_channel accepted_trust by auto
  show ?thesis
    using assms v e unfolding platformReleaseApprovalPolicy_def d l by (auto simp: rbind_def fld_obj split: if_splits)
qed

text \<open>C27: components are compared by their canonical text, and over values without numbers and \<open>undefined\<close> this is the comparison of
  the values themselves up to the order of their properties: no two different components have the same text.
\<close>

theorem components_are_compared_up_to_property_order:
  assumes "plain_json l" and "plain_json r"
  shows "sameComponent l r \<longleftrightarrow> sorted_value l = sorted_value r"
  using canonical_text_eq_iff [OF assms] by (simp add: sameComponent_def canonicalJson_def)

section \<open>What a generated lock is\<close>

lemma apply_evidence_Inr:
  assumes "apply_evidence f names entries = Inr es"
  shows "n \<notin> set names \<Longrightarrow> map_of es n = map_of entries n" and "n \<in> set names \<Longrightarrow> \<exists>a. f n = Inr a \<and> map_of es n = Some a"
  using assms by (induction f names entries rule: apply_evidence.induct) (force simp: rbind_eq_Inr)+

lemma component_lock_flds [simp]:
  "fld (component_lock sha base revision changed changedAux components auxiliary now) ''components'' = JObj components"
  "fld (component_lock sha base revision changed changedAux components auxiliary now) ''changedComponents'' = names_value changed"
  "fld (component_lock sha base revision changed changedAux components auxiliary now) ''releaseScope'' = JStr ''component''"
  by (simp_all add: component_lock_def Let_def fld_obj)

lemma names_in_value [simp]: "names_in (names_value names) = names"
  by (induction names) (simp_all add: names_in_def names_value_def elems_def is_name_def)

lemma release_scope_component: "fld lock ''releaseScope'' = JStr ''component'' \<Longrightarrow> release_scope lock = JStr ''component''"
  by (simp add: release_scope_def js_or_def)

lemma buildComponentReleaseLock_Inr:
  assumes "buildComponentReleaseLock sha base evidence now = Inr target"
  obtains components auxiliary resolvedAt where "validateReleaseLock sha True base = Inr base"
    and "apply_evidence (\<lambda>name. evidence_artifact ''componentEvidence.components'' ''component'' (fld (or_empty_object (fld evidence ''components'')) name)
         (fld (fld base ''components'') (installed_name (hasLegacyInstalledAgentIdentity (fld base ''components'')) name)) (fld evidence ''sourceRevision'')
         (component_profile base) name) (sort (own_keys (or_empty_object (fld evidence ''components''))))
         (carried_components (hasLegacyInstalledAgentIdentity (fld base ''components'')) base) = Inr components"
    and "target = component_lock sha base (fld evidence ''sourceRevision'') (sort (own_keys (or_empty_object (fld evidence ''components''))))
       (sort (own_keys (or_empty_object (fld evidence ''auxiliaryArtifacts'')))) components auxiliary resolvedAt"
    and "validateReleaseTransition sha base target = Inr target"
proof -
  obtain b where b: "validateReleaseLock sha True base = Inr b"
    using assms unfolding buildComponentReleaseLock_def rbind_eq_Inr by blast
  have e: "b = base"
    using validateReleaseLock_Inr(1) [OF b] .
  show thesis
    using assms that b release_scope_component validateReleaseTransition_component(1)
    unfolding buildComponentReleaseLock_def Let_def rbind_eq_Inr e
    by (metis (no_types, lifting) Inr_inject component_lock_flds(3))
qed

lemma evidence_artifact_Inr:
  assumes "evidence_artifact label kind item previous revision repositories name = Inr a"
  shows "\<exists>repository. map_of repositories name = Some repository \<and> fld a ''repository'' = JStr repository
    \<and> exact_image repository (str_or_empty (fld a ''image'')) \<and> fld a ''sourceRevision'' = revision"
proof -
  obtain image repository where n: "normalizeComponentImage name (fld item ''image'') repositories = Inr image"
    and a: "a = JObj [(''repository'', case map_of repositories name of Some r \<Rightarrow> JStr r | None \<Rightarrow> JUndef), (''image'', JStr image), (''sourceRevision'', revision),
       (''registryCredentialsRequired'',
          if \<not> nullish (fld item ''registryCredentialsRequired'') then fld item ''registryCredentialsRequired''
          else if \<not> nullish (fld previous ''registryCredentialsRequired'') then fld previous ''registryCredentialsRequired'' else JBool False)]"
    and r: "map_of repositories name = Some repository"
    using assms unfolding evidence_artifact_def rbind_eq_Inr normalizeComponentImage_def Let_def by (auto split: if_splits)
  have i: "exact_image repository image"
    using n r by (auto simp: normalizeComponentImage_def Let_def intro: IMAGE_RE_exact split: if_splits)
  then have "image \<noteq> []"
    by (auto simp: exact_image_def)
  then show ?thesis
    using i r a by (auto simp: fld_obj str_or_empty_def js_or_def)
qed

lemma legacy_rename: "m \<in> set (map fst LEGACY_INSTALLED_COMPONENT_REPOSITORIES) \<Longrightarrow> installed_name True (canonicalNameForInstalledComponent m) = m"
proof -
  have "list_all (\<lambda>m. installed_name True (canonicalNameForInstalledComponent m) = m) (map fst LEGACY_INSTALLED_COMPONENT_REPOSITORIES)"
    by code_simp
  then show "m \<in> set (map fst LEGACY_INSTALLED_COMPONENT_REPOSITORIES) \<Longrightarrow> installed_name True (canonicalNameForInstalledComponent m) = m"
    by (simp only: list_all_iff)
qed

lemma profiles_distinct:
  "list_all (\<lambda>rs. distinct (map fst rs)) [TARGET_COMPONENT_REPOSITORIES, COMPONENT_REPOSITORIES, PRE_OSDST_COMPONENT_REPOSITORIES,
     PRE_REGISTRY_COMPONENT_REPOSITORIES, LEGACY_INSTALLED_COMPONENT_REPOSITORIES]"
  by code_simp

lemma profiles_canonical:
  "list_all (\<lambda>rs. ''osaaGateway'' \<in> set (map fst rs)) [TARGET_COMPONENT_REPOSITORIES, COMPONENT_REPOSITORIES, PRE_OSDST_COMPONENT_REPOSITORIES,
     PRE_REGISTRY_COMPONENT_REPOSITORIES]"
  by code_simp

lemma accepted_keys:
  assumes "validateReleaseLock sha True base = Inr base"
  obtains kvs rs where "fld base ''components'' = JObj kvs" and "distinct (map fst kvs)" and "set (map fst kvs) = set (map fst rs)"
    and "hasLegacyInstalledAgentIdentity (fld base ''components'') \<Longrightarrow> rs = LEGACY_INSTALLED_COMPONENT_REPOSITORIES"
proof -
  obtain p where p: "installedComponentProfile (fld base ''components'') True = Some p" and c: "check_components base p = Inr ()"
    using validateReleaseLock_Inr [OF assms] by blast
  note ps = installedComponentProfile_Some [OF p]
  obtain kvs where k: "fld base ''components'' = JObj kvs" and s: "sort (map fst kvs) = sort (map fst (pf_repositories p))"
    using c ps(1) unfolding check_components_def Let_def
    by (cases "fld base ''components''") (auto simp: rbind_eq_Inr assertClosedObject_Inr is_plain_object_def own_keys_def)
  have "distinct (map fst (pf_repositories p))"
    using ps(2) profiles_distinct by (auto simp only: list.pred_inject list.set if_True append.simps)
  then have d: "distinct (map fst kvs)"
    using s by (metis distinct_sort)
  have e: "set (map fst kvs) = set (map fst (pf_repositories p))"
    using s by (metis set_sort)
  show thesis
  proof (rule that [OF k d e])
    assume "hasLegacyInstalledAgentIdentity (fld base ''components'')"
    then have "''osaaGateway'' \<notin> set (map fst kvs)"
      by (simp add: k hasLegacyInstalledAgentIdentity_def CANONICAL_AGENT_COMPONENTS_def own_keys_def)
    then have no: "''osaaGateway'' \<notin> set (map fst (pf_repositories p))"
      unfolding e .
    have "pf_repositories p \<in> set [TARGET_COMPONENT_REPOSITORIES, COMPONENT_REPOSITORIES, PRE_OSDST_COMPONENT_REPOSITORIES, PRE_REGISTRY_COMPONENT_REPOSITORIES]
        \<or> pf_repositories p = LEGACY_INSTALLED_COMPONENT_REPOSITORIES"
      using ps(2) by auto
    then show "pf_repositories p = LEGACY_INSTALLED_COMPONENT_REPOSITORIES"
      using no profiles_canonical unfolding list_all_iff by blast
  qed
qed

lemma carried_component:
  assumes "validateReleaseLock sha True base = Inr base" and "cutover = hasLegacyInstalledAgentIdentity (fld base ''components'')"
    and "map_of (carried_components cutover base) n = Some c"
  shows "fld (fld base ''components'') (installed_name cutover n) = c"
proof -
  obtain kvs rs where k: "fld base ''components'' = JObj kvs" and d: "distinct (map fst kvs)" and s: "set (map fst kvs) = set (map fst rs)"
    and rs: "cutover \<Longrightarrow> rs = LEGACY_INSTALLED_COMPONENT_REPOSITORIES"
    using accepted_keys [OF assms(1)] assms(2) by metis
  obtain m where m: "(m, c) \<in> set kvs" and n: "n = (if cutover then canonicalNameForInstalledComponent m else m)"
    using assms(3) by (auto simp: carried_components_def k obj_entries_def map_of_spread dest!: map_of_SomeD)
  then have "m \<in> set (map fst rs)"
    using s by force
  then have "installed_name cutover n = m"
    using n rs legacy_rename by (cases cutover) (auto simp: installed_name_def)
  then show ?thesis
    using m d k by (simp add: fld_obj)
qed

text \<open>C15: a lock generated from evidence is an accepted transition from the installed lock; it declares exactly the components of the evidence,
  each with its canonical repository, an image of it pinned by digest and the revision of the evidence, and every other component is the
  installed one unchanged.
\<close>

theorem generated_lock_is_an_accepted_transition:
  assumes "buildComponentReleaseLock sha base evidence now = Inr target"
    and "cutover = hasLegacyInstalledAgentIdentity (fld base ''components'')"
    and "named = own_keys (or_empty_object (fld evidence ''components''))"
  shows "validateReleaseTransition sha base target = Inr target \<and> release_scope target = JStr ''component''
    \<and> names_in (fld target ''changedComponents'') = sort named
    \<and> (\<forall>name \<in> set named. \<exists>repository. map_of (component_profile base) name = Some repository
        \<and> fld (fld (fld target ''components'') name) ''repository'' = JStr repository
        \<and> exact_image repository (str_or_empty (fld (fld (fld target ''components'') name) ''image''))
        \<and> fld (fld (fld target ''components'') name) ''sourceRevision'' = fld evidence ''sourceRevision'')
    \<and> (\<forall>name \<in> set (own_keys (fld target ''components'')) - set named.
        fld (fld target ''components'') name = fld (fld base ''components'') (installed_name cutover name))"
proof -
  obtain components auxiliary resolvedAt where b: "validateReleaseLock sha True base = Inr base"
    and a: "apply_evidence (\<lambda>name. evidence_artifact ''componentEvidence.components'' ''component'' (fld (or_empty_object (fld evidence ''components'')) name)
         (fld (fld base ''components'') (installed_name cutover name)) (fld evidence ''sourceRevision'') (component_profile base) name) (sort named)
         (carried_components cutover base) = Inr components"
    and t: "target = component_lock sha base (fld evidence ''sourceRevision'') (sort named)
       (sort (own_keys (or_empty_object (fld evidence ''auxiliaryArtifacts'')))) components auxiliary resolvedAt"
    and v: "validateReleaseTransition sha base target = Inr target"
    using buildComponentReleaseLock_Inr [OF assms(1)] unfolding assms(2,3) by blast
  have "\<exists>repository. map_of (component_profile base) name = Some repository
      \<and> fld (fld (fld target ''components'') name) ''repository'' = JStr repository
      \<and> exact_image repository (str_or_empty (fld (fld (fld target ''components'') name) ''image''))
      \<and> fld (fld (fld target ''components'') name) ''sourceRevision'' = fld evidence ''sourceRevision''" if "name \<in> set named" for name
    using apply_evidence_Inr(2) [OF a, of name] that evidence_artifact_Inr unfolding t by (fastforce simp: fld_obj)
  moreover have "fld (fld target ''components'') name = fld (fld base ''components'') (installed_name cutover name)"
    if n: "name \<in> set (own_keys (fld target ''components''))" "name \<notin> set named" for name
  proof -
    obtain c where "map_of components name = Some c"
      using n(1) by (cases "map_of components name") (auto simp: t own_keys_def map_of_eq_None_iff)
    then show ?thesis
      using apply_evidence_Inr(1) [OF a, of name] n(2) carried_component [OF b assms(2)] by (simp add: t fld_obj)
  qed
  ultimately show ?thesis
    using v t release_scope_component by simp
qed

section \<open>An example\<close>

text \<open>An installation from before the agent was renamed, and the evidence that moves it: both agent components at once.  The hash is constant.\<close>

lemma IMAGE_RE_complete:
  assumes "repository \<noteq> []" and "low_letter (hd repository) \<or> digit_char (hd repository)"
    and "list_all (\<lambda>c. low_letter c \<or> digit_char c \<or> c = CHR ''-'') repository" and "is_sha256_ref d"
  shows "IMAGE_RE (''ghcr.io/opensphere-platform/'' @ repository @ ''@'' @ d) = Some repository"
proof -
  have tw: "takeWhile (\<lambda>c. c \<noteq> CHR ''@'') (repository @ CHR ''@'' # d) = repository"
    using assms(3) by (subst takeWhile_append2) (auto simp: list_all_iff low_letter_def digit_char_def)
  have dr: "drop 28 (''ghcr.io/opensphere-platform/'' @ repository @ ''@'' @ d) = repository @ CHR ''@'' # d"
    by simp
  show ?thesis
    unfolding IMAGE_RE_def Let_def dr tw using assms by (auto simp: starts_with_def list_all_iff dest: list.set_sel(2))
qed

lemma validateReleaseLock_intro:
  assumes "check_header lock = Inr ()" and "check_trust lock = Inr ()" and "check_bom lock = Inr ()" and "check_scope allow lock = Inr ()"
    and "installedComponentProfile (fld lock ''components'') allow = Some p"
    and "pf_repositories p \<noteq> TARGET_COMPONENT_REPOSITORIES" and "check_components lock p = Inr ()"
    and "fld lock ''auxiliaryArtifacts'' = JUndef" and "fld lock ''releaseBom'' = JUndef"
    and "fld lock ''releaseDigest'' = JStr (calculateReleaseDigest sha lock)"
  shows "validateReleaseLock sha allow lock = Inr lock"
  using assms by (simp add: validateReleaseLock_def rbind_def check_auxiliary_def guard_else_def)

definition demo_sha :: "string \<Rightarrow> string" where
  "demo_sha s = replicate 64 (CHR ''0'')"

definition demo_artifact :: "char \<Rightarrow> string \<Rightarrow> jsval" where
  "demo_artifact c repository = JObj [(''repository'', JStr repository),
     (''image'', JStr (''ghcr.io/opensphere-platform/'' @ repository @ ''@'' @ ''sha256:'' @ replicate 64 c)), (''sourceRevision'', JStr (replicate 40 c)),
     (''registryCredentialsRequired'', JBool False)]"

definition demo_lock :: "(string \<times> jsval) list \<Rightarrow> char \<Rightarrow> (string \<times> jsval) list \<Rightarrow> jsval" where
  "demo_lock transition c components = JObj ([(''apiVersion'', JStr ''release.opensphere.io/v1alpha1''), (''kind'', JStr ''OpenSphereReleaseLock''), (''channel'', JStr ''edge''),
     (''releaseDigest'', JStr (''sha256:'' @ replicate 64 (CHR ''0''))), (''resolvedAt'', JStr ''1970-01-01T00:00:00.000Z''),
     (''source'', JStr ''https://github.com/opensphere-platform/OpenSphere-console''), (''sourceRevision'', JStr (replicate 40 c)),
     (''trust'', LOCAL_EDGE_TRUST)] @ transition @ [(''components'', JObj components)])"

definition demo_entries :: "char \<Rightarrow> (string \<times> string) list \<Rightarrow> (string \<times> jsval) list" where
  "demo_entries c rs = map (\<lambda>nr. (fst nr, demo_artifact c (snd nr))) rs"

definition demo_base :: jsval where
  "demo_base = demo_lock [] (CHR ''0'') (demo_entries (CHR ''0'') LEGACY_INSTALLED_COMPONENT_REPOSITORIES)"

definition demo_evidence :: jsval where
  "demo_evidence = JObj [(''sourceRevision'', JStr (replicate 40 (CHR ''1''))), (''components'', JObj
     [(''osaaGovernedAdapter'', JObj [(''image'', JStr (''sha256:'' @ replicate 64 (CHR ''1'')))]),
      (''osaaGateway'', JObj [(''image'', JStr (''sha256:'' @ replicate 64 (CHR ''1'')))])])]"

definition demo_kept :: "(string \<times> string) list" where
  "demo_kept = filter (\<lambda>(name, _). name \<notin> fst ` set CANONICAL_AGENT_COMPONENTS) COMPONENT_REPOSITORIES"

definition demo_target :: jsval where
  "demo_target = demo_lock [(''releaseScope'', JStr ''component''), (''baseReleaseDigest'', JStr (''sha256:'' @ replicate 64 (CHR ''0''))),
       (''changedComponents'', names_value [''osaaGateway'', ''osaaGovernedAdapter''])] (CHR ''1'')
     (demo_entries (CHR ''0'') demo_kept @ demo_entries (CHR ''1'') CANONICAL_AGENT_COMPONENTS)"

lemma zeros_ok: "is_sha256_ref (''sha256:'' @ replicate 64 (CHR ''0''))" "is_sha256_ref (''sha256:'' @ replicate 64 (CHR ''1''))"
  "REVISION_RE (replicate 40 (CHR ''0''))" "REVISION_RE (replicate 40 (CHR ''1''))"
  by code_simp+

lemma demo_lock_flds:
  assumes "set (map fst transition) \<subseteq> {''releaseScope'', ''baseReleaseDigest'', ''changedComponents''}"
  shows "fld (demo_lock transition c components) ''components'' = JObj components"
    and "fld (demo_lock transition c components) ''auxiliaryArtifacts'' = JUndef"
    and "fld (demo_lock transition c components) ''releaseBom'' = JUndef"
    and "set (own_keys (demo_lock transition c components)) \<subseteq> {''apiVersion'', ''kind'', ''channel'', ''releaseDigest'', ''resolvedAt'', ''source'', ''sourceRevision'',
        ''trust'', ''components'', ''releaseScope'', ''baseReleaseDigest'', ''changedComponents''}"
proof -
  have n: "map_of transition k = None" if "k \<notin> {''releaseScope'', ''baseReleaseDigest'', ''changedComponents''}" for k
    using assms that unfolding map_of_eq_None_iff set_map by blast
  have "map_of transition ''components'' = None" "map_of transition ''auxiliaryArtifacts'' = None" "map_of transition ''releaseBom'' = None"
    using n [of "''components''"] n [of "''auxiliaryArtifacts''"] n [of "''releaseBom''"] by simp_all
  then show "fld (demo_lock transition c components) ''components'' = JObj components"
    "fld (demo_lock transition c components) ''auxiliaryArtifacts'' = JUndef" "fld (demo_lock transition c components) ''releaseBom'' = JUndef"
    by (simp_all add: demo_lock_def fld_obj map_add_def)
  show "set (own_keys (demo_lock transition c components)) \<subseteq> {''apiVersion'', ''kind'', ''channel'', ''releaseDigest'', ''resolvedAt'', ''source'', ''sourceRevision'',
        ''trust'', ''components'', ''releaseScope'', ''baseReleaseDigest'', ''changedComponents''}"
    using assms by (simp add: demo_lock_def own_keys_def) blast
qed

lemma demo_lock_header:
  "fld (demo_lock transition c components) ''apiVersion'' = JStr ''release.opensphere.io/v1alpha1''"
  "fld (demo_lock transition c components) ''kind'' = JStr ''OpenSphereReleaseLock''"
  "fld (demo_lock transition c components) ''channel'' = JStr ''edge''"
  "fld (demo_lock transition c components) ''releaseDigest'' = JStr (''sha256:'' @ replicate 64 (CHR ''0''))"
  "fld (demo_lock transition c components) ''source'' = JStr ''https://github.com/opensphere-platform/OpenSphere-console''"
  "fld (demo_lock transition c components) ''sourceRevision'' = JStr (replicate 40 c)"
  "fld (demo_lock transition c components) ''trust'' = LOCAL_EDGE_TRUST"
  "is_plain_object (demo_lock transition c components)"
  by (simp_all add: demo_lock_def fld_obj is_plain_object_def)

lemma str_or_empty_str [simp]: "str_or_empty (JStr s) = s"
  by (cases s) (auto simp: str_or_empty_def js_or_def)

lemma local_is_not_signed: "canonicalJson LOCAL_EDGE_TRUST \<noteq> canonicalJson RELEASE_TRUST"
proof -
  have "plain_json LOCAL_EDGE_TRUST" "plain_json RELEASE_TRUST"
    by (simp_all add: LOCAL_EDGE_TRUST_def RELEASE_TRUST_def)
  moreover have "sorted_value LOCAL_EDGE_TRUST \<noteq> sorted_value RELEASE_TRUST"
    by code_simp
  ultimately show ?thesis
    by (simp add: canonicalJson_def canonical_text_eq_iff)
qed

lemma demo_lock_checks:
  assumes "set (map fst transition) \<subseteq> {''releaseScope'', ''baseReleaseDigest'', ''changedComponents''}" and "c = CHR ''0'' \<or> c = CHR ''1''"
  shows "check_header (demo_lock transition c components) = Inr ()" and "check_trust (demo_lock transition c components) = Inr ()"
    and "check_bom (demo_lock transition c components) = Inr ()"
    and "fld (demo_lock transition c components) ''releaseDigest'' = JStr (calculateReleaseDigest demo_sha (demo_lock transition c components))"
proof -
  note f = demo_lock_flds [OF assms(1), of c components] demo_lock_header [of transition c components]
  have e: "local_edge (demo_lock transition c components)" "\<not> signed_release (demo_lock transition c components)"
    using local_is_not_signed by (simp_all add: local_edge_def signed_release_def f)
  have r: "REVISION_RE (replicate 40 c)"
    using zeros_ok assms(2) by auto
  show "check_header (demo_lock transition c components) = Inr ()"
    unfolding check_header_def rbind_eq_Inr guard_else_eq assertClosedObject_Inr f(5-11) str_or_empty_str
    by (intro exI conjI refl zeros_ok(1) r f(12) subset_trans [OF f(4)]) simp
  show "check_trust (demo_lock transition c components) = Inr ()"
    using e by (auto simp: check_trust_def rbind_eq_Inr assertClosedObject_Inr f LOCAL_EDGE_TRUST_def is_plain_object_def own_keys_def)
  show "check_bom (demo_lock transition c components) = Inr ()"
    using e by (auto simp: check_bom_def Let_def rbind_eq_Inr f)
  show "fld (demo_lock transition c components) ''releaseDigest'' = JStr (calculateReleaseDigest demo_sha (demo_lock transition c components))"
    by (simp add: f(8) calculateReleaseDigest_def demo_sha_def)
qed

lemma demo_artifact_ok:
  assumes "c = CHR ''0'' \<or> c = CHR ''1''" and "fld artifacts (fst nr) = demo_artifact c (snd nr)"
    and "snd nr \<noteq> []" and "low_letter (hd (snd nr)) \<or> digit_char (hd (snd nr))"
    and "list_all (\<lambda>c. low_letter c \<or> digit_char c \<or> c = CHR ''-'') (snd nr)"
    and "fld lock ''sourceRevision'' = JStr (replicate 40 c) \<or> release_scope lock \<noteq> JStr ''integrated'' \<and> fst nr \<notin> set changed"
  shows "check_artifact lock kind changed artifacts nr = Inr ()"
proof -
  have d: "is_sha256_ref (''sha256:'' @ replicate 64 c)" "REVISION_RE (replicate 40 c)"
    using assms(1) zeros_ok by auto
  have i: "IMAGE_RE (str_or_empty (fld (demo_artifact c (snd nr)) ''image'')) = Some (snd nr)"
    using IMAGE_RE_complete [OF assms(3-5) d(1)] by (simp add: demo_artifact_def fld_obj)
  have f: "fld (demo_artifact c (snd nr)) ''repository'' = JStr (snd nr)" "fld (demo_artifact c (snd nr)) ''sourceRevision'' = JStr (replicate 40 c)"
    "fld (demo_artifact c (snd nr)) ''registryCredentialsRequired'' = JBool False"
    "is_plain_object (demo_artifact c (snd nr))" "own_keys (demo_artifact c (snd nr)) = [''repository'', ''image'', ''sourceRevision'', ''registryCredentialsRequired'']"
    by (simp_all add: demo_artifact_def fld_obj is_plain_object_def own_keys_def)
  show ?thesis
    using assms(6) d(2) by (auto simp: check_artifact_def Let_def rbind_eq_Inr assertClosedObject_Inr assms(2) i f strict_eq_def is_object_def)
qed

lemma keys_demo_entries [simp]: "map fst (demo_entries c rs) = map fst rs"
  by (simp add: demo_entries_def comp_def)

lemma map_of_demo_entries: "map_of (demo_entries c rs) n = map_option (demo_artifact c) (map_of rs n)"
  by (induction rs) (auto simp: demo_entries_def)

definition repository_names :: "(string \<times> string) list \<Rightarrow> bool" where
  "repository_names rs = list_all (\<lambda>nr. snd nr \<noteq> [] \<and> (low_letter (hd (snd nr)) \<or> digit_char (hd (snd nr)))
     \<and> list_all (\<lambda>c. low_letter c \<or> digit_char c \<or> c = CHR ''-'') (snd nr)) rs"

lemma demo_names: "repository_names LEGACY_INSTALLED_COMPONENT_REPOSITORIES" "repository_names COMPONENT_REPOSITORIES"
  by code_simp+

lemma demo_sorted:
  "sort (map fst (demo_kept @ CANONICAL_AGENT_COMPONENTS)) = sort (map fst COMPONENT_REPOSITORIES)"
  "sort (map canonicalNameForInstalledComponent (map fst LEGACY_INSTALLED_COMPONENT_REPOSITORIES)) = sort (map fst COMPONENT_REPOSITORIES)"
  by code_simp+

lemma names_of_profile_sort: "sort names = sort (map fst rs) \<Longrightarrow> names_of_profile names rs"
  unfolding names_of_profile_def list_all_iff by (metis length_map length_sort set_sort)

lemma missing_name: "n \<in> set (map fst rs) \<Longrightarrow> n \<notin> set names \<Longrightarrow> \<not> names_of_profile names rs"
  by (auto simp: names_of_profile_def list_all_iff)

lemma component_counts: "length COMPONENT_REPOSITORIES = 15" "length TARGET_COMPONENT_REPOSITORIES = 18"
  by (simp_all add: COMPONENT_REPOSITORIES_def TARGET_COMPONENT_REPOSITORIES_def)

lemma not_target: "LEGACY_INSTALLED_COMPONENT_REPOSITORIES \<noteq> TARGET_COMPONENT_REPOSITORIES" "COMPONENT_REPOSITORIES \<noteq> TARGET_COMPONENT_REPOSITORIES"
  by code_simp+

lemma legacy_profile:
  assumes "own_keys v = map fst LEGACY_INSTALLED_COMPONENT_REPOSITORIES"
  shows "installedComponentProfile v True = profile_of LEGACY_INSTALLED_COMPONENT_REPOSITORIES ''installed-pre-osaa''"
proof -
  have "''osaaGateway'' \<notin> set (map fst LEGACY_INSTALLED_COMPONENT_REPOSITORIES)"
    by code_simp
  then have no: "\<not> names_of_profile (map fst LEGACY_INSTALLED_COMPONENT_REPOSITORIES) rs" if "''osaaGateway'' \<in> set (map fst rs)" for rs
    by (rule missing_name [OF that])
  have "list_all (\<lambda>rs. \<not> names_of_profile (map fst LEGACY_INSTALLED_COMPONENT_REPOSITORIES) rs) [TARGET_COMPONENT_REPOSITORIES, COMPONENT_REPOSITORIES,
      PRE_OSDST_COMPONENT_REPOSITORIES, PRE_REGISTRY_COMPONENT_REPOSITORIES]"
    by (rule list.pred_mono_strong [OF profiles_canonical]) (rule no)
  then show ?thesis
    using names_of_profile_sort [OF refl, of LEGACY_INSTALLED_COMPONENT_REPOSITORIES]
    unfolding installedComponentProfile_def assms Let_def list.pred_inject by (simp only: if_False if_True simp_thms)
qed

lemma canonical_profile:
  assumes "sort (own_keys v) = sort (map fst COMPONENT_REPOSITORIES)"
  shows "installedComponentProfile v allow = profile_of COMPONENT_REPOSITORIES ''canonical''"
proof -
  have "length (own_keys v) = 15"
    using assms component_counts(1) by (metis length_map length_sort)
  then show ?thesis
    using names_of_profile_sort [OF assms] component_counts(2)
    by (simp add: installedComponentProfile_def names_of_profile_def Let_def)
qed

lemma demo_components:
  assumes "components = JObj kvs" and "sort (map fst kvs) = sort (map fst rs)" and "fld lock ''components'' = components" and "repository_names rs"
    and "\<And>nr. nr \<in> set rs \<Longrightarrow> \<exists>c. (c = CHR ''0'' \<or> c = CHR ''1'') \<and> fld components (fst nr) = demo_artifact c (snd nr)
      \<and> (fld lock ''sourceRevision'' = JStr (replicate 40 c)
         \<or> release_scope lock \<noteq> JStr ''integrated'' \<and> fst nr \<notin> set (names_in (fld lock ''changedComponents'')))"
  shows "check_components lock \<lparr>pf_names = map fst rs, pf_repositories = rs, pf_identity = identity\<rparr> = Inr ()"
proof -
  have "set (map fst kvs) = set (map fst rs)"
    using assms(2) by (metis set_sort)
  moreover have "check_artifact lock ''component'' (names_in (fld lock ''changedComponents'')) components nr = Inr ()" if nr: "nr \<in> set rs" for nr
  proof -
    obtain c where c: "c = CHR ''0'' \<or> c = CHR ''1''" "fld components (fst nr) = demo_artifact c (snd nr)"
      "fld lock ''sourceRevision'' = JStr (replicate 40 c)
        \<or> release_scope lock \<noteq> JStr ''integrated'' \<and> fst nr \<notin> set (names_in (fld lock ''changedComponents''))"
      using assms(5) [OF nr] by (elim exE conjE)
    have r: "snd nr \<noteq> []" "low_letter (hd (snd nr)) \<or> digit_char (hd (snd nr))" "list_all (\<lambda>c. low_letter c \<or> digit_char c \<or> c = CHR ''-'') (snd nr)"
      using bspec [OF assms(4) [unfolded repository_names_def list_all_iff [of _ rs]] nr] by simp_all
    show ?thesis
      by (rule demo_artifact_ok [OF c(1,2) r c(3)])
  qed
  ultimately show ?thesis
    using assms(1-3) unfolding check_components_def Let_def rbind_eq_Inr assertClosedObject_Inr guard_else_eq check_all_Inr
    by (simp add: is_plain_object_def own_keys_def)
qed

lemma demo_base_ok: "validateReleaseLock demo_sha True demo_base = Inr demo_base"
proof (rule validateReleaseLock_intro)
  note f = demo_lock_flds [of "[]" "CHR ''0''" "demo_entries (CHR ''0'') LEGACY_INSTALLED_COMPONENT_REPOSITORIES", folded demo_base_def, simplified]
  note k = demo_lock_checks [of "[]" "CHR ''0''" "demo_entries (CHR ''0'') LEGACY_INSTALLED_COMPONENT_REPOSITORIES", folded demo_base_def, simplified]
  show "check_header demo_base = Inr ()" "check_trust demo_base = Inr ()" "check_bom demo_base = Inr ()"
    "fld demo_base ''releaseDigest'' = JStr (calculateReleaseDigest demo_sha demo_base)"
    "fld demo_base ''auxiliaryArtifacts'' = JUndef" "fld demo_base ''releaseBom'' = JUndef"
    by (fact f k)+
  have u: "fld demo_base ''releaseScope'' = JUndef" "fld demo_base ''baseReleaseDigest'' = JUndef" "fld demo_base ''changedComponents'' = JUndef"
    "fld demo_base ''changedAuxiliaryArtifacts'' = JUndef"
    by (simp_all add: demo_base_def demo_lock_def fld_obj)
  then have "release_scope demo_base = JStr ''integrated''"
    by (simp add: release_scope_def js_or_def)
  then show "check_scope True demo_base = Inr ()"
    using u by (simp add: check_scope_def rbind_eq_Inr)
  show "installedComponentProfile (fld demo_base ''components'') True = Some \<lparr>pf_names = map fst LEGACY_INSTALLED_COMPONENT_REPOSITORIES,
      pf_repositories = LEGACY_INSTALLED_COMPONENT_REPOSITORIES, pf_identity = ''installed-pre-osaa''\<rparr>"
    using legacy_profile [of "fld demo_base ''components''"] by (simp add: f(1) own_keys_def profile_of_def)
  show "check_components demo_base \<lparr>pf_names = map fst LEGACY_INSTALLED_COMPONENT_REPOSITORIES,
      pf_repositories = LEGACY_INSTALLED_COMPONENT_REPOSITORIES, pf_identity = ''installed-pre-osaa''\<rparr> = Inr ()"
  proof (rule demo_components [OF f(1)])
    fix nr assume "nr \<in> set LEGACY_INSTALLED_COMPONENT_REPOSITORIES"
    then have "map_of LEGACY_INSTALLED_COMPONENT_REPOSITORIES (fst nr) = Some (snd nr)"
      using profiles_distinct by (simp add: map_of_is_SomeI)
    then have "fld (fld demo_base ''components'') (fst nr) = demo_artifact (CHR ''0'') (snd nr)"
      by (simp add: f(1) fld_obj map_of_demo_entries)
    moreover have "fld demo_base ''sourceRevision'' = JStr (replicate 40 (CHR ''0''))"
      by (simp only: demo_base_def demo_lock_header)
    ultimately show "\<exists>c. (c = CHR ''0'' \<or> c = CHR ''1'') \<and> fld (fld demo_base ''components'') (fst nr) = demo_artifact c (snd nr)
      \<and> (fld demo_base ''sourceRevision'' = JStr (replicate 40 c)
         \<or> release_scope demo_base \<noteq> JStr ''integrated'' \<and> fst nr \<notin> set (names_in (fld demo_base ''changedComponents'')))"
      by blast
  qed (simp_all add: demo_names)
  show "pf_repositories \<lparr>pf_names = map fst LEGACY_INSTALLED_COMPONENT_REPOSITORIES,
      pf_repositories = LEGACY_INSTALLED_COMPONENT_REPOSITORIES, pf_identity = ''installed-pre-osaa''\<rparr> \<noteq> TARGET_COMPONENT_REPOSITORIES"
    using not_target(1) by simp
qed

lemma demo_target_flds:
  "fld demo_target ''components'' = JObj (demo_entries (CHR ''0'') demo_kept @ demo_entries (CHR ''1'') CANONICAL_AGENT_COMPONENTS)"
  "fld demo_target ''releaseScope'' = JStr ''component''" "fld demo_target ''baseReleaseDigest'' = JStr (''sha256:'' @ replicate 64 (CHR ''0''))"
  "fld demo_target ''changedComponents'' = names_value [''osaaGateway'', ''osaaGovernedAdapter'']"
  "fld demo_target ''changedAuxiliaryArtifacts'' = JUndef" "fld demo_target ''auxiliaryArtifacts'' = JUndef" "fld demo_target ''releaseBom'' = JUndef"
  "fld demo_target ''trust'' = LOCAL_EDGE_TRUST" "fld demo_target ''channel'' = JStr ''edge''" "release_scope demo_target = JStr ''component''"
  by (simp_all add: demo_target_def demo_lock_def fld_obj release_scope_def js_or_def)

lemma demo_kept_names:
  "list_all (\<lambda>nr. (nr \<in> set demo_kept \<or> nr \<in> set CANONICAL_AGENT_COMPONENTS)
     \<and> (nr \<in> set demo_kept \<longleftrightarrow> fst nr \<notin> {''osaaGateway'', ''osaaGovernedAdapter''})) COMPONENT_REPOSITORIES"
  by (simp add: demo_kept_def COMPONENT_REPOSITORIES_def CANONICAL_AGENT_COMPONENTS_def)

lemma demo_target_component:
  assumes "nr \<in> set COMPONENT_REPOSITORIES"
  shows "fld (fld demo_target ''components'') (fst nr)
    = demo_artifact (if fst nr \<in> {''osaaGateway'', ''osaaGovernedAdapter''} then CHR ''1'' else CHR ''0'') (snd nr)"
proof -
  have d: "distinct (map fst (demo_kept @ CANONICAL_AGENT_COMPONENTS))"
    using demo_sorted(1) profiles_distinct by (metis distinct_sort list.pred_inject(2))
  note n = bspec [OF demo_kept_names [unfolded list_all_iff] assms]
  have "(fst nr, demo_artifact (if fst nr \<in> {''osaaGateway'', ''osaaGovernedAdapter''} then CHR ''1'' else CHR ''0'') (snd nr))
      \<in> set (demo_entries (CHR ''0'') demo_kept @ demo_entries (CHR ''1'') CANONICAL_AGENT_COMPONENTS)"
    using n by (cases "nr \<in> set demo_kept") (auto simp: demo_entries_def)
  then show ?thesis
    using d unfolding demo_target_flds(1) fld_obj by (subst map_of_is_SomeI) simp_all
qed

lemma demo_target_ok: "validateReleaseLock demo_sha False demo_target = Inr demo_target"
proof (rule validateReleaseLock_intro)
  note k = demo_lock_checks [of "[(''releaseScope'', JStr ''component''), (''baseReleaseDigest'', JStr (''sha256:'' @ replicate 64 (CHR ''0''))),
       (''changedComponents'', names_value [''osaaGateway'', ''osaaGovernedAdapter''])]" "CHR ''1''"
      "demo_entries (CHR ''0'') demo_kept @ demo_entries (CHR ''1'') CANONICAL_AGENT_COMPONENTS", folded demo_target_def, OF _ disjI2 [OF refl]]
  show "check_header demo_target = Inr ()" "check_trust demo_target = Inr ()" "check_bom demo_target = Inr ()"
    "fld demo_target ''releaseDigest'' = JStr (calculateReleaseDigest demo_sha demo_target)"
    by (rule k, simp)+
  show "fld demo_target ''auxiliaryArtifacts'' = JUndef" "fld demo_target ''releaseBom'' = JUndef"
    by (fact demo_target_flds)+
  have keys: "own_keys (fld demo_target ''components'') = map fst (demo_kept @ CANONICAL_AGENT_COMPONENTS)"
    by (simp add: demo_target_flds(1) own_keys_def)
  show p: "installedComponentProfile (fld demo_target ''components'') False
      = Some \<lparr>pf_names = map fst COMPONENT_REPOSITORIES, pf_repositories = COMPONENT_REPOSITORIES, pf_identity = ''canonical''\<rparr>"
    using canonical_profile [of "fld demo_target ''components''" False] keys demo_sorted(1) by (simp add: profile_of_def)
  have "canonical_set (\<lambda>x. x \<in> JStr ` set (map fst COMPONENT_REPOSITORIES)) (names_value [''osaaGateway'', ''osaaGovernedAdapter''])"
    "canonical_set (\<lambda>x. to_str x \<in> fst ` set TARGET_AUXILIARY_ARTIFACT_REPOSITORIES) (JArr [])"
    by code_simp+
  then show "check_scope False demo_target = Inr ()"
    using zeros_ok(1) by (simp add: check_scope_def check_component_scope_def Let_def rbind_eq_Inr demo_target_flds(2-) p local_edge_def or_empty_array_def
      nullish_def assertShellArtifactSet_def names_in_def elems_def names_value_def is_name_def)
  show "check_components demo_target \<lparr>pf_names = map fst COMPONENT_REPOSITORIES, pf_repositories = COMPONENT_REPOSITORIES, pf_identity = ''canonical''\<rparr> = Inr ()"
  proof (rule demo_components [OF demo_target_flds(1)])
    show "sort (map fst (demo_entries (CHR ''0'') demo_kept @ demo_entries (CHR ''1'') CANONICAL_AGENT_COMPONENTS)) = sort (map fst COMPONENT_REPOSITORIES)"
      using demo_sorted(1) by simp
    fix nr assume nr: "nr \<in> set COMPONENT_REPOSITORIES"
    have "fld demo_target ''sourceRevision'' = JStr (replicate 40 (CHR ''1''))"
      by (simp only: demo_target_def demo_lock_header)
    then show "\<exists>c. (c = CHR ''0'' \<or> c = CHR ''1'') \<and> fld (fld demo_target ''components'') (fst nr) = demo_artifact c (snd nr)
      \<and> (fld demo_target ''sourceRevision'' = JStr (replicate 40 c)
         \<or> release_scope demo_target \<noteq> JStr ''integrated'' \<and> fst nr \<notin> set (names_in (fld demo_target ''changedComponents'')))"
      using demo_target_component [OF nr] by (intro exI [of _ "if fst nr \<in> {''osaaGateway'', ''osaaGovernedAdapter''} then CHR ''1'' else CHR ''0''"])
        (simp add: demo_target_flds(4,10))
  qed (simp_all add: demo_names)
  show "pf_repositories \<lparr>pf_names = map fst COMPONENT_REPOSITORIES, pf_repositories = COMPONENT_REPOSITORIES, pf_identity = ''canonical''\<rparr> \<noteq> TARGET_COMPONENT_REPOSITORIES"
    using not_target(2) by simp
qed

lemma demo_artifact_differs:
  assumes "c \<noteq> d"
  shows "\<not> sameComponent (demo_artifact c r) (demo_artifact d r')"
proof -
  have p: "plain_json (demo_artifact c r)" for c r
    by (simp add: demo_artifact_def)
  have m: "(''sourceRevision'', JStr (replicate 40 c)) \<in> set (obj_entries (sorted_value (demo_artifact d r))) \<longleftrightarrow> c = d" for c d r
    by (simp add: demo_artifact_def obj_entries_def)
  show ?thesis
    using assms m canonical_text_eq_iff [OF p p, of c r d r'] unfolding sameComponent_def canonicalJson_def by metis
qed

lemma demo_base_component:
  assumes "nr \<in> set LEGACY_INSTALLED_COMPONENT_REPOSITORIES"
  shows "fld (fld demo_base ''components'') (fst nr) = demo_artifact (CHR ''0'') (snd nr)"
proof -
  have "map_of LEGACY_INSTALLED_COMPONENT_REPOSITORIES (fst nr) = Some (snd nr)"
    using assms profiles_distinct by (simp add: map_of_is_SomeI)
  moreover have "fld demo_base ''components'' = JObj (demo_entries (CHR ''0'') LEGACY_INSTALLED_COMPONENT_REPOSITORIES)"
    by (simp add: demo_base_def demo_lock_def fld_obj)
  ultimately show ?thesis
    by (simp add: fld_obj map_of_demo_entries)
qed

lemma demo_installed:
  "list_all (\<lambda>nr. if fst nr \<in> {''osaaGateway'', ''osaaGovernedAdapter''}
       then installed_name True (fst nr) \<in> fst ` set LEGACY_INSTALLED_COMPONENT_REPOSITORIES
       else installed_name True (fst nr) = fst nr \<and> nr \<in> set LEGACY_INSTALLED_COMPONENT_REPOSITORIES) COMPONENT_REPOSITORIES"
  by code_simp

lemma demo_identity:
  "isAgentIdentityCutover (fld demo_base ''components'') (fld demo_target ''components'')" "hasLegacyInstalledAgentIdentity (fld demo_base ''components'')"
  by code_simp+

lemma demo_transition_ok: "validateReleaseTransition demo_sha demo_base demo_target = Inr demo_target"
proof -
  have f: "fld demo_base ''trust'' = LOCAL_EDGE_TRUST" "fld demo_base ''channel'' = JStr ''edge''" "fld demo_base ''auxiliaryArtifacts'' = JUndef"
    "fld demo_base ''releaseDigest'' = JStr (''sha256:'' @ replicate 64 (CHR ''0''))"
    by (simp_all add: demo_base_def demo_lock_def fld_obj)
  have a: "check_auxiliary_transition demo_base demo_target = Inr ()"
    by (simp add: check_auxiliary_transition_def Let_def rbind_eq_Inr f demo_target_flds own_keys_def introduces_iff same_names_iff)
  have bn: "base_names True demo_base = sort (map fst COMPONENT_REPOSITORIES)"
    using demo_sorted(2) by (simp add: base_names_def demo_base_def demo_lock_def fld_obj own_keys_def)
  have tn: "sort (own_keys (fld demo_target ''components'')) = sort (map fst COMPONENT_REPOSITORIES)"
    using demo_sorted(1) by (simp add: demo_target_flds(1) own_keys_def)
  have reg: "\<not> introduces ''registry'' (sort (map fst COMPONENT_REPOSITORIES)) names changed" for names changed
    by (simp add: introduces_iff COMPONENT_REPOSITORIES_def)
  have ch: "(fst nr \<in> {''osaaGateway'', ''osaaGovernedAdapter''})
      \<longleftrightarrow> \<not> sameComponent (fld (fld demo_base ''components'') (installed_name True (fst nr))) (fld (fld demo_target ''components'') (fst nr))"
    if nr: "nr \<in> set COMPONENT_REPOSITORIES" for nr
  proof (cases "fst nr \<in> {''osaaGateway'', ''osaaGovernedAdapter''}")
    case True
    then obtain l where "l \<in> set LEGACY_INSTALLED_COMPONENT_REPOSITORIES" "installed_name True (fst nr) = fst l"
      using bspec [OF demo_installed [unfolded list_all_iff] nr] by auto
    then show ?thesis
      using True demo_base_component [of l] demo_target_component [OF nr] demo_artifact_differs [of "CHR ''0''" "CHR ''1''"] by simp
  next
    case False
    then show ?thesis
      using bspec [OF demo_installed [unfolded list_all_iff] nr] demo_base_component [of nr] demo_target_component [OF nr] by (simp add: sameComponent_def)
  qed
  have "(n \<in> {''osaaGateway'', ''osaaGovernedAdapter''})
      \<longleftrightarrow> \<not> sameComponent (fld (fld demo_base ''components'') (installed_name True n)) (fld (fld demo_target ''components'') n)"
    if n: "n \<in> fst ` set COMPONENT_REPOSITORIES" for n
    using n by (elim imageE) (simp only: ch)
  then have "check_component_transition demo_base demo_target = Inr ()"
    unfolding check_component_transition_def Let_def tn
    by (simp add: demo_identity bn tn rbind_eq_Inr demo_target_flds(4) same_names_iff reg check_all_Inr check_changed_Inr CANONICAL_AGENT_COMPONENTS_def)
  then show ?thesis
    using a demo_base_ok demo_target_ok
    by (simp add: validateReleaseTransition_def rbind_def f demo_target_flds(2-) strict_eq_def is_object_def guard_else_def)
qed

lemma spread_distinct: "distinct (map fst xs) \<Longrightarrow> fst ` set ys \<inter> fst ` set xs = {} \<Longrightarrow> spread ys xs = ys @ xs"
proof (induction xs arbitrary: ys)
  case (Cons x xs)
  have "upsert (fst x) (snd x) ys = ys @ [x]"
    using Cons.prems(2) by (induction ys) auto
  then show ?case
    using Cons.IH [of "ys @ [x]"] Cons.prems by (auto simp: spread_def case_prod_beta)
qed (simp add: spread_def)

lemma upsert_append: "k \<notin> fst ` set xs \<Longrightarrow> upsert k v (xs @ ys) = xs @ upsert k v ys"
  by (induction xs) auto

lemma demo_carried: "carried_components True demo_base
    = demo_entries (CHR ''0'') demo_kept @ demo_entries (CHR ''0'') [(''osaaGateway'', ''opensphere-console-oaa-gateway''), (''osaaGovernedAdapter'', ''opensphere-oaa-governed-adapter'')]"
proof -
  have rn: "map (\<lambda>nr. (canonicalNameForInstalledComponent (fst nr), snd nr)) LEGACY_INSTALLED_COMPONENT_REPOSITORIES
      = demo_kept @ [(''osaaGateway'', ''opensphere-console-oaa-gateway''), (''osaaGovernedAdapter'', ''opensphere-oaa-governed-adapter'')]" (is "_ = ?renamed")
    by code_simp
  have e: "demo_entries (CHR ''0'') ?renamed = map (\<lambda>(n, c). (canonicalNameForInstalledComponent n, c)) (demo_entries (CHR ''0'') LEGACY_INSTALLED_COMPONENT_REPOSITORIES)"
    unfolding rn [symmetric] demo_entries_def by (simp add: comp_def)
  have d: "distinct (map fst ?renamed)"
    by code_simp
  have "carried_components True demo_base = spread [] (demo_entries (CHR ''0'') ?renamed)"
    unfolding e by (simp add: carried_components_def demo_base_def demo_lock_def fld_obj obj_entries_def case_prod_beta)
  also have "\<dots> = demo_entries (CHR ''0'') ?renamed"
    using d by (subst spread_distinct) (simp_all only: keys_demo_entries append_Nil list.set image_empty Int_empty_left)
  finally show ?thesis
    by (simp add: demo_entries_def)
qed

lemma agents_listed: "list_all (\<lambda>nr. map_of COMPONENT_REPOSITORIES (fst nr) = Some (snd nr)) CANONICAL_AGENT_COMPONENTS"
  by code_simp

lemma demo_evidence_artifact:
  assumes "(name, repository) \<in> set CANONICAL_AGENT_COMPONENTS"
  shows "evidence_artifact label kind (JObj [(''image'', JStr (''sha256:'' @ replicate 64 (CHR ''1'')))]) (demo_artifact c r) (JStr (replicate 40 (CHR ''1'')))
     COMPONENT_REPOSITORIES name = Inr (demo_artifact (CHR ''1'') repository)"
proof -
  have m: "map_of COMPONENT_REPOSITORIES name = Some repository"
    using assms agents_listed unfolding list_all_iff by fastforce
  then have "(name, repository) \<in> set COMPONENT_REPOSITORIES"
    by (rule map_of_SomeD)
  then have i: "IMAGE_RE (''ghcr.io/opensphere-platform/'' @ repository @ ''@'' @ ''sha256:'' @ replicate 64 (CHR ''1'')) = Some repository"
    using demo_names(2) zeros_ok(2) by (intro IMAGE_RE_complete) (auto simp: repository_names_def list_all_iff)
  have t: "trim (''sha256:'' @ replicate 64 (CHR ''1'')) = ''sha256:'' @ replicate 64 (CHR ''1'')"
    by code_simp
  have "normalizeComponentImage name (JStr (''sha256:'' @ replicate 64 (CHR ''1''))) COMPONENT_REPOSITORIES
      = Inr (''ghcr.io/opensphere-platform/'' @ repository @ ''@'' @ ''sha256:'' @ replicate 64 (CHR ''1''))"
    unfolding normalizeComponentImage_def Let_def m str_or_empty_str t option.case using i zeros_ok(2) by (simp only: if_True option.distinct simp_thms)
  then show ?thesis
    by (simp add: evidence_artifact_def rbind_def assertClosedObject_def is_plain_object_def own_keys_def Let_def guard_else_def fld_obj m demo_artifact_def
      nullish_def)
qed

lemma agents_installed: "list_all (\<lambda>n. installed_name True n \<in> fst ` set LEGACY_INSTALLED_COMPONENT_REPOSITORIES) (map fst CANONICAL_AGENT_COMPONENTS)"
  by code_simp

lemma agents_not_kept: "''osaaGateway'' \<notin> fst ` set demo_kept" "''osaaGovernedAdapter'' \<notin> fst ` set demo_kept"
  by code_simp+

lemma demo_build: "buildComponentReleaseLock demo_sha demo_base demo_evidence (Fin 0) = Inr demo_target"
proof -
  let ?item = "JObj [(''image'', JStr (''sha256:'' @ replicate 64 (CHR ''1'')))]"
  have f: "fld demo_base ''trust'' = LOCAL_EDGE_TRUST" "fld demo_base ''channel'' = JStr ''edge''" "fld demo_base ''auxiliaryArtifacts'' = JUndef"
    "fld demo_base ''releaseDigest'' = JStr (''sha256:'' @ replicate 64 (CHR ''0''))"
    "fld demo_base ''components'' = JObj (demo_entries (CHR ''0'') LEGACY_INSTALLED_COMPONENT_REPOSITORIES)"
    by (simp_all add: demo_base_def demo_lock_def fld_obj)
  have g: "fld demo_evidence ''components'' = JObj [(''osaaGovernedAdapter'', ?item), (''osaaGateway'', ?item)]"
    "fld demo_evidence ''auxiliaryArtifacts'' = JUndef" "fld demo_evidence ''sourceRevision'' = JStr (replicate 40 (CHR ''1''))"
    by (simp_all add: demo_evidence_def fld_obj)
  have ek: "is_plain_object demo_evidence" "own_keys demo_evidence = [''sourceRevision'', ''components'']"
    by (simp_all add: demo_evidence_def is_plain_object_def own_keys_def)
  have p: "component_profile demo_base = COMPONENT_REPOSITORIES"
    using legacy_profile [of "fld demo_base ''components''"] not_target(1)
    by (simp add: component_profile_def f own_keys_def profile_of_def)
  have o: "or_empty_object (fld demo_evidence ''components'') = JObj [(''osaaGovernedAdapter'', ?item), (''osaaGateway'', ?item)]"
    "or_empty_object (fld demo_evidence ''auxiliaryArtifacts'') = JObj []"
    by (simp_all add: or_empty_object_def g nullish_def)
  have s: "sort [''osaaGovernedAdapter'', ''osaaGateway''] = [''osaaGateway'', ''osaaGovernedAdapter'']"
    by code_simp
  have k: "set [''osaaGovernedAdapter'', ''osaaGateway''] \<subseteq> fst ` set COMPONENT_REPOSITORIES"
    by code_simp
  have ce: "check_evidence demo_base demo_evidence = Inr ()"
    unfolding check_evidence_def Let_def o p g(3) assertClosedObject_Inr rbind_eq_Inr guard_else_eq local_edge_def f(1,2) str_or_empty_str
    unfolding ek(2) using zeros_ok(4) k ek(1) [unfolded is_plain_object_def] by (simp add: is_plain_object_def own_keys_def assertShellArtifactSet_def CANONICAL_AGENT_COMPONENTS_def)
  have ga: "evidence_artifact l q ?item (fld (fld demo_base ''components'') (installed_name True name)) (JStr (replicate 40 (CHR ''1''))) COMPONENT_REPOSITORIES name
      = Inr (demo_artifact (CHR ''1'') r)" if "(name, r) \<in> set CANONICAL_AGENT_COMPONENTS" for l q name r
  proof -
    have "installed_name True name \<in> fst ` set LEGACY_INSTALLED_COMPONENT_REPOSITORIES"
      using bspec [OF agents_installed [unfolded list_all_iff], of name] image_eqI [OF _ that, of name fst] by simp
    then show ?thesis
      using demo_base_component demo_evidence_artifact [OF that] by (elim imageE) metis
  qed
  have a: "(''osaaGateway'', ''opensphere-console-osaa-gateway'') \<in> set CANONICAL_AGENT_COMPONENTS"
    "(''osaaGovernedAdapter'', ''opensphere-osaa-governed-adapter'') \<in> set CANONICAL_AGENT_COMPONENTS"
    by (simp_all add: CANONICAL_AGENT_COMPONENTS_def)
  have i: "to_iso_string (Fin 0) = Inr ''1970-01-01T00:00:00.000Z''"
    by code_simp
  have "apply_evidence (\<lambda>name. evidence_artifact ''componentEvidence.components'' ''component'' (fld (JObj [(''osaaGovernedAdapter'', ?item), (''osaaGateway'', ?item)]) name)
         (fld (fld demo_base ''components'') (installed_name True name)) (JStr (replicate 40 (CHR ''1''))) COMPONENT_REPOSITORIES name)
         [''osaaGateway'', ''osaaGovernedAdapter''] (carried_components True demo_base)
      = Inr (demo_entries (CHR ''0'') demo_kept @ demo_entries (CHR ''1'') CANONICAL_AGENT_COMPONENTS)"
    using agents_not_kept by (simp add: fld_obj ga [OF a(1), simplified append.simps] ga [OF a(2), simplified append.simps] rbind_def demo_carried upsert_append demo_entries_def image_image CANONICAL_AGENT_COMPONENTS_def)
  moreover have "component_lock demo_sha demo_base (JStr (replicate 40 (CHR ''1''))) [''osaaGateway'', ''osaaGovernedAdapter''] []
      (demo_entries (CHR ''0'') demo_kept @ demo_entries (CHR ''1'') CANONICAL_AGENT_COMPONENTS) [] ''1970-01-01T00:00:00.000Z'' = demo_target"
    by (simp add: component_lock_def Let_def f(4) demo_target_def demo_lock_def calculateReleaseDigest_def demo_sha_def)
  ultimately show ?thesis
    unfolding buildComponentReleaseLock_def Let_def o g(3) p f(3)
    using demo_base_ok ce demo_transition_ok demo_identity(2) s i by (simp add: rbind_def own_keys_def obj_entries_def p f(3) del: apply_evidence.simps(2))
qed

theorem accepted_lock_pins_every_component_witness:
  "\<exists>repositories. sort (own_keys (fld demo_base ''components'')) = sort (map fst repositories)
    \<and> (\<forall>(name, repository) \<in> set repositories. exact_image repository (str_or_empty (fld (fld (fld demo_base ''components'') name) ''image'')))"
  using accepted_lock_pins_every_component [OF demo_base_ok] by fast

theorem component_transition_declares_exactly_what_changes_witness:
  "validateReleaseTransition demo_sha demo_base demo_target = Inr demo_target
   \<and> fld demo_target ''baseReleaseDigest'' = JStr (calculateReleaseDigest demo_sha demo_base)"
  using component_transition_declares_exactly_what_changes [OF demo_transition_ok demo_target_flds(10) refl refl] demo_transition_ok by blast

theorem generated_lock_is_an_accepted_transition_witness:
  "buildComponentReleaseLock demo_sha demo_base demo_evidence (Fin 0) = Inr demo_target
   \<and> validateReleaseTransition demo_sha demo_base demo_target = Inr demo_target"
  using generated_lock_is_an_accepted_transition [OF demo_build refl refl] demo_build by blast

definition demo_desired :: jsval where
  "demo_desired = JObj [(''contract'', JStr ''opensphere.platform.release/v1''),
     (''previousReleaseDigest'', JStr (''sha256:'' @ replicate 64 (CHR ''0''))), (''targetLock'', demo_target)]"

lemma demo_desired_flds:
  "fld demo_desired ''contract'' = JStr ''opensphere.platform.release/v1''"
  "fld demo_desired ''previousReleaseDigest'' = JStr (''sha256:'' @ replicate 64 (CHR ''0''))" "fld demo_desired ''targetLock'' = demo_target"
  "is_plain_object demo_desired" "own_keys demo_desired = [''contract'', ''previousReleaseDigest'', ''targetLock'']"
  by (simp_all add: demo_desired_def fld_obj is_plain_object_def own_keys_def)

lemma demo_desired_ok: "\<exists>v. validatePlatformReleaseDesiredState demo_sha demo_desired = Inr v"
  unfolding validatePlatformReleaseDesiredState_def demo_desired_flds str_or_empty_str
  using zeros_ok(1) demo_target_ok by (auto simp: rbind_eq_Inr assertClosedObject_Inr demo_desired_flds)

theorem approval_is_waived_exactly_for_component_apply_witness:
  "\<exists>policy. platformReleaseApprovalPolicy demo_sha (JStr ''Apply'') demo_desired = Inr policy \<and> ap_requiredHumanApprovals policy = 0 \<and> ap_autoMerge policy"
proof -
  obtain policy where p: "platformReleaseApprovalPolicy demo_sha (JStr ''Apply'') demo_desired = Inr policy"
    using demo_desired_ok by (auto simp: platformReleaseApprovalPolicy_def rbind_eq_Inr Let_def)
  have "to_lower (str_or_empty (JStr ''Apply'')) = ''apply''"
    by code_simp
  then show ?thesis
    using approval_is_waived_exactly_for_component_apply [OF p] p unfolding demo_desired_flds demo_target_flds by auto
qed

theorem components_are_compared_up_to_property_order_witness:
  "sameComponent (JObj [(''repository'', JStr ''opensphere-osdst''), (''registryCredentialsRequired'', JBool False)])
     (JObj [(''registryCredentialsRequired'', JBool False), (''repository'', JStr ''opensphere-osdst'')])"
proof -
  let ?l = "JObj [(''repository'', JStr ''opensphere-osdst''), (''registryCredentialsRequired'', JBool False)]"
    and ?r = "JObj [(''registryCredentialsRequired'', JBool False), (''repository'', JStr ''opensphere-osdst'')]"
  have "sorted_value ?l = sorted_value ?r"
    by code_simp
  then show ?thesis
    using components_are_compared_up_to_property_order [of ?l ?r] by simp
qed

end
