(* ===== verification/ReleaseReconciler.thy ===== *)
theory ReleaseReconciler
  imports ReleaseContract NotificationContract
begin

text \<open>
  The platform release reconciler, \<open>src/apps/console-api/runtime/platform-release-reconciler.js\<close>: it claims one approved change, reads its
  manifest at the claimed commit, and creates the executor Job; a change it cannot dispatch is answered with a failure receipt.

  The record \<open>reconciler\<close> holds the module's constants.  \<open>fetch\<close>, \<open>response.text\<close>, the clock and the file system are calls on the environment, so
  a timeout is an answer that throws; \<open>JSON.parse\<close> and the decoding of base64 are parameters.  The four status variables of the module are the
  state.  What is written to the console is left out, and so is the waiting between two iterations.
\<close>

record reconciler =
  rc_env :: environment
  rc_parse :: "string \<Rightarrow> jsval + jsval"
  rc_base64 :: "string \<Rightarrow> string"
  rc_sha :: "string \<Rightarrow> string"
  BACKEND_URL :: string
  GITEA_URL :: string
  GITEA_ORGANIZATION :: string
  GITEA_REPOSITORY :: string
  GITEA_PATH :: string
  GITEA_TOKEN :: string
  RECONCILER_TOKEN :: string
  EXECUTOR_IMAGE :: string
  APISERVER :: string

record rstate = fx +
  lastClaimAt :: jsval
  lastDispatchAt :: jsval
  lastError :: jsval
  activeRequestId :: jsval

type_synonym 'a rprog = "(rstate, jsval, 'a) prog"

definition COMMIT_RE :: "string \<Rightarrow> bool" where
  "COMMIT_RE s \<longleftrightarrow> 40 \<le> length s \<and> length s \<le> 64 \<and> list_all hex_char s"

definition EXECUTOR_IMAGE_RE :: "string \<Rightarrow> bool" where
  "EXECUTOR_IMAGE_RE s \<longleftrightarrow> starts_with ''ghcr.io/opensphere-platform/opensphere-console-backend@'' s
     \<and> is_sha256_ref (drop (length ''ghcr.io/opensphere-platform/opensphere-console-backend@'') s)"

definition serviceAccountToken :: "reconciler \<Rightarrow> string rprog" where
  "serviceAccountToken c =
     pbind (call (rc_env c) ''fs.readFileSync'' [JStr ''/var/run/secrets/kubernetes.io/serviceaccount/token'']) (\<lambda>t. pret (trim (to_str t)))"

definition encodedPath :: "string \<Rightarrow> string" where
  "encodedPath v = join ''/'' (map encode_uri (split_on (CHR ''/'') v))"

definition response_body :: "reconciler \<Rightarrow> string \<Rightarrow> jsval" where
  \<comment> \<open>\<open>try { body = text ? JSON.parse(text) : {} } catch { body = { raw: text } }\<close>\<close>
  "response_body c text = (if text = [] then JObj [] else case rc_parse c text of Inr v \<Rightarrow> v | Inl _ \<Rightarrow> JObj [(''raw'', JStr text)])"

definition jsonRequest :: "reconciler \<Rightarrow> string \<Rightarrow> jsval \<Rightarrow> jsval rprog" where
  "jsonRequest c url options =
     pbind (call (rc_env c) ''fetch'' [JStr url, options]) (\<lambda>response.
     pbind (call (rc_env c) ''response.text'' [response]) (\<lambda>text.
     let body = response_body c (to_str text) in
     if truthy (fld response ''ok'') then pret body
     else pthrow (js_error (to_str (js_or (js_or (fld body ''error'') (fld body ''message'')) (JStr (''HTTP '' @ to_str (fld response ''status'')))))
       [(''status'', fld response ''status'')])))"

definition kubernetesRequest :: "reconciler \<Rightarrow> string \<Rightarrow> string \<Rightarrow> jsval \<Rightarrow> jsval rprog" where
  "kubernetesRequest c method path body =
     pbind (serviceAccountToken c) (\<lambda>token.
     pbind (call (rc_env c) ''fetch'' [JStr (APISERVER c @ path), JObj [(''method'', JStr method),
        (''headers'', JObj ([(''authorization'', JStr (''Bearer '' @ token)), (''accept'', JStr ''application/json'')]
           @ (if body = JUndef then [] else [(''content-type'', JStr ''application/json'')]))),
        (''body'', if body = JUndef then JUndef else JStr (json_text body))]]) (\<lambda>response.
     pbind (call (rc_env c) ''response.text'' [response]) (\<lambda>text.
     let parsed = response_body c (to_str text) in
     if truthy (fld response ''ok'') then pret parsed
     else pthrow (js_error (to_str (js_or (fld parsed ''message'') (JStr (''Kubernetes HTTP '' @ to_str (fld response ''status'')))))
       [(''status'', fld response ''status'')]))))"

section \<open>The governed manifest\<close>

definition without_prefix :: "string \<Rightarrow> string \<Rightarrow> string" where
  "without_prefix p s = (if starts_with p s then drop (length p) s else s)"

definition validateGovernedManifest :: "(string \<Rightarrow> string) \<Rightarrow> jsval \<Rightarrow> jsval \<Rightarrow> jsval + jsval" where
  "validateGovernedManifest sha manifest work =
     (let spec = fld manifest ''spec'' in
      rbind (guard_else (reject ''unsupported governed manifest'')
        (fld manifest ''apiVersion'' = JStr ''platform.opensphere.io/v1alpha1'' \<and> fld manifest ''kind'' = JStr ''GovernedChange'')) (\<lambda>_.
      rbind (guard_else (reject ''Platform Release governed manifest identity mismatch'')
        (strict_eq (fld (fld manifest ''metadata'') ''requestId'') (fld work ''request_id'')
         \<and> fld (fld manifest ''metadata'') ''consumerId'' = JStr ''platform-release'')) (\<lambda>_.
      rbind (guard_else (reject ''Platform Release governed manifest claim mismatch'')
        (fld spec ''action'' \<in> set [JStr ''apply'', JStr ''rollback''] \<and> fld spec ''target'' = JStr ''opensphere-platform''
         \<and> fld spec ''action'' = JStr (without_prefix ''gitea:'' (str_or_empty (fld work ''action'')))
         \<and> strict_eq (fld spec ''target'') (fld work ''target'') \<and> strict_eq (fld spec ''reason'') (fld work ''reason''))) (\<lambda>_.
      rbind (validatePlatformReleaseDesiredState sha (fld spec ''desiredState'')) (\<lambda>_.
      Inr manifest)))))"

definition contents_url :: "reconciler \<Rightarrow> jsval \<Rightarrow> string" where
  "contents_url c work =
     GITEA_URL c @ ''/api/v1/repos/'' @ encode_uri (GITEA_ORGANIZATION c) @ ''/'' @ encode_uri (GITEA_REPOSITORY c)
     @ ''/contents/'' @ encodedPath (GITEA_PATH c @ ''/requests/'' @ to_str (fld work ''request_id'') @ ''.json'')
     @ ''?ref='' @ encode_uri (to_str (fld work ''git_commit_sha''))"

definition loadManifest :: "reconciler \<Rightarrow> jsval \<Rightarrow> jsval rprog" where
  "loadManifest c work =
     pbind (pguard (reject ''claimed Platform Release change reference is invalid'')
       (is_uuid (str_or_empty (fld work ''request_id'')) \<and> COMMIT_RE (str_or_empty (fld work ''git_commit_sha'')))) (\<lambda>_.
     pbind (pguard (reject ''claimed repository is outside the Platform Release contract'')
       (fld work ''git_repo'' = JStr (GITEA_ORGANIZATION c @ ''/'' @ GITEA_REPOSITORY c))) (\<lambda>_.
     pbind (jsonRequest c (contents_url c work)
       (JObj [(''headers'', JObj [(''authorization'', JStr (''token '' @ GITEA_TOKEN c)), (''accept'', JStr ''application/json'')])])) (\<lambda>file.
     pbind (plift (get_prop file ''content'')) (\<lambda>content.
     pbind (plift (rc_parse c (rc_base64 c (filter (\<lambda>x. \<not> ws x) (str_or_empty content))))) (\<lambda>manifest.
     plift (validateGovernedManifest (rc_sha c) manifest work))))))"

definition claimWork :: "reconciler \<Rightarrow> jsval rprog" where
  "claimWork c =
     pbind (jsonRequest c (BACKEND_URL c @ ''/api/platform/reconcile/next'') (JObj [(''method'', JStr ''POST''),
        (''headers'', JObj [(''content-type'', JStr ''application/json''), (''x-opensphere-reconciler-token'', JStr (RECONCILER_TOKEN c))]),
        (''body'', JStr (json_text (JObj [(''reconciler'', JStr ''platform-release-reconciler''), (''limit'', JInt 1)])))])) (\<lambda>response.
     pbind (call (rc_env c) ''Date.now'' []) (\<lambda>now.
     pbind (plift (to_iso_string (to_num now))) (\<lambda>at_time.
     pbind (pmod (\<lambda>s. s\<lparr>lastClaimAt := JStr at_time, lastError := JNull\<rparr>)) (\<lambda>_.
     pbind (plift (get_prop response ''items'')) (\<lambda>items.
     pret (or_null (first_row items)))))))"

section \<open>The executor Job\<close>

definition env_entry :: "string \<Rightarrow> jsval \<Rightarrow> jsval" where
  "env_entry name v = JObj [(''name'', JStr name), (''value'', v)]"

definition secret_entry :: "string \<Rightarrow> string \<Rightarrow> jsval" where
  "secret_entry name k = JObj [(''name'', JStr name),
     (''valueFrom'', JObj [(''secretKeyRef'', JObj [(''name'', JStr ''opensphere-gitea-control-plane''), (''key'', JStr k)])])]"

definition executor_container :: "reconciler \<Rightarrow> jsval \<Rightarrow> jnum \<Rightarrow> jsval \<Rightarrow> jsval" where
  "executor_container c work attempt desired = JObj [(''name'', JStr ''executor''), (''image'', JStr (EXECUTOR_IMAGE c)), (''imagePullPolicy'', JStr ''IfNotPresent''),
     (''command'', JArr [JStr ''node'', JStr ''/app/opensphere-console-backend/platform-release-executor.mjs'']),
     (''env'', JArr [env_entry ''HOME'' (JStr ''/tmp/home''),
        env_entry ''NODE_EXTRA_CA_CERTS'' (JStr ''/var/run/secrets/kubernetes.io/serviceaccount/ca.crt''),
        env_entry ''CONSOLE_BACKEND_URL'' (JStr (BACKEND_URL c)), env_entry ''GITEA_URL'' (JStr (GITEA_URL c)),
        env_entry ''GITEA_ORGANIZATION'' (JStr (GITEA_ORGANIZATION c)), env_entry ''GITEA_REPOSITORY'' (JStr (GITEA_REPOSITORY c)),
        env_entry ''GITEA_PATH'' (JStr (GITEA_PATH c)), env_entry ''REQUEST_ID'' (fld work ''request_id''),
        env_entry ''GIT_COMMIT_SHA'' (fld work ''git_commit_sha''), env_entry ''ATTEMPT'' (JStr (num_str attempt)),
        env_entry ''EXPECTED_PREVIOUS_RELEASE_DIGEST'' (fld desired ''previousReleaseDigest''),
        secret_entry ''GITEA_TOKEN'' ''token'', secret_entry ''RECONCILER_TOKEN'' ''reconciler-token'']),
     (''volumeMounts'', JArr [JObj [(''name'', JStr ''tmp''), (''mountPath'', JStr ''/tmp'')],
        JObj [(''name'', JStr ''ghcr''), (''mountPath'', JStr ''/var/run/secrets/opensphere-ghcr''), (''readOnly'', JBool True)]]),
     (''resources'', JObj [(''requests'', JObj [(''cpu'', JStr ''100m''), (''memory'', JStr ''192Mi'')]),
        (''limits'', JObj [(''cpu'', JStr ''2''), (''memory'', JStr ''1Gi'')])]),
     (''securityContext'', JObj [(''runAsNonRoot'', JBool True), (''allowPrivilegeEscalation'', JBool False), (''readOnlyRootFilesystem'', JBool True),
        (''capabilities'', JObj [(''drop'', JArr [JStr ''ALL''])])])]"

definition executor_pod :: "reconciler \<Rightarrow> jsval \<Rightarrow> jnum \<Rightarrow> jsval \<Rightarrow> jsval" where
  "executor_pod c work attempt desired = JObj [
     (''metadata'', JObj [(''labels'', JObj [(''app'', JStr ''platform-release-executor''), (''opensphere.io/request-id'', fld work ''request_id'')])]),
     (''spec'', JObj [(''serviceAccountName'', JStr ''platform-release-executor''), (''restartPolicy'', JStr ''Never''),
        (''imagePullSecrets'', JArr [JObj [(''name'', JStr ''opensphere-ghcr-pull'')]]),
        (''containers'', JArr [executor_container c work attempt desired]),
        (''volumes'', JArr [JObj [(''name'', JStr ''tmp''), (''emptyDir'', JObj [])],
           JObj [(''name'', JStr ''ghcr''), (''secret'', JObj [(''secretName'', JStr ''opensphere-ghcr-pull''), (''optional'', JBool True),
              (''items'', JArr [JObj [(''key'', JStr ''.dockerconfigjson''), (''path'', JStr ''config.json'')]])])]])])]"

definition executorJob :: "reconciler \<Rightarrow> jsval \<Rightarrow> jsval \<Rightarrow> jsval + jsval" where
  \<comment> \<open>the manifest has been validated, so its \<open>spec\<close> is there\<close>
  "executorJob c work manifest =
     rbind (validatePlatformReleaseDesiredState (rc_sha c) (fld (fld manifest ''spec'') ''desiredState'')) (\<lambda>desired.
     let attempt = to_num (fld work ''attempt'') in
     rbind (guard_else (reject ''claimed Platform Release attempt is invalid'')
       (num_is_integer attempt \<and> \<not> num_less attempt (Fin 1) \<and> \<not> num_less (Fin 9999) attempt)) (\<lambda>_.
     Inr (JObj [(''apiVersion'', JStr ''batch/v1''), (''kind'', JStr ''Job''),
       (''metadata'', JObj [(''name'', JStr (''platform-release-'' @ to_str (fld work ''request_id'') @ ''-a'' @ num_str attempt)),
          (''namespace'', JStr ''opensphere-console''),
          (''labels'', JObj [(''app'', JStr ''platform-release-executor''), (''app.kubernetes.io/part-of'', JStr ''opensphere-console''),
             (''opensphere.io/request-id'', fld work ''request_id'')])]),
       (''spec'', JObj [(''backoffLimit'', JInt 0), (''activeDeadlineSeconds'', JInt 2700), (''ttlSecondsAfterFinished'', JInt 86400),
          (''template'', executor_pod c work attempt desired)])])))"

section \<open>Dispatch\<close>

definition jobs_path :: string where
  "jobs_path = ''/apis/batch/v1/namespaces/opensphere-console/jobs''"

definition create_job :: "reconciler \<Rightarrow> jsval \<Rightarrow> unit rprog" where
  \<comment> \<open>a Job of this name that is already there is the one of an earlier dispatch\<close>
  "create_job c job =
     pcatch (pbind (kubernetesRequest c ''POST'' jobs_path job) (\<lambda>_. pret ()))
       (\<lambda>error. if fld error ''status'' = JInt 409 then pret () else pthrow error)"

definition note_dispatch :: "reconciler \<Rightarrow> unit rprog" where
  "note_dispatch c =
     pbind (call (rc_env c) ''Date.now'' []) (\<lambda>now.
     pbind (plift (to_iso_string (to_num now))) (\<lambda>at_time.
     pmod (\<lambda>s. s\<lparr>lastDispatchAt := JStr at_time, lastError := JNull\<rparr>)))"

definition dispatch :: "reconciler \<Rightarrow> jsval \<Rightarrow> unit rprog" where
  "dispatch c work =
     pbind (loadManifest c work) (\<lambda>manifest.
     pbind (plift (executorJob c work manifest)) (\<lambda>job.
     pbind (create_job c job) (\<lambda>_.
     note_dispatch c)))"

definition error_text :: "jsval \<Rightarrow> string" where
  \<comment> \<open>\<open>String(error?.message || error)\<close>; an error without a message prints its name\<close>
  "error_text error =
     (if truthy (fld error ''message'') then to_str (fld error ''message'')
      else case fld error ''name'' of JStr n \<Rightarrow> n | _ \<Rightarrow> to_str error)"

definition receipt_body :: "jsval \<Rightarrow> jsval \<Rightarrow> jsval" where
  "receipt_body work error = JObj [(''requestId'', fld work ''request_id''),
     (''operationId'', JStr (take 255 (to_str (fld work ''request_id'') @ '':'' @ to_str (fld work ''git_commit_sha'') @ '':dispatch:'' @ to_str (fld work ''attempt'')))),
     (''reconciler'', JStr ''platform-release-reconciler''), (''desiredRevision'', or_null (fld work ''desired_revision'')), (''appliedRevision'', JNull),
     (''succeeded'', JBool False), (''result'', JStr (take 1800 (error_text error))),
     (''evidence'', JObj [(''stage'', JStr ''dispatch''), (''errorCode'', JStr ''platform-release-dispatch-failed'')])]"

definition sendDispatchFailure :: "reconciler \<Rightarrow> jsval \<Rightarrow> jsval \<Rightarrow> jsval rprog" where
  "sendDispatchFailure c work error =
     jsonRequest c (BACKEND_URL c @ ''/api/platform/reconcile/receipt'') (JObj [(''method'', JStr ''POST''),
        (''headers'', JObj [(''content-type'', JStr ''application/json''), (''x-opensphere-reconciler-token'', JStr (RECONCILER_TOKEN c))]),
        (''body'', JStr (json_text (receipt_body work error)))])"

record readiness =
  rd_ready :: bool
  rd_blocker :: jsval

definition reconcilerReadiness :: "reconciler \<Rightarrow> readiness rprog" where
  "reconcilerReadiness c =
     pbind (if GITEA_TOKEN c \<noteq> [] \<and> RECONCILER_TOKEN c \<noteq> []
            then call (rc_env c) ''fs.existsSync'' [JStr ''/var/run/secrets/kubernetes.io/serviceaccount/token''] else pret (JBool False)) (\<lambda>found.
     let credentialsReady = truthy found; imageReady = EXECUTOR_IMAGE_RE (EXECUTOR_IMAGE c) in
     pret \<lparr>rd_ready = (credentialsReady \<and> imageReady),
       rd_blocker = (if \<not> credentialsReady then JStr ''platform_release_reconciler_credentials_unavailable''
         else if \<not> imageReady then JStr ''platform_release_executor_image_not_exact_digest'' else JNull)\<rparr>)"

section \<open>The loop\<close>

definition handle_work :: "reconciler \<Rightarrow> jsval \<Rightarrow> unit rprog" where
  \<comment> \<open>the inner \<open>try\<close>, \<open>catch\<close> and \<open>finally\<close> of the loop; the \<open>catch\<close> throws nothing itself\<close>
  "handle_work c work =
     pbind (pmod (\<lambda>s. s\<lparr>activeRequestId := fld work ''request_id''\<rparr>)) (\<lambda>_.
     pbind (pcatch (dispatch c work) (\<lambda>error.
        pbind (pmod (\<lambda>s. s\<lparr>lastError := JStr (take 500 (error_text error))\<rparr>)) (\<lambda>_.
        pcatch (pbind (sendDispatchFailure c work error) (\<lambda>_. pret ())) (\<lambda>_. pret ())))) (\<lambda>_.
     pmod (\<lambda>s. s\<lparr>activeRequestId := JNull\<rparr>)))"

definition poll_once :: "reconciler \<Rightarrow> unit rprog" where
  \<comment> \<open>one iteration of \<open>pollLoop\<close>\<close>
  "poll_once c =
     pcatch (pbind (reconcilerReadiness c) (\<lambda>readiness.
       if \<not> rd_ready readiness then pmod (\<lambda>s. s\<lparr>lastError := rd_blocker readiness\<rparr>)
       else pbind (claimWork c) (\<lambda>work. if truthy work then handle_work c work else pret ())))
     (\<lambda>error. pmod (\<lambda>s. s\<lparr>lastError := JStr (take 500 (error_text error))\<rparr>))"

fun pollLoop :: "reconciler \<Rightarrow> nat \<Rightarrow> unit rprog" where
  \<comment> \<open>the iterations until \<open>stopping\<close> is set\<close>
  "pollLoop c 0 = pret ()"
| "pollLoop c (Suc n) = pbind (poll_once c) (\<lambda>_. pollLoop c n)"

definition status_server :: "reconciler \<Rightarrow> string \<Rightarrow> (nat \<times> jsval) rprog" where
  \<comment> \<open>the HTTP handler, by the path of the request: the status and the body\<close>
  "status_server c path =
     pbind (reconcilerReadiness c) (\<lambda>readiness.
     pbind (pget (\<lambda>s. JObj [(''service'', JStr ''platform-release-reconciler''), (''ready'', JBool (rd_ready readiness)), (''blocker'', rd_blocker readiness),
        (''executorImage'', if EXECUTOR_IMAGE_RE (EXECUTOR_IMAGE c) then JStr (EXECUTOR_IMAGE c) else JNull),
        (''lastClaimAt'', lastClaimAt s), (''lastDispatchAt'', lastDispatchAt s), (''activeRequestId'', activeRequestId s), (''lastError'', lastError s)])) (\<lambda>body.
     pret (if path = ''/healthz'' then (200, JObj [(''ok'', JBool True)])
           else if path = ''/readyz'' then (if rd_ready readiness then 200 else 503, body)
           else (404, JObj [(''error'', JStr ''not found'')]))))"

section \<open>What the log of a run contains\<close>

definition job_post :: "reconciler \<Rightarrow> service_call \<Rightarrow> bool" where
  \<comment> \<open>a request that creates a Job\<close>
  "job_post c cl \<longleftrightarrow> (\<exists>options. cl = Call ''fetch'' [JStr (APISERVER c @ jobs_path), options] \<and> fld options ''method'' = JStr ''POST'')"

definition job_posts :: "reconciler \<Rightarrow> history \<Rightarrow> history" where
  "job_posts c h = filter (\<lambda>x. job_post c (fst x)) h"

definition answered :: "reconciler \<Rightarrow> string \<Rightarrow> jsval \<Rightarrow> jsval \<Rightarrow> history \<Rightarrow> bool" where
  \<comment> \<open>the request was answered with success and this body\<close>
  "answered c url options body h \<longleftrightarrow> (\<exists>response text. (Call ''fetch'' [JStr url, options], Inr response) \<in> set h
     \<and> (Call ''response.text'' [response], Inr text) \<in> set h \<and> truthy (fld response ''ok'') \<and> body = response_body c (to_str text))"

definition claimed :: "reconciler \<Rightarrow> jsval \<Rightarrow> history \<Rightarrow> bool" where
  \<comment> \<open>the backend answered a claim with this work item\<close>
  "claimed c work h \<longleftrightarrow> (\<exists>options body. answered c (BACKEND_URL c @ ''/api/platform/reconcile/next'') options body h
     \<and> work = first_row (fld body ''items'') \<and> truthy work)"

definition loaded :: "reconciler \<Rightarrow> jsval \<Rightarrow> jsval \<Rightarrow> history \<Rightarrow> bool" where
  \<comment> \<open>the manifest was read from the repository at the claimed commit\<close>
  "loaded c work manifest h \<longleftrightarrow> (\<exists>options file. answered c (contents_url c work) options file h
     \<and> rc_parse c (rc_base64 c (filter (\<lambda>x. \<not> ws x) (str_or_empty (fld file ''content'')))) = Inr manifest)"

definition manifest_matches :: "reconciler \<Rightarrow> jsval \<Rightarrow> jsval \<Rightarrow> bool" where
  \<comment> \<open>the manifest is a release change with the id, action, target and reason of the claim and an accepted target lock\<close>
  "manifest_matches c manifest work \<longleftrightarrow> fld manifest ''kind'' = JStr ''GovernedChange''
     \<and> fld (fld manifest ''metadata'') ''consumerId'' = JStr ''platform-release''
     \<and> strict_eq (fld (fld manifest ''metadata'') ''requestId'') (fld work ''request_id'')
     \<and> fld (fld manifest ''spec'') ''action'' \<in> {JStr ''apply'', JStr ''rollback''}
     \<and> fld (fld manifest ''spec'') ''action'' = JStr (without_prefix ''gitea:'' (str_or_empty (fld work ''action'')))
     \<and> fld (fld manifest ''spec'') ''target'' = JStr ''opensphere-platform'' \<and> fld work ''target'' = JStr ''opensphere-platform''
     \<and> strict_eq (fld (fld manifest ''spec'') ''reason'') (fld work ''reason'')
     \<and> (let lock = fld (fld (fld manifest ''spec'') ''desiredState'') ''targetLock'' in validateReleaseLock (rc_sha c) False lock = Inr lock)"

definition justified_job :: "reconciler \<Rightarrow> history \<Rightarrow> jsval \<Rightarrow> bool" where
  \<comment> \<open>a Job for a change that was claimed, read at its commit, matched against the claim and validated\<close>
  "justified_job c h job \<longleftrightarrow> (\<exists>work manifest. claimed c work h \<and> loaded c work manifest h
     \<and> is_uuid (str_or_empty (fld work ''request_id'')) \<and> COMMIT_RE (str_or_empty (fld work ''git_commit_sha''))
     \<and> manifest_matches c manifest work \<and> executorJob c work manifest = Inr job)"

definition separate_endpoints :: "reconciler \<Rightarrow> bool" where
  \<comment> \<open>the Jobs of the cluster are not an address of the backend\<close>
  "separate_endpoints c \<longleftrightarrow> APISERVER c @ jobs_path \<notin> {BACKEND_URL c @ ''/api/platform/reconcile/next'', BACKEND_URL c @ ''/api/platform/reconcile/receipt''}"

definition quiet :: "reconciler \<Rightarrow> history \<Rightarrow> history \<Rightarrow> bool" where
  \<comment> \<open>the log grew without a request for a Job\<close>
  "quiet c h h' \<longleftrightarrow> (\<exists>new. h' = h @ new \<and> job_posts c new = [])"

definition one_job :: "reconciler \<Rightarrow> history \<Rightarrow> history \<Rightarrow> bool" where
  \<comment> \<open>it grew by one such request, and that one was justified by what had happened before\<close>
  "one_job c h h' \<longleftrightarrow> (\<exists>h1 options r h2 job. h' = h1 @ (Call ''fetch'' [JStr (APISERVER c @ jobs_path), options], r) # h2 \<and> quiet c h h1
     \<and> job_posts c h2 = [] \<and> fld options ''body'' = JStr (json_text job) \<and> justified_job c h1 job)"

lemma job_posts_simps [simp]:
  "job_posts c [] = []" "job_posts c (h @ h') = job_posts c h @ job_posts c h'"
  "job_posts c (x # h) = (if job_post c (fst x) then x # job_posts c h else job_posts c h)"
  by (simp_all add: job_posts_def)

lemma quiet_refl [simp]: "quiet c h h"
  by (simp add: quiet_def)

lemma quiet_append [simp]: "quiet c h (h @ new) \<longleftrightarrow> job_posts c new = []"
  by (simp add: quiet_def)

lemma quiet_snoc: "quiet c h h' \<Longrightarrow> \<not> job_post c (fst x) \<Longrightarrow> quiet c h (h' @ [x])"
  by (auto simp: quiet_def)

lemma quiet_trans: "quiet c h h' \<Longrightarrow> quiet c h' h'' \<Longrightarrow> quiet c h h''"
  by (auto simp: quiet_def)

lemma one_job_quiet:
  assumes "one_job c h h'" and "quiet c h' h''"
  shows "one_job c h h''"
proof -
  obtain h1 options r h2 job new where o: "h' = h1 @ (Call ''fetch'' [JStr (APISERVER c @ jobs_path), options], r) # h2" "quiet c h h1" "job_posts c h2 = []"
    "fld options ''body'' = JStr (json_text job)" "justified_job c h1 job" and n: "h'' = h' @ new" "job_posts c new = []"
    using assms unfolding one_job_def quiet_def by blast
  have "h'' = h1 @ (Call ''fetch'' [JStr (APISERVER c @ jobs_path), options], r) # (h2 @ new)" "job_posts c (h2 @ new) = []"
    using o n by simp_all
  then show ?thesis
    unfolding one_job_def using o(2,4,5) by blast
qed

lemma quiet_one_job: "quiet c h h' \<Longrightarrow> one_job c h' h'' \<Longrightarrow> one_job c h h''"
  unfolding one_job_def using quiet_trans by blast

lemma quiet_set: "quiet c h h' \<Longrightarrow> set h \<subseteq> set h'"
  by (auto simp: quiet_def)

lemma answered_mono: "answered c url options body h \<Longrightarrow> set h \<subseteq> set h' \<Longrightarrow> answered c url options body h'"
  unfolding answered_def by blast

lemma claimed_mono: "claimed c work h \<Longrightarrow> set h \<subseteq> set h' \<Longrightarrow> claimed c work h'"
  unfolding claimed_def using answered_mono by blast

lemma job_post_simps [simp]:
  "job_post c (Call ''response.text'' xs) = False" "job_post c (Call ''Date.now'' xs) = False"
  "job_post c (Call ''fs.readFileSync'' xs) = False" "job_post c (Call ''fs.existsSync'' xs) = False"
  by (simp_all add: job_post_def)

lemma jsonRequest_wp:
  assumes "\<not> job_post c (Call ''fetch'' [JStr url, options])"
  shows "wp (jsonRequest c url options) (\<lambda>body t. quiet c (fx_log s) (fx_log t) \<and> answered c url options body (fx_log t))
    (\<lambda>e t. quiet c (fx_log s) (fx_log t)) s"
  using assms by (auto simp: jsonRequest_def wp_simps Let_def answered_def quiet_snoc split: sum.splits)

lemma claimWork_wp:
  assumes "separate_endpoints c"
  shows "wp (claimWork c) (\<lambda>work t. quiet c (fx_log s) (fx_log t) \<and> (truthy work \<longrightarrow> claimed c work (fx_log t))) (\<lambda>e t. quiet c (fx_log s) (fx_log t)) s"
proof -
  have p: "\<not> job_post c (Call ''fetch'' [JStr (BACKEND_URL c @ ''/api/platform/reconcile/next''), options])" for options
    using assms by (auto simp: job_post_def separate_endpoints_def)
  have a: "claimed c (first_row (fld body ''items'')) (h @ [x])"
    if "answered c (BACKEND_URL c @ ''/api/platform/reconcile/next'') options body h" "truthy (first_row (fld body ''items''))" for options body h x
    using that answered_mono [of c _ options body h "h @ [x]"] by (auto simp: claimed_def)
  show ?thesis
    unfolding claimWork_def
    by (rule wp_pbindI [OF jsonRequest_wp [OF p]])
      (auto simp: wp_simps Let_def get_prop_def or_null_def js_or_def quiet_snoc split: sum.splits intro: a)
qed

lemma validateGovernedManifest_same: "validateGovernedManifest sha manifest work = Inr m \<Longrightarrow> m = manifest"
  by (auto simp: validateGovernedManifest_def Let_def rbind_eq_Inr)

lemma strict_eq_str: "strict_eq (JStr s) v \<longleftrightarrow> v = JStr s"
  by (cases v) (auto simp: strict_eq_def is_object_def)

lemma validateGovernedManifest_matches:
  assumes "validateGovernedManifest (rc_sha c) manifest work = Inr m"
  shows "manifest_matches c manifest work"
proof -
  obtain v where "validatePlatformReleaseDesiredState (rc_sha c) (fld (fld manifest ''spec'') ''desiredState'') = Inr v"
    using assms by (auto simp: validateGovernedManifest_def Let_def rbind_eq_Inr)
  then have "\<exists>l. validateReleaseLock (rc_sha c) False (fld (fld (fld manifest ''spec'') ''desiredState'') ''targetLock'') = Inr l"
    by (auto simp: validatePlatformReleaseDesiredState_def rbind_eq_Inr)
  then have "validateReleaseLock (rc_sha c) False (fld (fld (fld manifest ''spec'') ''desiredState'') ''targetLock'')
      = Inr (fld (fld (fld manifest ''spec'') ''desiredState'') ''targetLock'')"
    using validateReleaseLock_Inr(1) by metis
  then show ?thesis
    using assms by (auto simp: validateGovernedManifest_def Let_def rbind_eq_Inr manifest_matches_def strict_eq_str)
qed

lemma loadManifest_wp:
  "wp (loadManifest c work) (\<lambda>manifest t. quiet c (fx_log s) (fx_log t) \<and> loaded c work manifest (fx_log t)
       \<and> is_uuid (str_or_empty (fld work ''request_id'')) \<and> COMMIT_RE (str_or_empty (fld work ''git_commit_sha''))
       \<and> validateGovernedManifest (rc_sha c) manifest work = Inr manifest) (\<lambda>e t. quiet c (fx_log s) (fx_log t)) s"
proof -
  let ?o = "JObj [(''headers'', JObj [(''authorization'', JStr (''token '' @ GITEA_TOKEN c)), (''accept'', JStr ''application/json'')])]"
  have p: "\<not> job_post c (Call ''fetch'' [JStr (contents_url c work), ?o])"
    by (simp add: job_post_def fld_obj)
  have "wp (pbind (jsonRequest c (contents_url c work) ?o) (\<lambda>file. pbind (plift (get_prop file ''content'')) (\<lambda>content.
      pbind (plift (rc_parse c (rc_base64 c (filter (\<lambda>x. \<not> ws x) (str_or_empty content))))) (\<lambda>manifest.
      plift (validateGovernedManifest (rc_sha c) manifest work)))))
    (\<lambda>manifest t. quiet c (fx_log s) (fx_log t) \<and> loaded c work manifest (fx_log t) \<and> validateGovernedManifest (rc_sha c) manifest work = Inr manifest)
    (\<lambda>e t. quiet c (fx_log s) (fx_log t)) s"
    by (rule wp_pbindI [OF jsonRequest_wp [OF p]])
      (auto simp: wp_simps get_prop_def loaded_def dest: validateGovernedManifest_same split: sum.splits)
  then show ?thesis
    unfolding loadManifest_def by (auto simp: wp_simps elim: wp_mono)
qed

lemma justified_job_mono: "justified_job c h job \<Longrightarrow> set h \<subseteq> set h' \<Longrightarrow> justified_job c h' job"
  unfolding justified_job_def loaded_def using answered_mono claimed_mono by meson

lemma executorJob_object: "executorJob c work manifest = Inr job \<Longrightarrow> job \<noteq> JUndef"
  by (auto simp: executorJob_def Let_def rbind_eq_Inr)

lemma one_job_intro:
  assumes "justified_job c h1 job" and "quiet c h h1" and "fld options ''body'' = JStr (json_text job)" and "job_posts c h2 = []"
  shows "one_job c h (h1 @ (Call ''fetch'' [JStr (APISERVER c @ jobs_path), options], r) # h2)"
  unfolding one_job_def using assms by blast

definition at_most_one_job :: "reconciler \<Rightarrow> history \<Rightarrow> history \<Rightarrow> bool" where
  "at_most_one_job c h h' \<longleftrightarrow> quiet c h h' \<or> one_job c h h'"

lemma at_most_one_quiet: "at_most_one_job c h h' \<Longrightarrow> quiet c h' h'' \<Longrightarrow> at_most_one_job c h h''"
  unfolding at_most_one_job_def using quiet_trans one_job_quiet by blast

lemma quiet_at_most_one: "quiet c h h' \<Longrightarrow> at_most_one_job c h' h'' \<Longrightarrow> at_most_one_job c h h''"
  unfolding at_most_one_job_def using quiet_trans quiet_one_job by blast

lemma create_job_wp:
  assumes "justified_job c (fx_log s) job" and "job \<noteq> JUndef"
  shows "wp (create_job c job) (\<lambda>_ t. at_most_one_job c (fx_log s) (fx_log t)) (\<lambda>_ t. at_most_one_job c (fx_log s) (fx_log t)) s"
proof -
  have j: "justified_job c (fx_log s @ [x]) job" for x
    using assms(1) by (rule justified_job_mono) auto
  show ?thesis
    unfolding create_job_def kubernetesRequest_def serviceAccountToken_def at_most_one_job_def
    using one_job_intro [OF j] assms(2) by (auto simp: wp_simps Let_def fld_obj split: sum.splits)
qed

lemma note_dispatch_wp:
  "wp (note_dispatch c) (\<lambda>_ t. quiet c (fx_log s) (fx_log t)) (\<lambda>_ t. quiet c (fx_log s) (fx_log t)) s"
  by (auto simp: note_dispatch_def wp_simps Let_def split: sum.splits)

lemma dispatch_wp:
  assumes "claimed c work (fx_log s)"
  shows "wp (dispatch c work) (\<lambda>_ t. at_most_one_job c (fx_log s) (fx_log t)) (\<lambda>_ t. at_most_one_job c (fx_log s) (fx_log t)) s"
proof -
  have step: "wp (create_job c job) (\<lambda>_ u. wp (note_dispatch c) (\<lambda>_ v. at_most_one_job c (fx_log s) (fx_log v)) (\<lambda>_ v. at_most_one_job c (fx_log s) (fx_log v)) u)
      (\<lambda>_ u. at_most_one_job c (fx_log s) (fx_log u)) t"
    if q: "quiet c (fx_log s) (fx_log t)" and "loaded c work manifest (fx_log t)" "is_uuid (str_or_empty (fld work ''request_id''))"
      "COMMIT_RE (str_or_empty (fld work ''git_commit_sha''))" "validateGovernedManifest (rc_sha c) manifest work = Inr manifest"
      and e: "executorJob c work manifest = Inr job" for manifest job and t :: rstate
  proof -
    have "claimed c work (fx_log t)"
      using assms quiet_set [OF q] by (rule claimed_mono)
    then have "justified_job c (fx_log t) job"
      unfolding justified_job_def using that validateGovernedManifest_matches by blast
    then show ?thesis
      by (rule wp_mono [OF create_job_wp [OF _ executorJob_object [OF e]]])
        (use q quiet_at_most_one at_most_one_quiet in \<open>blast intro: wp_mono [OF note_dispatch_wp]\<close>)+
  qed
  show ?thesis
    unfolding dispatch_def
    by (rule wp_pbindI [OF wp_mono [OF loadManifest_wp]])
      (auto simp: wp_simps at_most_one_job_def [of _ _ "fx_log _"] split: sum.splits intro: step [unfolded at_most_one_job_def])
qed

lemma sendDispatchFailure_wp:
  assumes "separate_endpoints c"
  shows "wp (sendDispatchFailure c work error) (\<lambda>_ t. quiet c (fx_log s) (fx_log t)) (\<lambda>_ t. quiet c (fx_log s) (fx_log t)) s"
proof -
  have p: "\<not> job_post c (Call ''fetch'' [JStr (BACKEND_URL c @ ''/api/platform/reconcile/receipt''), options])" for options
    using assms by (auto simp: job_post_def separate_endpoints_def)
  show ?thesis
    unfolding sendDispatchFailure_def by (rule wp_mono [OF jsonRequest_wp [OF p]]) auto
qed

lemma handle_work_wp:
  assumes "separate_endpoints c" and "claimed c work (fx_log s)"
  shows "wp (handle_work c work) (\<lambda>_ t. at_most_one_job c (fx_log s) (fx_log t)) (\<lambda>_ t. at_most_one_job c (fx_log s) (fx_log t)) s"
proof -
  let ?P = "\<lambda>_ t :: rstate. at_most_one_job c (fx_log s) (fx_log t)"
  have failure: "wp (sendDispatchFailure c work error) ?P ?P (t\<lparr>lastError := e\<rparr>)" if "at_most_one_job c (fx_log s) (fx_log t)" for t :: rstate and error e
    by (rule wp_mono [OF sendDispatchFailure_wp [OF assms(1)]]) (use that at_most_one_quiet in auto)
  have "wp (dispatch c work) ?P ?P (s\<lparr>activeRequestId := fld work ''request_id''\<rparr>)"
    using dispatch_wp [of c work "s\<lparr>activeRequestId := fld work ''request_id''\<rparr>"] assms(2) by simp
  then show ?thesis
    unfolding handle_work_def wp_simps by (rule wp_mono) (auto intro: failure)
qed

lemma reconcilerReadiness_wp:
  "wp (reconcilerReadiness c) (\<lambda>_ t. quiet c (fx_log s) (fx_log t)) (\<lambda>_ t. quiet c (fx_log s) (fx_log t)) s"
  by (auto simp: reconcilerReadiness_def wp_simps Let_def split: sum.splits)

lemma poll_once_wp:
  assumes "separate_endpoints c"
  shows "wp (poll_once c) (\<lambda>_ t. at_most_one_job c (fx_log s) (fx_log t)) (\<lambda>_ _. False) s"
proof -
  let ?P = "\<lambda>_ t :: rstate. at_most_one_job c (fx_log s) (fx_log t)"
  have quiet: "at_most_one_job c h h'" if "quiet c h h'" for h h'
    using that by (simp add: at_most_one_job_def)
  have work: "wp (if truthy work then handle_work c work else pret ()) ?P ?P t"
    if "quiet c (fx_log s) (fx_log t)" "truthy work \<longrightarrow> claimed c work (fx_log t)" for work and t :: rstate
    using that quiet_at_most_one quiet by (auto simp: wp_simps intro: wp_mono [OF handle_work_wp [OF assms]])
  have claim: "wp (claimWork c) (\<lambda>work. wp (if truthy work then handle_work c work else pret ()) ?P ?P) ?P t" if "quiet c (fx_log s) (fx_log t)" for t
    by (rule wp_mono [OF claimWork_wp [OF assms]]) (use that quiet_trans quiet in \<open>blast intro: work\<close>)+
  have "wp (reconcilerReadiness c) (\<lambda>readiness. wp (if \<not> rd_ready readiness then pmod (\<lambda>s. s\<lparr>lastError := rd_blocker readiness\<rparr>)
       else pbind (claimWork c) (\<lambda>work. if truthy work then handle_work c work else pret ())) ?P ?P) ?P s"
    by (rule wp_mono [OF reconcilerReadiness_wp]) (simp_all add: wp_simps quiet claim)
  then show ?thesis
    unfolding poll_once_def wp_pcatch wp_pbind wp_pmod by (rule wp_mono) (simp_all add: wp_pmod)
qed

definition jobs_justified :: "reconciler \<Rightarrow> history \<Rightarrow> bool" where
  \<comment> \<open>every request for a Job was justified by the calls before it\<close>
  "jobs_justified c h \<longleftrightarrow> (\<forall>i < length h. job_post c (fst (h ! i)) \<longrightarrow>
     (\<exists>options job. fst (h ! i) = Call ''fetch'' [JStr (APISERVER c @ jobs_path), options] \<and> fld options ''body'' = JStr (json_text job)
        \<and> justified_job c (take i h) job))"

lemma no_post_nth: "job_posts c h = [] \<Longrightarrow> i < length h \<Longrightarrow> \<not> job_post c (fst (h ! i))"
  by (auto simp: job_posts_def filter_empty_conv)

lemma jobs_justified_quiet:
  assumes "jobs_justified c h" and "quiet c h h'"
  shows "jobs_justified c h'"
proof -
  obtain new where n: "h' = h @ new" "job_posts c new = []"
    using assms(2) by (auto simp: quiet_def)
  show ?thesis
    unfolding jobs_justified_def
  proof (intro allI impI)
    fix i assume i: "i < length h'" "job_post c (fst (h' ! i))"
    then have "i < length h"
      using n no_post_nth [of c new "i - length h"] by (cases "i < length h") (auto simp: nth_append)
    then show "\<exists>options job. fst (h' ! i) = Call ''fetch'' [JStr (APISERVER c @ jobs_path), options] \<and> fld options ''body'' = JStr (json_text job)
        \<and> justified_job c (take i h') job"
      using assms(1) i n by (simp add: jobs_justified_def nth_append)
  qed
qed

lemma jobs_justified_snoc:
  assumes "jobs_justified c h" and "fld options ''body'' = JStr (json_text job)" and "justified_job c h job"
  shows "jobs_justified c (h @ [(Call ''fetch'' [JStr (APISERVER c @ jobs_path), options], r)])"
  using assms by (auto simp: jobs_justified_def nth_append less_Suc_eq)

lemma jobs_justified_step:
  assumes "jobs_justified c h" and "at_most_one_job c h h'"
  shows "jobs_justified c h'"
proof (cases "quiet c h h'")
  case False
  then obtain h1 options r h2 job where o: "h' = (h1 @ [(Call ''fetch'' [JStr (APISERVER c @ jobs_path), options], r)]) @ h2" "quiet c h h1"
      "job_posts c h2 = []" "fld options ''body'' = JStr (json_text job)" "justified_job c h1 job"
    using assms(2) unfolding at_most_one_job_def one_job_def by auto
  show ?thesis
    unfolding o(1)
    by (rule jobs_justified_quiet [OF jobs_justified_snoc [OF jobs_justified_quiet [OF assms(1) o(2)] o(4,5), of r]]) (simp only: quiet_append o(3))
qed (rule jobs_justified_quiet [OF assms(1)])

lemma job_count_step: "at_most_one_job c h h' \<Longrightarrow> length (job_posts c h') \<le> Suc (length (job_posts c h))"
  by (auto simp: at_most_one_job_def one_job_def quiet_def split: if_splits)

text \<open>C16: over any number of iterations and whatever the services answer, the reconciler requests at most one Job per iteration, and each one only for
  a change that the backend had handed out in an answered claim, with a well-formed id and commit, whose manifest had been read from the
  repository at the claimed commit, names the same request, action, target and reason, and carries a desired state with an accepted
  release lock; the Job is the one built from that change.
\<close>

theorem jobs_are_created_only_for_claimed_and_validated_changes:
  assumes "separate_endpoints c" and "fx_log s = []"
  shows "jobs_justified c (fx_log (snd (pollLoop c n s))) \<and> length (job_posts c (fx_log (snd (pollLoop c n s)))) \<le> n"
proof -
  have run: "wp (pollLoop c n) (\<lambda>_ t. jobs_justified c (fx_log t) \<and> length (job_posts c (fx_log t)) \<le> n + length (job_posts c (fx_log s))) (\<lambda>_ _. False) s"
    if "jobs_justified c (fx_log s)" for s :: rstate
    using that
  proof (induction n arbitrary: s)
    case (Suc n)
    show ?case
      unfolding pollLoop.simps
    proof (rule wp_pbindI [OF poll_once_wp [OF assms(1)]])
      fix x and t :: rstate assume t: "at_most_one_job c (fx_log s) (fx_log t)"
      show "wp (pollLoop c n) (\<lambda>_ t. jobs_justified c (fx_log t) \<and> length (job_posts c (fx_log t)) \<le> Suc n + length (job_posts c (fx_log s))) (\<lambda>_ _. False) t"
        by (rule wp_mono [OF Suc.IH [OF jobs_justified_step [OF Suc.prems t]]]) (use job_count_step [OF t] in auto)
    qed
  qed (simp add: wp_simps)
  have "jobs_justified c (fx_log s)"
    by (simp add: jobs_justified_def assms(2))
  from wp_mono [OF run [OF this]] show ?thesis
    by (rule wp_snd) (simp_all add: assms(2))
qed

section \<open>What becomes of a claimed change\<close>

definition no_status_faults :: "reconciler \<Rightarrow> bool" where
  \<comment> \<open>what \<open>fetch\<close>, \<open>response.text()\<close> and the file system throw carries no HTTP status\<close>
  "no_status_faults c \<longleftrightarrow> (\<forall>h cl e. rc_env c h cl = Inl e \<longrightarrow> fld e ''status'' = JUndef)"

definition job_accepted :: "reconciler \<Rightarrow> jsval \<Rightarrow> history \<Rightarrow> bool" where
  \<comment> \<open>the cluster took the Job of this change, or already had it\<close>
  "job_accepted c work h \<longleftrightarrow> (\<exists>manifest job options response. executorJob c work manifest = Inr job
     \<and> (Call ''fetch'' [JStr (APISERVER c @ jobs_path), options], Inr response) \<in> set h \<and> fld options ''body'' = JStr (json_text job)
     \<and> (truthy (fld response ''ok'') \<or> fld response ''status'' = JInt 409))"

definition failure_reported :: "reconciler \<Rightarrow> jsval \<Rightarrow> history \<Rightarrow> bool" where
  \<comment> \<open>a failure receipt for this change was sent to the backend\<close>
  "failure_reported c work h \<longleftrightarrow> (\<exists>options error r. (Call ''fetch'' [JStr (BACKEND_URL c @ ''/api/platform/reconcile/receipt''), options], r) \<in> set h
     \<and> fld options ''body'' = JStr (json_text (receipt_body work error)))"

lemma create_job_accepted:
  assumes "no_status_faults c" and "executorJob c work manifest = Inr job"
  shows "wp (create_job c job) (\<lambda>_ t. job_accepted c work (fx_log t)) (\<lambda>_ _. True) s"
proof -
  have f: "fld e ''status'' = JUndef" if "rc_env c h cl = Inl e" for h cl e
    using assms(1) that by (simp add: no_status_faults_def)
  show ?thesis
    unfolding create_job_def kubernetesRequest_def serviceAccountToken_def job_accepted_def
    using assms(2) executorJob_object [OF assms(2)]
    by (force simp: wp_simps Let_def fld_obj js_error_def f split: sum.splits)
qed

lemma dispatch_accepted:
  assumes "no_status_faults c"
  shows "wp (dispatch c work) (\<lambda>_ t. job_accepted c work (fx_log t)) (\<lambda>_ _. True) s"
proof -
  have note_it: "wp (note_dispatch c) (\<lambda>_ t. job_accepted c work (fx_log t)) (\<lambda>_ _. True) t" if "job_accepted c work (fx_log t)" for t
    using that by (auto simp: note_dispatch_def wp_simps Let_def job_accepted_def split: sum.splits)
  have create: "wp (create_job c job) (\<lambda>_. wp (note_dispatch c) (\<lambda>_ t. job_accepted c work (fx_log t)) (\<lambda>_ _. True)) (\<lambda>_ _. True) t"
    if "executorJob c work manifest = Inr job" for manifest job t
    by (rule wp_mono [OF create_job_accepted [OF assms that]]) (simp_all add: note_it)
  show ?thesis
    unfolding dispatch_def wp_pbind
    by (rule wp_any) (auto simp: wp_plift split: sum.splits intro: create)
qed

lemma sendDispatchFailure_reports:
  "wp (sendDispatchFailure c work error) (\<lambda>_ t. failure_reported c work (fx_log t)) (\<lambda>_ t. failure_reported c work (fx_log t)) s"
proof -
  let ?o = "JObj [(''method'', JStr ''POST''),
        (''headers'', JObj [(''content-type'', JStr ''application/json''), (''x-opensphere-reconciler-token'', JStr (RECONCILER_TOKEN c))]),
        (''body'', JStr (json_text (receipt_body work error)))]"
  have reported: "failure_reported c work h" if "(Call ''fetch'' [JStr (BACKEND_URL c @ ''/api/platform/reconcile/receipt''), ?o], r) \<in> set h" for h r
    unfolding failure_reported_def by (intro exI conjI, rule that) (simp add: fld_obj)
  show ?thesis
    unfolding sendDispatchFailure_def jsonRequest_def
    by (auto simp: wp_simps Let_def split: sum.splits intro!: reported)
qed

text \<open>C18: every claimed change comes to an end that its owner can see: whatever the services answer, the iteration returns, no change stays active, and
  either the cluster took (or already had) the Job built for this change or a failure receipt for it was sent to the backend.  The
  hypothesis is that exceptions of \<open>fetch\<close> and of the file system carry no HTTP status.
\<close>

theorem every_claimed_change_is_dispatched_or_reported:
  assumes "no_status_faults c" and "fx_log s = []"
  shows "fst (handle_work c work s) = Inr () \<and> activeRequestId (snd (handle_work c work s)) = JNull
    \<and> (job_accepted c work (fx_log (snd (handle_work c work s))) \<or> failure_reported c work (fx_log (snd (handle_work c work s))))"
proof -
  let ?P = "\<lambda>_ t. job_accepted c work (fx_log t) \<or> failure_reported c work (fx_log t)"
  have "wp (handle_work c work) (\<lambda>_ t. activeRequestId t = JNull \<and> ?P () t) (\<lambda>_ _. False) s"
    unfolding handle_work_def wp_simps
    by (rule wp_mono [OF dispatch_accepted [OF assms(1)]])
      (auto simp: wp_simps intro!: wp_mono [OF sendDispatchFailure_reports])
  then show ?thesis
    by (cases "handle_work c work s") (auto simp: wp_def split: sum.splits)
qed

section \<open>An example\<close>

text \<open>A backend that hands out one change, a repository that holds its manifest, and a cluster that takes the Job.\<close>

definition demo_id :: string where
  "demo_id = ''00000000-0000-1000-8000-000000000000''"

definition demo_work :: jsval where
  "demo_work = JObj [(''request_id'', JStr demo_id), (''git_commit_sha'', JStr (replicate 40 (CHR ''a''))), (''git_repo'', JStr ''o/r''),
     (''action'', JStr ''gitea:apply''), (''target'', JStr ''opensphere-platform''), (''reason'', JStr ''update''), (''attempt'', JInt 1)]"

definition demo_manifest :: jsval where
  "demo_manifest = JObj [(''apiVersion'', JStr ''platform.opensphere.io/v1alpha1''), (''kind'', JStr ''GovernedChange''),
     (''metadata'', JObj [(''requestId'', JStr demo_id), (''consumerId'', JStr ''platform-release'')]),
     (''spec'', JObj [(''action'', JStr ''apply''), (''target'', JStr ''opensphere-platform''), (''reason'', JStr ''update''), (''desiredState'', demo_desired)])]"

definition demo_answer :: "history \<Rightarrow> service_call \<Rightarrow> answer" where
  "demo_answer h cl = (case cl of Call n args \<Rightarrow>
     if n = ''fetch'' then Inr (JObj [(''ok'', JBool True), (''page'', if hd args = JStr ''b/api/platform/reconcile/next'' then JStr ''claim''
        else if fld (hd (tl args)) ''method'' = JUndef then JStr ''file'' else JStr [])])
     else if n = ''response.text'' then Inr (fld (hd args) ''page'')
     else if n = ''Date.now'' then Inr (JInt 0) else Inr (JStr ''token''))"

definition demo_page :: "string \<Rightarrow> jsval + jsval" where
  "demo_page t = (if t = ''claim'' then Inr (JObj [(''items'', JArr [demo_work])])
     else if t = ''file'' then Inr (JObj [(''content'', JStr ''manifest'')]) else if t = ''manifest'' then Inr demo_manifest else Inl type_error)"

definition demo_reconciler :: reconciler where
  "demo_reconciler = \<lparr>rc_env = demo_answer, rc_parse = demo_page, rc_base64 = (\<lambda>t. t), rc_sha = demo_sha, BACKEND_URL = ''b'', GITEA_URL = ''g'',
     GITEA_ORGANIZATION = ''o'', GITEA_REPOSITORY = ''r'', GITEA_PATH = ''p'', GITEA_TOKEN = ''t'', RECONCILER_TOKEN = ''t'',
     EXECUTOR_IMAGE = ''ghcr.io/opensphere-platform/opensphere-console-backend@sha256:'' @ replicate 64 (CHR ''0''), APISERVER = ''k''\<rparr>"

definition demo_start :: rstate where
  "demo_start = \<lparr>fx_log = [], lastClaimAt = JNull, lastDispatchAt = JNull, lastError = JNull, activeRequestId = JNull\<rparr>"

lemma demo_manifest_ok: "validateGovernedManifest demo_sha demo_manifest demo_work = Inr demo_manifest"
proof -
  have "without_prefix ''gitea:'' (str_or_empty (JStr ''gitea:apply'')) = ''apply''"
    by code_simp
  then show ?thesis
    using demo_desired_ok by (auto simp: validateGovernedManifest_def Let_def demo_manifest_def demo_work_def fld_obj rbind_eq_Inr strict_eq_def is_object_def)
qed

lemma demo_references: "is_uuid (str_or_empty (fld demo_work ''request_id''))" "COMMIT_RE (str_or_empty (fld demo_work ''git_commit_sha''))"
  "EXECUTOR_IMAGE_RE (EXECUTOR_IMAGE demo_reconciler)" "fld demo_work ''git_repo'' = JStr ''o/r''" "fld demo_work ''attempt'' = JInt 1" "truthy demo_work"
  by code_simp+

lemma demo_job: "\<exists>job. executorJob demo_reconciler demo_work demo_manifest = Inr job \<and> job \<noteq> JUndef"
proof -
  have "num_is_integer (to_num (JInt 1)) \<and> \<not> num_less (to_num (JInt 1)) (Fin 1) \<and> \<not> num_less (Fin 9999) (to_num (JInt 1))"
    by code_simp
  moreover have "fld (fld demo_manifest ''spec'') ''desiredState'' = demo_desired" "rc_sha demo_reconciler = demo_sha"
    by (simp_all add: demo_manifest_def fld_obj demo_reconciler_def)
  ultimately show ?thesis
    using demo_desired_ok by (auto simp: executorJob_def Let_def demo_references rbind_eq_Inr)
qed

lemma demo_flds [simp]:
  "rc_env demo_reconciler = demo_answer" "rc_parse demo_reconciler = demo_page" "rc_base64 demo_reconciler t = t" "rc_sha demo_reconciler = demo_sha"
  "BACKEND_URL demo_reconciler = ''b''" "APISERVER demo_reconciler = ''k''" "GITEA_TOKEN demo_reconciler = ''t''" "RECONCILER_TOKEN demo_reconciler = ''t''"
  "GITEA_ORGANIZATION demo_reconciler = ''o''" "GITEA_REPOSITORY demo_reconciler = ''r''" "fx_log demo_start = []"
  by (simp_all add: demo_reconciler_def demo_start_def)

lemma demo_endpoints: "separate_endpoints demo_reconciler" "no_status_faults demo_reconciler"
  by (auto simp: separate_endpoints_def jobs_path_def no_status_faults_def demo_answer_def split: service_call.splits if_splits)

lemma demo_dispatch:
  "wp (dispatch demo_reconciler demo_work) (\<lambda>_ t. job_posts demo_reconciler (fx_log t) \<noteq> []) (\<lambda>_ _. False) s"
proof -
  obtain job where j: "executorJob demo_reconciler demo_work demo_manifest = Inr job" "job \<noteq> JUndef"
    using demo_job by blast
  have t: "to_iso_string (Fin 0) = Inr ''1970-01-01T00:00:00.000Z''"
    by code_simp
  have g: "contents_url demo_reconciler demo_work \<noteq> ''b/api/platform/reconcile/next''"
    by (simp add: contents_url_def demo_reconciler_def)
  show ?thesis
    unfolding dispatch_def loadManifest_def jsonRequest_def create_job_def note_dispatch_def kubernetesRequest_def serviceAccountToken_def
    using demo_references(1,2) g
    by (simp add: wp_simps Let_def demo_references(4) demo_answer_def demo_page_def response_body_def get_prop_def nullish_def fld_obj ws_def demo_manifest_ok j
      job_post_def t jobs_path_def)
qed

lemma demo_poll: "wp (poll_once demo_reconciler) (\<lambda>_ t. job_posts demo_reconciler (fx_log t) \<noteq> []) (\<lambda>_ _. False) demo_start"
proof -
  have t: "to_iso_string (Fin 0) = Inr ''1970-01-01T00:00:00.000Z''"
    by code_simp
  have h: "wp (handle_work demo_reconciler demo_work) (\<lambda>_ t. job_posts demo_reconciler (fx_log t) \<noteq> []) E s" for E s
    unfolding handle_work_def wp_simps by (rule wp_mono [OF demo_dispatch]) simp_all
  show ?thesis
    unfolding poll_once_def reconcilerReadiness_def claimWork_def jsonRequest_def
    by (simp add: wp_simps Let_def demo_references(3,6) demo_answer_def demo_page_def response_body_def get_prop_def nullish_def fld_obj t
      or_null_def js_or_def first_row_def h)
qed

theorem jobs_are_created_only_for_claimed_and_validated_changes_witness:
  "\<exists>h. h = fx_log (snd (pollLoop demo_reconciler 1 demo_start)) \<and> length (job_posts demo_reconciler h) = 1 \<and> jobs_justified demo_reconciler h"
proof -
  have "wp (pollLoop demo_reconciler 1) (\<lambda>_ t. job_posts demo_reconciler (fx_log t) \<noteq> []) (\<lambda>_ t. job_posts demo_reconciler (fx_log t) \<noteq> []) demo_start"
    unfolding One_nat_def pollLoop.simps wp_simps by (rule wp_mono [OF demo_poll]) simp_all
  from wp_snd [OF this] show ?thesis
    using jobs_are_created_only_for_claimed_and_validated_changes [OF demo_endpoints(1), of demo_start 1]
    by (cases "job_posts demo_reconciler (fx_log (snd (pollLoop demo_reconciler 1 demo_start)))") auto
qed

theorem every_claimed_change_is_dispatched_or_reported_witness:
  "activeRequestId (snd (handle_work demo_reconciler demo_work demo_start)) = JNull
   \<and> (job_accepted demo_reconciler demo_work (fx_log (snd (handle_work demo_reconciler demo_work demo_start)))
      \<or> failure_reported demo_reconciler demo_work (fx_log (snd (handle_work demo_reconciler demo_work demo_start))))"
  using every_claimed_change_is_dispatched_or_reported [OF demo_endpoints(2), of demo_start demo_work] by simp

end
