(* ===== verification/ReleaseExecutor.thy ===== *)
theory ReleaseExecutor
  imports ReleaseReconciler
begin

text \<open>
  The platform release executor, \<open>src/apps/console-api/runtime/platform-release-executor.mjs\<close>: the program of the Job that the reconciler creates.  It reads
  the change again at its commit, compares the installed lock with the one the change was reviewed against, upgrades, observes the
  installed lock, and answers the backend with a receipt.

  \<open>readInstallationLock\<close> and \<open>upgrade\<close> belong to the Setup CLI, which is not part of the repository: they are calls on the environment, like \<open>fetch\<close>, the
  file system and \<open>kubectl\<close>.  A request body is logged as the value that the code turns into text.
\<close>

record executor =
  x_env :: environment
  x_parse :: "string \<Rightarrow> jsval + jsval"
  x_base64 :: "string \<Rightarrow> string"
  x_sha :: "string \<Rightarrow> string"
  x_BACKEND_URL :: string
  x_GITEA_URL :: string
  x_GITEA_ORGANIZATION :: string
  x_GITEA_REPOSITORY :: string
  x_GITEA_PATH :: string
  x_GITEA_TOKEN :: string
  x_RECONCILER_TOKEN :: string
  REQUEST_ID :: string
  GIT_COMMIT_SHA :: string
  ATTEMPT :: jnum
  EXPECTED_PREVIOUS_RELEASE_DIGEST :: string

record xstate = fx +
  exitCode :: nat

type_synonym 'a xprog = "(xstate, jsval, 'a) prog"

definition executor_body :: "executor \<Rightarrow> string \<Rightarrow> jsval" where
  "executor_body c text = (if text = [] then JObj [] else case x_parse c text of Inr v \<Rightarrow> v | Inl _ \<Rightarrow> JObj [(''raw'', JStr text)])"

definition executor_request :: "executor \<Rightarrow> string \<Rightarrow> jsval \<Rightarrow> jsval xprog" where
  "executor_request c url options =
     pbind (call (x_env c) ''fetch'' [JStr url, options]) (\<lambda>response.
     pbind (call (x_env c) ''response.text'' [response]) (\<lambda>text.
     let body = executor_body c (to_str text) in
     if truthy (fld response ''ok'') then pret body
     else pthrow (js_error (to_str (js_or (js_or (fld body ''error'') (fld body ''message'')) (JStr (''HTTP '' @ to_str (fld response ''status''))))) [])))"

section \<open>The desired state\<close>

definition validateManifest :: "executor \<Rightarrow> jsval \<Rightarrow> jsval + jsval" where
  "validateManifest c manifest =
     rbind (guard_else (reject ''Platform Release governed manifest identity or action is invalid'')
       (fld manifest ''apiVersion'' = JStr ''platform.opensphere.io/v1alpha1'' \<and> fld manifest ''kind'' = JStr ''GovernedChange''
        \<and> fld (fld manifest ''metadata'') ''requestId'' = JStr (REQUEST_ID c) \<and> fld (fld manifest ''metadata'') ''consumerId'' = JStr ''platform-release''
        \<and> fld (fld manifest ''spec'') ''action'' \<in> set [JStr ''apply'', JStr ''rollback''] \<and> fld (fld manifest ''spec'') ''target'' = JStr ''opensphere-platform'')) (\<lambda>_.
     rbind (validatePlatformReleaseDesiredState (x_sha c) (fld (fld manifest ''spec'') ''desiredState'')) (\<lambda>desired.
     rbind (guard_else (reject ''Platform Release dispatch precondition differs from the reviewed declaration'')
       (fld desired ''previousReleaseDigest'' = JStr (EXPECTED_PREVIOUS_RELEASE_DIGEST c))) (\<lambda>_.
     Inr desired)))"

definition declaration_url :: "executor \<Rightarrow> string" where
  "declaration_url c =
     x_GITEA_URL c @ ''/api/v1/repos/'' @ encode_uri (x_GITEA_ORGANIZATION c) @ ''/'' @ encode_uri (x_GITEA_REPOSITORY c)
     @ ''/contents/'' @ encodedPath (x_GITEA_PATH c @ ''/requests/'' @ REQUEST_ID c @ ''.json'') @ ''?ref='' @ encode_uri (GIT_COMMIT_SHA c)"

definition loadDesiredState :: "executor \<Rightarrow> jsval xprog" where
  "loadDesiredState c =
     pbind (pguard (reject ''Platform Release executor identity or credentials are unavailable'')
       (is_uuid (REQUEST_ID c) \<and> COMMIT_RE (GIT_COMMIT_SHA c) \<and> x_GITEA_TOKEN c \<noteq> [] \<and> x_RECONCILER_TOKEN c \<noteq> [])) (\<lambda>_.
     pbind (executor_request c (declaration_url c)
       (JObj [(''headers'', JObj [(''authorization'', JStr (''token '' @ x_GITEA_TOKEN c)), (''accept'', JStr ''application/json'')])])) (\<lambda>file.
     pbind (plift (get_prop file ''content'')) (\<lambda>content.
     pbind (plift (x_parse c (x_base64 c (filter (\<lambda>x. \<not> ws x) (str_or_empty content))))) (\<lambda>manifest.
     plift (validateManifest c manifest)))))"

section \<open>Credentials and platforms\<close>

definition entry_credentials :: "executor \<Rightarrow> jsval \<Rightarrow> jsval" where
  \<comment> \<open>the credentials of the \<open>ghcr.io\<close> entry: its \<open>auth\<close> field if that splits at a colon, else user and password\<close>
  "entry_credentials c entry =
     (let decoded = x_base64 c (to_str (fld entry ''auth'')); user = takeWhile (\<lambda>x. x \<noteq> CHR '':'') decoded in
      if is_name (fld entry ''auth'') \<and> truthy (fld entry ''auth'') \<and> user \<noteq> [] \<and> Suc (length user) < length decoded
      then JObj [(''username'', JStr user), (''token'', JStr (drop (Suc (length user)) decoded))]
      else if is_name (fld entry ''username'') \<and> is_name (fld entry ''password'') \<and> truthy (fld entry ''username'') \<and> truthy (fld entry ''password'')
      then JObj [(''username'', fld entry ''username''), (''token'', fld entry ''password'')] else JUndef)"

definition registryCredentials :: "executor \<Rightarrow> jsval xprog" where
  "registryCredentials c =
     pbind (pcatch (pbind (call (x_env c) ''readFileSync'' [JStr ''/var/run/secrets/opensphere-ghcr/config.json'']) (\<lambda>t. plift (x_parse c (to_str t))))
        (\<lambda>_. pret JUndef)) (\<lambda>config.
     let entry = fld (fld config ''auths'') ''ghcr.io'' in
     pret (if truthy entry then entry_credentials c entry else JUndef))"

definition node_platform :: "jsval \<Rightarrow> string" where
  "node_platform node =
     (let nodeInfo = fld (fld node ''status'') ''nodeInfo''; os = to_lower (str_or_empty (fld nodeInfo ''operatingSystem''));
          architecture = to_lower (str_or_empty (fld nodeInfo ''architecture'')) in
      if os \<noteq> [] \<and> architecture \<noteq> [] then os @ ''/'' @ architecture else [])"

definition requiredPlatforms :: "executor \<Rightarrow> string list xprog" where
  "requiredPlatforms c =
     pbind (call (x_env c) ''kubectl'' [JStr ''get'', JStr ''nodes'', JStr ''-o'', JStr ''json'']) (\<lambda>raw.
     pbind (plift (x_parse c (to_str raw))) (\<lambda>parsed.
     pbind (plift (get_prop parsed ''items'')) (\<lambda>items.
     pbind (plift (array_of (js_or items (JArr [])))) (\<lambda>nodes.
     let platforms = sort (uniq (filter (\<lambda>p. p \<noteq> []) (map node_platform nodes))) in
     pbind (pguard (reject ''Platform Release executor cannot determine cluster node platforms'') (platforms \<noteq> [])) (\<lambda>_.
     pret platforms)))))"

section \<open>Receipts\<close>

definition receipt_url :: "executor \<Rightarrow> string" where
  "receipt_url c = x_BACKEND_URL c @ ''/api/platform/reconcile/receipt''"

definition receipt_payload :: "executor \<Rightarrow> bool \<Rightarrow> string \<Rightarrow> jsval \<Rightarrow> jsval \<Rightarrow> jsval \<Rightarrow> jsval" where
  "receipt_payload c succeeded result desiredRevision appliedRevision evidence = JObj [(''requestId'', JStr (REQUEST_ID c)),
     (''operationId'', JStr (take 255 (REQUEST_ID c @ '':'' @ GIT_COMMIT_SHA c @ '':'' @ num_str (ATTEMPT c)))),
     (''reconciler'', JStr ''platform-release-reconciler''), (''desiredRevision'', desiredRevision), (''appliedRevision'', appliedRevision),
     (''succeeded'', JBool succeeded), (''result'', JStr (take 2000 result)), (''evidence'', evidence)]"

definition receipt_options :: "executor \<Rightarrow> jsval \<Rightarrow> jsval" where
  "receipt_options c payload = JObj [(''method'', JStr ''POST''),
     (''headers'', JObj [(''content-type'', JStr ''application/json''), (''x-opensphere-reconciler-token'', JStr (x_RECONCILER_TOKEN c))]),
     (''body'', payload)]"

fun receipt_attempts :: "executor \<Rightarrow> jsval \<Rightarrow> nat \<Rightarrow> jsval \<Rightarrow> jsval xprog" where
  \<comment> \<open>the attempts that are left; \<open>previous\<close> is the error of the previous one\<close>
  "receipt_attempts c payload 0 previous = pthrow (js_error (''Platform Release receipt was not accepted after Console recovery: '' @ error_text previous) [])"
| "receipt_attempts c payload (Suc n) previous =
     pcatch (executor_request c (receipt_url c) (receipt_options c payload)) (\<lambda>error. receipt_attempts c payload n error)"

definition sendReceipt :: "executor \<Rightarrow> jsval \<Rightarrow> jsval xprog" where
  "sendReceipt c payload = receipt_attempts c payload 60 JUndef"

section \<open>The program\<close>

definition success_payload :: "executor \<Rightarrow> jsval \<Rightarrow> jsval \<Rightarrow> string list \<Rightarrow> jsval \<Rightarrow> jsval" where
  "success_payload c current installed platforms result = receipt_payload c True
     (if truthy (fld result ''changed'') then ''signed Platform Release applied and verified'' else ''requested Platform Release was already current and verified'')
     (JStr (GIT_COMMIT_SHA c)) (fld installed ''sourceRevision'')
     (JObj [(''stage'', JStr ''observed''), (''channel'', fld installed ''channel''), (''previousReleaseDigest'', fld current ''releaseDigest''),
        (''installedReleaseDigest'', fld installed ''releaseDigest''), (''sourceRevision'', fld installed ''sourceRevision''),
        (''platforms'', names_value platforms), (''changed'', fld result ''changed''),
        (''podCount'', js_coalesce (fld (fld result ''evidence'') ''podCount'') JNull),
        (''serviceCount'', js_coalesce (fld (fld result ''evidence'') ''serviceCount'') JNull),
        (''rollbackContract'', JStr ''Setup upgrade restores the previously verified release on failed target verification'')])"

definition report_success :: "executor \<Rightarrow> jsval \<Rightarrow> jsval \<Rightarrow> string list \<Rightarrow> jsval \<Rightarrow> unit xprog" where
  "report_success c current lock platforms result =
     pbind (call (x_env c) ''readInstallationLock'' []) (\<lambda>installed.
     pbind (pguard (reject ''Platform Release executor finished without the requested installation lock'')
       (truthy installed \<and> strict_eq (fld installed ''releaseDigest'') (fld lock ''releaseDigest''))) (\<lambda>_.
     pbind (plift (get_prop result ''changed'')) (\<lambda>_.
     pbind (sendReceipt c (success_payload c current installed platforms result)) (\<lambda>_.
     pret ()))))"

definition main :: "executor \<Rightarrow> unit xprog" where
  "main c =
     pbind (loadDesiredState c) (\<lambda>desired.
     pbind (call (x_env c) ''readInstallationLock'' []) (\<lambda>current.
     pbind (pguard (reject ''Platform Release request is stale; installation lock changed before execution'')
       (truthy current \<and> strict_eq (fld current ''releaseDigest'') (fld desired ''previousReleaseDigest''))) (\<lambda>_.
     pbind (requiredPlatforms c) (\<lambda>platforms.
     pbind (registryCredentials c) (\<lambda>credentials.
     pbind (call (x_env c) ''upgrade'' [current, fld desired ''targetLock'',
        JObj [(''registryCredentials'', credentials), (''requiredPlatforms'', names_value platforms)]]) (\<lambda>result.
     report_success c current (fld desired ''targetLock'') platforms result))))))"

definition failure_payload :: "executor \<Rightarrow> jsval \<Rightarrow> jsval \<Rightarrow> jsval" where
  "failure_payload c error observed =
     (let observedReleaseDigest = or_null (fld observed ''releaseDigest'') in
      receipt_payload c False (error_text error) (or_null (JStr (GIT_COMMIT_SHA c))) (or_null (fld observed ''sourceRevision''))
     (JObj [(''stage'', JStr ''failed''), (''errorCode'', JStr ''platform-release-execution-failed''),
        (''expectedPreviousReleaseDigest'', or_null (JStr (EXPECTED_PREVIOUS_RELEASE_DIGEST c))), (''observedReleaseDigest'', observedReleaseDigest),
        (''rollbackObserved'', JBool (observedReleaseDigest = JStr (EXPECTED_PREVIOUS_RELEASE_DIGEST c)))]))"

definition report_failure :: "executor \<Rightarrow> jsval \<Rightarrow> unit xprog" where
  "report_failure c error =
     pbind (pcatch (call (x_env c) ''readInstallationLock'' []) (\<lambda>_. pret JUndef)) (\<lambda>observed.
     pbind (pcatch (pbind (sendReceipt c (failure_payload c error observed)) (\<lambda>_. pret ())) (\<lambda>_. pret ())) (\<lambda>_.
     pmod (\<lambda>s. s\<lparr>exitCode := 1\<rparr>)))"

definition executor_program :: "executor \<Rightarrow> unit xprog" where
  \<comment> \<open>the module's top level\<close>
  "executor_program c = pcatch (main c) (report_failure c)"

section \<open>What a run did\<close>

definition is_upgrade :: "service_call \<times> answer \<Rightarrow> bool" where
  "is_upgrade x \<longleftrightarrow> cname (fst x) = ''upgrade''"

definition is_success :: "service_call \<times> answer \<Rightarrow> bool" where
  \<comment> \<open>a request whose body claims success\<close>
  "is_success x \<longleftrightarrow> cname (fst x) = ''fetch'' \<and> list_ex (\<lambda>options. fld (fld options ''body'') ''succeeded'' = JBool True) (cargs (fst x))"

definition silent :: "history \<Rightarrow> bool" where
  "silent h \<longleftrightarrow> list_all (\<lambda>x. \<not> is_upgrade x \<and> \<not> is_success x) h"

definition declared :: "executor \<Rightarrow> jsval \<Rightarrow> history \<Rightarrow> bool" where
  \<comment> \<open>the lock is the accepted target of a release change with this id, read at the commit of the Job and reviewed against the expected digest\<close>
  "declared c lock h \<longleftrightarrow> (\<exists>options response text manifest.
     (Call ''fetch'' [JStr (declaration_url c), options], Inr response) \<in> set h \<and> (Call ''response.text'' [response], Inr text) \<in> set h
     \<and> truthy (fld response ''ok'')
     \<and> x_parse c (x_base64 c (filter (\<lambda>x. \<not> ws x) (str_or_empty (fld (executor_body c (to_str text)) ''content'')))) = Inr manifest
     \<and> fld (fld manifest ''metadata'') ''requestId'' = JStr (REQUEST_ID c) \<and> fld (fld manifest ''metadata'') ''consumerId'' = JStr ''platform-release''
     \<and> fld (fld (fld manifest ''spec'') ''desiredState'') ''previousReleaseDigest'' = JStr (EXPECTED_PREVIOUS_RELEASE_DIGEST c)
     \<and> fld (fld (fld manifest ''spec'') ''desiredState'') ''targetLock'' = lock \<and> validateReleaseLock (x_sha c) False lock = Inr lock)"

definition upgraded :: "executor \<Rightarrow> history \<Rightarrow> bool" where
  \<comment> \<open>one upgrade, from an installed lock with the expected digest to the declared lock; success is claimed only after the very next call
    has shown the declared digest installed\<close>
  "upgraded c h \<longleftrightarrow> (\<exists>h1 current lock options r h2. h = h1 @ (Call ''upgrade'' [current, lock, options], r) # h2 \<and> silent h1
     \<and> declared c lock h1 \<and> (Call ''readInstallationLock'' [], Inr current) \<in> set h1
     \<and> fld current ''releaseDigest'' = JStr (EXPECTED_PREVIOUS_RELEASE_DIGEST c) \<and> list_all (\<lambda>x. \<not> is_upgrade x) h2
     \<and> (silent h2 \<or> (\<exists>result installed h3. r = Inr result \<and> h2 = (Call ''readInstallationLock'' [], Inr installed) # h3
          \<and> fld installed ''releaseDigest'' = fld lock ''releaseDigest'')))"

lemma marks [simp]:
  "is_upgrade (Call n xs, r) \<longleftrightarrow> n = ''upgrade''"
  "is_success (Call n xs, r) \<longleftrightarrow> n = ''fetch'' \<and> list_ex (\<lambda>options. fld (fld options ''body'') ''succeeded'' = JBool True) xs"
  by (simp_all add: is_upgrade_def is_success_def)

lemma fld_plain [simp]: "fld JUndef k = JUndef" "fld (JStr t) k = JUndef"
  by (simp_all add: fld_def)

lemma silent_simps [simp]:
  "silent []" "silent (h @ h') \<longleftrightarrow> silent h \<and> silent h'" "silent (x # h) \<longleftrightarrow> \<not> is_upgrade x \<and> \<not> is_success x \<and> silent h"
  by (auto simp: silent_def)

lemma validateManifest_declares:
  assumes "validateManifest c manifest = Inr desired"
  shows "fld (fld manifest ''metadata'') ''requestId'' = JStr (REQUEST_ID c)" and "fld (fld manifest ''metadata'') ''consumerId'' = JStr ''platform-release''"
    and "fld (fld (fld manifest ''spec'') ''desiredState'') ''previousReleaseDigest'' = JStr (EXPECTED_PREVIOUS_RELEASE_DIGEST c)"
    and "fld (fld (fld manifest ''spec'') ''desiredState'') ''targetLock'' = fld desired ''targetLock''"
    and "validateReleaseLock (x_sha c) False (fld desired ''targetLock'') = Inr (fld desired ''targetLock'')"
    and "fld desired ''previousReleaseDigest'' = JStr (EXPECTED_PREVIOUS_RELEASE_DIGEST c)"
proof -
  let ?d = "fld (fld manifest ''spec'') ''desiredState''"
  have v: "validatePlatformReleaseDesiredState (x_sha c) ?d = Inr desired"
    and e: "fld desired ''previousReleaseDigest'' = JStr (EXPECTED_PREVIOUS_RELEASE_DIGEST c)"
    and i: "fld (fld manifest ''metadata'') ''requestId'' = JStr (REQUEST_ID c)" "fld (fld manifest ''metadata'') ''consumerId'' = JStr ''platform-release''"
    using assms by (auto simp: validateManifest_def rbind_eq_Inr)
  obtain lock where l: "validateReleaseLock (x_sha c) False (fld ?d ''targetLock'') = Inr lock"
    and d: "desired = JObj [(''contract'', JStr ''opensphere.platform.release/v1''), (''previousReleaseDigest'', fld ?d ''previousReleaseDigest''), (''targetLock'', lock)]"
    using v by (auto simp: validatePlatformReleaseDesiredState_def rbind_eq_Inr)
  have "lock = fld ?d ''targetLock''"
    using validateReleaseLock_Inr(1) [OF l] .
  then show "fld ?d ''previousReleaseDigest'' = JStr (EXPECTED_PREVIOUS_RELEASE_DIGEST c)" "fld ?d ''targetLock'' = fld desired ''targetLock''"
    "validateReleaseLock (x_sha c) False (fld desired ''targetLock'') = Inr (fld desired ''targetLock'')"
    using e l by (simp_all add: d fld_obj)
  show "fld (fld manifest ''metadata'') ''requestId'' = JStr (REQUEST_ID c)" "fld (fld manifest ''metadata'') ''consumerId'' = JStr ''platform-release''"
    "fld desired ''previousReleaseDigest'' = JStr (EXPECTED_PREVIOUS_RELEASE_DIGEST c)"
    by (fact i e)+
qed

lemma declared_intro:
  assumes "validateManifest c manifest = Inr desired" and "(Call ''fetch'' [JStr (declaration_url c), options], Inr response) \<in> set h"
    and "(Call ''response.text'' [response], Inr text) \<in> set h" and "truthy (fld response ''ok'')"
    and "x_parse c (x_base64 c (filter (\<lambda>x. \<not> ws x) (str_or_empty (fld (executor_body c (to_str text)) ''content'')))) = Inr manifest"
  shows "declared c (fld desired ''targetLock'') h"
  unfolding declared_def using assms(2-5) validateManifest_declares [OF assms(1)] by blast

lemma loadDesiredState_wp:
  assumes "silent (fx_log s)"
  shows "wp (loadDesiredState c) (\<lambda>desired t. silent (fx_log t) \<and> declared c (fld desired ''targetLock'') (fx_log t)
      \<and> fld desired ''previousReleaseDigest'' = JStr (EXPECTED_PREVIOUS_RELEASE_DIGEST c)) (\<lambda>_ t. silent (fx_log t)) s"
  unfolding loadDesiredState_def executor_request_def using assms
  by (auto simp: wp_simps Let_def get_prop_def fld_obj split: sum.splits intro: declared_intro validateManifest_declares(6))

lemma declared_mono: "declared c lock h \<Longrightarrow> set h \<subseteq> set h' \<Longrightarrow> declared c lock h'"
  unfolding declared_def by blast

definition grows :: "history \<Rightarrow> history \<Rightarrow> bool" where
  \<comment> \<open>the log grew by silent calls\<close>
  "grows h h' \<longleftrightarrow> (\<exists>new. h' = h @ new \<and> silent new)"

lemma grows_simps [simp]: "grows h h" "grows h (h @ new) \<longleftrightarrow> silent new"
  by (auto simp: grows_def)

lemma requiredPlatforms_wp: "wp (requiredPlatforms c) (\<lambda>_ t. grows (fx_log s) (fx_log t)) (\<lambda>_ t. grows (fx_log s) (fx_log t)) s"
  by (auto simp: requiredPlatforms_def wp_simps Let_def split: sum.splits)

lemma registryCredentials_wp: "wp (registryCredentials c) (\<lambda>_ t. grows (fx_log s) (fx_log t)) (\<lambda>_ t. grows (fx_log s) (fx_log t)) s"
  by (auto simp: registryCredentials_def wp_simps Let_def split: sum.splits)

definition receipts :: "bool \<Rightarrow> history \<Rightarrow> history \<Rightarrow> bool" where
  \<comment> \<open>the log grew by requests none of which is an upgrade, and none of which claims success unless the flag is set\<close>
  "receipts claim h h' \<longleftrightarrow> (\<exists>new. h' = h @ new \<and> list_all (\<lambda>x. \<not> is_upgrade x) new \<and> (claim \<or> silent new))"

lemma receipts_simps [simp]: "receipts b h (h @ new) \<longleftrightarrow> list_all (\<lambda>x. \<not> is_upgrade x) new \<and> (b \<or> silent new)" "receipts b h h"
  by (auto simp: receipts_def)

lemma receipts_trans: "receipts b h h' \<Longrightarrow> receipts b h' h'' \<Longrightarrow> receipts b h h''"
  by (auto simp: receipts_def)

lemma receipt_attempts_wp:
  assumes "fld payload ''succeeded'' = JBool b"
  shows "wp (receipt_attempts c payload n e) (\<lambda>_ t. receipts b (fx_log s) (fx_log t)) (\<lambda>_ t. receipts b (fx_log s) (fx_log t)) s"
proof (induction n arbitrary: e s)
  case (Suc n)
  have "wp (executor_request c (receipt_url c) (receipt_options c payload)) (\<lambda>_ t. receipts b (fx_log s) (fx_log t)) (\<lambda>_ t. receipts b (fx_log s) (fx_log t)) s"
    using assms by (auto simp: executor_request_def wp_simps Let_def receipt_options_def fld_obj split: sum.splits)
  then show ?case
    unfolding receipt_attempts.simps wp_simps
    by (rule wp_mono) (use receipts_trans in \<open>blast intro: wp_mono [OF Suc.IH]\<close>)+
qed (simp add: wp_simps)

definition observed :: "jsval \<Rightarrow> history \<Rightarrow> bool" where
  "observed lock h \<longleftrightarrow> list_all (\<lambda>x. \<not> is_upgrade x) h
     \<and> (silent h \<or> (\<exists>installed h3. h = (Call ''readInstallationLock'' [], Inr installed) # h3 \<and> fld installed ''releaseDigest'' = fld lock ''releaseDigest''))"

lemma observed_intros:
  "silent new \<Longrightarrow> \<exists>new'. h @ new = h @ new' \<and> observed lock new'"
  "list_all (\<lambda>x. \<not> is_upgrade x) new \<Longrightarrow> fld installed ''releaseDigest'' = fld lock ''releaseDigest''
     \<Longrightarrow> \<exists>new'. (h @ [(Call ''readInstallationLock'' [], Inr installed)]) @ new = h @ new' \<and> observed lock new'"
  by (auto simp: observed_def silent_def list_all_iff)

lemma strict_eq_eq: "strict_eq a b \<Longrightarrow> a = b"
  by (cases a; cases b) (auto simp: strict_eq_def is_object_def num_eq_def split: jnum.splits)

lemma success_payload_flag: "fld (success_payload c current installed platforms result) ''succeeded'' = JBool True"
  by (simp add: success_payload_def receipt_payload_def fld_obj)

lemma report_success_wp:
  "wp (report_success c current lock platforms result) (\<lambda>_ t. \<exists>new. fx_log t = fx_log s @ new \<and> observed lock new)
     (\<lambda>_ t. \<exists>new. fx_log t = fx_log s @ new \<and> observed lock new) s"
proof -
  let ?P = "\<lambda>_ t :: xstate. \<exists>new. fx_log t = fx_log s @ new \<and> observed lock new"
  have send: "wp (sendReceipt c (success_payload c current installed platforms result)) ?P ?P (s\<lparr>fx_log := fx_log s @ [(Call ''readInstallationLock'' [], Inr installed)]\<rparr>)"
    if "fld installed ''releaseDigest'' = fld lock ''releaseDigest''" for installed
    unfolding sendReceipt_def
    by (rule wp_mono [OF receipt_attempts_wp [OF success_payload_flag]]) (use that observed_intros(2) in \<open>auto simp: receipts_def\<close>)
  show ?thesis
    unfolding report_success_def
    by (auto simp: wp_simps Let_def get_prop_def observed_def wp_pret [abs_def] split: sum.splits intro!: wp_mono [OF send] dest: strict_eq_eq)
qed

definition outcome :: "executor \<Rightarrow> history \<Rightarrow> bool" where
  "outcome c h \<longleftrightarrow> silent h \<or> upgraded c h"

definition ready :: "executor \<Rightarrow> jsval \<Rightarrow> jsval \<Rightarrow> history \<Rightarrow> bool" where
  \<comment> \<open>what has been established before the upgrade\<close>
  "ready c current lock h \<longleftrightarrow> silent h \<and> declared c lock h \<and> (Call ''readInstallationLock'' [], Inr current) \<in> set h
     \<and> fld current ''releaseDigest'' = JStr (EXPECTED_PREVIOUS_RELEASE_DIGEST c)"

lemma ready_grows: "ready c current lock h \<Longrightarrow> grows h h' \<Longrightarrow> ready c current lock h'"
  using declared_mono [of c lock h h'] by (auto simp: ready_def grows_def)

lemma upgraded_intro:
  assumes "ready c current lock h" and "observed lock new"
  shows "upgraded c ((h @ [(Call ''upgrade'' [current, lock, options], Inr result)]) @ new)"
  using assms unfolding upgraded_def ready_def observed_def by fastforce

lemma failed_upgrade:
  assumes "ready c current lock h"
  shows "upgraded c (h @ [(Call ''upgrade'' [current, lock, options], r)])"
  using assms unfolding upgraded_def ready_def by fastforce

lemma upgrade_wp:
  assumes "ready c current lock (fx_log s)"
  shows "wp (pbind (call (x_env c) ''upgrade'' [current, lock, options]) (\<lambda>result. report_success c current lock platforms result))
    (\<lambda>_ t. outcome c (fx_log t)) (\<lambda>_ t. outcome c (fx_log t)) s"
proof -
  have "wp (report_success c current lock platforms result) (\<lambda>_ t. outcome c (fx_log t)) (\<lambda>_ t. outcome c (fx_log t))
      (s\<lparr>fx_log := fx_log s @ [(Call ''upgrade'' [current, lock, options], Inr result)]\<rparr>)" for result
    by (rule wp_mono [OF report_success_wp]) (use upgraded_intro [OF assms] in \<open>auto simp: outcome_def\<close>)
  then show ?thesis
    using failed_upgrade [OF assms] by (simp add: wp_simps Let_def outcome_def split: sum.splits)
qed

lemma ready_outcome: "ready c current lock h \<Longrightarrow> outcome c h"
  by (simp add: ready_def outcome_def)

lemma prepared_wp:
  assumes "ready c current lock (fx_log s)"
  shows "wp (pbind (requiredPlatforms c) (\<lambda>platforms. pbind (registryCredentials c) (\<lambda>credentials.
      pbind (call (x_env c) ''upgrade'' [current, lock, JObj [(''registryCredentials'', credentials), (''requiredPlatforms'', names_value platforms)]])
        (\<lambda>result. report_success c current lock platforms result))))
    (\<lambda>_ t. outcome c (fx_log t)) (\<lambda>_ t. outcome c (fx_log t)) s"
proof (rule wp_pbindI [OF wp_mono [OF requiredPlatforms_wp]])
  fix platforms and t :: xstate assume "grows (fx_log s) (fx_log t)"
  then have r: "ready c current lock (fx_log t)"
    by (rule ready_grows [OF assms])
  show "wp (pbind (registryCredentials c) (\<lambda>credentials.
      pbind (call (x_env c) ''upgrade'' [current, lock, JObj [(''registryCredentials'', credentials), (''requiredPlatforms'', names_value platforms)]])
        (\<lambda>result. report_success c current lock platforms result)))
    (\<lambda>_ t. outcome c (fx_log t)) (\<lambda>_ t. outcome c (fx_log t)) t"
    by (rule wp_pbindI [OF wp_mono [OF registryCredentials_wp]])
      (use ready_grows [OF r] ready_outcome upgrade_wp in blast)+
qed (use ready_grows [OF assms] ready_outcome in blast)+

lemma main_wp:
  assumes "silent (fx_log s)"
  shows "wp (main c) (\<lambda>_ t. outcome c (fx_log t)) (\<lambda>_ t. outcome c (fx_log t)) s"
  unfolding main_def
proof (rule wp_pbindI [OF wp_mono [OF loadDesiredState_wp [OF assms]]])
  fix desired and t :: xstate
  assume d: "silent (fx_log t) \<and> declared c (fld desired ''targetLock'') (fx_log t) \<and> fld desired ''previousReleaseDigest'' = JStr (EXPECTED_PREVIOUS_RELEASE_DIGEST c)"
  have r: "ready c current (fld desired ''targetLock'') (fx_log t @ [(Call ''readInstallationLock'' [], Inr current)])"
    if "fld current ''releaseDigest'' = JStr (EXPECTED_PREVIOUS_RELEASE_DIGEST c)" for current
    using that d declared_mono [of c _ "fx_log t" "fx_log t @ [(Call ''readInstallationLock'' [], Inr current)]"] by (auto simp: ready_def)
  have p: "wp (pbind (requiredPlatforms c) (\<lambda>platforms. pbind (registryCredentials c) (\<lambda>credentials.
      pbind (call (x_env c) ''upgrade'' [current, fld desired ''targetLock'', JObj [(''registryCredentials'', credentials), (''requiredPlatforms'', names_value platforms)]])
        (\<lambda>result. report_success c current (fld desired ''targetLock'') platforms result))))
      (\<lambda>_ t. outcome c (fx_log t)) (\<lambda>_ t. outcome c (fx_log t)) (t\<lparr>fx_log := fx_log t @ [(Call ''readInstallationLock'' [], Inr current)]\<rparr>)"
    if "fld current ''releaseDigest'' = JStr (EXPECTED_PREVIOUS_RELEASE_DIGEST c)" for current
    using prepared_wp [of c current "fld desired ''targetLock''" "t\<lparr>fx_log := fx_log t @ [(Call ''readInstallationLock'' [], Inr current)]\<rparr>"] r [OF that] by simp
  show "wp (pbind (call (x_env c) ''readInstallationLock'' []) (\<lambda>current.
     pbind (pguard (reject ''Platform Release request is stale; installation lock changed before execution'')
       (truthy current \<and> strict_eq (fld current ''releaseDigest'') (fld desired ''previousReleaseDigest''))) (\<lambda>_.
     pbind (requiredPlatforms c) (\<lambda>platforms.
     pbind (registryCredentials c) (\<lambda>credentials.
     pbind (call (x_env c) ''upgrade'' [current, fld desired ''targetLock'',
        JObj [(''registryCredentials'', credentials), (''requiredPlatforms'', names_value platforms)]]) (\<lambda>result.
     report_success c current (fld desired ''targetLock'') platforms result))))))
    (\<lambda>_ t. outcome c (fx_log t)) (\<lambda>_ t. outcome c (fx_log t)) t"
    using d p by (auto simp: wp_pbind [of "call _ _ _"] wp_pbind [of "pguard _ _"] wp_call wp_pguard Let_def outcome_def
      dest!: strict_eq_eq split: sum.splits)
qed (auto simp: outcome_def)

lemma outcome_silent:
  assumes "outcome c h" and "silent new"
  shows "outcome c (h @ new)"
proof (cases "silent h")
  case False
  then obtain h1 current lock options r h2 where u: "h = h1 @ (Call ''upgrade'' [current, lock, options], r) # h2" "silent h1" "declared c lock h1"
      "(Call ''readInstallationLock'' [], Inr current) \<in> set h1" "fld current ''releaseDigest'' = JStr (EXPECTED_PREVIOUS_RELEASE_DIGEST c)"
      "list_all (\<lambda>x. \<not> is_upgrade x) h2"
    and o: "silent h2 \<or> (\<exists>result installed h3. r = Inr result \<and> h2 = (Call ''readInstallationLock'' [], Inr installed) # h3
          \<and> fld installed ''releaseDigest'' = fld lock ''releaseDigest'')"
    using assms(1) unfolding outcome_def upgraded_def by blast
  have "list_all (\<lambda>x. \<not> is_upgrade x) (h2 @ new)"
    using u(6) assms(2) by (auto simp: silent_def list_all_iff)
  moreover have "silent (h2 @ new) \<or> (\<exists>result installed h3. r = Inr result \<and> h2 @ new = (Call ''readInstallationLock'' [], Inr installed) # h3
          \<and> fld installed ''releaseDigest'' = fld lock ''releaseDigest'')"
    using o assms(2) by auto
  moreover have "h @ new = h1 @ (Call ''upgrade'' [current, lock, options], r) # (h2 @ new)"
    using u(1) by simp
  ultimately have "upgraded c (h @ new)"
    unfolding upgraded_def using u(2-5) by blast
  then show ?thesis
    by (simp add: outcome_def)
qed (use assms in \<open>simp add: outcome_def\<close>)

lemma failure_payload_flag: "fld (failure_payload c error seen) ''succeeded'' = JBool False"
  by (simp add: failure_payload_def receipt_payload_def Let_def fld_obj)

lemma report_failure_wp:
  assumes "outcome c (fx_log s)"
  shows "wp (report_failure c error) (\<lambda>_ t. outcome c (fx_log t) \<and> exitCode t = 1) (\<lambda>_ _. False) s"
proof -
  have step: "outcome c (fx_log u)" if "receipts False (fx_log t) (fx_log u)" "outcome c (fx_log t)" for t u :: xstate
    using that outcome_silent by (auto simp: receipts_def)
  have send: "wp (sendReceipt c (failure_payload c error seen)) (\<lambda>_ u. outcome c (fx_log u)) (\<lambda>_ u. outcome c (fx_log u)) t"
    if "outcome c (fx_log t)" for t seen
    unfolding sendReceipt_def by (rule wp_mono [OF receipt_attempts_wp [OF failure_payload_flag]]) (use step that in blast)+
  have "outcome c (fx_log s @ [(Call ''readInstallationLock'' [], r)])" for r
    using assms by (rule outcome_silent) simp
  then show ?thesis
    unfolding report_failure_def
    by (auto simp: wp_simps Let_def wp_pret [abs_def] wp_pmod [abs_def] split: sum.splits intro!: wp_mono [OF send])
qed

definition success_accepted :: "executor \<Rightarrow> history \<Rightarrow> bool" where
  \<comment> \<open>the backend accepted a receipt that claims success\<close>
  "success_accepted c h \<longleftrightarrow> (\<exists>options response. (Call ''fetch'' [JStr (receipt_url c), options], Inr response) \<in> set h
     \<and> fld (fld options ''body'') ''succeeded'' = JBool True \<and> truthy (fld response ''ok''))"

lemma receipt_attempts_accepted:
  assumes "fld payload ''succeeded'' = JBool True"
  shows "wp (receipt_attempts c payload n e) (\<lambda>_ t. success_accepted c (fx_log t)) (\<lambda>_ _. True) s"
proof (induction n arbitrary: e s)
  case (Suc n)
  have a: "success_accepted c h"
    if "(Call ''fetch'' [JStr (receipt_url c), receipt_options c payload], Inr response) \<in> set h" "truthy (fld response ''ok'')" for h response
  proof -
    have "fld (fld (receipt_options c payload) ''body'') ''succeeded'' = JBool True"
      using assms by (simp add: receipt_options_def fld_obj)
    then show ?thesis
      unfolding success_accepted_def using that by blast
  qed
  have "wp (executor_request c (receipt_url c) (receipt_options c payload)) (\<lambda>_ t. success_accepted c (fx_log t)) (\<lambda>_ _. True) s" for s
    by (auto simp: executor_request_def wp_simps Let_def split: sum.splits intro: a)
  then show ?case
    unfolding receipt_attempts.simps wp_simps by (rule wp_mono) (simp_all add: Suc.IH)
qed (simp add: wp_simps)

lemma wp_bind_any: "(\<And>x t. wp (f x) Q (\<lambda>_ _. True) t) \<Longrightarrow> wp (pbind m f) Q (\<lambda>_ _. True) s"
  unfolding wp_pbind by (rule wp_any) simp_all

lemma main_accepted: "wp (main c) (\<lambda>_ t. success_accepted c (fx_log t)) (\<lambda>_ _. True) s"
proof -
  have report: "wp (report_success c current lock platforms result) (\<lambda>_ t. success_accepted c (fx_log t)) (\<lambda>_ _. True) t" for current lock platforms result t
    unfolding report_success_def sendReceipt_def
    by (auto simp: wp_simps Let_def wp_pret [abs_def] split: sum.splits intro!: wp_mono [OF receipt_attempts_accepted [OF success_payload_flag]])
  show ?thesis
    unfolding main_def by (intro wp_bind_any report)
qed

text \<open>C17: whatever the services answer, a run of the executor ends, and it upgrades at most once: only a lock that the contract accepts, declared under the
  Job's request id in the manifest read at the Job's commit and reviewed against the expected digest, and only when the installed lock read
  before has that digest; it claims success only after the call right after the upgrade has shown the declared digest installed, and it
  exits with success only if the backend accepted that claim.
\<close>

theorem executor_upgrades_once_and_claims_only_what_it_observed:
  assumes "fx_log s = []" and "exitCode s = 0"
  shows "fst (executor_program c s) = Inr () \<and> outcome c (fx_log (snd (executor_program c s)))
    \<and> (exitCode (snd (executor_program c s)) = 1 \<or> success_accepted c (fx_log (snd (executor_program c s))))"
proof -
  have "silent (fx_log s)"
    by (simp add: assms(1))
  from wp_conj [OF main_wp [OF this] main_accepted]
  have "wp (executor_program c) (\<lambda>_ t. outcome c (fx_log t) \<and> (exitCode t = 1 \<or> success_accepted c (fx_log t))) (\<lambda>_ _. False) s"
    unfolding executor_program_def wp_pcatch by (rule wp_mono) (auto intro: wp_mono [OF report_failure_wp])
  then show ?thesis
    by (cases "executor_program c s") (auto simp: wp_def split: sum.splits)
qed

section \<open>An example\<close>

definition demo_node :: jsval where
  "demo_node = JObj [(''status'', JObj [(''nodeInfo'', JObj [(''operatingSystem'', JStr ''Linux''), (''architecture'', JStr ''amd64'')])])]"

definition demo_installed :: jsval where
  "demo_installed = JObj [(''releaseDigest'', JStr (''sha256:'' @ replicate 64 (CHR ''0'')))]"

definition demo_reply :: "history \<Rightarrow> service_call \<Rightarrow> answer" where
  "demo_reply h cl = (case cl of Call n args \<Rightarrow>
     if n = ''fetch'' then Inr (JObj [(''ok'', JBool True), (''page'', if fld (hd (tl args)) ''method'' = JUndef then JStr ''file'' else JStr [])])
     else if n = ''response.text'' then Inr (fld (hd args) ''page'')
     else if n = ''readInstallationLock'' then Inr demo_installed
     else if n = ''kubectl'' then Inr (JStr ''nodes'')
     else if n = ''upgrade'' then Inr (JObj [(''changed'', JBool True)]) else Inl type_error)"

definition demo_text :: "string \<Rightarrow> jsval + jsval" where
  "demo_text t = (if t = ''file'' then Inr (JObj [(''content'', JStr ''manifest'')]) else if t = ''manifest'' then Inr demo_manifest
     else if t = ''nodes'' then Inr (JObj [(''items'', JArr [demo_node])]) else Inl type_error)"

definition demo_executor :: executor where
  "demo_executor = \<lparr>x_env = demo_reply, x_parse = demo_text, x_base64 = (\<lambda>t. t), x_sha = demo_sha, x_BACKEND_URL = ''b'', x_GITEA_URL = ''g'',
     x_GITEA_ORGANIZATION = ''o'', x_GITEA_REPOSITORY = ''r'', x_GITEA_PATH = ''p'', x_GITEA_TOKEN = ''t'', x_RECONCILER_TOKEN = ''t'', REQUEST_ID = demo_id,
     GIT_COMMIT_SHA = replicate 40 (CHR ''a''), ATTEMPT = Fin 1, EXPECTED_PREVIOUS_RELEASE_DIGEST = ''sha256:'' @ replicate 64 (CHR ''0'')\<rparr>"

definition demo_begin_state :: xstate where
  "demo_begin_state = \<lparr>fx_log = [], exitCode = 0\<rparr>"

lemma demo_executor_flds [simp]:
  "x_env demo_executor = demo_reply" "x_parse demo_executor = demo_text" "x_base64 demo_executor t = t" "x_sha demo_executor = demo_sha"
  "x_GITEA_TOKEN demo_executor = ''t''" "x_RECONCILER_TOKEN demo_executor = ''t''" "REQUEST_ID demo_executor = demo_id"
  "GIT_COMMIT_SHA demo_executor = replicate 40 (CHR ''a'')" "EXPECTED_PREVIOUS_RELEASE_DIGEST demo_executor = ''sha256:'' @ replicate 64 (CHR ''0'')"
  by (simp_all add: demo_executor_def)

lemma demo_manifest_flds:
  "fld demo_manifest ''apiVersion'' = JStr ''platform.opensphere.io/v1alpha1''" "fld demo_manifest ''kind'' = JStr ''GovernedChange''"
  "fld (fld demo_manifest ''metadata'') ''requestId'' = JStr demo_id" "fld (fld demo_manifest ''metadata'') ''consumerId'' = JStr ''platform-release''"
  "fld (fld demo_manifest ''spec'') ''action'' = JStr ''apply''" "fld (fld demo_manifest ''spec'') ''target'' = JStr ''opensphere-platform''"
  "fld (fld demo_manifest ''spec'') ''desiredState'' = demo_desired"
  by (simp_all add: demo_manifest_def fld_obj)

lemma demo_valid: "\<exists>v. validateManifest demo_executor demo_manifest = Inr v \<and> fld v ''targetLock'' = demo_target
    \<and> fld v ''previousReleaseDigest'' = JStr (''sha256:'' @ replicate 64 (CHR ''0''))"
proof -
  obtain v where v: "validatePlatformReleaseDesiredState demo_sha demo_desired = Inr v"
    using demo_desired_ok by blast
  then have f: "fld v ''targetLock'' = demo_target" "fld v ''previousReleaseDigest'' = JStr (''sha256:'' @ replicate 64 (CHR ''0''))"
    using demo_target_ok unfolding validatePlatformReleaseDesiredState_def demo_desired_flds by (auto simp: rbind_eq_Inr fld_obj)
  then show ?thesis
    using v by (auto simp: validateManifest_def demo_manifest_flds rbind_def guard_else_def)
qed

lemma demo_main: "wp (main demo_executor) (\<lambda>_ t. exitCode t = 0) (\<lambda>_ _. False) demo_begin_state"
proof -
  obtain v where v: "validateManifest demo_executor demo_manifest = Inr v" "fld v ''targetLock'' = demo_target"
      "fld v ''previousReleaseDigest'' = JStr (''sha256:'' @ replicate 64 (CHR ''0''))"
    using demo_valid by blast
  have ids: "is_uuid demo_id" "COMMIT_RE (replicate 40 (CHR ''a''))" "node_platform demo_node = ''linux/amd64''" "truthy demo_installed"
    by code_simp+
  have d: "fld demo_installed ''releaseDigest'' = JStr (''sha256:'' @ replicate 64 (CHR ''0''))"
    "fld demo_target ''releaseDigest'' = JStr (''sha256:'' @ replicate 64 (CHR ''0''))"
    by (simp_all add: demo_installed_def demo_target_def demo_lock_header fld_obj)
  have r: "wp (receipt_attempts demo_executor payload 60 e) Q E s" if "\<And>x t. exitCode t = exitCode s \<Longrightarrow> Q x t" for payload e Q E s
    using that by (simp add: numeral_eq_Suc executor_request_def wp_simps Let_def demo_reply_def receipt_options_def fld_obj)
  show ?thesis
    unfolding main_def loadDesiredState_def executor_request_def requiredPlatforms_def registryCredentials_def report_success_def sendReceipt_def
    by (simp add: wp_simps Let_def ids demo_reply_def demo_text_def executor_body_def get_prop_def nullish_def fld_obj ws_def v d strict_eq_def is_object_def
      array_of_def js_or_def uniq_def r demo_begin_state_def wp_pret [abs_def])
qed

theorem executor_upgrades_once_and_claims_only_what_it_observed_witness:
  "upgraded demo_executor (fx_log (snd (executor_program demo_executor demo_begin_state)))
   \<and> success_accepted demo_executor (fx_log (snd (executor_program demo_executor demo_begin_state)))"
proof -
  have e: "exitCode (snd (executor_program demo_executor demo_begin_state)) = 0"
    using demo_main by (auto simp: executor_program_def pcatch_def wp_def split: prod.splits sum.splits)
  have s: "success_accepted demo_executor (fx_log (snd (executor_program demo_executor demo_begin_state)))"
    and o: "outcome demo_executor (fx_log (snd (executor_program demo_executor demo_begin_state)))"
    using executor_upgrades_once_and_claims_only_what_it_observed [of demo_begin_state demo_executor] e by (auto simp: demo_begin_state_def)
  from s have "\<not> silent (fx_log (snd (executor_program demo_executor demo_begin_state)))"
    by (fastforce simp: success_accepted_def silent_def list_all_iff)
  then show ?thesis
    using o s by (simp add: outcome_def)
qed

end
