(* ===== verification/CommandSchema.thy ===== *)
theory CommandSchema
  imports OwnerAdmission
begin

text \<open>
  The bounded argument schemas of OS Shell commands, \<open>src/apps/os-shell-control/command-schema.js\<close>: which schemas the control plane admits from an
  owner contract, and which argument values an admitted schema accepts.  The node budget the recursion shares is threaded as a counter;
  the limit on the depth is what makes the walk over a schema terminate.

  A value is read as \<open>JSON.parse\<close> leaves it.  The value check is translated for the schemas the schema check admits: on others (a \<open>properties\<close>
  that is no object, an \<open>enum\<close> that is no array) both the code and the model throw, not always the same error.
\<close>

section \<open>Loops that may throw\<close>

fun each_res :: "('a \<Rightarrow> 'e + unit) \<Rightarrow> 'a list \<Rightarrow> 'e + unit" where
  "each_res f [] = Inr ()"
| "each_res f (x # xs) = rbind (f x) (\<lambda>_. each_res f xs)"

lemma each_res_cong [fundef_cong]:
  "xs = ys \<Longrightarrow> (\<And>x. x \<in> set ys \<Longrightarrow> f x = g x) \<Longrightarrow> each_res f xs = each_res g ys"
  by (induction ys arbitrary: xs) auto

lemma each_res_Inr [simp]: "each_res f xs = Inr u \<longleftrightarrow> (\<forall>x \<in> set xs. f x = Inr ())"
  by (induction xs) (auto simp: res_splits)

fun fold_res :: "('a \<Rightarrow> 'b \<Rightarrow> 'e + 'b) \<Rightarrow> 'a list \<Rightarrow> 'b \<Rightarrow> 'e + 'b" where
  "fold_res f [] b = Inr b"
| "fold_res f (x # xs) b = rbind (f x b) (fold_res f xs)"

lemma fold_res_Inr: "fold_res f xs b = Inr b' \<Longrightarrow> x \<in> set xs \<Longrightarrow> \<exists>c c'. f x c = Inr c'"
  by (induction xs arbitrary: b) (auto simp: res_splits)

section \<open>Formats and field tables\<close>

definition low_alnum :: "char \<Rightarrow> bool" where
  "low_alnum c \<longleftrightarrow> digit_char c \<or> 97 \<le> (of_char c :: nat) \<and> (of_char c :: nat) \<le> 122"

definition is_dns_name :: "string \<Rightarrow> bool" where
  \<comment> \<open>\<open>/^[a-z0-9](?:[a-z0-9.-]{0,251}[a-z0-9])?$/\<close>\<close>
  "is_dns_name s \<longleftrightarrow> s \<noteq> [] \<and> length s \<le> 253 \<and> low_alnum (hd s) \<and> low_alnum (last s)
     \<and> list_all (\<lambda>c. low_alnum c \<or> c = CHR ''.'' \<or> c = CHR ''-'') s"

definition is_version_text :: "string \<Rightarrow> bool" where
  \<comment> \<open>\<open>/^\d+\.\d+\.\d+$/\<close>\<close>
  "is_version_text s \<longleftrightarrow> length (split_dots s) = 3 \<and> list_all (\<lambda>p. p \<noteq> [] \<and> list_all digit_char p) (split_dots s)"

definition is_semver :: "string \<Rightarrow> bool" where
  \<comment> \<open>\<open>/^v?\d+\.\d+\.\d+$/\<close>\<close>
  "is_semver s \<longleftrightarrow> is_version_text (if starts_with ''v'' s then drop 1 s else s)"

definition FORMATS :: "(string \<times> (string \<Rightarrow> bool)) list" where
  "FORMATS = [(''uuid'', is_uuid), (''sha256'', is_sha256_ref),
     (''git-revision'', (\<lambda>s. length s = 40 \<and> list_all hex_lower s)), (''dns-name'', is_dns_name), (''semver'', is_semver)]"

definition has_own :: "jsval \<Rightarrow> string \<Rightarrow> bool" where
  "has_own v k \<longleftrightarrow> list_ex (\<lambda>kv. fst kv = k) (obj_entries v)"

definition schema_invalid :: "string \<Rightarrow> bool \<Rightarrow> jsval" where
  "schema_invalid message contract = js_error message
     [(''status'', JInt (if contract then 503 else 400)),
      (''code'', JStr (if contract then ''CommandProviderUnavailable'' else ''ValidationFailed'')), (''sideEffect'', JStr ''none'')]"

definition closed_fields :: "jsval \<Rightarrow> string list \<Rightarrow> bool" where
  "closed_fields v names \<longleftrightarrow> is_plain_object v \<and> list_all (\<lambda>kv. fst kv \<in> set names) (obj_entries v)"

definition SCHEMA_FIELDS :: "(string \<times> string list) list" where
  "SCHEMA_FIELDS = [(''string'', [''minLength'', ''maxLength'', ''format'']), (''integer'', [''minimum'', ''maximum'']),
     (''number'', [''minimum'', ''maximum'']), (''boolean'', []), (''object'', [''properties'', ''required'', ''additionalProperties'']),
     (''array'', [''items'', ''minItems'', ''maxItems''])]"

definition schema_common :: "string list" where
  "schema_common = [''type'', ''description'', ''enum'']"

definition MAX_SAFE_INTEGER :: rat where
  "MAX_SAFE_INTEGER = 9007199254740991"

definition is_safe_integer :: "jsval \<Rightarrow> bool" where
  \<comment> \<open>\<open>Number.isSafeInteger(v)\<close>\<close>
  "is_safe_integer v \<longleftrightarrow> (case v of JNum (Fin r) \<Rightarrow> is_int_rat r \<and> \<bar>r\<bar> \<le> MAX_SAFE_INTEGER | _ \<Rightarrow> False)"

definition num_length :: "'a list \<Rightarrow> jnum" where
  "num_length xs = Fin (of_nat (length xs))"

section \<open>Values\<close>

definition check_enum :: "jsval \<Rightarrow> jsval \<Rightarrow> string \<Rightarrow> jsval + unit" where
  "check_enum schema v path = (let e = fld schema ''enum'' in
     if \<not> truthy e then Inr ()
     else rbind (array_of e) (\<lambda>xs. guard_else (schema_invalid (path @ '': value is not in the command contract'') False) (set_has xs v)))"

definition string_conforms :: "jsval \<Rightarrow> string \<Rightarrow> jsval + bool" where
  "string_conforms schema s =
     (if num_less (num_length s) (to_num (js_or (fld schema ''minLength'') (JInt 0))) \<or> num_less (to_num (fld schema ''maxLength'')) (num_length s)
      then Inr False
      else if \<not> truthy (fld schema ''format'') then Inr True
      else case map_of FORMATS (to_str (fld schema ''format'')) of None \<Rightarrow> Inl type_error | Some p \<Rightarrow> Inr (p s))"

definition number_conforms :: "jsval \<Rightarrow> string \<Rightarrow> jsval \<Rightarrow> bool" where
  "number_conforms schema t v \<longleftrightarrow> (case v of
       JNum n \<Rightarrow> num_is_finite n \<and> (t = ''integer'' \<longrightarrow> is_safe_integer v)
         \<and> \<not> num_less n (to_num (fld schema ''minimum'')) \<and> \<not> num_less (to_num (fld schema ''maximum'')) n
     | _ \<Rightarrow> False)"

function validateValue :: "jsval \<Rightarrow> jsval \<Rightarrow> string \<Rightarrow> jsval + unit" where
  "validateValue schema v path = rbind (check_enum schema v path) (\<lambda>_.
     case fld schema ''type'' of
       JStr t \<Rightarrow>
         if t = ''object'' then
           (case v of
              JObj kvs \<Rightarrow> rbind (array_of (fld schema ''required'')) (\<lambda>required.
                if list_ex (\<lambda>kv. \<not> has_own (fld schema ''properties'') (fst kv)) kvs \<or> list_ex (\<lambda>k. \<not> has_own v (to_str k)) required
                then Inl (schema_invalid (path @ '': unexpected or missing field'') False)
                else each_res (\<lambda>(k, x). validateValue (fld (fld schema ''properties'') k) x (path @ ''.'' @ k)) kvs)
            | _ \<Rightarrow> Inl (schema_invalid (path @ '': unexpected or missing field'') False))
         else if t = ''array'' then
           (case v of
              JArr xs \<Rightarrow>
                if num_less (num_length xs) (to_num (js_or (fld schema ''minItems'') (JInt 0))) \<or> num_less (to_num (fld schema ''maxItems'')) (num_length xs)
                then Inl (schema_invalid (path @ '': invalid array'') False)
                else each_res (\<lambda>(i, x). validateValue (fld schema ''items'') x (path @ ''['' @ nat_str i @ '']'')) (enumerate 0 xs)
            | _ \<Rightarrow> Inl (schema_invalid (path @ '': invalid array'') False))
         else if t = ''string'' then
           (case v of
              JStr s \<Rightarrow> rbind (string_conforms schema s) (guard_else (schema_invalid (path @ '': invalid string'') False))
            | _ \<Rightarrow> Inl (schema_invalid (path @ '': invalid string'') False))
         else if t = ''integer'' \<or> t = ''number'' then
           guard_else (schema_invalid (path @ '': invalid number'') False) (number_conforms schema t v)
         else if t = ''boolean'' then
           guard_else (schema_invalid (path @ '': invalid boolean'') False) (case v of JBool b \<Rightarrow> True | _ \<Rightarrow> False)
         else Inl (schema_invalid ''Unsupported command schema'' True)
     | _ \<Rightarrow> Inl (schema_invalid ''Unsupported command schema'' True))"
  by pat_completeness auto
termination
  by (relation "measure (\<lambda>(schema, v, path). size v)")
    (auto dest: size_snd_less simp: in_set_enumerate_eq less_Suc_eq_le intro: size_list_estimation' [OF nth_mem])

declare validateValue.simps [simp del]

section \<open>Schemas\<close>

definition check_fields :: "jsval \<Rightarrow> jsval + unit" where
  "check_fields schema = (case table_get SCHEMA_FIELDS (to_str (fld schema ''type'')) of
       Absent \<Rightarrow> Inl (schema_invalid ''Unsupported command schema'' True)
     | Inherited \<Rightarrow> Inl type_error
     | Own names \<Rightarrow> guard_else (schema_invalid ''Unsupported command schema'' True) (closed_fields schema (schema_common @ names)))"

definition valid_description :: "jsval \<Rightarrow> bool" where
  "valid_description v \<longleftrightarrow> (case v of JUndef \<Rightarrow> True | JStr s \<Rightarrow> length s \<le> 500 | _ \<Rightarrow> False)"

definition valid_enum :: "jsval \<Rightarrow> bool" where
  "valid_enum v \<longleftrightarrow> (case v of
       JUndef \<Rightarrow> True
     | JArr xs \<Rightarrow> xs \<noteq> [] \<and> length xs \<le> 64 \<and> list_all (\<lambda>x. case x of JStr _ \<Rightarrow> True | JNum _ \<Rightarrow> True | JBool _ \<Rightarrow> True | _ \<Rightarrow> False) xs \<and> distinct xs
     | _ \<Rightarrow> False)"

definition valid_object :: "jsval \<Rightarrow> bool" where
  "valid_object schema \<longleftrightarrow> (let properties = fld schema ''properties'' in
     fld schema ''additionalProperties'' = JBool False \<and> is_plain_object properties \<and> length (obj_entries properties) \<le> 32
     \<and> (case fld schema ''required'' of
          JArr ks \<Rightarrow> distinct ks \<and> list_all (\<lambda>k. case k of JStr s \<Rightarrow> has_own properties s | _ \<Rightarrow> False) ks
        | _ \<Rightarrow> False))"

definition safe_field :: "string \<Rightarrow> bool" where
  \<comment> \<open>\<open>/^[a-z][a-zA-Z0-9]{0,47}$/\<close> and not a name the prototype chain uses\<close>
  "safe_field s \<longleftrightarrow> 1 \<le> length s \<and> length s \<le> 48 \<and> 97 \<le> (of_char (hd s) :: nat) \<and> (of_char (hd s) :: nat) \<le> 122
     \<and> list_all (\<lambda>c. alpha_char c \<or> digit_char c) (tl s) \<and> s \<notin> set [''constructor'', ''prototype'', ''__proto__'']"

definition bounded_by :: "jsval \<Rightarrow> rat \<Rightarrow> rat \<Rightarrow> bool" where
  \<comment> \<open>a safe integer between two limits\<close>
  "bounded_by v low high \<longleftrightarrow> is_safe_integer v \<and> (case v of JNum (Fin r) \<Rightarrow> low \<le> r \<and> r \<le> high | _ \<Rightarrow> False)"

definition finite_part :: "jsval \<Rightarrow> rat option" where
  "finite_part v = (case v of JNum (Fin r) \<Rightarrow> Some r | _ \<Rightarrow> None)"

definition optional_min :: "jsval \<Rightarrow> jsval \<Rightarrow> bool" where
  "optional_min v max_v \<longleftrightarrow> v = JUndef \<or> (case finite_part max_v of Some m \<Rightarrow> bounded_by v 0 m | None \<Rightarrow> False)"

definition valid_array :: "jsval \<Rightarrow> bool" where
  "valid_array schema \<longleftrightarrow> bounded_by (fld schema ''maxItems'') 0 64 \<and> optional_min (fld schema ''minItems'') (fld schema ''maxItems'')"

definition valid_string :: "jsval \<Rightarrow> bool" where
  "valid_string schema \<longleftrightarrow> bounded_by (fld schema ''maxLength'') 1 4096 \<and> optional_min (fld schema ''minLength'') (fld schema ''maxLength'')
     \<and> (fld schema ''format'' = JUndef \<or> to_str (fld schema ''format'') \<in> fst ` set FORMATS)"

definition valid_number :: "jsval \<Rightarrow> bool" where
  "valid_number schema \<longleftrightarrow> (case (finite_part (fld schema ''minimum''), finite_part (fld schema ''maximum'')) of
       (Some low, Some high) \<Rightarrow> low \<le> high \<and> \<bar>low\<bar> \<le> MAX_SAFE_INTEGER \<and> \<bar>high\<bar> \<le> MAX_SAFE_INTEGER
     | _ \<Rightarrow> False)"

definition check_scalar :: "jsval \<Rightarrow> jsval + unit" where
  "check_scalar schema = (let t = fld schema ''type'' in
     if t = JStr ''string'' then guard_else (schema_invalid ''Strings must be bounded'' True) (valid_string schema)
     else if t = JStr ''integer'' \<or> t = JStr ''number'' then guard_else (schema_invalid ''Numbers must be bounded'' True) (valid_number schema)
     else Inr ())"

definition without_enum :: "jsval \<Rightarrow> jsval" where
  \<comment> \<open>\<open>{ ...schema, enum: undefined }\<close>\<close>
  "without_enum schema = JObj (spread (obj_entries schema) [(''enum'', JUndef)])"

definition check_enum_values :: "jsval \<Rightarrow> jsval + unit" where
  "check_enum_values schema = each_res (\<lambda>v. case validateValue (without_enum schema) v ''enum'' of
       Inl _ \<Rightarrow> Inl (schema_invalid ''Enum does not conform to its declared type'' True)
     | Inr _ \<Rightarrow> Inr ()) (elems (fld schema ''enum''))"

function validateSchema :: "jsval \<Rightarrow> nat \<Rightarrow> nat \<Rightarrow> jsval + nat" where
  \<comment> \<open>the arguments are the schema, its depth and the nodes counted so far; the result is the count after it\<close>
  "validateSchema schema depth used = (let nodes = Suc used in
     if 256 < nodes \<or> 6 < depth \<or> \<not> is_plain_object schema then Inl (schema_invalid ''Command schema exceeds its bounds'' True)
     else rbind (check_fields schema) (\<lambda>_.
       rbind (guard_else (schema_invalid ''Invalid schema description'' True) (valid_description (fld schema ''description''))) (\<lambda>_.
       rbind (guard_else (schema_invalid ''Invalid schema enum'' True) (valid_enum (fld schema ''enum''))) (\<lambda>_.
       rbind
         (if fld schema ''type'' = JStr ''object'' then
            rbind (guard_else (schema_invalid ''Objects must have closed named fields'' True) (valid_object schema)) (\<lambda>_.
            fold_res (\<lambda>(name, child) n.
               if \<not> safe_field name then Inl (schema_invalid ''Unsafe schema field'' True) else validateSchema child (Suc depth) n)
              (obj_entries (fld schema ''properties'')) nodes)
          else if fld schema ''type'' = JStr ''array'' then
            rbind (guard_else (schema_invalid ''Arrays must be bounded'' True) (valid_array schema)) (\<lambda>_.
            validateSchema (fld schema ''items'') (Suc depth) nodes)
          else rbind (check_scalar schema) (\<lambda>_. Inr nodes))
         (\<lambda>n. rbind (check_enum_values schema) (\<lambda>_. Inr n))))))"
  by pat_completeness auto
termination
  by (relation "measure (\<lambda>(schema, depth, used). 7 - depth)") auto

declare validateSchema.simps [simp del]

section \<open>What an admitted schema lets through\<close>

fun bounded_value :: "nat \<Rightarrow> jsval \<Rightarrow> bool" where
  "bounded_value d (JBool b) \<longleftrightarrow> True"
| "bounded_value d (JStr s) \<longleftrightarrow> length s \<le> 4096"
| "bounded_value d (JNum n) \<longleftrightarrow> (case n of Fin r \<Rightarrow> \<bar>r\<bar> \<le> MAX_SAFE_INTEGER | _ \<Rightarrow> False)"
| "bounded_value d (JArr xs) \<longleftrightarrow> 0 < d \<and> length xs \<le> 64 \<and> list_all (bounded_value (d - 1)) xs"
| "bounded_value d (JObj kvs) \<longleftrightarrow> card (fst ` set kvs) \<le> 32 \<and> list_all (\<lambda>kv. 0 < d \<and> safe_field (fst kv) \<and> bounded_value (d - 1) (snd kv)) kvs"
| "bounded_value d _ \<longleftrightarrow> False"

definition admitted_at :: "nat \<Rightarrow> jsval \<Rightarrow> bool" where
  "admitted_at d schema \<longleftrightarrow> (\<exists>u n. validateSchema schema d u = Inr n)"

lemma admitted_depth: "admitted_at d schema \<Longrightarrow> d \<le> 6"
  unfolding admitted_at_def by (subst (asm) validateSchema.simps) (auto simp: Let_def split: if_splits)

lemma admitted_object:
  assumes "admitted_at d schema" and "fld schema ''type'' = JStr ''object''"
  shows "valid_object schema" and "(k, child) \<in> set (obj_entries (fld schema ''properties'')) \<Longrightarrow> safe_field k \<and> admitted_at (Suc d) child"
proof -
  from assms obtain u n m where v: "valid_object schema"
    and f: "fold_res (\<lambda>(name, child) n. if \<not> safe_field name then Inl (schema_invalid ''Unsafe schema field'' True) else validateSchema child (Suc d) n)
        (obj_entries (fld schema ''properties'')) (Suc u) = Inr m"
    unfolding admitted_at_def by (subst (asm) validateSchema.simps) (auto simp: Let_def res_splits split: if_splits)
  show "valid_object schema"
    by (rule v)
  show "safe_field k \<and> admitted_at (Suc d) child" if "(k, child) \<in> set (obj_entries (fld schema ''properties''))"
    using fold_res_Inr [OF f that] by (auto simp: admitted_at_def split: if_splits)
qed

lemma admitted_array:
  assumes "admitted_at d schema" and "fld schema ''type'' = JStr ''array''"
  shows "valid_array schema" and "admitted_at (Suc d) (fld schema ''items'')"
  using assms unfolding admitted_at_def
  by (subst (asm) validateSchema.simps, auto simp: Let_def res_splits split: if_splits)+

lemma admitted_scalar:
  assumes "admitted_at d schema"
  shows "fld schema ''type'' = JStr ''string'' \<Longrightarrow> valid_string schema"
    and "fld schema ''type'' = JStr ''integer'' \<or> fld schema ''type'' = JStr ''number'' \<Longrightarrow> valid_number schema"
  using assms unfolding admitted_at_def
  by (subst (asm) validateSchema.simps, auto simp: Let_def res_splits check_scalar_def split: if_splits)+

lemma enumerate_accepted:
  assumes "\<forall>ix \<in> set (enumerate 0 xs). f (snd ix) (g (fst ix)) = Inr ()"
  shows "\<forall>x \<in> set xs. \<exists>p. f x p = Inr ()"
proof
  fix x assume "x \<in> set xs"
  then obtain i where "i < length xs" "xs ! i = x"
    by (auto simp: in_set_conv_nth)
  then have "(i, x) \<in> set (enumerate 0 xs)"
    by (simp add: in_set_enumerate_eq)
  then show "\<exists>p. f x p = Inr ()"
    using assms by fastforce
qed

lemma accepted_cases:
  assumes "validateValue schema v path = Inr ()"
  obtains
    (Object) kvs where "fld schema ''type'' = JStr ''object''" "v = JObj kvs" "\<forall>kv \<in> set kvs. has_own (fld schema ''properties'') (fst kv)"
      "\<forall>kv \<in> set kvs. validateValue (fld (fld schema ''properties'') (fst kv)) (snd kv) (path @ ''.'' @ fst kv) = Inr ()"
  | (Array) xs where "fld schema ''type'' = JStr ''array''" "v = JArr xs" "\<not> num_less (to_num (fld schema ''maxItems'')) (num_length xs)"
      "\<forall>x \<in> set xs. \<exists>p. validateValue (fld schema ''items'') x p = Inr ()"
  | (String) s where "fld schema ''type'' = JStr ''string''" "v = JStr s" "\<not> num_less (to_num (fld schema ''maxLength'')) (num_length s)"
  | (Number) t where "fld schema ''type'' = JStr t" "t = ''integer'' \<or> t = ''number''" "number_conforms schema t v"
  | (Boolean) b where "v = JBool b"
proof -
  from assms obtain t where t: "fld schema ''type'' = JStr t"
    by (subst (asm) validateValue.simps) (auto simp: res_splits split: jsval.splits)
  from assms show thesis
    using that t enumerate_accepted [where f = "validateValue (fld schema ''items'')"]
    by (subst (asm) validateValue.simps)
      (auto simp: res_splits string_conforms_def list_ex_iff split_beta split: jsval.splits if_splits)
qed

lemma own_fld: "has_own v k \<Longrightarrow> (k, fld v k) \<in> set (obj_entries v)"
  by (cases v) (auto simp: has_own_def list_ex_iff fld_def obj_entries_def map_of_eq_None_iff rev_image_eqI dest: map_of_SomeD split: option.splits)

lemma accepted_bounded:
  "validateValue schema v path = Inr () \<Longrightarrow> admitted_at d schema \<Longrightarrow> bounded_value (6 - d) v"
proof (induction v arbitrary: schema path d)
  case (JArr xs)
  from JArr.prems(1) show ?case
  proof (cases rule: accepted_cases)
    case (Array ys)
    have "valid_array schema" and sub: "admitted_at (Suc d) (fld schema ''items'')"
      using admitted_array JArr.prems(2) Array(1) by blast+
    then have "length ys \<le> 64"
      using Array(3) by (auto simp: valid_array_def bounded_by_def num_length_def split: jsval.splits jnum.splits)
    moreover have "d < 6"
      using admitted_depth [OF sub] by simp
    moreover have "\<forall>x \<in> set xs. bounded_value (6 - Suc d) x"
      using JArr.IH Array(2,4) sub by blast
    ultimately show ?thesis
      using Array(2) by (simp add: list_all_iff)
  qed (auto simp: number_conforms_def)
next
  case (JObj kvs)
  from JObj.prems(1) show ?case
  proof (cases rule: accepted_cases)
    case (Object ys)
    let ?p = "fld schema ''properties''"
    have v: "valid_object schema" and sub: "\<And>k c. (k, c) \<in> set (obj_entries ?p) \<Longrightarrow> safe_field k \<and> admitted_at (Suc d) c"
      using admitted_object JObj.prems(2) Object(1) by blast+
    have "fst ` set kvs \<subseteq> fst ` set (obj_entries ?p)"
      using Object(2,3) by (force simp: has_own_def list_ex_iff)
    then have "card (fst ` set kvs) \<le> card (fst ` set (obj_entries ?p))"
      by (intro card_mono) auto
    also have "\<dots> \<le> length (obj_entries ?p)"
      by (metis card_length length_map list.set_map)
    finally have "card (fst ` set kvs) \<le> 32"
      using v by (simp add: valid_object_def Let_def)
    moreover have "0 < 6 - d \<and> safe_field k \<and> bounded_value (6 - d - 1) x" if kx: "(k, x) \<in> set kvs" for k x
    proof -
      have s: "safe_field k \<and> admitted_at (Suc d) (fld ?p k)"
        using Object(2,3) kx by (intro sub own_fld) auto
      moreover have "validateValue (fld ?p k) x (path @ ''.'' @ k) = Inr ()"
        using Object(2,4) kx by auto
      ultimately show ?thesis
        using JObj.IH [OF kx, of x "fld ?p k" _ "Suc d"] admitted_depth [of "Suc d" "fld ?p k"] by auto
    qed
    ultimately show ?thesis
      by (auto simp: list_all_iff)
  qed (auto simp: number_conforms_def)
next
  case (JStr s)
  from JStr.prems(1) show ?case
  proof (cases rule: accepted_cases)
    case (String t)
    then show ?thesis
      using admitted_scalar(1) [OF JStr.prems(2)]
      by (auto simp: valid_string_def bounded_by_def num_length_def split: jsval.splits jnum.splits)
  qed (auto simp: number_conforms_def)
next
  case (JNum n)
  from JNum.prems(1) show ?case
  proof (cases rule: accepted_cases)
    case (Number t)
    then show ?thesis
      using admitted_scalar(2) [OF JNum.prems(2)]
      by (auto simp: valid_number_def number_conforms_def finite_part_def num_is_finite_def split: jsval.splits jnum.splits option.splits)
  qed auto
qed (auto elim!: accepted_cases simp: number_conforms_def)

lemma fold_res_keeps:
  assumes "\<And>x b b'. x \<in> set xs \<Longrightarrow> f x b = Inr b' \<Longrightarrow> P b'" and "P b" and "fold_res f xs b = Inr b'"
  shows "P b'"
  using assms by (induction xs arbitrary: b) (auto simp: res_splits)

lemma budget_kept: "validateSchema schema d u = Inr n \<Longrightarrow> n \<le> 256"
proof (induction "7 - d" arbitrary: schema d u n rule: less_induct)
  case less
  then have d: "d \<le> 6"
    using admitted_depth [of d schema] by (auto simp: admitted_at_def)
  have deeper: "m \<le> 256" if "validateSchema c (Suc d) k = Inr m" for c k m
    using less.hyps [OF _ that] d by simp
  have "m \<le> 256" if "fold_res (\<lambda>(name, child) n. if \<not> safe_field name then Inl (schema_invalid ''Unsafe schema field'' True)
      else validateSchema child (Suc d) n) xs k = Inr m" and "k \<le> 256" for xs k m
    by (rule fold_res_keeps [where P = "\<lambda>n. n \<le> 256", OF _ that(2,1)]) (auto intro: deeper split: if_splits)
  then show ?case
    using less.prems deeper by (subst (asm) validateSchema.simps) (auto simp: Let_def res_splits split: if_splits)
qed

lemma fld_without_enum: "is_plain_object schema \<Longrightarrow> fld (without_enum schema) k = (if k = ''enum'' then JUndef else fld schema k)"
  by (cases schema) (auto simp: without_enum_def spread_def fld_def obj_entries_def is_plain_object_def map_of_upsert split: option.splits)

lemma validateValue_without_enum:
  assumes "is_plain_object schema" and "validateValue (without_enum schema) v p = Inr ()" and "check_enum schema v q = Inr ()"
    and "\<not> is_object v"
  shows "validateValue schema v q = Inr ()"
proof -
  have f: "fld (without_enum schema) k = fld schema k" if "k \<noteq> ''enum''" for k
    using fld_without_enum [OF assms(1)] that by simp
  show ?thesis
    using assms(2-4)
    by (subst validateValue.simps, subst (asm) validateValue.simps)
      (auto simp: f string_conforms_def number_conforms_def is_object_def res_splits split: jsval.splits if_splits option.splits)
qed

lemma enum_choices_conform:
  assumes "admitted_at d schema" and "v \<in> set (elems (fld schema ''enum''))"
  shows "validateValue schema v path = Inr ()"
proof -
  from assms(1) have o: "is_plain_object schema" "valid_enum (fld schema ''enum'')" "check_enum_values schema = Inr ()"
    unfolding admitted_at_def by (subst (asm) validateSchema.simps, auto simp: Let_def res_splits split: if_splits)+
  moreover have "\<not> is_object v"
    using o(2) assms(2) by (auto simp: valid_enum_def elems_def is_object_def list_all_iff split: jsval.splits)
  moreover have "check_enum schema v path = Inr ()"
    using assms(2) \<open>\<not> is_object v\<close> by (auto simp: check_enum_def Let_def elems_def array_of_def set_has_def split: jsval.splits)
  moreover have "validateValue (without_enum schema) v ''enum'' = Inr ()"
    using o(3) assms(2) by (cases "validateValue (without_enum schema) v ''enum''") (auto simp: check_enum_values_def split: sum.splits)
  ultimately show ?thesis
    using validateValue_without_enum by blast
qed

text \<open>what the control plane forwards is bounded, whoever wrote the contract. If a schema from an owner contract is admitted and the arguments of
  a request pass it, then the schema has at most 256 nodes and the arguments are nested at most six deep, hold only booleans, finite numbers of
  safe magnitude, strings of at most 4096 characters and arrays of at most 64 items, and every object in them has at most 32 names, none of
  which can reach the prototype chain. Moreover every choice an admitted enumeration offers is itself accepted.\<close>

theorem accepted_arguments_are_bounded:
  assumes "validateSchema schema 0 0 = Inr n"
  shows "n \<le> 256 \<and> (validateValue schema v path = Inr () \<longrightarrow> bounded_value 6 v)
    \<and> (v \<in> set (elems (fld schema ''enum'')) \<longrightarrow> validateValue schema v path = Inr ())"
proof -
  have "admitted_at 0 schema"
    using assms by (auto simp: admitted_at_def)
  then show ?thesis
    using budget_kept [OF assms] accepted_bounded [of schema v path 0] enum_choices_conform by auto
qed

definition example_schema :: jsval where
  \<comment> \<open>the fields of the schema in \<open>command-schema.test.js\<close> that carry bounds\<close>
  "example_schema = JObj [(''type'', JStr ''object''), (''additionalProperties'', JBool False), (''required'', JArr [JStr ''id'']),
     (''properties'', JObj [
        (''id'', JObj [(''type'', JStr ''string''), (''maxLength'', JInt 64), (''enum'', JArr [JStr ''cert-manager'', JStr ''ingress-nginx''])]),
        (''names'', JObj [(''type'', JStr ''array''), (''maxItems'', JInt 8), (''items'', JObj [(''type'', JStr ''boolean'')])])])]"

definition example_arguments :: jsval where
  "example_arguments = JObj [(''id'', JStr ''ingress-nginx''), (''names'', JArr [JBool True])]"

lemmas schema_eval = each_res.simps fold_res.simps check_fields_def valid_description_def valid_enum_def valid_object_def
  valid_array_def valid_string_def check_scalar_def check_enum_values_def check_enum_def closed_fields_def optional_min_def bounded_by_def
  is_safe_integer_def finite_part_def SCHEMA_FIELDS_def schema_common_def table_get_def has_own_def fld_def obj_entries_def is_plain_object_def
  without_enum_def spread_def string_conforms_def num_length_def array_of_def set_has_def is_object_def js_or_def MAX_SAFE_INTEGER_def guard_else_def

lemma example_schema_admitted: "validateSchema example_schema 0 0 = Inr 4"
  unfolding example_schema_def
  by (simp add: validateSchema.simps validateValue.simps schema_eval is_int_rat_def safe_field_def alpha_char_def digit_char_def elems_def)

lemma example_arguments_accepted: "validateValue example_schema example_arguments ''arguments'' = Inr ()"
  unfolding example_schema_def example_arguments_def
  by (simp add: validateValue.simps schema_eval enumerate_eq_zip)

theorem accepted_arguments_are_bounded_witness:
  "validateSchema example_schema 0 0 = Inr 4 \<and> validateValue example_schema example_arguments ''arguments'' = Inr () \<and> bounded_value 6 example_arguments"
  using accepted_arguments_are_bounded [OF example_schema_admitted, of example_arguments "''arguments''"]
    example_schema_admitted example_arguments_accepted by simp

end
