(* ===== verification/ShellProviders.thy ===== *)
theory ShellProviders
  imports CommandSchema
begin

text \<open>
  The commands that activated modules contribute to the OS Shell, \<open>src/apps/os-shell-control/command-providers.js\<close>: reading a bounded response,
  parsing an owner contract, and collecting the contracts of the modules in the current registry snapshot.

  \<open>fetch\<close> and reading a response are calls on the environment; an answer of \<open>reader.read\<close> is the array of all chunks the reader yields, and a
  reader that fails is a call that throws.  \<open>JSON.parse\<close>, \<open>Date.parse\<close>, \<open>new URL\<close>, SHA-256, \<open>createPublicKey\<close> and \<open>verify\<close> are fields of the record
  \<open>registry\<close>; the clock is a function of the calls made so far.
\<close>

section \<open>Bounded reading\<close>

fun bounded_concat :: "nat \<Rightarrow> nat \<Rightarrow> string list \<Rightarrow> string option" where
  \<comment> \<open>the loop over \<open>reader.read()\<close>: None when the used passes the limit\<close>
  "bounded_concat limit used [] = Some []"
| "bounded_concat limit used (c # cs) = (if limit < used + length c then None
     else map_option (append c) (bounded_concat limit (used + length c) cs))"

lemma bounded_concat_Some: "bounded_concat limit used cs = Some t \<Longrightarrow> t = concat cs"
  by (induction cs arbitrary: used t) (auto split: if_splits)

lemma bounded_concat_length: "bounded_concat limit used cs = Some t \<Longrightarrow> used \<le> limit \<Longrightarrow> used + length t \<le> limit"
proof (induction cs arbitrary: used t)
  case (Cons c cs)
  then obtain r where "t = c @ r" "bounded_concat limit (used + length c) cs = Some r" "used + length c \<le> limit"
    by (auto split: if_splits)
  then show ?case
    using Cons.IH [of "used + length c" r] by simp
qed simp

definition chunk_texts :: "jsval \<Rightarrow> string list" where
  "chunk_texts v = map to_str (elems v)"

record link =
  lk_protocol :: string
  lk_username :: string
  lk_password :: string
  lk_pathname :: string
  lk_search :: string
  lk_hash :: string
  lk_hostname :: string
  lk_origin :: string

record registry =
  rg_env :: environment
  rg_origin :: string
  rg_now :: "history \<Rightarrow> jnum"
  rg_date :: "string \<Rightarrow> jnum"
  rg_parse :: "string \<Rightarrow> jsval option"
  rg_hash :: "string \<Rightarrow> string"
  rg_key :: "jsval \<Rightarrow> jsval option"
  rg_verify :: "jsval \<Rightarrow> string \<Rightarrow> string \<Rightarrow> bool"

definition provider_fail :: jsval where
  "provider_fail = js_error ''Activated owner command contract could not be verified''
     [(''status'', JInt 503), (''code'', JStr ''CommandProviderUnavailable''), (''sideEffect'', JStr ''none'')]"

definition syntax_error :: jsval where
  "syntax_error = JObj [(''name'', JStr ''SyntaxError'')]"

definition bare_origin :: "link \<Rightarrow> bool" where
  "bare_origin u \<longleftrightarrow> lk_protocol u \<in> set [''http:'', ''https:''] \<and> lk_username u = [] \<and> lk_password u = []
     \<and> lk_pathname u = ''/'' \<and> lk_search u = [] \<and> lk_hash u = []"

definition registry_origin :: "(string \<Rightarrow> link option) \<Rightarrow> string \<Rightarrow> jsval + string" where
  "registry_origin url registryUrl = (case url registryUrl of
       None \<Rightarrow> Inl type_error
     | Some u \<Rightarrow> if bare_origin u then Inr (lk_origin u) else Inl (js_error ''Registry origin required'' []))"

definition fetch_options :: jsval where
  "fetch_options = JObj [(''redirect'', JStr ''error'')]"

definition fetch_bytes :: "registry \<Rightarrow> string \<Rightarrow> nat \<Rightarrow> ('x, string) fxprog" where
  "fetch_bytes rg url limit =
     pbind (call (rg_env rg) ''registry.fetch'' [JStr url, fetch_options]) (\<lambda>response.
     if \<not> truthy (fld response ''ok'') then pthrow provider_fail
     else pbind (call (rg_env rg) ''registry.read'' [response]) (\<lambda>chunks.
       case bounded_concat limit 0 (chunk_texts chunks) of None \<Rightarrow> pthrow provider_fail | Some t \<Rightarrow> pret t))"

section \<open>Owner contracts\<close>

record command_def =
  cd_id :: string
  cd_owner :: jsval
  cd_description :: string
  cd_read :: bool
  cd_names :: "string list"
  cd_schema :: jsval
  cd_status :: jsval
  cd_native :: bool
  cd_provider :: bool
  cd_origin :: string
  cd_contract :: "string option"
  cd_permission :: "string option"

fun segments :: "(char \<Rightarrow> bool) \<Rightarrow> string \<Rightarrow> string list" where
  "segments sep [] = [[]]"
| "segments sep (x # s) = (if sep x then [] # segments sep s
     else case segments sep s of [] \<Rightarrow> [[x]] | t # ts \<Rightarrow> (x # t) # ts)"

definition is_command_id :: "string \<Rightarrow> bool" where
  \<comment> \<open>\<open>/^[a-z0-9]+(?:[.-][a-z0-9]+)+$/\<close>\<close>
  "is_command_id s \<longleftrightarrow> (let parts = segments (\<lambda>c. c = CHR ''.'' \<or> c = CHR ''-'') s in
     2 \<le> length parts \<and> list_all (\<lambda>p. p \<noteq> [] \<and> list_all low_alnum p) parts)"

definition only_keys :: "jsval \<Rightarrow> string list \<Rightarrow> bool" where
  "only_keys v names \<longleftrightarrow> list_all (\<lambda>kv. fst kv \<in> set names) (obj_entries v)"

definition text_between :: "jsval \<Rightarrow> nat \<Rightarrow> nat \<Rightarrow> bool" where
  "text_between v low high \<longleftrightarrow> (case v of JStr s \<Rightarrow> low \<le> length s \<and> length s \<le> high | _ \<Rightarrow> False)"

definition command_id :: "jsval \<Rightarrow> jsval \<Rightarrow> jsval + string" where
  \<comment> \<open>\<open>!c || !c.id?.startsWith(owner + '.')\<close> and the tests on the identifier itself\<close>
  "command_id owner c =
     (if \<not> truthy c \<or> nullish (fld c ''id'') then Inl provider_fail
      else case fld c ''id'' of
        JStr i \<Rightarrow> if starts_with (to_str owner @ ''.'') i \<and> is_command_id i \<and> length i \<le> 128 then Inr i else Inl provider_fail
      | _ \<Rightarrow> Inl type_error)"

definition reason_declared :: "jsval \<Rightarrow> bool" where
  \<comment> \<open>a mutation asks for a reason of 8 to 500 characters\<close>
  "reason_declared arguments \<longleftrightarrow> (let reason = fld (fld arguments ''properties'') ''reason'' in
     JStr ''reason'' \<in> set (elems (fld arguments ''required'')) \<and> fld reason ''type'' = JStr ''string''
     \<and> (case fld reason ''minLength'' of JNum n \<Rightarrow> num_is_integer n \<and> \<not> num_less n (Fin 8) | _ \<Rightarrow> False)
     \<and> \<not> num_less (Fin 500) (to_num (fld reason ''maxLength'')))"

definition command_shape :: "jsval \<Rightarrow> bool" where
  "command_shape c \<longleftrightarrow> text_between (fld c ''description'') 1 500 \<and> (case fld c ''mutation'' of JBool _ \<Rightarrow> True | _ \<Rightarrow> False)
     \<and> only_keys c [''id'', ''description'', ''mutation'', ''arguments'', ''statusCommand'']"

definition mutation_declared :: "jsval \<Rightarrow> bool" where
  "mutation_declared c \<longleftrightarrow> fld (fld c ''arguments'') ''type'' = JStr ''object''
     \<and> (truthy (fld c ''mutation'') \<longrightarrow> reason_declared (fld c ''arguments'') \<and> (case fld c ''statusCommand'' of JStr _ \<Rightarrow> True | _ \<Rightarrow> False))"

definition command_of :: "jsval \<Rightarrow> string \<Rightarrow> jsval \<Rightarrow> command_def" where
  "command_of owner i c = \<lparr>cd_id = i, cd_owner = owner, cd_description = to_str (fld c ''description''), cd_read = \<not> truthy (fld c ''mutation''),
     cd_names = map fst (obj_entries (fld (fld c ''arguments'') ''properties'')), cd_schema = fld c ''arguments'', cd_status = fld c ''statusCommand'',
     cd_native = False, cd_provider = True, cd_origin = [], cd_contract = None, cd_permission = None\<rparr>"

definition parse_command :: "jsval \<Rightarrow> jsval \<Rightarrow> command_def list \<Rightarrow> jsval + command_def list" where
  "parse_command owner c seen =
     rbind (command_id owner c) (\<lambda>i.
     rbind (guard_else provider_fail (i \<notin> cd_id ` set seen \<and> command_shape c)) (\<lambda>_.
     rbind (validateSchema (fld c ''arguments'') 0 0) (\<lambda>_.
     rbind (guard_else provider_fail (mutation_declared c)) (\<lambda>_.
     Inr (seen @ [command_of owner i c])))))"

definition status_resolves :: "command_def list \<Rightarrow> command_def \<Rightarrow> bool" where
  "status_resolves ds d \<longleftrightarrow> truthy (cd_status d) \<longrightarrow> list_ex (\<lambda>s. cd_status d = JStr (cd_id s) \<and> cd_read s) ds"

definition parseContract :: "jsval \<Rightarrow> jsval \<Rightarrow> jsval + command_def list" where
  "parseContract v owner =
     (if fld v ''schema'' \<noteq> JStr ''opensphere.owner-commands/v2'' \<or> \<not> strict_eq (fld v ''owner'') owner \<or> \<not> is_version_text (str_or_empty (fld v ''version''))
         \<or> \<not> is_array (fld v ''commands'') \<or> 64 < length (elems (fld v ''commands''))
         \<or> \<not> only_keys v [''schema'', ''owner'', ''version'', ''tier'', ''commands'']
      then Inl provider_fail
      else rbind (fold_res (parse_command owner) (elems (fld v ''commands'')) []) (\<lambda>ds.
        if list_all (status_resolves ds) ds then Inr ds else Inl provider_fail))"

section \<open>The registry\<close>

definition contract_path :: string where
  "contract_path = ''/contracts/owner-commands.json''"

definition cli_of :: "jsval \<Rightarrow> jsval" where
  "cli_of v = fld (fld v ''contributions'') ''cli''"

definition offers_commands :: "jsval \<Rightarrow> bool" where
  "offers_commands p \<longleftrightarrow> truthy (fld p ''available'') \<and> fld (cli_of p) ''enabled'' = JBool True \<and> fld (cli_of p) ''manifestPath'' = JStr contract_path"

definition is_owner_name :: "string \<Rightarrow> bool" where
  \<comment> \<open>\<open>/^[a-z0-9][a-z0-9-]{0,62}$/\<close>\<close>
  "is_owner_name s \<longleftrightarrow> 1 \<le> length s \<and> length s \<le> 63 \<and> low_alnum (hd s) \<and> list_all (\<lambda>c. low_alnum c \<or> c = CHR ''-'') s"

definition is_artifact_service :: "string \<Rightarrow> string \<Rightarrow> bool" where
  \<comment> \<open>\<open>new RegExp('^' + p.id + '-r-[a-f0-9]{20}$')\<close> for an identifier that passed the previous test\<close>
  "is_artifact_service owner s \<longleftrightarrow> starts_with (owner @ ''-r-'') s
     \<and> (let rest = drop (length owner + 3) s in length rest = 20 \<and> list_all hex_lower rest)"

definition plugin_bound :: "jsval \<Rightarrow> bool" where
  "plugin_bound p \<longleftrightarrow> (let i = to_str (fld p ''id'') in
     is_owner_name i \<and> fld p ''hostRef'' = JStr ''main'' \<and> strict_eq (fld (cli_of p) ''namespace'') (fld p ''id'')
     \<and> is_artifact_service i (to_str (fld p ''artifactServiceId''))
     \<and> is_sha256_ref (to_str (fld p ''installedDigest'')) \<and> is_hex64 (to_str (fld p ''manifestSha256'')))"

definition artifact_origin :: "jsval \<Rightarrow> string" where
  "artifact_origin p = ''http://'' @ to_str (fld p ''artifactServiceId'') @ ''.opensphere-console.svc.cluster.local:8080''"

definition p256_key :: "jsval \<Rightarrow> bool" where
  "p256_key key \<longleftrightarrow> fld key ''asymmetricKeyType'' = JStr ''ec'' \<and> fld (fld key ''asymmetricKeyDetails'') ''namedCurve'' = JStr ''prime256v1''"

definition trusted_key :: "jsval \<Rightarrow> jsval \<Rightarrow> jsval" where
  \<comment> \<open>\<open>snapshot.trustedKeys?.[p.keyId] || ''\<close>\<close>
  "trusted_key snapshot p = js_or (fld (fld snapshot ''trustedKeys'') (to_str (fld p ''keyId''))) (JStr [])"

fun find_asset :: "jsval list \<Rightarrow> jsval + jsval" where
  \<comment> \<open>\<open>assets.find(a => a.id === 'owner-commands')\<close>\<close>
  "find_asset [] = Inr JUndef"
| "find_asset (a # as) = rbind (get_prop a ''id'') (\<lambda>i. if i = JStr ''owner-commands'' then Inr a else find_asset as)"

definition manifest_asset :: "jsval \<Rightarrow> jsval + jsval" where
  "manifest_asset manifest =
     rbind (get_prop manifest ''assets'') (\<lambda>assets. if nullish assets then Inr JUndef else rbind (array_of assets) find_asset)"

definition manifest_bound :: "jsval \<Rightarrow> jsval \<Rightarrow> jsval \<Rightarrow> bool" where
  "manifest_bound p manifest asset \<longleftrightarrow> strict_eq (fld manifest ''id'') (fld p ''id'') \<and> fld (cli_of manifest) ''enabled'' = JBool True
     \<and> strict_eq (fld (cli_of manifest) ''namespace'') (fld p ''id'') \<and> fld (cli_of manifest) ''manifestPath'' = JStr contract_path
     \<and> fld asset ''type'' = JStr ''data'' \<and> fld asset ''path'' = JStr contract_path \<and> is_hex64 (str_or_empty (fld asset ''sha256''))"

definition parse_json :: "registry \<Rightarrow> string \<Rightarrow> jsval + jsval" where
  "parse_json rg t = (case rg_parse rg t of None \<Rightarrow> Inl syntax_error | Some v \<Rightarrow> Inr v)"

definition signed_manifest :: "registry \<Rightarrow> jsval \<Rightarrow> jsval \<Rightarrow> string \<Rightarrow> string \<Rightarrow> jsval + jsval" where
  \<comment> \<open>the key, the signature and the manifest itself; the result is its asset\<close>
  "signed_manifest rg snapshot p manifestBytes signature =
     (case rg_key rg (trusted_key snapshot p) of
        None \<Rightarrow> Inl type_error
      | Some key \<Rightarrow>
          if \<not> p256_key key \<or> \<not> rg_verify rg key manifestBytes signature then Inl provider_fail
          else rbind (parse_json rg manifestBytes) (\<lambda>manifest.
            rbind (manifest_asset manifest) (\<lambda>asset.
            if manifest_bound p manifest asset then Inr asset else Inl provider_fail)))"

definition digest_ref :: "string \<Rightarrow> string" where
  "digest_ref h = ''sha256:'' @ h"

definition load_plugin :: "registry \<Rightarrow> jsval \<Rightarrow> jsval \<Rightarrow> ('x, command_def list) fxprog" where
  "load_plugin rg snapshot p =
     pbind (pguard provider_fail (plugin_bound p)) (\<lambda>_.
     let origin = artifact_origin p in
     pbind (fetch_bytes rg (origin @ ''/plugins/ui-shell.manifest.json'') (128 * 1024)) (\<lambda>manifestBytes.
     pbind (pguard provider_fail (fld p ''manifestSha256'' = JStr (rg_hash rg manifestBytes))) (\<lambda>_.
     pbind (fetch_bytes rg (origin @ ''/plugins/ui-shell.manifest.json.sig'') 4096) (\<lambda>sig.
     pbind (plift (signed_manifest rg snapshot p manifestBytes (trim sig))) (\<lambda>asset.
     pbind (fetch_bytes rg (origin @ contract_path) (64 * 1024)) (\<lambda>contract.
     pbind (pguard provider_fail (fld asset ''sha256'' = JStr (rg_hash rg contract))) (\<lambda>_.
     pbind (plift (parse_json rg contract)) (\<lambda>v.
     pbind (plift (parseContract v (fld p ''id''))) (\<lambda>ds.
     pret (map (\<lambda>d. d\<lparr>cd_origin := origin, cd_contract := Some (digest_ref (rg_hash rg contract))\<rparr>) ds))))))))))"

fun load_plugins :: "registry \<Rightarrow> jsval \<Rightarrow> jsval list \<Rightarrow> command_def list \<Rightarrow> jsval list \<Rightarrow> ('x, command_def list) fxprog" where
  "load_plugins rg snapshot owners result [] = pret result"
| "load_plugins rg snapshot owners result (p # ps) =
     (if nullish p then pthrow type_error
      else if \<not> offers_commands p then load_plugins rg snapshot owners result ps
      else if set_has owners (fld p ''id'') then pthrow provider_fail
      else pbind (load_plugin rg snapshot p) (\<lambda>ds.
        if 256 < length (result @ ds) then pthrow provider_fail
        else load_plugins rg snapshot (fld p ''id'' # owners) (result @ ds) ps))"

definition load_providers :: "registry \<Rightarrow> ('x, command_def list) fxprog" where
  "load_providers rg =
     pbind (fetch_bytes rg (rg_origin rg @ ''/api/v1/registry'') (4 * 1024 * 1024)) (\<lambda>t.
     pbind (plift (parse_json rg t)) (\<lambda>snapshot.
     pbind (pget (rg_now rg \<circ> fx_log)) (\<lambda>now.
     pbind (plift (get_prop snapshot ''observedAt'')) (\<lambda>observed.
     let age = num_sub now (rg_date rg (to_str observed)) in
     if fld snapshot ''stale'' \<noteq> JBool False \<or> \<not> num_is_finite age \<or> num_less (Fin 30000) age \<or> num_less age (Fin (- 30000))
        \<or> \<not> is_array (fld snapshot ''plugins'')
     then pthrow provider_fail
     else load_plugins rg snapshot [] [] (elems (fld snapshot ''plugins''))))))"

section \<open>What a contributed command rests on\<close>

lemma parse_command_Inr:
  assumes "parse_command owner c seen = Inr ds"
  obtains d where "ds = seen @ [d]" "cd_id d \<notin> cd_id ` set seen" "cd_owner d = owner" "starts_with (to_str owner @ ''.'') (cd_id d)" "is_command_id (cd_id d)"
    "admitted_at 0 (cd_schema d)" "fld (cd_schema d) ''type'' = JStr ''object''" "cd_read d \<or> reason_declared (cd_schema d) \<and> (\<exists>s. cd_status d = JStr s)"
proof -
  from assms obtain i n where "command_id owner c = Inr i" "i \<notin> cd_id ` set seen" "validateSchema (fld c ''arguments'') 0 0 = Inr n"
    "mutation_declared c" "ds = seen @ [command_of owner i c]"
    by (auto simp: parse_command_def res_splits)
  then show thesis
    using that [of "command_of owner i c"]
    by (auto simp: admitted_at_def command_of_def command_id_def mutation_declared_def split: if_splits jsval.splits)
qed

definition sound_command :: "jsval \<Rightarrow> command_def list \<Rightarrow> command_def \<Rightarrow> bool" where
  "sound_command owner ds d \<longleftrightarrow> cd_owner d = owner \<and> starts_with (to_str owner @ ''.'') (cd_id d) \<and> is_command_id (cd_id d) \<and> admitted_at 0 (cd_schema d)
     \<and> (\<not> cd_read d \<longrightarrow> reason_declared (cd_schema d)
       \<and> (cd_status d = JStr [] \<or> (\<exists>s \<in> set ds. cd_status d = JStr (cd_id s) \<and> cd_read s)))"

lemma parse_commands_invariant:
  assumes "fold_res (parse_command owner) cs seen = Inr ds" and "distinct (map cd_id seen)"
    and "\<forall>d \<in> set seen. cd_owner d = owner \<and> starts_with (to_str owner @ ''.'') (cd_id d) \<and> is_command_id (cd_id d) \<and> admitted_at 0 (cd_schema d)
      \<and> (cd_read d \<or> reason_declared (cd_schema d) \<and> (\<exists>s. cd_status d = JStr s))"
  shows "distinct (map cd_id ds) \<and> (\<forall>d \<in> set ds. cd_owner d = owner \<and> starts_with (to_str owner @ ''.'') (cd_id d) \<and> is_command_id (cd_id d) \<and> admitted_at 0 (cd_schema d)
      \<and> (cd_read d \<or> reason_declared (cd_schema d) \<and> (\<exists>s. cd_status d = JStr s)))"
  using assms
proof (induction cs arbitrary: seen)
  case (Cons c cs)
  then obtain ds' where p: "parse_command owner c seen = Inr ds'" and r: "fold_res (parse_command owner) cs ds' = Inr ds"
    by (auto simp: res_splits)
  from p show ?case
  proof (rule parse_command_Inr)
    fix d assume "ds' = seen @ [d]" "cd_id d \<notin> cd_id ` set seen" "cd_owner d = owner" "starts_with (to_str owner @ ''.'') (cd_id d)" "is_command_id (cd_id d)"
      "admitted_at 0 (cd_schema d)" "cd_read d \<or> reason_declared (cd_schema d) \<and> (\<exists>s. cd_status d = JStr s)"
    then show ?thesis
      using Cons.prems(2,3) by (intro Cons.IH [OF r]) auto
  qed
qed simp

lemma parseContract_sound:
  assumes "parseContract v owner = Inr ds"
  shows "distinct (map cd_id ds) \<and> list_all (sound_command owner ds) ds"
proof -
  from assms have f: "fold_res (parse_command owner) (elems (fld v ''commands'')) [] = Inr ds" and st: "list_all (status_resolves ds) ds"
    by (auto simp: parseContract_def res_splits split: if_splits)
  have i: "distinct (map cd_id ds)" "\<And>d. d \<in> set ds \<Longrightarrow> cd_owner d = owner \<and> starts_with (to_str owner @ ''.'') (cd_id d) \<and> is_command_id (cd_id d) \<and> admitted_at 0 (cd_schema d)
      \<and> (cd_read d \<or> reason_declared (cd_schema d) \<and> (\<exists>s. cd_status d = JStr s))"
    using parse_commands_invariant [OF f] by auto
  have "cd_status d = JStr [] \<or> (\<exists>s \<in> set ds. cd_status d = JStr (cd_id s) \<and> cd_read s)" if d: "d \<in> set ds" "\<not> cd_read d" for d
  proof -
    obtain t where "cd_status d = JStr t"
      using i(2) [OF d(1)] d(2) by blast
    then show ?thesis
      using st d(1) by (auto simp: list_all_iff list_ex_iff status_resolves_def)
  qed
  then show ?thesis
    using i by (simp add: list_all_iff sound_command_def) blast
qed

definition served :: "history \<Rightarrow> string \<Rightarrow> string \<Rightarrow> bool" where
  \<comment> \<open>the text was read from the answer to a request for the address\<close>
  "served h url t \<longleftrightarrow> (\<exists>response chunks. (Call ''registry.fetch'' [JStr url, fetch_options], Inr response) \<in> set h
     \<and> (Call ''registry.read'' [response], Inr chunks) \<in> set h \<and> t = concat (chunk_texts chunks))"

definition manifest_vouched :: "registry \<Rightarrow> history \<Rightarrow> jsval \<Rightarrow> jsval \<Rightarrow> string \<Rightarrow> bool" where
  \<comment> \<open>the signed manifest of a module names this contract text\<close>
  "manifest_vouched rg h snapshot p contract \<longleftrightarrow> (\<exists>manifestBytes sig key manifest asset.
     served h (artifact_origin p @ ''/plugins/ui-shell.manifest.json'') manifestBytes \<and> fld p ''manifestSha256'' = JStr (rg_hash rg manifestBytes)
     \<and> served h (artifact_origin p @ ''/plugins/ui-shell.manifest.json.sig'') sig
     \<and> rg_key rg (trusted_key snapshot p) = Some key \<and> p256_key key \<and> rg_verify rg key manifestBytes (trim sig)
     \<and> rg_parse rg manifestBytes = Some manifest \<and> strict_eq (fld manifest ''id'') (fld p ''id'') \<and> asset \<in> set (elems (fld manifest ''assets''))
     \<and> served h (artifact_origin p @ contract_path) contract \<and> fld asset ''sha256'' = JStr (rg_hash rg contract))"

definition vouched :: "registry \<Rightarrow> history \<Rightarrow> jsval \<Rightarrow> jsval \<Rightarrow> command_def \<Rightarrow> bool" where
  "vouched rg h snapshot p d \<longleftrightarrow> (\<exists>contract v ds.
     offers_commands p \<and> plugin_bound p \<and> manifest_vouched rg h snapshot p contract \<and> rg_parse rg contract = Some v
     \<and> parseContract v (fld p ''id'') = Inr ds
     \<and> (\<exists>c \<in> set ds. sound_command (fld p ''id'') ds c \<and> d = c\<lparr>cd_origin := artifact_origin p, cd_contract := Some (digest_ref (rg_hash rg contract))\<rparr>))"

lemma served_mono: "served h url t \<Longrightarrow> set h \<subseteq> set h' \<Longrightarrow> served h' url t"
  unfolding served_def by blast

lemma vouched_mono: "vouched rg h snapshot p d \<Longrightarrow> set h \<subseteq> set h' \<Longrightarrow> vouched rg h' snapshot p d"
  unfolding vouched_def manifest_vouched_def using served_mono by meson

lemma fetch_bytes_wp:
  "wp (fetch_bytes rg url n) (\<lambda>t s'. served (fx_log s') url t \<and> set (fx_log s) \<subseteq> set (fx_log s')) (\<lambda>_ _. True) s"
  unfolding fetch_bytes_def
  by (auto simp: wp_simps Let_def served_def dest!: bounded_concat_Some split: sum.splits option.splits)

lemma find_asset_Inr: "find_asset as = Inr a \<Longrightarrow> a = JUndef \<or> a \<in> set as"
  by (induction as) (auto simp: res_splits split: if_splits)

lemma signed_manifest_Inr:
  assumes "signed_manifest rg snapshot p manifestBytes sig = Inr asset"
  obtains key manifest where "rg_key rg (trusted_key snapshot p) = Some key" "p256_key key" "rg_verify rg key manifestBytes sig"
    "rg_parse rg manifestBytes = Some manifest" "strict_eq (fld manifest ''id'') (fld p ''id'')" "asset \<in> set (elems (fld manifest ''assets''))"
proof -
  from assms obtain key manifest where k: "rg_key rg (trusted_key snapshot p) = Some key" "p256_key key" "rg_verify rg key manifestBytes sig"
    "rg_parse rg manifestBytes = Some manifest" and a: "manifest_asset manifest = Inr asset" and b: "manifest_bound p manifest asset"
    by (auto simp: signed_manifest_def parse_json_def res_splits split: option.splits if_splits)
  from a have "asset = JUndef \<or> asset \<in> set (elems (fld manifest ''assets''))"
    by (cases "fld manifest ''assets''") (auto simp: manifest_asset_def get_prop_def array_of_def elems_def res_splits nullish_def dest: find_asset_Inr split: if_splits)
  moreover have "asset \<noteq> JUndef"
    using b by (auto simp: manifest_bound_def fld_def [of JUndef])
  ultimately show thesis
    using that [OF k] b by (auto simp: manifest_bound_def)
qed

lemma manifest_vouchedI:
  assumes "served h1 (artifact_origin p @ ''/plugins/ui-shell.manifest.json'') m" and "fld p ''manifestSha256'' = JStr (rg_hash rg m)"
    and "served h2 (artifact_origin p @ ''/plugins/ui-shell.manifest.json.sig'') sg" and "set h1 \<subseteq> set h2"
    and "rg_key rg (trusted_key snapshot p) = Some key" "p256_key key" "rg_verify rg key m (trim sg)"
    and "rg_parse rg m = Some manifest" "strict_eq (fld manifest ''id'') (fld p ''id'')" "asset \<in> set (elems (fld manifest ''assets''))"
    and "served h3 (artifact_origin p @ contract_path) contract" and "set h2 \<subseteq> set h3" and "fld asset ''sha256'' = JStr (rg_hash rg contract)"
  shows "manifest_vouched rg h3 snapshot p contract"
  unfolding manifest_vouched_def
  by (rule exI [of _ m], rule exI [of _ sg], rule exI [of _ key], rule exI [of _ manifest], rule exI [of _ asset])
    (simp add: assms served_mono [OF assms(1)] served_mono [OF assms(3)] subset_trans [OF assms(4) assms(12)])

lemma vouchedI:
  assumes "offers_commands p" "plugin_bound p" "rg_parse rg ct = Some v" "parseContract v (fld p ''id'') = Inr ds" "c \<in> set ds"
    and "manifest_vouched rg h snapshot p ct"
  shows "vouched rg h snapshot p (c\<lparr>cd_origin := artifact_origin p, cd_contract := Some (digest_ref (rg_hash rg ct))\<rparr>)"
  unfolding vouched_def
  by (intro exI [of _ ct] exI [of _ v] exI [of _ ds] conjI bexI [of _ c] assms refl)
    (use assms(5) parseContract_sound [OF assms(4)] in \<open>simp add: list_all_iff\<close>)

lemma load_plugin_wp:
  assumes "offers_commands p"
  shows "wp (load_plugin rg snapshot p) (\<lambda>ds s'. (\<forall>d \<in> set ds. vouched rg (fx_log s') snapshot p d) \<and> set (fx_log s) \<subseteq> set (fx_log s')) (\<lambda>_ _. True) s"
proof (cases "plugin_bound p")
  case True
  note bytes = wp_pbindI [OF fetch_bytes_wp]
  show ?thesis
    unfolding load_plugin_def Let_def
    apply (subst wp_pbind, subst wp_pguard, simp only: True if_True)
    apply (rule bytes, subst wp_pbind, subst wp_pguard, split if_split, intro conjI impI, simp_all)
    apply (rule bytes, subst wp_pbind, subst wp_plift, split sum.split, intro conjI allI impI, simp_all)
    apply (erule signed_manifest_Inr)
    apply (rule bytes)
    using assms True
    apply (simp add: wp_simps parse_json_def split: option.split sum.split)
    apply (intro conjI impI allI ballI)
    subgoal for m1 s1 sg s2 asset key manifest ct s3 v ds d
      by (elim conjE, rule vouchedI, assumption+, rule manifest_vouchedI, assumption+)
    subgoal by auto
    done
qed (simp add: load_plugin_def wp_simps)

definition all_vouched :: "registry \<Rightarrow> history \<Rightarrow> jsval \<Rightarrow> command_def list \<Rightarrow> bool" where
  "all_vouched rg h snapshot ds \<longleftrightarrow> length ds \<le> 256 \<and> (\<forall>d \<in> set ds. \<exists>p \<in> set (elems (fld snapshot ''plugins'')). vouched rg h snapshot p d)"

lemma all_vouched_mono: "all_vouched rg h snapshot ds \<Longrightarrow> set h \<subseteq> set h' \<Longrightarrow> all_vouched rg h' snapshot ds"
  unfolding all_vouched_def using vouched_mono by meson

lemma load_plugins_wp:
  fixes s :: "'x fx_scheme"
  assumes "set ps \<subseteq> set (elems (fld snapshot ''plugins''))" and "all_vouched rg (fx_log s) snapshot result"
  shows "wp (load_plugins rg snapshot owners result ps) (\<lambda>ds s'. all_vouched rg (fx_log s') snapshot ds \<and> set (fx_log s) \<subseteq> set (fx_log s')) (\<lambda>_ _. True) s"
  using assms
proof (induction ps arbitrary: owners result s)
  case (Cons p ps)
  have "wp (pbind (load_plugin rg snapshot p) (\<lambda>ds. if 256 < length (result @ ds) then pthrow provider_fail
        else load_plugins rg snapshot (fld p ''id'' # owners) (result @ ds) ps))
      (\<lambda>ds s'. all_vouched rg (fx_log s') snapshot ds \<and> set (fx_log s) \<subseteq> set (fx_log s')) (\<lambda>_ _. True) s" if "offers_commands p"
  proof (rule wp_pbindI [OF load_plugin_wp [OF that]])
    fix ds and s' :: "'x fx_scheme" assume s': "(\<forall>d \<in> set ds. vouched rg (fx_log s') snapshot p d) \<and> set (fx_log s) \<subseteq> set (fx_log s')"
    show "wp (if 256 < length (result @ ds) then pthrow provider_fail else load_plugins rg snapshot (fld p ''id'' # owners) (result @ ds) ps)
      (\<lambda>ds s'. all_vouched rg (fx_log s') snapshot ds \<and> set (fx_log s) \<subseteq> set (fx_log s')) (\<lambda>_ _. True) s'"
    proof (cases "256 < length (result @ ds)")
      case False
      have "all_vouched rg (fx_log s') snapshot (result @ ds)"
        using False s' Cons.prems(1) all_vouched_mono [OF Cons.prems(2)] by (auto simp: all_vouched_def)
      then show ?thesis
        using False Cons.prems(1) s' by (auto intro!: wp_mono [OF Cons.IH [of s' "result @ ds"]])
    qed (simp add: wp_simps)
  qed
  then show ?case
    using Cons by (simp add: wp_simps)
qed (simp add: wp_simps)

lemma load_providers_vouched:
  fixes s s' :: "'x fx_scheme"
  assumes "load_providers rg s = (Inr ds, s')"
  shows "\<exists>t snapshot. served (fx_log s') (rg_origin rg @ ''/api/v1/registry'') t \<and> rg_parse rg t = Some snapshot
    \<and> fld snapshot ''stale'' = JBool False \<and> all_vouched rg (fx_log s') snapshot ds"
proof -
  let ?P = "\<lambda>ds s'. \<exists>t snapshot. served (fx_log s') (rg_origin rg @ ''/api/v1/registry'') t \<and> rg_parse rg t = Some snapshot
      \<and> fld snapshot ''stale'' = JBool False \<and> all_vouched rg (fx_log s') snapshot ds"
  have "wp (load_providers rg) ?P (\<lambda>_ _. True) s"
    unfolding load_providers_def
  proof (rule wp_pbindI [OF fetch_bytes_wp])
    fix t and s1 :: "'x fx_scheme" assume t: "served (fx_log s1) (rg_origin rg @ ''/api/v1/registry'') t \<and> set (fx_log s) \<subseteq> set (fx_log s1)"
    have plugins: "wp (load_plugins rg snapshot [] [] (elems (fld snapshot ''plugins''))) ?P (\<lambda>_ _. True) s1"
      if "rg_parse rg t = Some snapshot" "fld snapshot ''stale'' = JBool False" for snapshot
    proof (rule wp_mono [OF load_plugins_wp [of "elems (fld snapshot ''plugins'')" snapshot rg s1 "[]" "[]"]])
      show "all_vouched rg (fx_log s1) snapshot []"
        by (simp add: all_vouched_def)
      show "?P ds s2" if "all_vouched rg (fx_log s2) snapshot ds \<and> set (fx_log s1) \<subseteq> set (fx_log s2)" for ds and s2 :: "'x fx_scheme"
        using that t served_mono \<open>rg_parse rg t = Some snapshot\<close> \<open>fld snapshot ''stale'' = JBool False\<close> by blast
    qed simp_all
    show "wp (pbind (plift (parse_json rg t)) (\<lambda>snapshot. pbind (pget (rg_now rg \<circ> fx_log)) (\<lambda>now. pbind (plift (get_prop snapshot ''observedAt'')) (\<lambda>observed.
        let age = num_sub now (rg_date rg (to_str observed)) in
        if fld snapshot ''stale'' \<noteq> JBool False \<or> \<not> num_is_finite age \<or> num_less (Fin 30000) age \<or> num_less age (Fin (- 30000)) \<or> \<not> is_array (fld snapshot ''plugins'')
        then pthrow provider_fail else load_plugins rg snapshot [] [] (elems (fld snapshot ''plugins'')))))) ?P (\<lambda>_ _. True) s1"
      using plugins by (simp add: wp_simps parse_json_def Let_def split: option.splits sum.splits)
  qed
  from wp_Inr [OF this assms] show ?thesis .
qed

text \<open>C21: a module contributes a command to the OS Shell only with a signature behind it. Every command the registry loader returns comes from a
  module that the current, fresh snapshot lists as available; the module's manifest was read from the module's own in-cluster address, has the digest the
  registry recorded and is signed by a P-256 key the snapshot trusts; the manifest names the digest of the contract text the command was read from.
  The command's identifier lies in its owner's name space, its argument schema is admitted, and a command that changes something asks
  for a reason and, unless its status command is empty, names a read-only command of the same contract. At most 256 commands are returned.\<close>

theorem contributed_commands_are_signed:
  fixes s s' :: "'x fx_scheme"
  assumes "load_providers rg s = (Inr ds, s')"
  shows "\<exists>t snapshot. served (fx_log s') (rg_origin rg @ ''/api/v1/registry'') t \<and> rg_parse rg t = Some snapshot
    \<and> fld snapshot ''stale'' = JBool False \<and> length ds \<le> 256
    \<and> (\<forall>d \<in> set ds. \<exists>p \<in> set (elems (fld snapshot ''plugins'')). vouched rg (fx_log s') snapshot p d)"
  using load_providers_vouched [OF assms] by (simp add: all_vouched_def)

definition example_contract :: jsval where
  "example_contract = JObj [(''schema'', JStr ''opensphere.owner-commands/v2''), (''owner'', JStr ''dns''), (''version'', JStr ''2.0.0''), (''commands'', JArr [
     JObj [(''id'', JStr ''dns.set''), (''description'', JStr ''Configure''), (''mutation'', JBool True), (''statusCommand'', JStr ''dns.get''),
       (''arguments'', JObj [(''type'', JStr ''object''), (''additionalProperties'', JBool False), (''required'', JArr [JStr ''reason'']),
          (''properties'', JObj [(''reason'', JObj [(''type'', JStr ''string''), (''minLength'', JInt 8), (''maxLength'', JInt 500)])])])],
     JObj [(''id'', JStr ''dns.get''), (''description'', JStr ''Observe''), (''mutation'', JBool False),
       (''arguments'', JObj [(''type'', JStr ''object''), (''additionalProperties'', JBool False), (''required'', JArr []), (''properties'', JObj [])])]])]"

definition example_cli :: jsval where
  "example_cli = JObj [(''cli'', JObj [(''enabled'', JBool True), (''namespace'', JStr ''dns''), (''manifestPath'', JStr contract_path)])]"

definition example_digest :: "string \<Rightarrow> string" where
  "example_digest t = replicate 64 (if t = ''M'' then CHR ''a'' else CHR ''b'')"

definition example_manifest :: jsval where
  "example_manifest = JObj [(''id'', JStr ''dns''), (''contributions'', example_cli),
     (''assets'', JArr [JObj [(''id'', JStr ''owner-commands''), (''path'', JStr contract_path), (''type'', JStr ''data''), (''sha256'', JStr (example_digest ''C''))]])]"

definition example_plugin :: jsval where
  "example_plugin = JObj [(''id'', JStr ''dns''), (''available'', JBool True), (''hostRef'', JStr ''main''), (''keyId'', JStr ''k''),
     (''installedDigest'', JStr (''sha256:'' @ replicate 64 (CHR ''c''))), (''artifactServiceId'', JStr (''dns-r-'' @ replicate 20 (CHR ''d''))),
     (''manifestSha256'', JStr (example_digest ''M'')), (''contributions'', example_cli)]"

definition example_snapshot :: jsval where
  "example_snapshot = JObj [(''observedAt'', JStr ''t''), (''stale'', JBool False), (''trustedKeys'', JObj [(''k'', JStr ''der'')]), (''plugins'', JArr [example_plugin])]"

definition example_content :: "string \<Rightarrow> string" where
  \<comment> \<open>the document an address serves\<close>
  "example_content url = (if ends_with ''/registry'' url then ''S'' else if ends_with ''.json.sig'' url then ''G''
     else if ends_with ''/ui-shell.manifest.json'' url then ''M'' else ''C'')"

definition example_web :: environment where
  "example_web h c = (case cargs c of
       a # as \<Rightarrow> if cname c = ''registry.fetch'' then Inr (JObj [(''ok'', JBool True), (''chunks'', JArr [JStr (example_content (to_str a))])])
         else Inr (fld a ''chunks'')
     | [] \<Rightarrow> Inl type_error)"

definition example_registry :: registry where
  "example_registry = \<lparr>rg_env = example_web, rg_origin = ''http://r'', rg_now = (\<lambda>_. Fin 1000), rg_date = (\<lambda>_. Fin 0),
     rg_parse = (\<lambda>t. if t = ''S'' then Some example_snapshot else if t = ''M'' then Some example_manifest else if t = ''C'' then Some example_contract else None),
     rg_hash = example_digest,
     rg_key = (\<lambda>v. if v = JStr ''der'' then Some (JObj [(''asymmetricKeyType'', JStr ''ec''), (''asymmetricKeyDetails'', JObj [(''namedCurve'', JStr ''prime256v1'')])]) else None),
     rg_verify = (\<lambda>key m g. m = ''M'' \<and> g = ''G'')\<rparr>"

definition example_commands :: "command_def list" where
  "example_commands = map (\<lambda>c. command_of (JStr ''dns'') (to_str (fld c ''id'')) c) (elems (fld example_contract ''commands''))"

lemmas provider_eval = schema_eval command_id_def is_command_id_def low_alnum_def digit_char_def only_keys_def text_between_def reason_declared_def
  command_shape_def mutation_declared_def starts_with_def status_resolves_def strict_eq_def is_array_def is_version_text_def str_or_empty_def is_int_rat_def elems_def
  nullish_def num_is_integer_def

lemma example_schemas:
  "validateSchema (JObj [(''type'', JStr ''object''), (''additionalProperties'', JBool False), (''required'', JArr [JStr ''reason'']),
      (''properties'', JObj [(''reason'', JObj [(''type'', JStr ''string''), (''minLength'', JInt 8), (''maxLength'', JInt 500)])])]) 0 0 = Inr 2"
  "validateSchema (JObj [(''type'', JStr ''object''), (''additionalProperties'', JBool False), (''required'', JArr []), (''properties'', JObj [])]) 0 0 = Inr 1"
  by (simp_all add: validateSchema.simps schema_eval is_int_rat_def safe_field_def alpha_char_def digit_char_def elems_def)

lemma example_contract_parsed: "parseContract example_contract (JStr ''dns'') = Inr example_commands"
  unfolding example_commands_def example_contract_def
  by (simp add: parseContract_def parse_command_def example_schemas [simplified] provider_eval command_of_def Let_def)

lemma example_fetch:
  assumes "1 \<le> n"
  shows "\<exists>h. fetch_bytes example_registry url n s = (Inr (example_content url), s\<lparr>fx_log := fx_log s @ h\<rparr>)"
proof -
  have "length (example_content url) = 1"
    by (simp add: example_content_def)
  then show ?thesis
    using assms
    by (auto simp: fetch_bytes_def prog_defs call_def example_registry_def example_web_def fetch_options_def chunk_texts_def fld_def elems_def Let_def
        intro!: exI [of _ "[_, _]"])
qed

lemma example_fetch_step:
  assumes "1 \<le> n" and "\<And>h. \<exists>s'. f (example_content url) (s\<lparr>fx_log := fx_log s @ h\<rparr>) = (Inr r, s')"
  shows "\<exists>s'. pbind (fetch_bytes example_registry url n) f s = (Inr r, s')"
  using example_fetch [OF assms(1), of url s] assms(2) by (auto simp: pbind_def)

lemma example_contents:
  "example_content (x @ ''/plugins/ui-shell.manifest.json'') = ''M''" "example_content (x @ ''/plugins/ui-shell.manifest.json.sig'') = ''G''"
  "example_content (x @ contract_path) = ''C''" "example_content (x @ ''/api/v1/registry'') = ''S''"
  by (simp_all add: example_content_def ends_with_def contract_path_def)

lemma example_plugin_admitted:
  "plugin_bound example_plugin" "offers_commands example_plugin" "example_plugin \<noteq> JUndef" "example_plugin \<noteq> JNull"
  "fld example_plugin ''id'' = JStr ''dns''" "fld example_plugin ''manifestSha256'' = JStr (example_digest ''M'')"
  by (simp_all add: plugin_bound_def offers_commands_def cli_of_def example_plugin_def example_cli_def fld_def Let_def is_owner_name_def low_alnum_def digit_char_def
      strict_eq_def is_object_def is_artifact_service_def starts_with_def is_sha256_ref_def is_hex64_def hex_lower_def example_digest_def list_all_iff)

lemma example_manifest_signed:
  "signed_manifest example_registry example_snapshot example_plugin ''M'' (trim ''G'') =
     Inr (JObj [(''id'', JStr ''owner-commands''), (''path'', JStr contract_path), (''type'', JStr ''data''), (''sha256'', JStr (example_digest ''C''))])"
  by (simp add: signed_manifest_def example_registry_def trusted_key_def example_snapshot_def example_plugin_def fld_def js_or_def p256_key_def trim_def ws_def
      parse_json_def example_manifest_def manifest_asset_def get_prop_def nullish_def array_of_def manifest_bound_def strict_eq_def is_object_def cli_of_def
      example_cli_def is_hex64_def str_or_empty_def example_digest_def hex_lower_def digit_char_def list_all_iff)

lemma example_plugin_loaded:
  "\<exists>s'. load_plugin example_registry example_snapshot example_plugin s =
     (Inr (map (\<lambda>d. d\<lparr>cd_origin := artifact_origin example_plugin, cd_contract := Some (digest_ref (example_digest ''C''))\<rparr>) example_commands), s')"
  (is "\<exists>s'. _ = (Inr ?ds, s')")
proof -
  have h: "rg_hash example_registry = example_digest" "rg_parse example_registry ''C'' = Some example_contract"
    by (simp_all add: example_registry_def)
  show ?thesis
    unfolding load_plugin_def Let_def
    by (simp add: example_plugin_admitted pguard_def, rule example_fetch_step, simp, simp add: example_contents example_plugin_admitted h, rule example_fetch_step, simp,
        simp only: example_contents example_manifest_signed, simp add: plift_def pbind_def [of "plift _"], rule example_fetch_step, simp)
      (simp add: example_contents h pguard_def parse_json_def fld_def [of "JObj _"] plift_def pbind_def example_contract_parsed pret_def)
qed

lemma example_providers: "\<exists>s'. load_providers example_registry \<lparr>fx_log = []\<rparr> =
    (Inr (map (\<lambda>d. d\<lparr>cd_origin := artifact_origin example_plugin, cd_contract := Some (digest_ref (example_digest ''C''))\<rparr>) example_commands), s')"
proof -
  have p: "rg_parse example_registry ''S'' = Some example_snapshot" "elems (fld example_snapshot ''plugins'') = [example_plugin]" "is_array (fld example_snapshot ''plugins'')"
    "fld example_snapshot ''stale'' = JBool False" "get_prop example_snapshot ''observedAt'' = Inr (JStr ''t'')"
    "rg_now example_registry h = Fin 1000" "rg_date example_registry x = Fin 0" for h x
    by (simp_all add: example_registry_def example_snapshot_def fld_def elems_def is_array_def get_prop_def nullish_def)
  have l: "length example_commands = 2"
    by (simp add: example_commands_def example_contract_def fld_def elems_def)
  have plugins: "\<exists>s'. load_plugins example_registry example_snapshot [] [] [example_plugin] s =
      (Inr (map (\<lambda>d. d\<lparr>cd_origin := artifact_origin example_plugin, cd_contract := Some (digest_ref (example_digest ''C''))\<rparr>) example_commands), s')" for s
    using example_plugin_loaded [of s] by (auto simp: nullish_def example_plugin_admitted set_has_def pbind_def pret_def l)
  show ?thesis
    unfolding load_providers_def
    by (intro example_fetch_step)
      (simp_all add: example_contents parse_json_def p plift_def pbind_def pget_def num_sub_def num_is_finite_def plugins del: load_plugins.simps)
qed

theorem contributed_commands_are_signed_witness:
  "\<exists>ds s' t snapshot. load_providers example_registry \<lparr>fx_log = []\<rparr> = (Inr ds, s') \<and> map cd_id ds = [''dns.set'', ''dns.get'']
     \<and> served (fx_log s') ''http://r/api/v1/registry'' t \<and> rg_parse example_registry t = Some snapshot
     \<and> (\<forall>d \<in> set ds. \<exists>p \<in> set (elems (fld snapshot ''plugins'')). vouched example_registry (fx_log s') snapshot p d)"
proof -
  obtain s' where l: "load_providers example_registry \<lparr>fx_log = []\<rparr> =
    (Inr (map (\<lambda>d. d\<lparr>cd_origin := artifact_origin example_plugin, cd_contract := Some (digest_ref (example_digest ''C''))\<rparr>) example_commands), s')"
    using example_providers by blast
  moreover have "map cd_id (map (\<lambda>d. d\<lparr>cd_origin := artifact_origin example_plugin, cd_contract := Some (digest_ref (example_digest ''C''))\<rparr>) example_commands)
      = [''dns.set'', ''dns.get'']"
    by (simp add: example_commands_def example_contract_def fld_def elems_def command_of_def)
  moreover have "rg_origin example_registry @ ''/api/v1/registry'' = ''http://r/api/v1/registry''"
    by (simp add: example_registry_def)
  ultimately show ?thesis
    using contributed_commands_are_signed [OF l] by auto
qed

end
