(* ===== verification/ShellAdmission.thy ===== *)
theory ShellAdmission
  imports ShellProviders
begin

text \<open>
  The session contract of the OS Shell and its admission assertions: \<open>src/apps/os-shell-control/authority/os-shell-contract.js\<close> and
  \<open>os-shell-admission.js\<close>.  The issuer runs beside the browser session, the verifier at the control plane; both share a secret.

  \<open>new URL\<close>, \<open>Date.parse\<close>, \<open>JSON.parse\<close>, base64url, SHA-256, HMAC, random bytes and random UUIDs are fields of the record \<open>authority\<close> or
  arguments.  Byte strings are strings; \<open>Buffer.from(text, 'base64url')\<close> never throws.  Authenticating the browser is a call on the environment.
\<close>

record authority =
  au_url :: "string \<Rightarrow> link option"
  au_date :: "string \<Rightarrow> jnum"
  au_parse :: "string \<Rightarrow> jsval option"
  au_enc :: "string \<Rightarrow> string"
  au_dec :: "string \<Rightarrow> string"
  au_sha :: "string \<Rightarrow> string"
  au_hmac :: "string \<Rightarrow> string \<Rightarrow> string"
  au_loopback :: bool

section \<open>The contract\<close>

definition NETWORK_PROFILE :: string where "NETWORK_PROFILE = ''console-only''"

definition FORBIDDEN_RUNTIME_KEYS :: "string list" where
  "FORBIDDEN_RUNTIME_KEYS = [''args'', ''command'', ''container'', ''containers'', ''env'', ''envFrom'', ''hostIPC'', ''hostNetwork'',
     ''hostPID'', ''image'', ''imagePullPolicy'', ''kubeconfig'', ''nodeName'', ''nodeSelector'', ''podSpec'',
     ''privileged'', ''resourceClaims'', ''resources'', ''runtimeClass'', ''runtimeClassName'', ''secret'',
     ''secrets'', ''securityContext'', ''serviceAccount'', ''serviceAccountName'', ''tolerations'', ''volume'',
     ''volumeMounts'', ''volumes'', ''vmiSpec'']"

definition RELEASE_EVIDENCE_KEYS :: "string list" where
  "RELEASE_EVIDENCE_KEYS = [''keyId'', ''manifestSha256'', ''osArtifactDigest'', ''releaseEvidenceRef'', ''runtimeImageDigest'', ''sessionPolicyRevision'']"

definition RAW_TERMINAL_KEYS :: "string list" where
  "RAW_TERMINAL_KEYS = [''command'', ''commandLine'', ''input'', ''keystroke'', ''output'', ''pty'', ''raw'', ''terminal'', ''terminalBytes'', ''terminalStream'']"

definition contractError :: "string \<Rightarrow> string \<Rightarrow> int \<Rightarrow> jsval" where
  "contractError code message status = js_error message [(''code'', JStr code), (''status'', JInt status)]"

definition plainObject :: "jsval \<Rightarrow> string \<Rightarrow> jsval + (string \<times> jsval) list" where
  "plainObject v label = (case v of JObj kvs \<Rightarrow> Inr kvs | _ \<Rightarrow> Inl (contractError ''ContractInvalid'' (label @ '' must be a plain object'') 400))"

definition requiredText :: "jsval \<Rightarrow> string \<Rightarrow> nat \<Rightarrow> jsval + string" where
  "requiredText v label maxLength = (let t = trim (to_str (js_coalesce v (JStr []))) in
     if t = [] \<or> maxLength < length t
     then Inl (contractError ''ContractInvalid'' (label @ '' is required and must be at most '' @ nat_str maxLength @ '' characters'') 400)
     else Inr t)"

definition exactDigest :: "jsval \<Rightarrow> string \<Rightarrow> jsval + string" where
  "exactDigest v label = rbind (requiredText v label 80) (\<lambda>t.
     if is_sha256_ref t then Inr t else Inl (contractError ''ContractInvalid'' (label @ '' must be an exact SHA-256 digest'') 400))"

definition normalizeSessionIntent :: "jsval \<Rightarrow> jsval + jsval" where
  "normalizeSessionIntent input = rbind (plainObject input ''SessionIntent'') (\<lambda>kvs.
     let keys = map fst kvs; injected = sort (filter (\<lambda>k. k \<in> set FORBIDDEN_RUNTIME_KEYS) keys); unknown = sort (filter (\<lambda>k. k \<noteq> ''networkProfile'') keys) in
     if injected \<noteq> [] then Inl (contractError ''PrivilegeEscalationAttempt'' (''SessionIntent cannot supply runtime fields: '' @ join '', '' injected) 403)
     else if unknown \<noteq> [] then Inl (contractError ''SessionIntentContractViolation'' (''unknown SessionIntent fields: '' @ join '', '' unknown) 400)
     else rbind (if fld input ''networkProfile'' = JUndef then Inr NETWORK_PROFILE else requiredText (fld input ''networkProfile'') ''networkProfile'' 64) (\<lambda>profile.
       if profile \<noteq> NETWORK_PROFILE then Inl (contractError ''NetworkProfileUnavailable'' ''only console-only is admitted'' 403)
       else Inr (JObj [(''networkProfile'', JStr NETWORK_PROFILE)])))"

definition loopback_host :: "link \<Rightarrow> bool" where
  "loopback_host u \<longleftrightarrow> lk_hostname u \<in> set [''localhost'', ''127.0.0.1'', ''[::1]'']"

definition normalizeOrigin :: "authority \<Rightarrow> jsval \<Rightarrow> jsval + string" where
  "normalizeOrigin au input = rbind (requiredText input ''origin'' 512) (\<lambda>v.
     case au_url au v of
       None \<Rightarrow> Inl (contractError ''OriginInvalid'' ''origin must be an absolute URL'' 403)
     | Some u \<Rightarrow>
         if lk_username u \<noteq> [] \<or> lk_password u \<noteq> [] \<or> lk_pathname u \<noteq> ''/'' \<or> lk_search u \<noteq> [] \<or> lk_hash u \<noteq> []
         then Inl (contractError ''OriginInvalid'' ''origin must contain only scheme, host, and optional port'' 403)
         else if lk_protocol u \<noteq> ''https:'' \<and> \<not> (au_loopback au \<and> loopback_host u \<and> lk_protocol u = ''http:'')
         then Inl (contractError ''OriginInvalid'' ''production shell origins require HTTPS'' 403)
         else Inr (lk_origin u))"

definition is_authority_code :: "string \<Rightarrow> bool" where
  \<comment> \<open>\<open>/^[a-z][a-z0-9_.:-]{2,127}$/\<close>\<close>
  "is_authority_code s \<longleftrightarrow> 3 \<le> length s \<and> length s \<le> 128 \<and> low_alnum (hd s) \<and> \<not> digit_char (hd s)
     \<and> list_all (\<lambda>c. low_alnum c \<or> c \<in> set ''_.:-'') (tl s)"

definition normalizeCodes :: "jsval \<Rightarrow> string \<Rightarrow> jsval + string list" where
  "normalizeCodes v label =
     (if \<not> is_array v then Inl (contractError ''AuthorityProjectionInvalid'' (label @ '' must be an array'') 503)
      else rbind (map_res (\<lambda>x. requiredText x label 128) (elems v)) (\<lambda>codes.
        if list_all is_authority_code codes then Inr (sort (uniq codes))
        else Inl (contractError ''AuthorityProjectionInvalid'' (label @ '' contains an invalid code'') 503)))"

definition permissionRevisionPayload :: "jsval \<Rightarrow> jsval + string" where
  "permissionRevisionPayload input = rbind (plainObject input ''authority projection'') (\<lambda>_.
     let revision = to_num (fld input ''credentialRevision'') in
     if \<not> is_safe_integer (JNum revision) \<or> num_less revision (Fin 1)
     then Inl (contractError ''AuthorityProjectionInvalid'' ''credentialRevision must be a positive integer'' 503)
     else rbind (normalizeCodes (fld input ''roles'') ''roles'') (\<lambda>roles.
       rbind (normalizeCodes (fld input ''permissions'') ''permissions'') (\<lambda>permissions.
       Inr (''credentialRevision='' @ num_str revision @ [CHR 0x0A] @ ''roles='' @ join [CHR 0x1F] roles @ [CHR 0x0A]
         @ ''permissions='' @ join [CHR 0x1F] permissions))))"

definition canonicalPermissionRevision :: "authority \<Rightarrow> jsval \<Rightarrow> jsval + string" where
  "canonicalPermissionRevision au input = rbind (permissionRevisionPayload input) (\<lambda>t. Inr (digest_ref (au_sha au t)))"

definition hashAttachTicket :: "authority \<Rightarrow> jsval \<Rightarrow> jsval + string" where
  "hashAttachTicket au ticket = rbind (requiredText ticket ''attach ticket'' 128) (\<lambda>t.
     let decoded = au_dec au t in
     if length decoded \<noteq> 32 \<or> au_enc au decoded \<noteq> t
     then Inl (contractError ''AttachTicketInvalid'' ''attach ticket must contain exactly 256 random bits'' 401)
     else Inr (digest_ref (au_sha au decoded)))"

definition createAttachTicket :: "authority \<Rightarrow> string \<Rightarrow> jsval + string \<times> string" where
  \<comment> \<open>the argument is \<open>randomBytes(32)\<close>; the result is the ticket and its hash\<close>
  "createAttachTicket au random = (let ticket = au_enc au random in rbind (hashAttachTicket au (JStr ticket)) (\<lambda>h. Inr (ticket, h)))"

definition normalizeAttachTicketExpiry :: "authority \<Rightarrow> jsval \<Rightarrow> jnum \<Rightarrow> jsval + string" where
  "normalizeAttachTicketExpiry au expiresAt now = (let expiry = au_date au (to_str expiresAt) in
     if \<not> num_is_finite expiry \<or> num_le expiry now \<or> num_less (num_add now (Fin 30000)) expiry
     then Inl (contractError ''AttachTicketExpiryInvalid'' ''attach ticket TTL must be greater than zero and at most 30 seconds'' 400)
     else to_iso_string expiry)"

definition normalizeReleaseEvidence :: "jsval \<Rightarrow> jsval + jsval" where
  "normalizeReleaseEvidence input = rbind (plainObject input ''release evidence'') (\<lambda>kvs.
     let unknown = filter (\<lambda>k. k \<notin> set RELEASE_EVIDENCE_KEYS) (map fst kvs) in
     if unknown \<noteq> [] then Inl (contractError ''ReleaseEvidenceInvalid'' (''unknown release evidence fields: '' @ join '', '' (sort unknown)) 400)
     else rbind (requiredText (fld input ''releaseEvidenceRef'') ''releaseEvidenceRef'' 512) (\<lambda>ref.
       rbind (exactDigest (fld input ''manifestSha256'') ''manifestSha256'') (\<lambda>manifest.
       rbind (requiredText (fld input ''keyId'') ''keyId'' 128) (\<lambda>key.
       rbind (exactDigest (fld input ''runtimeImageDigest'') ''runtimeImageDigest'') (\<lambda>image.
       rbind (exactDigest (fld input ''osArtifactDigest'') ''osArtifactDigest'') (\<lambda>artifact.
       rbind (requiredText (fld input ''sessionPolicyRevision'') ''sessionPolicyRevision'' 128) (\<lambda>policy.
       Inr (JObj [(''releaseEvidenceRef'', JStr ref), (''manifestSha256'', JStr manifest), (''keyId'', JStr key),
         (''runtimeImageDigest'', JStr image), (''osArtifactDigest'', JStr artifact), (''sessionPolicyRevision'', JStr policy)]))))))))"

definition assertLifecycleEventSafe :: "jsval \<Rightarrow> jsval + jsval" where
  "assertLifecycleEventSafe input = rbind (plainObject input ''shell lifecycle event'') (\<lambda>kvs.
     let forbidden = sort (filter (\<lambda>k. k \<in> set RAW_TERMINAL_KEYS) (map fst kvs)) in
     if forbidden \<noteq> [] then Inl (contractError ''RawTerminalAuditForbidden'' (''lifecycle audit cannot contain: '' @ join '', '' forbidden) 403)
     else Inr input)"

section \<open>Issuing an assertion\<close>

definition admission_fail :: "int \<Rightarrow> string \<Rightarrow> jsval" where
  "admission_fail code msg = JObj [(''code'', JInt code), (''msg'', JStr msg)]"

definition canonicalTimestamp :: "authority \<Rightarrow> jsval \<Rightarrow> string \<Rightarrow> jsval + string" where
  "canonicalTimestamp au v label = (let parsed = au_date au (str_or_empty v) in
     if num_is_finite parsed then to_iso_string parsed else Inl (admission_fail 503 (label @ '' is unavailable'')))"

definition admissionSecret :: "authority \<Rightarrow> jsval \<Rightarrow> jsval + string" where
  "admissionSecret au v = (let text = str_or_empty v; decoded = au_dec au text in
     if length decoded < 32 \<or> au_enc au decoded \<noteq> text
     then Inl (js_error ''OS_SHELL_ADMISSION_SECRET must be canonical base64url with at least 256 bits'' [])
     else Inr decoded)"

definition is_shell_path :: "string \<Rightarrow> bool" where
  \<comment> \<open>\<open>PATH\<close>, which ignores case\<close>
  "is_shell_path p \<longleftrightarrow> (let s = to_lower p in
     s \<in> set [''/api/os-shell/readiness'', ''/api/os-shell/sessions'']
     \<or> starts_with ''/api/os-shell/sessions/'' s
       \<and> (let i = take 36 (drop 23 s) in length i = 36 \<and> list_all (\<lambda>c. hex_lower c \<or> c = CHR ''-'') i)
       \<and> drop 59 s \<in> set [[], ''/attach-ticket'', ''/attach''])"

definition before_query :: "string \<Rightarrow> string" where
  \<comment> \<open>\<open>s.split('?', 1)[0]\<close>\<close>
  "before_query s = takeWhile (\<lambda>c. c \<noteq> CHR ''?'') s"

record original_request =
  or_method :: string
  or_path :: string
  or_origin :: string

definition originalRequest :: "authority \<Rightarrow> jsval \<Rightarrow> jsval + original_request" where
  "originalRequest au req = (let headers = fld req ''headers'' in
     if fld headers ''x-os-internal-authn-subrequest'' \<noteq> JStr ''os-shell-v1'' then Inl (admission_fail 403 ''OS Shell admission is internal only'')
     else if truthy (fld headers ''authorization'') then Inl (admission_fail 403 ''bearer credentials are not admitted to OS Shell control'')
     else let verb = to_upper (str_or_empty (fld headers ''x-os-original-method'')); path = before_query (str_or_empty (fld headers ''x-os-original-uri'')) in
       if verb \<notin> set [''GET'', ''POST'', ''DELETE''] \<or> \<not> is_shell_path path then Inl (admission_fail 403 ''OS Shell request target is not admitted'')
       else rbind (normalizeOrigin au (fld headers ''x-os-original-origin'')) (\<lambda>origin.
         Inr \<lparr>or_method = verb, or_path = path, or_origin = origin\<rparr>))"

definition original_value :: "original_request \<Rightarrow> jsval \<Rightarrow> jsval" where
  "original_value original req = JObj [(''method'', JStr (or_method original)), (''path'', JStr (or_path original)), (''origin'', JStr (or_origin original)),
     (''headers'', fld req ''headers''), (''url'', JStr (or_path original))]"

definition admission_header :: jsval where
  "admission_header = JObj [(''alg'', JStr ''HS256''), (''typ'', JStr ''OS-SHELL-ADMISSION'')]"

definition seconds :: "jnum \<Rightarrow> jnum" where
  \<comment> \<open>\<open>Math.floor(ms / 1000)\<close>\<close>
  "seconds n = (case n of Fin r \<Rightarrow> Fin (of_int \<lfloor>r / 1000\<rfloor>) | m \<Rightarrow> m)"

definition issued_claims :: "(string \<times> jsval) list \<Rightarrow> string \<Rightarrow> jnum \<Rightarrow> int \<Rightarrow> jsval" where
  "issued_claims payload jti nowMs ttl = (let now = seconds nowMs in
     JObj (spread [(''iss'', JStr ''opensphere-console-backend''), (''aud'', JStr ''opensphere-shell-control''), (''jti'', JStr jti),
       (''iat'', JNum now), (''nbf'', JNum (num_sub now (Fin 1))), (''exp'', JNum (num_add now (Fin (of_int ttl))))] payload))"

definition issue :: "authority \<Rightarrow> jsval \<Rightarrow> string \<Rightarrow> string" where
  "issue au claims secret = (let input = au_enc au (json_text admission_header) @ ''.'' @ au_enc au (json_text claims) in
     input @ ''.'' @ au_enc au (au_hmac au secret input))"

definition sorted_codes :: "jsval \<Rightarrow> jsval list" where
  \<comment> \<open>\<open>Array.isArray(v) ? [...new Set(v)].sort() : []\<close>\<close>
  "sorted_codes v = sort_key to_str (uniq (elems v))"

definition csrf_required :: "string \<Rightarrow> bool" where
  "csrf_required verb \<longleftrightarrow> verb \<notin> set [''GET'', ''HEAD'', ''OPTIONS'']"

definition authority_projection :: "jsval \<Rightarrow> jsval" where
  "authority_projection actor = JObj [(''credentialRevision'', JNum (to_num (fld actor ''credentialRevision''))),
     (''roles'', JArr (sorted_codes (fld actor ''groups''))), (''permissions'', JArr (sorted_codes (fld actor ''permissions'')))]"

definition admission_claims :: "original_request \<Rightarrow> jsval \<Rightarrow> string \<Rightarrow> string \<Rightarrow> string \<Rightarrow> (string \<times> jsval) list" where
  "admission_claims original actor permissionRevision idle absolute = (let csrf = JBool (csrf_required (or_method original)) in
     [(''sub'', JStr (to_str (fld actor ''sub''))), (''browserSessionId'', JStr (to_str (fld actor ''browserSessionId''))),
      (''method'', JStr (or_method original)), (''path'', JStr (or_path original)), (''origin'', JStr (or_origin original)),
      (''csrfRequired'', csrf), (''csrfVerified'', csrf), (''aal'', JStr (if fld actor ''assurance'' = JStr ''aal2'' then ''aal2'' else ''aal1'')),
      (''credentialRevision'', JNum (to_num (fld actor ''credentialRevision''))), (''roles'', JArr (sorted_codes (fld actor ''groups''))),
      (''permissions'', JArr (sorted_codes (fld actor ''permissions''))), (''permissionRevision'', JStr permissionRevision),
      (''browserIdleExpiresAt'', JStr idle), (''browserAbsoluteExpiresAt'', JStr absolute)])"

definition admission_payload :: "authority \<Rightarrow> original_request \<Rightarrow> jsval \<Rightarrow> jsval + (string \<times> jsval) list" where
  "admission_payload au original session = (let actor = fld session ''actor'' in
     rbind (guard_else (admission_fail 403 ''session:attach permission is required'') (JStr ''session:attach'' \<in> set (sorted_codes (fld actor ''permissions'')))) (\<lambda>_.
     rbind (canonicalPermissionRevision au (authority_projection actor)) (\<lambda>permissionRevision.
     rbind (canonicalTimestamp au (fld (fld session ''row'') ''idle_expires_at'') ''browser idle expiry'') (\<lambda>idle.
     rbind (canonicalTimestamp au (fld (fld session ''row'') ''absolute_expires_at'') ''browser absolute expiry'') (\<lambda>absolute.
     Inr (admission_claims original actor permissionRevision idle absolute))))))"

definition createOsShellAdmissionIssuer :: "authority \<Rightarrow> jsval \<Rightarrow> jsval \<Rightarrow> jsval + string" where
  \<comment> \<open>the checks made once; the result is the key of the issuer\<close>
  "createOsShellAdmissionIssuer au secret ttl = rbind (admissionSecret au secret) (\<lambda>key.
     rbind (guard_else (js_error ''OS Shell admission TTL must be 1..15 seconds'' []) (bounded_by ttl 1 15)) (\<lambda>_. Inr key))"

definition authorize_browser :: "authority \<Rightarrow> environment \<Rightarrow> string \<Rightarrow> int \<Rightarrow> jnum \<Rightarrow> string \<Rightarrow> jsval \<Rightarrow> ('x, string) fxprog" where
  \<comment> \<open>the function \<open>createOsShellAdmissionIssuer\<close> returns; the result is the assertion\<close>
  "authorize_browser au env key ttl now jti req =
     pbind (plift (originalRequest au req)) (\<lambda>original.
     pbind (call env ''authenticateBrowser'' [original_value original req]) (\<lambda>session.
     if \<not> truthy (fld session ''actor'') \<or> truthy (fld session ''authorityDegraded'')
     then pthrow (admission_fail 503 ''current authorization authority is required'')
     else pbind (plift (admission_payload au original session)) (\<lambda>payload.
       pret (issue au (issued_claims payload jti now ttl) key))))"

section \<open>Verifying an assertion\<close>

definition assertion_fresh :: "jsval \<Rightarrow> jnum \<Rightarrow> bool" where
  "assertion_fresh claims current \<longleftrightarrow> is_safe_integer (fld claims ''iat'') \<and> is_safe_integer (fld claims ''exp'')
     \<and> \<not> num_less (Fin 15) (num_sub (to_num (fld claims ''exp'')) (to_num (fld claims ''iat'')))
     \<and> \<not> num_le (to_num (fld claims ''exp'')) current
     \<and> \<not> num_less (num_add current (Fin 1)) (to_num (fld claims ''nbf''))
     \<and> \<not> num_less (num_add current (Fin 1)) (to_num (fld claims ''iat''))"

definition expiry_projected :: "authority \<Rightarrow> jsval \<Rightarrow> jnum \<Rightarrow> bool" where
  "expiry_projected au claims now = (let idle = au_date au (to_str (fld claims ''browserIdleExpiresAt'')); absolute = au_date au (to_str (fld claims ''browserAbsoluteExpiresAt'')) in
     num_is_finite idle \<and> num_is_finite absolute \<and> \<not> num_le idle now \<and> \<not> num_less absolute idle
     \<and> (case to_iso_string idle of Inr t \<Rightarrow> fld claims ''browserIdleExpiresAt'' = JStr t | Inl _ \<Rightarrow> False)
     \<and> (case to_iso_string absolute of Inr t \<Rightarrow> fld claims ''browserAbsoluteExpiresAt'' = JStr t | Inl _ \<Rightarrow> False))"

definition decode_part :: "authority \<Rightarrow> string \<Rightarrow> jsval + jsval" where
  "decode_part au part = (case au_parse au (au_dec au part) of
       None \<Rightarrow> Inl (admission_fail 401 ''OS Shell admission assertion is not canonical JSON'')
     | Some v \<Rightarrow> Inr v)"

definition request_bound :: "jsval \<Rightarrow> string \<Rightarrow> string \<Rightarrow> string \<Rightarrow> bool" where
  "request_bound claims verb path origin \<longleftrightarrow> fld claims ''method'' = JStr verb \<and> fld claims ''path'' = JStr path \<and> fld claims ''origin'' = JStr origin
     \<and> fld claims ''csrfRequired'' = JBool (csrf_required verb) \<and> fld claims ''csrfVerified'' = JBool (csrf_required verb)"

definition verify_claims :: "authority \<Rightarrow> jsval \<Rightarrow> jsval \<Rightarrow> string \<Rightarrow> string \<Rightarrow> jsval \<Rightarrow> jnum \<Rightarrow> jsval + jsval" where
  "verify_claims au header claims verb path origin now =
     rbind (get_prop header ''alg'') (\<lambda>alg.
     if alg \<noteq> JStr ''HS256'' \<or> fld header ''typ'' \<noteq> JStr ''OS-SHELL-ADMISSION'' then Inl (admission_fail 401 ''OS Shell admission audience rejected'')
     else rbind (get_prop claims ''iss'') (\<lambda>iss.
     if iss \<noteq> JStr ''opensphere-console-backend'' \<or> fld claims ''aud'' \<noteq> JStr ''opensphere-shell-control''
     then Inl (admission_fail 401 ''OS Shell admission audience rejected'')
     else if \<not> assertion_fresh claims (seconds now) then Inl (admission_fail 401 ''OS Shell admission assertion expired'')
     else rbind (normalizeOrigin au origin) (\<lambda>exactOrigin.
       if \<not> request_bound claims (to_upper verb) (before_query path) exactOrigin then Inl (admission_fail 403 ''OS Shell admission request projection changed'')
       else rbind (canonicalPermissionRevision au claims) (\<lambda>revision.
         if fld claims ''permissionRevision'' \<noteq> JStr revision \<or> JStr ''session:attach'' \<notin> set (elems (fld claims ''permissions''))
         then Inl (admission_fail 403 ''OS Shell admission authority projection changed'')
         else if \<not> expiry_projected au claims now then Inl (admission_fail 401 ''OS Shell browser expiry projection rejected'')
         else Inr claims))))"

definition verifyOsShellAdmission :: "authority \<Rightarrow> jsval \<Rightarrow> jsval \<Rightarrow> string \<Rightarrow> string \<Rightarrow> jsval \<Rightarrow> jnum \<Rightarrow> jsval + jsval" where
  "verifyOsShellAdmission au token secret verb path origin now =
     rbind (admissionSecret au secret) (\<lambda>key.
     case split_dots (str_or_empty token) of
       [h, c, g] \<Rightarrow>
         if au_dec au g \<noteq> au_hmac au key (h @ ''.'' @ c) then Inl (admission_fail 401 ''OS Shell admission signature rejected'')
         else rbind (decode_part au h) (\<lambda>header. rbind (decode_part au c) (\<lambda>claims. verify_claims au header claims verb path origin now))
     | _ \<Rightarrow> Inl (admission_fail 401 ''OS Shell admission assertion is malformed''))"

section \<open>What is issued is verified\<close>

lemma split_dots_single: "CHR ''.'' \<notin> set x \<Longrightarrow> split_dots x = [x]"
  by (induction x) auto

lemma split_dots_append: "CHR ''.'' \<notin> set x \<Longrightarrow> split_dots (x @ CHR ''.'' # y) = x # split_dots y"
  by (induction x) auto

lemma payload_Inr:
  assumes "admission_payload au original session = Inr payload"
  obtains rv idle absolute where "JStr ''session:attach'' \<in> set (sorted_codes (fld (fld session ''actor'') ''permissions''))"
    "canonicalPermissionRevision au (authority_projection (fld session ''actor'')) = Inr rv"
    "canonicalTimestamp au (fld (fld session ''row'') ''idle_expires_at'') ''browser idle expiry'' = Inr idle"
    "canonicalTimestamp au (fld (fld session ''row'') ''absolute_expires_at'') ''browser absolute expiry'' = Inr absolute"
    "payload = admission_claims original (fld session ''actor'') rv idle absolute"
  using assms by (auto simp: admission_payload_def Let_def rbind_eq_Inr)

definition claims_of :: "original_request \<Rightarrow> jsval \<Rightarrow> string \<Rightarrow> string \<Rightarrow> string \<Rightarrow> string \<Rightarrow> rat \<Rightarrow> int \<Rightarrow> jsval" where
  "claims_of original actor rv idle absolute jti now ttl = issued_claims (admission_claims original actor rv idle absolute) jti (Fin now) ttl"

lemma claims_fields:
  "fld (claims_of original actor rv idle absolute jti now ttl) ''iss'' = JStr ''opensphere-console-backend''"
  "fld (claims_of original actor rv idle absolute jti now ttl) ''aud'' = JStr ''opensphere-shell-control''"
  "fld (claims_of original actor rv idle absolute jti now ttl) ''iat'' = JNum (Fin (of_int \<lfloor>now / 1000\<rfloor>))"
  "fld (claims_of original actor rv idle absolute jti now ttl) ''nbf'' = JNum (Fin (of_int \<lfloor>now / 1000\<rfloor> - 1))"
  "fld (claims_of original actor rv idle absolute jti now ttl) ''exp'' = JNum (Fin (of_int \<lfloor>now / 1000\<rfloor> + of_int ttl))"
  "fld (claims_of original actor rv idle absolute jti now ttl) ''method'' = JStr (or_method original)"
  "fld (claims_of original actor rv idle absolute jti now ttl) ''path'' = JStr (or_path original)"
  "fld (claims_of original actor rv idle absolute jti now ttl) ''origin'' = JStr (or_origin original)"
  "fld (claims_of original actor rv idle absolute jti now ttl) ''csrfRequired'' = JBool (csrf_required (or_method original))"
  "fld (claims_of original actor rv idle absolute jti now ttl) ''csrfVerified'' = JBool (csrf_required (or_method original))"
  "fld (claims_of original actor rv idle absolute jti now ttl) ''credentialRevision'' = fld (authority_projection actor) ''credentialRevision''"
  "fld (claims_of original actor rv idle absolute jti now ttl) ''roles'' = fld (authority_projection actor) ''roles''"
  "fld (claims_of original actor rv idle absolute jti now ttl) ''permissions'' = fld (authority_projection actor) ''permissions''"
  "fld (claims_of original actor rv idle absolute jti now ttl) ''permissionRevision'' = JStr rv"
  "fld (claims_of original actor rv idle absolute jti now ttl) ''browserIdleExpiresAt'' = JStr idle"
  "fld (claims_of original actor rv idle absolute jti now ttl) ''browserAbsoluteExpiresAt'' = JStr absolute"
  by (simp_all add: claims_of_def issued_claims_def fld_def [of "JObj _"] map_of_spread map_add_def admission_claims_def authority_projection_def Let_def seconds_def
      num_sub_def)

lemma claims_revision: "canonicalPermissionRevision au (claims_of original actor rv idle absolute jti now ttl) = canonicalPermissionRevision au (authority_projection actor)"
proof -
  have "\<exists>kvs. claims_of original actor rv idle absolute jti now ttl = JObj kvs"
    by (simp add: claims_of_def issued_claims_def Let_def)
  then show ?thesis
    by (auto simp: canonicalPermissionRevision_def permissionRevisionPayload_def plainObject_def authority_projection_def claims_fields [unfolded authority_projection_def]
        cong: if_cong)
qed

definition instant :: "authority \<Rightarrow> jsval \<Rightarrow> int \<Rightarrow> bool" where
  \<comment> \<open>the stored timestamp denotes this millisecond, and \<open>Date.parse\<close> inverts \<open>toISOString\<close> there\<close>
  "instant au v ms \<longleftrightarrow> au_date au (str_or_empty v) = Fin (of_int ms) \<and> \<bar>ms\<bar> \<le> 8640000000000000 \<and> au_date au (iso_time ms) = Fin (of_int ms)"

lemma to_iso_instant: "\<bar>ms\<bar> \<le> 8640000000000000 \<Longrightarrow> to_iso_string (Fin (of_int ms)) = Inr (iso_time ms)"
proof -
  assume "\<bar>ms\<bar> \<le> 8640000000000000"
  then have "\<bar>of_int ms\<bar> \<le> (8640000000000000 :: rat)"
    by (metis of_int_abs of_int_le_numeral_iff)
  then show ?thesis
    by (simp add: to_iso_string_def time_clip_def)
qed

lemma canonicalTimestamp_instant: "instant au v ms \<Longrightarrow> canonicalTimestamp au v label = Inr (iso_time ms)"
  by (simp add: canonicalTimestamp_def instant_def num_is_finite_def to_iso_instant)

lemma issued_expiry:
  assumes "instant au v i" "instant au w a" "now < of_int i" "i \<le> a"
  shows "expiry_projected au (claims_of original actor rv (iso_time i) (iso_time a) jti t ttl) (Fin now)"
  using assms by (simp add: expiry_projected_def claims_fields instant_def num_is_finite_def to_iso_instant num_le_def)

lemma issued_fresh:
  assumes "0 \<le> now" "now \<le> 8640000000000000" "1 \<le> ttl" "ttl \<le> 15" "\<lfloor>now / 1000\<rfloor> \<le> \<lfloor>later / 1000\<rfloor> + 1" "\<lfloor>later / 1000\<rfloor> < \<lfloor>now / 1000\<rfloor> + ttl"
  shows "assertion_fresh (claims_of original actor rv idle absolute jti now ttl) (seconds (Fin later))"
proof -
  let ?n = "\<lfloor>now / 1000\<rfloor>"
  have "0 \<le> ?n" "?n \<le> 8640000000000"
    using assms(1,2) by (simp_all add: floor_le_iff)
  then have safe: "\<bar>rat_of_int k\<bar> \<le> MAX_SAFE_INTEGER" if "0 \<le> k" "k \<le> 8640000000015" for k
  proof -
    have "\<bar>k\<bar> \<le> 9007199254740991"
      using that by simp
    then have "\<bar>rat_of_int k\<bar> \<le> 9007199254740991"
      by (metis of_int_abs of_int_le_numeral_iff)
    then show ?thesis
      by (simp add: MAX_SAFE_INTEGER_def)
  qed
  have e: "rat_of_int ?n + of_int ttl = of_int (?n + ttl)"
    by simp
  have s: "seconds (Fin later) = Fin (of_int \<lfloor>later / 1000\<rfloor>)"
    by (simp add: seconds_def)
  have c: "rat_of_int ?n \<le> of_int \<lfloor>later / 1000\<rfloor> + 1" "rat_of_int \<lfloor>later / 1000\<rfloor> < of_int ?n + of_int ttl"
    using assms(5,6) by (metis of_int_1 of_int_add of_int_le_iff, metis of_int_add of_int_less_iff)
  show ?thesis
    unfolding assertion_fresh_def claims_fields s
    using safe [of ?n] safe [of "?n + ttl"] \<open>0 \<le> ?n\<close> \<open>?n \<le> 8640000000000\<close> assms(3,4) c
    by (auto simp: is_safe_integer_def is_int_rat_def e num_sub_def num_le_def simp del: of_int_add)
qed

lemma originalRequest_Inr:
  assumes "originalRequest au req = Inr original"
  shows "or_method original = to_upper (str_or_empty (fld (fld req ''headers'') ''x-os-original-method''))"
    and "or_path original = before_query (str_or_empty (fld (fld req ''headers'') ''x-os-original-uri''))"
    and "normalizeOrigin au (fld (fld req ''headers'') ''x-os-original-origin'') = Inr (or_origin original)"
  using assms by (auto simp: originalRequest_def Let_def rbind_eq_Inr split: if_splits)

lemma claims_verified:
  assumes "JStr ''session:attach'' \<in> set (sorted_codes (fld actor ''permissions''))" "canonicalPermissionRevision au (authority_projection actor) = Inr rv"
    and "assertion_fresh (claims_of original actor rv idle absolute jti now ttl) (seconds later)"
    and "expiry_projected au (claims_of original actor rv idle absolute jti now ttl) later"
    and "to_upper verb = or_method original" "before_query path = or_path original" "normalizeOrigin au origin = Inr (or_origin original)"
  shows "verify_claims au admission_header (claims_of original actor rv idle absolute jti now ttl) verb path origin later
    = Inr (claims_of original actor rv idle absolute jti now ttl)"
proof -
  have "\<not> nullish (claims_of original actor rv idle absolute jti now ttl)"
    by (simp add: claims_of_def issued_claims_def Let_def nullish_def)
  moreover have "fld admission_header ''alg'' = JStr ''HS256''" "fld admission_header ''typ'' = JStr ''OS-SHELL-ADMISSION''" "\<not> nullish admission_header"
    by (simp_all add: admission_header_def fld_def nullish_def)
  moreover have "elems (fld (authority_projection actor) ''permissions'') = sorted_codes (fld actor ''permissions'')"
    by (simp add: authority_projection_def fld_def elems_def)
  ultimately show ?thesis
    using assms by (simp add: verify_claims_def get_prop_def claims_fields claims_revision request_bound_def)
qed


definition bit_char :: "bool \<Rightarrow> char" where
  "bit_char b = (if b then CHR ''1'' else CHR ''0'')"

fun bits_of :: "string \<Rightarrow> string" where
  \<comment> \<open>a dot-free text encoding, standing for base64url in the example\<close>
  "bits_of [] = []"
| "bits_of (Char a b c d e f g h # s) = map bit_char [a, b, c, d, e, f, g, h] @ bits_of s"

fun of_bits :: "string \<Rightarrow> string" where
  "of_bits (a # b # c # d # e # f # g # h # s) =
     Char (a = CHR ''1'') (b = CHR ''1'') (c = CHR ''1'') (d = CHR ''1'') (e = CHR ''1'') (f = CHR ''1'') (g = CHR ''1'') (h = CHR ''1'') # of_bits s"
| "of_bits _ = []"

lemma bit_char_simps [simp]: "bit_char b = CHR ''1'' \<longleftrightarrow> b" "bit_char b \<noteq> CHR ''.''" "CHR ''.'' \<noteq> bit_char b"
  by (simp_all add: bit_char_def)

lemma of_bits_inverse: "of_bits (bits_of x) = x"
  by (induction x rule: bits_of.induct) simp_all

lemma bits_have_no_dot: "CHR ''.'' \<notin> set (bits_of x)"
  by (induction x rule: bits_of.induct) simp_all

definition example_headers :: jsval where
  "example_headers = JObj [(''x-os-internal-authn-subrequest'', JStr ''os-shell-v1''), (''x-os-original-method'', JStr ''GET''),
     (''x-os-original-uri'', JStr ''/api/os-shell/sessions''), (''x-os-original-origin'', JStr ''https://c'')]"

definition example_original :: original_request where
  "example_original = \<lparr>or_method = ''GET'', or_path = ''/api/os-shell/sessions'', or_origin = ''https://c''\<rparr>"

definition example_actor :: jsval where
  "example_actor = JObj [(''sub'', JStr ''u''), (''browserSessionId'', JStr ''b''), (''assurance'', JStr ''aal2''), (''credentialRevision'', JInt 3),
     (''permissions'', JArr [JStr ''session:attach'']), (''groups'', JArr [])]"

definition example_session :: jsval where
  "example_session = JObj [(''actor'', example_actor), (''row'', JObj [(''idle_expires_at'', JStr ''i''), (''absolute_expires_at'', JStr ''a'')])]"

definition example_payload :: "(string \<times> jsval) list" where
  "example_payload = admission_claims example_original example_actor (digest_ref ''d'') (iso_time 2000000) (iso_time 2000000)"

definition example_authority :: authority where
  "example_authority = \<lparr>au_url = (\<lambda>_. Some \<lparr>lk_protocol = ''https:'', lk_username = [], lk_password = [], lk_pathname = ''/'', lk_search = [], lk_hash = [],
        lk_hostname = ''c'', lk_origin = ''https://c''\<rparr>),
     au_date = (\<lambda>_. Fin 2000000),
     au_parse = (\<lambda>t. if t = json_text admission_header then Some admission_header else Some (issued_claims example_payload ''j'' (Fin 1000000) 12)),
     au_enc = bits_of, au_dec = of_bits, au_sha = (\<lambda>_. ''d''), au_hmac = (\<lambda>k t. k), au_loopback = False\<rparr>"

lemma example_request_admitted:
  "originalRequest example_authority (JObj [(''headers'', example_headers)]) = Inr example_original"
  by (simp add: originalRequest_def example_headers_def example_original_def fld_def [of "JObj _"] str_or_empty_def js_or_def before_query_def to_upper_def upper_char_def
      is_shell_path_def to_lower_def lower_char_def normalizeOrigin_def requiredText_def js_coalesce_def nullish_def trim_def ws_def example_authority_def Let_def)

lemma example_payload_issued: "admission_payload example_authority example_original example_session = Inr example_payload"
proof -
  have "instant example_authority v 2000000" for v
    by (simp add: instant_def example_authority_def)
  moreover have "canonicalPermissionRevision example_authority (authority_projection example_actor) = Inr (digest_ref ''d'')"
    by (simp add: canonicalPermissionRevision_def permissionRevisionPayload_def plainObject_def authority_projection_def example_actor_def fld_def [of "JObj _"] is_safe_integer_def
        is_int_rat_def MAX_SAFE_INTEGER_def normalizeCodes_def is_array_def elems_def sorted_codes_def uniq_def requiredText_def js_coalesce_def nullish_def trim_def ws_def
        is_authority_code_def low_alnum_def digit_char_def example_authority_def Let_def)
  ultimately show ?thesis
    by (simp add: admission_payload_def example_session_def example_payload_def fld_def [of "JObj _"] canonicalTimestamp_instant [of _ _ 2000000] guard_else_def)
      (simp add: example_actor_def fld_def sorted_codes_def elems_def uniq_def)
qed

definition example_key :: string where
  "example_key = replicate 32 (CHR ''k'')"

lemma example_secret: "admissionSecret example_authority (JStr (bits_of example_key)) = Inr example_key"
proof -
  have "str_or_empty (JStr (bits_of example_key)) = bits_of example_key"
    by (simp add: str_or_empty_def js_or_def)
  then show ?thesis
    by (simp add: admissionSecret_def example_authority_def of_bits_inverse) (simp add: example_key_def)
qed

definition example_browser :: environment where
  "example_browser h c = Inr example_session"

lemma example_issued:
  "authorize_browser example_authority example_browser example_key 12 (Fin 1000000) ''j'' (JObj [(''headers'', example_headers)]) \<lparr>fx_log = []\<rparr> =
     (Inr (issue example_authority (issued_claims example_payload ''j'' (Fin 1000000) 12) example_key),
      \<lparr>fx_log = [(Call ''authenticateBrowser'' [original_value example_original (JObj [(''headers'', example_headers)])], Inr example_session)]\<rparr>)"
proof -
  have "truthy (fld example_session ''actor'')" "\<not> truthy (fld example_session ''authorityDegraded'')"
    by (simp_all add: example_session_def example_actor_def fld_def)
  then show ?thesis
    by (simp add: authorize_browser_def example_request_admitted example_payload_issued example_browser_def call_def prog_defs Let_def)
qed

lemma join_head: "join sep (x # xs) = x @ (case xs of [] \<Rightarrow> [] | y # ys \<Rightarrow> sep @ join sep xs)"
  by (cases xs) simp_all

lemma example_claims_parsed:
  "au_parse example_authority (json_text (issued_claims example_payload ''j'' (Fin 1000000) 12)) = Some (issued_claims example_payload ''j'' (Fin 1000000) 12)"
proof -
  have "\<exists>kvs. issued_claims example_payload ''j'' (Fin 1000000) 12 = JObj ((''iss'', JStr ''opensphere-console-backend'') # kvs)"
    by (simp add: issued_claims_def Let_def spread_def example_payload_def admission_claims_def)
  then have "json_text (issued_claims example_payload ''j'' (Fin 1000000) 12) \<noteq> json_text admission_header"
    by (auto simp: json_text_def admission_header_def json_string_def json_char_def join_head)
  then show ?thesis
    by (simp add: example_authority_def)
qed


end
