(* ===== verification/ShellDatabase.thy ===== *)
theory ShellDatabase
  imports ShellAdmission
begin

text \<open>
  The database boundary of the OS Shell, \<open>src/apps/os-shell-control/authority/os-shell-database.js\<close>: closed calls of the functions in schema
  \<open>console_shell\<close>, each with checked arguments.  A query is a call on the environment, named by the database function it selects from, with
  the values bound to its parameters; whether the rows come as an array or under \<open>rows\<close> is decided as in the code.
\<close>

record shell_db =
  sd_env :: environment
  sd_now :: "history \<Rightarrow> jnum"
  sd_authority :: authority

definition db_rows :: "jsval \<Rightarrow> jsval list" where
  "db_rows result = (case result of JArr xs \<Rightarrow> xs | _ \<Rightarrow> elems (fld result ''rows''))"

definition positiveInteger :: "jsval \<Rightarrow> string \<Rightarrow> jsval + jsval" where
  "positiveInteger v label = (let n = to_num v in
     if \<not> is_safe_integer (JNum n) \<or> num_less n (Fin 1)
     then Inl (contractError ''ShellDatabaseContractInvalid'' (label @ '' must be a positive integer'') 400) else Inr (JNum n))"

definition db_required :: "jsval \<Rightarrow> string \<Rightarrow> jsval + jsval" where
  "db_required v label = (let t = trim (to_str (js_coalesce v (JStr []))) in
     if t = [] then Inl (contractError ''ShellDatabaseContractInvalid'' (label @ '' is required'') 400) else Inr (JStr t))"

definition db_optional :: "jsval \<Rightarrow> string \<Rightarrow> jsval + jsval" where
  "db_optional v label = (if truthy v then db_required v label else Inr JNull)"

fun has_infix :: "string \<Rightarrow> string \<Rightarrow> bool" where
  "has_infix p [] \<longleftrightarrow> p = []"
| "has_infix p (c # s) \<longleftrightarrow> starts_with p (c # s) \<or> has_infix p s"

definition authority_codes :: "(string \<times> int) list" where
  "authority_codes = [(''ShellFeatureDisabled'', 503), (''ShellActorSessionQuotaExceeded'', 429), (''ShellGlobalSessionQuotaExceeded'', 503),
     (''ShellSessionIdempotencyConflict'', 409), (''ShellFeatureRevisionConflict'', 409), (''ShellFeatureOperationInvalid'', 400)]"

definition mappedShellAuthorityError :: "jsval \<Rightarrow> jsval" where
  "mappedShellAuthorityError e = (case find (\<lambda>(code, _). has_infix code (str_or_empty (fld e ''message''))) authority_codes of
       None \<Rightarrow> e
     | Some (code, status) \<Rightarrow> JObj (obj_entries (contractError code code status) @ [(''cause'', e)]))"

definition db_execute :: "shell_db \<Rightarrow> string \<Rightarrow> (jsval + jsval) list \<Rightarrow> ('x, jsval list) fxprog" where
  \<comment> \<open>the arguments are evaluated from the left, and the first that throws ends the call\<close>
  "db_execute sd name args = pbind (plift (map_res (\<lambda>a. a) args)) (\<lambda>vs. pbind (call (sd_env sd) name vs) (\<lambda>r. pret (db_rows r)))"

definition first_or_null :: "jsval list \<Rightarrow> jsval" where
  "first_or_null xs = (case xs of [] \<Rightarrow> JNull | x # _ \<Rightarrow> or_null x)"

definition exactly_one :: "jsval \<Rightarrow> jsval list \<Rightarrow> jsval + jsval" where
  "exactly_one e xs = (case xs of [x] \<Rightarrow> Inr x | _ \<Rightarrow> Inl e)"

definition currentPermissionRevision :: "shell_db \<Rightarrow> jsval \<Rightarrow> jsval \<Rightarrow> ('x, jsval) fxprog" where
  "currentPermissionRevision sd actorId expected =
     pbind (plift (db_required actorId ''actorId'')) (\<lambda>actor.
     pbind (db_execute sd ''console_shell.current_shell_permission_revision'' [Inr actor]) (\<lambda>rows.
     let revision = fld (first_or_null rows) ''permission_revision'' in
     if \<not> is_sha256_ref (str_or_empty revision)
     then pthrow (contractError ''AuthorizationAuthorityUnavailable'' ''permission authority returned no canonical revision'' 503)
     else if expected \<noteq> JNull \<and> \<not> strict_eq expected revision
     then pthrow (contractError ''PermissionRevisionChanged'' ''effective shell permission revision changed'' 403)
     else pret revision))"

definition current_revision :: "shell_db \<Rightarrow> jsval \<Rightarrow> ('x, jsval) fxprog" where
  \<comment> \<open>\<open>currentPermissionRevision(input.actorId, input.permissionRevision ?? null)\<close>\<close>
  "current_revision sd input = currentPermissionRevision sd (fld input ''actorId'') (js_coalesce (fld input ''permissionRevision'') JNull)"

definition origin_arg :: "shell_db \<Rightarrow> jsval \<Rightarrow> jsval + jsval" where
  "origin_arg sd input = rbind (normalizeOrigin (sd_authority sd) (fld input ''origin'')) (\<lambda>t. Inr (JStr t))"

definition text_arg :: "jsval \<Rightarrow> string \<Rightarrow> jsval + jsval" where
  "text_arg input name = db_required (fld input name) name"

definition count_arg :: "jsval \<Rightarrow> string \<Rightarrow> jsval + jsval" where
  "count_arg input name = positiveInteger (fld input name) name"

definition fence_args :: "jsval \<Rightarrow> (jsval + jsval) list" where
  "fence_args input = [count_arg input ''generation'', count_arg input ''fencingEpoch'']"

definition binding_args :: "shell_db \<Rightarrow> jsval \<Rightarrow> (jsval + jsval) list" where
  "binding_args sd input = [text_arg input ''sessionId'', text_arg input ''browserSessionId'', text_arg input ''actorId'', origin_arg sd input]"

definition ticket_hash :: "shell_db \<Rightarrow> jsval \<Rightarrow> jsval + jsval" where
  "ticket_hash sd input = rbind (db_required (fld input ''ticket'') ''ticket'') (\<lambda>t. rbind (hashAttachTicket (sd_authority sd) t) (\<lambda>h. Inr (JStr h)))"

definition ticket_arg :: "shell_db \<Rightarrow> jsval \<Rightarrow> jsval + jsval" where
  "ticket_arg sd input = (if truthy (fld input ''ticketHash'') then text_arg input ''ticketHash'' else ticket_hash sd input)"

definition createSession :: "shell_db \<Rightarrow> jsval \<Rightarrow> ('x, jsval) fxprog" where
  "createSession sd input =
     pbind (current_revision sd input) (\<lambda>revision.
     pbind (plift (normalizeReleaseEvidence (fld input ''releaseEvidence''))) (\<lambda>evidence.
     pbind (pcatch (db_execute sd ''console_shell.create_shell_session''
          (binding_args sd input @ [text_arg input ''aal'', Inr revision, text_arg input ''runtimeTemplateRevision'', text_arg input ''idleExpiresAt'',
             text_arg input ''absoluteExpiresAt'', Inr (JStr (json_text evidence))]))
        (\<lambda>e. pthrow (mappedShellAuthorityError e))) (\<lambda>rows.
     plift (exactly_one (contractError ''ShellSessionCreateFailed'' ''session authority did not create exactly one row'' 409) rows))))"

definition getSession :: "shell_db \<Rightarrow> jsval \<Rightarrow> ('x, jsval) fxprog" where
  "getSession sd input = pbind (current_revision sd input) (\<lambda>revision.
     pbind (db_execute sd ''console_shell.get_shell_session''
       [text_arg input ''sessionId'', text_arg input ''browserSessionId'', text_arg input ''actorId'', Inr revision]) (\<lambda>rows. pret (first_or_null rows)))"

definition listSessions :: "shell_db \<Rightarrow> jsval \<Rightarrow> ('x, jsval list) fxprog" where
  "listSessions sd input = pbind (current_revision sd input) (\<lambda>revision.
     db_execute sd ''console_shell.list_shell_sessions'' [text_arg input ''browserSessionId'', text_arg input ''actorId'', Inr revision,
       Inr (JNum (num_max (Fin 1) (num_min (Fin 100) (to_num (js_or (fld input ''limit'') (JInt 50))))))])"

definition issueAttachTicket :: "shell_db \<Rightarrow> jsval \<Rightarrow> ('x, jsval) fxprog" where
  "issueAttachTicket sd input =
     pbind (current_revision sd input) (\<lambda>revision.
     pbind (plift (ticket_arg sd input)) (\<lambda>ticketHash.
     pbind (pget (sd_now sd \<circ> fx_log)) (\<lambda>now.
     pbind (plift (normalizeAttachTicketExpiry (sd_authority sd) (fld input ''expiresAt'') now)) (\<lambda>expiresAt.
     pbind (pcatch (db_execute sd ''console_shell.issue_shell_attach_ticket''
          ([Inr ticketHash] @ binding_args sd input @ fence_args input @ [text_arg input ''aal'', Inr revision, Inr (JStr expiresAt)]))
        (\<lambda>e. pthrow (mappedShellAuthorityError e))) (\<lambda>rows.
     plift (exactly_one (contractError ''AttachTicketIssueFailed'' ''ticket authority did not issue exactly one row'' 409) rows))))))"

definition consumeAttachTicket :: "shell_db \<Rightarrow> jsval \<Rightarrow> ('x, jsval) fxprog" where
  "consumeAttachTicket sd input =
     pbind (current_revision sd input) (\<lambda>revision.
     pbind (plift (ticket_arg sd input)) (\<lambda>ticketHash.
     pbind (db_execute sd ''console_shell.consume_shell_attach_ticket''
        ([Inr ticketHash] @ binding_args sd input @ fence_args input @ [text_arg input ''aal'', Inr revision, text_arg input ''consumer''])) (\<lambda>rows.
     if 1 < length rows then pthrow (contractError ''AttachTicketAuthorityCorrupt'' ''ticket CAS returned more than one row'' 503)
     else pret (first_or_null rows))))"

definition resolveAttachBinding :: "shell_db \<Rightarrow> jsval \<Rightarrow> ('x, jsval) fxprog" where
  "resolveAttachBinding sd input = pbind (current_revision sd input) (\<lambda>revision.
     pbind (db_execute sd ''console_shell.resolve_shell_attach_binding''
       ([if truthy (fld input ''ticketHash'') then Inr (fld input ''ticketHash'') else ticket_hash sd input] @ binding_args sd input @ [text_arg input ''aal'', Inr revision]))
       (\<lambda>rows. pret (first_or_null rows)))"

definition authorizeRuntimeAttach :: "shell_db \<Rightarrow> jsval \<Rightarrow> ('x, jsval) fxprog" where
  "authorizeRuntimeAttach sd input = pbind (db_execute sd ''console_shell.authorize_shell_runtime_attach''
     ([text_arg input ''runtimeCredentialHash'', if truthy (fld input ''ticketHash'') then Inr (fld input ''ticketHash'') else ticket_hash sd input,
       text_arg input ''sessionId'', text_arg input ''runtimeUid''] @ fence_args input)) (\<lambda>rows. pret (first_or_null rows))"

definition revalidateRuntime :: "shell_db \<Rightarrow> jsval \<Rightarrow> ('x, jsval) fxprog" where
  "revalidateRuntime sd input = pbind (db_execute sd ''console_shell.revalidate_shell_runtime''
     ([text_arg input ''runtimeCredentialHash'', text_arg input ''sessionId'', text_arg input ''runtimeUid''] @ fence_args input)) (\<lambda>rows. pret (first_or_null rows))"

definition revalidateSession :: "shell_db \<Rightarrow> jsval \<Rightarrow> ('x, jsval) fxprog" where
  "revalidateSession sd input = pbind (current_revision sd input) (\<lambda>revision.
     pbind (db_execute sd ''console_shell.revalidate_shell_session'' (binding_args sd input @ fence_args input @ [text_arg input ''aal'', Inr revision]))
       (\<lambda>rows. pret (first_or_null rows)))"

definition requestTeardown :: "shell_db \<Rightarrow> jsval \<Rightarrow> ('x, jsval) fxprog" where
  "requestTeardown sd input = pbind (current_revision sd input) (\<lambda>revision.
     pbind (db_execute sd ''console_shell.request_shell_session_teardown'' (binding_args sd input @ [Inr revision, text_arg input ''reasonCode'']))
       (\<lambda>rows. pret (first_or_null rows)))"

definition touchSessionActivity :: "shell_db \<Rightarrow> jsval \<Rightarrow> ('x, jsval) fxprog" where
  "touchSessionActivity sd input = pbind (current_revision sd input) (\<lambda>revision.
     pbind (db_execute sd ''console_shell.touch_shell_session_activity'' (binding_args sd input @ fence_args input @ [text_arg input ''aal'', Inr revision]))
       (\<lambda>rows. pret (first_or_null rows)))"

definition featureState :: "shell_db \<Rightarrow> ('x, jsval) fxprog" where
  "featureState sd = pbind (db_execute sd ''console_shell.get_shell_feature_state'' []) (\<lambda>rows.
     plift (exactly_one (contractError ''ShellFeatureAuthorityUnavailable'' ''feature authority did not return exactly one row'' 503) rows))"

definition claimSessions :: "shell_db \<Rightarrow> jsval \<Rightarrow> ('x, jsval list) fxprog" where
  "claimSessions sd input = db_execute sd ''console_shell.claim_shell_sessions'' [text_arg input ''worker'',
     rbind (positiveInteger (js_coalesce (fld input ''limit'') (JInt 5)) ''limit'') (\<lambda>n. Inr (JNum (num_max (Fin 1) (num_min (Fin 20) (to_num n)))))]"

definition worker_args :: "jsval \<Rightarrow> (jsval + jsval) list" where
  "worker_args input = [text_arg input ''sessionId'', text_arg input ''actorId'', text_arg input ''worker''] @ fence_args input"

definition heartbeatSession :: "shell_db \<Rightarrow> jsval \<Rightarrow> ('x, bool) fxprog" where
  "heartbeatSession sd input = pbind (current_revision sd input) (\<lambda>revision.
     pbind (db_execute sd ''console_shell.heartbeat_shell_session'' (worker_args input @ [Inr revision])) (\<lambda>rows.
     pret (fld (first_or_null rows) ''renewed'' = JBool True)))"

definition transitionSession :: "shell_db \<Rightarrow> jsval \<Rightarrow> ('x, jsval) fxprog" where
  "transitionSession sd input = pbind (current_revision sd input) (\<lambda>revision.
     pbind (db_execute sd ''console_shell.transition_shell_session'' (worker_args input @ [text_arg input ''expectedState'', text_arg input ''nextState'', Inr revision,
        db_optional (fld input ''runtimeUid'') ''runtimeUid'', db_optional (fld input ''runtimeResourceVersion'') ''runtimeResourceVersion'', text_arg input ''reasonCode'']))
     (\<lambda>rows. plift (exactly_one (contractError ''ShellSessionTransitionFailed'' ''session transition did not return exactly one row'' 409) rows)))"

definition db_registerRuntime :: "shell_db \<Rightarrow> jsval \<Rightarrow> ('x, jsval) fxprog" where
  "db_registerRuntime sd input = pbind (current_revision sd input) (\<lambda>revision.
     pbind (db_execute sd ''console_shell.register_shell_runtime'' (worker_args input @ [Inr revision] @ map (text_arg input)
        [''runtimeUid'', ''runtimeResourceVersion'', ''runtimeKeyId'', ''runtimePublicKeyPem'', ''runtimeTlsCertificateSha256'', ''runtimeAttachEndpoint'',
         ''runtimeCredentialHash'', ''runtimeCredentialExpiresAt'']))
     (\<lambda>rows. plift (exactly_one (contractError ''ShellRuntimeRegistrationFailed'' ''runtime registration did not return exactly one row'' 409) rows)))"

definition revokeSessionAuthority :: "shell_db \<Rightarrow> jsval \<Rightarrow> ('x, jsval) fxprog" where
  "revokeSessionAuthority sd input = pbind (db_execute sd ''console_shell.revoke_shell_session_authority''
     ([text_arg input ''sessionId'', text_arg input ''worker''] @ fence_args input @ [text_arg input ''reasonCode''])) (\<lambda>rows. pret (first_or_null rows))"

definition resolveRuntimeRegistration :: "shell_db \<Rightarrow> jsval \<Rightarrow> ('x, jsval) fxprog" where
  "resolveRuntimeRegistration sd input = pbind (db_execute sd ''console_shell.resolve_shell_runtime_registration''
     ([text_arg input ''sessionId'', text_arg input ''runtimeUid''] @ fence_args input)) (\<lambda>rows. pret (first_or_null rows))"

definition inspectClaim :: "shell_db \<Rightarrow> jsval \<Rightarrow> ('x, jsval) fxprog" where
  "inspectClaim sd input = pbind (db_execute sd ''console_shell.inspect_shell_claim''
     ([text_arg input ''sessionId'', text_arg input ''worker''] @ fence_args input)) (\<lambda>rows. pret (first_or_null rows))"

definition classifyRuntimeRegistration :: "shell_db \<Rightarrow> jsval \<Rightarrow> ('x, jsval) fxprog" where
  "classifyRuntimeRegistration sd input = pbind (db_execute sd ''console_shell.classify_shell_runtime_registration''
     ([text_arg input ''sessionId''] @ fence_args input)) (\<lambda>rows. pret (first_or_null rows))"

definition reprojectRuntime :: "shell_db \<Rightarrow> jsval \<Rightarrow> ('x, jsval) fxprog" where
  "reprojectRuntime sd input = pbind (db_execute sd ''console_shell.reproject_shell_runtime''
     (worker_args input @ [db_optional (fld input ''expectedRuntimeUid'') ''expectedRuntimeUid'', text_arg input ''reasonCode'']))
     (\<lambda>rows. plift (exactly_one (contractError ''ShellRuntimeReprojectionFailed'' ''runtime reprojection did not return one row'' 409) rows))"

section \<open>Programs whose calls obey a rule\<close>

text \<open>A rule says whether a call may follow a history; \<open>run P m Q E s\<close> is the weakest precondition of \<open>m\<close> in which every call it makes obeys \<open>P\<close>.\<close>

fun obeys :: "(history \<Rightarrow> service_call \<Rightarrow> bool) \<Rightarrow> history \<Rightarrow> history \<Rightarrow> bool" where
  "obeys P h [] \<longleftrightarrow> True"
| "obeys P h (e # es) \<longleftrightarrow> P h (fst e) \<and> obeys P (h @ [e]) es"

lemma obeys_append [simp]: "obeys P h (xs @ ys) \<longleftrightarrow> obeys P h xs \<and> obeys P (h @ xs) ys"
  by (induction xs arbitrary: h) auto

definition run :: "(history \<Rightarrow> service_call \<Rightarrow> bool) \<Rightarrow> ('x, 'a) fxprog \<Rightarrow> ('a \<Rightarrow> 'x fx_scheme \<Rightarrow> bool) \<Rightarrow> (jsval \<Rightarrow> 'x fx_scheme \<Rightarrow> bool) \<Rightarrow> 'x fx_scheme \<Rightarrow> bool" where
  "run P m Q E s \<longleftrightarrow> wp m (\<lambda>x t. \<exists>h. fx_log t = fx_log s @ h \<and> obeys P (fx_log s) h \<and> Q x t)
     (\<lambda>e t. \<exists>h. fx_log t = fx_log s @ h \<and> obeys P (fx_log s) h \<and> E e t) s"

lemma run_pure [simp]:
  "run P (pret x) Q E s \<longleftrightarrow> Q x s" "run P (pthrow e) Q1 E s \<longleftrightarrow> E e s" "run P (pget f) Q2 E s \<longleftrightarrow> Q2 (f s) s"
  "run P (plift r) Q3 E s \<longleftrightarrow> (case r of Inl e \<Rightarrow> E e s | Inr x \<Rightarrow> Q3 x s)" "run P (pguard e b) Q4 E s \<longleftrightarrow> (if b then Q4 () s else E e s)"
  by (auto simp: run_def wp_simps split: sum.splits)

lemma run_pmod: "fx_log (f s) = fx_log s \<Longrightarrow> Q () (f s) \<Longrightarrow> run P (pmod f) Q E s"
  by (simp add: run_def wp_simps)

lemma run_mono: "run P m Q E s \<Longrightarrow> (\<And>x t. set (fx_log s) \<subseteq> set (fx_log t) \<Longrightarrow> Q x t \<Longrightarrow> Q' x t) \<Longrightarrow> (\<And>e t. set (fx_log s) \<subseteq> set (fx_log t) \<Longrightarrow> E e t \<Longrightarrow> E' e t) \<Longrightarrow> run P m Q' E' s"
  unfolding run_def by (erule wp_mono) auto

lemma run_pbind:
  assumes m: "run P m Q0 E s" and f: "\<And>x t. set (fx_log s) \<subseteq> set (fx_log t) \<Longrightarrow> Q0 x t \<Longrightarrow> run P (f x) Q E t"
  shows "run P (pbind m f) Q E s"
  unfolding run_def
proof (rule wp_pbindI [OF m [unfolded run_def]])
  fix x t assume a: "\<exists>h. fx_log t = fx_log s @ h \<and> obeys P (fx_log s) h \<and> Q0 x t"
  then have "run P (f x) Q E t"
    by (intro f) auto
  then show "wp (f x) (\<lambda>x t. \<exists>h. fx_log t = fx_log s @ h \<and> obeys P (fx_log s) h \<and> Q x t)
     (\<lambda>e t. \<exists>h. fx_log t = fx_log s @ h \<and> obeys P (fx_log s) h \<and> E e t) t"
    unfolding run_def by (rule wp_mono) (use a in auto)
qed

lemma run_plift_bind: "(\<And>x. r = Inr x \<Longrightarrow> run P (f x) Q E s) \<Longrightarrow> (\<And>e. r = Inl e \<Longrightarrow> E e s) \<Longrightarrow> run P (pbind (plift r) f) Q E s"
  by (simp add: run_def wp_simps split: sum.splits)

lemma run_pget_bind: "run P (pbind (pget g) f) Q E s \<longleftrightarrow> run P (f (g s)) Q E s"
  by (simp add: run_def wp_simps)

lemma run_pguard_bind: "(b \<Longrightarrow> run P (f ()) Q E s) \<Longrightarrow> (\<not> b \<Longrightarrow> E e s) \<Longrightarrow> run P (pbind (pguard e b) f) Q E s"
  by (simp add: run_def wp_simps)

lemma run_pcatch:
  assumes m: "run P m Q E0 s" and f: "\<And>e t. set (fx_log s) \<subseteq> set (fx_log t) \<Longrightarrow> E0 e t \<Longrightarrow> run P (f e) Q E t"
  shows "run P (pcatch m f) Q E s"
  unfolding run_def wp_pcatch
proof (rule wp_mono [OF m [unfolded run_def]])
  fix e t assume a: "\<exists>h. fx_log t = fx_log s @ h \<and> obeys P (fx_log s) h \<and> E0 e t"
  then have "run P (f e) Q E t"
    by (intro f) auto
  then show "wp (f e) (\<lambda>x t. \<exists>h. fx_log t = fx_log s @ h \<and> obeys P (fx_log s) h \<and> Q x t)
     (\<lambda>e t. \<exists>h. fx_log t = fx_log s @ h \<and> obeys P (fx_log s) h \<and> E e t) t"
    unfolding run_def by (rule wp_mono) (use a in auto)
qed

lemma run_call:
  assumes "P (fx_log s) (Call f as)"
  shows "run P (call env f as) (\<lambda>x t. (Call f as, Inr x) \<in> set (fx_log t)) (\<lambda>e t. (Call f as, Inl e) \<in> set (fx_log t)) s"
  using assms by (simp add: run_def wp_simps Let_def split: sum.splits)

lemma any_run: "run P m Q E s \<Longrightarrow> run P m (\<lambda>_ _. True) (\<lambda>_ _. True) s"
  by (erule run_mono) auto

lemma run_obeys: "run P m Q E s \<Longrightarrow> \<exists>h. fx_log (snd (m s)) = fx_log s @ h \<and> obeys P (fx_log s) h"
  unfolding run_def wp_def by (auto split: prod.splits sum.splits)

end
