(* ===== verification/ShellMessages.thy ===== *)
theory ShellMessages
  imports JsVal
begin

text \<open>
  The user-facing texts of \<open>src/apps/os-shell-control/commands.js\<close>.  They are Korean; a text is given by its UTF-8 bytes, in the order the file has them.
\<close>

definition utf8 :: "nat list \<Rightarrow> string" where
  "utf8 bs = map char_of bs"

definition msg_fields :: string where
  "msg_fields = utf8 [237, 151, 136, 236, 154, 169, 235, 144, 156, 32, 235, 170, 133, 235, 160, 185, 32, 237, 149, 132, 235, 147, 156, 235, 167, 140, 32, 236, 130, 172, 236, 154,
     169, 237, 149, 160, 32, 236, 136, 152, 32, 236, 158, 136, 236, 138, 181, 235, 139, 136, 235, 139, 164, 46]"

definition msg_not_found :: string where
  "msg_not_found = utf8 [235, 147, 177, 235, 161, 157, 235, 144, 152, 236, 167, 128, 32, 236, 149, 138, 236, 157, 128, 32, 79, 83, 32, 83, 104, 101, 108, 108, 32, 235, 170, 133,
     235, 160, 185, 236, 158, 133, 235, 139, 136, 235, 139, 164, 46]"

definition msg_request_id :: string where
  "msg_request_id = utf8 [235, 170, 133, 235, 160, 185, 32, 114, 101, 113, 117, 101, 115, 116, 73, 100, 235, 138, 148, 32, 85, 85, 73, 68, 236, 151, 172, 236, 149, 188, 32, 237,
     149, 169, 235, 139, 136, 235, 139, 164, 46]"

definition msg_native_revision :: string where
  "msg_native_revision = utf8 [236, 132, 164, 236, 185, 152, 32, 235, 170, 133, 235, 160, 185, 236, 157, 128, 32, 97, 114, 103, 117, 109, 101, 110, 116, 115, 236, 157, 152, 32, 99, 97,
     116, 97, 108, 111, 103, 82, 101, 118, 105, 115, 105, 111, 110, 236, 157, 132, 32, 236, 130, 172, 236, 154, 169, 237, 149, 169, 235, 139, 136, 235, 139, 164,
     46]"

definition msg_reason :: string where
  "msg_reason = utf8 [235, 179, 128, 234, 178, 189, 32, 236, 130, 172, 236, 156, 160, 235, 165, 188, 32, 56, 126, 53, 48, 48, 236, 158, 144, 235, 161, 156, 32, 236, 158, 133,
     235, 160, 165, 237, 149, 152, 236, 132, 184, 236, 154, 148, 46]"

definition msg_review_revision :: string where
  "msg_review_revision = utf8 [234, 178, 128, 237, 134, 160, 32, 114, 101, 118, 105, 115, 105, 111, 110, 32, 237, 152, 149, 236, 139, 157, 236, 157, 180, 32, 236, 152, 172, 235, 176, 148,
     235, 165, 180, 236, 167, 128, 32, 236, 149, 138, 236, 138, 181, 235, 139, 136, 235, 139, 164, 46]"

definition msg_owner_unavailable :: string where
  "msg_owner_unavailable = utf8 [79, 83, 32, 83, 104, 101, 108, 108, 236, 157, 180, 32, 235, 170, 133, 235, 160, 185, 32, 236, 139, 164, 237, 150, 137, 32, 234, 178, 176, 234, 179, 188,
     235, 165, 188, 32, 237, 153, 149, 236, 157, 184, 237, 149, 152, 236, 167, 128, 32, 235, 170, 187, 237, 150, 136, 236, 138, 181, 235, 139, 136, 235, 139, 164,
     46, 32, 236, 131, 129, 237, 131, 156, 235, 165, 188, 32, 236, 161, 176, 237, 154, 140, 237, 149, 156, 32, 237, 155, 132, 32, 236, 158, 172, 236, 139, 156,
     235, 143, 132, 237, 149, 152, 236, 132, 184, 236, 154, 148, 46]"

definition msg_owner_contract :: string where
  "msg_owner_contract = utf8 [235, 170, 133, 235, 160, 185, 32, 236, 134, 140, 236, 156, 160, 236, 158, 144, 236, 157, 152, 32, 236, 157, 145, 235, 139, 181, 236, 157, 180, 32, 236, 152,
     172, 235, 176, 148, 235, 165, 184, 32, 236, 160, 156, 237, 149, 156, 32, 235, 130, 180, 32, 74, 83, 79, 78, 32, 234, 176, 157, 236, 178, 180, 234, 176,
     128, 32, 236, 149, 132, 235, 139, 153, 235, 139, 136, 235, 139, 164, 46]"

definition msg_owner_rejected :: string where
  "msg_owner_rejected = utf8 [235, 170, 133, 235, 160, 185, 32, 236, 134, 140, 236, 156, 160, 236, 158, 144, 234, 176, 128, 32, 236, 154, 148, 236, 178, 173, 236, 157, 132, 32, 234, 177,
     176, 235, 182, 128, 237, 150, 136, 236, 138, 181, 235, 139, 136, 235, 139, 164, 46]"

definition msg_browser_credential :: string where
  "msg_browser_credential = utf8 [235, 184, 140, 235, 157, 188, 236, 154, 176, 236, 160, 128, 32, 236, 158, 144, 234, 178, 169, 32, 236, 166, 157, 235, 170, 133, 236, 157, 128, 32, 67, 111,
     110, 115, 111, 108, 101, 32, 236, 157, 184, 236, 166, 157, 32, 234, 178, 189, 234, 179, 132, 235, 165, 188, 32, 237, 134, 181, 237, 149, 180, 236, 149, 188,
     32, 237, 149, 169, 235, 139, 136, 235, 139, 164, 46]"

definition msg_authentication :: string where
  "msg_authentication = utf8 [237, 152, 132, 236, 158, 172, 32, 236, 130, 172, 236, 154, 169, 236, 158, 144, 32, 236, 158, 144, 234, 178, 169, 32, 236, 166, 157, 235, 170, 133, 236, 157,
     180, 32, 237, 149, 132, 236, 154, 148, 237, 149, 169, 235, 139, 136, 235, 139, 164, 46]"

definition msg_authority :: string where
  "msg_authority = utf8 [237, 152, 132, 236, 158, 172, 32, 236, 130, 172, 236, 154, 169, 236, 158, 144, 32, 234, 182, 140, 237, 149, 156, 236, 157, 132, 32, 234, 178, 128, 236, 166,
     157, 237, 149, 160, 32, 236, 136, 152, 32, 236, 151, 134, 236, 138, 181, 235, 139, 136, 235, 139, 164, 46]"

definition msg_permission :: string where
  "msg_permission = utf8 [237, 152, 132, 236, 158, 172, 32, 236, 130, 172, 236, 154, 169, 236, 158, 144, 236, 151, 144, 234, 178, 140, 32, 237, 149, 180, 235, 139, 185, 32, 234, 180,
     128, 235, 166, 172, 32, 234, 182, 140, 237, 149, 156, 236, 157, 180, 32, 236, 151, 134, 236, 138, 181, 235, 139, 136, 235, 139, 164, 46]"

definition msg_mfa :: string where
  "msg_mfa = utf8 [77, 70, 65, 32, 236, 158, 172, 236, 157, 184, 236, 166, 157, 236, 157, 180, 32, 237, 149, 132, 236, 154, 148, 237, 149, 169, 235, 139, 136, 235, 139, 164,
     46]"

definition msg_duplicate :: string where
  "msg_duplicate = utf8 [236, 164, 145, 235, 179, 181, 235, 144, 156, 32, 235, 170, 133, 235, 160, 185, 32, 234, 179, 132, 236, 149, 189, 236, 158, 133, 235, 139, 136, 235, 139, 164,
     46]"

definition msg_install_permission :: string where
  "msg_install_permission = utf8 [237, 152, 132, 236, 158, 172, 32, 236, 130, 172, 236, 154, 169, 236, 158, 144, 236, 151, 144, 234, 178, 140, 32, 235, 170, 168, 235, 147, 136, 32, 236, 132,
     164, 236, 185, 152, 32, 234, 182, 140, 237, 149, 156, 236, 157, 180, 32, 236, 151, 134, 236, 138, 181, 235, 139, 136, 235, 139, 164, 46]"

definition msg_ledger_missing :: string where
  "msg_ledger_missing = utf8 [79, 83, 32, 83, 104, 101, 108, 108, 32, 236, 139, 164, 237, 150, 137, 32, 234, 184, 176, 235, 161, 157, 32, 236, 160, 128, 236, 158, 165, 236, 134, 140,
     235, 165, 188, 32, 236, 130, 172, 236, 154, 169, 237, 149, 160, 32, 236, 136, 152, 32, 236, 151, 134, 236, 138, 181, 235, 139, 136, 235, 139, 164, 46]"

definition msg_ledger_failed :: string where
  "msg_ledger_failed = utf8 [236, 139, 164, 237, 150, 137, 32, 234, 184, 176, 235, 161, 157, 236, 157, 132, 32, 237, 153, 149, 235, 179, 180, 237, 149, 152, 236, 167, 128, 32, 235, 170,
     187, 237, 149, 180, 32, 235, 179, 128, 234, 178, 189, 236, 157, 132, 32, 236, 164, 145, 235, 139, 168, 237, 150, 136, 236, 138, 181, 235, 139, 136, 235, 139,
     164, 46]"

definition msg_conflict :: string where
  "msg_conflict = utf8 [234, 176, 153, 236, 157, 128, 32, 114, 101, 113, 117, 101, 115, 116, 73, 100, 235, 161, 156, 32, 235, 139, 164, 235, 165, 184, 32, 235, 170, 133, 235, 160,
     185, 32, 235, 152, 144, 235, 138, 148, 32, 236, 158, 133, 235, 160, 165, 236, 157, 132, 32, 236, 139, 164, 237, 150, 137, 237, 149, 160, 32, 236, 136, 152,
     32, 236, 151, 134, 236, 138, 181, 235, 139, 136, 235, 139, 164, 46]"

definition msg_pending :: string where
  "msg_pending = utf8 [236, 157, 180, 235, 175, 184, 32, 236, 160, 145, 236, 136, 152, 235, 144, 156, 32, 236, 154, 148, 236, 178, 173, 236, 157, 152, 32, 234, 178, 176, 234, 179,
     188, 234, 176, 128, 32, 236, 149, 132, 236, 167, 129, 32, 237, 153, 149, 236, 157, 184, 235, 144, 152, 236, 167, 128, 32, 236, 149, 138, 236, 149, 152, 236,
     138, 181, 235, 139, 136, 235, 139, 164, 46, 32, 236, 131, 129, 237, 131, 156, 235, 165, 188, 32, 236, 161, 176, 237, 154, 140, 237, 149, 152, 236, 132, 184,
     236, 154, 148, 46, 32, 236, 158, 144, 235, 143, 153, 32, 236, 158, 172, 236, 139, 164, 237, 150, 137, 237, 149, 152, 236, 167, 128, 32, 236, 149, 138, 236,
     138, 181, 235, 139, 136, 235, 139, 164, 46]"

definition msg_unbound :: string where
  "msg_unbound = utf8 [235, 170, 133, 235, 160, 185, 32, 236, 134, 140, 236, 156, 160, 236, 158, 144, 236, 157, 152, 32, 236, 157, 145, 235, 139, 181, 236, 157, 180, 32, 237, 152,
     132, 236, 158, 172, 32, 236, 154, 148, 236, 178, 173, 236, 151, 144, 32, 234, 178, 176, 236, 134, 141, 235, 144, 152, 236, 167, 128, 32, 236, 149, 138, 236,
     149, 152, 236, 138, 181, 235, 139, 136, 235, 139, 164, 46]"

definition msg_record_failed :: string where
  "msg_record_failed = utf8 [236, 139, 164, 237, 150, 137, 32, 234, 178, 176, 234, 179, 188, 32, 236, 160, 128, 236, 158, 165, 236, 157, 132, 32, 237, 153, 149, 236, 157, 184, 237, 149,
     152, 236, 167, 128, 32, 235, 170, 187, 237, 150, 136, 236, 138, 181, 235, 139, 136, 235, 139, 164, 46, 32, 234, 176, 153, 236, 157, 128, 32, 236, 154, 148,
     236, 178, 173, 236, 157, 132, 32, 236, 158, 144, 235, 143, 153, 32, 236, 158, 172, 236, 139, 164, 237, 150, 137, 237, 149, 152, 236, 167, 128, 32, 235, 167,
     144, 234, 179, 160, 32, 236, 131, 129, 237, 131, 156, 235, 165, 188, 32, 236, 161, 176, 237, 154, 140, 237, 149, 152, 236, 132, 184, 236, 154, 148, 46]"

end
