(* ===== verification/ShellCommands.thy ===== *)
theory ShellCommands
  imports ShellProviders ShellMessages CanonicalText
begin

text \<open>
  The command service of the OS Shell, \<open>src/apps/os-shell-control/commands.js\<close>, with the native commands of \<open>console-commands.js\<close> and the ledger
  calls of \<open>command-ledger.js\<close>.

  The record \<open>shell\<close> holds what \<open>createCommandService\<close> is given.  \<open>fetch\<close>, reading a response, reading the installation profile and the two ledger
  functions of the database are calls on the environment, so every sequence of answers, failures and replays is covered.  The clock is a
  function of the calls made so far; \<open>JSON.parse\<close>, \<open>Date.parse\<close>, \<open>new URL\<close> and SHA-256 are fields of the record.  The text of an error that the engine
  itself throws is not modelled.
\<close>

record shell =
  sh_env :: environment
  sh_identity :: string
  sh_ledger :: bool
  sh_registry :: "registry option"
  sh_now :: "history \<Rightarrow> jnum"
  sh_date :: "string \<Rightarrow> jnum"
  sh_parse :: "string \<Rightarrow> jsval option"
  sh_url :: "string \<Rightarrow> link option"
  sh_hash :: "string \<Rightarrow> string"

definition shell_error :: "jsval \<Rightarrow> string \<Rightarrow> string \<Rightarrow> string \<Rightarrow> jsval" where
  "shell_error status code message sideEffect = js_error message [(''status'', status), (''code'', JStr code), (''sideEffect'', JStr sideEffect)]"

definition effect_of :: "bool \<Rightarrow> string" where
  "effect_of unknown = (if unknown then ''unknown'' else ''none'')"

section \<open>Native commands\<close>

definition text_schema :: "int \<Rightarrow> (string \<times> jsval) list \<Rightarrow> jsval" where
  "text_schema maxLength extra = JObj ([(''type'', JStr ''string''), (''maxLength'', JInt maxLength)] @ extra)"

definition object_schema :: "(string \<times> jsval) list \<Rightarrow> jsval" where
  "object_schema properties = JObj [(''type'', JStr ''object''), (''properties'', JObj properties),
     (''required'', JArr (map (JStr \<circ> fst) properties)), (''additionalProperties'', JBool False)]"

definition native_def :: "string \<Rightarrow> string \<Rightarrow> bool \<Rightarrow> (string \<times> jsval) list \<Rightarrow> jsval \<Rightarrow> command_def" where
  "native_def i description is_read properties status = \<lparr>cd_id = i, cd_owner = JStr ''console'', cd_description = description, cd_read = is_read,
     cd_names = map fst properties, cd_schema = object_schema properties, cd_status = status, cd_native = True, cd_provider = False,
     cd_origin = [], cd_contract = None, cd_permission = Some ''console.extension.install''\<rparr>"

definition descriptor_fields :: "(string \<times> jsval) list" where
  "descriptor_fields = [(''descriptorId'', text_schema 128 [(''minLength'', JInt 1)]), (''catalogRevision'', text_schema 71 [(''format'', JStr ''sha256'')])]"

definition native_commands :: "command_def list" where
  "native_commands = [
     native_def ''console.modules.catalog'' ''Read the verified official module catalog and current registrations.'' True [] JUndef,
     native_def ''console.modules.inspect'' ''Inspect an exact catalog module and revision before installation. No cluster change.'' True descriptor_fields JUndef,
     native_def ''console.modules.install'' ''Install the reviewed official module through the Extension Controller. Accepted is not complete; query its operation ID.''
       False (descriptor_fields @ [(''reason'', text_schema 500 [(''minLength'', JInt 8)])]) (JStr ''console.modules.operation''),
     native_def ''console.modules.operation'' ''Read an existing installation operation. Verified proves package installation, not all product functions.''
       True [(''operationId'', text_schema 36 [(''format'', JStr ''uuid'')])] JUndef]"

definition native_lookup :: "string \<Rightarrow> command_def option" where
  \<comment> \<open>\<open>Object.hasOwn(definitions, id) ? definitions[id] : undefined\<close>\<close>
  "native_lookup i = find (\<lambda>d. cd_id d = i) native_commands"

record command_target =
  ct_method :: string
  ct_path :: string
  ct_body :: jsval
  ct_key :: "string option"

definition nativeTarget :: "(string \<Rightarrow> string) \<Rightarrow> jsval \<Rightarrow> jsval \<Rightarrow> jsval \<Rightarrow> jsval \<Rightarrow> jsval + command_target" where
  "nativeTarget hash command args actor requestId =
     (if command = JStr ''console.modules.catalog''
      then Inr \<lparr>ct_method = ''GET'', ct_path = ''/api/admin/extensions/catalog'', ct_body = JUndef, ct_key = None\<rparr>
      else if command = JStr ''console.modules.inspect''
      then Inr \<lparr>ct_method = ''POST'', ct_path = ''/api/admin/extensions/inspect'', ct_body = args, ct_key = None\<rparr>
      else if command = JStr ''console.modules.install''
      then Inr \<lparr>ct_method = ''POST'', ct_path = ''/api/admin/extensions/install'', ct_body = args,
             ct_key = Some (''os-shell-install-'' @ hash (json_text (JArr [fld actor ''subjectId'', requestId, command])))\<rparr>
      else if command = JStr ''console.modules.operation''
      then Inr \<lparr>ct_method = ''GET'', ct_path = ''/api/platform/operations/'' @ to_str (fld args ''operationId''), ct_body = JUndef, ct_key = None\<rparr>
      else Inl (js_error ''Native command not found'' [(''status'', JInt 404), (''code'', JStr ''CommandNotFound'')]))"

section \<open>Validation\<close>

definition exact_fields :: "jsval \<Rightarrow> string list \<Rightarrow> jsval + unit" where
  "exact_fields v names = guard_else (shell_error (JInt 400) ''ValidationFailed'' msg_fields ''none'') (is_plain_object v \<and> only_keys v names)"

definition service_origin :: "shell \<Rightarrow> string \<Rightarrow> jsval + string" where
  "service_origin sh v = (case sh_url sh v of
       None \<Rightarrow> Inl type_error
     | Some u \<Rightarrow> if bare_origin u then Inr (lk_origin u) else Inl (js_error ''Command owner must be a configured HTTP(S) origin'' []))"

definition valid_reason :: "jsval \<Rightarrow> bool" where
  "valid_reason v \<longleftrightarrow> (case v of JStr s \<Rightarrow> 8 \<le> length (trim s) \<and> length s \<le> 500 | _ \<Rightarrow> False)"

definition validateCommand :: "jsval \<Rightarrow> command_def option \<Rightarrow> jsval + command_def" where
  "validateCommand body provider =
     rbind (exact_fields body [''command'', ''arguments'', ''requestId'', ''reviewRevision'']) (\<lambda>_.
     case (case native_lookup (to_str (fld body ''command'')) of Some d \<Rightarrow> Some d | None \<Rightarrow> provider) of
       None \<Rightarrow> Inl (shell_error (JInt 404) ''CommandNotFound'' msg_not_found ''none'')
     | Some d \<Rightarrow>
         let arguments = fld body ''arguments''; review = fld body ''reviewRevision'' in
         rbind (guard_else (shell_error (JInt 400) ''ValidationFailed'' msg_request_id ''none'') (is_uuid (str_or_empty (fld body ''requestId'')))) (\<lambda>_.
         rbind (exact_fields arguments (cd_names d)) (\<lambda>_.
         rbind (validateValue (cd_schema d) arguments ''arguments'') (\<lambda>_.
         rbind (guard_else (shell_error (JInt 400) ''ValidationFailed'' msg_native_revision ''none'') (\<not> (cd_native d \<and> review \<noteq> JUndef))) (\<lambda>_.
         rbind (guard_else (shell_error (JInt 400) ''ValidationFailed'' msg_reason ''none'') (cd_read d \<or> valid_reason (fld arguments ''reason''))) (\<lambda>_.
         rbind (guard_else (shell_error (JInt 400) ''ValidationFailed'' msg_review_revision ''none'') (review = JUndef \<or> is_sha256_ref (to_str review))) (\<lambda>_.
         Inr d)))))))"

section \<open>Requests to the identity service and to owners\<close>

definition response_limit :: nat where
  "response_limit = 4 * 1024 * 1024"

definition read_object :: "shell \<Rightarrow> jsval \<Rightarrow> bool \<Rightarrow> ('x, jsval) fxprog" where
  "read_object sh response mutation =
     pcatch
       (pbind (call (sh_env sh) ''response.read'' [response]) (\<lambda>chunks.
        case bounded_concat response_limit 0 (chunk_texts chunks) of
          None \<Rightarrow> pthrow (js_error ''response bound'' [])
        | Some t \<Rightarrow> (case sh_parse sh t of
              None \<Rightarrow> pthrow syntax_error
            | Some v \<Rightarrow> if is_plain_object v then pret v else pthrow (js_error ''object required'' []))))
       (\<lambda>_. pthrow (shell_error (JInt 502) ''OwnerContractInvalid'' msg_owner_contract (effect_of mutation)))"

definition request_options :: "string \<Rightarrow> string \<Rightarrow> jsval \<Rightarrow> jsval \<Rightarrow> (string \<times> jsval) list \<Rightarrow> jsval" where
  "request_options token verb body requestId extra = JObj ([
     (''method'', JStr verb), (''redirect'', JStr ''error''),
     (''headers'', JObj ([(''authorization'', JStr (''Bearer '' @ token)), (''accept'', JStr ''application/json''), (''content-type'', JStr ''application/json''),
         (''x-os-owner-admission'', JStr ''os-shell-control-v1'')]
        @ (if truthy requestId then [(''x-os-command-request-id'', requestId), (''x-os-correlation-id'', requestId)] else []) @ extra))]
     @ (if truthy body then [(''body'', JStr (json_text body))] else []))"

definition rejection :: "jsval \<Rightarrow> jsval \<Rightarrow> bool \<Rightarrow> jsval" where
  "rejection response data mutation =
     shell_error (fld response ''status'') (if fld response ''status'' = JInt 409 then ''StateConflict'' else ''OwnerRejected'')
       (take 1000 (to_str (js_or (js_or (fld data ''message'') (fld data ''error'')) (JStr msg_owner_rejected))))
       (effect_of (mutation \<and> num_le (Fin 500) (to_num (fld response ''status''))))"

definition request :: "shell \<Rightarrow> string \<Rightarrow> string \<Rightarrow> string \<Rightarrow> jsval \<Rightarrow> bool \<Rightarrow> jsval \<Rightarrow> (string \<times> jsval) list \<Rightarrow> ('x, jsval \<times> jsval) fxprog" where
  "request sh url token verb body mutation requestId extra =
     pbind (pcatch (call (sh_env sh) ''fetch'' [JStr url, request_options token verb body requestId extra])
        (\<lambda>_. pthrow (shell_error (JInt 503) ''OwnerUnavailable'' msg_owner_unavailable (effect_of mutation)))) (\<lambda>response.
     pbind (read_object sh response mutation) (\<lambda>data.
     if truthy (fld response ''ok'') then pret (fld response ''status'', data) else pthrow (rejection response data mutation)))"

section \<open>The caller\<close>

definition bearer_token :: "jsval \<Rightarrow> string option" where
  \<comment> \<open>\<open>/^Bearer ([A-Za-z0-9_.-]{32,16384})$/\<close>\<close>
  "bearer_token headers = (let text = str_or_empty (fld headers ''authorization''); token = drop 7 text in
     if starts_with ''Bearer '' text \<and> 32 \<le> length token \<and> int (length token) \<le> 16384
        \<and> list_all (\<lambda>c. alpha_char c \<or> digit_char c \<or> c \<in> set ''_.-'') token
     then Some token else None)"

definition identity_url :: "shell \<Rightarrow> string" where
  "identity_url sh = sh_identity sh @ ''/api/identity/me''"

definition recent :: "jnum \<Rightarrow> jnum \<Rightarrow> bool" where
  \<comment> \<open>\<open>Number.isFinite(at) && !(now - at > 60000) && !(at > now + 30000)\<close>\<close>
  "recent now observed \<longleftrightarrow> num_is_finite observed \<and> \<not> num_less (Fin 60000) (num_sub now observed) \<and> \<not> num_less (num_add now (Fin 30000)) observed"

definition current_projection :: "shell \<Rightarrow> jnum \<Rightarrow> jsval \<Rightarrow> bool" where
  "current_projection sh now b \<longleftrightarrow> (let a = fld b ''data'' in
     fld b ''schemaVersion'' = JStr ''1.0'' \<and> fld b ''authority'' = JStr ''SupabaseAuth'' \<and> fld b ''freshness'' = JStr ''fresh''
     \<and> recent now (sh_date sh (to_str (fld b ''observedAt''))) \<and> fld a ''state'' = JStr ''Active''
     \<and> is_uuid (str_or_empty (fld a ''subjectId'')) \<and> is_uuid (str_or_empty (fld a ''sessionId''))
     \<and> is_array (fld a ''permissions'') \<and> fld a ''aal'' \<in> {JStr ''aal1'', JStr ''aal2''})"

definition actor :: "shell \<Rightarrow> jsval \<Rightarrow> ('x, string \<times> jsval) fxprog" where
  "actor sh req = (let headers = fld req ''headers'' in
     if truthy (fld headers ''cookie'') \<or> truthy (fld headers ''x-os-csrf-token'')
     then pthrow (shell_error (JInt 403) ''CredentialBoundaryRejected'' msg_browser_credential ''none'')
     else case bearer_token headers of
       None \<Rightarrow> pthrow (shell_error (JInt 401) ''AuthenticationRequired'' msg_authentication ''none'')
     | Some token \<Rightarrow>
         pbind (request sh (identity_url sh) token ''GET'' JUndef False JUndef []) (\<lambda>(status, b).
         pbind (pget (sh_now sh \<circ> fx_log)) (\<lambda>now.
         if current_projection sh now b then pret (token, fld b ''data'')
         else pthrow (shell_error (JInt 503) ''AuthorityUnavailable'' msg_authority ''none''))))"

definition has_permission :: "jsval \<Rightarrow> string \<Rightarrow> bool" where
  "has_permission a p \<longleftrightarrow> set_has (elems (fld a ''permissions'')) (JStr p)"

definition edge_profile :: "shell \<Rightarrow> jsval \<Rightarrow> bool option" where
  "edge_profile sh p = (if nullish p then None else case sh_url sh (to_str (fld p ''consoleUrl'')) of
       None \<Rightarrow> None
     | Some u \<Rightarrow> Some (fld p ''channel'' = JStr ''edge'' \<and> lk_protocol u = ''https:'' \<and> lk_hostname u \<in> set [''localhost'', ''127.0.0.1'', ''[::1]'']
         \<and> lk_username u = [] \<and> lk_password u = [] \<and> lk_search u = [] \<and> lk_hash u = [] \<and> lk_pathname u = ''/''))"

definition localEdge :: "shell \<Rightarrow> ('x, bool) fxprog" where
  "localEdge sh = pcatch
     (pbind (call (sh_env sh) ''readFileSync'' [JStr ''/var/run/opensphere/installation/config.json'']) (\<lambda>t.
      case Option.bind (sh_parse sh (to_str t)) (edge_profile sh) of None \<Rightarrow> pthrow type_error | Some b \<Rightarrow> pret b))
     (\<lambda>_. pret False)"

definition authorize :: "shell \<Rightarrow> jsval \<Rightarrow> bool \<Rightarrow> ('x, unit) fxprog" where
  "authorize sh a write =
     (if \<not> list_ex (has_permission a) (if write then [''console.role.admin''] else [''console.role.admin'', ''console.role.operator'', ''console.role.viewer''])
      then pthrow (shell_error (JInt 403) ''PermissionDenied'' msg_permission ''none'')
      else if \<not> write \<or> fld a ''aal'' = JStr ''aal2'' then pret ()
      else pbind (localEdge sh) (\<lambda>edge. pguard (shell_error (JInt 428) ''MfaRequired'' msg_mfa ''none'') edge))"

section \<open>Catalog\<close>

definition loadProviders :: "shell \<Rightarrow> ('x, command_def list) fxprog" where
  "loadProviders sh = (case sh_registry sh of None \<Rightarrow> pret [] | Some rg \<Rightarrow> load_providers rg)"

definition duplicate_error :: jsval where
  "duplicate_error = shell_error (JInt 503) ''CommandProviderUnavailable'' msg_duplicate ''none''"

definition catalog_entry :: "jsval \<Rightarrow> command_def \<Rightarrow> jsval" where
  "catalog_entry a d = JObj ([(''id'', JStr (cd_id d)), (''owner'', cd_owner d), (''description'', JStr (cd_description d)), (''mutation'', JBool (\<not> cd_read d)),
       (''arguments'', JArr (map JStr (cd_names d))), (''argumentSchema'', cd_schema d)]
     @ (case cd_contract d of None \<Rightarrow> [] | Some c \<Rightarrow> [(''contractSha256'', JStr c)])
     @ (if truthy (cd_status d) then [(''statusCommand'', cd_status d)] else [])
     @ [(''allowed'', JBool ((cd_read d \<or> has_permission a ''console.role.admin'') \<and> (case cd_permission d of None \<Rightarrow> True | Some p \<Rightarrow> has_permission a p)))])"

definition catalog :: "shell \<Rightarrow> jsval \<Rightarrow> ('x, jsval) fxprog" where
  "catalog sh req =
     pbind (actor sh req) (\<lambda>(token, a).
     pbind (authorize sh a False) (\<lambda>_.
     pbind (loadProviders sh) (\<lambda>ps.
     let all = native_commands @ ps in
     pbind (pguard duplicate_error (distinct (map cd_id all))) (\<lambda>_.
     pbind (pget (sh_now sh \<circ> fx_log)) (\<lambda>now.
     pbind (plift (to_iso_string now)) (\<lambda>at_time.
     pret (JObj [(''schema'', JStr ''opensphere.shell-command-catalog/v1''), (''controlPlane'', JStr ''OS-Shell''), (''observedAt'', JStr at_time),
       (''commands'', JArr (map (catalog_entry a) all))])))))))"

section \<open>Execution\<close>

definition resolveCommand :: "shell \<Rightarrow> jsval \<Rightarrow> ('x, command_def option) fxprog" where
  "resolveCommand sh body = (let key = str_or_empty (fld body ''command'') in
     if native_lookup key \<noteq> None then pret None
     else if \<not> is_command_id key then pthrow (shell_error (JInt 404) ''CommandNotFound'' msg_not_found ''none'')
     else pbind (loadProviders sh) (\<lambda>ps.
       if \<not> distinct (map cd_id ps) then pthrow duplicate_error
       else pret (find (\<lambda>d. fld body ''command'' = JStr (cd_id d)) ps)))"

definition lookup_command :: "shell \<Rightarrow> jsval \<Rightarrow> ('x, command_def) fxprog" where
  "lookup_command sh body = pbind (resolveCommand sh body) (\<lambda>provider. plift (validateCommand body provider))"

definition command_digest :: "shell \<Rightarrow> jsval \<Rightarrow> command_def \<Rightarrow> string" where
  "command_digest sh body d = digest_ref (sh_hash sh (json_text (sorted_value (JObj (
     [(''command'', fld body ''command''), (''arguments'', fld body ''arguments'')]
     @ (if cd_provider d then [(''contractSha256'', case cd_contract d of None \<Rightarrow> JUndef | Some c \<Rightarrow> JStr c)] else [])
     @ (if truthy (fld body ''reviewRevision'') then [(''reviewRevision'', fld body ''reviewRevision'')] else []))))))"

definition bound_result :: "shell \<Rightarrow> jnum \<Rightarrow> jsval \<Rightarrow> command_def \<Rightarrow> jsval \<Rightarrow> bool" where
  "bound_result sh now body d data \<longleftrightarrow> only_keys data [''schema'', ''owner'', ''command'', ''requestId'', ''observedAt'', ''data'']
     \<and> fld data ''schema'' = JStr ''opensphere.owner-command-result/v1'' \<and> strict_eq (fld data ''owner'') (cd_owner d)
     \<and> strict_eq (fld data ''command'') (fld body ''command'') \<and> strict_eq (fld data ''requestId'') (fld body ''requestId'')
     \<and> recent now (sh_date sh (to_str (fld data ''observedAt''))) \<and> is_plain_object (fld data ''data'')"

definition success_outcome :: "jsval \<Rightarrow> command_def \<Rightarrow> jsval \<Rightarrow> string \<Rightarrow> jsval \<Rightarrow> jsval" where
  "success_outcome body d status at_time data = JObj [(''status'', status), (''body'', JObj [
     (''schema'', JStr ''opensphere.shell-command/v1''), (''controlPlane'', JStr ''OS-Shell''), (''command'', fld body ''command''),
     (''requestId'', fld body ''requestId''), (''owner'', cd_owner d),
     (''operationId'', js_or (js_or (fld data ''operationId'') (fld (fld data ''operation'') ''id'')) JNull),
     (''observedAt'', JStr at_time), (''data'', data)])]"

definition failure_outcome :: "jsval \<Rightarrow> jsval \<Rightarrow> jsval" where
  "failure_outcome body e = JObj [(''status'', js_or (fld e ''status'') (JInt 503)), (''body'', JObj [
     (''controlPlane'', JStr ''OS-Shell''), (''requestId'', fld body ''requestId''), (''code'', js_or (fld e ''code'') (JStr ''OwnerUnavailable'')),
     (''message'', fld e ''message''), (''sideEffect'', js_or (fld e ''sideEffect'') (JStr ''unknown''))])]"

definition owner_request :: "shell \<Rightarrow> string \<Rightarrow> jsval \<Rightarrow> jsval \<Rightarrow> command_def \<Rightarrow> ('x, jsval \<times> jsval) fxprog" where
  "owner_request sh token a body d =
     (if cd_native d
      then pbind (plift (nativeTarget (sh_hash sh) (fld body ''command'') (fld body ''arguments'') a (fld body ''requestId''))) (\<lambda>t.
        request sh (sh_identity sh @ ct_path t) token (ct_method t) (ct_body t) (\<not> cd_read d) (fld body ''requestId'')
          (case ct_key t of None \<Rightarrow> [] | Some k \<Rightarrow> [(''x-os-idempotency-key'', JStr k)]))
      else pbind (plift (service_origin sh (cd_origin d))) (\<lambda>base.
        request sh (base @ ''/api/commands'') token ''POST'' body (\<not> cd_read d) (fld body ''requestId'') []))"

definition send_command :: "shell \<Rightarrow> string \<Rightarrow> jsval \<Rightarrow> jsval \<Rightarrow> command_def \<Rightarrow> ('x, jsval) fxprog" where
  "send_command sh token a body d =
     pbind (owner_request sh token a body d) (\<lambda>(status, data).
     pbind (pget (sh_now sh \<circ> fx_log)) (\<lambda>now.
     pbind (pguard (shell_error (JInt 502) ''OwnerContractInvalid'' msg_unbound (effect_of (\<not> cd_read d)))
        (\<not> cd_provider d \<or> bound_result sh now body d data)) (\<lambda>_.
     pbind (plift (to_iso_string now)) (\<lambda>at_time.
     pret (success_outcome body d status at_time (if cd_provider d then fld data ''data'' else data))))))"

definition claim_answer :: "jsval \<Rightarrow> jsval + jsval" where
  \<comment> \<open>\<open>result.rows[0].result\<close>\<close>
  "claim_answer v = rbind (get_prop v ''rows'') (\<lambda>rows. if nullish rows then Inl type_error else get_prop (first_row rows) ''result'')"

definition claim_args :: "shell \<Rightarrow> jsval \<Rightarrow> jsval \<Rightarrow> command_def \<Rightarrow> jsval list" where
  "claim_args sh a body d = [fld a ''subjectId'', fld a ''sessionId'', fld body ''requestId'', fld body ''command'', JStr (command_digest sh body d), fld a ''aal'']"

definition finish_args :: "shell \<Rightarrow> jsval \<Rightarrow> jsval \<Rightarrow> command_def \<Rightarrow> jsval \<Rightarrow> jsval list" where
  "finish_args sh a body d outcome = [fld a ''subjectId'', fld body ''requestId'', JStr (command_digest sh body d), JStr (json_text outcome)]"

definition replayed :: "jsval \<Rightarrow> jsval" where
  "replayed result = JObj (spread (obj_entries result) [(''body'', JObj (spread (obj_entries (fld result ''body'')) [(''replayed'', JBool True)]))])"

definition record_unavailable :: jsval where
  "record_unavailable = shell_error (JInt 503) ''CommandRecordUnavailable'' msg_record_failed ''unknown''"

definition claimed_run :: "shell \<Rightarrow> string \<Rightarrow> jsval \<Rightarrow> jsval \<Rightarrow> command_def \<Rightarrow> ('x, jsval) fxprog" where
  \<comment> \<open>the part of \<open>execute\<close> behind a granted claim\<close>
  "claimed_run sh token a body d =
     pbind (pcatch (send_command sh token a body d) (\<lambda>e. pret (failure_outcome body e))) (\<lambda>outcome.
     pbind (pcatch (call (sh_env sh) ''console_shell.finish_command'' (finish_args sh a body d outcome)) (\<lambda>_. pthrow record_unavailable)) (\<lambda>_.
     pret outcome))"

definition run_mutation :: "shell \<Rightarrow> string \<Rightarrow> jsval \<Rightarrow> jsval \<Rightarrow> command_def \<Rightarrow> ('x, jsval) fxprog" where
  "run_mutation sh token a body d =
     pbind (pguard (shell_error (JInt 503) ''CommandLedgerUnavailable'' msg_ledger_missing ''none'') (sh_ledger sh)) (\<lambda>_.
     pbind (pcatch (pbind (call (sh_env sh) ''console_shell.claim_command'' (claim_args sh a body d)) (\<lambda>r. plift (claim_answer r)))
        (\<lambda>_. pthrow (shell_error (JInt 503) ''CommandLedgerUnavailable'' msg_ledger_failed ''none''))) (\<lambda>claim.
     pbind (plift (get_prop claim ''conflict'')) (\<lambda>conflict.
     if truthy conflict then pthrow (shell_error (JInt 409) ''IdempotencyConflict'' msg_conflict ''none'')
     else if truthy (fld claim ''claimed'') then claimed_run sh token a body d
     else if truthy (fld claim ''result'') then pret (replayed (fld claim ''result''))
     else pthrow (shell_error (JInt 409) ''CommandOutcomePending'' msg_pending ''unknown''))))"

definition execute :: "shell \<Rightarrow> jsval \<Rightarrow> jsval \<Rightarrow> ('x, jsval) fxprog" where
  "execute sh req body =
     pbind (lookup_command sh body) (\<lambda>d.
     pbind (actor sh req) (\<lambda>(token, a).
     pbind (authorize sh a (\<not> cd_read d)) (\<lambda>_.
     pbind (pguard (shell_error (JInt 403) ''PermissionDenied'' msg_install_permission ''none'')
        (case cd_permission d of None \<Rightarrow> True | Some p \<Rightarrow> has_permission a p)) (\<lambda>_.
     if cd_read d then send_command sh token a body d else run_mutation sh token a body d))))"

section \<open>What a program adds to the log\<close>

definition adds :: "(service_call \<times> answer \<Rightarrow> bool) \<Rightarrow> ('x, 'a) fxprog \<Rightarrow> bool" where
  "adds P m \<longleftrightarrow> (\<forall>s. \<exists>h. fx_log (snd (m s)) = fx_log s @ h \<and> list_all P h)"

named_theorems adds_intros \<open>which calls a program makes\<close>

lemma adds_nothing [adds_intros]: "adds P (pret x)" "adds P (pthrow e)" "adds P (pget f)" "adds P (plift r)" "adds P (pguard e b)"
  by (simp_all add: adds_def prog_defs pguard_def)

lemma adds_call [adds_intros]: "(\<And>r. P (Call n as, r)) \<Longrightarrow> adds P (call env n as)"
  by (simp add: adds_def call_def Let_def)

lemma adds_pbind [adds_intros]:
  assumes m: "adds P m" and f: "\<And>x. adds P (f x)"
  shows "adds P (pbind m f)"
  unfolding adds_def
proof
  fix s
  obtain h where h: "fx_log (snd (m s)) = fx_log s @ h" "list_all P h"
    using m by (auto simp: adds_def)
  show "\<exists>h. fx_log (snd (pbind m f s)) = fx_log s @ h \<and> list_all P h"
  proof (cases "m s")
    case (Pair r t)
    show ?thesis
    proof (cases r)
      case (Inr x)
      obtain h' where "fx_log (snd (f x t)) = fx_log t @ h'" "list_all P h'"
        using f by (auto simp: adds_def)
      then show ?thesis
        using h Pair Inr by (intro exI [of _ "h @ h'"]) (simp add: pbind_def)
    qed (use h Pair in \<open>auto simp: pbind_def\<close>)
  qed
qed

lemma adds_pcatch [adds_intros]:
  assumes m: "adds P m" and f: "\<And>e. adds P (f e)"
  shows "adds P (pcatch m f)"
  unfolding adds_def
proof
  fix s
  obtain h where h: "fx_log (snd (m s)) = fx_log s @ h" "list_all P h"
    using m by (auto simp: adds_def)
  show "\<exists>h. fx_log (snd (pcatch m f s)) = fx_log s @ h \<and> list_all P h"
  proof (cases "m s")
    case (Pair r t)
    show ?thesis
    proof (cases r)
      case (Inl e)
      obtain h' where "fx_log (snd (f e t)) = fx_log t @ h'" "list_all P h'"
        using f by (auto simp: adds_def)
      then show ?thesis
        using h Pair Inl by (intro exI [of _ "h @ h'"]) (simp add: pcatch_def)
    qed (use h Pair in \<open>auto simp: pcatch_def\<close>)
  qed
qed

lemma adds_if [adds_intros]: "(b \<Longrightarrow> adds P m) \<Longrightarrow> (\<not> b \<Longrightarrow> adds P n) \<Longrightarrow> adds P (if b then m else n)"
  by simp

lemma adds_case_prod [adds_intros]: "(\<And>x y. adds P (f x y)) \<Longrightarrow> adds P (case p of (x, y) \<Rightarrow> f x y)"
  by (cases p) simp

lemma adds_case_option [adds_intros]: "(v = None \<Longrightarrow> adds P m) \<Longrightarrow> (\<And>x. v = Some x \<Longrightarrow> adds P (f x)) \<Longrightarrow> adds P (case v of None \<Rightarrow> m | Some x \<Rightarrow> f x)"
  by (cases v) simp_all

lemma adds_log: "adds P m \<Longrightarrow> m s = (r, t) \<Longrightarrow> \<exists>h. fx_log t = fx_log s @ h \<and> list_all P h"
  unfolding adds_def by (metis snd_conv)

definition silent :: "shell \<Rightarrow> service_call \<times> answer \<Rightarrow> bool" where
  \<comment> \<open>neither a ledger call nor a request to anyone but the identity service\<close>
  "silent sh cr \<longleftrightarrow> cname (fst cr) \<notin> {''console_shell.claim_command'', ''console_shell.finish_command''}
     \<and> (cname (fst cr) = ''fetch'' \<longrightarrow> take 1 (cargs (fst cr)) = [JStr (identity_url sh)])"

lemma adds_fetch_bytes [adds_intros]: "adds (silent sh) (fetch_bytes rg url n)"
  unfolding fetch_bytes_def by (intro adds_intros) (simp_all add: silent_def)

lemma adds_load_plugin [adds_intros]: "adds (silent sh) (load_plugin rg snapshot p)"
  unfolding load_plugin_def Let_def by (intro adds_intros)

lemma adds_load_plugins [adds_intros]: "adds (silent sh) (load_plugins rg snapshot owners result ps)"
  by (induction ps arbitrary: owners result) (auto intro!: adds_intros)

lemma adds_load_providers [adds_intros]: "adds (silent sh) (load_providers rg)"
  unfolding load_providers_def Let_def by (intro adds_intros)

lemma adds_lookup_command: "adds (silent sh) (lookup_command sh body)"
  unfolding lookup_command_def resolveCommand_def loadProviders_def Let_def by (intro adds_intros)

lemma adds_actor: "adds (silent sh) (actor sh req)"
  unfolding actor_def request_def read_object_def Let_def by (intro adds_intros) (simp_all add: silent_def)

lemma adds_authorize: "adds (silent sh) (authorize sh a w)"
  unfolding authorize_def localEdge_def by (intro adds_intros) (simp_all add: silent_def)

section \<open>Where a command comes from\<close>

text \<open>The schemas of the native commands are admitted, as the check at load time requires.\<close>

lemma native_schemas_admitted: "d \<in> set native_commands \<Longrightarrow> admitted_at 0 (cd_schema d)"
proof -
  have "list_all (\<lambda>d. \<exists>n. validateSchema (cd_schema d) 0 0 = Inr n) native_commands"
    by (simp add: native_commands_def native_def_def object_schema_def descriptor_fields_def text_schema_def validateSchema.simps schema_eval
        is_int_rat_def safe_field_def alpha_char_def digit_char_def elems_def FORMATS_def)
  then show "d \<in> set native_commands \<Longrightarrow> admitted_at 0 (cd_schema d)"
    unfolding list_all_iff admitted_at_def by meson
qed

lemma provider_schemas_admitted:
  assumes "loadProviders sh s = (Inr ps, t)" and "d \<in> set ps"
  shows "admitted_at 0 (cd_schema d)"
proof (cases "sh_registry sh")
  case (Some rg)
  have "load_providers rg s = (Inr ps, t)"
    using assms(1) Some by (simp add: loadProviders_def)
  from load_providers_vouched [OF this] obtain snapshot p where "vouched rg (fx_log t) snapshot p d"
    using assms(2) by (auto simp: all_vouched_def)
  then show ?thesis
    by (auto simp: vouched_def sound_command_def)
qed (use assms in \<open>simp add: loadProviders_def pret_def\<close>)

lemma validateCommand_Inr:
  assumes "validateCommand body provider = Inr d"
  shows "validateValue (cd_schema d) (fld body ''arguments'') ''arguments'' = Inr ()" and "is_uuid (str_or_empty (fld body ''requestId''))"
    and "\<not> cd_read d \<Longrightarrow> valid_reason (fld (fld body ''arguments'') ''reason'')" and "d \<in> set native_commands \<or> provider = Some d"
  using assms by (auto simp: validateCommand_def res_splits Let_def native_lookup_def find_Some_iff split: option.splits)

lemma resolveCommand_Inr:
  assumes "resolveCommand sh body s = (Inr (Some d), t)"
  shows "admitted_at 0 (cd_schema d) \<and> fld body ''command'' = JStr (cd_id d)"
proof -
  from assms obtain ps u where "loadProviders sh s = (Inr ps, u)" "find (\<lambda>d. fld body ''command'' = JStr (cd_id d)) ps = Some d"
    by (auto simp: resolveCommand_def Let_def prog_defs split: if_splits prod.splits sum.splits)
  then show ?thesis
    using provider_schemas_admitted [of sh s ps u d] by (auto simp: find_Some_iff)
qed


section \<open>One mutation, one claim, one record\<close>

definition exchange :: "history \<Rightarrow> bool" where
  \<comment> \<open>at most one request, and reading its answer\<close>
  "exchange h \<longleftrightarrow> length (calls ''fetch'' h) \<le> 1 \<and> list_all (\<lambda>(c, r). cname c \<in> {''fetch'', ''response.read''}) h"

definition declined :: "history \<Rightarrow> bool" where
  \<comment> \<open>every request of the exchange was answered, with a status below 500\<close>
  "declined h \<longleftrightarrow> list_all (\<lambda>(as, r). case r of Inr response \<Rightarrow> \<not> num_le (Fin 500) (to_num (fld response ''status'')) | Inl _ \<Rightarrow> False) (calls ''fetch'' h)"

lemma side_effect_simps [simp]:
  "fld (shell_error st c m e) ''sideEffect'' = JStr e" "fld type_error k = (if k = ''name'' then JStr ''TypeError'' else JUndef)"
  "effect_of b = ''none'' \<longleftrightarrow> \<not> b"
  by (simp_all add: shell_error_def js_error_def fld_def type_error_def effect_of_def)

lemma request_wp:
  "wp (request sh url token verb b True i x) (\<lambda>_ t. \<exists>h. fx_log t = fx_log s @ h \<and> exchange h)
     (\<lambda>e t. \<exists>h. fx_log t = fx_log s @ h \<and> exchange h \<and> (fld e ''sideEffect'' = JStr ''none'' \<longrightarrow> declined h)) s"
  unfolding request_def read_object_def rejection_def
  by (auto simp: wp_simps Let_def exchange_def declined_def effect_of_def split: sum.splits option.splits)

lemma native_target_error: "nativeTarget hash c args a i = Inl e \<Longrightarrow> fld e ''sideEffect'' = JUndef"
  by (auto simp: nativeTarget_def js_error_def fld_def split: if_splits)

lemma service_origin_error: "service_origin sh v = Inl e \<Longrightarrow> fld e ''sideEffect'' = JUndef"
  by (auto simp: service_origin_def js_error_def fld_def type_error_def split: if_splits option.splits)

lemma exchange_Nil [simp]: "exchange []" "declined []"
  by (simp_all add: exchange_def declined_def)

lemma owner_request_wp:
  assumes "\<not> cd_read d"
  shows "wp (owner_request sh token a body d) (\<lambda>_ t. \<exists>h. fx_log t = fx_log s @ h \<and> exchange h)
     (\<lambda>e t. \<exists>h. fx_log t = fx_log s @ h \<and> exchange h \<and> (fld e ''sideEffect'' = JStr ''none'' \<longrightarrow> declined h)) s"
  unfolding owner_request_def
  using assms by (auto simp: wp_simps request_wp dest: native_target_error service_origin_error split: sum.splits)

lemma send_command_wp:
  assumes "\<not> cd_read d"
  shows "wp (send_command sh token a body d) (\<lambda>outcome t. \<exists>h. fx_log t = fx_log s @ h \<and> exchange h \<and> fld (fld outcome ''body'') ''sideEffect'' = JUndef)
     (\<lambda>e t. \<exists>h. fx_log t = fx_log s @ h \<and> exchange h \<and> (fld e ''sideEffect'' = JStr ''none'' \<longrightarrow> declined h)) s"
  unfolding send_command_def
  by (rule wp_pbindI [OF owner_request_wp [OF assms]])
    (use assms in \<open>auto simp: wp_simps success_outcome_def fld_def [of "JObj _"] effect_of_def to_iso_string_def range_error_def split: sum.splits prod.splits jnum.splits\<close>)

definition honest :: "history \<Rightarrow> jsval \<Rightarrow> bool" where
  \<comment> \<open>an outcome says that nothing happened only when the owner answered so\<close>
  "honest h outcome \<longleftrightarrow> (fld (fld outcome ''body'') ''sideEffect'' = JStr ''none'' \<longrightarrow> declined h)"

lemma failure_side_effect: "fld (fld (failure_outcome body e) ''body'') ''sideEffect'' = js_or (fld e ''sideEffect'') (JStr ''unknown'')"
  by (simp add: failure_outcome_def fld_def [of "JObj _"])

lemma outcome_wp:
  assumes "\<not> cd_read d"
  shows "wp (pcatch (send_command sh token a body d) (\<lambda>e. pret (failure_outcome body e)))
     (\<lambda>outcome t. \<exists>h. fx_log t = fx_log s @ h \<and> exchange h \<and> honest h outcome) (\<lambda>_ _. False) s"
  unfolding wp_pcatch
  by (rule wp_mono [OF send_command_wp [OF assms]]) (auto simp: wp_simps honest_def failure_side_effect js_or_def split: if_splits)

definition granted :: "answer \<Rightarrow> bool" where
  \<comment> \<open>the ledger answered that this request is now ours\<close>
  "granted r \<longleftrightarrow> (case rbind r claim_answer of Inr c \<Rightarrow> \<not> nullish c \<and> \<not> truthy (fld c ''conflict'') \<and> truthy (fld c ''claimed'') | Inl _ \<Rightarrow> False)"

definition recorded_run :: "shell \<Rightarrow> jsval \<Rightarrow> command_def \<Rightarrow> jsval \<Rightarrow> jsval + jsval \<Rightarrow> history \<Rightarrow> bool" where
  \<comment> \<open>an exchange, then the record of its outcome, which is also the reply\<close>
  "recorded_run sh body d a r h \<longleftrightarrow> (\<exists>sends outcome fin. h = sends @ [(Call ''console_shell.finish_command'' (finish_args sh a body d outcome), fin)]
     \<and> exchange sends \<and> honest sends outcome \<and> r = (case fin of Inl _ \<Rightarrow> Inl record_unavailable | Inr _ \<Rightarrow> Inr outcome))"

lemma recorded_runI:
  assumes "exchange h" "honest h x"
  shows "recorded_run sh body d a (Inr x) (h @ [(Call ''console_shell.finish_command'' (finish_args sh a body d x), Inr v)])"
    and "recorded_run sh body d a (Inl record_unavailable) (h @ [(Call ''console_shell.finish_command'' (finish_args sh a body d x), Inl e)])"
  unfolding recorded_run_def using assms by (intro exI [of _ h] exI [of _ x], auto)+

lemma claimed_run_wp:
  assumes "\<not> cd_read d"
  shows "wp (claimed_run sh token a body d) (\<lambda>x t. \<exists>h. fx_log t = fx_log s @ h \<and> recorded_run sh body d a (Inr x) h)
     (\<lambda>e t. \<exists>h. fx_log t = fx_log s @ h \<and> recorded_run sh body d a (Inl e) h) s"
  unfolding claimed_run_def
  by (rule wp_pbindI [OF wp_mono [OF outcome_wp [OF assms]]], assumption, simp)
    (auto simp: wp_simps Let_def intro: recorded_runI split: sum.splits)

definition mutation_trace :: "shell \<Rightarrow> jsval \<Rightarrow> command_def \<Rightarrow> jsval + jsval \<Rightarrow> history \<Rightarrow> bool" where
  "mutation_trace sh body d r h \<longleftrightarrow> h = [] \<and> (\<exists>e. r = Inl e)
     \<or> (\<exists>a claim rest. h = (Call ''console_shell.claim_command'' (claim_args sh a body d), claim) # rest
         \<and> (if granted claim then recorded_run sh body d a r rest else rest = []))"

lemma mutation_traceI:
  "mutation_trace sh body d (Inl e) []"
  "(if granted claim then recorded_run sh body d a r rest else rest = [])
     \<Longrightarrow> mutation_trace sh body d r ((Call ''console_shell.claim_command'' (claim_args sh a body d), claim) # rest)"
  unfolding mutation_trace_def by blast+

lemma run_mutation_wp:
  assumes "\<not> cd_read d"
  shows "wp (run_mutation sh token a body d) (\<lambda>x t. \<exists>h. fx_log t = fx_log s @ h \<and> mutation_trace sh body d (Inr x) h)
     (\<lambda>e t. \<exists>h. fx_log t = fx_log s @ h \<and> mutation_trace sh body d (Inl e) h) s"
proof -
  let ?c = "Call ''console_shell.claim_command'' (claim_args sh a body d)"
  define r where "r = sh_env sh (fx_log s) ?c"
  let ?s = "s\<lparr>fx_log := fx_log s @ [(?c, r)]\<rparr>"
  have t: "\<exists>h. fx_log t = fx_log s @ h \<and> mutation_trace sh body d x h" if "granted r" "\<exists>h. fx_log t = fx_log ?s @ h \<and> recorded_run sh body d a x h" for t :: "'a fx_scheme" and x
    using that by (auto intro!: mutation_traceI(2))
  have run: "wp (claimed_run sh token a body d) (\<lambda>x t. \<exists>h. fx_log t = fx_log s @ h \<and> mutation_trace sh body d (Inr x) h)
     (\<lambda>e t. \<exists>h. fx_log t = fx_log s @ h \<and> mutation_trace sh body d (Inl e) h) ?s" if "granted r"
    by (rule wp_mono [OF claimed_run_wp [OF assms]]) (rule t [OF that], assumption)+
  have stop: "\<exists>h. fx_log ?s = fx_log s @ h \<and> mutation_trace sh body d x h" if "\<not> granted r" for x
    using that by (auto intro!: mutation_traceI(2))
  have none: "\<exists>h. fx_log s = fx_log s @ h \<and> mutation_trace sh body d (Inl e) h" for e
    by (simp add: mutation_traceI(1))
  show ?thesis
    unfolding run_mutation_def
    using run stop none
    by (auto simp: wp_simps Let_def r_def [symmetric] granted_def get_prop_def split: sum.splits)
qed

lemma execute_split:
  fixes s s1 s' :: "'x fx_scheme"
  assumes "lookup_command sh body s = (Inr d, s1)" "\<not> cd_read d" "execute sh req body s = (r, s')"
  shows "\<exists>h1. fx_log s1 = fx_log s @ h1 \<and> list_all (silent sh) h1
    \<and> (\<exists>h2 h. fx_log s' = fx_log s1 @ h2 @ h \<and> list_all (silent sh) h2 \<and> mutation_trace sh body d r h)"
proof -
  let ?rest = "pbind (actor sh req) (\<lambda>(token, a). pbind (authorize sh a True) (\<lambda>_.
     pbind (pguard (shell_error (JInt 403) ''PermissionDenied'' msg_install_permission ''none'') (case cd_permission d of None \<Rightarrow> True | Some p \<Rightarrow> has_permission a p)) (\<lambda>_.
     run_mutation sh token a body d)))"
  let ?Q = "\<lambda>r t. \<exists>h2 h. fx_log t = fx_log s1 @ h2 @ h \<and> list_all (silent sh) h2 \<and> mutation_trace sh body d r h"
  have e: "?Q (Inl x) t" if "\<exists>h2. fx_log t = fx_log s1 @ h2 \<and> list_all (silent sh) h2" for x t
    using that mutation_traceI(1) by (metis append_Nil2)
  have ok: "wp m (\<lambda>_ t. \<exists>h2. fx_log t = fx_log s1 @ h2 \<and> list_all (silent sh) h2) (\<lambda>x. ?Q (Inl x)) t0"
    if m: "adds (silent sh) m" and t0: "\<exists>h2. fx_log t0 = fx_log s1 @ h2 \<and> list_all (silent sh) h2" for m :: "('x, 'c) fxprog" and t0
  proof (cases "m t0")
    case (Pair v t)
    obtain h2 h where "fx_log t = (fx_log s1 @ h2) @ h" "list_all (silent sh) h2" "list_all (silent sh) h"
      using adds_log [OF m Pair] t0 by auto
    then have "\<exists>h2. fx_log t = fx_log s1 @ h2 \<and> list_all (silent sh) h2"
      by (intro exI [of _ "h2 @ h"]) simp
    then show ?thesis
      using e [of t] Pair by (auto simp: wp_def split: sum.splits)
  qed
  have rest: "wp ?rest (\<lambda>x. ?Q (Inr x)) (\<lambda>x. ?Q (Inl x)) s1"
  proof (rule wp_pbindI [OF ok [OF adds_actor]])
    show "\<exists>h2. fx_log s1 = fx_log s1 @ h2 \<and> list_all (silent sh) h2"
      by simp
    fix ta and t :: "'x fx_scheme" assume t: "\<exists>h2. fx_log t = fx_log s1 @ h2 \<and> list_all (silent sh) h2"
    have "wp (run_mutation sh (fst ta) (snd ta) body d) (\<lambda>x. ?Q (Inr x)) (\<lambda>x. ?Q (Inl x)) u"
      if u: "\<exists>h2. fx_log u = fx_log s1 @ h2 \<and> list_all (silent sh) h2" for u :: "'x fx_scheme"
      by (rule wp_mono [OF run_mutation_wp [OF assms(2)]]) (use u in \<open>force+\<close>)
    then show "wp (case ta of (token, a) \<Rightarrow> pbind (authorize sh a True) (\<lambda>_.
       pbind (pguard (shell_error (JInt 403) ''PermissionDenied'' msg_install_permission ''none'') (case cd_permission d of None \<Rightarrow> True | Some p \<Rightarrow> has_permission a p)) (\<lambda>_.
       run_mutation sh token a body d))) (\<lambda>x. ?Q (Inr x)) (\<lambda>x. ?Q (Inl x)) t"
      by (cases ta) (use t in \<open>auto intro!: wp_pbindI [OF ok [OF adds_authorize]] wp_pbindI [OF ok [OF adds_nothing(5)]]\<close>)
  qed
  have x: "execute sh req body s = ?rest s1"
    using assms(1,2) by (simp add: execute_def pbind_def [of "lookup_command sh body"])
  have "?Q r s'"
    using rest assms(3) unfolding x by (cases r) (simp_all add: wp_def)
  then show ?thesis
    using adds_log [OF adds_lookup_command assms(1)] by auto
qed

text \<open>C19: a command that changes something reaches its owner at most once, under a claim of the ledger, and its outcome is recorded. For a
  mutating command the service first makes only requests to the identity service and the registry. Then either it stops with an error, or it asks the ledger for a
  claim. Without a granted claim nothing is sent. With one, at most one request goes out, and whatever happens - no answer, an unreadable answer, a rejection, an answer
  bound to another request - the outcome is handed to the ledger and is exactly what the caller is told; when the ledger does not confirm it, the caller is told
  that the effect is unknown. An outcome says that nothing happened only if the owner answered with a status below 500.\<close>

theorem mutation_is_sent_once_under_its_claim:
  assumes "lookup_command sh body s = (Inr d, s1)" "\<not> cd_read d" "execute sh req body s = (r, s')"
  shows "\<exists>pre h. fx_log s' = fx_log s @ pre @ h \<and> list_all (silent sh) pre \<and> mutation_trace sh body d r h"
proof -
  obtain h1 h2 h where "fx_log s1 = fx_log s @ h1" "list_all (silent sh) h1" "fx_log s' = fx_log s1 @ h2 @ h" "list_all (silent sh) h2" "mutation_trace sh body d r h"
    using execute_split [OF assms] by blast
  then show ?thesis
    by (intro exI [of _ "h1 @ h2"] exI [of _ h]) simp
qed

definition example_install :: jsval where
  "example_install = JObj [(''command'', JStr ''console.modules.install''),
     (''arguments'', JObj [(''descriptorId'', JStr ''dns''), (''catalogRevision'', JStr (''sha256:'' @ replicate 64 (CHR ''a''))), (''reason'', JStr ''reviewed module'')]),
     (''requestId'', JStr ''11111111-1111-4111-8111-111111111111'')]"

definition install_def :: command_def where
  "install_def = native_commands ! 2"

definition example_identity :: jsval where
  "example_identity = JObj [(''schemaVersion'', JStr ''1.0''), (''authority'', JStr ''SupabaseAuth''), (''freshness'', JStr ''fresh''), (''observedAt'', JStr ''t''),
     (''data'', JObj [(''state'', JStr ''Active''), (''subjectId'', JStr ''22222222-2222-4222-8222-222222222222''),
        (''sessionId'', JStr ''33333333-3333-4333-8333-333333333333''), (''aal'', JStr ''aal2''),
        (''permissions'', JArr [JStr ''console.role.admin'', JStr ''console.extension.install''])])]"

definition example_services :: environment where
  "example_services h c = (if cname c = ''fetch'' then Inr (JObj [(''ok'', JBool True), (''status'', JInt 202)])
     else if cname c = ''response.read'' then Inr (JArr [JStr (if length h < 2 then ''I'' else ''O'')])
     else if cname c = ''console_shell.claim_command'' then Inr (JObj [(''rows'', JArr [JObj [(''result'', JObj [(''claimed'', JBool True)])]])])
     else Inr JNull)"

definition example_shell :: shell where
  "example_shell = \<lparr>sh_env = example_services, sh_identity = ''http://identity'', sh_ledger = True, sh_registry = None, sh_now = (\<lambda>_. Fin 1000),
     sh_date = (\<lambda>_. Fin 0), sh_parse = (\<lambda>t. if t = ''I'' then Some example_identity else Some (JObj [(''operationId'', JStr ''op-1'')])),
     sh_url = (\<lambda>_. None), sh_hash = (\<lambda>t. t)\<rparr>"

definition example_caller :: jsval where
  "example_caller = JObj [(''headers'', JObj [(''authorization'', JStr (''Bearer '' @ replicate 40 (CHR ''u'')))])]"

lemma install_def: "native_lookup ''console.modules.install'' = Some install_def" "\<not> cd_read install_def"
  by (simp_all add: native_lookup_def native_commands_def native_def_def install_def_def)

lemma example_request_id: "is_uuid ''11111111-1111-4111-8111-111111111111''"
  by code_simp

lemma example_lookup: "lookup_command example_shell example_install \<lparr>fx_log = []\<rparr> = (Inr install_def, \<lparr>fx_log = []\<rparr>)"
proof -
  let ?args = "fld example_install ''arguments''"
  have d: "cd_names install_def = [''descriptorId'', ''catalogRevision'', ''reason'']" "cd_native install_def"
    "cd_schema install_def = object_schema (descriptor_fields @ [(''reason'', text_schema 500 [(''minLength'', JInt 8)])])"
    by (simp_all add: install_def_def native_commands_def native_def_def descriptor_fields_def)
  have "validateValue (cd_schema install_def) ?args ''arguments'' = Inr ()"
    unfolding d by (simp add: validateValue.simps schema_eval example_install_def object_schema_def descriptor_fields_def text_schema_def
        FORMATS_def is_sha256_ref_def is_hex64_def hex_lower_def digit_char_def list_all_iff)
  moreover have "validateCommand example_install None = Inr install_def" if "validateValue (cd_schema install_def) ?args ''arguments'' = Inr ()"
    using that d
    by (simp add: validateCommand_def exact_fields_def only_keys_def example_install_def fld_def [of "JObj _"] is_plain_object_def obj_entries_def install_def Let_def
        str_or_empty_def js_or_def example_request_id guard_else_def valid_reason_def trim_def ws_def)
  ultimately show ?thesis
    by (simp add: lookup_command_def resolveCommand_def example_install_def fld_def [of "JObj _"] str_or_empty_def js_or_def install_def prog_defs)
qed

theorem mutation_is_sent_once_under_its_claim_witness:
  "let (r, t) = execute example_shell example_caller example_install \<lparr>fx_log = []\<rparr> in
     \<not> cd_read install_def \<and> (\<exists>pre h. fx_log t = pre @ h \<and> list_all (silent example_shell) pre \<and> mutation_trace example_shell example_install install_def r h)"
  using mutation_is_sent_once_under_its_claim [OF example_lookup install_def(2) surjective_pairing] install_def(2)
  by (simp add: case_prod_beta)


end
