(* ===== verification/ShellSession.thy ===== *)
theory ShellSession
  imports ShellDatabase ShellCommands
begin

text \<open>
  The session reconciler of the OS Shell: \<open>reconcile\<close>, \<open>reprojectStaleRuntime\<close> and \<open>tick\<close> of \<open>src/apps/os-shell-control/server.js\<close>, the Pod template of
  \<open>runtime-template.js\<close>, and the deletion and identity checks of \<open>kubernetes.js\<close>.

  The Kubernetes API is a set of calls on the environment; \<open>kube.DELETE\<close> is the request behind \<open>deletePod\<close>, with the UID as its precondition.  The state is
  the map of active sessions and the time of the last successful pass.  \<open>reconcile\<close> calls itself after a stale runtime was projected again; the recursion
  carries fuel, and \<open>unfinished\<close> is the error of a run whose fuel is used up.
\<close>

record control =
  ct_db :: shell_db
  ct_config :: jsval

record cstate = fx +
  active :: "(jsval \<times> jsval) list"
  lastReconcileSuccess :: jnum

type_synonym 'a cprog = "(cstate, jsval, 'a) prog"

definition ct_env :: "control \<Rightarrow> environment" where "ct_env c = sd_env (ct_db c)"
definition ct_namespace :: "control \<Rightarrow> jsval" where "ct_namespace c = fld (ct_config c) ''namespace''"
definition ct_worker :: "control \<Rightarrow> jsval" where "ct_worker c = fld (ct_config c) ''worker''"

section \<open>The Pod template\<close>

definition shellPodName :: "jsval \<Rightarrow> string" where
  "shellPodName sessionId = ''os-shell-'' @ take 20 (filter (\<lambda>c. c \<noteq> CHR ''-'') (to_str sessionId))"

definition is_dns_label :: "string \<Rightarrow> bool" where
  \<comment> \<open>\<open>/^[a-z0-9]([-a-z0-9]{0,61}[a-z0-9])?$/\<close>\<close>
  "is_dns_label s \<longleftrightarrow> s \<noteq> [] \<and> length s \<le> 63 \<and> low_alnum (hd s) \<and> low_alnum (s ! (length s - 1)) \<and> list_all (\<lambda>c. low_alnum c \<or> c = CHR ''-'') s"

definition env_entry :: "string \<Rightarrow> jsval \<Rightarrow> jsval" where
  "env_entry name v = JObj [(''name'', JStr name), (''value'', JStr (to_str v))]"

definition binding_env :: "jsval \<Rightarrow> jsval \<Rightarrow> jsval list" where
  "binding_env session config = [
     env_entry ''OPENSPHERE_SHELL_SESSION_ID'' (fld session ''session_id''), env_entry ''OPENSPHERE_SHELL_ACTOR_ID'' (fld session ''actor_id''),
     env_entry ''OPENSPHERE_SHELL_ORIGIN'' (fld session ''origin''), env_entry ''OPENSPHERE_SHELL_SESSION_CLASS'' (JStr ''operator-interactive''),
     env_entry ''OPENSPHERE_SHELL_RUNTIME_ADAPTER_ID'' (JStr ''cbss.kubernetes-pod''), env_entry ''OPENSPHERE_SHELL_NETWORK_PROFILE'' (JStr ''console-only''),
     JObj [(''name'', JStr ''OPENSPHERE_SHELL_RUNTIME_UID''), (''valueFrom'', JObj [(''fieldRef'', JObj [(''fieldPath'', JStr ''metadata.uid'')])])],
     env_entry ''OPENSPHERE_SHELL_PERMISSION_REVISION'' (fld session ''permission_revision''), env_entry ''OPENSPHERE_SHELL_AAL'' (fld session ''aal''),
     env_entry ''OPENSPHERE_SHELL_RELEASE_EVIDENCE_REF'' (fld session ''release_evidence_ref''),
     env_entry ''OPENSPHERE_SHELL_GENERATION'' (fld session ''generation''), env_entry ''OPENSPHERE_SHELL_FENCING_EPOCH'' (fld session ''fencing_epoch''),
     env_entry ''OPENSPHERE_SHELL_MAX_PROCESSES'' (fld config ''runtimeMaxProcesses'')]"

definition container_security :: jsval where
  "container_security = JObj [(''allowPrivilegeEscalation'', JBool False), (''capabilities'', JObj [(''drop'', JArr [JStr ''ALL''])]),
     (''readOnlyRootFilesystem'', JBool True), (''runAsNonRoot'', JBool True), (''runAsUser'', JInt 65532), (''runAsGroup'', JInt 65532),
     (''seccompProfile'', JObj [(''type'', JStr ''RuntimeDefault'')])]"

definition memory_volume :: "string \<Rightarrow> string \<Rightarrow> jsval" where
  "memory_volume name limit = JObj [(''name'', JStr name), (''emptyDir'', JObj [(''medium'', JStr ''Memory''), (''sizeLimit'', JStr limit)])]"

definition mount :: "string \<Rightarrow> string \<Rightarrow> bool \<Rightarrow> jsval" where
  "mount name path read_only = JObj ([(''name'', JStr name), (''mountPath'', JStr path)] @ (if read_only then [(''readOnly'', JBool True)] else []))"

definition pod_volumes :: jsval where
  "pod_volumes = JArr [memory_volume ''internal'' ''1Mi'', memory_volume ''agent-channel'' ''1Mi'', memory_volume ''workspace'' ''64Mi'',
     JObj [(''name'', JStr ''bootstrap''), (''projected'', JObj [(''defaultMode'', JInt 288), (''sources'', JArr [JObj [(''serviceAccountToken'', JObj [
        (''audience'', JStr ''opensphere-shell-runtime-bootstrap''), (''expirationSeconds'', JInt 600), (''path'', JStr ''opensphere-shell-runtime-bootstrap'')])]])])],
     JObj [(''name'', JStr ''control-ca''), (''configMap'', JObj [(''name'', JStr ''opensphere-shell-control-ca''),
        (''items'', JArr [JObj [(''key'', JStr ''ca.crt''), (''path'', JStr ''ca.crt'')]])])]]"

definition pod_resources :: "string \<Rightarrow> string \<Rightarrow> jsval" where
  "pod_resources memory storage = JObj [(''requests'', JObj [(''cpu'', JStr ''25m''), (''memory'', JStr ''32Mi''), (''ephemeral-storage'', JStr ''16Mi'')]),
     (''limits'', JObj [(''cpu'', JStr ''500m''), (''memory'', JStr memory), (''ephemeral-storage'', JStr storage)])]"

definition ca_file :: string where "ca_file = ''/var/run/opensphere-shell-control-ca/ca.crt''"

definition pty_container :: "jsval \<Rightarrow> jsval \<Rightarrow> jsval" where
  "pty_container session config = JObj [(''name'', JStr ''pty''), (''image'', fld config ''runtimeImage''), (''imagePullPolicy'', JStr ''IfNotPresent''), (''args'', JArr [JStr ''pty'']),
     (''env'', JArr (binding_env session config @ [env_entry ''OPENSPHERE_SHELL_CONSOLE_API_URL'' (fld config ''consoleAPIURL''), env_entry ''SSL_CERT_FILE'' (JStr ca_file)])),
     (''volumeMounts'', JArr [mount ''internal'' ''/run/opensphere-shell-internal'' False, mount ''agent-channel'' ''/run/opensphere-shell'' True,
        mount ''workspace'' ''/home/opensphere'' False, mount ''control-ca'' ''/var/run/opensphere-shell-control-ca'' True]),
     (''securityContext'', container_security), (''resources'', pod_resources ''256Mi'' ''128Mi'')]"

definition agent_container :: "jsval \<Rightarrow> jsval \<Rightarrow> jsval" where
  "agent_container session config = JObj [(''name'', JStr ''agent''), (''image'', fld config ''runtimeImage''), (''imagePullPolicy'', JStr ''IfNotPresent''), (''args'', JArr [JStr ''agent'']),
     (''env'', JArr (binding_env session config @ [env_entry ''OPENSPHERE_SHELL_REGISTRATION_URL'' (fld config ''registrationURL''),
        env_entry ''OPENSPHERE_SHELL_CONTROL_URL'' (fld config ''runtimeControlURL''), env_entry ''OPENSPHERE_SHELL_CONSOLE_API_URL'' (fld config ''consoleAPIURL''),
        env_entry ''SSL_CERT_FILE'' (JStr ca_file)])),
     (''ports'', JArr [JObj [(''name'', JStr ''runtime-wss''), (''containerPort'', JInt 8443)]]),
     (''volumeMounts'', JArr [mount ''internal'' ''/run/opensphere-shell-internal'' False, mount ''agent-channel'' ''/run/opensphere-shell'' False,
        mount ''bootstrap'' ''/var/run/secrets/tokens'' True, mount ''control-ca'' ''/var/run/opensphere-shell-control-ca'' True]),
     (''readinessProbe'', JObj [(''tcpSocket'', JObj [(''port'', JStr ''runtime-wss'')]), (''periodSeconds'', JInt 2), (''failureThreshold'', JInt 10)]),
     (''securityContext'', container_security), (''resources'', pod_resources ''128Mi'' ''64Mi'')]"

definition buildRuntimePod :: "jsval \<Rightarrow> jsval \<Rightarrow> jsval + jsval" where
  "buildRuntimePod session config = (let name = shellPodName (fld session ''session_id'') in
     if \<not> is_dns_label name \<or> \<not> has_infix ''@sha256:'' (to_str (fld config ''runtimeImage'')) then Inl (js_error ''closed runtime template inputs are invalid'' [])
     else Inr (JObj [(''apiVersion'', JStr ''v1''), (''kind'', JStr ''Pod''),
       (''metadata'', JObj [(''name'', JStr name), (''namespace'', fld config ''namespace''), (''labels'', JObj [
          (''app'', JStr ''opensphere-os-shell-runtime''), (''opensphere.io/session-id'', fld session ''session_id''),
          (''opensphere.io/generation'', JStr (to_str (fld session ''generation''))), (''opensphere.io/fencing-epoch'', JStr (to_str (fld session ''fencing_epoch'')))])]),
       (''spec'', JObj [(''serviceAccountName'', fld config ''runtimeServiceAccount''), (''automountServiceAccountToken'', JBool False), (''restartPolicy'', JStr ''Never''),
          (''hostUsers'', JBool False), (''enableServiceLinks'', JBool False), (''terminationGracePeriodSeconds'', JInt 5), (''dnsPolicy'', JStr ''ClusterFirst''),
          (''schedulerName'', JStr ''default-scheduler''), (''imagePullSecrets'', JArr [JObj [(''name'', JStr ''opensphere-ghcr-pull'')]]),
          (''securityContext'', JObj [(''runAsNonRoot'', JBool True), (''fsGroup'', JInt 65532), (''fsGroupChangePolicy'', JStr ''OnRootMismatch''),
             (''seccompProfile'', JObj [(''type'', JStr ''RuntimeDefault'')])]),
          (''volumes'', pod_volumes), (''containers'', JArr [pty_container session config, agent_container session config])])]))"

section \<open>The cluster\<close>

definition not_found :: "jsval \<Rightarrow> bool" where
  "not_found e \<longleftrightarrow> fld e ''status'' = JInt 404"

definition deletePod :: "control \<Rightarrow> string \<Rightarrow> jsval \<Rightarrow> jsval cprog" where
  "deletePod c name uid = pcatch (call (ct_env c) ''kube.DELETE'' [ct_namespace c, JStr name, uid]) (\<lambda>e. if not_found e then pret JNull else pthrow e)"

definition getPod :: "control \<Rightarrow> string \<Rightarrow> jsval cprog" where
  "getPod c name = call (ct_env c) ''kube.getPod'' [ct_namespace c, JStr name]"

definition createPod :: "control \<Rightarrow> jsval \<Rightarrow> jsval cprog" where
  "createPod c row = pbind (plift (buildRuntimePod row (ct_config c))) (\<lambda>pod. call (ct_env c) ''kube.createPod'' [ct_namespace c, pod])"

definition pod_uid :: "jsval \<Rightarrow> jsval" where "pod_uid pod = fld (fld pod ''metadata'') ''uid''"

definition pod_session :: "jsval \<Rightarrow> jsval" where
  "pod_session pod = fld (fld (fld pod ''metadata'') ''labels'') ''opensphere.io/session-id''"

section \<open>One session\<close>

definition base_input :: "control \<Rightarrow> jsval \<Rightarrow> (string \<times> jsval) list" where
  "base_input c row = [(''sessionId'', fld row ''session_id''), (''actorId'', fld row ''actor_id''), (''worker'', ct_worker c),
     (''generation'', fld row ''generation''), (''fencingEpoch'', fld row ''fencing_epoch''), (''permissionRevision'', fld row ''permission_revision'')]"

definition transition_to :: "control \<Rightarrow> (string \<times> jsval) list \<Rightarrow> jsval \<Rightarrow> string \<Rightarrow> jsval \<Rightarrow> jsval \<Rightarrow> string \<Rightarrow> jsval cprog" where
  "transition_to c base expected nextState runtimeUid resourceVersion reason = transitionSession (ct_db c) (JObj (base @
     [(''expectedState'', expected), (''nextState'', JStr nextState), (''runtimeUid'', runtimeUid), (''runtimeResourceVersion'', resourceVersion), (''reasonCode'', JStr reason)]))"

definition reprojectStaleRuntime :: "control \<Rightarrow> jsval \<Rightarrow> jsval cprog" where
  "reprojectStaleRuntime c row = (let name = shellPodName (fld row ''session_id'') in
     pbind (pcatch
       (pbind (getPod c name) (\<lambda>pod.
        if \<not> strict_eq (pod_uid pod) (fld row ''runtime_uid'') \<or> \<not> strict_eq (pod_session pod) (fld row ''session_id'')
        then pthrow (js_error ''stale runtime Pod UID cannot be safely deleted'' [])
        else deletePod c name (pod_uid pod)))
       (\<lambda>e. if not_found e then pret JUndef else pthrow e)) (\<lambda>_.
     reprojectRuntime (ct_db c) (JObj [(''sessionId'', fld row ''session_id''), (''actorId'', fld row ''actor_id''), (''worker'', ct_worker c),
       (''generation'', fld row ''generation''), (''fencingEpoch'', fld row ''fencing_epoch''), (''expectedRuntimeUid'', fld row ''runtime_uid''),
       (''reasonCode'', JStr ''LeaseFenceRecovered'')])))"

definition lapsed :: "control \<Rightarrow> jsval \<Rightarrow> jnum \<Rightarrow> bool" where
  \<comment> \<open>\<open>Date.parse(v) <= Date.now()\<close>\<close>
  "lapsed c v now \<longleftrightarrow> num_le (au_date (sd_authority (ct_db c)) (to_str v)) now"

definition expire :: "control \<Rightarrow> jsval \<Rightarrow> jsval cprog" where
  \<comment> \<open>a running session past its idle or absolute expiry loses its authority\<close>
  "expire c row = pbind (pget (sd_now (ct_db c) \<circ> fx_log)) (\<lambda>now.
     if fld row ''desired_state'' = JStr ''Running'' \<and> (lapsed c (fld row ''idle_expires_at'') now \<or> lapsed c (fld row ''absolute_expires_at'') now)
     then revokeSessionAuthority (ct_db c) (JObj (base_input c row @ [(''reasonCode'', JStr ''SessionExpired'')]))
     else pret row)"

definition teardown :: "control \<Rightarrow> (string \<times> jsval) list \<Rightarrow> jsval \<Rightarrow> unit cprog" where
  "teardown c base row =
     pbind (if fld row ''observed_state'' \<noteq> JStr ''Terminating''
        then transition_to c base (fld row ''observed_state'') ''Terminating'' (fld row ''runtime_uid'') JUndef ''TeardownReconciled''
        else pret row) (\<lambda>row1.
     pbind (if truthy (fld row1 ''runtime_uid'') then deletePod c (shellPodName (fld row1 ''session_id'')) (fld row1 ''runtime_uid'') else pret JUndef) (\<lambda>_.
     pbind (transition_to c base (JStr ''Terminating'') ''Terminated'' (fld row1 ''runtime_uid'') JUndef ''RuntimeDeleted'') (\<lambda>_.
     pmod (\<lambda>s. s\<lparr>active := remove_key (fld row1 ''session_id'') (active s)\<rparr>))))"

definition replace_stale_pod :: "control \<Rightarrow> jsval \<Rightarrow> jsval \<Rightarrow> jsval cprog" where
  \<comment> \<open>the answer to a name conflict\<close>
  "replace_stale_pod c row e = pbind (pguard e (fld e ''status'' = JInt 409)) (\<lambda>_.
     pbind (getPod c (shellPodName (fld row ''session_id''))) (\<lambda>stale.
     pbind (pguard (js_error ''colliding runtime Pod is not owned by the session'' []) (strict_eq (pod_session stale) (fld row ''session_id''))) (\<lambda>_.
     pbind (deletePod c (to_str (fld (fld stale ''metadata'') ''name'')) (pod_uid stale)) (\<lambda>_.
     createPod c row))))"

definition provision :: "control \<Rightarrow> (string \<times> jsval) list \<Rightarrow> jsval \<Rightarrow> jsval cprog" where
  "provision c base row = pbind (pcatch (createPod c row) (replace_stale_pod c row)) (\<lambda>pod.
     pbind (plift (rbind (get_prop pod ''metadata'') (\<lambda>m. get_prop m ''uid''))) (\<lambda>uid.
     transition_to c base (JStr ''Pending'') ''Provisioning'' uid (fld (fld pod ''metadata'') ''resourceVersion'') ''RuntimePodCreated''))"

definition set_active :: "jsval \<Rightarrow> unit cprog" where
  "set_active row = pmod (\<lambda>s. s\<lparr>active := upsert (fld row ''session_id'') row (active s)\<rparr>)"

definition unfinished :: jsval where
  "unfinished = JObj [(''name'', JStr ''Unfinished'')]"

definition reconcile_step :: "control \<Rightarrow> (jsval \<Rightarrow> unit cprog) \<Rightarrow> jsval \<Rightarrow> bool \<Rightarrow> unit cprog" where
  \<comment> \<open>the body of \<open>reconcile\<close>, over its recursive call\<close>
  "reconcile_step c again row0 reclaimed =
     (let base = base_input c row0 in
      pbind (expire c row0) (\<lambda>row.
      pbind (plift (get_prop row ''desired_state'')) (\<lambda>desired.
      let observed = fld row ''observed_state'' in
      if desired = JStr ''Terminated'' then teardown c base row
      else if reclaimed \<and> observed \<in> {JStr ''Provisioning'', JStr ''Ready'', JStr ''Failed''} then pbind (reprojectStaleRuntime c row) again
      else if observed = JStr ''Pending'' then pbind (provision c base row) set_active
      else if observed = JStr ''Provisioning'' \<and> truthy (fld row ''runtime_registered_at'')
      then pbind (transition_to c base (JStr ''Provisioning'') ''Ready'' (fld row ''runtime_uid'') (fld row ''runtime_resource_version'') ''RuntimeRegistered'') set_active
      else pbind (pget (sd_now (ct_db c) \<circ> fx_log)) (\<lambda>now.
        if observed = JStr ''Provisioning''
           \<and> num_le (num_add (au_date (sd_authority (ct_db c)) (to_str (fld row ''runtime_projection_started_at''))) (Fin 45000)) now
        then pbind (reprojectStaleRuntime c row) again
        else set_active row))))"

fun reconcile :: "control \<Rightarrow> nat \<Rightarrow> jsval \<Rightarrow> bool \<Rightarrow> unit cprog" where
  "reconcile c 0 row0 reclaimed = pthrow unfinished"
| "reconcile c (Suc fuel) row0 reclaimed = reconcile_step c (\<lambda>row. reconcile c fuel row False) row0 reclaimed"

section \<open>One pass over all sessions\<close>

definition revoke_input :: "control \<Rightarrow> jsval \<Rightarrow> jsval" where
  "revoke_input c row = JObj [(''sessionId'', fld row ''session_id''), (''worker'', ct_worker c), (''generation'', fld row ''generation''),
     (''fencingEpoch'', fld row ''fencing_epoch''), (''reasonCode'', JStr ''PermissionRevisionChanged'')]"

definition drop_active :: "jsval \<Rightarrow> unit cprog" where
  "drop_active row = pmod (\<lambda>s. s\<lparr>active := remove_key (fld row ''session_id'') (active s)\<rparr>)"

definition refresh :: "control \<Rightarrow> nat \<Rightarrow> jsval \<Rightarrow> unit cprog" where
  "refresh c fuel row = pcatch
     (pbind (heartbeatSession (ct_db c) (JObj (base_input c row))) (\<lambda>renewed.
      if \<not> renewed then drop_active row
      else pbind (inspectClaim (ct_db c) (JObj [(''sessionId'', fld row ''session_id''), (''worker'', ct_worker c), (''generation'', fld row ''generation''),
          (''fencingEpoch'', fld row ''fencing_epoch'')])) (\<lambda>fresh.
        if truthy fresh then reconcile c fuel fresh False else drop_active row)))
     (\<lambda>_. pcatch (pbind (revokeSessionAuthority (ct_db c) (revoke_input c row)) (\<lambda>revoked. if truthy revoked then reconcile c fuel revoked False else pret ()))
        (\<lambda>_. drop_active row))"

fun each :: "('a \<Rightarrow> unit cprog) \<Rightarrow> 'a list \<Rightarrow> unit cprog" where
  "each f [] = pret ()"
| "each f (x # xs) = pbind (f x) (\<lambda>_. each f xs)"

definition tick :: "control \<Rightarrow> nat \<Rightarrow> unit cprog" where
  "tick c fuel = (if \<not> truthy (fld (ct_config c) ''enabled'') \<or> fld (ct_config c) ''mode'' \<noteq> JStr ''reconciler'' \<or> \<not> truthy (fld (ct_config c) ''reconcilerEnabled'') then pret ()
     else pbind (call (ct_env c) ''kube.listPods'' [ct_namespace c, JInt 1]) (\<lambda>_.
       pbind (pget active) (\<lambda>rows.
       pbind (each (\<lambda>kv. refresh c fuel (snd kv)) rows) (\<lambda>_.
       pbind (claimSessions (ct_db c) (JObj [(''worker'', ct_worker c), (''limit'', JInt 5)])) (\<lambda>claimed.
       pbind (each (\<lambda>row. pcatch (reconcile c fuel row True) (\<lambda>_. pret ())) claimed) (\<lambda>_.
       pbind (pget (sd_now (ct_db c) \<circ> fx_log)) (\<lambda>now.
       pmod (\<lambda>s. s\<lparr>lastReconcileSuccess := now\<rparr>))))))))"

section \<open>Which requests are lawful\<close>

definition known :: "jsval set \<Rightarrow> history \<Rightarrow> jsval \<Rightarrow> bool" where
  \<comment> \<open>a session row the reconciler held already, or one a database function has returned\<close>
  "known R h row \<longleftrightarrow> row \<in> R \<or> (\<exists>f as r. (Call f as, Inr r) \<in> set h \<and> starts_with ''console_shell.'' f \<and> row \<in> set (db_rows r))"

definition read_pod :: "control \<Rightarrow> history \<Rightarrow> jsval \<Rightarrow> jsval \<Rightarrow> bool" where
  \<comment> \<open>the Pod read under the session's name carries the session's label\<close>
  "read_pod c h row pod \<longleftrightarrow> (Call ''kube.getPod'' [ct_namespace c, JStr (shellPodName (fld row ''session_id''))], Inr pod) \<in> set h
     \<and> strict_eq (pod_session pod) (fld row ''session_id'')"

definition delete_ok :: "control \<Rightarrow> jsval set \<Rightarrow> history \<Rightarrow> jsval list \<Rightarrow> bool" where
  "delete_ok c R h as \<longleftrightarrow> (\<exists>row. known R h row \<and>
     (truthy (fld row ''runtime_uid'') \<and> as = [ct_namespace c, JStr (shellPodName (fld row ''session_id'')), fld row ''runtime_uid'']
      \<or> (\<exists>pod name. read_pod c h row pod \<and> as = [ct_namespace c, JStr name, pod_uid pod]
          \<and> name \<in> {shellPodName (fld row ''session_id''), to_str (fld (fld pod ''metadata'') ''name'')})))"

definition create_ok :: "control \<Rightarrow> jsval set \<Rightarrow> history \<Rightarrow> jsval list \<Rightarrow> bool" where
  "create_ok c R h as \<longleftrightarrow> (\<exists>row pod. known R h row \<and> fld row ''observed_state'' = JStr ''Pending'' \<and> fld row ''desired_state'' \<noteq> JStr ''Terminated''
     \<and> buildRuntimePod row (ct_config c) = Inr pod \<and> as = [ct_namespace c, pod])"

definition deleted :: "control \<Rightarrow> history \<Rightarrow> jsval \<Rightarrow> bool" where
  \<comment> \<open>the Pod with this UID was deleted, or was not there\<close>
  "deleted c h uid \<longleftrightarrow> (\<exists>name r. (Call ''kube.DELETE'' [ct_namespace c, name, uid], r) \<in> set h \<and> (case r of Inr _ \<Rightarrow> True | Inl e \<Rightarrow> not_found e))"

definition transition_ok :: "control \<Rightarrow> history \<Rightarrow> jsval list \<Rightarrow> bool" where
  \<comment> \<open>arguments 5, 6 and 8 are the expected state, the next state and the runtime UID\<close>
  "transition_ok c h as \<longleftrightarrow> length as = 11 \<and>
     (as ! 6 = JStr ''Terminating''
      \<or> as ! 5 = JStr ''Terminating'' \<and> as ! 6 = JStr ''Terminated'' \<and> (as ! 8 = JNull \<or> (\<exists>uid. deleted c h uid \<and> db_required uid ''runtimeUid'' = Inr (as ! 8)))
      \<or> as ! 5 = JStr ''Pending'' \<and> as ! 6 = JStr ''Provisioning'' \<or> as ! 5 = JStr ''Provisioning'' \<and> as ! 6 = JStr ''Ready'')"

definition entry_ok :: "control \<Rightarrow> jsval set \<Rightarrow> history \<Rightarrow> service_call \<Rightarrow> bool" where
  "entry_ok c R h cl \<longleftrightarrow> (if cname cl = ''kube.DELETE'' then delete_ok c R h (cargs cl)
     else if cname cl = ''kube.createPod'' then create_ok c R h (cargs cl)
     else if cname cl = ''console_shell.transition_shell_session'' then transition_ok c h (cargs cl) else True)"

lemma known_mono: "known R h row \<Longrightarrow> set h \<subseteq> set h' \<Longrightarrow> known R h' row"
  unfolding known_def by blast

section \<open>Running lawfully\<close>

lemma entry_ok_other [simp]: "f \<noteq> ''kube.DELETE'' \<Longrightarrow> f \<noteq> ''kube.createPod'' \<Longrightarrow> f \<noteq> ''console_shell.transition_shell_session'' \<Longrightarrow> entry_ok c R h (Call f as)"
  by (simp add: entry_ok_def)

lemma db_execute_run:
  assumes "\<And>vs. map_res (\<lambda>a. a) args = Inr vs \<Longrightarrow> entry_ok c R (fx_log s) (Call f vs)" and "starts_with ''console_shell.'' f"
  shows "run (entry_ok c R) (db_execute sd f args) (\<lambda>rows t. \<forall>row \<in> set rows. known R (fx_log t) row) (\<lambda>_ _. True) s"
  unfolding db_execute_def
  by (rule run_plift_bind, rule run_pbind [OF run_mono [OF run_call [where P = "entry_ok c R", OF assms(1)]]], assumption+, simp)
    (use assms(2) in \<open>auto simp: known_def\<close>)

lemma db_plain_run:
  assumes "starts_with ''console_shell.'' f" "f \<noteq> ''console_shell.transition_shell_session''"
  shows "run (entry_ok c R) (db_execute sd f args) (\<lambda>rows t. \<forall>row \<in> set rows. known R (fx_log t) row) (\<lambda>_ _. True) s"
proof (rule db_execute_run [OF _ assms(1)])
  have "f \<noteq> ''kube.DELETE''" "f \<noteq> ''kube.createPod''"
    using assms(1) by (auto simp: starts_with_def)
  then show "entry_ok c R (fx_log s) (Call f vs)" for vs
    using assms(2) by simp
qed

lemma current_revision_run: "run (entry_ok c R) (current_revision sd input) (\<lambda>_ _. True) (\<lambda>_ _. True) s"
  unfolding current_revision_def currentPermissionRevision_def
  by (rule run_plift_bind, rule run_pbind [OF db_plain_run]) (auto simp: starts_with_def Let_def)

lemma first_known: "\<forall>row \<in> set rows. known R h row \<Longrightarrow> first_or_null rows = JNull \<or> known R h (first_or_null rows)"
  by (cases rows) (auto simp: first_or_null_def or_null_def js_or_def)

lemma one_known: "\<forall>row \<in> set rows. known R h row \<Longrightarrow> exactly_one e rows = Inr row \<Longrightarrow> known R h row"
  by (auto simp: exactly_one_def split: list.splits)

lemma revoke_run: "run (entry_ok c R) (revokeSessionAuthority sd input) (\<lambda>row t. row = JNull \<or> known R (fx_log t) row) (\<lambda>_ _. True) s"
  unfolding revokeSessionAuthority_def by (rule run_pbind [OF db_plain_run]) (use first_known in \<open>auto simp: starts_with_def\<close>)

lemma inspect_run: "run (entry_ok c R) (inspectClaim sd input) (\<lambda>row t. row = JNull \<or> known R (fx_log t) row) (\<lambda>_ _. True) s"
  unfolding inspectClaim_def by (rule run_pbind [OF db_plain_run]) (use first_known in \<open>auto simp: starts_with_def\<close>)

lemma reproject_run: "run (entry_ok c R) (reprojectRuntime sd input) (\<lambda>row t. known R (fx_log t) row) (\<lambda>_ _. True) s"
  unfolding reprojectRuntime_def by (rule run_pbind [OF db_plain_run]) (use one_known in \<open>auto simp: starts_with_def split: sum.splits\<close>)

lemma heartbeat_run: "run (entry_ok c R) (heartbeatSession sd input) (\<lambda>_ _. True) (\<lambda>_ _. True) s"
  unfolding heartbeatSession_def by (rule run_pbind [OF current_revision_run], rule run_pbind [OF db_plain_run]) (auto simp: starts_with_def)

lemma claim_run: "run (entry_ok c R) (claimSessions sd input) (\<lambda>rows t. \<forall>row \<in> set rows. known R (fx_log t) row) (\<lambda>_ _. True) s"
  unfolding claimSessions_def by (rule db_plain_run) (auto simp: starts_with_def)

lemma deleted_mono: "deleted c h uid \<Longrightarrow> set h \<subseteq> set h' \<Longrightarrow> deleted c h' uid"
  unfolding deleted_def by blast

definition step_allowed :: "control \<Rightarrow> history \<Rightarrow> jsval \<Rightarrow> string \<Rightarrow> jsval \<Rightarrow> bool" where
  "step_allowed c h expected nextState uid \<longleftrightarrow> nextState = ''Terminating''
     \<or> expected = JStr ''Terminating'' \<and> nextState = ''Terminated'' \<and> (\<not> truthy uid \<or> deleted c h uid)
     \<or> expected = JStr ''Pending'' \<and> nextState = ''Provisioning'' \<or> expected = JStr ''Provisioning'' \<and> nextState = ''Ready''"

lemma db_required_state: "db_required (JStr x) l = Inr v \<Longrightarrow> x \<in> {''Terminating'', ''Terminated'', ''Pending'', ''Provisioning'', ''Ready''} \<Longrightarrow> v = JStr x"
  by (auto simp: db_required_def js_coalesce_def nullish_def trim_def ws_def)

lemma map_res_id: "map_res (\<lambda>a. a) args = Inr vs \<longleftrightarrow> args = map Inr vs"
  by (induction args arbitrary: vs) (auto simp: rbind_eq_Inr Cons_eq_map_conv)

lemma transition_args_ok:
  assumes "step_allowed c h expected nextState uid" and
    "map_res (\<lambda>a. a) (worker_args input @ [db_required expected ''expectedState'', db_required (JStr nextState) ''nextState'', Inr revision,
        db_optional uid ''runtimeUid'', rv, reason]) = Inr vs"
  shows "transition_ok c h vs"
proof -
  let ?as = "worker_args input @ [db_required expected ''expectedState'', db_required (JStr nextState) ''nextState'', Inr revision, db_optional uid ''runtimeUid'', rv, reason]"
  have m: "?as = map Inr vs"
    using assms(2) by (simp only: map_res_id)
  have l: "length vs = 11"
    using arg_cong [OF m, of length] by (simp add: worker_args_def fence_args_def)
  then have n: "?as ! i = Inr (vs ! i)" if "i < 11" for i
    unfolding m using that by simp
  have v: "db_required expected ''expectedState'' = Inr (vs ! 5)" "db_required (JStr nextState) ''nextState'' = Inr (vs ! 6)" "db_optional uid ''runtimeUid'' = Inr (vs ! 8)"
    using n [of 5] n [of 6] n [of 8] by (simp_all add: worker_args_def fence_args_def)
  have six: "vs ! 6 = JStr nextState"
    by (rule db_required_state [OF v(2)]) (use assms(1) in \<open>auto simp: step_allowed_def\<close>)
  have five: "vs ! 5 = JStr x" if "expected = JStr x" "x \<in> {''Terminating'', ''Terminated'', ''Pending'', ''Provisioning'', ''Ready''}" for x
    using db_required_state [OF _ that(2)] v(1) that(1) by simp
  have eight: "vs ! 8 = JNull \<or> (\<exists>u. deleted c h u \<and> db_required u ''runtimeUid'' = Inr (vs ! 8))" if "\<not> truthy uid \<or> deleted c h uid"
    using v(3) that by (cases "truthy uid") (auto simp: db_optional_def)
  show ?thesis
    using assms(1) unfolding step_allowed_def transition_ok_def six
    by (elim disjE conjE) (simp_all only: l eight five insert_iff refl simp_thms list.inject)
qed

lemma transition_to_run:
  assumes "step_allowed c (fx_log s) expected nextState uid"
  shows "run (entry_ok c R) (transition_to c (base_input c row0) expected nextState uid rv reason) (\<lambda>row t. known R (fx_log t) row) (\<lambda>_ _. True) s"
  unfolding transition_to_def transitionSession_def
proof (rule run_pbind [OF current_revision_run])
  let ?in = "JObj (base_input c row0 @ [(''expectedState'', expected), (''nextState'', JStr nextState), (''runtimeUid'', uid), (''runtimeResourceVersion'', rv), (''reasonCode'', JStr reason)])"
  fix revision and t :: cstate assume t: "set (fx_log s) \<subseteq> set (fx_log t)"
  have f: "text_arg ?in ''expectedState'' = db_required expected ''expectedState''" "text_arg ?in ''nextState'' = db_required (JStr nextState) ''nextState''"
    "fld ?in ''runtimeUid'' = uid"
    by (simp_all add: text_arg_def base_input_def fld_def [of "JObj _"])
  have a: "step_allowed c (fx_log t) expected nextState uid"
    using assms deleted_mono [OF _ t, of c uid] unfolding step_allowed_def by argo
  show "run (entry_ok c R) (pbind (db_execute (ct_db c) ''console_shell.transition_shell_session'' (worker_args ?in @ [text_arg ?in ''expectedState'', text_arg ?in ''nextState'', Inr revision,
        db_optional (fld ?in ''runtimeUid'') ''runtimeUid'', db_optional (fld ?in ''runtimeResourceVersion'') ''runtimeResourceVersion'', text_arg ?in ''reasonCode'']))
     (\<lambda>rows. plift (exactly_one (contractError ''ShellSessionTransitionFailed'' ''session transition did not return exactly one row'' 409) rows)))
     (\<lambda>row t. known R (fx_log t) row) (\<lambda>_ _. True) t"
    unfolding f
    by (rule run_pbind [OF db_execute_run], simp add: entry_ok_def, erule transition_args_ok [OF a], simp add: starts_with_def, simp split: sum.split)
      (use one_known in blast)
qed

lemma getPod_run: "run (entry_ok c R) (getPod c name) (\<lambda>pod t. (Call ''kube.getPod'' [ct_namespace c, JStr name], Inr pod) \<in> set (fx_log t)) (\<lambda>_ _. True) s"
  unfolding getPod_def by (rule run_mono [OF run_call]) simp_all

lemma deletedI:
  "(Call ''kube.DELETE'' [ct_namespace c, name, uid], Inr x) \<in> set h \<Longrightarrow> deleted c h uid"
  "(Call ''kube.DELETE'' [ct_namespace c, name, uid], Inl e) \<in> set h \<Longrightarrow> not_found e \<Longrightarrow> deleted c h uid"
  unfolding deleted_def by force+

lemma deletePod_run:
  assumes "delete_ok c R (fx_log s) [ct_namespace c, JStr name, uid]"
  shows "run (entry_ok c R) (deletePod c name uid) (\<lambda>_ t. deleted c (fx_log t) uid) (\<lambda>_ _. True) s"
  unfolding deletePod_def
  by (rule run_pcatch [OF run_mono [OF run_call]]) (use assms in \<open>auto simp: entry_ok_def intro: deletedI\<close>)

lemma createPod_run:
  assumes "known R (fx_log s) row" "fld row ''observed_state'' = JStr ''Pending''" "fld row ''desired_state'' \<noteq> JStr ''Terminated''"
  shows "run (entry_ok c R) (createPod c row) (\<lambda>_ _. True) (\<lambda>_ _. True) s"
  unfolding createPod_def
  by (rule run_plift_bind, rule any_run [OF run_call]) (use assms in \<open>auto simp: entry_ok_def create_ok_def\<close>)

lemma delete_read_pod:
  assumes "known R h row" "read_pod c h row pod" "name \<in> {shellPodName (fld row ''session_id''), to_str (fld (fld pod ''metadata'') ''name'')}"
  shows "delete_ok c R h [ct_namespace c, JStr name, pod_uid pod]"
  using assms unfolding delete_ok_def by blast

lemma reprojectStale_run:
  assumes "known R (fx_log s) row"
  shows "run (entry_ok c R) (reprojectStaleRuntime c row) (\<lambda>row1 t. known R (fx_log t) row1) (\<lambda>_ _. True) s"
  unfolding reprojectStaleRuntime_def Let_def
proof (rule run_pbind [OF run_pcatch [where E0 = "\<lambda>_ _. True" and Q = "\<lambda>(_ :: jsval) _. True"]])
  show "run (entry_ok c R) (pbind (getPod c (shellPodName (fld row ''session_id''))) (\<lambda>pod.
        if \<not> strict_eq (pod_uid pod) (fld row ''runtime_uid'') \<or> \<not> strict_eq (pod_session pod) (fld row ''session_id'')
        then pthrow (js_error ''stale runtime Pod UID cannot be safely deleted'' [])
        else deletePod c (shellPodName (fld row ''session_id'')) (pod_uid pod))) (\<lambda>_ _. True) (\<lambda>_ _. True) s"
  proof (rule run_pbind [OF getPod_run])
    fix pod and t :: cstate
    assume t: "set (fx_log s) \<subseteq> set (fx_log t)" and p: "(Call ''kube.getPod'' [ct_namespace c, JStr (shellPodName (fld row ''session_id''))], Inr pod) \<in> set (fx_log t)"
    have "run (entry_ok c R) (deletePod c (shellPodName (fld row ''session_id'')) (pod_uid pod)) (\<lambda>_ _. True) (\<lambda>_ _. True) t" if "strict_eq (pod_session pod) (fld row ''session_id'')"
      by (rule any_run [OF deletePod_run], rule delete_read_pod [OF known_mono [OF assms t]]) (use p that in \<open>simp_all add: read_pod_def\<close>)
    then show "run (entry_ok c R) (if \<not> strict_eq (pod_uid pod) (fld row ''runtime_uid'') \<or> \<not> strict_eq (pod_session pod) (fld row ''session_id'')
        then pthrow (js_error ''stale runtime Pod UID cannot be safely deleted'' [])
        else deletePod c (shellPodName (fld row ''session_id'')) (pod_uid pod)) (\<lambda>_ _. True) (\<lambda>_ _. True) t"
      by simp
  qed
  show "run (entry_ok c R) (if not_found e then pret JUndef else pthrow e) (\<lambda>_ _. True) (\<lambda>_ _. True) t" for e t
    by simp
qed (rule reproject_run)

lemma expire_run:
  assumes "known R (fx_log s) row"
  shows "run (entry_ok c R) (expire c row) (\<lambda>row1 t. row1 = JNull \<or> known R (fx_log t) row1) (\<lambda>_ _. True) s"
  unfolding expire_def
  using assms by (simp add: run_pget_bind revoke_run)

lemma teardown_run:
  assumes "known R (fx_log s) row"
  shows "run (entry_ok c R) (teardown c (base_input c row0) row) (\<lambda>_ _. True) (\<lambda>_ _. True) s"
  unfolding teardown_def
proof (rule run_pbind [where ?Q0.0 = "\<lambda>(row1 :: jsval) (t :: cstate). known R (fx_log t) row1"])
  show "run (entry_ok c R) (if fld row ''observed_state'' \<noteq> JStr ''Terminating''
        then transition_to c (base_input c row0) (fld row ''observed_state'') ''Terminating'' (fld row ''runtime_uid'') JUndef ''TeardownReconciled'' else pret row)
      (\<lambda>row1 t. known R (fx_log t) row1) (\<lambda>_ _. True) s"
    using assms transition_to_run by (simp add: step_allowed_def)
  fix row1 and t :: cstate assume k: "known R (fx_log t) row1"
  show "run (entry_ok c R) (pbind (if truthy (fld row1 ''runtime_uid'') then deletePod c (shellPodName (fld row1 ''session_id'')) (fld row1 ''runtime_uid'') else pret JUndef) (\<lambda>_.
     pbind (transition_to c (base_input c row0) (JStr ''Terminating'') ''Terminated'' (fld row1 ''runtime_uid'') JUndef ''RuntimeDeleted'') (\<lambda>_.
     pmod (\<lambda>s. s\<lparr>active := remove_key (fld row1 ''session_id'') (active s)\<rparr>)))) (\<lambda>_ _. True) (\<lambda>_ _. True) t"
  proof (rule run_pbind [where ?Q0.0 = "\<lambda>(_ :: jsval) (u :: cstate). \<not> truthy (fld row1 ''runtime_uid'') \<or> deleted c (fx_log u) (fld row1 ''runtime_uid'')"])
    have "delete_ok c R (fx_log t) [ct_namespace c, JStr (shellPodName (fld row1 ''session_id'')), fld row1 ''runtime_uid'']" if "truthy (fld row1 ''runtime_uid'')"
      using that k unfolding delete_ok_def by blast
    then show "run (entry_ok c R) (if truthy (fld row1 ''runtime_uid'') then deletePod c (shellPodName (fld row1 ''session_id'')) (fld row1 ''runtime_uid'') else pret JUndef)
        (\<lambda>_ u. \<not> truthy (fld row1 ''runtime_uid'') \<or> deleted c (fx_log u) (fld row1 ''runtime_uid'')) (\<lambda>_ _. True) t"
      by (auto intro!: run_mono [OF deletePod_run])
  qed (rule run_pbind [OF transition_to_run], simp add: step_allowed_def, rule run_pmod, simp_all)
qed

lemma provision_run:
  assumes "known R (fx_log s) row" "fld row ''observed_state'' = JStr ''Pending''" "fld row ''desired_state'' \<noteq> JStr ''Terminated''"
  shows "run (entry_ok c R) (provision c (base_input c row0) row) (\<lambda>row1 t. known R (fx_log t) row1) (\<lambda>_ _. True) s"
proof -
  have "run (entry_ok c R) (replace_stale_pod c row e) (\<lambda>_ _. True) (\<lambda>_ _. True) t" if t: "set (fx_log s) \<subseteq> set (fx_log t)" for e t
    unfolding replace_stale_pod_def
  proof (rule run_pguard_bind, rule run_pbind [OF getPod_run])
    fix pod and u :: cstate
    assume u: "set (fx_log t) \<subseteq> set (fx_log u)" and p: "(Call ''kube.getPod'' [ct_namespace c, JStr (shellPodName (fld row ''session_id''))], Inr pod) \<in> set (fx_log u)"
    have k: "known R (fx_log v) row" if "set (fx_log u) \<subseteq> set (fx_log v)" for v :: cstate
      using known_mono [OF assms(1)] t u that by blast
    show "run (entry_ok c R) (pbind (pguard (js_error ''colliding runtime Pod is not owned by the session'' []) (strict_eq (pod_session pod) (fld row ''session_id''))) (\<lambda>_.
        pbind (deletePod c (to_str (fld (fld pod ''metadata'') ''name'')) (pod_uid pod)) (\<lambda>_. createPod c row))) (\<lambda>_ _. True) (\<lambda>_ _. True) u"
    proof (rule run_pguard_bind, rule run_pbind [OF deletePod_run])
      assume "strict_eq (pod_session pod) (fld row ''session_id'')"
      then show "delete_ok c R (fx_log u) [ct_namespace c, JStr (to_str (fld (fld pod ''metadata'') ''name'')), pod_uid pod]"
        using p k [of u] by (intro delete_read_pod) (simp_all add: read_pod_def)
    qed (use createPod_run k assms in blast)+
  qed simp
  then show ?thesis
    unfolding provision_def
    by (intro run_pbind [OF run_pcatch [OF createPod_run [OF assms]]] run_plift_bind transition_to_run) (auto simp: step_allowed_def)
qed

lemma set_active_run [simp]: "run (entry_ok c R) (set_active row) (\<lambda>_ _. True) (\<lambda>_ _. True) s"
  unfolding set_active_def by (rule run_pmod) simp_all

lemma drop_active_run [simp]: "run (entry_ok c R) (drop_active row) (\<lambda>_ _. True) (\<lambda>_ _. True) s"
  unfolding drop_active_def by (rule run_pmod) simp_all

lemma reconcile_run: "known R (fx_log s) row \<Longrightarrow> run (entry_ok c R) (reconcile c fuel row b) (\<lambda>_ _. True) (\<lambda>_ _. True) s"
proof (induction fuel arbitrary: row b s)
  case 0
  show ?case by simp
next
  case (Suc fuel)
  have again: "run (entry_ok c R) (pbind (reprojectStaleRuntime c row1) (\<lambda>row2. reconcile c fuel row2 False)) (\<lambda>_ _. True) (\<lambda>_ _. True) t" if "known R (fx_log t) row1" for row1 t
    by (rule run_pbind [OF reprojectStale_run [OF that]]) (rule Suc.IH)
  have ready: "run (entry_ok c R) (pbind (transition_to c (base_input c row) (JStr ''Provisioning'') ''Ready'' u v r) set_active) (\<lambda>_ _. True) (\<lambda>_ _. True) t" for u v r t
    by (rule run_pbind [OF transition_to_run]) (simp_all add: step_allowed_def)
  have pending: "run (entry_ok c R) (pbind (provision c (base_input c row) row1) set_active) (\<lambda>_ _. True) (\<lambda>_ _. True) t"
    if "known R (fx_log t) row1" "fld row1 ''observed_state'' = JStr ''Pending''" "fld row1 ''desired_state'' \<noteq> JStr ''Terminated''" for row1 t
    by (rule run_pbind [OF provision_run [OF that]]) simp
  show ?case
    unfolding reconcile.simps reconcile_step_def Let_def
  proof (rule run_pbind [OF expire_run [OF Suc.prems]], rule run_plift_bind)
    fix row1 desired and t :: cstate
    assume "row1 = JNull \<or> known R (fx_log t) row1" and g: "get_prop row1 ''desired_state'' = Inr desired"
    then have k: "known R (fx_log t) row1" and d: "desired = fld row1 ''desired_state''"
      by (auto simp: get_prop_def nullish_def split: if_splits)
    show "run (entry_ok c R) (if desired = JStr ''Terminated'' then teardown c (base_input c row) row1
        else if b \<and> fld row1 ''observed_state'' \<in> {JStr ''Provisioning'', JStr ''Ready'', JStr ''Failed''}
        then pbind (reprojectStaleRuntime c row1) (\<lambda>row1. reconcile c fuel row1 False)
        else if fld row1 ''observed_state'' = JStr ''Pending'' then pbind (provision c (base_input c row) row1) set_active
        else if fld row1 ''observed_state'' = JStr ''Provisioning'' \<and> truthy (fld row1 ''runtime_registered_at'')
        then pbind (transition_to c (base_input c row) (JStr ''Provisioning'') ''Ready'' (fld row1 ''runtime_uid'') (fld row1 ''runtime_resource_version'') ''RuntimeRegistered'') set_active
        else pbind (pget (sd_now (ct_db c) \<circ> fx_log)) (\<lambda>now.
          if fld row1 ''observed_state'' = JStr ''Provisioning''
             \<and> num_le (num_add (au_date (sd_authority (ct_db c)) (to_str (fld row1 ''runtime_projection_started_at''))) (Fin 45000)) now
          then pbind (reprojectStaleRuntime c row1) (\<lambda>row1. reconcile c fuel row1 False)
          else set_active row1)) (\<lambda>_ _. True) (\<lambda>_ _. True) t"
      using teardown_run [OF k] again [OF k] pending [OF k] ready [of _ _ _ t] d by (simp only: run_pget_bind split: if_split) simp
  qed simp
qed

lemma each_run: "(\<And>x t. x \<in> set xs \<Longrightarrow> set (fx_log s) \<subseteq> set (fx_log t) \<Longrightarrow> run (entry_ok c R) (f x) (\<lambda>_ _. True) (\<lambda>_ _. True) t) \<Longrightarrow> run (entry_ok c R) (each f xs) (\<lambda>_ _. True) (\<lambda>_ _. True) s"
proof (induction xs arbitrary: s)
  case (Cons x xs)
  show ?case
    unfolding each.simps by (rule run_pbind [OF Cons.prems]) (use Cons in auto)
qed simp

lemma refresh_run:
  assumes "row \<in> R"
  shows "run (entry_ok c R) (refresh c fuel row) (\<lambda>_ _. True) (\<lambda>_ _. True) s"
  unfolding refresh_def
proof (rule run_pcatch [OF run_pbind [OF heartbeat_run]])
  fix renewed and t :: cstate
  have "run (entry_ok c R) (if truthy fresh then reconcile c fuel fresh False else drop_active row) (\<lambda>_ _. True) (\<lambda>_ _. True) u" if "fresh = JNull \<or> known R (fx_log u) fresh" for fresh u
    using that reconcile_run by auto
  then show "run (entry_ok c R) (if \<not> renewed then drop_active row
      else pbind (inspectClaim (ct_db c) (JObj [(''sessionId'', fld row ''session_id''), (''worker'', ct_worker c), (''generation'', fld row ''generation''),
          (''fencingEpoch'', fld row ''fencing_epoch'')])) (\<lambda>fresh. if truthy fresh then reconcile c fuel fresh False else drop_active row)) (\<lambda>_ _. True) (\<lambda>_ _. True) t"
    by (simp add: run_pbind [OF inspect_run])
next
  fix e and t :: cstate
  have "run (entry_ok c R) (if truthy revoked then reconcile c fuel revoked False else pret ()) (\<lambda>_ _. True) (\<lambda>_ _. True) u" if "revoked = JNull \<or> known R (fx_log u) revoked" for revoked u
    using that reconcile_run by auto
  then show "run (entry_ok c R) (pcatch (pbind (revokeSessionAuthority (ct_db c) (revoke_input c row)) (\<lambda>revoked. if truthy revoked then reconcile c fuel revoked False else pret ())) (\<lambda>_. drop_active row))
      (\<lambda>_ _. True) (\<lambda>_ _. True) t"
    by (intro run_pcatch [OF run_pbind [OF revoke_run]]) auto
qed

lemma listPods_run: "run (entry_ok c R) (call env ''kube.listPods'' as) (\<lambda>_ t. active t = active s) (\<lambda>_ _. True) s"
  by (simp add: run_def wp_simps Let_def split: sum.splits)

lemma tick_run: "run (entry_ok c (snd ` set (active s))) (tick c fuel) (\<lambda>_ _. True) (\<lambda>_ _. True) s"
proof -
  let ?R = "snd ` set (active s)"
  have claimed: "run (entry_ok c ?R) (pcatch (reconcile c fuel row True) (\<lambda>_. pret ())) (\<lambda>_ _. True) (\<lambda>_ _. True) t" if "known ?R (fx_log t) row" for row t
    by (rule run_pcatch [OF reconcile_run [OF that]]) simp
  have "run (entry_ok c ?R) (each (\<lambda>row. pcatch (reconcile c fuel row True) (\<lambda>_. pret ())) rows) (\<lambda>_ _. True) (\<lambda>_ _. True) t"
    if "\<forall>row \<in> set rows. known ?R (fx_log t) row" for rows t
    by (rule each_run, rule claimed) (use that known_mono in blast)
  note claimed_rows = this
  have finish: "run (entry_ok c ?R) (pbind (pget (sd_now (ct_db c) \<circ> fx_log)) (\<lambda>now. pmod (\<lambda>s. s\<lparr>lastReconcileSuccess := now\<rparr>))) (\<lambda>_ _. True) (\<lambda>_ _. True) t" for t
    unfolding run_pget_bind by (rule run_pmod) simp_all
  show ?thesis
    unfolding tick_def
  proof (split if_split, intro conjI impI run_pbind [OF listPods_run])
    fix x and t :: cstate assume t: "active t = active s"
    show "run (entry_ok c ?R) (pbind (pget active) (\<lambda>rows. pbind (each (\<lambda>kv. refresh c fuel (snd kv)) rows) (\<lambda>_.
       pbind (claimSessions (ct_db c) (JObj [(''worker'', ct_worker c), (''limit'', JInt 5)])) (\<lambda>claimed.
       pbind (each (\<lambda>row. pcatch (reconcile c fuel row True) (\<lambda>_. pret ())) claimed) (\<lambda>_.
       pbind (pget (sd_now (ct_db c) \<circ> fx_log)) (\<lambda>now. pmod (\<lambda>s. s\<lparr>lastReconcileSuccess := now\<rparr>))))))) (\<lambda>_ _. True) (\<lambda>_ _. True) t"
      unfolding run_pget_bind t
      by (rule run_pbind [OF each_run [OF refresh_run]], simp, rule run_pbind [OF claim_run], rule run_pbind [OF claimed_rows], assumption, rule finish)
  qed simp
qed

section \<open>Two levels of recursion are enough\<close>

text \<open>The database function \<open>reproject_shell_runtime\<close> answers with a pending session and \<open>revoke_shell_session_authority\<close> with one that is to be terminated
  (\<open>src/migrations/versions/0029_native_shell_authority.sql\<close>); then \<open>reconcile\<close> calls itself at most once.\<close>

definition rows_of :: "control \<Rightarrow> string \<Rightarrow> jsval set" where
  "rows_of c f = {row. \<exists>h as r. ct_env c h (Call f as) = Inr r \<and> row \<in> set (db_rows r)}"

lemma db_execute_rows: "db_execute (ct_db c) f args s = (Inr rows, t) \<Longrightarrow> set rows \<subseteq> rows_of c f"
  by (auto simp: db_execute_def pbind_def plift_def pret_def call_def Let_def ct_env_def rows_of_def split: sum.splits prod.splits)

lemma pbind_cong_at: "(\<And>x t. m s = (Inr x, t) \<Longrightarrow> f x t = g x t) \<Longrightarrow> pbind m f s = pbind m g s"
  by (simp add: pbind_def split: sum.splits prod.splits)

lemma reproject_rows: "reprojectStaleRuntime c row s = (Inr row1, t) \<Longrightarrow> row1 \<in> rows_of c ''console_shell.reproject_shell_runtime''"
  by (auto simp: reprojectStaleRuntime_def reprojectRuntime_def exactly_one_def Let_def pbind_def plift_def split: sum.splits prod.splits list.splits if_splits dest!: db_execute_rows)

lemma expire_rows: "expire c row s = (Inr row1, t) \<Longrightarrow> row1 \<noteq> row \<Longrightarrow> row1 = JNull \<or> row1 \<in> rows_of c ''console_shell.revoke_shell_session_authority''"
  by (auto simp: expire_def revokeSessionAuthority_def first_or_null_def or_null_def js_or_def Let_def pbind_def pget_def pret_def plift_def
      split: sum.splits prod.splits list.splits if_splits dest!: db_execute_rows)

lemma step_pending:
  assumes "\<forall>row \<in> rows_of c ''console_shell.revoke_shell_session_authority''. fld row ''desired_state'' = JStr ''Terminated''"
    and "fld row ''observed_state'' = JStr ''Pending''"
  shows "reconcile_step c f row False s = reconcile_step c g row False s"
  unfolding reconcile_step_def Let_def
proof (rule pbind_cong_at, rule pbind_cong_at)
  fix row1 t desired u assume e: "expire c row s = (Inr row1, t)" and d: "plift (get_prop row1 ''desired_state'') t = (Inr desired, u)"
  have "row1 = row \<or> desired = JStr ''Terminated''"
    using expire_rows [OF e] assms(1) d by (auto simp: plift_def get_prop_def nullish_def split: if_splits)
  then show "(if desired = JStr ''Terminated'' then A else if False \<and> B then C1 else if fld row1 ''observed_state'' = JStr ''Pending'' then D else F1) u =
    (if desired = JStr ''Terminated'' then A else if False \<and> B then C2 else if fld row1 ''observed_state'' = JStr ''Pending'' then D else F2) u" for A B C1 C2 D F1 F2
    using assms(2) by auto
qed

text \<open>C24: When the database answers a reprojection with a pending session and a revocation with one that is to be terminated, as its functions do, \<open>reconcile\<close> calls
  itself at most once: a run with two levels of recursion and one with more do the same on every state, so no run is cut off.\<close>

theorem reconcile_calls_itself_at_most_once:
  assumes "\<forall>row \<in> rows_of c ''console_shell.revoke_shell_session_authority''. fld row ''desired_state'' = JStr ''Terminated''"
    and "\<forall>row \<in> rows_of c ''console_shell.reproject_shell_runtime''. fld row ''observed_state'' = JStr ''Pending''"
  shows "reconcile c (Suc (Suc n)) row b = reconcile c (Suc (Suc 0)) row b"
proof -
  have "pbind (reprojectStaleRuntime c row1) (\<lambda>row2. reconcile c (Suc n) row2 False) = pbind (reprojectStaleRuntime c row1) (\<lambda>row2. reconcile c (Suc 0) row2 False)" for row1
    unfolding reconcile.simps
    by (rule ext, rule pbind_cong_at, rule step_pending [OF assms(1)]) (use assms(2) reproject_rows in blast)
  then show ?thesis
    by (simp only: reconcile.simps(2) [of c "Suc _"] reconcile_step_def)
qed

definition example_shell_db :: environment where
  "example_shell_db h cl = (if cname cl = ''console_shell.reproject_shell_runtime'' then Inr (JArr [JObj [(''observed_state'', JStr ''Pending'')]])
     else if cname cl = ''console_shell.revoke_shell_session_authority'' then Inr (JArr [JObj [(''desired_state'', JStr ''Terminated'')]])
     else Inl (JObj [(''status'', JInt 404)]))"

definition example_control :: control where
  "example_control = \<lparr>ct_db = \<lparr>sd_env = example_shell_db, sd_now = \<lambda>h. Fin (of_nat (length h)), sd_authority = example_authority\<rparr>, ct_config = JObj [(''namespace'', JStr ''shells'')]\<rparr>"

lemma example_control_rows:
  "rows_of example_control ''console_shell.reproject_shell_runtime'' = {JObj [(''observed_state'', JStr ''Pending'')]}"
  "rows_of example_control ''console_shell.revoke_shell_session_authority'' = {JObj [(''desired_state'', JStr ''Terminated'')]}"
  by (auto simp: rows_of_def example_control_def example_shell_db_def ct_env_def db_rows_def)

theorem reconcile_calls_itself_at_most_once_witness:
  "reconcile example_control 7 (JObj [(''observed_state'', JStr ''Ready'')]) True = reconcile example_control 2 (JObj [(''observed_state'', JStr ''Ready'')]) True"
  using reconcile_calls_itself_at_most_once [of example_control 5] by (simp add: example_control_rows fld_def numeral_2_eq_2 numeral_eq_Suc)

text \<open>C23: In every pass of the OS Shell reconciler, whatever the database and the cluster answer, each Pod it deletes is named by a session row it holds or the database
  returned: under that session's Pod name and with the runtime UID of the row as precondition, or with the UID of a Pod that was read under that name and carries the
  session's label. It creates only the Pod of the closed template for such a row that is pending and not to be terminated. It asks the database only for the transitions
  to \<open>Terminating\<close>, from \<open>Pending\<close> to \<open>Provisioning\<close>, from \<open>Provisioning\<close> to \<open>Ready\<close>, and from \<open>Terminating\<close> to \<open>Terminated\<close>, the last one with a runtime UID only
  after the Pod with that UID was deleted or found absent.\<close>

theorem reconciler_touches_only_its_own_pods:
  "\<exists>h. fx_log (snd (tick c fuel s)) = fx_log s @ h \<and> obeys (entry_ok c (snd ` set (active s))) (fx_log s) h"
  by (rule run_obeys [OF tick_run])

end
