(* ===== verification/ShellRuntime.thy ===== *)
theory ShellRuntime
  imports ShellSession
begin

text \<open>
  The HTTP side of the OS Shell control plane (\<open>src/apps/os-shell-control/server.js\<close>): registration of a runtime, the runtime routes, and the browser's
  session routes; with \<open>validatedRuntimeIdentity\<close> of \<open>kubernetes.js\<close> and the context token of \<open>authority/os-shell-context.js\<close>.

  A request is the parsed URL path, the method, the headers and the outcome of reading its body.  A response is a status and a body.  Keys and signatures of
  \<open>node:crypto\<close> are fields of the record \<open>crypto\<close>; the exchange with the credential authority and the readiness probes are calls on the environment.
\<close>

record crypto =
  cr_hash :: "string \<Rightarrow> string"
  cr_key :: "string \<Rightarrow> (string \<times> string) option"
  cr_key_id :: "string \<Rightarrow> string"
  cr_verify :: "string \<Rightarrow> string \<Rightarrow> string \<Rightarrow> bool"
  cr_hmac :: "string \<Rightarrow> string \<Rightarrow> nat list"

text \<open>\<open>cr_hash\<close> is the hexadecimal SHA-256; \<open>cr_key\<close> parses a PEM text to the type and the public part of a key; \<open>cr_key_id\<close> is the base64url of the SHA-256 of the decoded
  public part; \<open>cr_verify\<close> checks a signature of a text; \<open>cr_hmac\<close> gives the bytes of an HMAC-SHA-256.\<close>

record request_in =
  rq_path :: string
  rq_method :: string
  rq_headers :: jsval
  rq_body :: "jsval + jsval"

type_synonym response = "int \<times> jsval"

definition status_error :: "int \<Rightarrow> string \<Rightarrow> jsval" where
  "status_error code message = js_error message [(''status'', JInt code)]"

definition bearer_credential :: "jsval \<Rightarrow> string option" where
  \<comment> \<open>\<open>/^Bearer\s+(\S+)$/\<close>\<close>
  "bearer_credential headers = (let t = str_or_empty (fld headers ''authorization''); rest = drop 6 t; token = dropWhile ws rest in
     if starts_with ''Bearer'' t \<and> rest \<noteq> [] \<and> ws (hd rest) \<and> token \<noteq> [] \<and> list_all (\<lambda>c. \<not> ws c) token then Some token else None)"

definition credential_hash :: "crypto \<Rightarrow> string \<Rightarrow> string" where
  "credential_hash cr t = ''sha256:'' @ cr_hash cr t"

section \<open>Bindings\<close>

definition bindingFrom :: "jsval \<Rightarrow> (string \<times> jsval) list" where
  "bindingFrom row = [(''sessionId'', fld row ''session_id''), (''actorId'', fld row ''actor_id''), (''origin'', fld row ''origin''),
     (''sessionClass'', fld row ''session_class''), (''runtimeAdapterId'', fld row ''runtime_adapter_id''), (''networkProfile'', fld row ''network_profile''),
     (''runtimeUid'', fld row ''runtime_uid''), (''permissionRevision'', fld row ''permission_revision''), (''aal'', fld row ''aal''),
     (''releaseEvidenceRef'', fld row ''release_evidence_ref''), (''generation'', JNum (to_num (fld row ''generation''))),
     (''fencingEpoch'', JNum (to_num (fld row ''fencing_epoch'')))]"

definition exactBinding :: "jsval \<Rightarrow> jsval \<Rightarrow> bool" where
  "exactBinding row candidate \<longleftrightarrow> is_plain_object candidate
     \<and> sort (map fst (bindingFrom row)) = sort (map fst (obj_entries candidate))
     \<and> list_all (\<lambda>(k, v). strict_eq (fld candidate k) v) (bindingFrom row)"

definition publicSession :: "jsval \<Rightarrow> jsval" where
  "publicSession row = JObj [(''sessionId'', fld row ''session_id''), (''sessionClass'', fld row ''session_class''), (''runtimeAdapterId'', fld row ''runtime_adapter_id''),
     (''generation'', JNum (to_num (fld row ''generation''))), (''fencingEpoch'', JNum (to_num (fld row ''fencing_epoch''))), (''desiredState'', fld row ''desired_state''),
     (''observedState'', fld row ''observed_state''), (''expiresAt'', fld row ''absolute_expires_at''), (''idleExpiresAt'', fld row ''idle_expires_at''),
     (''createdAt'', fld row ''created_at''), (''updatedAt'', fld row ''updated_at''), (''release'', JObj [(''runtimeImageDigest'', fld row ''runtime_image_digest''),
        (''osArtifactDigest'', fld row ''os_artifact_digest''), (''releaseEvidenceRef'', fld row ''release_evidence_ref''),
        (''sessionPolicyRevision'', fld row ''session_policy_revision'')])]"

section \<open>The identity of a runtime\<close>

definition validatedRuntimeIdentity :: "jsval \<Rightarrow> jsval \<Rightarrow> jsval + jsval \<times> jsval" where
  \<comment> \<open>the name and UID of the Pod a token was projected into\<close>
  "validatedRuntimeIdentity review config = (let state = fld review ''status''; user = fld state ''user''; extra = js_or (fld user ''extra'') (JObj []);
       names = fld extra ''authentication.kubernetes.io/pod-name''; uids = fld extra ''authentication.kubernetes.io/pod-uid'' in
     if fld state ''authenticated'' \<noteq> JBool True
        \<or> fld user ''username'' \<noteq> JStr (''system:serviceaccount:'' @ to_str (fld config ''namespace'') @ '':'' @ to_str (fld config ''runtimeServiceAccount''))
        \<or> fld state ''audiences'' \<noteq> JArr [JStr ''opensphere-shell-runtime-bootstrap'']
        \<or> \<not> is_array names \<or> length (elems names) \<noteq> 1 \<or> \<not> is_array uids \<or> length (elems uids) \<noteq> 1
     then Inl (status_error 401 ''projected runtime identity rejected'')
     else Inr (hd (elems names), hd (elems uids)))"

definition pem_char :: "char \<Rightarrow> bool" where
  "pem_char c \<longleftrightarrow> alpha_char c \<or> digit_char c \<or> c \<in> {CHR ''+'', CHR ''/'', CHR ''='', CHR 0x0D, CHR 0x0A}"

definition is_pem :: "string \<Rightarrow> bool" where
  \<comment> \<open>one BEGIN and one END marker around a body without dashes: the two counts follow from the pattern\<close>
  "is_pem t \<longleftrightarrow> (let opening = ''-----BEGIN PUBLIC KEY-----''; ending = ''-----END PUBLIC KEY-----''; rest = drop (length opening) t;
       line = (if starts_with [CHR 0x0D, CHR 0x0A] rest then drop 2 rest else drop 1 rest); body = takeWhile pem_char line; tail = drop (length body) line in
     starts_with opening t \<and> (starts_with [CHR 0x0D, CHR 0x0A] rest \<or> starts_with [CHR 0x0A] rest) \<and> body \<noteq> []
     \<and> tail \<in> {ending, ending @ [CHR 0x0D], ending @ [CHR 0x0A], ending @ [CHR 0x0D, CHR 0x0A]})"

definition validatedRuntimePublicKey :: "crypto \<Rightarrow> jsval \<Rightarrow> jsval \<Rightarrow> jsval + string" where
  "validatedRuntimePublicKey cr publicKeyPem submittedKeyId = (let pem = str_or_empty publicKeyPem in
     if length pem < 64 \<or> 4096 < length pem \<or> \<not> is_pem pem then Inl (status_error 400 ''runtime public key PEM rejected'')
     else case cr_key cr pem of
       None \<Rightarrow> Inl (status_error 400 ''runtime public key PEM rejected'')
     | Some (kind, x) \<Rightarrow>
         if kind \<noteq> ''ed25519'' then Inl (status_error 400 ''runtime public key must be Ed25519'')
         else if cr_key_id cr x \<noteq> str_or_empty submittedKeyId then Inl (status_error 400 ''runtime key ID binding rejected'')
         else Inr (cr_key_id cr x))"

section \<open>Registration\<close>

definition is_fingerprint :: "jsval \<Rightarrow> bool" where
  "is_fingerprint v \<longleftrightarrow> is_sha256_ref (to_str v)"

definition registration_shape :: "jsval \<Rightarrow> bool" where
  "registration_shape body \<longleftrightarrow> fld body ''contract'' = JStr ''opensphere-shell-runtime/v1'' \<and> is_fingerprint (fld body ''tlsCertificateSha256'')
     \<and> is_sha256_ref (str_or_empty (fld body ''runtimeCredentialHash''))"

definition num_same :: "jsval \<Rightarrow> jsval \<Rightarrow> bool" where
  \<comment> \<open>\<open>Number(a) === Number(b)\<close>\<close>
  "num_same a b \<longleftrightarrow> num_eq (to_num a) (to_num b)"

definition pod_bound :: "jsval \<Rightarrow> jsval \<Rightarrow> jsval \<Rightarrow> bool" where
  \<comment> \<open>the Pod read is the one of the token, and its labels are those of the binding\<close>
  "pod_bound pod podUid binding \<longleftrightarrow> (let labels = js_or (fld (fld pod ''metadata'') ''labels'') (JObj []) in
     strict_eq (pod_uid pod) podUid \<and> strict_eq (fld binding ''runtimeUid'') podUid
     \<and> strict_eq (fld labels ''opensphere.io/session-id'') (fld binding ''sessionId'')
     \<and> num_same (fld labels ''opensphere.io/generation'') (fld binding ''generation'')
     \<and> num_same (fld labels ''opensphere.io/fencing-epoch'') (fld binding ''fencingEpoch'')
     \<and> truthy (fld (fld pod ''status'') ''podIP''))"

definition attach_endpoint :: "jsval \<Rightarrow> jsval + string" where
  \<comment> \<open>an address that is no string has no \<open>includes\<close>\<close>
  "attach_endpoint v = (case v of JStr ip \<Rightarrow> Inr (''wss://'' @ (if CHR '':'' \<in> set ip then ''['' @ ip @ '']'' else ip) @ '':8443/v1/runtime/attach'') | _ \<Rightarrow> Inl type_error)"

definition credential_expiry :: "control \<Rightarrow> jsval \<Rightarrow> jnum \<Rightarrow> jsval + jsval" where
  "credential_expiry c row now = rbind (to_iso_string (num_min (num_add now (Fin 3600000)) (au_date (sd_authority (ct_db c)) (to_str (fld row ''absolute_expires_at'')))))
     (\<lambda>t. Inr (JStr t))"

definition registration_input :: "jsval \<Rightarrow> jsval \<Rightarrow> jsval \<Rightarrow> string \<Rightarrow> jsval \<Rightarrow> jsval" where
  "registration_input row pod body endpoint expiry = JObj [(''sessionId'', fld row ''session_id''), (''actorId'', fld row ''actor_id''), (''worker'', fld row ''lease_owner''),
     (''generation'', fld row ''generation''), (''fencingEpoch'', fld row ''fencing_epoch''), (''permissionRevision'', fld row ''permission_revision''),
     (''runtimeUid'', pod_uid pod), (''runtimeResourceVersion'', fld (fld pod ''metadata'') ''resourceVersion''), (''runtimeKeyId'', fld body ''keyId''),
     (''runtimePublicKeyPem'', fld body ''publicKeyPem''), (''runtimeTlsCertificateSha256'', fld body ''tlsCertificateSha256''),
     (''runtimeAttachEndpoint'', JStr endpoint), (''runtimeCredentialHash'', fld body ''runtimeCredentialHash''),
     (''runtimeCredentialExpiresAt'', expiry)]"

definition with_status :: "jsval \<Rightarrow> int \<Rightarrow> jsval" where
  "with_status e code = JObj (upsert ''status'' (JInt code) (obj_entries e))"

definition binding_of :: "jsval \<Rightarrow> jsval" where
  "binding_of body = js_or (fld body ''binding'') (JObj [])"

definition registration_body :: "control \<Rightarrow> crypto \<Rightarrow> request_in \<Rightarrow> jsval + string \<times> jsval" where
  \<comment> \<open>the checks before the cluster is asked: the bootstrap token and the body\<close>
  "registration_body c cr rq =
     (if \<not> (fld (ct_config c) ''mode'' = JStr ''reconciler'' \<and> truthy (fld (ct_config c) ''registrationEnabled'')) then Inl (status_error 404 ''runtime registration disabled'')
      else case bearer_credential (rq_headers rq) of
        None \<Rightarrow> Inl (status_error 401 ''projected bootstrap token required'')
      | Some token \<Rightarrow> rbind (rq_body rq) (\<lambda>body. rbind (get_prop body ''contract'') (\<lambda>_.
          if \<not> registration_shape body then Inl (status_error 400 ''runtime registration contract rejected'')
          else rbind (validatedRuntimePublicKey cr (fld body ''publicKeyPem'') (fld body ''keyId'')) (\<lambda>_. Inr (token, body)))))"

definition registration_pod :: "control \<Rightarrow> string \<Rightarrow> jsval \<Rightarrow> jsval cprog" where
  \<comment> \<open>the Pod of the token, when it is the Pod of the binding\<close>
  "registration_pod c token binding =
     pbind (call (ct_env c) ''kube.tokenReview'' [JStr token]) (\<lambda>review.
     pbind (plift (validatedRuntimeIdentity review (ct_config c))) (\<lambda>identity.
     pbind (getPod c (to_str (fst identity))) (\<lambda>pod.
     pbind (plift (get_prop pod ''metadata'')) (\<lambda>_.
     pbind (pguard (status_error 403 ''bound runtime Pod identity changed'') (pod_bound pod (snd identity) binding)) (\<lambda>_. pret pod)))))"

definition registration_row :: "control \<Rightarrow> jsval \<Rightarrow> jsval cprog" where
  "registration_row c binding =
     pbind (classifyRuntimeRegistration (ct_db c) (JObj [(''sessionId'', fld binding ''sessionId''), (''generation'', fld binding ''generation''),
        (''fencingEpoch'', fld binding ''fencingEpoch'')])) (\<lambda>row.
     pbind (pguard (js_error ''RuntimeRegistrationNotReady'' [(''status'', JInt 409), (''code'', JStr ''RuntimeRegistrationNotReady'')])
        (fld row ''observed_state'' \<noteq> JStr ''Pending'')) (\<lambda>_.
     pbind (pguard (status_error 403 ''runtime registration fence rejected'') (truthy row \<and> exactBinding row binding)) (\<lambda>_. pret row)))"

definition registerRuntime :: "control \<Rightarrow> crypto \<Rightarrow> request_in \<Rightarrow> response cprog" where
  "registerRuntime c cr rq =
     pbind (plift (registration_body c cr rq)) (\<lambda>(token, body).
     pbind (registration_pod c token (binding_of body)) (\<lambda>pod.
     pbind (registration_row c (binding_of body)) (\<lambda>row.
     pbind (plift (attach_endpoint (fld (fld pod ''status'') ''podIP''))) (\<lambda>endpoint.
     pbind (pget (sd_now (ct_db c) \<circ> fx_log)) (\<lambda>now.
     pbind (plift (credential_expiry c row now)) (\<lambda>expiry.
     pbind (pcatch (db_registerRuntime (ct_db c) (registration_input row pod body endpoint expiry))
        (\<lambda>e. pthrow (if fld e ''code'' = JStr ''40001'' then with_status e 403 else e))) (\<lambda>registered.
     pret (200, JObj [(''contract'', JStr ''opensphere-shell-runtime/v1''), (''binding'', binding_of body), (''runtimeCredentialHash'', fld body ''runtimeCredentialHash''),
        (''runtimeCredentialExpiresAt'', fld registered ''runtime_credential_expires_at'')]))))))))"

section \<open>The runtime routes\<close>

definition context_invalid :: "string \<Rightarrow> jsval" where
  "context_invalid message = js_error message [(''code'', JInt 401)]"

definition rejected_context :: jsval where
  "rejected_context = context_invalid ''OS Shell context JWS rejected''"

definition base64url_char :: "char \<Rightarrow> bool" where
  "base64url_char c \<longleftrightarrow> alpha_char c \<or> digit_char c \<or> c = CHR ''_'' \<or> c = CHR ''-''"

definition decode :: "authority \<Rightarrow> string \<Rightarrow> jsval + string" where
  "decode au part = (if part = [] \<or> \<not> list_all base64url_char part \<or> au_dec au part = [] \<or> au_enc au (au_dec au part) \<noteq> part
     then Inl rejected_context else Inr (au_dec au part))"

definition parse_part :: "authority \<Rightarrow> string \<Rightarrow> jsval + jsval" where
  "parse_part au part = rbind (decode au part) (\<lambda>t. case au_parse au t of None \<Rightarrow> Inl rejected_context | Some v \<Rightarrow> Inr v)"

definition same_text :: "jsval \<Rightarrow> jsval \<Rightarrow> bool" where
  \<comment> \<open>\<open>String(a ?? '') === String(b ?? '')\<close>\<close>
  "same_text a b \<longleftrightarrow> to_str (js_coalesce a (JStr [])) = to_str (js_coalesce b (JStr []))"

definition either_name :: "jsval \<Rightarrow> string \<Rightarrow> string \<Rightarrow> jsval" where
  "either_name v a b = js_or (fld v a) (fld v b)"

definition context_bound :: "jsval \<Rightarrow> jsval \<Rightarrow> bool" where
  "context_bound claims binding \<longleftrightarrow> same_text (fld claims ''sessionId'') (either_name binding ''session_id'' ''sessionId'')
     \<and> same_text (fld claims ''actorId'') (either_name binding ''actor_id'' ''actorId'') \<and> same_text (fld claims ''runtimeUid'') (either_name binding ''runtime_uid'' ''runtimeUid'')
     \<and> same_text (fld claims ''origin'') (fld binding ''origin'')
     \<and> same_text (fld claims ''permissionRevision'') (either_name binding ''permission_revision'' ''permissionRevision'')
     \<and> same_text (fld claims ''aal'') (fld binding ''aal'') \<and> same_text (fld claims ''releaseEvidenceRef'') (either_name binding ''release_evidence_ref'' ''releaseEvidenceRef'')
     \<and> num_same (fld claims ''generation'') (fld binding ''generation'')
     \<and> num_same (fld claims ''fencingEpoch'') (either_name binding ''fencing_epoch'' ''fencingEpoch'')"

definition context_profile :: "jsval \<Rightarrow> bool" where
  "context_profile claims \<longleftrightarrow> fld claims ''contract'' = JStr ''opensphere-web-shell-context/v2'' \<and> fld claims ''iss'' = JStr ''opensphere-shell-credential-agent''
     \<and> fld claims ''aud'' = JStr ''opensphere-os-cli'' \<and> fld claims ''profile'' = JStr ''web-shell'' \<and> fld claims ''executionProfile'' = JStr ''web-shell''
     \<and> fld claims ''authority'' = JStr ''delegated-credential-agent'' \<and> fld claims ''sessionClass'' = JStr ''operator-interactive''
     \<and> fld claims ''runtimeAdapterId'' = JStr ''cbss.kubernetes-pod'' \<and> truthy (fld claims ''jti'')"

definition context_fresh :: "jsval \<Rightarrow> jnum \<Rightarrow> bool" where
  "context_fresh claims now \<longleftrightarrow> (let iat = fld claims ''iat''; nbf = fld claims ''nbf''; expires = fld claims ''exp''; current = seconds now in
     is_safe_integer iat \<and> \<not> num_less (to_num iat) (num_sub current (Fin 60)) \<and> \<not> num_less (num_add current (Fin 5)) (to_num iat)
     \<and> is_safe_integer nbf \<and> \<not> num_less (num_add current (Fin 5)) (to_num nbf)
     \<and> is_safe_integer expires \<and> \<not> num_le (to_num expires) current \<and> \<not> num_less (num_add current (Fin 120)) (to_num expires))"

definition context_signed :: "authority \<Rightarrow> crypto \<Rightarrow> string \<Rightarrow> string \<Rightarrow> string \<Rightarrow> jsval \<Rightarrow> jsval \<Rightarrow> jsval + unit" where
  "context_signed au cr h p g header binding = (let pem = to_str (either_name binding ''runtime_public_key_pem'' ''runtimePublicKeyPem'') in
     case cr_key cr pem of
       None \<Rightarrow> Inl (context_invalid ''runtime public key rejected'')
     | Some (kind, x) \<Rightarrow>
         if kind \<noteq> ''ed25519'' then Inl (context_invalid ''runtime signing key must be Ed25519'')
         else rbind (decode au g) (\<lambda>signature. rbind (get_prop header ''alg'') (\<lambda>alg.
           guard_else rejected_context (alg = JStr ''EdDSA'' \<and> fld header ''typ'' = JStr ''JWT'' \<and> fld header ''kid'' = JStr (cr_key_id cr x)
             \<and> cr_verify cr pem (h @ ''.'' @ p) signature))))"

definition verifyOsShellContextJws :: "authority \<Rightarrow> crypto \<Rightarrow> jsval \<Rightarrow> jsval \<Rightarrow> jnum \<Rightarrow> jsval + jsval" where
  "verifyOsShellContextJws au cr jws binding now = (case split_dots (str_or_empty jws) of
       [h, p, g] \<Rightarrow>
         rbind (parse_part au h) (\<lambda>header. rbind (parse_part au p) (\<lambda>claims.
         rbind (context_signed au cr h p g header binding) (\<lambda>_.
         rbind (get_prop claims ''contract'') (\<lambda>_.
         if context_profile claims \<and> context_bound claims binding \<and> context_fresh claims now then Inr claims else Inl rejected_context))))
     | _ \<Rightarrow> Inl rejected_context)"

definition unverifiedContext :: "authority \<Rightarrow> jsval \<Rightarrow> jsval" where
  "unverifiedContext au jws = (case split_dots (to_str jws) of
       [h, p, g] \<Rightarrow> (case au_parse au (au_dec au p) of Some v \<Rightarrow> v | None \<Rightarrow> JNull)
     | _ \<Rightarrow> JNull)"

definition exchange_body :: "authority \<Rightarrow> string \<Rightarrow> jsval" where
  "exchange_body au t = (if length t \<le> 65536 then (case au_parse au t of Some v \<Rightarrow> v | None \<Rightarrow> JObj []) else JObj [])"

definition delegatedCredential :: "control \<Rightarrow> jsval \<Rightarrow> jsval \<Rightarrow> jsval cprog" where
  "delegatedCredential c binding contextJws =
     pbind (call (ct_env c) ''credential.exchange'' [fld (ct_config c) ''consoleBackendURL'', JStr ''/api/internal/os-shell/credential'',
        JObj [(''binding'', binding), (''contextJws'', contextJws)], fld (ct_config c) ''delegationSecret'']) (\<lambda>reply.
     let code = to_num (fld reply ''statusCode''); body = exchange_body (sd_authority (ct_db c)) (to_str (fld reply ''body'')) in
     if num_less code (Fin 200) \<or> num_le (Fin 300) code then pthrow (status_error 502 ''delegated credential exchange rejected'')
     else pbind (plift (get_prop body ''accessToken'')) (\<lambda>access.
       if \<not> truthy access \<or> \<not> truthy (fld body ''tokenExpiresAt'') then pthrow (status_error 502 ''delegated credential exchange rejected'') else pret body))"

definition CONTROL_CONTRACT :: jsval where "CONTROL_CONTRACT = JStr ''opensphere-shell-control/v1''"

definition runtime_coordinates :: "string \<Rightarrow> jsval \<Rightarrow> (string \<times> jsval) list" where
  "runtime_coordinates credentialHash v = [(''runtimeCredentialHash'', JStr credentialHash), (''sessionId'', fld v ''sessionId''), (''runtimeUid'', fld v ''runtimeUid''),
     (''generation'', fld v ''generation''), (''fencingEpoch'', fld v ''fencingEpoch'')]"

definition authorized_reply :: response where
  "authorized_reply = (200, JObj [(''contract'', CONTROL_CONTRACT), (''authorized'', JBool True), (''state'', JStr ''Active'')])"

definition runtime_credential :: "control \<Rightarrow> crypto \<Rightarrow> string \<Rightarrow> jsval \<Rightarrow> response cprog" where
  "runtime_credential c cr credentialHash body = (let au = sd_authority (ct_db c); claims = unverifiedContext au (fld body ''contextJws'') in
     if \<not> truthy claims then pthrow (status_error 400 ''context JWS required'')
     else pbind (revalidateRuntime (ct_db c) (JObj (runtime_coordinates credentialHash claims))) (\<lambda>row.
       pbind (pguard (status_error 403 ''runtime credential revoked'') (truthy row)) (\<lambda>_.
       pbind (pget (sd_now (ct_db c) \<circ> fx_log)) (\<lambda>now.
       pbind (plift (verifyOsShellContextJws au cr (fld body ''contextJws'') row now)) (\<lambda>_.
       pbind (delegatedCredential c (JObj (bindingFrom row)) (fld body ''contextJws'')) (\<lambda>delegated.
       pret (200, JObj (spread [(''contract'', CONTROL_CONTRACT)] (obj_entries delegated)))))))))"

definition runtime_attach :: "control \<Rightarrow> string \<Rightarrow> jsval \<Rightarrow> response cprog" where
  "runtime_attach c credentialHash body = (let binding = js_or (fld body ''binding'') (JObj []); attach = js_or (fld body ''attach'') (JObj []) in
     pbind (authorizeRuntimeAttach (ct_db c) (JObj (runtime_coordinates credentialHash binding @ [(''ticket'', fld attach ''ticket'')]))) (\<lambda>row.
     pbind (pguard (status_error 403 ''runtime attach rejected'') (truthy row \<and> exactBinding row binding)) (\<lambda>_. pret authorized_reply)))"

definition runtime_revalidate :: "control \<Rightarrow> string \<Rightarrow> jsval \<Rightarrow> response cprog" where
  "runtime_revalidate c credentialHash body = (let binding = js_or (fld body ''binding'') (JObj []) in
     pbind (revalidateRuntime (ct_db c) (JObj (runtime_coordinates credentialHash binding))) (\<lambda>row.
     pbind (pguard (status_error 403 ''runtime authorization revoked'') (truthy row \<and> exactBinding row binding)) (\<lambda>_. pret authorized_reply)))"

definition runtimeApi :: "control \<Rightarrow> crypto \<Rightarrow> request_in \<Rightarrow> response cprog" where
  "runtimeApi c cr rq =
     pbind (pguard (status_error 404 ''runtime control disabled'') (fld (ct_config c) ''mode'' = JStr ''api'' \<and> truthy (fld (ct_config c) ''runtimeControlEnabled''))) (\<lambda>_.
     pbind (plift (case bearer_credential (rq_headers rq) of None \<Rightarrow> Inl (status_error 401 ''runtime credential required'') | Some t \<Rightarrow> Inr t)) (\<lambda>token.
     pbind (plift (rq_body rq)) (\<lambda>body.
     pbind (plift (get_prop body ''contract'')) (\<lambda>contract.
     pbind (pguard (status_error 400 ''runtime control contract mismatch'') (contract = CONTROL_CONTRACT)) (\<lambda>_.
     let credentialHash = credential_hash cr token in
     if ends_with ''/credential'' (rq_path rq) then runtime_credential c cr credentialHash body
     else if ends_with ''/attach-authorize'' (rq_path rq) then runtime_attach c credentialHash body
     else if ends_with ''/revalidate'' (rq_path rq) then runtime_revalidate c credentialHash body
     else pthrow (status_error 404 ''runtime control route not found''))))))"

section \<open>The browser routes\<close>

definition byte_hex :: "nat \<Rightarrow> string" where
  "byte_hex b = [hex_digit (b div 16), hex_digit (b mod 16)]"

definition stamped :: "nat list \<Rightarrow> nat list" where
  \<comment> \<open>the version and variant bits: \<open>bytes[6] & 0x0f | 0x40\<close>, \<open>bytes[8] & 0x3f | 0x80\<close>\<close>
  "stamped bytes = (let b = take 16 bytes in b[6 := b ! 6 mod 16 + 64, 8 := b ! 8 mod 64 + 128])"

definition uuid_text :: "nat list \<Rightarrow> string" where
  "uuid_text bytes = (let h = concat (map byte_hex bytes) in
     take 8 h @ ''-'' @ take 4 (drop 8 h) @ ''-'' @ take 4 (drop 12 h) @ ''-'' @ take 4 (drop 16 h) @ ''-'' @ drop 20 h)"

definition idempotentSessionId :: "crypto \<Rightarrow> jsval \<Rightarrow> jsval \<Rightarrow> jsval \<Rightarrow> jsval \<Rightarrow> jsval + string" where
  "idempotentSessionId cr secret actorId browserSessionId key =
     (if \<not> is_uuid (str_or_empty key)
      then Inl (js_error ''IdempotencyKeyRequired'' [(''code'', JStr ''IdempotencyKeyRequired''), (''status'', JInt 400)])
      else Inr (uuid_text (stamped (cr_hmac cr (to_str secret)
        (''opensphere-shell-idempotency/v1'' @ [CHR 0x00] @ to_str actorId @ [CHR 0x00] @ to_str browserSessionId @ [CHR 0x00] @ to_lower (to_str key))))))"

definition releaseReadiness :: "jsval \<Rightarrow> jsval" where
  "releaseReadiness config = JObj (map (\<lambda>k. (k, fld config k)) [''runtimeImageDigest'', ''osArtifactDigest'', ''manifestSha256'', ''releaseEvidenceRef'',
       ''sessionPolicyRevision'', ''runtimeTemplateRevision'', ''runtimeMaxProcesses'', ''runtimeGlobalPodLimit''] @ [(''userNamespacePolicy'', JStr ''required-hostUsers-false'')])"

definition componentReadiness :: "control \<Rightarrow> (string \<times> jsval) list cprog" where
  "componentReadiness c = (if fld (ct_config c) ''mode'' \<noteq> JStr ''api''
     then pret [(''gateway'', JBool True), (''reconciler'', JBool True), (''credentialAuthority'', JBool True), (''consoleApi'', JBool True)]
     else pbind (call (ct_env c) ''probe.component'' [fld (ct_config c) ''gatewayReadinessURL'', JStr ''gateway'']) (\<lambda>gateway.
       pbind (call (ct_env c) ''probe.component'' [fld (ct_config c) ''reconcilerReadinessURL'', JStr ''reconciler'']) (\<lambda>reconciler.
       pbind (call (ct_env c) ''probe.dependency'' [fld (ct_config c) ''credentialAuthorityReadinessURL'', JStr ''opensphere-shell-credential-authority'']) (\<lambda>authority.
       pbind (call (ct_env c) ''probe.dependency'' [fld (ct_config c) ''consoleAPIReadinessURL'', JStr ''supabase-data-identity'']) (\<lambda>api.
       pret [(''gateway'', gateway), (''reconciler'', reconciler), (''credentialAuthority'', authority), (''consoleApi'', api)])))))"

definition blocker_code :: "jsval \<Rightarrow> bool \<Rightarrow> (string \<times> jsval) list \<Rightarrow> string" where
  "blocker_code feature policyExact components = (let ok = (\<lambda>k. truthy (fld (JObj components) k)) in
     if fld feature ''enabled'' \<noteq> JBool True then ''ShellFeatureDisabled'' else if \<not> policyExact then ''ShellQuotaPolicyDrift''
     else if \<not> ok ''gateway'' then ''ShellGatewayUnavailable'' else if \<not> ok ''reconciler'' then ''ShellReconcilerUnavailable''
     else if \<not> ok ''credentialAuthority'' then ''ShellCredentialAuthorityUnavailable'' else ''ShellConsoleApiUnavailable'')"

definition is_ready :: "control \<Rightarrow> jsval \<Rightarrow> bool \<Rightarrow> (string \<times> jsval) list \<Rightarrow> bool" where
  "is_ready c feature policyExact components \<longleftrightarrow> truthy (fld (ct_config c) ''enabled'') \<and> fld feature ''enabled'' = JBool True \<and> policyExact
     \<and> fld (ct_config c) ''mode'' = JStr ''api'' \<and> list_all (\<lambda>kv. truthy (snd kv)) components"

definition readiness_body :: "control \<Rightarrow> jsval \<Rightarrow> (string \<times> jsval) list \<Rightarrow> string \<Rightarrow> jsval" where
  "readiness_body c feature components observedAt = (let config = ct_config c;
       policyExact = strict_eq (JNum (to_num (fld feature ''global_active_limit''))) (fld config ''runtimeGlobalPodLimit'');
       ready = is_ready c feature policyExact components in
     JObj [(''readiness'', JObj [(''authorized'', JBool True), (''enabled'', JBool (truthy (fld config ''enabled'') \<and> fld feature ''enabled'' = JBool True)),
       (''ready'', JBool ready), (''components'', JObj components),
       (''feature'', JObj [(''revision'', JNum (to_num (fld feature ''revision''))), (''activeSessions'', JNum (to_num (fld feature ''active_sessions''))),
          (''scaleDownAllowed'', JBool (fld feature ''scale_down_allowed'' = JBool True))]),
       (''blocker'', if ready then JNull else JObj [(''code'', JStr (blocker_code feature policyExact components)),
          (''nextAction'', JStr ''Restore the exact-digest CBSS components, credential authority, and canonical Console API frontdoor.'')]),
       (''observedAt'', JStr observedAt), (''sessionClass'', JStr ''operator-interactive''), (''runtimeAdapterId'', JStr ''cbss.kubernetes-pod''),
       (''networkProfile'', JStr ''console-only''), (''release'', releaseReadiness config)])])"

definition readiness_route :: "control \<Rightarrow> jsval \<Rightarrow> response cprog" where
  "readiness_route c claims =
     pbind (currentPermissionRevision (ct_db c) (fld claims ''sub'') (js_coalesce (fld claims ''permissionRevision'') JNull)) (\<lambda>_.
     pbind (featureState (ct_db c)) (\<lambda>feature.
     pbind (componentReadiness c) (\<lambda>components.
     pbind (pget (sd_now (ct_db c) \<circ> fx_log)) (\<lambda>now.
     pbind (plift (to_iso_string now)) (\<lambda>observedAt. pret (200, readiness_body c feature components observedAt))))))"

definition session_lifetime :: "authority \<Rightarrow> jsval \<Rightarrow> jnum \<Rightarrow> jsval + jnum \<times> jnum" where
  \<comment> \<open>the idle and the absolute expiry of a new session\<close>
  "session_lifetime au claims now = (let absolute = num_min (au_date au (to_str (fld claims ''browserAbsoluteExpiresAt''))) (num_add now (Fin 3600000));
       idle = num_min (num_min (au_date au (to_str (fld claims ''browserIdleExpiresAt''))) absolute) (num_add now (Fin 900000)) in
     if \<not> num_is_finite idle \<or> num_le idle (num_add now (Fin 5000)) \<or> num_less absolute idle
     then Inl (status_error 409 ''browser session lifetime is insufficient'') else Inr (idle, absolute))"

definition release_evidence :: "jsval \<Rightarrow> jsval" where
  "release_evidence config = JObj [(''releaseEvidenceRef'', fld config ''releaseEvidenceRef''), (''manifestSha256'', fld config ''manifestSha256''),
     (''keyId'', fld config ''releaseKeyId''), (''runtimeImageDigest'', fld config ''runtimeImageDigest''), (''osArtifactDigest'', fld config ''osArtifactDigest''),
     (''sessionPolicyRevision'', fld config ''sessionPolicyRevision'')]"

definition create_route :: "control \<Rightarrow> crypto \<Rightarrow> request_in \<Rightarrow> jsval \<Rightarrow> response cprog" where
  "create_route c cr rq claims = (let config = ct_config c in
     pbind (plift (rbind (rq_body rq) normalizeSessionIntent)) (\<lambda>_.
     pbind (pget (sd_now (ct_db c) \<circ> fx_log)) (\<lambda>now.
     pbind (plift (session_lifetime (sd_authority (ct_db c)) claims now)) (\<lambda>(idle, absolute).
     pbind (plift (idempotentSessionId cr (fld config ''admissionSecret'') (fld claims ''sub'') (fld claims ''browserSessionId'') (fld (rq_headers rq) ''x-os-idempotency-key''))) (\<lambda>sid.
     pbind (plift (to_iso_string idle)) (\<lambda>idleAt.
     pbind (plift (to_iso_string absolute)) (\<lambda>absoluteAt.
     pbind (createSession (ct_db c) (JObj [(''sessionId'', JStr sid), (''browserSessionId'', fld claims ''browserSessionId''), (''actorId'', fld claims ''sub''),
        (''origin'', fld claims ''origin''), (''aal'', fld claims ''aal''), (''permissionRevision'', fld claims ''permissionRevision''),
        (''runtimeTemplateRevision'', fld config ''runtimeTemplateRevision''), (''idleExpiresAt'', JStr idleAt), (''absoluteExpiresAt'', JStr absoluteAt),
        (''releaseEvidence'', release_evidence config)])) (\<lambda>row.
     pret (201, JObj [(''session'', publicSession row)])))))))))"

definition session_route :: "string \<Rightarrow> (string \<times> bool) option" where
  \<comment> \<open>\<open>/^\/api\/os-shell\/sessions\/([0-9a-f-]{36})(?:\/(attach-ticket))?$/i\<close> with a UUID: its id, and whether the ticket is asked for\<close>
  "session_route path = (let prefix = ''/api/os-shell/sessions/''; sid = take 36 (drop (length prefix) path); rest = to_lower (drop (length prefix + 36) path) in
     if to_lower (take (length prefix) path) = prefix \<and> is_uuid sid \<and> (rest = [] \<or> rest = ''/attach-ticket'') then Some (sid, rest \<noteq> []) else None)"

definition found :: "jsval \<Rightarrow> jsval + jsval" where
  "found row = (if truthy row then Inr row else Inl (status_error 404 ''session not found''))"

definition ticket_route :: "control \<Rightarrow> (string \<times> jsval) list \<Rightarrow> jsval \<Rightarrow> response cprog" where
  "ticket_route c base claims =
     pbind (getSession (ct_db c) (JObj base)) (\<lambda>found_row.
     pbind (plift (found found_row)) (\<lambda>row.
     pbind (call (ct_env c) ''randomBytes'' [JInt 32]) (\<lambda>random.
     pbind (plift (createAttachTicket (sd_authority (ct_db c)) (to_str random))) (\<lambda>(ticket, ticketHash).
     pbind (pget (sd_now (ct_db c) \<circ> fx_log)) (\<lambda>now.
     pbind (plift (to_iso_string (num_add now (Fin 25000)))) (\<lambda>expiresAt.
     pbind (issueAttachTicket (ct_db c) (JObj (base @ [(''aal'', fld claims ''aal''), (''generation'', fld row ''generation''), (''fencingEpoch'', fld row ''fencing_epoch''),
        (''ticketHash'', JStr ticketHash), (''expiresAt'', JStr expiresAt)]))) (\<lambda>_.
     pret (201, JObj [(''attachTicket'', JObj [(''ticket'', JStr ticket), (''expiresAt'', JStr expiresAt), (''protocol'', JStr ''opensphere.pty.v1''),
        (''sessionId'', fld row ''session_id''), (''generation'', JNum (to_num (fld row ''generation''))),
        (''fencingEpoch'', JNum (to_num (fld row ''fencing_epoch'')))])]))))))))"

definition browserApi :: "control \<Rightarrow> crypto \<Rightarrow> request_in \<Rightarrow> jsval \<Rightarrow> response cprog" where
  "browserApi c cr rq claims =
     (if rq_path rq = ''/api/os-shell/readiness'' \<and> rq_method rq = ''GET'' then readiness_route c claims
      else if fld (ct_config c) ''mode'' \<noteq> JStr ''api'' then pthrow (status_error 404 ''browser API is not served by this mode'')
      else if rq_path rq = ''/api/os-shell/sessions'' \<and> rq_method rq = ''GET''
      then pbind (listSessions (ct_db c) (JObj [(''browserSessionId'', fld claims ''browserSessionId''), (''actorId'', fld claims ''sub''),
          (''permissionRevision'', fld claims ''permissionRevision'')])) (\<lambda>items. pret (200, JObj [(''items'', JArr (map publicSession items))]))
      else if rq_path rq = ''/api/os-shell/sessions'' \<and> rq_method rq = ''POST'' then create_route c cr rq claims
      else case session_route (rq_path rq) of
        None \<Rightarrow> pthrow (status_error 404 ''OS Shell API route not found'')
      | Some (sid, ticket) \<Rightarrow>
          let base = [(''sessionId'', JStr sid), (''browserSessionId'', fld claims ''browserSessionId''), (''actorId'', fld claims ''sub''),
            (''origin'', fld claims ''origin''), (''permissionRevision'', fld claims ''permissionRevision'')] in
          if \<not> ticket \<and> rq_method rq = ''GET''
          then pbind (getSession (ct_db c) (JObj base)) (\<lambda>row. pbind (plift (found row)) (\<lambda>row1. pret (200, JObj [(''session'', publicSession row1)])))
          else if \<not> ticket \<and> rq_method rq = ''DELETE''
          then pbind (requestTeardown (ct_db c) (JObj (base @ [(''reasonCode'', JStr ''OperatorRequested'')])))
            (\<lambda>row. pbind (plift (found row)) (\<lambda>row1. pret (202, JObj [(''session'', publicSession row1)])))
          else if ticket \<and> rq_method rq = ''POST'' then ticket_route c base claims
          else pthrow (status_error 405 ''method not allowed''))"

section \<open>Which runtime is registered\<close>

definition token_of_pod :: "jsval \<Rightarrow> jsval \<Rightarrow> jsval \<Rightarrow> jsval \<Rightarrow> bool" where
  \<comment> \<open>the review authenticates the configured service account for the bootstrap audience, in exactly this Pod\<close>
  "token_of_pod config review podName podUid \<longleftrightarrow> (let user = fld (fld review ''status'') ''user''; extra = fld user ''extra'' in
     fld (fld review ''status'') ''authenticated'' = JBool True
     \<and> fld user ''username'' = JStr (''system:serviceaccount:'' @ to_str (fld config ''namespace'') @ '':'' @ to_str (fld config ''runtimeServiceAccount''))
     \<and> fld (fld review ''status'') ''audiences'' = JArr [JStr ''opensphere-shell-runtime-bootstrap'']
     \<and> fld extra ''authentication.kubernetes.io/pod-name'' = JArr [podName] \<and> fld extra ''authentication.kubernetes.io/pod-uid'' = JArr [podUid])"

definition pod_of_binding :: "jsval \<Rightarrow> jsval \<Rightarrow> jsval \<Rightarrow> bool" where
  "pod_of_binding pod podUid binding \<longleftrightarrow> (let labels = fld (fld pod ''metadata'') ''labels'' in
     strict_eq (fld (fld pod ''metadata'') ''uid'') podUid \<and> strict_eq (fld binding ''runtimeUid'') podUid
     \<and> strict_eq (fld labels ''opensphere.io/session-id'') (fld binding ''sessionId'')
     \<and> num_eq (to_num (fld labels ''opensphere.io/generation'')) (to_num (fld binding ''generation''))
     \<and> num_eq (to_num (fld labels ''opensphere.io/fencing-epoch'')) (to_num (fld binding ''fencingEpoch'')))"

definition token_pod :: "control \<Rightarrow> string \<Rightarrow> jsval \<Rightarrow> history \<Rightarrow> jsval \<Rightarrow> bool" where
  \<comment> \<open>the token was reviewed as that of a Pod, and that Pod was read and is the one of the binding\<close>
  "token_pod c token binding h pod \<longleftrightarrow> (\<exists>review podName podUid. (Call ''kube.tokenReview'' [JStr token], Inr review) \<in> set h
     \<and> token_of_pod (ct_config c) review podName podUid
     \<and> (Call ''kube.getPod'' [ct_namespace c, JStr (to_str podName)], Inr pod) \<in> set h \<and> pod_of_binding pod podUid binding)"

definition classified_row :: "jsval \<Rightarrow> history \<Rightarrow> jsval \<Rightarrow> bool" where
  \<comment> \<open>the database classified the row, and every field of its binding is the one submitted\<close>
  "classified_row binding h row \<longleftrightarrow> (\<exists>as r. (Call ''console_shell.classify_shell_runtime_registration'' as, Inr r) \<in> set h
     \<and> row \<in> set (db_rows r) \<and> fld row ''observed_state'' \<noteq> JStr ''Pending''
     \<and> list_all (\<lambda>(k, v). strict_eq (fld binding k) v) (bindingFrom row) \<and> fst ` set (obj_entries binding) = fst ` set (bindingFrom row))"

lemma fld_or_empty: "fld (js_or v (JObj [])) k = fld v k"
  by (cases v) (auto simp: js_or_def fld_def)

lemma one_element: "is_array v \<Longrightarrow> length (elems v) = 1 \<Longrightarrow> v = JArr [hd (elems v)]"
  by (cases v) (auto simp: is_array_def elems_def length_Suc_conv)

lemma if_Inr: "(if P then Inl e else Inr x) = Inr y \<longleftrightarrow> \<not> P \<and> y = x"
  by auto

lemma identity_token: "validatedRuntimeIdentity review config = Inr identity \<Longrightarrow> token_of_pod config review (fst identity) (snd identity)"
  unfolding validatedRuntimeIdentity_def token_of_pod_def Let_def fld_or_empty if_Inr de_Morgan_disj not_not
  by (elim conjE, hypsubst, unfold fst_conv snd_conv, intro conjI) (assumption | rule one_element)+

lemma bound_pod: "pod_bound pod podUid binding \<Longrightarrow> pod_of_binding pod podUid binding"
  unfolding pod_bound_def pod_of_binding_def Let_def fld_or_empty num_same_def pod_uid_def by argo

lemma exact_binding: "exactBinding row b \<Longrightarrow> list_all (\<lambda>(k, v). strict_eq (fld b k) v) (bindingFrom row) \<and> fst ` set (obj_entries b) = fst ` set (bindingFrom row)"
  unfolding exactBinding_def by (metis set_sort set_map)

lemma classified_rowI:
  "(Call ''console_shell.classify_shell_runtime_registration'' as, Inr r) \<in> set h \<Longrightarrow> row \<in> set (db_rows r) \<Longrightarrow> fld row ''observed_state'' \<noteq> JStr ''Pending'' \<Longrightarrow>
    exactBinding row b \<Longrightarrow> classified_row b h row"
  unfolding classified_row_def using exact_binding [of row b] by blast

definition registers_ok :: "control \<Rightarrow> crypto \<Rightarrow> request_in \<Rightarrow> history \<Rightarrow> service_call \<Rightarrow> bool" where
  "registers_ok c cr rq h cl \<longleftrightarrow> cname cl = ''console_shell.register_shell_runtime'' \<longrightarrow>
     (\<exists>token body pod row. registration_body c cr rq = Inr (token, body) \<and> token_pod c token (binding_of body) h pod \<and> classified_row (binding_of body) h row
        \<and> length (cargs cl) = 14 \<and> Inr (cargs cl ! 0) = text_arg (JObj [(''sessionId'', fld row ''session_id'')]) ''sessionId''
        \<and> Inr (cargs cl ! 6) = text_arg (JObj [(''runtimeUid'', pod_uid pod)]) ''runtimeUid'')"

lemma token_pod_mono: "token_pod c token b h pod \<Longrightarrow> set h \<subseteq> set h' \<Longrightarrow> token_pod c token b h' pod"
  unfolding token_pod_def by blast

lemma classified_row_mono: "classified_row b h row \<Longrightarrow> set h \<subseteq> set h' \<Longrightarrow> classified_row b h' row"
  unfolding classified_row_def by blast

lemma other_call_registers [simp]: "f \<noteq> ''console_shell.register_shell_runtime'' \<Longrightarrow> registers_ok c cr rq h (Call f as)"
  by (simp add: registers_ok_def)

lemma execute_run:
  assumes "\<And>vs. map_res (\<lambda>a. a) args = Inr vs \<Longrightarrow> P (fx_log s) (Call f vs)"
  shows "run P (db_execute sd f args) (\<lambda>rows t. \<exists>as r. (Call f as, Inr r) \<in> set (fx_log t) \<and> rows = db_rows r) (\<lambda>_ _. True) s"
  unfolding db_execute_def
  by (rule run_plift_bind, rule run_pbind [OF run_mono [OF run_call [where P = P, OF assms]]], assumption+, simp) auto

lemma revision_run: "run (registers_ok c cr rq) (current_revision sd input) (\<lambda>_ _. True) (\<lambda>_ _. True) s"
  unfolding current_revision_def currentPermissionRevision_def
  by (rule run_plift_bind, rule run_pbind [OF execute_run]) (auto simp: Let_def)

lemma classify_run:
  "run (registers_ok c cr rq) (classifyRuntimeRegistration sd input)
     (\<lambda>row t. truthy row \<longrightarrow> (\<exists>as r. (Call ''console_shell.classify_shell_runtime_registration'' as, Inr r) \<in> set (fx_log t) \<and> row \<in> set (db_rows r))) (\<lambda>_ _. True) s"
  unfolding classifyRuntimeRegistration_def
  by (rule run_pbind [OF execute_run], simp) (auto simp: first_or_null_def or_null_def js_or_def split: list.splits, metis list.set_intros(1))

lemma register_args_ok:
  assumes "map_res (\<lambda>a. a) (worker_args input @ [Inr revision] @ map (text_arg input) names) = Inr vs" and "names = ''runtimeUid'' # others" "length others = 7"
    and "fld input ''sessionId'' = sid" "fld input ''runtimeUid'' = uid"
  shows "length vs = 14 \<and> Inr (vs ! 0) = text_arg (JObj [(''sessionId'', sid)]) ''sessionId'' \<and> Inr (vs ! 6) = text_arg (JObj [(''runtimeUid'', uid)]) ''runtimeUid''"
proof -
  let ?as = "worker_args input @ [Inr revision] @ map (text_arg input) names"
  have m: "?as = map Inr vs"
    using assms(1) by (simp only: map_res_id)
  have l: "length vs = 14"
    using arg_cong [OF m, of length] assms(2,3) by (simp add: worker_args_def fence_args_def)
  then have "?as ! 0 = Inr (vs ! 0)" "?as ! 6 = Inr (vs ! 6)"
    unfolding m by simp_all
  then show ?thesis
    using l assms(2,4,5) by (simp add: worker_args_def fence_args_def text_arg_def fld_def [of "JObj _"])
qed

lemma register_run:
  assumes "registration_body c cr rq = Inr (token, body)" "token_pod c token (binding_of body) (fx_log s) pod" "classified_row (binding_of body) (fx_log s) row"
  shows "run (registers_ok c cr rq) (db_registerRuntime sd (registration_input row pod body endpoint expiry)) (\<lambda>_ _. True) (\<lambda>_ _. True) s"
  unfolding db_registerRuntime_def
proof (rule run_pbind [OF revision_run], rule run_pbind [OF execute_run])
  let ?in = "registration_input row pod body endpoint expiry"
  let ?names = "[''runtimeUid'', ''runtimeResourceVersion'', ''runtimeKeyId'', ''runtimePublicKeyPem'', ''runtimeTlsCertificateSha256'', ''runtimeAttachEndpoint'',
         ''runtimeCredentialHash'', ''runtimeCredentialExpiresAt'']"
  fix revision vs and t :: "'a fx_scheme"
  assume t: "set (fx_log s) \<subseteq> set (fx_log t)" and m: "map_res (\<lambda>a. a) (worker_args ?in @ [Inr revision] @ map (text_arg ?in) ?names) = Inr vs"
  have "length vs = 14 \<and> Inr (vs ! 0) = text_arg (JObj [(''sessionId'', fld row ''session_id'')]) ''sessionId''
      \<and> Inr (vs ! 6) = text_arg (JObj [(''runtimeUid'', pod_uid pod)]) ''runtimeUid''"
    by (rule register_args_ok [OF m refl]) (simp_all add: registration_input_def fld_def [of "JObj _"])
  then show "registers_ok c cr rq (fx_log t) (Call ''console_shell.register_shell_runtime'' vs)"
    using assms(1) token_pod_mono [OF assms(2) t] classified_row_mono [OF assms(3) t] unfolding registers_ok_def by auto
qed (simp split: sum.split)

lemma answered_run: "P (fx_log s) (Call f as) \<Longrightarrow> run P (call env f as) (\<lambda>x t. (Call f as, Inr x) \<in> set (fx_log t)) (\<lambda>_ _. True) s"
  by (rule run_mono [OF run_call]) simp_all

lemma registration_pod_run:
  "run (registers_ok c cr rq) (registration_pod c token b) (\<lambda>pod t. token_pod c token b (fx_log t) pod) (\<lambda>_ _. True) s"
  unfolding registration_pod_def getPod_def
proof (rule run_pbind [OF answered_run])
  fix review and t :: cstate
  assume r: "(Call ''kube.tokenReview'' [JStr token], Inr review) \<in> set (fx_log t)"
  show "run (registers_ok c cr rq) (pbind (plift (validatedRuntimeIdentity review (ct_config c))) (\<lambda>identity.
     pbind (call (ct_env c) ''kube.getPod'' [ct_namespace c, JStr (to_str (fst identity))]) (\<lambda>pod.
     pbind (plift (get_prop pod ''metadata'')) (\<lambda>_.
     pbind (pguard (status_error 403 ''bound runtime Pod identity changed'') (pod_bound pod (snd identity) b)) (\<lambda>_. pret pod)))))
     (\<lambda>pod t. token_pod c token b (fx_log t) pod) (\<lambda>_ _. True) t"
  proof (rule run_plift_bind, rule run_pbind [OF answered_run], simp, rule run_plift_bind, rule run_pguard_bind, unfold run_pure)
    fix identity pod and u :: cstate
    assume "validatedRuntimeIdentity review (ct_config c) = Inr identity" "set (fx_log t) \<subseteq> set (fx_log u)" "pod_bound pod (snd identity) b"
      "(Call ''kube.getPod'' [ct_namespace c, JStr (to_str (fst identity))], Inr pod) \<in> set (fx_log u)"
    then show "token_pod c token b (fx_log u) pod"
      unfolding token_pod_def using r by (intro exI [of _ review] exI [of _ "fst identity"] exI [of _ "snd identity"]) (simp add: subset_iff identity_token bound_pod)
  qed (rule TrueI)+
qed simp_all

lemma registration_row_run:
  "run (registers_ok c cr rq) (registration_row c b) (\<lambda>row t. classified_row b (fx_log t) row) (\<lambda>_ _. True) s"
  unfolding registration_row_def
  by (rule run_pbind [OF classify_run], rule run_pguard_bind, rule run_pguard_bind) (auto intro: classified_rowI)

lemma registerRuntime_run: "run (registers_ok c cr rq) (registerRuntime c cr rq) (\<lambda>_ _. True) (\<lambda>_ _. True) s"
  unfolding registerRuntime_def
proof (rule run_plift_bind, clarify, rule run_pbind [OF registration_pod_run], rule run_pbind [OF registration_row_run], rule run_plift_bind, unfold run_pget_bind, rule run_plift_bind)
  fix token body pod row endpoint expiry and t u :: cstate
  assume "registration_body c cr rq = Inr (token, body)" "token_pod c token (binding_of body) (fx_log t) pod" "classified_row (binding_of body) (fx_log u) row"
    "set (fx_log t) \<subseteq> set (fx_log u)"
  then have "run (registers_ok c cr rq) (db_registerRuntime (ct_db c) (registration_input row pod body endpoint expiry)) (\<lambda>_ _. True) (\<lambda>_ _. True) u"
    by (rule_tac register_run [OF _ token_pod_mono])
  then show "run (registers_ok c cr rq) (pbind (pcatch (db_registerRuntime (ct_db c) (registration_input row pod body endpoint expiry))
      (\<lambda>e. pthrow (if fld e ''code'' = JStr ''40001'' then with_status e 403 else e))) (\<lambda>registered.
     pret (200, JObj [(''contract'', JStr ''opensphere-shell-runtime/v1''), (''binding'', binding_of body), (''runtimeCredentialHash'', fld body ''runtimeCredentialHash''),
        (''runtimeCredentialExpiresAt'', fld registered ''runtime_credential_expires_at'')]))) (\<lambda>_ _. True) (\<lambda>_ _. True) u"
    by (intro run_pbind [OF run_pcatch [where ?E0.0 = "\<lambda>_ _. True"]]) simp_all
qed simp_all

text \<open>C25: Whatever the cluster and the database answer, a runtime registration records a runtime only for the Pod that holds the request's bootstrap token: the token review
  names the configured service account and the bootstrap audience and exactly one Pod; the Pod read under that name has the UID of the review, and its labels are the
  session, the generation and the fencing epoch of the submitted binding, which names the same UID; the database has returned a session row that is no longer pending
  and whose binding is exactly the submitted one; and what is recorded is the session of that row and the UID of that Pod.\<close>

theorem registered_runtime_is_the_bound_pod:
  "\<exists>h. fx_log (snd (registerRuntime c cr rq s)) = fx_log s @ h \<and> obeys (registers_ok c cr rq) (fx_log s) h"
  by (rule run_obeys [OF registerRuntime_run])

end
