(* ===== verification/ShellRelay.thy ===== *)
theory ShellRelay
  imports CommandSchema
begin

text \<open>
  The frame relay of the OS Shell gateway: \<open>browserFrame\<close>, \<open>runtimeFrame\<close> and the two \<open>message\<close> listeners that \<open>attach\<close> installs
  (\<open>src/apps/os-shell-control/server.js\<close>).

  The state of a connection holds the variables of the closure; \<open>toRuntime\<close> and \<open>toBrowser\<close> list what was sent, and \<open>closed\<close> the close requests.  A close
  request does not stop the listeners at once, so the relay goes on with later messages as the source does.  \<open>JSON.parse\<close>, base64 and the decoding of UTF-8
  are fields of the record \<open>codec\<close>; the length of the UTF-8 encoding is computed.
\<close>

record codec =
  cd_parse :: "string \<Rightarrow> jsval option"
  cd_encode :: "string \<Rightarrow> string"
  cd_decode :: "string \<Rightarrow> string"
  cd_text :: "string \<Rightarrow> string"

record rate =
  rt_started :: int
  rt_frames :: nat
  rt_bytes :: nat

definition utf8_length :: "string \<Rightarrow> nat" where
  \<comment> \<open>\<open>Buffer.byteLength(text)\<close>: two bytes for a code unit from 128 to 255\<close>
  "utf8_length t = sum_list (map (\<lambda>c. if (of_char c :: nat) < 128 then 1 else 2) t)"

definition stdin_bytes :: "jsval \<Rightarrow> nat" where
  "stdin_bytes v = (if fld v ''type'' = JStr ''stdin'' then utf8_length (to_str (fld v ''data'')) else 0)"

definition between :: "jsval \<Rightarrow> rat \<Rightarrow> rat \<Rightarrow> bool" where
  \<comment> \<open>\<open>Number.isInteger(v) && v >= lo && v <= hi\<close>\<close>
  "between v lo hi \<longleftrightarrow> (case v of JNum (Fin r) \<Rightarrow> is_int_rat r \<and> lo \<le> r \<and> r \<le> hi | _ \<Rightarrow> False)"

definition fresh_sequence :: "jsval \<Rightarrow> string \<Rightarrow> rat \<Rightarrow> bool" where
  \<comment> \<open>a plain object whose sequence number is a safe integer above the previous one\<close>
  "fresh_sequence v name previous \<longleftrightarrow> is_plain_object v \<and> is_safe_integer (fld v name) \<and> (case fld v name of JNum (Fin r) \<Rightarrow> previous < r | _ \<Rightarrow> False)"

definition sequence_of :: "jsval \<Rightarrow> string \<Rightarrow> rat" where
  "sequence_of v name = (case fld v name of JNum (Fin r) \<Rightarrow> r | _ \<Rightarrow> 0)"

definition browser_payload :: "codec \<Rightarrow> jsval \<Rightarrow> ((string \<times> jsval) list \<times> nat) option" where
  \<comment> \<open>the fields a browser frame adds to its output and the bytes it adds to the rate; None when its contract is broken\<close>
  "browser_payload cd v = (let kind = fld v ''type'' in
     if kind = JStr ''stdin'' \<and> (case fld v ''data'' of JStr _ \<Rightarrow> True | _ \<Rightarrow> False) \<and> utf8_length (to_str (fld v ''data'')) \<le> 8192
     then Some ([(''data'', JStr (cd_encode cd (to_str (fld v ''data''))))], utf8_length (to_str (fld v ''data'')))
     else if kind = JStr ''resize'' \<and> between (fld v ''cols'') 2 500 \<and> between (fld v ''rows'') 2 200
     then Some ([(''columns'', fld v ''cols''), (''rows'', fld v ''rows'')], 0)
     else if kind = JStr ''ping'' \<or> kind = JStr ''detach'' then Some ([], 0)
     else None)"

definition opened :: "rate \<Rightarrow> int \<Rightarrow> rate" where
  \<comment> \<open>the rate window after one second starts again\<close>
  "opened r now = (if 1000 \<le> now - rt_started r then \<lparr>rt_started = now, rt_frames = 0, rt_bytes = 0\<rparr> else r)"

definition browserFrame :: "codec \<Rightarrow> int \<Rightarrow> jsval \<Rightarrow> rat \<Rightarrow> rate \<Rightarrow> (jsval + jsval) \<times> rate" where
  \<comment> \<open>the rate is mutated also when the frame is rejected\<close>
  "browserFrame cd now v previous r =
     (if \<not> fresh_sequence v ''sequence'' previous then (Inl (js_error ''non-monotonic browser frame'' []), r)
      else let r1 = opened r now; r2 = r1\<lparr>rt_frames := rt_frames r1 + 1\<rparr> in
        case browser_payload cd v of
          None \<Rightarrow> (Inl (js_error ''browser frame contract rejected'' []), r2)
        | Some (extra, n) \<Rightarrow>
            let r3 = r2\<lparr>rt_bytes := rt_bytes r2 + n\<rparr> in
            if 60 < rt_frames r3 \<or> 65536 < rt_bytes r3 then (Inl (js_error ''browser frame rate exceeded'' []), r3)
            else (Inr (JObj ([(''type'', fld v ''type''), (''seq'', fld v ''sequence'')] @ extra)), r3))"

definition short_text :: "jsval \<Rightarrow> nat \<Rightarrow> bool" where
  "short_text v n \<longleftrightarrow> (case v of JStr t \<Rightarrow> length t \<le> n | _ \<Rightarrow> False)"

definition runtime_payload :: "codec \<Rightarrow> jsval \<Rightarrow> jsval \<Rightarrow> jsval + (string \<times> jsval) list" where
  "runtime_payload cd v sessionId = (let kind = fld v ''type'' in
     if kind = JStr ''attached'' then Inr [(''sessionId'', sessionId)]
     else if (kind = JStr ''stdout'' \<or> kind = JStr ''stderr'') \<and> (case fld v ''data'' of JStr _ \<Rightarrow> True | _ \<Rightarrow> False)
     then let decoded = cd_decode cd (to_str (fld v ''data'')) in
       if 65536 < length decoded then Inl (js_error ''runtime output too large'' []) else Inr [(''data'', JStr (cd_text cd decoded))]
     else if kind = JStr ''exit'' \<and> (case fld v ''code'' of JNum n \<Rightarrow> num_is_integer n | _ \<Rightarrow> False) then Inr [(''code'', fld v ''code'')]
     else if kind = JStr ''pong'' then Inr []
     else if (kind = JStr ''error'' \<or> kind = JStr ''revoked'') \<and> short_text (fld v ''message'') 1024
     then Inr [(''code'', if short_text (fld v ''code'') 128 then fld v ''code'' else JStr ''RuntimeRejected''), (''message'', fld v ''message'')]
     else Inl (js_error ''runtime frame contract rejected'' []))"

definition runtimeFrame :: "codec \<Rightarrow> jsval \<Rightarrow> rat \<Rightarrow> jsval \<Rightarrow> jsval + jsval" where
  "runtimeFrame cd v previous sessionId =
     (if \<not> fresh_sequence v ''seq'' previous then Inl (js_error ''non-monotonic runtime frame'' [])
      else rbind (runtime_payload cd v sessionId) (\<lambda>extra. Inr (JObj ([(''type'', fld v ''type''), (''sequence'', fld v ''seq'')] @ extra))))"

section \<open>The listeners\<close>

record sent =
  st_window :: int
  st_input :: jsval
  st_frame :: jsval

record relay =
  browserSequence :: rat
  runtimeSequence :: rat
  lastActivityTouch :: int
  rl_rate :: rate
  toRuntime :: "sent list"
  toBrowser :: "jsval list"
  touches :: nat
  closed :: "(int \<times> string) list"

datatype message =
    FromBrowser int string bool nat
  | FromRuntime string bool nat
  | Touched bool

text \<open>A message carries the time, the payload, whether it is binary, and how much is buffered for the other side; \<open>Touched\<close> is the answer of the session authority
  to a touch, \<open>False\<close> when the session is gone or the call failed.\<close>

definition close_with :: "int \<Rightarrow> string \<Rightarrow> relay \<Rightarrow> relay" where
  "close_with code reason s = s\<lparr>closed := closed s @ [(code, reason)]\<rparr>"

definition backpressure :: "string \<Rightarrow> bool \<Rightarrow> nat \<Rightarrow> bool" where
  "backpressure payload isBinary buffered \<longleftrightarrow> isBinary \<or> 73728 < length payload \<or> 1048576 < buffered"

definition touch_due :: "relay \<Rightarrow> int \<Rightarrow> jsval \<Rightarrow> bool" where
  "touch_due s now out \<longleftrightarrow> (fld out ''type'' = JStr ''stdin'' \<or> fld out ''type'' = JStr ''resize'') \<and> 30000 \<le> now - lastActivityTouch s"

definition with_seq :: "jsval \<Rightarrow> rat \<Rightarrow> jsval" where
  \<comment> \<open>\<open>out.seq = r\<close>\<close>
  "with_seq out r = JObj (map (\<lambda>kv. if fst kv = ''seq'' then (''seq'', JNum (Fin r)) else kv) (obj_entries out))"

definition from_browser :: "codec \<Rightarrow> int \<Rightarrow> string \<Rightarrow> bool \<Rightarrow> nat \<Rightarrow> relay \<Rightarrow> relay" where
  "from_browser cd now payload isBinary buffered s =
     (if backpressure payload isBinary buffered then close_with 1013 ''Backpressure'' s
      else case cd_parse cd payload of
        None \<Rightarrow> close_with 1003 ''FrameContractInvalid'' s
      | Some v \<Rightarrow> (case browserFrame cd now v (browserSequence s) (rl_rate s) of
          (Inl e, r) \<Rightarrow> close_with 1003 ''FrameContractInvalid'' (s\<lparr>rl_rate := r\<rparr>)
        | (Inr out, r) \<Rightarrow>
            let s1 = s\<lparr>rl_rate := r, browserSequence := sequence_of out ''seq'',
                  toRuntime := toRuntime s @ [\<lparr>st_window = rt_started r, st_input = v, st_frame = with_seq out (sequence_of out ''seq'' + 1)\<rparr>]\<rparr>
            in if touch_due s1 now out then s1\<lparr>lastActivityTouch := now, touches := touches s1 + 1\<rparr> else s1))"

definition from_runtime :: "codec \<Rightarrow> jsval \<Rightarrow> string \<Rightarrow> bool \<Rightarrow> nat \<Rightarrow> relay \<Rightarrow> relay" where
  "from_runtime cd sessionId payload isBinary buffered s =
     (if backpressure payload isBinary buffered then close_with 1013 ''Backpressure'' s
      else case cd_parse cd payload of
        None \<Rightarrow> close_with 1003 ''FrameContractInvalid'' s
      | Some v \<Rightarrow> (case runtimeFrame cd v (runtimeSequence s) sessionId of
          Inl e \<Rightarrow> close_with 1003 ''FrameContractInvalid'' s
        | Inr out \<Rightarrow> s\<lparr>runtimeSequence := sequence_of out ''sequence'', toBrowser := toBrowser s @ [out]\<rparr>))"

fun receive :: "codec \<Rightarrow> jsval \<Rightarrow> message \<Rightarrow> relay \<Rightarrow> relay" where
  "receive cd sid (FromBrowser now payload isBinary buffered) s = from_browser cd now payload isBinary buffered s"
| "receive cd sid (FromRuntime payload isBinary buffered) s = from_runtime cd sid payload isBinary buffered s"
| "receive cd sid (Touched fresh) s = (if fresh then s else close_with 1008 ''SessionRevoked'' s)"

definition attached :: "int \<Rightarrow> relay" where
  \<comment> \<open>the variables when the runtime connection opens\<close>
  "attached now = \<lparr>browserSequence = 0, runtimeSequence = 0, lastActivityTouch = now, rl_rate = \<lparr>rt_started = now, rt_frames = 0, rt_bytes = 0\<rparr>,
     toRuntime = [], toBrowser = [], touches = 0, closed = []\<rparr>"

section \<open>What is relayed\<close>

definition in_window :: "int \<Rightarrow> sent list \<Rightarrow> sent list" where
  "in_window w xs = filter (\<lambda>x. st_window x = w) xs"

definition volume :: "sent list \<Rightarrow> nat" where
  "volume xs = sum_list (map (\<lambda>x. stdin_bytes (st_input x)) xs)"

definition ordered_seqs :: "string \<Rightarrow> jsval list \<Rightarrow> bool" where
  "ordered_seqs name fs \<longleftrightarrow> sorted_wrt (<) (map (\<lambda>f. sequence_of f name) fs)"

definition relay_inv :: "relay \<Rightarrow> bool" where
  "relay_inv s \<longleftrightarrow> (let r = rl_rate s; xs = toRuntime s in
     (\<forall>w. length (in_window w xs) \<le> 60 \<and> volume (in_window w xs) \<le> 65536)
     \<and> length (in_window (rt_started r) xs) \<le> rt_frames r \<and> volume (in_window (rt_started r) xs) \<le> rt_bytes r
     \<and> (\<forall>x \<in> set xs. st_window x \<le> rt_started r))"

definition seqs_inv :: "relay \<Rightarrow> bool" where
  "seqs_inv s \<longleftrightarrow> 0 \<le> browserSequence s \<and> is_int_rat (browserSequence s)
     \<and> ordered_seqs ''seq'' (map st_frame (toRuntime s)) \<and> (\<forall>x \<in> set (toRuntime s). 2 \<le> sequence_of (st_frame x) ''seq'' \<and> sequence_of (st_frame x) ''seq'' \<le> browserSequence s + 1)
     \<and> ordered_seqs ''sequence'' (toBrowser s) \<and> (\<forall>f \<in> set (toBrowser s). sequence_of f ''sequence'' \<le> runtimeSequence s)"

lemma browserFrame_Inr:
  assumes "browserFrame cd now v previous r = (Inr out, r')"
  shows "fresh_sequence v ''sequence'' previous"
    "rt_started r' = rt_started (opened r now)" "rt_frames r' = rt_frames (opened r now) + 1" "rt_bytes r' = rt_bytes (opened r now) + stdin_bytes v"
    "rt_frames r' \<le> 60" "rt_bytes r' \<le> 65536" "sequence_of out ''seq'' = sequence_of v ''sequence''"
    "sequence_of (with_seq out q) ''seq'' = q"
  using assms
  by (auto simp: browserFrame_def Let_def browser_payload_def stdin_bytes_def sequence_of_def fld_def with_seq_def obj_entries_def
      split: if_splits option.splits prod.splits)

lemma browserFrame_Inl:
  assumes "browserFrame cd now v previous r = (Inl e, r')"
  shows "r' = r \<or> rt_started r' = rt_started (opened r now) \<and> rt_frames (opened r now) \<le> rt_frames r' \<and> rt_bytes (opened r now) \<le> rt_bytes r'"
  using assms by (auto simp: browserFrame_def Let_def split: if_splits option.splits prod.splits)

lemma runtimeFrame_Inr:
  "runtimeFrame cd v previous sid = Inr out \<Longrightarrow> previous < sequence_of out ''sequence''"
  by (auto simp: runtimeFrame_def rbind_eq_Inr fresh_sequence_def sequence_of_def fld_def split: if_splits jsval.splits jnum.splits)

lemma fresh_sequence_next:
  "fresh_sequence v name p \<Longrightarrow> p < sequence_of v name \<and> is_int_rat (sequence_of v name)"
  by (auto simp: fresh_sequence_def sequence_of_def is_safe_integer_def split: jsval.splits jnum.splits)

lemma in_window_simps [simp]: "in_window w [] = []" "in_window w (xs @ [x]) = in_window w xs @ (if st_window x = w then [x] else [])"
  by (simp_all add: in_window_def)

lemma volume_simps [simp]: "volume [] = 0" "volume (xs @ [x]) = volume xs + stdin_bytes (st_input x)"
  by (simp_all add: volume_def)

lemma in_later_window: "(\<forall>x \<in> set xs. st_window x \<le> b) \<Longrightarrow> b < w \<Longrightarrow> in_window w xs = []"
  by (auto simp: in_window_def filter_empty_conv)

lemma relay_inv_opened: "relay_inv s \<Longrightarrow> relay_inv (s\<lparr>rl_rate := opened (rl_rate s) now\<rparr>)"
  by (fastforce simp: relay_inv_def opened_def Let_def in_later_window)

lemma relay_inv_rate:
  "relay_inv s \<Longrightarrow> rt_started r = rt_started (rl_rate s) \<Longrightarrow> rt_frames (rl_rate s) \<le> rt_frames r \<Longrightarrow> rt_bytes (rl_rate s) \<le> rt_bytes r \<Longrightarrow> relay_inv (s\<lparr>rl_rate := r\<rparr>)"
  by (auto simp: relay_inv_def Let_def)

lemma relay_inv_other [simp]:
  "relay_inv (close_with c t s) = relay_inv s" "seqs_inv (close_with c t s) = seqs_inv s"
  "relay_inv (s\<lparr>lastActivityTouch := n, touches := k\<rparr>) = relay_inv s" "seqs_inv (s\<lparr>lastActivityTouch := n, touches := k\<rparr>) = seqs_inv s"
  "relay_inv (s\<lparr>runtimeSequence := q, toBrowser := fs\<rparr>) = relay_inv s" "seqs_inv (s\<lparr>rl_rate := r\<rparr>) = seqs_inv s"
  "relay_inv (s\<lparr>rl_rate := r, browserSequence := q, toRuntime := xs\<rparr>) = relay_inv (s\<lparr>rl_rate := r, toRuntime := xs\<rparr>)"
  "seqs_inv (s\<lparr>rl_rate := r, browserSequence := q, toRuntime := xs\<rparr>) = seqs_inv (s\<lparr>browserSequence := q, toRuntime := xs\<rparr>)"
  by (simp_all add: relay_inv_def seqs_inv_def close_with_def)

lemma sent_keeps_rate:
  assumes "relay_inv s" "browserFrame cd now v previous (rl_rate s) = (Inr out, r)"
  shows "relay_inv (s\<lparr>rl_rate := r, toRuntime := toRuntime s @ [\<lparr>st_window = rt_started r, st_input = v, st_frame = f\<rparr>]\<rparr>)"
proof -
  have o: "relay_inv (s\<lparr>rl_rate := opened (rl_rate s) now\<rparr>)"
    by (rule relay_inv_opened [OF assms(1)])
  note b = browserFrame_Inr(2-6) [OF assms(2)]
  have now: "length (in_window (rt_started r) (toRuntime s)) + 1 \<le> rt_frames r" "volume (in_window (rt_started r) (toRuntime s)) + stdin_bytes v \<le> rt_bytes r"
    using o b by (simp_all add: relay_inv_def Let_def)
  then show ?thesis
    using o b by (auto simp: relay_inv_def Let_def)
qed

lemma rejected_keeps_rate:
  assumes "relay_inv s" "browserFrame cd now v previous (rl_rate s) = (Inl e, r)"
  shows "relay_inv (s\<lparr>rl_rate := r\<rparr>)"
  using browserFrame_Inl [OF assms(2)] relay_inv_rate [OF relay_inv_opened [OF assms(1)], of r now] assms(1) by auto

lemma sent_keeps_seqs:
  assumes "seqs_inv s" "browserFrame cd now v (browserSequence s) r0 = (Inr out, r)"
  shows "seqs_inv (s\<lparr>browserSequence := sequence_of out ''seq'',
     toRuntime := toRuntime s @ [\<lparr>st_window = w, st_input = v, st_frame = with_seq out (sequence_of out ''seq'' + 1)\<rparr>]\<rparr>)"
proof -
  let ?q = "sequence_of out ''seq''"
  have q: "browserSequence s < ?q" "is_int_rat ?q"
    using fresh_sequence_next [OF browserFrame_Inr(1) [OF assms(2)]] browserFrame_Inr(7) [OF assms(2)] by simp_all
  moreover have "2 \<le> ?q + 1"
  proof -
    have "0 < ?q" using q(1) assms(1) by (simp add: seqs_inv_def)
    then show ?thesis using q(2) by (auto simp: is_int_rat_def elim!: Ints_cases)
  qed
  ultimately show ?thesis
    using assms(1) by (force simp: seqs_inv_def ordered_seqs_def sorted_wrt_append browserFrame_Inr(8) [OF assms(2)])
qed

lemma answered_keeps_seqs:
  assumes "seqs_inv s" "runtimeFrame cd v (runtimeSequence s) sid = Inr out"
  shows "seqs_inv (s\<lparr>runtimeSequence := sequence_of out ''sequence'', toBrowser := toBrowser s @ [out]\<rparr>)"
proof -
  have "\<forall>f \<in> set (toBrowser s). sequence_of f ''sequence'' < sequence_of out ''sequence''"
    using assms(1) runtimeFrame_Inr [OF assms(2)] by (auto simp: seqs_inv_def)
  then show ?thesis
    using assms(1) by (auto simp: seqs_inv_def ordered_seqs_def sorted_wrt_append)
qed

lemma receive_keeps: "relay_inv s \<and> seqs_inv s \<Longrightarrow> relay_inv (receive cd sid m s) \<and> seqs_inv (receive cd sid m s)"
proof (cases m)
  case (FromBrowser now payload isBinary buffered)
  assume "relay_inv s \<and> seqs_inv s"
  then show ?thesis
    unfolding FromBrowser receive.simps from_browser_def Let_def
    by (auto split: option.split prod.split sum.split simp: sent_keeps_rate sent_keeps_seqs rejected_keeps_rate)
next
  case (FromRuntime payload isBinary buffered)
  assume "relay_inv s \<and> seqs_inv s"
  then show ?thesis
    unfolding FromRuntime receive.simps from_runtime_def
    by (auto split: option.split sum.split simp: answered_keeps_seqs)
qed auto

lemma attached_inv: "relay_inv (attached now) \<and> seqs_inv (attached now)"
  by (simp add: attached_def relay_inv_def seqs_inv_def ordered_seqs_def is_int_rat_def Let_def)

lemma relay_keeps: "relay_inv (fold (receive cd sid) ms (attached now)) \<and> seqs_inv (fold (receive cd sid) ms (attached now))"
  by (rule fold_invariant [where Q = "\<lambda>_. True"]) (simp_all only: attached_inv receive_keeps)

text \<open>C26: Whatever the browser and the runtime send, and however the clock moves, the gateway forwards to the runtime at most 60 frames and at most 64 KiB of input per rate window,
  with sequence numbers that strictly increase and start above the attach frame's number 1; and the frames it forwards to the browser have strictly increasing
  sequence numbers.\<close>

theorem relayed_frames_are_ordered_and_limited:
  "let s = fold (receive cd sid) ms (attached now) in
     (\<forall>w. length (in_window w (toRuntime s)) \<le> 60 \<and> volume (in_window w (toRuntime s)) \<le> 65536)
     \<and> ordered_seqs ''seq'' (map st_frame (toRuntime s)) \<and> list_all (\<lambda>x. 1 < sequence_of (st_frame x) ''seq'') (toRuntime s)
     \<and> ordered_seqs ''sequence'' (toBrowser s)"
  using relay_keeps [of cd sid ms now] unfolding relay_inv_def seqs_inv_def Let_def list_all_iff by fastforce

end
