(* ===== verification/Spec2Isabelle.thy ===== *)
theory Spec2Isabelle
  imports IncidentEngine OperationApi StoreProperties ModuleOperation NotificationApi DialogueCapability OperationService ReleaseExecutor
    ShellRuntime ShellRelay
begin

text \<open>
  Verification of the OpenSphere Console (\<open>src/\<close>, JavaScript services under \<open>src/apps/\<close>).

  \<^bold>\<open>The program.\<close> The Console is a set of Node services around a PostgreSQL authority. The assistant gateway (\<open>osaa-gateway\<close>) keeps an
  operational graph of the cluster, derives incidents from it and offers capabilities in a dialogue; \<open>osdst\<close> stores conversations and the
  dialogue state; the Console API (\<open>console-api\<close>) accepts, gates and executes operations (R2D2) and module operations; the
  notification dispatcher (\<open>notification-dispatcher\<close>) admits browser requests on the Console API's word and delivers notifications
  through Slack, Discord, SMTP and Twilio; a release of the platform itself is declared as a lock, reviewed as a change, dispatched by the
  release reconciler and carried out by the release executor; the OS Shell control plane (\<open>os-shell-control\<close>) runs commands for operators and keeps
  interactive sessions, each in a Pod of its own. The services meet in three places that the theories follow: an incident
  leads to an operation, an operation is planned in a dialogue and run by the durable worker, and every owner service asks the
  Console API for the current identity before it acts.

  \<^bold>\<open>How code is modelled.\<close> Values of the language are \<open>jsval\<close> (theory JsVal: numbers with NaN and infinities as \<open>jnum\<close>, texts as character lists
  of UTF-8 bytes, objects as property lists in enumeration order, \<open>undefined\<close> and \<open>null\<close> apart), with truthiness, \<open>String\<close>, \<open>Number\<close>, \<open>||\<close>,
  \<open>JSON.stringify\<close> and property access as functions. A function that may throw returns \<open>error + result\<close>; an asynchronous one is a
  program \<open>state \<Rightarrow> (thrown + result) \<times> state\<close> (theories Prelude and Effects). A call on an injected service goes to an arbitrary environment, a
  function of the whole history, and is appended to the log with its answer; a theorem for every environment covers failing,
  slow and inconsistent services. Hashes, \<open>Date.parse\<close>, \<open>new URL\<close>, \<open>net.isIP\<close> and \<open>JSON.parse\<close> are parameters. All definitions are
  executable; the witnesses evaluate them.

  \<^bold>\<open>The theories.\<close>
  \<^item> Prelude: results, programs, invariants of programs (\<open>pkeeps\<close>, the collection \<open>inv_intros\<close>), keyed tables (\<open>upsert\<close>).
  \<^item> JsVal, Effects: the language, service calls and the weakest-precondition calculus (\<open>wp\<close>, the collection \<open>wp_simps\<close>).
  \<^item> OperationalGraph (\<open>osaa-gateway/operational-graph.js\<close>): stable JSON and digests, sanitising, node identity, relations, projection versions,
    the reconcile barrier, the bounded coalescing queue. The locale \<open>bounded_fifo\<close> is the queue's contract and \<open>projection_order\<close> that of
    the version comparison; both are interpreted on the code. Shown: the queue refines a bounded FIFO and never evicts a
    high-priority entry for a lower one, the barrier opens exactly when every scope last succeeded, the newest projection wins in any
    arrival order, digests ignore property order, payloads are bounded and free of secrets, identities do not collide.
  \<^item> IncidentEngine (\<open>osaa-gateway/incident-engine.js\<close>): transitions, signals, impact traversal, evidence. Shown: transitions follow the
    table, resolution needs newer fresh authority, histories are monotone, the traversal is a breadth-first search within its bounds. The
    loop terminates by the lexicographic measure of the nodes still allowed and the queue length; no fuel is used.
  \<^item> DurableOperation (\<open>console-api/runtime/r2d2-durable-operation.js\<close>): the descriptor registry, planning, binding, authorization at execution,
    and the worker. Shown: at most one owner call, only when justified; persisted phases are a path of the phase machine; the worker returns
    only with a persisted terminal phase; authorization is granted exactly when every check passes.
  \<^item> OperationApi (\<open>r2d2-operation-api.js\<close>): plans, acceptance, approvals, routes, the PostgREST stores and the worker's store. Shown: what an inserted
    or queued operation rests on, that stored plans are revalidated, and that phases read back.
  \<^item> OperationService (\<open>console-api/src/operation-service.mjs\<close> with \<open>packages/authz\<close>, \<open>packages/operation-receipt\<close>, \<open>packages/domain\<close>): operation
    states, receipts, authorization, policies and the service. Shown: an operation reaches the store only on a registered policy and
    current authority, at most once per request.
  \<^item> ModuleOperation (\<open>module-operation-api.js\<close>): submission, owner calls, receipts, routes. Shown: one owner call, after the row is stored.
  \<^item> DialogueState (\<open>osdst/dialogue-state.js\<close>, \<open>dialogue-transition.js\<close>, \<open>dialogue-rollout.js\<close>): state material is closed and bounded, tool
    results keep the watched operation.
  \<^item> ConversationStore (\<open>osdst/conversation-store.js\<close>) with StoreLaws, StoreLive and StoreProperties: the tables, their transactions and every
    operation. The locale \<open>table_law\<close> is the contract of a predicate that every request keeps; it is interpreted for
    well-formedness and for the isolation of owners. Shown: one live turn per conversation, isolation, replay of answers, lost leases
    cannot complete, failed requests leave no trace, the context window is the longest history that fits.
  \<^item> DialogueCapability (\<open>osaa-gateway/dialogue-capability.js\<close>): the capability join never creates authority and never lowers risk.
  \<^item> NotificationContract, OwnerAdmission, NotificationDispatcher, NotificationApi (\<open>notification-dispatcher/contract.js\<close>,
    \<open>owner-admission.js\<close>, \<open>owner-policy.js\<close>, \<open>server.js\<close>, \<open>browser-api.js\<close>): channel input, admission, providers and the SMTP dialogue, the
    delivery worker, and the browser API composed with admission. Shown: tables are touched only on current authority, a delivery comes
    to rest within its attempts, and no event can break out of its mail.

  \<^item> CanonicalText: the canonical text of a value determines it up to the order of properties.
  \<^item> ReleaseContract (\<open>console-api/runtime/platform-release-contract.js\<close>, \<open>platform-release-agent-identity-cutover.js\<close>): release locks, the transition
    from an installed lock to a component lock, the generation of such a lock from evidence, the approval policy. Shown: an accepted lock pins every
    component of a closed profile by digest, a transition declares exactly what differs, a generated lock is an accepted transition that carries
    everything else over, and approval is waived exactly for applying a component lock.
  \<^item> ReleaseReconciler (\<open>platform-release-reconciler.js\<close>) and ReleaseExecutor (\<open>platform-release-executor.mjs\<close>), composed with the contract: a Job
    is created only for a claimed change whose manifest was read at its commit and matches the claim; every claimed change is dispatched or
    reported; the executor upgrades at most once, from the reviewed digest to the declared lock, and claims success only after
    observing it.

  \<^item> CommandSchema, ShellProviders, ShellMessages, ShellCommands (\<open>os-shell-control/command-schema.js\<close>, \<open>command-providers.js\<close>, \<open>commands.js\<close>,
    \<open>console-commands.js\<close>, \<open>command-ledger.js\<close>): the schema subset, the contracts of signed modules, the native commands and their execution. Shown: a
    command of a module comes from a contract whose digest a verified manifest names; a mutation is sent at most once, under its claim of the ledger, and
    its outcome is recorded; what is executed fits a schema whose depth and sizes are bounded.
  \<^item> ShellAdmission (\<open>authority/os-shell-contract.js\<close>, \<open>authority/os-shell-admission.js\<close>): what is issued for a request is verified for it.
  \<^item> ShellDatabase (\<open>authority/os-shell-database.js\<close>): the operations of the session authority, and \<open>run\<close>, the calculus for programs whose calls obey a
    rule. ShellSession (\<open>server.js\<close>, \<open>runtime-template.js\<close>, \<open>kubernetes.js\<close>): the reconciler. Shown: in every pass it deletes and creates only Pods of
    the sessions it holds and follows the state table. \<open>reconcile\<close> calls itself through fuel; two levels are proved to be enough.
  \<^item> ShellRuntime (\<open>server.js\<close>, \<open>authority/os-shell-context.js\<close>): registration, runtime routes and browser routes. Shown: a runtime is registered only for the
    Pod that holds the bootstrap token. ShellRelay (\<open>server.js\<close>): the frames of an attached connection. Shown: they are ordered and limited per second.

  \<^bold>\<open>Bounds.\<close> Limits of the code (queue limit, depth and node bounds, attempts, lengths) are arguments or the code's constants; nothing is
  truncated for the proofs. Recursions are structural or have a termination proof; the one with fuel is \<open>reconcile\<close> of ShellSession, whose recursion depends
  on the answers of the database.

  \<^bold>\<open>Simplifications.\<close> \<open>Promise.all\<close> of independent reads is the reads in order; a timer that runs beside a program is a choice of the environment at each
  step (the worker's heartbeat); a request is one transaction of the store and requests are interleaved as sequences; lengths of texts count
  bytes; a pass of the shell reconciler runs alone, although the timer may start one while another waits.

  \<^bold>\<open>Not modelled.\<close> HTTP servers and sockets, PostgREST access and JWT signing of the dispatcher, the cipher, SQL migrations (what the stores rely on
  is stated with their tables), \<open>osaa-gateway/server.js\<close> and \<open>console-api/runtime/server.js\<close> (glue around the modelled parts and many
  Kubernetes calls), the remaining services listed in the manifest, the Angular client, the Go programs and the scripts.

  Of the shell control plane: the HTTP handler, the opening of WebSocket connections, readiness probes, configuration, and the admission through the
  Console owner authority. Not reached, and open to the same treatment: the foundation bootstrap
  (\<open>console-api/runtime/foundation-bootstrap-contract.js\<close> and its reconciler), the store of the operation service
  (\<open>console-api/src/postgres-operation-store.mjs\<close>), the dialogue evidence (\<open>osaa-gateway/dialogue-evidence.js\<close>), the session broker
  (\<open>console-api/src/identity-session-broker.mjs\<close>) and the extension controller.
\<close>

end
